(* ===== verification/Prelude.thy ===== *)
theory Prelude
  imports Complex_Main "HOL-Library.AList" "HOL-Library.Char_ord" "HOL-Library.List_Lexorder"
    "HOL-Library.Product_Lexorder" "HOL-Library.Sublist"
begin

text \<open>
  Shared vocabulary of the development: the fragment of Python that the modelled sources use.

  \<^item> A Python \<^verbatim>\<open>dict\<close> keeps its keys in insertion order, so it is an association list; storing
    under a present key overwrites in place and a new key goes to the end, which is what
    \<^const>\<open>AList.update\<close> does.
  \<^item> \<^verbatim>\<open>str\<close> is \<^typ>\<open>string\<close> (ASCII text; the few arrows and dashes of the messages are
    transliterated), \<^verbatim>\<open>int\<close> is \<^typ>\<open>int\<close>, \<^verbatim>\<open>float\<close> is an exact \<^typ>\<open>rat\<close> (only
    Domain_Records rounds to the binary format), a \<^verbatim>\<open>datetime\<close> or \<^verbatim>\<open>time.time()\<close> reading is the number of
    seconds since the epoch.
  \<^item> Every reading of a clock and every \<^verbatim>\<open>uuid4()\<close> is an argument of the operation that makes it.
  \<^item> Code that may raise returns a sum, \<^const>\<open>Inl\<close> holding the exception.
\<close>

named_theorems wf_intros \<open>preservation of the components' well-formedness\<close>
named_theorems op_simps \<open>how an observer of a component's state changes under its operations\<close>

section \<open>Dictionaries\<close>

type_synonym ('k, 'v) dict = "('k \<times> 'v) list"

type_synonym time = rat

definition dict_get :: "('k, 'v) dict \<Rightarrow> 'k \<Rightarrow> 'v option" where
  "dict_get d k = map_of d k"

definition dict_get_or :: "('k, 'v) dict \<Rightarrow> 'k \<Rightarrow> 'v \<Rightarrow> 'v" where
  "dict_get_or d k v = (case dict_get d k of None \<Rightarrow> v | Some x \<Rightarrow> x)"

definition dict_has :: "('k, 'v) dict \<Rightarrow> 'k \<Rightarrow> bool" where
  "dict_has d k = (dict_get d k \<noteq> None)"

definition dict_set :: "'k \<Rightarrow> 'v \<Rightarrow> ('k, 'v) dict \<Rightarrow> ('k, 'v) dict" where
  "dict_set k v d = AList.update k v d"

definition dict_del :: "'k \<Rightarrow> ('k, 'v) dict \<Rightarrow> ('k, 'v) dict" where
  "dict_del k d = AList.delete k d"

definition dict_keys :: "('k, 'v) dict \<Rightarrow> 'k list" where
  "dict_keys d = map fst d"

definition dict_values :: "('k, 'v) dict \<Rightarrow> 'v list" where
  "dict_values d = map snd d"

definition dict_wf :: "('k, 'v) dict \<Rightarrow> bool" where
  "dict_wf d = distinct (map fst d)"

text \<open>The contract of a dictionary, stated once as a locale, and its clients' lemmas.\<close>

locale finite_map =
  fixes lookup :: "'m \<Rightarrow> 'k \<Rightarrow> 'v option"
    and insert_at :: "'k \<Rightarrow> 'v \<Rightarrow> 'm \<Rightarrow> 'm"
    and remove :: "'k \<Rightarrow> 'm \<Rightarrow> 'm"
    and invar :: "'m \<Rightarrow> bool"
  assumes lookup_insert: "lookup (insert_at k v m) k' = (if k' = k then Some v else lookup m k')"
    and lookup_remove: "lookup (remove k m) k' = (if k' = k then None else lookup m k')"
    and invar_insert: "invar m \<Longrightarrow> invar (insert_at k v m)"
    and invar_remove: "invar m \<Longrightarrow> invar (remove k m)"
begin

lemma lookup_insert_same: "lookup (insert_at k v m) k = Some v"
  by (simp add: lookup_insert)

lemma lookup_insert_other: "k' \<noteq> k \<Longrightarrow> lookup (insert_at k v m) k' = lookup m k'"
  by (simp add: lookup_insert)

lemma lookup_remove_same: "lookup (remove k m) k = None"
  by (simp add: lookup_remove)

lemma insert_all_lookup:
  "lookup (fold (\<lambda>(k, v). insert_at k v) kvs m) k = (case map_of (rev kvs) k of None \<Rightarrow> lookup m k | Some v \<Rightarrow> Some v)"
  by (induction kvs arbitrary: m) (auto simp: lookup_insert map_add_def split: option.splits)

lemma insert_all_invar: "invar m \<Longrightarrow> invar (fold (\<lambda>(k, v). insert_at k v) kvs m)"
  by (induction kvs arbitrary: m) (auto intro: invar_insert)

end

interpretation pydict: finite_map dict_get dict_set dict_del dict_wf
proof unfold_locales
  fix m :: "('a, 'b) dict" and k k' :: 'a and v :: 'b
  show "dict_get (dict_set k v m) k' = (if k' = k then Some v else dict_get m k')"
    by (simp add: dict_get_def dict_set_def update_conv)
  show "dict_get (dict_del k m) k' = (if k' = k then None else dict_get m k')"
    by (simp add: dict_get_def dict_del_def delete_conv)
  show "dict_wf m \<Longrightarrow> dict_wf (dict_set k v m)"
    by (simp add: dict_wf_def dict_set_def distinct_update)
  show "dict_wf m \<Longrightarrow> dict_wf (dict_del k m)"
    by (simp add: dict_wf_def dict_del_def distinct_delete)
qed

lemmas dict_simps = pydict.lookup_insert pydict.lookup_remove
declare dict_simps [op_simps, simp]
declare pydict.invar_insert [wf_intros, intro] pydict.invar_remove [wf_intros, intro]

lemma dict_get_empty [simp]: "dict_get [] k = None"
  by (simp add: dict_get_def)

lemma dict_wf_empty [simp, wf_intros]: "dict_wf []"
  by (simp add: dict_wf_def)

lemma dict_has_set [simp]: "dict_has (dict_set k v d) k' \<longleftrightarrow> k' = k \<or> dict_has d k'"
  by (simp add: dict_has_def)

lemma dict_has_del [simp]: "dict_has (dict_del k d) k' \<longleftrightarrow> k' \<noteq> k \<and> dict_has d k'"
  by (simp add: dict_has_def)

lemma dict_get_SomeD: "dict_get d k = Some v \<Longrightarrow> (k, v) \<in> set d"
  by (simp add: dict_get_def map_of_SomeD)

lemma dict_wf_get: "dict_wf d \<Longrightarrow> (k, v) \<in> set d \<Longrightarrow> dict_get d k = Some v"
  by (simp add: dict_get_def dict_wf_def)

lemma dict_has_keys: "dict_has d k \<longleftrightarrow> k \<in> set (dict_keys d)"
  by (simp add: dict_has_def dict_get_def dict_keys_def map_of_eq_None_iff)

lemma dict_keys_set: "set (dict_keys (dict_set k v d)) = insert k (set (dict_keys d))"
  by (simp add: dict_keys_def dict_set_def dom_map_of_conv_image_fst [symmetric] dom_update
      image_image [symmetric] flip: set_map) (simp add: AList.dom_update)

lemma dict_set_in: "(k', v') \<in> set (dict_set k v d) \<Longrightarrow> (k', v') = (k, v) \<or> (k', v') \<in> set d"
  unfolding dict_set_def by (induction d) (auto split: if_splits)

lemma dict_del_in: "(k', v') \<in> set (dict_del k d) \<longleftrightarrow> k' \<noteq> k \<and> (k', v') \<in> set d"
  by (auto simp: dict_del_def AList.delete_eq)

lemma dict_set_absent: "\<not> dict_has d k \<Longrightarrow> dict_set k v d = d @ [(k, v)]"
  unfolding dict_set_def dict_has_def dict_get_def
  by (induction d) (auto split: if_splits)

section \<open>Keyed registries\<close>

text \<open>
  The contract the registries of the system share: a successful registration stores the entity
  under its own key and changes nothing else, and an entity found under a key has that key.
  Clients register many entities in turn and look them up afterwards.
\<close>

locale keyed_registry =
  fixes register :: "'v \<Rightarrow> 'r \<Rightarrow> 'e + 'r"
    and lookup :: "'r \<Rightarrow> 'k \<Rightarrow> 'v option"
    and key :: "'v \<Rightarrow> 'k"
    and invar :: "'r \<Rightarrow> bool"
  assumes register_lookup:
      "register v r = Inr r' \<Longrightarrow> lookup r' k = (if k = key v then Some v else lookup r k)"
    and register_invar: "invar r \<Longrightarrow> register v r = Inr r' \<Longrightarrow> invar r'"
    and lookup_key: "invar r \<Longrightarrow> lookup r k = Some v \<Longrightarrow> key v = k"
begin

fun register_all :: "'v list \<Rightarrow> 'r \<Rightarrow> 'e + 'r" where
  "register_all [] r = Inr r"
| "register_all (v # vs) r = (case register v r of Inl e \<Rightarrow> Inl e | Inr r' \<Rightarrow> register_all vs r')"

lemma register_all_invar: "invar r \<Longrightarrow> register_all vs r = Inr r' \<Longrightarrow> invar r'"
  by (induction vs arbitrary: r) (auto split: sum.splits intro: register_invar)

lemma register_all_lookup:
  "register_all vs r = Inr r' \<Longrightarrow>
     lookup r' k = (case find (\<lambda>v. key v = k) (rev vs) of None \<Rightarrow> lookup r k | Some v \<Rightarrow> Some v)"
proof (induction vs arbitrary: r)
  case (Cons v vs)
  then obtain r1 where r1: "register v r = Inr r1" "register_all vs r1 = Inr r'"
    by (auto split: sum.splits)
  have "find P (xs @ [x]) = (case find P xs of None \<Rightarrow> if P x then Some x else None | Some y \<Rightarrow> Some y)"
    for P and xs :: "'v list" and x by (induction xs) auto
  then show ?case
    using Cons.IH [OF r1(2)] register_lookup [OF r1(1)] by (auto split: option.splits)
qed simp

lemma registered_found: "register v r = Inr r' \<Longrightarrow> lookup r' (key v) = Some v"
  by (simp add: register_lookup)

end

section \<open>Strings\<close>

text \<open>\<^verbatim>\<open>s.lower()\<close> and \<^verbatim>\<open>s.upper()\<close> on ASCII text, \<^verbatim>\<open>needle in hay\<close>, \<^verbatim>\<open>sep.join(xs)\<close>.\<close>

definition chr_lower :: "char \<Rightarrow> char" where
  "chr_lower c = (if 65 \<le> (of_char c :: nat) \<and> (of_char c :: nat) \<le> 90 then char_of ((of_char c :: nat) + 32) else c)"

definition str_lower :: "string \<Rightarrow> string" where
  "str_lower s = map chr_lower s"

fun str_in :: "string \<Rightarrow> string \<Rightarrow> bool" where
  "str_in needle [] = (needle = [])"
| "str_in needle (c # cs) = (prefix needle (c # cs) \<or> str_in needle cs)"

fun str_join :: "string \<Rightarrow> string list \<Rightarrow> string" where
  "str_join sep [] = []"
| "str_join sep [x] = x"
| "str_join sep (x # y # zs) = x @ sep @ str_join sep (y # zs)"

lemma str_in_sublist: "str_in needle hay \<longleftrightarrow> sublist needle hay"
proof (induction hay)
  case (Cons c cs)
  then show ?case by (auto simp: sublist_Cons_right)
qed simp

lemma str_in_appendI: "str_in n (a @ n @ b)"
  by (auto simp: str_in_sublist sublist_def)

lemma str_in_prefixI [intro]: "str_in n a \<Longrightarrow> str_in n (a @ b)"
  by (metis append.assoc str_in_sublist sublist_def)

lemma str_in_suffixI [intro]: "str_in n b \<Longrightarrow> str_in n (a @ b)"
  by (metis append.assoc str_in_sublist sublist_def)

lemma str_lower_append [simp]: "str_lower (a @ b) = str_lower a @ str_lower b"
  by (simp add: str_lower_def)

text \<open>Decimal text of integers, as \<^verbatim>\<open>str(n)\<close> prints it, and the zero-padded format \<^verbatim>\<open>{n:04d}\<close>.\<close>

definition digit_char :: "nat \<Rightarrow> char" where
  "digit_char d = char_of (48 + d)"

fun nat_str :: "nat \<Rightarrow> string" where
  "nat_str n = (if n < 10 then [digit_char n] else nat_str (n div 10) @ [digit_char (n mod 10)])"

declare nat_str.simps [simp del]

definition int_str :: "int \<Rightarrow> string" where
  "int_str i = (if i < 0 then CHR ''-'' # nat_str (nat (- i)) else nat_str (nat i))"

definition zpad :: "nat \<Rightarrow> nat \<Rightarrow> string" where
  "zpad w n = (let s = nat_str n in replicate (w - length s) (CHR ''0'') @ s)"

lemma digit_char_inj: "a < 10 \<Longrightarrow> b < 10 \<Longrightarrow> digit_char a = digit_char b \<longleftrightarrow> a = b"
  by (auto simp: digit_char_def char_of_eq_iff take_bit_eq_mod)

lemma nat_str_nonempty [simp]: "nat_str n \<noteq> []" "[] \<noteq> nat_str n"
  by (subst nat_str.simps, simp)+

lemma nat_str_inj: "nat_str m = nat_str n \<longleftrightarrow> m = n"
proof (induction m arbitrary: n rule: nat_str.induct)
  case (1 m)
  show ?case
  proof (cases "m < 10")
    case True
    then show ?thesis
      by (auto simp: nat_str.simps [of m] nat_str.simps [of n] digit_char_inj)
  next
    case False
    note IH = "1.IH" [OF False]
    show ?thesis
    proof (cases "n < 10")
      case True
      with False show ?thesis by (auto simp: nat_str.simps [of m] nat_str.simps [of n])
    next
      case nF: False
      have "nat_str m = nat_str n \<longleftrightarrow> m div 10 = n div 10 \<and> m mod 10 = n mod 10"
        using False nF by (simp add: nat_str.simps [of m] nat_str.simps [of n] IH digit_char_inj)
      then show ?thesis by (metis div_mult_mod_eq)
    qed
  qed
qed

text \<open>
  \<^verbatim>\<open>repr\<close> of a string: single quotes unless the text has a single and no double quote; the quote,
  the backslash and the control characters are escaped.
\<close>

definition hex_char :: "nat \<Rightarrow> char" where
  "hex_char d = (if d < 10 then char_of (48 + d) else char_of (87 + d))"

definition repr_char :: "char \<Rightarrow> char \<Rightarrow> string" where
  "repr_char q c =
     (let n = (of_char c :: nat) in
      if c = q \<or> c = CHR 0x5C then [CHR 0x5C, c]
      else if n = 9 then [CHR 0x5C, CHR ''t'']
      else if n = 10 then [CHR 0x5C, CHR ''n'']
      else if n = 13 then [CHR 0x5C, CHR ''r'']
      else if n < 32 \<or> 127 \<le> n then [CHR 0x5C, CHR ''x'', hex_char (n div 16), hex_char (n mod 16)]
      else [c])"

definition str_repr :: "string \<Rightarrow> string" where
  "str_repr s =
     (let q = (if CHR 0x27 \<in> set s \<and> CHR 0x22 \<notin> set s then CHR 0x22 else CHR 0x27)
      in q # concat (map (repr_char q) s) @ [q])"

definition list_repr :: "string list \<Rightarrow> string" where
  "list_repr xs = ''['' @ str_join '', '' (map str_repr xs) @ '']''"

text \<open>\<^verbatim>\<open>round(x)\<close> (half to even), \<^verbatim>\<open>round(x, 2)\<close> and the format \<^verbatim>\<open>{x:.1f}\<close>.\<close>

definition round_half_even :: "rat \<Rightarrow> int" where
  "round_half_even x =
     (let f = \<lfloor>x\<rfloor>; r = x - of_int f
      in if r < 1 / 2 then f else if 1 / 2 < r then f + 1 else if even f then f else f + 1)"

definition round2 :: "rat \<Rightarrow> rat" where
  "round2 x = of_int (round_half_even (x * 100)) / 100"

definition fmt_1f :: "rat \<Rightarrow> string" where
  "fmt_1f x =
     (let n = round_half_even (x * 10); m = nat \<bar>n\<bar>
      in (if x < 0 then ''-'' else []) @ nat_str (m div 10) @ ''.'' @ [digit_char (m mod 10)])"

lemma round_half_even_bounds:
  "of_int (round_half_even x) \<le> x + 1 / 2" "x - 1 / 2 \<le> of_int (round_half_even x)"
  by (auto simp: round_half_even_def Let_def) linarith+

text \<open>
  \<^verbatim>\<open>datetime.isoformat()\<close> of a UTC instant: the proleptic Gregorian date of the day number, the time
  of day, the microseconds when they are not zero, and the offset.
\<close>

definition civil_date :: "int \<Rightarrow> int \<times> int \<times> int" where
  "civil_date days =
     (let z = days + 719468; era = z div 146097; doe = z mod 146097;
          yoe = (doe - doe div 1460 + doe div 36524 - doe div 146096) div 365;
          doy = doe - (365 * yoe + yoe div 4 - yoe div 100);
          mp = (5 * doy + 2) div 153;
          d = doy - (153 * mp + 2) div 5 + 1;
          m = (if mp < 10 then mp + 3 else mp - 9)
      in (yoe + era * 400 + (if m \<le> 2 then 1 else 0), m, d))"

definition isoformat :: "time \<Rightarrow> string" where
  "isoformat t =
     (let us = \<lfloor>t * 1000000\<rfloor>; secs = us div 1000000; frac = us mod 1000000;
          s = secs mod 86400; (y, m, d) = civil_date (secs div 86400); pad = (\<lambda>w i. zpad w (nat i))
      in pad 4 y @ ''-'' @ pad 2 m @ ''-'' @ pad 2 d @ ''T'' @
         pad 2 (s div 3600) @ '':'' @ pad 2 (s mod 3600 div 60) @ '':'' @ pad 2 (s mod 60) @
         (if frac = 0 then [] else ''.'' @ pad 6 frac) @ ''+00:00'')"

section \<open>Values of type Any\<close>

text \<open>What the code stores in its \<^verbatim>\<open>dict[str, Any]\<close> fields.\<close>

datatype pyval =
    PyNone
  | PyBool bool
  | PyInt int
  | PyFloat rat
  | PyStr string
  | PyList "pyval list"
  | PyDict "(string \<times> pyval) list"

type_synonym pyobj = "(string, pyval) dict"

text \<open>\<^verbatim>\<open>repr(x)\<close> and \<^verbatim>\<open>str(x)\<close>; the text of a float is an argument.\<close>

primrec py_repr :: "(rat \<Rightarrow> string) \<Rightarrow> pyval \<Rightarrow> string" where
  "py_repr fr PyNone = ''None''"
| "py_repr fr (PyBool b) = (if b then ''True'' else ''False'')"
| "py_repr fr (PyInt i) = int_str i"
| "py_repr fr (PyFloat q) = fr q"
| "py_repr fr (PyStr s) = str_repr s"
| "py_repr fr (PyList xs) = ''['' @ str_join '', '' (map (py_repr fr) xs) @ '']''"
| "py_repr fr (PyDict kvs) =
     ''{'' @ str_join '', '' (map (\<lambda>(k, r). str_repr k @ '': '' @ r) (map (map_prod id (py_repr fr)) kvs)) @ ''}''"

definition py_str :: "(rat \<Rightarrow> string) \<Rightarrow> pyval \<Rightarrow> string" where
  "py_str fr v = (case v of PyStr s \<Rightarrow> s | _ \<Rightarrow> py_repr fr v)"

definition py_opt_str :: "string option \<Rightarrow> pyval" where
  "py_opt_str x = (case x of None \<Rightarrow> PyNone | Some s \<Rightarrow> PyStr s)"

text \<open>\<^verbatim>\<open>x or default\<close> on an optional string: \<^verbatim>\<open>None\<close> and the empty string are false.\<close>

definition or_str :: "string option \<Rightarrow> string \<Rightarrow> string" where
  "or_str x d = (case x of None \<Rightarrow> d | Some s \<Rightarrow> if s = [] then d else s)"

lemma or_str_nonempty: "d \<noteq> [] \<Longrightarrow> or_str x d \<noteq> []"
  by (auto simp: or_str_def split: option.splits)

end
