(* ===== verification/Errors.thy ===== *)
theory Errors
  imports Prelude
begin

text \<open>
  The exceptions the modelled code raises, one constructor per class, with the arguments its
  constructor stores, and \<open>exc_str\<close>, the text that \<^verbatim>\<open>str(e)\<close> yields. \<open>OtherError\<close> stands for any
  exception of code outside the repository (an MCP client, a storage driver). A HOL character is a
  byte, so the dash and the arrow of three messages are written \<^verbatim>\<open>--\<close> and \<^verbatim>\<open>->\<close>.

  Sources: \<^verbatim>\<open>kernel/exceptions.py\<close>, \<^verbatim>\<open>kernel/isolation.py\<close>, \<^verbatim>\<open>kernel/lifecycle.py\<close>, \<^verbatim>\<open>kernel/gateway.py\<close>,
  \<^verbatim>\<open>kernel/resources/\<close>, \<^verbatim>\<open>kernel/execution/exceptions.py\<close>, \<^verbatim>\<open>control_plane/errors.py\<close>.
\<close>

text \<open>Text between single quotes, as the messages' \<^verbatim>\<open>'{x}'\<close> writes it.\<close>

definition sq :: "string \<Rightarrow> string" where
  "sq s = CHR 0x27 # s @ [CHR 0x27]"

datatype exn =
    \<comment> \<open>kernel/exceptions.py\<close>
    PolicyRejectionError string "string option"
  | CapabilityNotFoundError string string
  | CapabilityDeniedError string string
  | OrchestrationError string
  | GatewayAccessError string string
  | CheckpointPersistenceError string string
  | RuntimeDrainingError
  | RuntimeStoppedError
  | InvalidStateTransitionError string string "string list"
    \<comment> \<open>kernel/isolation.py\<close>
  | TenantNotFoundError string
  | AgentNotInTenantError string string string
  | CrossTenantAccessError string string string
  | CrossAgentAccessError string string string
  | MissingTenantContextError
  | ResourceLimitExceededError string string int int
    \<comment> \<open>kernel/resources\<close>
  | ToolNotFoundError string
  | ToolAlreadyRegisteredError string
  | ToolCapabilityMismatchError string "string set" "string set"
  | BudgetExhaustedError int int int int
    \<comment> \<open>kernel/lifecycle.py\<close>
  | LoopBudgetExhaustedError int int
  | LoopTimeoutError rat int
    \<comment> \<open>kernel/execution/exceptions.py\<close>
  | InvalidStepRequestError "string list"
  | BudgetExceededError int int
    \<comment> \<open>control_plane\<close>
  | InvalidTransitionError string string
  | AgentInstanceNotFoundError string
    \<comment> \<open>built-in classes and foreign code\<close>
  | ValueError string
  | PyRuntimeError string
  | KeyError string
  | OtherError string

primrec exc_str :: "exn \<Rightarrow> string" where
  "exc_str (PolicyRejectionError reason _) = ''Policy rejected: '' @ reason"
| "exc_str (CapabilityNotFoundError action agent_id) =
     ''No capability for action '' @ sq action @ '' on agent '' @ sq agent_id"
| "exc_str (CapabilityDeniedError nm reason) = ''Capability '' @ sq nm @ '' denied: '' @ reason"
| "exc_str (OrchestrationError reason) = ''Orchestration failed: '' @ reason"
| "exc_str (GatewayAccessError tool reason) = ''Gateway access failed for tool '' @ sq tool @ '': '' @ reason"
| "exc_str (CheckpointPersistenceError operation reason) =
     ''Checkpoint '' @ operation @ '' failed: '' @ reason"
| "exc_str RuntimeDrainingError = ''Runtime is draining -- no new executions accepted''"
| "exc_str RuntimeStoppedError = ''Runtime is stopped''"
| "exc_str (InvalidStateTransitionError current target valid) =
     ''Invalid transition: '' @ current @ '' -> '' @ target @ ''. Valid: '' @ list_repr valid"
| "exc_str (TenantNotFoundError tenant_id) = ''Tenant not found: '' @ tenant_id"
| "exc_str (AgentNotInTenantError agent_id expected actual) =
     ''Agent '' @ sq agent_id @ '' not in tenant '' @ sq expected @ '' (registered with '' @ sq actual @ '')''"
| "exc_str (CrossTenantAccessError requesting target resource) =
     ''Cross-tenant access denied: tenant '' @ sq requesting @ '' cannot access '' @ sq resource @ '' in tenant '' @ sq target"
| "exc_str (CrossAgentAccessError requesting target resource) =
     ''Cross-agent access denied: agent '' @ sq requesting @ '' cannot access '' @ sq resource @ '' owned by agent '' @ sq target"
| "exc_str MissingTenantContextError = ''No tenant context -- execution denied''"
| "exc_str (ResourceLimitExceededError tenant_id limit_type current max_val) =
     ''Resource limit exceeded for tenant '' @ sq tenant_id @ '': '' @ limit_type @ '' = '' @
     int_str current @ '' > '' @ int_str max_val"
| "exc_str (ToolNotFoundError tool_id) = ''Tool not found: '' @ tool_id"
| "exc_str (ToolAlreadyRegisteredError tool_id) = ''Tool already registered: '' @ tool_id"
| "exc_str (ToolCapabilityMismatchError tool_id required provided) =
     ''Tool '' @ sq tool_id @ '' requires capabilities '' @ list_repr (sorted_list_of_set required) @
     '', agent has '' @ list_repr (sorted_list_of_set provided)"
| "exc_str (BudgetExhaustedError steps tokens max_steps max_tokens) =
     ''Budget exhausted: steps='' @ int_str steps @ ''/'' @ int_str max_steps @
     '', tokens='' @ int_str tokens @ ''/'' @ int_str max_tokens"
| "exc_str (LoopBudgetExhaustedError steps tokens) =
     ''Loop budget exhausted: steps='' @ int_str steps @ '', tokens='' @ int_str tokens"
| "exc_str (LoopTimeoutError elapsed timeout) =
     ''Loop timeout: '' @ fmt_1f elapsed @ ''s > '' @ int_str timeout @ ''s''"
| "exc_str (InvalidStepRequestError errors) = ''Invalid step request: '' @ str_join ''; '' errors"
| "exc_str (BudgetExceededError limit consumed) =
     ''Budget exceeded: '' @ int_str consumed @ '' > '' @ int_str limit"
| "exc_str (InvalidTransitionError from_state to_state) =
     ''Invalid transition: '' @ from_state @ '' -> '' @ to_state"
| "exc_str (AgentInstanceNotFoundError instance_id) = ''Agent instance not found: '' @ instance_id"
| "exc_str (ValueError msg) = msg"
| "exc_str (PyRuntimeError msg) = msg"
| "exc_str (KeyError msg) = str_repr msg"
| "exc_str (OtherError msg) = msg"

end
