(* ===== verification/Kernel_State.thy ===== *)
theory Kernel_State
  imports Errors
begin

text \<open>
  \<^verbatim>\<open>kernel/state.py\<close>: the lifecycle of the runtime and of one execution, the transition table and
  its two queries, and the two transition methods of \<^verbatim>\<open>KitematicRuntime\<close> that enforce it. The table
  is also read as a step relation, whose runs are bounded and end in a terminal state.
\<close>

section \<open>States\<close>

datatype RuntimeState = RS_RUNNING | RS_DRAINING | RS_STOPPED

datatype ExecutionState =
    ES_CREATED | ES_VALIDATING | ES_AUTHORIZED | ES_EXECUTING
  | ES_CHECKPOINTING | ES_COMPLETED | ES_FAILED | ES_HALTED

primrec ExecutionState_value :: "ExecutionState \<Rightarrow> string" where
  "ExecutionState_value ES_CREATED = ''CREATED''"
| "ExecutionState_value ES_VALIDATING = ''VALIDATING''"
| "ExecutionState_value ES_AUTHORIZED = ''AUTHORIZED''"
| "ExecutionState_value ES_EXECUTING = ''EXECUTING''"
| "ExecutionState_value ES_CHECKPOINTING = ''CHECKPOINTING''"
| "ExecutionState_value ES_COMPLETED = ''COMPLETED''"
| "ExecutionState_value ES_FAILED = ''FAILED''"
| "ExecutionState_value ES_HALTED = ''HALTED''"

definition VALID_TRANSITIONS :: "(ExecutionState, ExecutionState list) dict" where
  "VALID_TRANSITIONS =
     [(ES_CREATED, [ES_VALIDATING]),
      (ES_VALIDATING, [ES_AUTHORIZED, ES_FAILED, ES_HALTED]),
      (ES_AUTHORIZED, [ES_EXECUTING, ES_FAILED, ES_HALTED]),
      (ES_EXECUTING, [ES_CHECKPOINTING, ES_FAILED, ES_HALTED]),
      (ES_CHECKPOINTING, [ES_COMPLETED, ES_HALTED]),
      (ES_COMPLETED, []),
      (ES_FAILED, []),
      (ES_HALTED, [])]"

definition get_valid_transitions :: "ExecutionState \<Rightarrow> ExecutionState list" where
  "get_valid_transitions current = dict_get_or VALID_TRANSITIONS current []"

definition is_valid_transition :: "ExecutionState \<Rightarrow> ExecutionState \<Rightarrow> bool" where
  "is_valid_transition current target =
     (target \<in> set (dict_get_or VALID_TRANSITIONS current []))"

text \<open>\<^verbatim>\<open>KitematicRuntime._transition\<close> raises on an invalid step, \<^verbatim>\<open>_transition_safe\<close> falls back.\<close>

definition transition :: "ExecutionState \<Rightarrow> ExecutionState \<Rightarrow> exn + ExecutionState" where
  "transition current target =
     (if \<not> is_valid_transition current target
      then Inl (InvalidStateTransitionError (ExecutionState_value current)
             (ExecutionState_value target)
             (map ExecutionState_value (get_valid_transitions current)))
      else Inr target)"

definition transition_safe :: "ExecutionState \<Rightarrow> ExecutionState \<Rightarrow> ExecutionState" where
  "transition_safe current target =
     (if is_valid_transition current target then target
      else if current \<noteq> ES_HALTED \<and> is_valid_transition current ES_HALTED then ES_HALTED
      else current)"

section \<open>The order of the runtime's own states\<close>

text \<open>\<^verbatim>\<open>RUNNING\<close>, then \<^verbatim>\<open>DRAINING\<close>, then \<^verbatim>\<open>STOPPED\<close>: the order in which the runtime passes through them.\<close>

primrec RuntimeState_rank :: "RuntimeState \<Rightarrow> nat" where
  "RuntimeState_rank RS_RUNNING = 0"
| "RuntimeState_rank RS_DRAINING = 1"
| "RuntimeState_rank RS_STOPPED = 2"

instantiation RuntimeState :: linorder
begin

definition less_eq_RuntimeState :: "RuntimeState \<Rightarrow> RuntimeState \<Rightarrow> bool" where
  "less_eq_RuntimeState a b = (RuntimeState_rank a \<le> RuntimeState_rank b)"

definition less_RuntimeState :: "RuntimeState \<Rightarrow> RuntimeState \<Rightarrow> bool" where
  "less_RuntimeState a b = (RuntimeState_rank a < RuntimeState_rank b)"

instance
proof
  fix x y :: RuntimeState
  show "x \<le> y \<Longrightarrow> y \<le> x \<Longrightarrow> x = y"
    by (cases x; cases y) (auto simp: less_eq_RuntimeState_def)
qed (auto simp: less_eq_RuntimeState_def less_RuntimeState_def)

end

section \<open>The table as a step relation\<close>

inductive exec_step :: "ExecutionState \<Rightarrow> ExecutionState \<Rightarrow> bool" where
  start: "exec_step ES_CREATED ES_VALIDATING"
| authorize: "exec_step ES_VALIDATING ES_AUTHORIZED"
| execute: "exec_step ES_AUTHORIZED ES_EXECUTING"
| checkpoint: "exec_step ES_EXECUTING ES_CHECKPOINTING"
| complete: "exec_step ES_CHECKPOINTING ES_COMPLETED"
| fail: "s \<in> {ES_VALIDATING, ES_AUTHORIZED, ES_EXECUTING} \<Longrightarrow> exec_step s ES_FAILED"
| halt: "s \<in> {ES_VALIDATING, ES_AUTHORIZED, ES_EXECUTING, ES_CHECKPOINTING} \<Longrightarrow> exec_step s ES_HALTED"

inductive_cases exec_step_fromE: "exec_step s t"

inductive exec_reaches :: "ExecutionState \<Rightarrow> nat \<Rightarrow> ExecutionState \<Rightarrow> bool" where
  here: "exec_reaches s 0 s"
| there: "exec_reaches s n t \<Longrightarrow> exec_step t u \<Longrightarrow> exec_reaches s (Suc n) u"

definition is_terminal :: "ExecutionState \<Rightarrow> bool" where
  "is_terminal s = (get_valid_transitions s = [])"

primrec exec_rank :: "ExecutionState \<Rightarrow> nat" where
  "exec_rank ES_CREATED = 5"
| "exec_rank ES_VALIDATING = 4"
| "exec_rank ES_AUTHORIZED = 3"
| "exec_rank ES_EXECUTING = 2"
| "exec_rank ES_CHECKPOINTING = 1"
| "exec_rank ES_COMPLETED = 0"
| "exec_rank ES_FAILED = 0"
| "exec_rank ES_HALTED = 0"

lemmas transition_table = is_valid_transition_def get_valid_transitions_def dict_get_or_def
  dict_get_def VALID_TRANSITIONS_def

lemma is_valid_transition_step: "is_valid_transition s t \<longleftrightarrow> exec_step s t"
proof
  assume "is_valid_transition s t"
  then show "exec_step s t"
    by (cases s) (auto simp: transition_table intro: exec_step.intros)
next
  assume "exec_step s t"
  then show "is_valid_transition s t"
    by cases (auto simp: transition_table)
qed

lemma is_valid_transition_simps [simp]:
  "is_valid_transition ES_CREATED t \<longleftrightarrow> t = ES_VALIDATING"
  "is_valid_transition ES_VALIDATING t \<longleftrightarrow> t = ES_AUTHORIZED \<or> t = ES_FAILED \<or> t = ES_HALTED"
  "is_valid_transition ES_AUTHORIZED t \<longleftrightarrow> t = ES_EXECUTING \<or> t = ES_FAILED \<or> t = ES_HALTED"
  "is_valid_transition ES_EXECUTING t \<longleftrightarrow> t = ES_CHECKPOINTING \<or> t = ES_FAILED \<or> t = ES_HALTED"
  "is_valid_transition ES_CHECKPOINTING t \<longleftrightarrow> t = ES_COMPLETED \<or> t = ES_HALTED"
  "\<not> is_valid_transition ES_COMPLETED t"
  "\<not> is_valid_transition ES_FAILED t"
  "\<not> is_valid_transition ES_HALTED t"
  by (simp_all add: transition_table)

lemma is_terminal_iff: "is_terminal s \<longleftrightarrow> s \<in> {ES_COMPLETED, ES_FAILED, ES_HALTED}"
  by (cases s) (simp_all add: is_terminal_def transition_table)

lemma exec_step_rank: "exec_step s t \<Longrightarrow> exec_rank t < exec_rank s"
  by (erule exec_step.cases) auto

lemma exec_reaches_rank: "exec_reaches s n t \<Longrightarrow> exec_rank t + n \<le> exec_rank s"
  by (induction rule: exec_reaches.induct) (auto dest: exec_step_rank)

lemma exec_step_progress: "\<not> is_terminal s \<Longrightarrow> \<exists>t. exec_step s t"
  by (cases s) (auto simp: is_terminal_iff intro: exec_step.intros)

lemma transition_safe_terminal: "is_terminal s \<Longrightarrow> transition_safe s t = s"
  by (auto simp: is_terminal_iff transition_safe_def)

lemma transition_safe_cases: "transition_safe s t = s \<or> exec_step s (transition_safe s t)"
  by (auto simp: transition_safe_def is_valid_transition_step)

end
