(* ===== verification/Abi.thy ===== *)
theory Abi
  imports Kernel_State
begin

text \<open>
  The contracts of \<^verbatim>\<open>kernel/runtime.py\<close>: intents, routing decisions and results as records, and the
  four protocols the runtime calls (\<^verbatim>\<open>PolicyEvaluator\<close>, \<^verbatim>\<open>IntentRouter\<close>, \<^verbatim>\<open>ToolGateway\<close>,
  \<^verbatim>\<open>StatePersistence\<close>) as one record of operations over the collaborators' state \<open>'w\<close>. A call
  returns its value or raises, and may change that state either way.
\<close>

record Intent =
  in_agent_id :: string
  in_action :: string
  in_parameters :: pyobj
  in_timestamp :: time

record ExecutionResult =
  er_success :: bool
  er_execution_id :: string
  er_checkpoint_id :: "string option"
  er_data :: pyobj
  er_error :: "string option"
  er_state :: ExecutionState

record ToolResult =
  tl_success :: bool
  tl_data :: pyobj
  tl_error :: "string option"

record ExecutionPath =
  xp_tool :: string
  xp_adapter :: string
  xp_parameters :: pyobj

type_synonym ('a, 'w) call = "'w \<Rightarrow> (exn + 'a) \<times> 'w"

record 'w abi =
  evaluate_intent :: "Intent \<Rightarrow> (bool \<times> string option, 'w) call"
  check_capability :: "string \<Rightarrow> string \<Rightarrow> (bool \<times> string option, 'w) call"
  route_intent :: "Intent \<Rightarrow> (ExecutionPath, 'w) call"
  access_tool :: "ExecutionPath \<Rightarrow> Intent \<Rightarrow> (ToolResult, 'w) call"
  persist_save :: "string \<Rightarrow> pyobj \<Rightarrow> (string, 'w) call"
  persist_restore :: "string \<Rightarrow> (pyval, 'w) call"

text \<open>A failed result carries no checkpoint and no data.\<close>

definition failure :: "string \<Rightarrow> string \<Rightarrow> ExecutionState \<Rightarrow> ExecutionResult" where
  "failure execution_id err st =
     \<lparr>er_success = False, er_execution_id = execution_id, er_checkpoint_id = None, er_data = [],
      er_error = Some err, er_state = st\<rparr>"

lemma failure_fields [simp]:
  "\<not> er_success (failure eid err st)" "er_execution_id (failure eid err st) = eid"
  "er_checkpoint_id (failure eid err st) = None" "er_error (failure eid err st) = Some err"
  "er_state (failure eid err st) = st" "er_data (failure eid err st) = []"
  by (simp_all add: failure_def)

section \<open>Bodies with early returns\<close>

text \<open>
  A method body runs over a state, and either raises, returns early with a result, or continues
  with a value. \<open>seq\<close> runs a second part only when the first one continues.
\<close>

datatype ('r, 'a) outcome = Raised exn | Returned 'r | Continue 'a

type_synonym ('s, 'r, 'a) body = "'s \<Rightarrow> ('r, 'a) outcome \<times> 's"

definition seq :: "('s, 'r, 'a) body \<Rightarrow> ('a \<Rightarrow> ('s, 'r, 'b) body) \<Rightarrow> ('s, 'r, 'b) body" where
  "seq m k s =
     (case m s of (Raised e, s') \<Rightarrow> (Raised e, s') | (Returned r, s') \<Rightarrow> (Returned r, s')
      | (Continue a, s') \<Rightarrow> k a s')"

definition go :: "'a \<Rightarrow> ('s, 'r, 'a) body" where
  "go a s = (Continue a, s)"

definition return :: "'r \<Rightarrow> ('s, 'r, 'a) body" where
  "return r s = (Returned r, s)"

definition raise :: "exn \<Rightarrow> ('s, 'r, 'a) body" where
  "raise e s = (Raised e, s)"

definition modify :: "('s \<Rightarrow> 's) \<Rightarrow> ('s, 'r, unit) body" where
  "modify f s = (Continue (), f s)"

text \<open>The value a finished body hands to its caller; falling off the end returns the last value.\<close>

fun outcome_result :: "('r, 'r) outcome \<Rightarrow> exn + 'r" where
  "outcome_result (Raised e) = Inl e"
| "outcome_result (Returned r) = Inr r"
| "outcome_result (Continue r) = Inr r"

lemma seq_simps [simp]:
  "m s = (Raised e, s') \<Longrightarrow> seq m k s = (Raised e, s')"
  "m s = (Returned r, s') \<Longrightarrow> seq m k s = (Returned r, s')"
  "m s = (Continue a, s') \<Longrightarrow> seq m k s = k a s'"
  by (simp_all add: seq_def)

lemma body_simps [simp]:
  "go a s = (Continue a, s)" "return r s = (Returned r, s)" "raise e s = (Raised e, s)"
  "modify f s = (Continue (), f s)"
  by (simp_all add: go_def return_def raise_def modify_def)

lemma seq_assoc: "seq (seq m k) h = seq m (\<lambda>a. seq (k a) h)"
  by (rule ext) (simp add: seq_def split: prod.splits outcome.splits)

lemma go_seq: "seq (go a) k = k a"
  by (rule ext) (simp add: seq_def)

lemma seq_go: "seq m go = m"
  by (rule ext) (simp add: seq_def split: prod.splits outcome.splits)

end
