(* ===== verification/Tenant.thy ===== *)
theory Tenant
  imports Errors
begin

text \<open>
  \<^verbatim>\<open>kernel/tenant.py\<close>: resource limits, the tenant model and the immutable tenant context of an
  execution. Fields carry a prefix for their class (\<open>tm_\<close>, \<open>tc_\<close>, \<open>rl_\<close>); a \<^verbatim>\<open>frozenset\<close> is a set.
\<close>

record ResourceLimits =
  rl_max_agents :: int
  rl_max_steps_per_agent :: int
  rl_max_tokens_per_agent :: int
  rl_max_concurrent_executions :: int
  rl_max_checkpoints :: int

definition default_ResourceLimits :: ResourceLimits where
  "default_ResourceLimits =
     \<lparr>rl_max_agents = 10, rl_max_steps_per_agent = 10, rl_max_tokens_per_agent = 100000,
      rl_max_concurrent_executions = 5, rl_max_checkpoints = 100\<rparr>"

definition ResourceLimits_to_dict :: "ResourceLimits \<Rightarrow> pyobj" where
  "ResourceLimits_to_dict r =
     [(''max_agents'', PyInt (rl_max_agents r)),
      (''max_steps_per_agent'', PyInt (rl_max_steps_per_agent r)),
      (''max_tokens_per_agent'', PyInt (rl_max_tokens_per_agent r)),
      (''max_concurrent_executions'', PyInt (rl_max_concurrent_executions r)),
      (''max_checkpoints'', PyInt (rl_max_checkpoints r))]"

record TenantModel =
  tm_tenant_id :: string
  tm_name :: string
  tm_policy_scope :: string
  tm_resource_limits :: ResourceLimits
  tm_allowed_capabilities :: "string set"
  tm_metadata :: pyobj

text \<open>A check that appends a message when a required field is missing.\<close>

definition require :: "bool \<Rightarrow> string \<Rightarrow> string list" where
  "require ok msg = (if ok then [] else [msg])"

definition TenantModel_validate :: "TenantModel \<Rightarrow> string list" where
  "TenantModel_validate t =
     require (tm_tenant_id t \<noteq> []) ''tenant_id is required'' @
     require (tm_name t \<noteq> []) ''name is required''"

definition TenantModel_is_valid :: "TenantModel \<Rightarrow> bool" where
  "TenantModel_is_valid t = (length (TenantModel_validate t) = 0)"

definition TenantModel_to_dict :: "TenantModel \<Rightarrow> pyobj" where
  "TenantModel_to_dict t =
     [(''tenant_id'', PyStr (tm_tenant_id t)),
      (''name'', PyStr (tm_name t)),
      (''policy_scope'', PyStr (tm_policy_scope t)),
      (''resource_limits'', PyDict (ResourceLimits_to_dict (tm_resource_limits t))),
      (''allowed_capabilities'', PyList (map PyStr (sorted_list_of_set (tm_allowed_capabilities t)))),
      (''metadata'', PyDict (tm_metadata t))]"

record TenantContext =
  tc_tenant_id :: string
  tc_agent_id :: string
  tc_allowed_capabilities :: "string set"
  tc_resource_limits :: ResourceLimits

definition TenantContext_validate :: "TenantContext \<Rightarrow> string list" where
  "TenantContext_validate c =
     require (tc_tenant_id c \<noteq> []) ''tenant_id is required'' @
     require (tc_agent_id c \<noteq> []) ''agent_id is required''"

definition TenantContext_is_valid :: "TenantContext \<Rightarrow> bool" where
  "TenantContext_is_valid c = (length (TenantContext_validate c) = 0)"

definition has_capability :: "TenantContext \<Rightarrow> string \<Rightarrow> bool" where
  "has_capability c capability =
     (if tc_allowed_capabilities c = {} then True else capability \<in> tc_allowed_capabilities c)"

definition TenantContext_to_dict :: "TenantContext \<Rightarrow> pyobj" where
  "TenantContext_to_dict c =
     [(''tenant_id'', PyStr (tc_tenant_id c)),
      (''agent_id'', PyStr (tc_agent_id c)),
      (''allowed_capabilities'', PyList (map PyStr (sorted_list_of_set (tc_allowed_capabilities c)))),
      (''resource_limits'', PyDict (ResourceLimits_to_dict (tc_resource_limits c)))]"

lemma require_Nil [simp]: "require ok msg = [] \<longleftrightarrow> ok"
  by (simp add: require_def)

lemma TenantModel_is_valid_iff: "TenantModel_is_valid t \<longleftrightarrow> tm_tenant_id t \<noteq> [] \<and> tm_name t \<noteq> []"
  by (simp add: TenantModel_is_valid_def TenantModel_validate_def)

lemma TenantContext_is_valid_iff:
  "TenantContext_is_valid c \<longleftrightarrow> tc_tenant_id c \<noteq> [] \<and> tc_agent_id c \<noteq> []"
  by (simp add: TenantContext_is_valid_def TenantContext_validate_def)

end
