(* ===== verification/Isolation.thy ===== *)
theory Isolation
  imports Tenant
begin

text \<open>
  \<^verbatim>\<open>kernel/isolation.py\<close>: the isolation boundary. It registers tenants and agents, decides whether a
  request may touch a tenant's state or checkpoint, and counts running executions per tenant.
  Operations that raise return \<^const>\<open>Inl\<close> with the exception; the boundary is passed explicitly.
\<close>

record AgentRecord =
  ar_agent_id :: string
  ar_tenant_id :: string
  ar_registered_at :: time

record IsolationBoundary =
  ib_tenants :: "(string, TenantModel) dict"
  ib_agents :: "(string, AgentRecord) dict"
  ib_execution_counts :: "(string, int) dict"

definition IsolationBoundary_init :: IsolationBoundary where
  "IsolationBoundary_init = \<lparr>ib_tenants = [], ib_agents = [], ib_execution_counts = []\<rparr>"

section \<open>Registration\<close>

definition register_tenant :: "TenantModel \<Rightarrow> IsolationBoundary \<Rightarrow> exn + IsolationBoundary" where
  "register_tenant tenant b =
     (if \<not> TenantModel_is_valid tenant
      then Inl (ValueError (''Invalid tenant: '' @ list_repr (TenantModel_validate tenant)))
      else Inr (b\<lparr>ib_tenants := dict_set (tm_tenant_id tenant) tenant (ib_tenants b)\<rparr>))"

definition register_agent :: "string \<Rightarrow> string \<Rightarrow> time \<Rightarrow> IsolationBoundary \<Rightarrow> exn + IsolationBoundary" where
  "register_agent agent_id tenant_id now b =
     (if \<not> dict_has (ib_tenants b) tenant_id then Inl (TenantNotFoundError tenant_id)
      else Inr (b\<lparr>ib_agents := dict_set agent_id
        \<lparr>ar_agent_id = agent_id, ar_tenant_id = tenant_id, ar_registered_at = now\<rparr> (ib_agents b)\<rparr>))"

definition get_tenant :: "IsolationBoundary \<Rightarrow> string \<Rightarrow> TenantModel option" where
  "get_tenant b tenant_id = dict_get (ib_tenants b) tenant_id"

definition get_agent_tenant :: "IsolationBoundary \<Rightarrow> string \<Rightarrow> string option" where
  "get_agent_tenant b agent_id = map_option ar_tenant_id (dict_get (ib_agents b) agent_id)"

definition list_tenants :: "IsolationBoundary \<Rightarrow> string list" where
  "list_tenants b = dict_keys (ib_tenants b)"

definition Isolation_list_agents :: "IsolationBoundary \<Rightarrow> string \<Rightarrow> string list" where
  "Isolation_list_agents b tenant_id =
     map ar_agent_id (filter (\<lambda>a. ar_tenant_id a = tenant_id) (dict_values (ib_agents b)))"

section \<open>Validation\<close>

definition validate_agent_scope :: "IsolationBoundary \<Rightarrow> string \<Rightarrow> string \<Rightarrow> exn + bool" where
  "validate_agent_scope b agent_id tenant_id =
     (case dict_get (ib_agents b) agent_id of
        None \<Rightarrow> Inl (AgentNotInTenantError agent_id tenant_id ''unregistered'')
      | Some record \<Rightarrow>
          if ar_tenant_id record \<noteq> tenant_id
          then Inl (AgentNotInTenantError agent_id tenant_id (ar_tenant_id record))
          else Inr True)"

definition validate_tenant_context :: "IsolationBoundary \<Rightarrow> TenantContext \<Rightarrow> exn + bool" where
  "validate_tenant_context b context =
     (if \<not> TenantContext_is_valid context then Inl MissingTenantContextError
      else case dict_get (ib_tenants b) (tc_tenant_id context) of
        None \<Rightarrow> Inl (TenantNotFoundError (tc_tenant_id context))
      | Some tenant \<Rightarrow>
          (case validate_agent_scope b (tc_agent_id context) (tc_tenant_id context) of
             Inl e \<Rightarrow> Inl e
           | Inr _ \<Rightarrow> Inr True))"

definition validate_state_owner :: "string \<Rightarrow> string \<Rightarrow> string \<Rightarrow> string \<Rightarrow> exn + bool" where
  "validate_state_owner state_tenant state_agent request_tenant request_agent =
     (if state_tenant \<noteq> request_tenant
      then Inl (CrossTenantAccessError request_tenant state_tenant (''state:'' @ state_agent))
      else if state_agent \<noteq> request_agent
      then Inl (CrossAgentAccessError request_agent state_agent (''state:'' @ state_agent))
      else Inr True)"

definition validate_checkpoint_owner :: "string \<Rightarrow> string \<Rightarrow> string \<Rightarrow> string \<Rightarrow> exn + bool" where
  "validate_checkpoint_owner checkpoint_tenant checkpoint_agent request_tenant request_agent =
     (if checkpoint_tenant \<noteq> request_tenant
      then Inl (CrossTenantAccessError request_tenant checkpoint_tenant (''checkpoint:'' @ checkpoint_agent))
      else if checkpoint_agent \<noteq> request_agent
      then Inl (CrossAgentAccessError request_agent checkpoint_agent (''checkpoint:'' @ checkpoint_agent))
      else Inr True)"

section \<open>Resource limits\<close>

definition check_resource_limits :: "IsolationBoundary \<Rightarrow> string \<Rightarrow> exn + unit" where
  "check_resource_limits b tenant_id =
     (case dict_get (ib_tenants b) tenant_id of
        None \<Rightarrow> Inl (TenantNotFoundError tenant_id)
      | Some tenant \<Rightarrow>
          let current_count = dict_get_or (ib_execution_counts b) tenant_id 0;
              max_concurrent = rl_max_concurrent_executions (tm_resource_limits tenant)
          in if current_count \<ge> max_concurrent
             then Inl (ResourceLimitExceededError tenant_id ''concurrent_executions'' current_count max_concurrent)
             else Inr ())"

definition Isolation_start_execution :: "string \<Rightarrow> IsolationBoundary \<Rightarrow> IsolationBoundary" where
  "Isolation_start_execution tenant_id b =
     b\<lparr>ib_execution_counts :=
        dict_set tenant_id (dict_get_or (ib_execution_counts b) tenant_id 0 + 1) (ib_execution_counts b)\<rparr>"

definition Isolation_end_execution :: "string \<Rightarrow> IsolationBoundary \<Rightarrow> IsolationBoundary" where
  "Isolation_end_execution tenant_id b =
     (let current = dict_get_or (ib_execution_counts b) tenant_id 0
      in b\<lparr>ib_execution_counts := dict_set tenant_id (max 0 (current - 1)) (ib_execution_counts b)\<rparr>)"

definition IsolationBoundary_to_dict :: "IsolationBoundary \<Rightarrow> pyobj" where
  "IsolationBoundary_to_dict b =
     [(''tenants'', PyDict (map (\<lambda>(tid, t). (tid, PyDict (TenantModel_to_dict t))) (ib_tenants b))),
      (''agents'', PyDict (map (\<lambda>(aid, r). (aid, PyDict
          [(''agent_id'', PyStr (ar_agent_id r)), (''tenant_id'', PyStr (ar_tenant_id r))])) (ib_agents b))),
      (''execution_counts'', PyDict (map (\<lambda>(tid, n). (tid, PyInt n)) (ib_execution_counts b)))]"

section \<open>Well-formedness\<close>

definition active_count :: "IsolationBoundary \<Rightarrow> string \<Rightarrow> int" where
  "active_count b tenant_id = dict_get_or (ib_execution_counts b) tenant_id 0"

text \<open>
  Keys agree with the identifiers stored under them, tenants are valid, every agent belongs to a
  registered tenant, and no counter is negative.
\<close>

definition isolation_wf :: "IsolationBoundary \<Rightarrow> bool" where
  "isolation_wf b \<longleftrightarrow>
     dict_wf (ib_tenants b) \<and> dict_wf (ib_agents b) \<and> dict_wf (ib_execution_counts b) \<and>
     (\<forall>tid t. dict_get (ib_tenants b) tid = Some t \<longrightarrow> tm_tenant_id t = tid \<and> TenantModel_is_valid t) \<and>
     (\<forall>aid r. dict_get (ib_agents b) aid = Some r \<longrightarrow>
        ar_agent_id r = aid \<and> dict_has (ib_tenants b) (ar_tenant_id r)) \<and>
     (\<forall>tid. 0 \<le> active_count b tid)"

lemma isolation_wf_init [wf_intros]: "isolation_wf IsolationBoundary_init"
  by (simp add: isolation_wf_def IsolationBoundary_init_def active_count_def dict_get_or_def)

lemma isolation_wf_register_tenant [wf_intros]:
  "isolation_wf b \<Longrightarrow> register_tenant t b = Inr b' \<Longrightarrow> isolation_wf b'"
  by (auto simp: isolation_wf_def register_tenant_def active_count_def split: if_splits)

lemma isolation_wf_register_agent [wf_intros]:
  "isolation_wf b \<Longrightarrow> register_agent a t now b = Inr b' \<Longrightarrow> isolation_wf b'"
  by (auto simp: isolation_wf_def register_agent_def active_count_def split: if_splits)

lemma active_count_start [op_simps]:
  "active_count (Isolation_start_execution tid b) tid' = active_count b tid' + (if tid' = tid then 1 else 0)"
  by (simp add: active_count_def Isolation_start_execution_def dict_get_or_def split: option.splits)

lemma active_count_end [op_simps]:
  "active_count (Isolation_end_execution tid b) tid' =
     (if tid' = tid then max 0 (active_count b tid - 1) else active_count b tid')"
  by (simp add: active_count_def Isolation_end_execution_def dict_get_or_def Let_def)

lemma isolation_wf_start [wf_intros]: "isolation_wf b \<Longrightarrow> isolation_wf (Isolation_start_execution tid b)"
  unfolding isolation_wf_def active_count_start
  by (auto simp: Isolation_start_execution_def intro: add_nonneg_nonneg)

lemma isolation_wf_end [wf_intros]: "isolation_wf b \<Longrightarrow> isolation_wf (Isolation_end_execution tid b)"
  unfolding isolation_wf_def active_count_end
  by (auto simp: Isolation_end_execution_def Let_def)

lemma isolation_tenants_counting [simp]:
  "ib_tenants (Isolation_start_execution tid b) = ib_tenants b"
  "ib_tenants (Isolation_end_execution tid b) = ib_tenants b"
  by (simp_all add: Isolation_start_execution_def Isolation_end_execution_def Let_def)

lemma check_resource_limits_ok:
  "check_resource_limits b tid = Inr u \<longleftrightarrow>
     (\<exists>t. dict_get (ib_tenants b) tid = Some t \<and>
        active_count b tid < rl_max_concurrent_executions (tm_resource_limits t))"
  by (auto simp: check_resource_limits_def active_count_def Let_def split: option.splits)

lemma check_resource_limits_full:
  "dict_get (ib_tenants b) tid = Some t \<Longrightarrow>
   rl_max_concurrent_executions (tm_resource_limits t) \<le> active_count b tid \<Longrightarrow>
   check_resource_limits b tid =
     Inl (ResourceLimitExceededError tid ''concurrent_executions'' (active_count b tid)
       (rl_max_concurrent_executions (tm_resource_limits t)))"
  by (simp add: check_resource_limits_def active_count_def Let_def)

section \<open>Ownership\<close>

text \<open>
  The owner checks share one contract: a request passes exactly when tenant and agent are the
  owner's, a foreign tenant is refused before the agent is looked at, and nothing else is raised.
\<close>

locale ownership_check =
  fixes check :: "string \<Rightarrow> string \<Rightarrow> string \<Rightarrow> string \<Rightarrow> exn + bool"
    and resource :: "string \<Rightarrow> string"
  assumes check_owner: "check t a t a = Inr True"
    and check_tenant: "t \<noteq> t' \<Longrightarrow> check t a t' a' = Inl (CrossTenantAccessError t' t (resource a))"
    and check_agent: "a \<noteq> a' \<Longrightarrow> check t a t a' = Inl (CrossAgentAccessError a' a (resource a))"
begin

lemma check_passes_iff: "check t a t' a' = Inr r \<longleftrightarrow> r \<and> t' = t \<and> a' = a"
  using check_owner check_tenant check_agent by (cases "t = t'"; cases "a = a'") auto

lemma no_cross_tenant: "t' \<noteq> t \<Longrightarrow> \<nexists>r. check t a t' a' = Inr r"
  by (simp add: check_passes_iff)

lemma check_total:
  "check t a t' a' \<in> {Inr True, Inl (CrossTenantAccessError t' t (resource a)),
     Inl (CrossAgentAccessError a' a (resource a))}"
  using check_owner check_tenant check_agent by (cases "t = t'"; cases "a = a'") auto

end

interpretation state_owner: ownership_check validate_state_owner "\<lambda>a. ''state:'' @ a"
  by unfold_locales (auto simp: validate_state_owner_def)

interpretation checkpoint_owner: ownership_check validate_checkpoint_owner "\<lambda>a. ''checkpoint:'' @ a"
  by unfold_locales (auto simp: validate_checkpoint_owner_def)

lemma validate_agent_scope_ok:
  "validate_agent_scope b aid tid = Inr r \<longleftrightarrow> r \<and> get_agent_tenant b aid = Some tid"
  by (auto simp: validate_agent_scope_def get_agent_tenant_def split: option.splits)

interpretation tenants: keyed_registry register_tenant get_tenant tm_tenant_id isolation_wf
proof unfold_locales
  show "register_tenant v r = Inr r' \<Longrightarrow> get_tenant r' k = (if k = tm_tenant_id v then Some v else get_tenant r k)"
    for v r r' k by (auto simp: register_tenant_def get_tenant_def split: if_splits)
  show "isolation_wf r \<Longrightarrow> register_tenant v r = Inr r' \<Longrightarrow> isolation_wf r'" for v r r'
    by (rule isolation_wf_register_tenant)
  show "isolation_wf r \<Longrightarrow> get_tenant r k = Some v \<Longrightarrow> tm_tenant_id v = k" for r k v
    by (simp add: isolation_wf_def get_tenant_def)
qed

end
