(* ===== verification/Observability.thy ===== *)
theory Observability
  imports Errors
begin

text \<open>
  \<^verbatim>\<open>kernel/observability\<close>: the metrics registry (counters, histograms, gauges), the execution tracer
  and the correlated logger. The optional OpenTelemetry mirrors only forward the same values to a
  third-party meter, tracer or logger and are left out here (their instruments and providers are in
  Log_Export); a logger's output is the list of records it has handled.
\<close>

section \<open>Metrics\<close>

record MetricsRegistry =
  mr_counters :: "(string, int) dict"
  mr_histograms :: "(string, rat list) dict"
  mr_gauges :: "(string, pyval) dict"

definition MetricsRegistry_init :: MetricsRegistry where
  "MetricsRegistry_init = \<lparr>mr_counters = [], mr_histograms = [], mr_gauges = []\<rparr>"

definition increment_by :: "string \<Rightarrow> int \<Rightarrow> MetricsRegistry \<Rightarrow> MetricsRegistry" where
  "increment_by metric n m =
     m\<lparr>mr_counters := dict_set metric (dict_get_or (mr_counters m) metric 0 + n) (mr_counters m)\<rparr>"

abbreviation increment :: "string \<Rightarrow> MetricsRegistry \<Rightarrow> MetricsRegistry" where
  "increment metric \<equiv> increment_by metric 1"

definition get_counter :: "MetricsRegistry \<Rightarrow> string \<Rightarrow> int" where
  "get_counter m metric = dict_get_or (mr_counters m) metric 0"

definition metrics_record :: "string \<Rightarrow> rat \<Rightarrow> MetricsRegistry \<Rightarrow> MetricsRegistry" where
  "metrics_record metric v m =
     m\<lparr>mr_histograms := dict_set metric (dict_get_or (mr_histograms m) metric [] @ [v]) (mr_histograms m)\<rparr>"

definition get_histogram :: "MetricsRegistry \<Rightarrow> string \<Rightarrow> rat list" where
  "get_histogram m metric = dict_get_or (mr_histograms m) metric []"

record HistogramSummary =
  hs_count :: nat
  hs_min :: rat
  hs_max :: rat
  hs_avg :: rat
  hs_p50 :: rat
  hs_p99 :: rat

definition get_histogram_summary :: "MetricsRegistry \<Rightarrow> string \<Rightarrow> HistogramSummary" where
  "get_histogram_summary m metric =
     (let vals = dict_get_or (mr_histograms m) metric [] in
      if vals = [] then \<lparr>hs_count = 0, hs_min = 0, hs_max = 0, hs_avg = 0, hs_p50 = 0, hs_p99 = 0\<rparr>
      else let sorted_vals = sort vals; count = length sorted_vals; total = sum_list sorted_vals
           in \<lparr>hs_count = count,
               hs_min = sorted_vals ! 0,
               hs_max = sorted_vals ! (count - 1),
               hs_avg = round2 (total / of_nat count),
               hs_p50 = sorted_vals ! (count * 50 div 100),
               hs_p99 = sorted_vals ! (count * 99 div 100)\<rparr>)"

definition set_gauge :: "string \<Rightarrow> pyval \<Rightarrow> MetricsRegistry \<Rightarrow> MetricsRegistry" where
  "set_gauge metric v m = m\<lparr>mr_gauges := dict_set metric v (mr_gauges m)\<rparr>"

definition get_gauge :: "MetricsRegistry \<Rightarrow> string \<Rightarrow> pyval" where
  "get_gauge m metric = dict_get_or (mr_gauges m) metric PyNone"

definition py_add_int :: "pyval \<Rightarrow> int \<Rightarrow> exn + pyval" where
  "py_add_int v d =
     (case v of PyInt i \<Rightarrow> Inr (PyInt (i + d))
      | PyBool b \<Rightarrow> Inr (PyInt ((if b then 1 else 0) + d))
      | PyFloat q \<Rightarrow> Inr (PyFloat (q + of_int d))
      | _ \<Rightarrow> Inl (OtherError ''unsupported operand type(s) for +''))"

definition increment_gauge :: "string \<Rightarrow> int \<Rightarrow> MetricsRegistry \<Rightarrow> exn + MetricsRegistry" where
  "increment_gauge metric delta m =
     (case py_add_int (dict_get_or (mr_gauges m) metric (PyInt 0)) delta of
        Inl e \<Rightarrow> Inl e
      | Inr v \<Rightarrow> Inr (m\<lparr>mr_gauges := dict_set metric v (mr_gauges m)\<rparr>))"

record MetricsSnapshot =
  sn_counters :: "(string, int) dict"
  sn_histograms :: "(string, HistogramSummary) dict"
  sn_gauges :: "(string, pyval) dict"

definition snapshot :: "MetricsRegistry \<Rightarrow> MetricsSnapshot" where
  "snapshot m =
     \<lparr>sn_counters = mr_counters m,
      sn_histograms = fold (\<lambda>nm. dict_set nm (get_histogram_summary m nm)) (dict_keys (mr_histograms m)) [],
      sn_gauges = mr_gauges m\<rparr>"

section \<open>Tracing\<close>

datatype TracePhase =
    INTENT_RECEIVED | POLICY_EVALUATION | CAPABILITY_CHECK | INTENT_ROUTING
  | TOOL_EXECUTION | CHECKPOINT_SAVE | EXECUTION_COMPLETED

record TraceEntry =
  te_phase :: TracePhase
  te_start_time :: time
  te_end_time :: time
  te_duration_ms :: rat
  te_success :: bool
  te_error :: "string option"
  te_metadata :: pyobj

record ExecutionTracer =
  tr_execution_id :: string
  tr_agent_id :: string
  tr_intent_action :: string
  tr_tenant_id :: string
  tr_entries :: "TraceEntry list"
  tr_current_phase :: "TracePhase option"
  tr_current_start :: time
  tr_current_metadata :: pyobj

definition ExecutionTracer_init :: "string \<Rightarrow> string \<Rightarrow> string \<Rightarrow> string \<Rightarrow> ExecutionTracer" where
  "ExecutionTracer_init execution_id agent_id intent_action tenant_id =
     \<lparr>tr_execution_id = execution_id, tr_agent_id = agent_id, tr_intent_action = intent_action,
      tr_tenant_id = tenant_id, tr_entries = [], tr_current_phase = None, tr_current_start = 0,
      tr_current_metadata = []\<rparr>"

definition end_phase :: "bool \<Rightarrow> string option \<Rightarrow> time \<Rightarrow> ExecutionTracer \<Rightarrow> exn + ExecutionTracer" where
  "end_phase success err now tr =
     (case tr_current_phase tr of
        None \<Rightarrow> Inl (PyRuntimeError ''No active phase to end'')
      | Some ph \<Rightarrow>
          let entry = \<lparr>te_phase = ph, te_start_time = tr_current_start tr, te_end_time = now,
                       te_duration_ms = (now - tr_current_start tr) * 1000, te_success = success,
                       te_error = err, te_metadata = tr_current_metadata tr\<rparr>
          in Inr (tr\<lparr>tr_entries := tr_entries tr @ [entry], tr_current_phase := None,
                     tr_current_start := 0, tr_current_metadata := []\<rparr>))"

definition start_phase ::
  "TracePhase \<Rightarrow> pyobj \<Rightarrow> time \<Rightarrow> time \<Rightarrow> ExecutionTracer \<Rightarrow> exn + ExecutionTracer" where
  "start_phase phase metadata now_end now tr =
     (case (if tr_current_phase tr \<noteq> None then end_phase True None now_end tr else Inr tr) of
        Inl e \<Rightarrow> Inl e
      | Inr tr' \<Rightarrow> Inr (tr'\<lparr>tr_current_phase := Some phase, tr_current_start := now,
                           tr_current_metadata := metadata\<rparr>))"

record TraceSummary =
  ts_execution_id :: string
  ts_agent_id :: string
  ts_intent_action :: string
  ts_tenant_id :: string
  ts_total_duration_ms :: rat
  ts_phase_count :: nat
  ts_phases :: "TracePhase list"
  ts_failures :: nat
  ts_status :: string

definition get_summary :: "ExecutionTracer \<Rightarrow> TraceSummary" where
  "get_summary tr =
     (let failures = filter (\<lambda>e. \<not> te_success e) (tr_entries tr) in
      \<lparr>ts_execution_id = tr_execution_id tr, ts_agent_id = tr_agent_id tr,
       ts_intent_action = tr_intent_action tr, ts_tenant_id = tr_tenant_id tr,
       ts_total_duration_ms = round2 (sum_list (map te_duration_ms (tr_entries tr))),
       ts_phase_count = length (tr_entries tr), ts_phases = map te_phase (tr_entries tr),
       ts_failures = length failures,
       ts_status = (if failures \<noteq> [] then ''failure'' else ''success'')\<rparr>)"

definition tracer_clear :: "ExecutionTracer \<Rightarrow> ExecutionTracer" where
  "tracer_clear tr = tr\<lparr>tr_entries := [], tr_current_phase := None, tr_current_start := 0,
     tr_current_metadata := []\<rparr>"

section \<open>Logging\<close>

datatype LogLevel = LOG_INFO | LOG_WARNING | LOG_ERROR | LOG_DEBUG

record LogRecord =
  lr_level :: LogLevel
  lr_message :: string
  lr_correlation :: pyobj
  lr_metrics :: pyobj

record RuntimeLogger =
  lo_name :: string
  lo_base_correlation :: pyobj

definition dict_merge :: "('k, 'v) dict \<Rightarrow> ('k, 'v) dict \<Rightarrow> ('k, 'v) dict" where
  "dict_merge d e = fold (\<lambda>(k, v). dict_set k v) e d"

definition logger_log ::
  "RuntimeLogger \<Rightarrow> LogLevel \<Rightarrow> string \<Rightarrow> pyobj \<Rightarrow> pyobj \<Rightarrow> LogRecord list \<Rightarrow> LogRecord list" where
  "logger_log lg level message correlation extra out =
     out @ [\<lparr>lr_level = level, lr_message = message,
             lr_correlation = dict_merge (lo_base_correlation lg) correlation, lr_metrics = extra\<rparr>]"

definition with_correlation :: "pyobj \<Rightarrow> RuntimeLogger \<Rightarrow> RuntimeLogger" where
  "with_correlation correlation lg =
     lg\<lparr>lo_base_correlation := dict_merge (lo_base_correlation lg) correlation\<rparr>"

section \<open>Lemmas\<close>

lemma get_counter_increment [simp, op_simps]:
  "get_counter (increment_by k n m) k' = get_counter m k' + (if k' = k then n else 0)"
  by (simp add: get_counter_def increment_by_def dict_get_or_def)

lemma get_counter_record [simp, op_simps]: "get_counter (metrics_record k v m) k' = get_counter m k'"
  by (simp add: get_counter_def metrics_record_def)

lemma get_histogram_record [op_simps]:
  "get_histogram (metrics_record k v m) k' = get_histogram m k' @ (if k' = k then [v] else [])"
  by (simp add: get_histogram_def metrics_record_def dict_get_or_def)

lemma end_phase_active:
  "tr_current_phase tr = Some ph \<Longrightarrow>
     \<exists>tr'. end_phase ok err now tr = Inr tr' \<and> tr_current_phase tr' = None \<and>
       map te_phase (tr_entries tr') = map te_phase (tr_entries tr) @ [ph] \<and>
       map te_success (tr_entries tr') = map te_success (tr_entries tr) @ [ok]"
  by (simp add: end_phase_def Let_def)

lemma start_phase_idle:
  "tr_current_phase tr = None \<Longrightarrow>
     start_phase ph md t0 t1 tr =
       Inr (tr\<lparr>tr_current_phase := Some ph, tr_current_start := t1, tr_current_metadata := md\<rparr>)"
  by (simp add: start_phase_def)

lemma start_phase_total: "\<exists>tr'. start_phase ph md t0 t1 tr = Inr tr' \<and> tr_current_phase tr' = Some ph"
  by (cases "tr_current_phase tr") (auto simp: start_phase_def end_phase_def Let_def)

text \<open>The percentile indices stay inside the histogram, and the four order statistics are ordered.\<close>

lemma percentile_index: "xs \<noteq> [] \<Longrightarrow> p < 100 \<Longrightarrow> length xs * p div 100 < length xs"
proof -
  assume "xs \<noteq> []" and "p < 100"
  then have "length xs * p < length xs * 100" by simp
  then show ?thesis by (simp add: less_mult_imp_div_less)
qed

lemma histogram_summary_ordered:
  assumes "get_histogram m k \<noteq> []"
  defines "s \<equiv> get_histogram_summary m k"
  shows "hs_min s \<le> hs_p50 s" "hs_p50 s \<le> hs_p99 s" "hs_p99 s \<le> hs_max s"
    and "hs_count s = length (get_histogram m k)"
    and "\<forall>v \<in> set (get_histogram m k). hs_min s \<le> v \<and> v \<le> hs_max s"
proof -
  define xs where "xs = sort (get_histogram m k)"
  have ne: "xs \<noteq> []" using assms(1) by (metis length_0_conv length_sort xs_def)
  have s_eq: "hs_min s = xs ! 0" "hs_p50 s = xs ! (length xs * 50 div 100)"
    "hs_p99 s = xs ! (length xs * 99 div 100)" "hs_max s = xs ! (length xs - 1)"
    "hs_count s = length xs"
    using assms(1) by (simp_all add: s_def get_histogram_summary_def get_histogram_def xs_def Let_def)
  have srt: "sorted xs" by (simp add: xs_def)
  have i50: "length xs * 50 div 100 < length xs" and i99: "length xs * 99 div 100 < length xs"
    by (rule percentile_index [OF ne], simp)+
  show "hs_min s \<le> hs_p50 s" using s_eq sorted_nth_mono [OF srt, of 0] i50 by simp
  show "hs_p50 s \<le> hs_p99 s"
    unfolding s_eq by (rule sorted_nth_mono [OF srt _ i99]) (simp add: div_le_mono)
  show "hs_p99 s \<le> hs_max s"
    unfolding s_eq by (rule sorted_nth_mono [OF srt]) (use i99 ne in auto)
  show "hs_count s = length (get_histogram m k)" by (simp add: s_eq xs_def)
  show "\<forall>v \<in> set (get_histogram m k). hs_min s \<le> v \<and> v \<le> hs_max s"
  proof
    fix v assume "v \<in> set (get_histogram m k)"
    then have "v \<in> set xs" by (simp add: xs_def)
    then obtain i where i: "i < length xs" "v = xs ! i" by (auto simp: in_set_conv_nth)
    then show "hs_min s \<le> v \<and> v \<le> hs_max s"
      unfolding s_eq using sorted_nth_mono [OF srt, of 0 i] sorted_nth_mono [OF srt, of i "length xs - 1"]
      by simp
  qed
qed

end
