(* ===== verification/Quotas.thy ===== *)
theory Quotas
  imports Errors
begin

text \<open>
  \<^verbatim>\<open>api/rest/quotas.py\<close>: the token-bucket rate limiter and the per-tenant quota manager. Every method
  body runs under the object's lock, so each operation is one atomic step; a bucket created on
  demand reads the clock once for its creation and once for the refill.
\<close>

record TokenBucket =
  tb_tokens :: rat
  tb_max_tokens :: rat
  tb_refill_rate :: rat
  tb_last_refill :: time

record TokenBucketRateLimiter =
  rl_max_tokens :: rat
  rl_refill_rate :: rat
  rl_buckets :: "(string, TokenBucket) dict"

definition default_TokenBucketRateLimiter :: TokenBucketRateLimiter where
  "default_TokenBucketRateLimiter = \<lparr>rl_max_tokens = 100, rl_refill_rate = 10, rl_buckets = []\<rparr>"

definition get_bucket ::
  "string \<Rightarrow> time \<Rightarrow> TokenBucketRateLimiter \<Rightarrow> TokenBucket \<times> TokenBucketRateLimiter" where
  "get_bucket tenant_id now_create l =
     (case dict_get (rl_buckets l) tenant_id of
        Some b \<Rightarrow> (b, l)
      | None \<Rightarrow>
          let b = \<lparr>tb_tokens = rl_max_tokens l, tb_max_tokens = rl_max_tokens l,
                   tb_refill_rate = rl_refill_rate l, tb_last_refill = now_create\<rparr>
          in (b, l\<lparr>rl_buckets := dict_set tenant_id b (rl_buckets l)\<rparr>))"

definition refill :: "time \<Rightarrow> TokenBucket \<Rightarrow> TokenBucket" where
  "refill now b =
     (let elapsed = now - tb_last_refill b
      in b\<lparr>tb_tokens := min (tb_max_tokens b) (tb_tokens b + elapsed * tb_refill_rate b),
           tb_last_refill := now\<rparr>)"

definition consume ::
  "string \<Rightarrow> rat \<Rightarrow> time \<Rightarrow> time \<Rightarrow> TokenBucketRateLimiter \<Rightarrow> bool \<times> TokenBucketRateLimiter" where
  "consume tenant_id tokens now_create now l =
     (let (b0, l0) = get_bucket tenant_id now_create l; b = refill now b0
      in if tb_tokens b \<ge> tokens
         then (True, l0\<lparr>rl_buckets := dict_set tenant_id (b\<lparr>tb_tokens := tb_tokens b - tokens\<rparr>) (rl_buckets l0)\<rparr>)
         else (False, l0\<lparr>rl_buckets := dict_set tenant_id b (rl_buckets l0)\<rparr>))"

definition limiter_retry_after ::
  "string \<Rightarrow> time \<Rightarrow> time \<Rightarrow> TokenBucketRateLimiter \<Rightarrow> (exn + rat) \<times> TokenBucketRateLimiter" where
  "limiter_retry_after tenant_id now_create now l =
     (let (b0, l0) = get_bucket tenant_id now_create l; b = refill now b0;
          l1 = l0\<lparr>rl_buckets := dict_set tenant_id b (rl_buckets l0)\<rparr>;
          deficit = 1 - tb_tokens b
      in if deficit \<le> 0 then (Inr 0, l1)
         else if tb_refill_rate b = 0 then (Inl (OtherError ''float division by zero''), l1)
         else (Inr (deficit / tb_refill_rate b), l1))"

definition limiter_reset :: "string \<Rightarrow> TokenBucketRateLimiter \<Rightarrow> TokenBucketRateLimiter" where
  "limiter_reset tenant_id l = l\<lparr>rl_buckets := dict_del tenant_id (rl_buckets l)\<rparr>"

section \<open>Quota manager\<close>

record TenantQuotaConfig =
  qc_max_concurrent :: int
  qc_max_total_per_minute :: int
  qc_max_steps_per_execution :: int

definition default_TenantQuotaConfig :: TenantQuotaConfig where
  "default_TenantQuotaConfig =
     \<lparr>qc_max_concurrent = 5, qc_max_total_per_minute = 60, qc_max_steps_per_execution = 10\<rparr>"

record QuotaManager =
  qm_rate_limiter :: TokenBucketRateLimiter
  qm_concurrent :: "(string, string set) dict"
  qm_configs :: "(string, TenantQuotaConfig) dict"

definition QuotaManager_init :: "TokenBucketRateLimiter option \<Rightarrow> QuotaManager" where
  "QuotaManager_init rl =
     \<lparr>qm_rate_limiter = (case rl of None \<Rightarrow> default_TokenBucketRateLimiter | Some l \<Rightarrow> l),
      qm_concurrent = [], qm_configs = []\<rparr>"

definition configure :: "string \<Rightarrow> TenantQuotaConfig \<Rightarrow> QuotaManager \<Rightarrow> QuotaManager" where
  "configure tenant_id config q = q\<lparr>qm_configs := dict_set tenant_id config (qm_configs q)\<rparr>"

definition get_config :: "QuotaManager \<Rightarrow> string \<Rightarrow> TenantQuotaConfig" where
  "get_config q tenant_id = dict_get_or (qm_configs q) tenant_id default_TenantQuotaConfig"

definition check_concurrent :: "QuotaManager \<Rightarrow> string \<Rightarrow> bool" where
  "check_concurrent q tenant_id =
     (let config = get_config q tenant_id;
          active = int (card (dict_get_or (qm_concurrent q) tenant_id {}))
      in active < qc_max_concurrent config)"

definition Quota_start_execution :: "string \<Rightarrow> string \<Rightarrow> QuotaManager \<Rightarrow> QuotaManager" where
  "Quota_start_execution tenant_id execution_id q =
     q\<lparr>qm_concurrent := dict_set tenant_id
        (insert execution_id (dict_get_or (qm_concurrent q) tenant_id {})) (qm_concurrent q)\<rparr>"

definition Quota_end_execution :: "string \<Rightarrow> string \<Rightarrow> QuotaManager \<Rightarrow> QuotaManager" where
  "Quota_end_execution tenant_id execution_id q =
     (case dict_get (qm_concurrent q) tenant_id of
        None \<Rightarrow> q
      | Some execs \<Rightarrow>
          if execs = {} then q
          else q\<lparr>qm_concurrent := dict_set tenant_id (execs - {execution_id}) (qm_concurrent q)\<rparr>)"

definition concurrent_count :: "QuotaManager \<Rightarrow> string \<Rightarrow> nat" where
  "concurrent_count q tenant_id = card (dict_get_or (qm_concurrent q) tenant_id {})"

definition check_and_consume_rate ::
  "string \<Rightarrow> time \<Rightarrow> time \<Rightarrow> QuotaManager \<Rightarrow> bool \<times> QuotaManager" where
  "check_and_consume_rate tenant_id now_create now q =
     (let (ok, l) = consume tenant_id 1 now_create now (qm_rate_limiter q)
      in (ok, q\<lparr>qm_rate_limiter := l\<rparr>))"

definition retry_after ::
  "string \<Rightarrow> time \<Rightarrow> time \<Rightarrow> QuotaManager \<Rightarrow> (exn + rat) \<times> QuotaManager" where
  "retry_after tenant_id now_create now q =
     (let (r, l) = limiter_retry_after tenant_id now_create now (qm_rate_limiter q)
      in (r, q\<lparr>qm_rate_limiter := l\<rparr>))"

definition cleanup :: "string \<Rightarrow> QuotaManager \<Rightarrow> QuotaManager" where
  "cleanup tenant_id q =
     q\<lparr>qm_concurrent := dict_del tenant_id (qm_concurrent q),
       qm_rate_limiter := limiter_reset tenant_id (qm_rate_limiter q)\<rparr>"

section \<open>Running executions\<close>

text \<open>The set of executions a tenant has in flight, and how each operation changes it.\<close>

definition running :: "QuotaManager \<Rightarrow> string \<Rightarrow> string set" where
  "running q tenant_id = dict_get_or (qm_concurrent q) tenant_id {}"

definition quota_wf :: "QuotaManager \<Rightarrow> bool" where
  "quota_wf q \<longleftrightarrow> (\<forall>tid. finite (running q tid))"

lemma running_start [simp, op_simps]:
  "running (Quota_start_execution tid eid q) tid' =
     (if tid' = tid then insert eid (running q tid) else running q tid')"
  by (simp add: running_def Quota_start_execution_def dict_get_or_def)

lemma running_end [simp, op_simps]:
  "running (Quota_end_execution tid eid q) tid' =
     (if tid' = tid then running q tid - {eid} else running q tid')"
  by (auto simp: running_def Quota_end_execution_def dict_get_or_def split: option.splits)

lemma running_rate [simp, op_simps]:
  "running (snd (check_and_consume_rate tid t0 t q)) tid' = running q tid'"
  "running (snd (retry_after tid t0 t q)) tid' = running q tid'"
  by (simp_all add: running_def check_and_consume_rate_def retry_after_def split_beta Let_def)

lemma running_cleanup [op_simps]:
  "running (cleanup tid q) tid' = (if tid' = tid then {} else running q tid')"
  by (simp add: running_def cleanup_def dict_get_or_def)

lemma running_configure [simp, op_simps]: "running (configure tid c q) tid' = running q tid'"
  by (simp add: running_def configure_def)

lemma check_concurrent_iff:
  "check_concurrent q tid \<longleftrightarrow> int (card (running q tid)) < qc_max_concurrent (get_config q tid)"
  by (simp add: check_concurrent_def running_def)

lemma get_config_frame [simp]:
  "get_config (Quota_start_execution tid eid q) = get_config q"
  "get_config (Quota_end_execution tid eid q) = get_config q"
  by (auto simp: get_config_def Quota_start_execution_def Quota_end_execution_def fun_eq_iff split: option.splits)

lemma quota_wf_ops [wf_intros]:
  "quota_wf q \<Longrightarrow> quota_wf (Quota_start_execution tid eid q)"
  "quota_wf q \<Longrightarrow> quota_wf (Quota_end_execution tid eid q)"
  "quota_wf q \<Longrightarrow> quota_wf (cleanup tid q)"
  "quota_wf q \<Longrightarrow> quota_wf (configure tid c q)"
  by (simp_all add: quota_wf_def running_cleanup)

text \<open>A slot taken by a fresh execution and given back leaves the tenant's slots as they were.\<close>

lemma start_end_running:
  "eid \<notin> running q tid \<Longrightarrow>
     running (Quota_end_execution tid eid (Quota_start_execution tid eid q)) tid' = running q tid'"
  by simp

section \<open>The rate limit\<close>

definition bucket_wf :: "TokenBucket \<Rightarrow> bool" where
  "bucket_wf b \<longleftrightarrow> 0 \<le> tb_tokens b \<and> tb_tokens b \<le> tb_max_tokens b \<and> 0 \<le> tb_refill_rate b"

definition limiter_wf :: "TokenBucketRateLimiter \<Rightarrow> bool" where
  "limiter_wf l \<longleftrightarrow> 0 \<le> rl_max_tokens l \<and> 0 \<le> rl_refill_rate l \<and>
     (\<forall>tid b. dict_get (rl_buckets l) tid = Some b \<longrightarrow>
        bucket_wf b \<and> tb_max_tokens b = rl_max_tokens l \<and> tb_refill_rate b = rl_refill_rate l)"

text \<open>The bucket a tenant's next call will find.\<close>

definition bucket_of :: "TokenBucketRateLimiter \<Rightarrow> string \<Rightarrow> time \<Rightarrow> TokenBucket" where
  "bucket_of l tenant_id now_create = fst (get_bucket tenant_id now_create l)"

lemma limiter_wf_bucket:
  "limiter_wf l \<Longrightarrow> bucket_wf (bucket_of l tid t) \<and>
     tb_max_tokens (bucket_of l tid t) = rl_max_tokens l \<and> tb_refill_rate (bucket_of l tid t) = rl_refill_rate l"
  by (fastforce simp: bucket_of_def get_bucket_def limiter_wf_def bucket_wf_def Let_def split: option.splits)

lemma refill_wf: "bucket_wf b \<Longrightarrow> tb_last_refill b \<le> now \<Longrightarrow> bucket_wf (refill now b)"
  by (simp add: bucket_wf_def refill_def Let_def)

lemma consume_eq:
  "consume tid n t0 t l =
     (let b = refill t (bucket_of l tid t0) in
      (n \<le> tb_tokens b,
       l\<lparr>rl_buckets := dict_set tid (if n \<le> tb_tokens b then b\<lparr>tb_tokens := tb_tokens b - n\<rparr> else b)
          (rl_buckets (snd (get_bucket tid t0 l)))\<rparr>))"
  by (auto simp: consume_def bucket_of_def get_bucket_def Let_def split: option.splits)

lemma consume_bucket:
  "bucket_of (snd (consume tid n t0 t l)) tid t' =
     (let b = refill t (bucket_of l tid t0) in
      if n \<le> tb_tokens b then b\<lparr>tb_tokens := tb_tokens b - n\<rparr> else b)"
  by (simp add: consume_eq bucket_of_def get_bucket_def Let_def)

lemma consume_get:
  "dict_get (rl_buckets (snd (consume tid n t0 t l))) tid' =
     (if tid' = tid then Some (bucket_of (snd (consume tid n t0 t l)) tid t) else dict_get (rl_buckets l) tid')"
  by (simp add: consume_bucket) (simp add: consume_eq get_bucket_def Let_def split: option.splits)

lemma consume_frame [simp]:
  "rl_refill_rate (snd (consume tid n t0 t l)) = rl_refill_rate l"
  "rl_max_tokens (snd (consume tid n t0 t l)) = rl_max_tokens l"
  by (simp_all add: consume_eq Let_def)

lemma consume_wf:
  assumes "limiter_wf l" "0 \<le> n" "tb_last_refill (bucket_of l tid t0) \<le> t"
  shows "limiter_wf (snd (consume tid n t0 t l))"
proof -
  define b where "b = refill t (bucket_of l tid t0)"
  have "bucket_wf b"
    using assms limiter_wf_bucket refill_wf unfolding b_def by blast
  moreover have "tb_max_tokens b = rl_max_tokens l" "tb_refill_rate b = rl_refill_rate l"
    using limiter_wf_bucket [OF assms(1), of tid t0] by (simp_all add: b_def refill_def Let_def)
  ultimately show ?thesis
    using assms(1,2) unfolding limiter_wf_def consume_get
    by (simp add: consume_bucket b_def [symmetric] Let_def) (simp add: bucket_wf_def)
qed

text \<open>
  A tenant's calls over time, each asking for one token at the instant it is made; the number of
  calls let through.
\<close>

fun consume_run :: "string \<Rightarrow> time list \<Rightarrow> TokenBucketRateLimiter \<Rightarrow> nat \<times> TokenBucketRateLimiter" where
  "consume_run tenant_id [] l = (0, l)"
| "consume_run tenant_id (t # ts) l =
     (let (ok, l') = consume tenant_id 1 t t l; (n, l'') = consume_run tenant_id ts l'
      in ((if ok then Suc n else n), l''))"

lemma consume_balance:
  fixes tid :: string and t0 t :: time
  assumes "limiter_wf l"
  defines "b \<equiv> bucket_of l tid t0" and "r \<equiv> consume tid 1 t0 t l"
  shows "of_bool (fst r) + tb_tokens (bucket_of (snd r) tid t') \<le>
         tb_tokens b + rl_refill_rate l * (t - tb_last_refill b)"
    and "tb_last_refill (bucket_of (snd r) tid t') = t"
proof -
  have rate: "tb_refill_rate b = rl_refill_rate l"
    using limiter_wf_bucket [OF assms(1)] by (simp add: b_def)
  then have "tb_tokens (refill t b) \<le> tb_tokens b + rl_refill_rate l * (t - tb_last_refill b)"
    by (simp add: refill_def Let_def mult.commute)
  then show "of_bool (fst r) + tb_tokens (bucket_of (snd r) tid t') \<le>
         tb_tokens b + rl_refill_rate l * (t - tb_last_refill b)"
    unfolding r_def consume_bucket by (simp add: consume_eq b_def Let_def)
  show "tb_last_refill (bucket_of (snd r) tid t') = t"
    unfolding r_def consume_bucket by (simp add: Let_def refill_def)
qed

lemma consume_run_balance:
  assumes "limiter_wf l" "sorted ts" "\<forall>t \<in> set ts. tb_last_refill (bucket_of l tid t0) \<le> t"
    and "bucket_of l tid (hd (ts @ [t0])) = bucket_of l tid t0"
  shows "of_nat (fst (consume_run tid ts l)) \<le>
     tb_tokens (bucket_of l tid t0) + rl_refill_rate l * (last (tb_last_refill (bucket_of l tid t0) # ts) -
       tb_last_refill (bucket_of l tid t0))"
  using assms
proof (induction ts arbitrary: l t0)
  case Nil
  then show ?case using limiter_wf_bucket by (simp add: bucket_wf_def)
next
  case (Cons t ts)
  define b where "b = bucket_of l tid t"
  define r where "r = consume tid 1 t t l"
  have b0: "bucket_of l tid t0 = b" using Cons.prems(4) by (simp add: b_def)
  have le: "tb_last_refill b \<le> t" using Cons.prems(3) b0 by simp
  note bal = consume_balance [OF Cons.prems(1), where tid = tid and ?t0.0 = t and t = t and t' = t,
      folded b_def r_def]
  have rate: "rl_refill_rate (snd r) = rl_refill_rate l" by (simp add: r_def)
  have wf: "limiter_wf (snd r)"
    using consume_wf [OF Cons.prems(1), of 1 tid t t] le by (simp add: r_def b_def)
  have same: "bucket_of (snd r) tid x = bucket_of (snd r) tid t" for x
    unfolding r_def consume_bucket ..
  have "of_nat (fst (consume_run tid ts (snd r))) \<le>
     tb_tokens (bucket_of (snd r) tid t) + rl_refill_rate l * (last (t # ts) - t)"
    using Cons.IH [OF wf, of t] Cons.prems(2) bal same rate by simp
  then have "of_bool (fst r) + of_nat (fst (consume_run tid ts (snd r))) \<le>
     tb_tokens b + rl_refill_rate l * (t - tb_last_refill b) + rl_refill_rate l * (last (t # ts) - t)"
    using bal(1) by linarith
  then show ?case
    by (cases "fst r"; cases "ts = []") (simp_all add: b0 r_def [symmetric] split_beta Let_def algebra_simps)
qed

end
