(* ===== verification/Runtime.thy ===== *)
theory Runtime
  imports Abi Isolation Observability Quotas
begin

text \<open>
  \<^verbatim>\<open>kernel/runtime.py\<close>: \<^verbatim>\<open>KitematicRuntime\<close>. The runtime's attributes are a record over the state
  \<open>'w\<close> of its four collaborators. \<^verbatim>\<open>execute_intent\<close> is split where the source has its blocks: the
  isolation gate, the quota gate, the shutdown gate and the guarded body with one definition per
  phase of the governance chain. Everything the body does is modelled, including its logging,
  metrics and tracing; \<open>chain\<close> is the specification without them.
\<close>

section \<open>State\<close>

record AgentInfo =
  ai_capabilities :: "string list"
  ai_hosted_at :: time

record 'w runtime =
  rt_isolation :: "IsolationBoundary option"
  rt_logger :: "RuntimeLogger option"
  rt_log :: "LogRecord list"
  rt_metrics :: "MetricsRegistry option"
  rt_tracer_cls :: bool
  rt_agents :: "(string, AgentInfo) dict"
  rt_state :: RuntimeState
  rt_quota_manager :: "QuotaManager option"
  rt_tenant_context :: "TenantContext option"
  rt_world :: 'w

definition runtime_init ::
  "'w \<Rightarrow> IsolationBoundary option \<Rightarrow> RuntimeLogger option \<Rightarrow> MetricsRegistry option \<Rightarrow> bool \<Rightarrow>
   QuotaManager option \<Rightarrow> 'w runtime" where
  "runtime_init w isolation logger metrics tracer quota =
     \<lparr>rt_isolation = isolation, rt_logger = logger, rt_log = [], rt_metrics = metrics,
      rt_tracer_cls = tracer, rt_agents = [], rt_state = RS_RUNNING, rt_quota_manager = quota,
      rt_tenant_context = None, rt_world = w\<rparr>"

definition runtime_log :: "LogLevel \<Rightarrow> string \<Rightarrow> pyobj \<Rightarrow> 'w runtime \<Rightarrow> 'w runtime" where
  "runtime_log level message extra rt =
     (case rt_logger rt of None \<Rightarrow> rt
      | Some lg \<Rightarrow> rt\<lparr>rt_log := logger_log lg level message [] extra (rt_log rt)\<rparr>)"

definition runtime_incr :: "string \<Rightarrow> 'w runtime \<Rightarrow> 'w runtime" where
  "runtime_incr metric rt = rt\<lparr>rt_metrics := map_option (increment metric) (rt_metrics rt)\<rparr>"

definition set_tenant_context :: "TenantContext \<Rightarrow> 'w runtime \<Rightarrow> exn + 'w runtime" where
  "set_tenant_context context rt =
     (if \<not> TenantContext_is_valid context then Inl MissingTenantContextError
      else case rt_isolation rt of
        None \<Rightarrow> Inr (rt\<lparr>rt_tenant_context := Some context\<rparr>)
      | Some b \<Rightarrow>
          (case validate_tenant_context b context of
             Inl e \<Rightarrow> Inl e
           | Inr _ \<Rightarrow> Inr (rt\<lparr>rt_tenant_context := Some context\<rparr>)))"

definition host_agent :: "string \<Rightarrow> string list \<Rightarrow> time \<Rightarrow> 'w runtime \<Rightarrow> 'w runtime" where
  "host_agent agent_id capabilities now rt =
     rt\<lparr>rt_agents := dict_set agent_id \<lparr>ai_capabilities = capabilities, ai_hosted_at = now\<rparr> (rt_agents rt)\<rparr>"

definition get_agent :: "'w runtime \<Rightarrow> string \<Rightarrow> AgentInfo option" where
  "get_agent rt agent_id = dict_get (rt_agents rt) agent_id"

definition list_agents :: "'w runtime \<Rightarrow> string list" where
  "list_agents rt = dict_keys (rt_agents rt)"

definition drain :: "'w runtime \<Rightarrow> 'w runtime" where
  "drain rt =
     (if rt_state rt \<noteq> RS_RUNNING then rt
      else runtime_log LOG_INFO ''Runtime draining -- new executions rejected'' [] (rt\<lparr>rt_state := RS_DRAINING\<rparr>))"

definition stop :: "'w runtime \<Rightarrow> 'w runtime" where
  "stop rt =
     (if rt_state rt = RS_STOPPED then rt
      else runtime_incr ''runtime.shutdown.count''
             (runtime_log LOG_INFO ''Runtime stopped'' [] (rt\<lparr>rt_state := RS_STOPPED\<rparr>)))"

section \<open>The guarded body\<close>

text \<open>
  What an execution reads from outside: its identifier, the clock readings of the quota check, of
  the duration and of the checkpoint, and the readings of the tracer in program order.
\<close>

record ExecEnv =
  xe_uuid :: string
  xe_t_rate0 :: time
  xe_t_rate :: time
  xe_t_retry0 :: time
  xe_t_retry :: time
  xe_t_start :: time
  xe_t_end :: time
  xe_t_checkpoint :: time
  xe_trace :: "nat \<Rightarrow> time"

text \<open>The local variables of the body: tracer, correlated logger and the execution's state.\<close>

record 'w frame =
  fr_rt :: "'w runtime"
  fr_tracer :: "ExecutionTracer option"
  fr_logger :: "RuntimeLogger option"
  fr_state :: ExecutionState

type_synonym ('w, 'a) phase = "('w frame, ExecutionResult, 'a) body"

definition frame_log :: "LogLevel \<Rightarrow> string \<Rightarrow> pyobj \<Rightarrow> 'w frame \<Rightarrow> 'w frame" where
  "frame_log level message extra f =
     (case fr_logger f of None \<Rightarrow> f
      | Some lg \<Rightarrow> f\<lparr>fr_rt := (fr_rt f)\<lparr>rt_log := logger_log lg level message [] extra (rt_log (fr_rt f))\<rparr>\<rparr>)"

definition frame_incr :: "string \<Rightarrow> 'w frame \<Rightarrow> 'w frame" where
  "frame_incr metric f = f\<lparr>fr_rt := runtime_incr metric (fr_rt f)\<rparr>"

definition frame_record :: "string \<Rightarrow> rat \<Rightarrow> 'w frame \<Rightarrow> 'w frame" where
  "frame_record metric v f =
     f\<lparr>fr_rt := (fr_rt f)\<lparr>rt_metrics := map_option (metrics_record metric v) (rt_metrics (fr_rt f))\<rparr>\<rparr>"

definition goto :: "ExecutionState \<Rightarrow> ('w, unit) phase" where
  "goto target f =
     (case transition (fr_state f) target of
        Inl e \<Rightarrow> (Raised e, f)
      | Inr s \<Rightarrow> (Continue (), f\<lparr>fr_state := s\<rparr>))"

definition trace_start :: "TracePhase \<Rightarrow> time \<Rightarrow> ('w, unit) phase" where
  "trace_start ph now f =
     (case fr_tracer f of None \<Rightarrow> (Continue (), f)
      | Some tr \<Rightarrow> (case start_phase ph [] now now tr of
          Inl e \<Rightarrow> (Raised e, f)
        | Inr tr' \<Rightarrow> (Continue (), f\<lparr>fr_tracer := Some tr'\<rparr>)))"

definition trace_end :: "bool \<Rightarrow> string option \<Rightarrow> time \<Rightarrow> ('w, unit) phase" where
  "trace_end ok err now f =
     (case fr_tracer f of None \<Rightarrow> (Continue (), f)
      | Some tr \<Rightarrow> (case end_phase ok err now tr of
          Inl e \<Rightarrow> (Raised e, f)
        | Inr tr' \<Rightarrow> (Continue (), f\<lparr>fr_tracer := Some tr'\<rparr>)))"

text \<open>An awaited call of a collaborator inside \<^verbatim>\<open>try\<close>: its exception becomes a value.\<close>

definition call_world :: "('a, 'w) call \<Rightarrow> ('w, exn + 'a) phase" where
  "call_world c f =
     (let (r, w) = c (rt_world (fr_rt f)) in (Continue r, f\<lparr>fr_rt := (fr_rt f)\<lparr>rt_world := w\<rparr>\<rparr>))"

text \<open>
  The failure branches all do the same in this order: move to a failure state, close the trace
  phase, log, count, return a failed result.
\<close>

definition reject ::
  "ExecEnv \<Rightarrow> ExecutionState \<Rightarrow> string option \<Rightarrow> time \<Rightarrow> LogLevel \<Rightarrow> string \<Rightarrow> pyobj \<Rightarrow> string list \<Rightarrow>
   string \<Rightarrow> ('w, 'a) phase" where
  "reject env target terr now level message extra counters err =
     seq (modify (\<lambda>f. f\<lparr>fr_state := transition_safe (fr_state f) target\<rparr>)) (\<lambda>_.
     seq (trace_end False terr now) (\<lambda>_.
     seq (modify (frame_log level message extra)) (\<lambda>_.
     seq (modify (fold frame_incr counters)) (\<lambda>_ f.
       return (failure (xe_uuid env) err (fr_state f)) f))))"

definition advance :: "ExecutionState \<Rightarrow> TracePhase \<Rightarrow> time \<Rightarrow> time \<Rightarrow> ('w, unit) phase" where
  "advance target ph t_end t_start =
     seq (goto target) (\<lambda>_. seq (trace_end True None t_end) (\<lambda>_. trace_start ph t_start))"

definition policy_phase :: "'w abi \<Rightarrow> ExecEnv \<Rightarrow> Intent \<Rightarrow> ('w, unit) phase" where
  "policy_phase abi env intent =
     seq (call_world (evaluate_intent abi intent)) (\<lambda>r. case r of
       Inl e \<Rightarrow> reject env ES_HALTED (Some (exc_str e)) (xe_trace env 1) LOG_ERROR ''Policy evaluation error''
                 [(''error'', PyStr (exc_str e))] [''runtime.executions.failed'']
                 (''Policy evaluation error: '' @ exc_str e)
     | Inr (allowed, reason) \<Rightarrow>
         if \<not> allowed
         then reject env ES_FAILED reason (xe_trace env 1) LOG_WARNING ''Policy rejected''
                [(''reason'', py_opt_str reason)] [''runtime.policy.rejected'', ''runtime.executions.failed'']
                (or_str reason ''Policy rejected intent'')
         else advance ES_AUTHORIZED CAPABILITY_CHECK (xe_trace env 1) (xe_trace env 2))"

definition capability_phase :: "'w abi \<Rightarrow> ExecEnv \<Rightarrow> Intent \<Rightarrow> ('w, unit) phase" where
  "capability_phase abi env intent =
     seq (call_world (check_capability abi (in_action intent) (in_agent_id intent))) (\<lambda>r. case r of
       Inl e \<Rightarrow> reject env ES_FAILED (Some (exc_str e)) (xe_trace env 3) LOG_ERROR ''Capability check error''
                 [(''error'', PyStr (exc_str e))] [''runtime.executions.failed'']
                 (''Capability check error: '' @ exc_str e)
     | Inr (cap_allowed, cap_reason) \<Rightarrow>
         if \<not> cap_allowed
         then reject env ES_FAILED cap_reason (xe_trace env 3) LOG_WARNING ''Capability denied''
                [(''reason'', py_opt_str cap_reason), (''action'', PyStr (in_action intent))]
                [''runtime.capability.denied'', ''runtime.executions.failed'']
                (or_str cap_reason (''Capability not allowed for action: '' @ in_action intent))
         else advance ES_EXECUTING INTENT_ROUTING (xe_trace env 3) (xe_trace env 4))"

definition routing_phase :: "'w abi \<Rightarrow> ExecEnv \<Rightarrow> Intent \<Rightarrow> ('w, ExecutionPath) phase" where
  "routing_phase abi env intent =
     seq (call_world (route_intent abi intent)) (\<lambda>r. case r of
       Inl e \<Rightarrow> reject env ES_HALTED (Some (exc_str e)) (xe_trace env 5) LOG_ERROR ''Orchestration error''
                 [(''error'', PyStr (exc_str e))] [''runtime.executions.failed'']
                 (''Orchestration error: '' @ exc_str e)
     | Inr path \<Rightarrow>
         seq (trace_end True None (xe_trace env 5)) (\<lambda>_.
         seq (trace_start TOOL_EXECUTION (xe_trace env 6)) (\<lambda>_. go path)))"

definition gateway_phase :: "'w abi \<Rightarrow> ExecEnv \<Rightarrow> Intent \<Rightarrow> ExecutionPath \<Rightarrow> ('w, ToolResult) phase" where
  "gateway_phase abi env intent path =
     seq (call_world (access_tool abi path intent)) (\<lambda>r. case r of
       Inl e \<Rightarrow> reject env ES_FAILED (Some (exc_str e)) (xe_trace env 7) LOG_ERROR ''Gateway access failed''
                 [(''tool'', PyStr (xp_tool path)), (''error'', PyStr (exc_str e))]
                 [''runtime.gateway.error'', ''runtime.executions.failed'']
                 (''Gateway access error: '' @ exc_str e)
     | Inr tool_result \<Rightarrow>
         if \<not> tl_success tool_result
         then reject env ES_FAILED (tl_error tool_result) (xe_trace env 7) LOG_ERROR ''Tool execution failed''
                [(''error'', py_opt_str (tl_error tool_result))] [''runtime.executions.failed'']
                (or_str (tl_error tool_result) ''Tool execution failed'')
         else seq (advance ES_CHECKPOINTING CHECKPOINT_SAVE (xe_trace env 7) (xe_trace env 8)) (\<lambda>_. go tool_result))"

definition checkpoint_state :: "ExecEnv \<Rightarrow> Intent \<Rightarrow> TenantContext option \<Rightarrow> ToolResult \<Rightarrow> pyobj" where
  "checkpoint_state env intent tenant_ctx tool_result =
     [(''execution_id'', PyStr (xe_uuid env)),
      (''intent_action'', PyStr (in_action intent)),
      (''intent_agent'', PyStr (in_agent_id intent)),
      (''tool_result'', PyDict (tl_data tool_result)),
      (''timestamp'', PyStr (isoformat (xe_t_checkpoint env)))] @
     (case tenant_ctx of None \<Rightarrow> [] | Some c \<Rightarrow> [(''tenant_id'', PyStr (tc_tenant_id c))])"

definition checkpoint_phase ::
  "'w abi \<Rightarrow> ExecEnv \<Rightarrow> Intent \<Rightarrow> TenantContext option \<Rightarrow> ToolResult \<Rightarrow> ('w, string) phase" where
  "checkpoint_phase abi env intent tenant_ctx tool_result =
     seq (call_world (persist_save abi (xe_uuid env) (checkpoint_state env intent tenant_ctx tool_result))) (\<lambda>r. case r of
       Inl e \<Rightarrow> reject env ES_HALTED (Some (exc_str e)) (xe_trace env 9) LOG_ERROR ''Checkpoint save failed''
                 [(''error'', PyStr (exc_str e))] [''runtime.checkpoint.error'', ''runtime.executions.failed'']
                 (''Checkpoint save error: '' @ exc_str e)
     | Inr checkpoint_id \<Rightarrow>
         seq (advance ES_COMPLETED EXECUTION_COMPLETED (xe_trace env 9) (xe_trace env 10)) (\<lambda>_.
         seq (trace_end True None (xe_trace env 11)) (\<lambda>_. go checkpoint_id)))"

definition isolation_end :: "TenantContext option \<Rightarrow> 'w runtime \<Rightarrow> 'w runtime" where
  "isolation_end tenant_ctx rt =
     (case (rt_isolation rt, tenant_ctx) of
        (Some b, Some c) \<Rightarrow> rt\<lparr>rt_isolation := Some (Isolation_end_execution (tc_tenant_id c) b)\<rparr>
      | _ \<Rightarrow> rt)"

definition completion_phase ::
  "ExecEnv \<Rightarrow> TenantContext option \<Rightarrow> ToolResult \<Rightarrow> string \<Rightarrow> ('w, unit) phase" where
  "completion_phase env tenant_ctx tool_result checkpoint_id =
     (let elapsed = (xe_t_end env - xe_t_start env) * 1000 in
      seq (modify (\<lambda>f. f\<lparr>fr_rt := isolation_end tenant_ctx (fr_rt f)\<rparr>)) (\<lambda>_.
      seq (modify (frame_log LOG_INFO ''Execution completed''
             [(''checkpoint_id'', PyStr checkpoint_id), (''duration_ms'', PyFloat (round2 elapsed))])) (\<lambda>_.
      seq (modify (frame_incr ''runtime.executions.completed'')) (\<lambda>_.
      seq (modify (frame_record ''runtime.execution.duration_ms'' elapsed)) (\<lambda>_ f.
        return \<lparr>er_success = True, er_execution_id = xe_uuid env, er_checkpoint_id = Some checkpoint_id,
                er_data = tl_data tool_result, er_error = None, er_state = fr_state f\<rparr> f)))))"

definition observability_context :: "ExecEnv \<Rightarrow> Intent \<Rightarrow> TenantContext option \<Rightarrow> pyobj" where
  "observability_context env intent tenant_ctx =
     [(''execution_id'', PyStr (xe_uuid env)),
      (''tenant_id'', PyStr (case tenant_ctx of None \<Rightarrow> [] | Some c \<Rightarrow> tc_tenant_id c)),
      (''agent_id'', PyStr (in_agent_id intent)),
      (''intent_action'', PyStr (in_action intent))]"

definition guarded_frame :: "ExecEnv \<Rightarrow> Intent \<Rightarrow> TenantContext option \<Rightarrow> 'w runtime \<Rightarrow> 'w frame" where
  "guarded_frame env intent tenant_ctx rt =
     \<lparr>fr_rt = rt,
      fr_tracer = (if rt_tracer_cls rt
        then Some (ExecutionTracer_init (xe_uuid env) (in_agent_id intent) (in_action intent)
                     (case tenant_ctx of None \<Rightarrow> [] | Some c \<Rightarrow> tc_tenant_id c))
        else None),
      fr_logger = map_option (with_correlation (observability_context env intent tenant_ctx)) (rt_logger rt),
      fr_state = ES_CREATED\<rparr>"

definition start_guarded :: "ExecEnv \<Rightarrow> ('w, unit) phase" where
  "start_guarded env =
     seq (modify (frame_log LOG_INFO ''Execution started'' [])) (\<lambda>_.
     seq (modify (frame_incr ''runtime.executions.total'')) (\<lambda>_.
     seq (trace_start INTENT_RECEIVED (xe_trace env 0)) (\<lambda>_. goto ES_VALIDATING)))"

definition guarded_body :: "'w abi \<Rightarrow> ExecEnv \<Rightarrow> Intent \<Rightarrow> TenantContext option \<Rightarrow> ('w, unit) phase" where
  "guarded_body abi env intent tenant_ctx =
     seq (start_guarded env) (\<lambda>_.
     seq (policy_phase abi env intent) (\<lambda>_.
     seq (capability_phase abi env intent) (\<lambda>_.
     seq (routing_phase abi env intent) (\<lambda>path.
     seq (gateway_phase abi env intent path) (\<lambda>tool_result.
     seq (checkpoint_phase abi env intent tenant_ctx tool_result) (\<lambda>checkpoint_id.
       completion_phase env tenant_ctx tool_result checkpoint_id))))))"

definition execute_quota_guarded ::
  "'w abi \<Rightarrow> ExecEnv \<Rightarrow> Intent \<Rightarrow> TenantContext option \<Rightarrow> 'w runtime \<Rightarrow>
   (ExecutionResult, unit) outcome \<times> 'w frame" where
  "execute_quota_guarded abi env intent tenant_ctx rt =
     guarded_body abi env intent tenant_ctx (guarded_frame env intent tenant_ctx rt)"

section \<open>execute intent\<close>

type_synonym ('w, 'a) rt_body = "('w runtime, ExecutionResult, 'a) body"

definition isolation_gate :: "ExecEnv \<Rightarrow> ('w, unit) rt_body" where
  "isolation_gate env rt =
     (case rt_isolation rt of
        None \<Rightarrow> (Continue (), rt)
      | Some b \<Rightarrow>
          (case rt_tenant_context rt of
             None \<Rightarrow> (Returned (failure (xe_uuid env) ''No tenant context -- execution denied'' ES_CREATED), rt)
           | Some c \<Rightarrow>
               (case check_resource_limits b (tc_tenant_id c) of
                  Inl e \<Rightarrow> (Raised e, rt)
                | Inr _ \<Rightarrow> (Continue (), rt\<lparr>rt_isolation := Some (Isolation_start_execution (tc_tenant_id c) b)\<rparr>))))"

definition quota_tenant :: "'w runtime \<Rightarrow> string" where
  "quota_tenant rt = (case rt_tenant_context rt of None \<Rightarrow> [] | Some c \<Rightarrow> tc_tenant_id c)"

definition quota_gate :: "ExecEnv \<Rightarrow> ('w, bool) rt_body" where
  "quota_gate env rt =
     (let tid = quota_tenant rt in
      case rt_quota_manager rt of
        None \<Rightarrow> (Continue False, rt)
      | Some q \<Rightarrow>
          if tid = [] then (Continue False, rt)
          else if \<not> check_concurrent q tid
          then (Returned (failure (xe_uuid env)
                  (''Concurrent execution limit exceeded for tenant '' @ str_repr tid) ES_CREATED),
                runtime_incr ''resource.quota.exceeded'' rt)
          else
            let (ok, q1) = check_and_consume_rate tid (xe_t_rate0 env) (xe_t_rate env) q in
            if \<not> ok
            then
              let (retry, q2) = retry_after tid (xe_t_retry0 env) (xe_t_retry env) q1 in
              (case retry of
                 Inl e \<Rightarrow> (Raised e, rt\<lparr>rt_quota_manager := Some q2\<rparr>)
               | Inr s \<Rightarrow>
                   (Returned (failure (xe_uuid env)
                      (''Rate limit exceeded for tenant '' @ str_repr tid @ ''. Retry after '' @ fmt_1f s @ ''s'') ES_CREATED),
                    runtime_incr ''resource.rate_limit.hit'' (rt\<lparr>rt_quota_manager := Some q2\<rparr>)))
            else (Continue True,
                  rt\<lparr>rt_quota_manager := Some (Quota_start_execution tid (xe_uuid env) q1)\<rparr>))"

definition release_quota :: "ExecEnv \<Rightarrow> bool \<Rightarrow> 'w runtime \<Rightarrow> 'w runtime" where
  "release_quota env quota_acquired rt =
     (case rt_quota_manager rt of
        None \<Rightarrow> rt
      | Some q \<Rightarrow>
          if quota_acquired \<and> quota_tenant rt \<noteq> []
          then rt\<lparr>rt_quota_manager := Some (Quota_end_execution (quota_tenant rt) (xe_uuid env) q)\<rparr>
          else rt)"

definition shutdown_gate :: "ExecEnv \<Rightarrow> bool \<Rightarrow> ('w, unit) rt_body" where
  "shutdown_gate env quota_acquired rt =
     (case rt_state rt of
        RS_DRAINING \<Rightarrow>
          (Returned (failure (xe_uuid env) ''Runtime is draining'' ES_CREATED),
           runtime_incr ''runtime.executions.rejected''
             (runtime_log LOG_WARNING ''Execution rejected -- runtime draining'' [] (release_quota env quota_acquired rt)))
      | RS_STOPPED \<Rightarrow>
          (Returned (failure (xe_uuid env) ''Runtime is stopped'' ES_CREATED),
           runtime_incr ''runtime.executions.rejected''
             (runtime_log LOG_WARNING ''Execution rejected -- runtime stopped'' [] (release_quota env quota_acquired rt)))
      | RS_RUNNING \<Rightarrow> (Continue (), rt))"

definition run_guarded :: "'w abi \<Rightarrow> ExecEnv \<Rightarrow> Intent \<Rightarrow> bool \<Rightarrow> ('w, ExecutionResult) rt_body" where
  "run_guarded abi env intent quota_acquired rt =
     (case execute_quota_guarded abi env intent (rt_tenant_context rt) rt of
        (Raised e, f) \<Rightarrow> (Raised e, fr_rt f)
      | (Returned r, f) \<Rightarrow> (Continue r, release_quota env quota_acquired (fr_rt f))
      | (Continue _, f) \<Rightarrow> (Raised (PyRuntimeError ''unreachable: the body returns a result''), fr_rt f))"

definition execute_intent ::
  "'w abi \<Rightarrow> ExecEnv \<Rightarrow> Intent \<Rightarrow> 'w runtime \<Rightarrow> (exn + ExecutionResult) \<times> 'w runtime" where
  "execute_intent abi env intent rt =
     (let (out, rt') =
        seq (isolation_gate env) (\<lambda>_.
        seq (quota_gate env) (\<lambda>quota_acquired.
        seq (shutdown_gate env quota_acquired) (\<lambda>_.
          run_guarded abi env intent quota_acquired))) rt
      in (outcome_result out, rt'))"

section \<open>Checkpoint restore\<close>

definition restore_from_checkpoint ::
  "'w abi \<Rightarrow> string \<Rightarrow> string \<Rightarrow> string \<Rightarrow> 'w runtime \<Rightarrow> (exn + pyval) \<times> 'w runtime" where
  "restore_from_checkpoint abi checkpoint_id checkpoint_tenant checkpoint_agent rt =
     (case (case (rt_tenant_context rt, rt_isolation rt) of
              (Some c, Some b) \<Rightarrow>
                if checkpoint_tenant \<noteq> [] \<and> checkpoint_agent \<noteq> []
                then validate_checkpoint_owner checkpoint_tenant checkpoint_agent (tc_tenant_id c) (tc_agent_id c)
                else Inr True
            | _ \<Rightarrow> Inr True) of
        Inl e \<Rightarrow> (Inl e, rt)
      | Inr _ \<Rightarrow>
          (let (r, w) = persist_restore abi checkpoint_id (rt_world rt); rt' = rt\<lparr>rt_world := w\<rparr> in
           case r of
             Inr st \<Rightarrow> (Inr st, rt')
           | Inl (CheckpointPersistenceError op reason) \<Rightarrow> (Inl (CheckpointPersistenceError op reason), rt')
           | Inl e \<Rightarrow> (Inl (CheckpointPersistenceError ''restore'' (exc_str e)), rt')))"

end
