(* ===== verification/Runtime_Correctness.thy ===== *)
theory Runtime_Correctness
  imports Runtime
begin

text \<open>
  Correctness of \<^verbatim>\<open>KitematicRuntime\<close>: the guarded body refines the governance chain \<open>chain\<close>, which
  has no logging, metrics or tracing in it; the gates before it; the shutdown states; and what an
  execution leaves in the isolation and quota counters.
\<close>

section \<open>The governance chain\<close>

text \<open>The specification of an admitted execution: four collaborators asked in order, each answer decisive.\<close>

definition chain_persist ::
  "'w abi \<Rightarrow> ExecEnv \<Rightarrow> Intent \<Rightarrow> TenantContext option \<Rightarrow> ToolResult \<Rightarrow> 'w \<Rightarrow> ExecutionResult \<times> 'w" where
  "chain_persist abi env intent tenant_ctx tr w =
     (case persist_save abi (xe_uuid env) (checkpoint_state env intent tenant_ctx tr) w of
        (Inl e, w') \<Rightarrow> (failure (xe_uuid env) (''Checkpoint save error: '' @ exc_str e) ES_HALTED, w')
      | (Inr cid, w') \<Rightarrow>
          (\<lparr>er_success = True, er_execution_id = xe_uuid env, er_checkpoint_id = Some cid,
            er_data = tl_data tr, er_error = None, er_state = ES_COMPLETED\<rparr>, w'))"

definition chain_access ::
  "'w abi \<Rightarrow> ExecEnv \<Rightarrow> Intent \<Rightarrow> TenantContext option \<Rightarrow> ExecutionPath \<Rightarrow> 'w \<Rightarrow> ExecutionResult \<times> 'w" where
  "chain_access abi env intent tenant_ctx path w =
     (case access_tool abi path intent w of
        (Inl e, w') \<Rightarrow> (failure (xe_uuid env) (''Gateway access error: '' @ exc_str e) ES_FAILED, w')
      | (Inr tr, w') \<Rightarrow>
          if tl_success tr then chain_persist abi env intent tenant_ctx tr w'
          else (failure (xe_uuid env) (or_str (tl_error tr) ''Tool execution failed'') ES_FAILED, w'))"

definition chain_route ::
  "'w abi \<Rightarrow> ExecEnv \<Rightarrow> Intent \<Rightarrow> TenantContext option \<Rightarrow> 'w \<Rightarrow> ExecutionResult \<times> 'w" where
  "chain_route abi env intent tenant_ctx w =
     (case route_intent abi intent w of
        (Inl e, w') \<Rightarrow> (failure (xe_uuid env) (''Orchestration error: '' @ exc_str e) ES_HALTED, w')
      | (Inr path, w') \<Rightarrow> chain_access abi env intent tenant_ctx path w')"

definition chain_capability ::
  "'w abi \<Rightarrow> ExecEnv \<Rightarrow> Intent \<Rightarrow> TenantContext option \<Rightarrow> 'w \<Rightarrow> ExecutionResult \<times> 'w" where
  "chain_capability abi env intent tenant_ctx w =
     (case check_capability abi (in_action intent) (in_agent_id intent) w of
        (Inl e, w') \<Rightarrow> (failure (xe_uuid env) (''Capability check error: '' @ exc_str e) ES_FAILED, w')
      | (Inr (allowed, reason), w') \<Rightarrow>
          if allowed then chain_route abi env intent tenant_ctx w'
          else (failure (xe_uuid env)
                 (or_str reason (''Capability not allowed for action: '' @ in_action intent)) ES_FAILED, w'))"

definition chain ::
  "'w abi \<Rightarrow> ExecEnv \<Rightarrow> Intent \<Rightarrow> TenantContext option \<Rightarrow> 'w \<Rightarrow> ExecutionResult \<times> 'w" where
  "chain abi env intent tenant_ctx w =
     (case evaluate_intent abi intent w of
        (Inl e, w') \<Rightarrow> (failure (xe_uuid env) (''Policy evaluation error: '' @ exc_str e) ES_HALTED, w')
      | (Inr (allowed, reason), w') \<Rightarrow>
          if allowed then chain_capability abi env intent tenant_ctx w'
          else (failure (xe_uuid env) (or_str reason ''Policy rejected intent'') ES_FAILED, w'))"

text \<open>Everything of the runtime that is not an observation of it.\<close>

definition core :: "'w runtime \<Rightarrow> 'w runtime" where
  "core rt = rt\<lparr>rt_log := [], rt_metrics := None\<rparr>"

text \<open>
  \<open>pending rt n\<close>: of the executions counted as started, \<open>n\<close> are not yet counted as completed or failed.
\<close>

definition pending :: "'w runtime \<Rightarrow> int \<Rightarrow> bool" where
  "pending rt n \<longleftrightarrow> (\<forall>m. rt_metrics rt = Some m \<longrightarrow>
     get_counter m ''runtime.executions.total'' =
     get_counter m ''runtime.executions.completed'' + get_counter m ''runtime.executions.failed'' + n)"

definition trace_phases :: "'w frame \<Rightarrow> TracePhase list" where
  "trace_phases f = (case fr_tracer f of None \<Rightarrow> [] | Some tr \<Rightarrow> map te_phase (tr_entries tr))"

definition trace_flags :: "'w frame \<Rightarrow> bool list" where
  "trace_flags f = (case fr_tracer f of None \<Rightarrow> [] | Some tr \<Rightarrow> map te_success (tr_entries tr))"

text \<open>The frame between two phases, and after the last one.\<close>

definition running_at ::
  "'w frame \<Rightarrow> 'w runtime \<Rightarrow> int \<Rightarrow> ExecutionState \<Rightarrow> TracePhase list \<Rightarrow> TracePhase \<Rightarrow> bool" where
  "running_at f rt n st phs ph \<longleftrightarrow>
     core (fr_rt f) = core rt \<and> pending (fr_rt f) n \<and> fr_state f = st \<and>
     (\<forall>tr. fr_tracer f = Some tr \<longrightarrow> tr_current_phase tr = Some ph \<and> trace_phases f = phs \<and>
        trace_flags f = replicate (length phs) True)"

definition ended_at :: "'w frame \<Rightarrow> 'w runtime \<Rightarrow> int \<Rightarrow> TracePhase list \<Rightarrow> bool \<Rightarrow> bool" where
  "ended_at f rt n phs ok \<longleftrightarrow>
     core (fr_rt f) = core rt \<and> pending (fr_rt f) n \<and>
     (\<forall>tr. fr_tracer f = Some tr \<longrightarrow> tr_current_phase tr = None \<and> trace_phases f = phs \<and>
        trace_flags f = replicate (length phs - 1) True @ [ok])"

lemma core_idem [simp]: "core (core rt) = core rt"
  by (simp add: core_def)

lemma core_fields:
  assumes "core rt = core rt'"
  shows "rt_isolation rt = rt_isolation rt'" "rt_world rt = rt_world rt'" "rt_state rt = rt_state rt'"
    "rt_quota_manager rt = rt_quota_manager rt'" "rt_tenant_context rt = rt_tenant_context rt'"
    "rt_agents rt = rt_agents rt'" "rt_logger rt = rt_logger rt'" "rt_tracer_cls rt = rt_tracer_cls rt'"
  using assms by (cases rt; cases rt'; simp add: core_def)+

lemma core_world: "core rt = core rt' \<Longrightarrow> core (rt\<lparr>rt_world := w\<rparr>) = core (rt'\<lparr>rt_world := w\<rparr>)"
  by (cases rt; cases rt') (simp add: core_def)

lemma core_observe [simp]:
  "core (rt\<lparr>rt_log := l\<rparr>) = core rt" "core (rt\<lparr>rt_metrics := m\<rparr>) = core rt"
  "core (runtime_incr k rt) = core rt" "core (runtime_log lv msg ex rt) = core rt"
  by (simp_all add: core_def runtime_incr_def runtime_log_def split: option.splits)

section \<open>Bookkeeping inside a phase\<close>

lemma frame_log_fields [simp]:
  "fr_tracer (frame_log lv msg ex f) = fr_tracer f" "fr_state (frame_log lv msg ex f) = fr_state f"
  "fr_logger (frame_log lv msg ex f) = fr_logger f"
  "core (fr_rt (frame_log lv msg ex f)) = core (fr_rt f)"
  "rt_metrics (fr_rt (frame_log lv msg ex f)) = rt_metrics (fr_rt f)"
  by (simp_all add: frame_log_def split: option.splits)

lemma frame_incr_fields [simp]:
  "fr_tracer (frame_incr k f) = fr_tracer f" "fr_state (frame_incr k f) = fr_state f"
  "core (fr_rt (frame_incr k f)) = core (fr_rt f)"
  "rt_metrics (fr_rt (frame_incr k f)) = map_option (increment k) (rt_metrics (fr_rt f))"
  by (simp_all add: frame_incr_def runtime_incr_def)

lemma frame_record_fields [simp]:
  "fr_tracer (frame_record k v f) = fr_tracer f" "fr_state (frame_record k v f) = fr_state f"
  "core (fr_rt (frame_record k v f)) = core (fr_rt f)"
  "rt_metrics (fr_rt (frame_record k v f)) = map_option (metrics_record k v) (rt_metrics (fr_rt f))"
  by (simp_all add: frame_record_def)

lemma goto_ok:
  "running_at f rt n st phs ph \<Longrightarrow> is_valid_transition st st' \<Longrightarrow>
     \<exists>f'. goto st' f = (Continue (), f') \<and> running_at f' rt n st' phs ph"
  by (simp add: goto_def running_at_def transition_def trace_phases_def trace_flags_def)

lemma trace_end_ok:
  assumes "running_at f rt n st phs ph"
  shows "\<exists>f'. trace_end ok err now f = (Continue (), f') \<and> fr_rt f' = fr_rt f \<and> fr_state f' = fr_state f \<and>
           fr_logger f' = fr_logger f \<and> ended_at f' rt n (phs @ [ph]) ok"
proof (cases "fr_tracer f")
  case None
  with assms show ?thesis by (simp add: trace_end_def running_at_def ended_at_def)
next
  case (Some tr)
  with assms have "tr_current_phase tr = Some ph" by (simp add: running_at_def)
  from end_phase_active [OF this, of ok err now] Some assms show ?thesis
    by (auto simp: trace_end_def running_at_def ended_at_def trace_phases_def trace_flags_def)
qed

lemma trace_start_ok:
  assumes "ended_at f rt n phs True" "fr_state f = st" "phs \<noteq> []"
  shows "\<exists>f'. trace_start ph now f = (Continue (), f') \<and> running_at f' rt n st phs ph"
proof (cases "fr_tracer f")
  case None
  with assms show ?thesis by (simp add: trace_start_def running_at_def ended_at_def)
next
  case (Some tr)
  have flags: "replicate (length phs - 1) True @ [True] = replicate (length phs) True"
    using assms(3) by (cases phs) (simp_all add: replicate_append_same)
  have "tr_current_phase tr = None" "trace_flags f = replicate (length phs) True"
    using Some assms(1) unfolding ended_at_def flags by auto
  with Some assms show ?thesis
    by (simp add: trace_start_def start_phase_idle running_at_def ended_at_def trace_phases_def
        trace_flags_def)
qed

text \<open>A part of the body that returns a result, and one that hands over to the next part.\<close>

definition halts_with ::
  "('w, 'a) phase \<Rightarrow> 'w frame \<Rightarrow> 'w runtime \<Rightarrow> int \<Rightarrow> TracePhase list \<Rightarrow> ExecutionResult \<Rightarrow> bool" where
  "halts_with m f rt n phs res \<longleftrightarrow>
     (\<exists>f'. m f = (Returned res, f') \<and> ended_at f' rt n phs (er_success res))"

definition proceeds ::
  "('w, 'a) phase \<Rightarrow> 'w frame \<Rightarrow> 'w runtime \<Rightarrow> int \<Rightarrow> ExecutionState \<Rightarrow> TracePhase list \<Rightarrow> TracePhase \<Rightarrow>
   'a \<Rightarrow> bool" where
  "proceeds m f rt n st phs ph a \<longleftrightarrow> (\<exists>f'. m f = (Continue a, f') \<and> running_at f' rt n st phs ph)"

lemma seq_halts: "halts_with m f rt n phs res \<Longrightarrow> halts_with (seq m k) f rt n phs res"
  by (auto simp: halts_with_def)

lemma seq_proceeds:
  assumes "proceeds m f rt n st phs ph a"
    and "\<And>f'. running_at f' rt n st phs ph \<Longrightarrow> halts_with (k a) f' rt' n' phs' res"
  shows "halts_with (seq m k) f rt' n' phs' res"
  using assms by (fastforce simp: halts_with_def proceeds_def)

lemma seq_proceeds2:
  assumes "proceeds m f rt n st phs ph a"
    and "\<And>f'. running_at f' rt n st phs ph \<Longrightarrow> proceeds (k a) f' rt' n' st' phs' ph' b"
  shows "proceeds (seq m k) f rt' n' st' phs' ph' b"
  using assms by (fastforce simp: proceeds_def)

lemma proceeds_go: "running_at f rt n st phs ph \<Longrightarrow> proceeds (go a) f rt n st phs ph a"
  by (simp add: proceeds_def)

lemma reject_ok:
  assumes "running_at f rt (n + 1) st phs ph"
    and "counters = [''runtime.executions.failed''] \<or>
         (\<exists>c. counters = [c, ''runtime.executions.failed''] \<and>
            c \<in> {''runtime.policy.rejected'', ''runtime.capability.denied'', ''runtime.gateway.error'',
                 ''runtime.checkpoint.error''})"
  shows "halts_with (reject env tgt terr now lv msg ex counters err) f rt n (phs @ [ph])
           (failure (xe_uuid env) err (transition_safe st tgt))"
proof -
  define f0 where "f0 = f\<lparr>fr_state := transition_safe (fr_state f) tgt\<rparr>"
  have at0: "running_at f0 rt (n + 1) (transition_safe st tgt) phs ph"
    using assms(1) by (simp add: f0_def running_at_def trace_phases_def trace_flags_def)
  obtain f1 where f1: "trace_end False terr now f0 = (Continue (), f1)"
      "fr_state f1 = fr_state f0" "ended_at f1 rt (n + 1) (phs @ [ph]) False"
    using trace_end_ok [OF at0] by blast
  define f2 where "f2 = fold frame_incr counters (frame_log lv msg ex f1)"
  have f2: "fr_tracer f2 = fr_tracer f1" "fr_state f2 = fr_state f1" "core (fr_rt f2) = core (fr_rt f1)"
    using assms(2) by (auto simp: f2_def)
  have "pending (fr_rt f2) n"
    using assms(2) f1(3) unfolding f2_def ended_at_def pending_def
    by (elim disjE exE conjE) auto
  then have "ended_at f2 rt n (phs @ [ph]) False"
    using f1(3) f2 by (simp add: ended_at_def trace_phases_def trace_flags_def)
  then show ?thesis
    using f1 f2 at0 unfolding halts_with_def
    by (intro exI [of _ f2]) (simp add: reject_def seq_def f0_def f2_def running_at_def)
qed

lemma advance_ok:
  assumes "running_at f rt n st phs ph" "is_valid_transition st st'"
  shows "proceeds (advance st' ph' t1 t2) f rt n st' (phs @ [ph]) ph' ()"
proof -
  obtain f1 where f1: "goto st' f = (Continue (), f1)" "running_at f1 rt n st' phs ph"
    using goto_ok [OF assms] by blast
  obtain f2 where f2: "trace_end True None t1 f1 = (Continue (), f2)" "fr_state f2 = fr_state f1"
      "ended_at f2 rt n (phs @ [ph]) True"
    using trace_end_ok [OF f1(2)] by blast
  have "fr_state f2 = st'" using f1 f2 by (simp add: running_at_def)
  then show ?thesis
    using trace_start_ok [OF f2(3)] f1 f2 by (simp add: advance_def proceeds_def)
qed

lemma call_world_ok:
  assumes "running_at f rt n st phs ph" "c (rt_world rt) = (r, w)"
  shows "proceeds (call_world c) f (rt\<lparr>rt_world := w\<rparr>) n st phs ph r"
  using assms core_fields(2) [of "fr_rt f" rt]
  by (auto simp: proceeds_def call_world_def running_at_def trace_phases_def trace_flags_def pending_def intro!: core_world)

section \<open>The phases refine the chain\<close>

lemma completion_ok:
  assumes "running_at f rt (n + 1) ES_COMPLETED phs ph" and f': "trace_end True None t f = (Continue (), f')"
  shows "halts_with (completion_phase env ctx tr cid) f' (isolation_end ctx rt) n (phs @ [ph])
     \<lparr>er_success = True, er_execution_id = xe_uuid env, er_checkpoint_id = Some cid,
      er_data = tl_data tr, er_error = None, er_state = ES_COMPLETED\<rparr>"
proof -
  have at: "ended_at f' rt (n + 1) (phs @ [ph]) True" "fr_state f' = ES_COMPLETED"
    using trace_end_ok [OF assms(1), of True None t] f' assms(1) by (auto simp: running_at_def)
  have iso: "core (isolation_end ctx (fr_rt f')) = core (isolation_end ctx rt)"
    "rt_metrics (isolation_end ctx (fr_rt f')) = rt_metrics (fr_rt f')"
    using at(1) core_fields(1) [of "fr_rt f'" rt] unfolding ended_at_def isolation_end_def
    by (cases rt; cases "fr_rt f'"; auto simp: core_def split: option.splits)+
  then show ?thesis
    using at
    by (simp add: halts_with_def completion_phase_def seq_def ended_at_def Let_def trace_phases_def
        trace_flags_def pending_def) auto
qed

text \<open>What the runtime keeps of an execution: the collaborators' new state, and on success a freed isolation slot.\<close>

definition settled :: "TenantContext option \<Rightarrow> ExecutionResult \<times> 'w \<Rightarrow> 'w runtime \<Rightarrow> 'w runtime" where
  "settled ctx rw rt =
     (if er_success (fst rw) then isolation_end ctx (rt\<lparr>rt_world := snd rw\<rparr>) else rt\<lparr>rt_world := snd rw\<rparr>)"

lemma transition_safe_failures [simp]:
  "st \<in> {ES_VALIDATING, ES_AUTHORIZED, ES_EXECUTING} \<Longrightarrow> transition_safe st ES_FAILED = ES_FAILED"
  "st \<in> {ES_VALIDATING, ES_AUTHORIZED, ES_EXECUTING, ES_CHECKPOINTING} \<Longrightarrow> transition_safe st ES_HALTED = ES_HALTED"
  by (auto simp: transition_safe_def)

lemma settled_world: "settled ctx rw (rt\<lparr>rt_world := w\<rparr>) = settled ctx rw rt"
  by (simp add: settled_def)

lemma settled_failure: "settled ctx (failure eid err st, w) rt = rt\<lparr>rt_world := w\<rparr>"
  by (simp add: settled_def)

definition persist_part where
  "persist_part abi env intent ctx tr =
     seq (checkpoint_phase abi env intent ctx tr) (\<lambda>cid. completion_phase env ctx tr cid)"

definition access_part where
  "access_part abi env intent ctx path =
     seq (gateway_phase abi env intent path) (\<lambda>tr. persist_part abi env intent ctx tr)"

definition route_part where
  "route_part abi env intent ctx =
     seq (routing_phase abi env intent) (\<lambda>path. access_part abi env intent ctx path)"

definition capability_part where
  "capability_part abi env intent ctx =
     seq (capability_phase abi env intent) (\<lambda>_. route_part abi env intent ctx)"

lemma guarded_body_parts:
  "guarded_body abi env intent ctx =
     seq (start_guarded env) (\<lambda>_. seq (policy_phase abi env intent) (\<lambda>_. capability_part abi env intent ctx))"
  by (simp add: guarded_body_def capability_part_def route_part_def access_part_def persist_part_def)

text \<open>
  The trace of a part is a non-empty prefix of its phases, complete exactly on success. A part that
  is refused ends in its first phase; one that goes on leaves the rest to the next part.
\<close>

definition halts_within ::
  "('w, 'a) phase \<Rightarrow> 'w frame \<Rightarrow> 'w runtime \<Rightarrow> int \<Rightarrow> TracePhase list \<Rightarrow> TracePhase list \<Rightarrow> ExecutionResult \<Rightarrow>
   bool" where
  "halts_within m f rt n phs rest res \<longleftrightarrow>
     (\<exists>ps. ps \<noteq> [] \<and> prefix ps rest \<and> (er_success res \<longleftrightarrow> ps = rest) \<and> halts_with m f rt n (phs @ ps) res)"

lemma halts_now:
  "halts_with m f rt n (phs @ [ph]) res \<Longrightarrow> \<not> er_success res \<Longrightarrow> rest \<noteq> [] \<Longrightarrow>
     halts_within (seq m k) f rt n phs (ph # rest) res"
  unfolding halts_within_def by (rule exI [of _ "[ph]"]) (auto intro: seq_halts)

lemma halts_later:
  assumes "proceeds m f rt n st (phs @ [ph]) ph' a"
    and "\<And>f'. running_at f' rt n st (phs @ [ph]) ph' \<Longrightarrow> halts_within (k a) f' rt' n' (phs @ [ph]) rest res"
  shows "halts_within (seq m k) f rt' n' phs (ph # rest) res"
proof -
  obtain f' where f': "m f = (Continue a, f')" "running_at f' rt n st (phs @ [ph]) ph'"
    using assms(1) by (auto simp: proceeds_def)
  obtain ps where ps: "ps \<noteq> []" "prefix ps rest" "er_success res \<longleftrightarrow> ps = rest"
      "halts_with (k a) f' rt' n' ((phs @ [ph]) @ ps) res"
    using assms(2) [OF f'(2)] by (auto simp: halts_within_def)
  show ?thesis
    unfolding halts_within_def using ps f' by (intro exI [of _ "ph # ps"]) (simp add: halts_with_def)
qed

lemma reject_halts:
  assumes "running_at f rt (n + 1) st phs ph" "transition_safe st tgt = st'"
    and "counters = [''runtime.executions.failed''] \<or>
         (\<exists>c. counters = [c, ''runtime.executions.failed''] \<and>
            c \<in> {''runtime.policy.rejected'', ''runtime.capability.denied'', ''runtime.gateway.error'',
                 ''runtime.checkpoint.error''})"
  shows "halts_with (reject env tgt terr now lv msg ex counters err) f rt n (phs @ [ph])
           (failure (xe_uuid env) err st')"
  unfolding assms(2) [symmetric] by (rule reject_ok [OF assms(1,3)])

lemma persist_part_ok:
  assumes "running_at f rt (n + 1) ES_CHECKPOINTING phs CHECKPOINT_SAVE"
    and rw: "rw = chain_persist abi env intent ctx tr (rt_world rt)"
  shows "halts_within (persist_part abi env intent ctx tr) f (settled ctx rw rt) n phs
           [CHECKPOINT_SAVE, EXECUTION_COMPLETED] (fst rw)"
proof -
  obtain r w where c: "persist_save abi (xe_uuid env) (checkpoint_state env intent ctx tr) (rt_world rt) = (r, w)"
    by fastforce
  note call = call_world_ok [OF assms(1), where c = "persist_save abi (xe_uuid env) (checkpoint_state env intent ctx tr)", OF c]
  show ?thesis
  proof (cases r)
    case (Inl e)
    have res: "rw = (failure (xe_uuid env) (''Checkpoint save error: '' @ exc_str e) ES_HALTED, w)"
      by (simp add: rw chain_persist_def c Inl)
    have "halts_with (checkpoint_phase abi env intent ctx tr) f (settled ctx rw rt) n (phs @ [CHECKPOINT_SAVE]) (fst rw)"
      unfolding checkpoint_phase_def
      by (rule seq_proceeds [OF call]) (simp add: Inl res settled_failure reject_halts)
    then show ?thesis
      unfolding persist_part_def by (rule halts_now) (simp_all add: res)
  next
    case (Inr cid)
    let ?rt = "rt\<lparr>rt_world := w\<rparr>" and ?phs = "phs @ [CHECKPOINT_SAVE]"
    have res: "fst rw = \<lparr>er_success = True, er_execution_id = xe_uuid env, er_checkpoint_id = Some cid,
        er_data = tl_data tr, er_error = None, er_state = ES_COMPLETED\<rparr>" "snd rw = w"
      by (simp_all add: rw chain_persist_def c Inr)
    have tail: "halts_with (seq (trace_end True None t) (\<lambda>_. seq (go cid) (\<lambda>cid. completion_phase env ctx tr cid))) f'
            (settled ctx rw rt) n (?phs @ [EXECUTION_COMPLETED]) (fst rw)"
      if at: "running_at f' ?rt (n + 1) ES_COMPLETED ?phs EXECUTION_COMPLETED" for f' t
    proof -
      obtain f'' where f'': "trace_end True None t f' = (Continue (), f'')"
        using trace_end_ok [OF at] by blast
      show ?thesis
        using completion_ok [OF at f''] f'' by (simp add: res settled_def halts_with_def seq_def)
    qed
    have "halts_with (persist_part abi env intent ctx tr) f (settled ctx rw rt) n (?phs @ [EXECUTION_COMPLETED]) (fst rw)"
      unfolding persist_part_def checkpoint_phase_def seq_assoc
      by (rule seq_proceeds [OF call], simp add: Inr seq_assoc, rule seq_proceeds [OF advance_ok], assumption, simp)
        (use tail in simp)
    then show ?thesis
      by (auto simp: halts_within_def res intro!: exI [of _ "[CHECKPOINT_SAVE, EXECUTION_COMPLETED]"])
  qed
qed

lemma gateway_phase_granted:
  assumes "running_at f rt (n + 1) ES_EXECUTING phs TOOL_EXECUTION"
    and c: "access_tool abi path intent (rt_world rt) = (Inr tr, w)" and "tl_success tr"
  shows "proceeds (gateway_phase abi env intent path) f (rt\<lparr>rt_world := w\<rparr>) (n + 1) ES_CHECKPOINTING
           (phs @ [TOOL_EXECUTION]) CHECKPOINT_SAVE tr"
  unfolding gateway_phase_def
  by (rule seq_proceeds2 [OF call_world_ok [OF assms(1), where c = "access_tool abi path intent", OF c]], simp add: assms(3))
    (rule seq_proceeds2 [OF advance_ok], assumption, simp, rule proceeds_go)

lemma gateway_phase_refused:
  assumes "running_at f rt (n + 1) ES_EXECUTING phs TOOL_EXECUTION"
    and c: "access_tool abi path intent (rt_world rt) = (r, w)" and no: "\<nexists>tr. r = Inr tr \<and> tl_success tr"
    and rw: "rw = chain_access abi env intent ctx path (rt_world rt)"
  shows "halts_with (gateway_phase abi env intent path) f (settled ctx rw rt) n (phs @ [TOOL_EXECUTION]) (fst rw) \<and> \<not> er_success (fst rw)"
proof
  show "halts_with (gateway_phase abi env intent path) f (settled ctx rw rt) n (phs @ [TOOL_EXECUTION]) (fst rw)"
    unfolding gateway_phase_def
    by (rule seq_proceeds [OF call_world_ok [OF assms(1), where c = "access_tool abi path intent", OF c]])
      (use no in \<open>auto simp: rw chain_access_def c settled_failure reject_halts split: sum.splits\<close>)
  show "\<not> er_success (fst rw)" using no by (auto simp: rw chain_access_def c split: sum.splits)
qed

lemma access_part_ok:
  assumes at: "running_at f rt (n + 1) ES_EXECUTING phs TOOL_EXECUTION"
    and rw: "rw = chain_access abi env intent ctx path (rt_world rt)"
  shows "halts_within (access_part abi env intent ctx path) f (settled ctx rw rt) n phs
           [TOOL_EXECUTION, CHECKPOINT_SAVE, EXECUTION_COMPLETED] (fst rw)"
proof -
  obtain r w where c: "access_tool abi path intent (rt_world rt) = (r, w)" by fastforce
  show ?thesis
  proof (cases "\<exists>tr. r = Inr tr \<and> tl_success tr")
    case True
    then obtain tr where r: "r = Inr tr" "tl_success tr" by blast
    have res: "rw = chain_persist abi env intent ctx tr w" by (simp add: rw chain_access_def c r)
    show ?thesis
      unfolding access_part_def by (rule halts_later [OF gateway_phase_granted [OF at c [unfolded r(1)] r(2)]])
        (use persist_part_ok res in \<open>fastforce simp: settled_world\<close>)
  next
    case False
    from gateway_phase_refused [OF at c False rw] show ?thesis
      unfolding access_part_def by (auto intro: halts_now)
  qed
qed

lemma routing_phase_granted:
  assumes "running_at f rt (n + 1) ES_EXECUTING phs INTENT_ROUTING"
    and c: "route_intent abi intent (rt_world rt) = (Inr path, w)"
  shows "proceeds (routing_phase abi env intent) f (rt\<lparr>rt_world := w\<rparr>) (n + 1) ES_EXECUTING
           (phs @ [INTENT_ROUTING]) TOOL_EXECUTION path"
proof -
  have step: "proceeds (seq (trace_end True None t) (\<lambda>_. seq (trace_start TOOL_EXECUTION t') (\<lambda>_. go path))) f'
      (rt\<lparr>rt_world := w\<rparr>) (n + 1) ES_EXECUTING (phs @ [INTENT_ROUTING]) TOOL_EXECUTION path"
    if at: "running_at f' (rt\<lparr>rt_world := w\<rparr>) (n + 1) ES_EXECUTING phs INTENT_ROUTING" for f' t t'
  proof -
    obtain g where g: "trace_end True None t f' = (Continue (), g)" "fr_state g = fr_state f'"
        "ended_at g (rt\<lparr>rt_world := w\<rparr>) (n + 1) (phs @ [INTENT_ROUTING]) True"
      using trace_end_ok [OF at] by blast
    then show ?thesis
      using trace_start_ok [OF g(3), of ES_EXECUTING TOOL_EXECUTION t'] at
      by (auto simp: proceeds_def running_at_def)
  qed
  show ?thesis
    unfolding routing_phase_def
    by (rule seq_proceeds2 [OF call_world_ok [OF assms(1), where c = "route_intent abi intent", OF c]]) (simp add: step)
qed

lemma routing_phase_refused:
  assumes "running_at f rt (n + 1) ES_EXECUTING phs INTENT_ROUTING"
    and c: "route_intent abi intent (rt_world rt) = (Inl e, w)"
    and rw: "rw = chain_route abi env intent ctx (rt_world rt)"
  shows "halts_with (routing_phase abi env intent) f (settled ctx rw rt) n (phs @ [INTENT_ROUTING]) (fst rw) \<and> \<not> er_success (fst rw)"
proof
  show "halts_with (routing_phase abi env intent) f (settled ctx rw rt) n (phs @ [INTENT_ROUTING]) (fst rw)"
    unfolding routing_phase_def
    by (rule seq_proceeds [OF call_world_ok [OF assms(1), where c = "route_intent abi intent", OF c]])
      (simp add: rw chain_route_def c settled_failure reject_halts)
  show "\<not> er_success (fst rw)" by (simp add: rw chain_route_def c)
qed

lemma route_part_ok:
  assumes at: "running_at f rt (n + 1) ES_EXECUTING phs INTENT_ROUTING"
    and rw: "rw = chain_route abi env intent ctx (rt_world rt)"
  shows "halts_within (route_part abi env intent ctx) f (settled ctx rw rt) n phs
           [INTENT_ROUTING, TOOL_EXECUTION, CHECKPOINT_SAVE, EXECUTION_COMPLETED] (fst rw)"
proof -
  obtain r w where c: "route_intent abi intent (rt_world rt) = (r, w)" by fastforce
  show ?thesis
  proof (cases r)
    case (Inr path)
    have res: "rw = chain_access abi env intent ctx path w" by (simp add: rw chain_route_def c Inr)
    show ?thesis
      unfolding route_part_def by (rule halts_later [OF routing_phase_granted [OF at c [unfolded Inr]]])
        (use access_part_ok res in \<open>fastforce simp: settled_world\<close>)
  next
    case (Inl e)
    from routing_phase_refused [OF at c [unfolded Inl] rw] show ?thesis
      unfolding route_part_def by (auto intro: halts_now)
  qed
qed

lemma capability_phase_granted:
  assumes "running_at f rt (n + 1) ES_AUTHORIZED phs CAPABILITY_CHECK"
    and c: "check_capability abi (in_action intent) (in_agent_id intent) (rt_world rt) = (Inr (True, reason), w)"
  shows "proceeds (capability_phase abi env intent) f (rt\<lparr>rt_world := w\<rparr>) (n + 1) ES_EXECUTING (phs @ [CAPABILITY_CHECK]) INTENT_ROUTING ()"
  unfolding capability_phase_def
  by (rule seq_proceeds2 [OF call_world_ok [OF assms(1), where c = "check_capability abi (in_action intent) (in_agent_id intent)", OF c]])
    (simp, rule advance_ok, assumption, simp)

lemma capability_phase_refused:
  assumes "running_at f rt (n + 1) ES_AUTHORIZED phs CAPABILITY_CHECK"
    and c: "check_capability abi (in_action intent) (in_agent_id intent) (rt_world rt) = (r, w)" and no: "\<nexists>reason. r = Inr (True, reason)"
    and rw: "rw = chain_capability abi env intent ctx (rt_world rt)"
  shows "halts_with (capability_phase abi env intent) f (settled ctx rw rt) n (phs @ [CAPABILITY_CHECK]) (fst rw) \<and> \<not> er_success (fst rw)"
proof
  show "halts_with (capability_phase abi env intent) f (settled ctx rw rt) n (phs @ [CAPABILITY_CHECK]) (fst rw)"
    unfolding capability_phase_def
    by (rule seq_proceeds [OF call_world_ok [OF assms(1), where c = "check_capability abi (in_action intent) (in_agent_id intent)", OF c]])
      (use no in \<open>auto simp: rw chain_capability_def c settled_failure reject_halts split: sum.splits\<close>)
  show "\<not> er_success (fst rw)" using no by (auto simp: rw chain_capability_def c split: sum.splits)
qed

lemma capability_part_ok:
  assumes at: "running_at f rt (n + 1) ES_AUTHORIZED phs CAPABILITY_CHECK"
    and rw: "rw = chain_capability abi env intent ctx (rt_world rt)"
  shows "halts_within (capability_part abi env intent ctx) f (settled ctx rw rt) n phs
           [CAPABILITY_CHECK, INTENT_ROUTING, TOOL_EXECUTION, CHECKPOINT_SAVE, EXECUTION_COMPLETED] (fst rw)"
proof -
  obtain r w where c: "check_capability abi (in_action intent) (in_agent_id intent) (rt_world rt) = (r, w)"
    by fastforce
  show ?thesis
  proof (cases "\<exists>reason. r = Inr (True, reason)")
    case True
    then obtain reason where r: "r = Inr (True, reason)" by blast
    have res: "rw = chain_route abi env intent ctx w" by (simp add: rw chain_capability_def c r)
    show ?thesis
      unfolding capability_part_def by (rule halts_later [OF capability_phase_granted [OF at c [unfolded r]]])
        (use route_part_ok res in \<open>fastforce simp: settled_world\<close>)
  next
    case False
    from capability_phase_refused [OF at c False rw] show ?thesis
      unfolding capability_part_def by (auto intro: halts_now)
  qed
qed

lemma policy_phase_granted:
  assumes "running_at f rt (n + 1) ES_VALIDATING phs INTENT_RECEIVED"
    and c: "evaluate_intent abi intent (rt_world rt) = (Inr (True, reason), w)"
  shows "proceeds (policy_phase abi env intent) f (rt\<lparr>rt_world := w\<rparr>) (n + 1) ES_AUTHORIZED (phs @ [INTENT_RECEIVED]) CAPABILITY_CHECK ()"
  unfolding policy_phase_def
  by (rule seq_proceeds2 [OF call_world_ok [OF assms(1), where c = "evaluate_intent abi intent", OF c]])
    (simp, rule advance_ok, assumption, simp)

lemma policy_phase_refused:
  assumes "running_at f rt (n + 1) ES_VALIDATING phs INTENT_RECEIVED"
    and c: "evaluate_intent abi intent (rt_world rt) = (r, w)" and no: "\<nexists>reason. r = Inr (True, reason)"
    and rw: "rw = chain abi env intent ctx (rt_world rt)"
  shows "halts_with (policy_phase abi env intent) f (settled ctx rw rt) n (phs @ [INTENT_RECEIVED]) (fst rw) \<and> \<not> er_success (fst rw)"
proof
  show "halts_with (policy_phase abi env intent) f (settled ctx rw rt) n (phs @ [INTENT_RECEIVED]) (fst rw)"
    unfolding policy_phase_def
    by (rule seq_proceeds [OF call_world_ok [OF assms(1), where c = "evaluate_intent abi intent", OF c]])
      (use no in \<open>auto simp: rw chain_def c settled_failure reject_halts split: sum.splits\<close>)
  show "\<not> er_success (fst rw)" using no by (auto simp: rw chain_def c split: sum.splits)
qed

lemma policy_part_ok:
  assumes at: "running_at f rt (n + 1) ES_VALIDATING phs INTENT_RECEIVED"
    and rw: "rw = chain abi env intent ctx (rt_world rt)"
  shows "halts_within (seq (policy_phase abi env intent) (\<lambda>_. capability_part abi env intent ctx)) f
           (settled ctx rw rt) n phs
           [INTENT_RECEIVED, CAPABILITY_CHECK, INTENT_ROUTING, TOOL_EXECUTION, CHECKPOINT_SAVE, EXECUTION_COMPLETED]
           (fst rw)"
proof -
  obtain r w where c: "evaluate_intent abi intent (rt_world rt) = (r, w)"
    by fastforce
  show ?thesis
  proof (cases "\<exists>reason. r = Inr (True, reason)")
    case True
    then obtain reason where r: "r = Inr (True, reason)" by blast
    have res: "rw = chain_capability abi env intent ctx w" by (simp add: rw chain_def c r)
    show ?thesis
      by (rule halts_later [OF policy_phase_granted [OF at c [unfolded r]]])
        (use capability_part_ok res in \<open>fastforce simp: settled_world\<close>)
  next
    case False
    from policy_phase_refused [OF at c False rw] show ?thesis
      by (auto intro: halts_now)
  qed
qed

lemma start_guarded_ok:
  assumes "pending rt n"
  shows "proceeds (start_guarded env) (guarded_frame env intent ctx rt) rt (n + 1) ES_VALIDATING [] INTENT_RECEIVED ()"
proof -
  define f where "f = frame_incr ''runtime.executions.total''
    (frame_log LOG_INFO ''Execution started'' [] (guarded_frame env intent ctx rt))"
  have f: "core (fr_rt f) = core rt" "fr_state f = ES_CREATED" "fr_tracer f = fr_tracer (guarded_frame env intent ctx rt)"
    by (simp_all add: f_def) (simp_all add: guarded_frame_def)
  have "pending (fr_rt f) (n + 1)"
    using assms unfolding f_def pending_def by (auto simp: guarded_frame_def)
  moreover have "tr_current_phase tr = None \<and> tr_entries tr = []" if "fr_tracer f = Some tr" for tr
    using that unfolding f by (auto simp: guarded_frame_def ExecutionTracer_init_def split: if_splits)
  moreover have "start_guarded env (guarded_frame env intent ctx rt) =
      seq (trace_start INTENT_RECEIVED (xe_trace env 0)) (\<lambda>_. goto ES_VALIDATING) f"
    by (simp add: start_guarded_def seq_def f_def)
  ultimately show ?thesis
    using f(1,2) unfolding proceeds_def
    by (cases "fr_tracer f")
      (simp_all add: seq_def trace_start_def start_phase_idle goto_def transition_def running_at_def trace_phases_def
        trace_flags_def)
qed

text \<open>
  The guarded body returns what the chain returns, for every behaviour of the collaborators, and
  leaves the runtime as the chain does, up to the log and the metrics.
\<close>

lemma guarded_refines_chain:
  assumes "pending rt n" and rw_def: "rw = chain abi env intent ctx (rt_world rt)"
  shows "halts_within (guarded_body abi env intent ctx) (guarded_frame env intent ctx rt) (settled ctx rw rt) n []
     [INTENT_RECEIVED, CAPABILITY_CHECK, INTENT_ROUTING, TOOL_EXECUTION, CHECKPOINT_SAVE, EXECUTION_COMPLETED] (fst rw)"
proof -
  obtain f' where "start_guarded env (guarded_frame env intent ctx rt) = (Continue (), f')"
      "running_at f' rt (n + 1) ES_VALIDATING [] INTENT_RECEIVED"
    using start_guarded_ok [OF assms(1), of env intent ctx] by (auto simp: proceeds_def)
  then show ?thesis
    using policy_part_ok [of f' rt n "[]" rw abi env intent ctx]
    by (simp add: guarded_body_parts halts_within_def halts_with_def rw_def)
qed

section \<open>Facts about the chain\<close>

lemma chain_execution_id: "er_execution_id (fst (chain abi env intent ctx w)) = xe_uuid env"
  by (simp add: chain_def chain_capability_def chain_route_def chain_access_def chain_persist_def
      split: sum.splits prod.splits)

lemma chain_state:
  "er_state (fst (chain abi env intent ctx w)) \<in> {ES_COMPLETED, ES_FAILED, ES_HALTED}"
  "er_success (fst (chain abi env intent ctx w)) \<longleftrightarrow> er_state (fst (chain abi env intent ctx w)) = ES_COMPLETED"
  by (simp_all add: chain_def chain_capability_def chain_route_def chain_access_def chain_persist_def
      split: sum.splits prod.splits)

lemma chain_success:
  assumes "chain abi env intent ctx w = (res, w')" "er_success res"
  shows "\<exists>reason w1 cap_reason w2 path w3 tr w4 cid.
    evaluate_intent abi intent w = (Inr (True, reason), w1) \<and>
    check_capability abi (in_action intent) (in_agent_id intent) w1 = (Inr (True, cap_reason), w2) \<and>
    route_intent abi intent w2 = (Inr path, w3) \<and>
    access_tool abi path intent w3 = (Inr tr, w4) \<and> tl_success tr \<and>
    persist_save abi (xe_uuid env) (checkpoint_state env intent ctx tr) w4 = (Inr cid, w') \<and>
    er_checkpoint_id res = Some cid \<and> er_data res = tl_data tr"
  using assms
  by (fastforce simp: chain_def chain_capability_def chain_route_def chain_access_def chain_persist_def
      split: sum.splits prod.splits if_splits)

section \<open>The gates\<close>

lemma pending_ex: "\<exists>n. pending rt n"
proof (cases "rt_metrics rt")
  case (Some m)
  then show ?thesis
    by (intro exI [of _ "get_counter m ''runtime.executions.total'' -
      (get_counter m ''runtime.executions.completed'' + get_counter m ''runtime.executions.failed'')"])
      (simp add: pending_def)
qed (simp add: pending_def)

text \<open>What no gate and no execution touches.\<close>

definition same_setup :: "'w runtime \<Rightarrow> 'w runtime \<Rightarrow> bool" where
  "same_setup rt rt' \<longleftrightarrow>
     rt_state rt' = rt_state rt \<and> rt_tenant_context rt' = rt_tenant_context rt \<and> rt_agents rt' = rt_agents rt \<and>
     rt_logger rt' = rt_logger rt \<and> rt_tracer_cls rt' = rt_tracer_cls rt \<and>
     map_option ib_tenants (rt_isolation rt') = map_option ib_tenants (rt_isolation rt) \<and>
     (rt_quota_manager rt' = None \<longleftrightarrow> rt_quota_manager rt = None)"

lemma same_setup_refl [simp]: "same_setup rt rt"
  by (simp add: same_setup_def)

lemma same_setup_trans: "same_setup a b \<Longrightarrow> same_setup b c \<Longrightarrow> same_setup a c"
  by (simp add: same_setup_def)

lemma same_setup_core: "core a = core b \<Longrightarrow> same_setup b c \<Longrightarrow> same_setup a c"
  using core_fields [of a b] by (simp add: same_setup_def)

lemma same_setup_core2: "core a = core b \<Longrightarrow> same_setup c b \<Longrightarrow> same_setup c a"
  using core_fields [of a b] by (simp add: same_setup_def)

lemma isolation_gate_frame:
  assumes "isolation_gate env rt = (out, rt')"
  shows "same_setup rt rt'" "rt_world rt' = rt_world rt" "rt_quota_manager rt' = rt_quota_manager rt"
    "rt_metrics rt' = rt_metrics rt" "rt_log rt' = rt_log rt"
  using assms by (auto simp: isolation_gate_def same_setup_def split: option.splits sum.splits)

lemma pending_incr:
  "k \<notin> {''runtime.executions.total'', ''runtime.executions.completed'', ''runtime.executions.failed''} \<Longrightarrow>
     pending (runtime_incr k rt) n \<longleftrightarrow> pending rt n"
  by (auto simp: pending_def runtime_incr_def)

lemma pending_other [simp]:
  "pending (rt\<lparr>rt_quota_manager := q\<rparr>) n \<longleftrightarrow> pending rt n"
  "pending (rt\<lparr>rt_isolation := i\<rparr>) n \<longleftrightarrow> pending rt n"
  "pending (runtime_log lv msg ex rt) n \<longleftrightarrow> pending rt n"
  "pending (release_quota env acq rt) n \<longleftrightarrow> pending rt n"
  by (auto simp: pending_def runtime_log_def release_quota_def split: option.splits)

lemma runtime_incr_fields [simp]:
  "rt_world (runtime_incr k rt) = rt_world rt" "rt_isolation (runtime_incr k rt) = rt_isolation rt"
  "rt_quota_manager (runtime_incr k rt) = rt_quota_manager rt" "rt_state (runtime_incr k rt) = rt_state rt"
  "rt_tenant_context (runtime_incr k rt) = rt_tenant_context rt"
  by (simp_all add: runtime_incr_def)

lemma runtime_log_fields [simp]:
  "rt_world (runtime_log lv msg ex rt) = rt_world rt" "rt_isolation (runtime_log lv msg ex rt) = rt_isolation rt"
  "rt_quota_manager (runtime_log lv msg ex rt) = rt_quota_manager rt" "rt_state (runtime_log lv msg ex rt) = rt_state rt"
  "rt_tenant_context (runtime_log lv msg ex rt) = rt_tenant_context rt"
  by (simp_all add: runtime_log_def split: option.splits)

lemma release_quota_fields [simp]:
  "rt_world (release_quota env acq rt) = rt_world rt" "rt_isolation (release_quota env acq rt) = rt_isolation rt"
  "rt_state (release_quota env acq rt) = rt_state rt"
  "rt_tenant_context (release_quota env acq rt) = rt_tenant_context rt"
  "same_setup rt (release_quota env acq rt)"
  by (simp_all add: release_quota_def same_setup_def split: option.splits)

lemma quota_gate_frame:
  assumes "quota_gate env rt = (out, rt')"
  shows "same_setup rt rt'" "rt_world rt' = rt_world rt" "rt_isolation rt' = rt_isolation rt"
    "pending rt' n \<longleftrightarrow> pending rt n"
proof -
  show "same_setup rt rt'" "rt_world rt' = rt_world rt" "rt_isolation rt' = rt_isolation rt"
    using assms
    by (auto simp: quota_gate_def same_setup_def Let_def runtime_incr_def
        split: option.splits sum.splits if_splits prod.splits)
  show "pending rt' n \<longleftrightarrow> pending rt n"
    using assms
    by (auto simp: quota_gate_def Let_def pending_incr split: option.splits sum.splits if_splits prod.splits)
qed

text \<open>The executions in flight according to the quota manager.\<close>

definition in_flight :: "'w runtime \<Rightarrow> string \<Rightarrow> string set" where
  "in_flight rt tid = (case rt_quota_manager rt of None \<Rightarrow> {} | Some q \<Rightarrow> running q tid)"

lemma in_flight_release:
  "in_flight (release_quota env acq rt) tid =
     (if acq \<and> quota_tenant rt \<noteq> [] \<and> tid = quota_tenant rt then in_flight rt tid - {xe_uuid env} else in_flight rt tid)"
  by (auto simp: in_flight_def release_quota_def split: option.splits)

lemma in_flight_gate:
  assumes "quota_gate env rt = (out, rt')"
  shows "in_flight rt' tid =
     (if out = Continue True \<and> tid = quota_tenant rt then insert (xe_uuid env) (in_flight rt tid) else in_flight rt tid)"
    and "out = Continue True \<Longrightarrow> quota_tenant rt \<noteq> []"
proof -
  have r: "running (snd (check_and_consume_rate a b c q)) d = running q d"
    "running (snd (retry_after a b c q)) d = running q d" for a b c q d
    by (rule running_rate)+
  show "in_flight rt' tid =
     (if out = Continue True \<and> tid = quota_tenant rt then insert (xe_uuid env) (in_flight rt tid) else in_flight rt tid)"
    using assms r
    by (auto simp: quota_gate_def in_flight_def Let_def split_beta split: option.splits sum.splits if_splits)
  show "out = Continue True \<Longrightarrow> quota_tenant rt \<noteq> []"
    using assms by (auto simp: quota_gate_def Let_def split: option.splits sum.splits if_splits prod.splits)
qed

section \<open>Execution as a whole\<close>

text \<open>The gates of an execution in sequence; the flag says whether a quota slot is held.\<close>

definition admit :: "ExecEnv \<Rightarrow> ('w, bool) rt_body" where
  "admit env = seq (isolation_gate env) (\<lambda>_. seq (quota_gate env) (\<lambda>q. seq (shutdown_gate env q) (\<lambda>_. go q)))"

lemma execute_intent_admit:
  "execute_intent abi env intent rt =
     (let (out, rt') = seq (admit env) (\<lambda>q. run_guarded abi env intent q) rt in (outcome_result out, rt'))"
  by (simp add: execute_intent_def admit_def seq_assoc go_seq)

lemma core_release: "core (release_quota env q rt) = release_quota env q (core rt)"
  by (simp add: release_quota_def quota_tenant_def core_def split: option.splits)

lemma run_guarded_ok:
  assumes "pending rt n" and rw: "rw = chain abi env intent (rt_tenant_context rt) (rt_world rt)"
  shows "\<exists>rt'. run_guarded abi env intent q rt = (Continue (fst rw), rt') \<and> pending rt' n \<and>
           core rt' = core (release_quota env q (settled (rt_tenant_context rt) rw rt))"
proof -
  obtain f where f: "execute_quota_guarded abi env intent (rt_tenant_context rt) rt = (Returned (fst rw), f)"
      "core (fr_rt f) = core (settled (rt_tenant_context rt) rw rt)" "pending (fr_rt f) n"
    using guarded_refines_chain [OF assms]
    by (auto simp: halts_within_def halts_with_def execute_quota_guarded_def ended_at_def)
  then show ?thesis by (simp add: run_guarded_def core_release)
qed

lemma execute_intent_refused:
  "admit env rt = (Raised e, rt') \<Longrightarrow> execute_intent abi env intent rt = (Inl e, rt')"
  "admit env rt = (Returned r, rt') \<Longrightarrow> execute_intent abi env intent rt = (Inr r, rt')"
  by (simp_all add: execute_intent_admit)

lemma execute_intent_admitted:
  assumes "admit env rt = (Continue q, rt1)" "pending rt1 n"
    and rw: "rw = chain abi env intent (rt_tenant_context rt1) (rt_world rt1)"
  shows "\<exists>rt'. execute_intent abi env intent rt = (Inr (fst rw), rt') \<and> pending rt' n \<and>
           core rt' = core (release_quota env q (settled (rt_tenant_context rt1) rw rt1))"
  using run_guarded_ok [OF assms(2,3), of q] assms(1) by (auto simp: execute_intent_admit)

lemma shutdown_gate_running: "rt_state rt = RS_RUNNING \<Longrightarrow> shutdown_gate env q rt = (Continue (), rt)"
  by (simp add: shutdown_gate_def)

lemma shutdown_gate_closed:
  "rt_state rt \<noteq> RS_RUNNING \<Longrightarrow>
     \<exists>r msg. shutdown_gate env q rt = (Returned r, runtime_incr ''runtime.executions.rejected''
        (runtime_log LOG_WARNING msg [] (release_quota env q rt))) \<and> \<not> er_success r \<and> er_state r = ES_CREATED"
  by (cases "rt_state rt") (auto simp: shutdown_gate_def)

lemma same_setup_observe [simp]:
  "same_setup rt (runtime_incr k rt') \<longleftrightarrow> same_setup rt rt'" "same_setup rt (runtime_log lv msg ex rt') \<longleftrightarrow> same_setup rt rt'"
  by (simp_all add: same_setup_def runtime_incr_def runtime_log_def split: option.splits)

lemma admit_cases:
  assumes "admit env rt = (out, rt')"
  obtains (isolation) out' where "isolation_gate env rt = (out', rt')" "\<forall>u. out' \<noteq> Continue u"
      "out = (case out' of Raised e \<Rightarrow> Raised e | Returned r \<Rightarrow> Returned r)"
    | (quota) rt1 out' where "isolation_gate env rt = (Continue (), rt1)" "quota_gate env rt1 = (out', rt')"
      "\<forall>q. out' \<noteq> Continue q" "out = out'"
    | (closed) rt1 rt2 q msg r where "isolation_gate env rt = (Continue (), rt1)" "quota_gate env rt1 = (Continue q, rt2)"
      "rt_state rt2 \<noteq> RS_RUNNING" "out = Returned r" "\<not> er_success r"
      "rt' = runtime_incr ''runtime.executions.rejected'' (runtime_log LOG_WARNING msg [] (release_quota env q rt2))"
    | (admitted) rt1 q where "isolation_gate env rt = (Continue (), rt1)" "quota_gate env rt1 = (Continue q, rt')"
      "rt_state rt' = RS_RUNNING" "out = Continue q"
proof -
  obtain o1 rt1 where g1: "isolation_gate env rt = (o1, rt1)" by fastforce
  obtain o2 rt2 where g2: "quota_gate env rt1 = (o2, rt2)" by fastforce
  show thesis
  proof (cases o1)
    case (Continue u)
    note c1 = this
    show thesis
    proof (cases o2)
      case (Continue q)
      show thesis
      proof (cases "rt_state rt2 = RS_RUNNING")
        case True
        then show thesis
          using admitted [of rt1 q] assms g1 g2 c1 Continue by (simp add: admit_def seq_def shutdown_gate_running)
      next
        case False
        then show thesis
          using closed [of rt1 q rt2] assms g1 g2 c1 Continue shutdown_gate_closed [OF False, of env q]
          by (auto simp: admit_def seq_def)
      qed
    qed (use quota [of rt1 o2] assms g1 g2 c1 in \<open>auto simp: admit_def seq_def\<close>)
  qed (use isolation [of o1] assms g1 in \<open>auto simp: admit_def seq_def\<close>)
qed

lemma admit_frame:
  assumes "admit env rt = (out, rt')"
  shows "same_setup rt rt' \<and> rt_world rt' = rt_world rt \<and> (pending rt' n \<longleftrightarrow> pending rt n)"
  using assms
proof (cases rule: admit_cases)
  case (isolation out')
  then show ?thesis using isolation_gate_frame by (fastforce simp: pending_def)
next
  case (quota rt1 out')
  then show ?thesis
    using isolation_gate_frame [OF quota(1)] quota_gate_frame [OF quota(2)] same_setup_trans
    by (fastforce simp: pending_def)
next
  case (closed rt1 rt2 q msg r)
  have "pending rt1 n \<longleftrightarrow> pending rt n" using isolation_gate_frame(4) [OF closed(1)] by (simp add: pending_def)
  moreover have "same_setup rt rt2" "same_setup rt2 (release_quota env q rt2)"
    using isolation_gate_frame(1) [OF closed(1)] quota_gate_frame(1) [OF closed(2)] same_setup_trans by auto
  ultimately show ?thesis
    using isolation_gate_frame [OF closed(1)] quota_gate_frame [OF closed(2)] closed(6)
    by (auto simp: pending_incr intro: same_setup_trans)
next
  case (admitted rt1 q)
  then show ?thesis
    using isolation_gate_frame [OF admitted(1)] quota_gate_frame [OF admitted(2)] same_setup_trans
    by (fastforce simp: pending_def)
qed

end
