(* ===== verification/Runtime_Properties.thy ===== *)
theory Runtime_Properties
  imports Runtime_Correctness
begin

text \<open>
  The theorems about \<^verbatim>\<open>KitematicRuntime\<close>, with a small concrete set of collaborators their witnesses
  run on: the collaborators' state is the list of the calls they received.
\<close>

section \<open>A concrete set of collaborators\<close>

definition sample_abi :: "string list abi" where
  "sample_abi =
     \<lparr>evaluate_intent = (\<lambda>i w. (Inr (in_action i \<noteq> ''forbidden'', Some ''policy''), ''evaluate'' # w)),
      check_capability = (\<lambda>a g w. (Inr (a \<noteq> ''incapable'', None), ''capability'' # w)),
      route_intent = (\<lambda>i w. (Inr \<lparr>xp_tool = in_action i, xp_adapter = ''mcp'', xp_parameters = []\<rparr>, ''route'' # w)),
      access_tool = (\<lambda>p i w. (Inr \<lparr>tl_success = True, tl_data = [(''ok'', PyBool True)], tl_error = None\<rparr>, ''tool'' # w)),
      persist_save = (\<lambda>e s w. (Inr (''cp-'' @ e), ''save'' # w)),
      persist_restore = (\<lambda>c w. (Inr (PyDict [(''id'', PyStr c)]), ''restore'' # w))\<rparr>"

definition sample_env :: ExecEnv where
  "sample_env =
     \<lparr>xe_uuid = ''e1'', xe_t_rate0 = 0, xe_t_rate = 0, xe_t_retry0 = 0, xe_t_retry = 0, xe_t_start = 0,
      xe_t_end = 1, xe_t_checkpoint = 0, xe_trace = of_nat\<rparr>"

definition sample_intent :: "string \<Rightarrow> Intent" where
  "sample_intent action = \<lparr>in_agent_id = ''a1'', in_action = action, in_parameters = [], in_timestamp = 0\<rparr>"

definition sample_limits :: ResourceLimits where
  "sample_limits = default_ResourceLimits\<lparr>rl_max_concurrent_executions := 2\<rparr>"

definition sample_context :: TenantContext where
  "sample_context = \<lparr>tc_tenant_id = ''t1'', tc_agent_id = ''a1'', tc_allowed_capabilities = {},
     tc_resource_limits = sample_limits\<rparr>"

definition sample_boundary :: IsolationBoundary where
  "sample_boundary =
     \<lparr>ib_tenants = [(''t1'', \<lparr>tm_tenant_id = ''t1'', tm_name = ''T'', tm_policy_scope = [],
         tm_resource_limits = sample_limits, tm_allowed_capabilities = {}, tm_metadata = []\<rparr>)],
      ib_agents = [(''a1'', \<lparr>ar_agent_id = ''a1'', ar_tenant_id = ''t1'', ar_registered_at = 0\<rparr>)],
      ib_execution_counts = []\<rparr>"

definition sample_runtime :: "string list runtime" where
  "sample_runtime =
     (runtime_init [] (Some sample_boundary) None (Some MetricsRegistry_init) True (Some (QuotaManager_init None)))
       \<lparr>rt_tenant_context := Some sample_context\<rparr>"

lemmas sample_defs = sample_abi_def sample_env_def sample_intent_def sample_limits_def sample_context_def
  sample_boundary_def sample_runtime_def runtime_init_def QuotaManager_init_def MetricsRegistry_init_def
  default_TokenBucketRateLimiter_def default_ResourceLimits_def

section \<open>Governance\<close>

text \<open>
  Property C4. \<^verbatim>\<open>_execute_quota_guarded\<close> refines the governance chain: whatever the collaborators do,
  it returns exactly the chain's result (it never raises), and leaves the runtime as the chain
  does, the log and the metrics apart; logging, metrics and tracing do not influence it.
\<close>

theorem guarded_refines:
  "\<exists>f. execute_quota_guarded abi env intent ctx rt = (Returned (fst (chain abi env intent ctx (rt_world rt))), f) \<and>
       core (fr_rt f) = core (settled ctx (chain abi env intent ctx (rt_world rt)) rt)"
proof -
  obtain n where "pending rt n" using pending_ex by blast
  from guarded_refines_chain [OF this refl, of abi env intent ctx] show ?thesis
    by (auto simp: halts_within_def halts_with_def ended_at_def execute_quota_guarded_def)
qed

lemma execute_intent_cases:
  assumes "execute_intent abi env intent rt = (r, rt')"
  obtains (raised) e where "admit env rt = (Raised e, rt')" "r = Inl e"
    | (refused) res where "admit env rt = (Returned res, rt')" "r = Inr res"
    | (admitted) q rt1 rw where "admit env rt = (Continue q, rt1)"
      "rw = chain abi env intent (rt_tenant_context rt) (rt_world rt)" "r = Inr (fst rw)"
      "core rt' = core (release_quota env q (settled (rt_tenant_context rt) rw rt1))"
proof -
  obtain out rt1 where ad: "admit env rt = (out, rt1)" by fastforce
  show thesis
  proof (cases out)
    case (Continue q)
    obtain n where "pending rt1 n" using pending_ex by blast
    note ex = execute_intent_admitted [OF ad [unfolded Continue] this refl, of abi intent]
    have "rt_tenant_context rt1 = rt_tenant_context rt" "rt_world rt1 = rt_world rt"
      using admit_frame [OF ad] by (simp_all add: same_setup_def)
    with ex assms ad Continue show thesis by (intro admitted [of q rt1, OF _ refl]) auto
  next
    case (Raised e)
    then show thesis using raised [of e] assms ad execute_intent_refused(1) [of env rt e rt1 abi intent] by simp
  next
    case (Returned res)
    then show thesis using refused [of res] assms ad execute_intent_refused(2) [of env rt res rt1 abi intent] by simp
  qed
qed

lemma admit_returned: "admit env rt = (Returned r, rt') \<Longrightarrow> \<not> er_success r \<and> er_state r = ES_CREATED"
  by (auto simp: admit_def seq_def isolation_gate_def quota_gate_def shutdown_gate_def Let_def
      split: prod.splits outcome.splits option.splits sum.splits if_splits RuntimeState.splits)

lemma settled_world_snd: "rt_world (settled ctx rw rt) = snd rw"
  by (auto simp: settled_def isolation_end_def split: option.splits)

text \<open>To evaluate an execution it is enough to evaluate the gates and the chain.\<close>

lemma execute_by_chain:
  assumes "admit env rt = (Continue q, rt1)" "chain abi env intent (rt_tenant_context rt) (rt_world rt) = (res, w)"
  shows "\<exists>rt'. execute_intent abi env intent rt = (Inr res, rt') \<and> rt_world rt' = w"
proof -
  obtain r rt' where ex: "execute_intent abi env intent rt = (r, rt')" by fastforce
  from ex show ?thesis
  proof (cases rule: execute_intent_cases)
    case (admitted q' rt2 rw)
    then show ?thesis using ex assms(2) core_fields(2) [OF admitted(4)] by (simp add: settled_world_snd)
  qed (use assms(1) in auto)
qed

lemmas chain_defs = chain_def chain_capability_def chain_route_def chain_access_def chain_persist_def

lemma sample_admit: "\<exists>rt1. admit sample_env sample_runtime = (Continue True, rt1)"
proof -
  have "case admit sample_env sample_runtime of (Continue q, rt1) \<Rightarrow> q | _ \<Rightarrow> False" by code_simp
  then show ?thesis by (auto split: prod.splits outcome.splits)
qed

lemma sample_succeeds:
  "\<exists>res rt'. execute_intent sample_abi sample_env (sample_intent ''read'') sample_runtime = (Inr res, rt') \<and>
     er_success res \<and> rt_world rt' = [''save'', ''tool'', ''route'', ''capability'', ''evaluate'']"
proof -
  obtain rt1 where ad: "admit sample_env sample_runtime = (Continue True, rt1)" using sample_admit by blast
  obtain res w where c: "chain sample_abi sample_env (sample_intent ''read'') (rt_tenant_context sample_runtime) (rt_world sample_runtime) = (res, w)"
    by fastforce
  then have "er_success res" "w = [''save'', ''tool'', ''route'', ''capability'', ''evaluate'']"
    by (auto simp: chain_defs sample_defs)
  with execute_by_chain [OF ad c] show ?thesis by blast
qed

lemma success_calls:
  assumes "execute_intent abi env intent rt = (Inr res, rt')" "er_success res"
  shows "\<exists>reason w1 cap_reason w2 path w3 tr w4 cid.
    evaluate_intent abi intent (rt_world rt) = (Inr (True, reason), w1) \<and>
    check_capability abi (in_action intent) (in_agent_id intent) w1 = (Inr (True, cap_reason), w2) \<and>
    route_intent abi intent w2 = (Inr path, w3) \<and>
    access_tool abi path intent w3 = (Inr tr, w4) \<and> tl_success tr \<and>
    persist_save abi (xe_uuid env) (checkpoint_state env intent (rt_tenant_context rt) tr) w4 = (Inr cid, rt_world rt') \<and>
    res = \<lparr>er_success = True, er_execution_id = xe_uuid env, er_checkpoint_id = Some cid, er_data = tl_data tr,
           er_error = None, er_state = ES_COMPLETED\<rparr>"
  using assms(1)
proof (cases rule: execute_intent_cases)
  case (admitted q rt1 rw)
  have "rt_world rt' = snd rw" using core_fields(2) [OF admitted(4)] by (simp add: settled_world_snd)
  then have eq: "chain abi env intent (rt_tenant_context rt) (rt_world rt) = (res, rt_world rt')"
    using admitted(2,3) by (simp add: prod_eq_iff)
  obtain reason w1 cap_reason w2 path w3 tr w4 cid where
    calls: "evaluate_intent abi intent (rt_world rt) = (Inr (True, reason), w1)"
      "check_capability abi (in_action intent) (in_agent_id intent) w1 = (Inr (True, cap_reason), w2)"
      "route_intent abi intent w2 = (Inr path, w3)" "access_tool abi path intent w3 = (Inr tr, w4)" "tl_success tr"
      "persist_save abi (xe_uuid env) (checkpoint_state env intent (rt_tenant_context rt) tr) w4 = (Inr cid, rt_world rt')"
    using chain_success [OF eq assms(2)] by blast
  moreover from calls eq have "res = \<lparr>er_success = True, er_execution_id = xe_uuid env, er_checkpoint_id = Some cid,
      er_data = tl_data tr, er_error = None, er_state = ES_COMPLETED\<rparr>"
    by (simp add: chain_def chain_capability_def chain_route_def chain_access_def chain_persist_def)
  ultimately show ?thesis by blast
qed (use assms(2) in \<open>auto dest: admit_returned\<close>)

text \<open>
  Property C1. No success without governance: when \<^verbatim>\<open>execute_intent\<close> reports success, the policy
  allowed the intent, the capability check passed, the router chose the tool that the gateway ran
  successfully, and the checkpoint of that very result was saved, in this order and each on the
  state the one before left; the result carries the tool's data and the saved checkpoint's id.
\<close>

theorem success_was_governed:
  assumes "execute_intent abi env intent rt = (Inr res, rt')" "er_success res"
  shows "\<exists>reason w1 cap_reason w2 path w3 tr w4 cid.
    evaluate_intent abi intent (rt_world rt) = (Inr (True, reason), w1) \<and>
    check_capability abi (in_action intent) (in_agent_id intent) w1 = (Inr (True, cap_reason), w2) \<and>
    route_intent abi intent w2 = (Inr path, w3) \<and>
    access_tool abi path intent w3 = (Inr tr, w4) \<and> tl_success tr \<and>
    persist_save abi (xe_uuid env) (checkpoint_state env intent (rt_tenant_context rt) tr) w4 = (Inr cid, rt_world rt') \<and>
    res = \<lparr>er_success = True, er_execution_id = xe_uuid env, er_checkpoint_id = Some cid, er_data = tl_data tr,
           er_error = None, er_state = ES_COMPLETED\<rparr>"
  by (rule success_calls [OF assms])

theorem success_was_governed_witness:
  "\<exists>res rt' path w3 tr w4. execute_intent sample_abi sample_env (sample_intent ''read'') sample_runtime = (Inr res, rt') \<and>
     er_success res \<and> access_tool sample_abi path (sample_intent ''read'') w3 = (Inr tr, w4) \<and> tl_success tr"
proof -
  obtain res rt' where ex: "execute_intent sample_abi sample_env (sample_intent ''read'') sample_runtime = (Inr res, rt')" "er_success res"
    using sample_succeeds by blast
  from success_was_governed [OF ex] ex show ?thesis by blast
qed

text \<open>The policy evaluator, or after it the capability check, does not grant the intent.\<close>

definition denied :: "'w abi \<Rightarrow> Intent \<Rightarrow> 'w \<Rightarrow> bool" where
  "denied abi intent w =
     (case evaluate_intent abi intent w of
        (Inr (True, _), w1) \<Rightarrow>
          (case check_capability abi (in_action intent) (in_agent_id intent) w1 of
             (Inr (True, _), _) \<Rightarrow> False | _ \<Rightarrow> True)
      | _ \<Rightarrow> True)"

lemma guarded_body_denied:
  assumes "denied abi intent (rt_world rt)"
    and "evaluate_intent abi' intent = evaluate_intent abi intent" "check_capability abi' = check_capability abi"
  shows "guarded_body abi' env intent ctx (guarded_frame env intent ctx rt) =
         guarded_body abi env intent ctx (guarded_frame env intent ctx rt)"
proof -
  obtain n where "pending rt n" using pending_ex by blast
  then obtain f where f: "start_guarded env (guarded_frame env intent ctx rt) = (Continue (), f)"
      "running_at f rt (n + 1) ES_VALIDATING [] INTENT_RECEIVED"
    using start_guarded_ok [of rt n env intent ctx] by (auto simp: proceeds_def)
  have same: "policy_phase abi' env intent = policy_phase abi env intent"
    "capability_phase abi' env intent = capability_phase abi env intent"
    using assms(2,3) by (simp_all add: policy_phase_def capability_phase_def)
  obtain r w where c: "evaluate_intent abi intent (rt_world rt) = (r, w)" by fastforce
  show ?thesis
  proof (cases "\<exists>reason. r = Inr (True, reason)")
    case False
    from policy_phase_refused [OF f(2) c False refl, where env = env and ctx = ctx] show ?thesis
      by (auto simp: guarded_body_parts halts_with_def f(1) same)
  next
    case True
    then obtain reason where r: "r = Inr (True, reason)" by blast
    obtain f' where f': "policy_phase abi env intent f = (Continue (), f')"
        "running_at f' (rt\<lparr>rt_world := w\<rparr>) (n + 1) ES_AUTHORIZED [INTENT_RECEIVED] CAPABILITY_CHECK"
      using policy_phase_granted [OF f(2) c [unfolded r]] by (auto simp: proceeds_def)
    obtain r' w' where c': "check_capability abi (in_action intent) (in_agent_id intent) w = (r', w')" by fastforce
    have "\<nexists>reason. r' = Inr (True, reason)" using assms(1) by (auto simp: denied_def c r c')
    from capability_phase_refused [OF f'(2) _ this refl, where env = env and ctx = ctx and w = w' and abi = abi and intent = intent] c' show ?thesis
      by (auto simp: guarded_body_parts capability_part_def halts_with_def f(1) f'(1) same)
  qed
qed

text \<open>
  Property C2. A denied intent reaches no tool and no storage: when the policy or the capability
  check does not grant it, \<^verbatim>\<open>execute_intent\<close> gives the same result and the same state whatever the
  router, the gateway and the persistence layer would have done.
\<close>

theorem denied_never_reaches_tools:
  assumes "denied abi intent (rt_world rt)"
    and "evaluate_intent abi' intent = evaluate_intent abi intent" "check_capability abi' = check_capability abi"
  shows "execute_intent abi' env intent rt = execute_intent abi env intent rt"
proof (cases "admit env rt")
  case (Pair out rt1)
  have "rt_world rt1 = rt_world rt" using admit_frame [OF Pair] by blast
  then have "run_guarded abi' env intent q rt1 = run_guarded abi env intent q rt1" for q
    using guarded_body_denied [of abi intent rt1 abi' env "rt_tenant_context rt1"] assms
    by (simp add: run_guarded_def execute_quota_guarded_def)
  then show ?thesis using Pair by (cases out) (simp_all add: execute_intent_admit)
qed

theorem denied_never_reaches_tools_witness:
  "denied sample_abi (sample_intent ''forbidden'') (rt_world sample_runtime) \<and>
   execute_intent (sample_abi\<lparr>access_tool := \<lambda>p i w. (Inl (PyRuntimeError ''down''), [])\<rparr>) sample_env
     (sample_intent ''forbidden'') sample_runtime =
   execute_intent sample_abi sample_env (sample_intent ''forbidden'') sample_runtime"
proof -
  have "denied sample_abi (sample_intent ''forbidden'') (rt_world sample_runtime)" by code_simp
  with denied_never_reaches_tools [OF this, of "sample_abi\<lparr>access_tool := \<lambda>p i w. (Inl (PyRuntimeError ''down''), [])\<rparr>"]
  show ?thesis by simp
qed

section \<open>Counters\<close>

lemma execution_balance:
  assumes "pending rt n"
  shows "pending (snd (execute_intent abi env intent rt)) n"
proof (cases "admit env rt")
  case (Pair out rt1)
  have p: "pending rt1 n" using admit_frame [OF Pair] assms by blast
  show ?thesis
  proof (cases out)
    case (Continue q)
    from execute_intent_admitted [OF Pair [unfolded Continue] p refl, of abi intent] show ?thesis by auto
  qed (use p Pair in \<open>simp_all add: execute_intent_refused\<close>)
qed

lemma in_flight_isolation_gate: "isolation_gate env rt = (out, rt') \<Longrightarrow> in_flight rt' tid = in_flight rt tid"
  by (drule isolation_gate_frame(3)) (simp add: in_flight_def)

lemma quota_tenant_setup: "same_setup rt rt' \<Longrightarrow> quota_tenant rt' = quota_tenant rt"
  by (simp add: same_setup_def quota_tenant_def)

lemma in_flight_admit:
  assumes "admit env rt = (out, rt')"
  shows "(if out = Continue True then quota_tenant rt \<noteq> [] \<and> in_flight rt' tid =
            (if tid = quota_tenant rt then insert (xe_uuid env) (in_flight rt tid) else in_flight rt tid)
          else in_flight rt' tid - {xe_uuid env} = in_flight rt tid - {xe_uuid env} \<and>
            (xe_uuid env \<notin> in_flight rt tid \<longrightarrow> in_flight rt' tid = in_flight rt tid))"
  using assms
proof (cases rule: admit_cases)
  case (isolation out')
  then show ?thesis using in_flight_isolation_gate [OF isolation(1)] by (auto split: outcome.splits)
next
  case (quota rt1 out')
  then show ?thesis using in_flight_isolation_gate [OF quota(1)] in_flight_gate(1) [OF quota(2)] by auto
next
  case (closed rt1 rt2 q msg r)
  have t: "quota_tenant rt1 = quota_tenant rt" "quota_tenant rt2 = quota_tenant rt"
    using quota_tenant_setup [OF isolation_gate_frame(1) [OF closed(1)]]
      quota_tenant_setup [OF quota_gate_frame(1) [OF closed(2)]] by simp_all
  have "in_flight rt' tid = in_flight (release_quota env q rt2) tid" by (simp add: closed(6) in_flight_def)
  then show ?thesis
    using in_flight_isolation_gate [OF closed(1)] in_flight_gate [OF closed(2)] closed(4) t
    by (cases q) (auto simp: in_flight_release)
next
  case (admitted rt1 q)
  then show ?thesis
    using in_flight_isolation_gate [OF admitted(1)] in_flight_gate [OF admitted(2)]
      quota_tenant_setup [OF isolation_gate_frame(1) [OF admitted(1)]] by auto
qed

lemma in_flight_core: "core a = core b \<Longrightarrow> in_flight a tid = in_flight b tid"
  using core_fields(4) [of a b] by (simp add: in_flight_def)

lemma in_flight_settled [simp]: "in_flight (settled ctx rw rt) tid = in_flight rt tid"
  by (auto simp: in_flight_def settled_def isolation_end_def split: option.splits)

lemma quota_tenant_settled [simp]: "quota_tenant (settled ctx rw rt) = quota_tenant rt"
  by (auto simp: quota_tenant_def settled_def isolation_end_def split: option.splits)

text \<open>
  Property C14. Concurrency slots are given back: whether \<^verbatim>\<open>execute_intent\<close> succeeds, fails, is refused
  or raises, the executions the quota manager holds for every tenant afterwards are those it held
  before, the new execution's identifier being fresh.
\<close>

theorem quota_slots_returned:
  assumes "xe_uuid env \<notin> in_flight rt (quota_tenant rt)" "xe_uuid env \<notin> in_flight rt tid"
  shows "in_flight (snd (execute_intent abi env intent rt)) tid = in_flight rt tid"
proof -
  obtain r rt' where ex: "execute_intent abi env intent rt = (r, rt')" by fastforce
  then show ?thesis
  proof (cases rule: execute_intent_cases)
    case (admitted q rt1 rw)
    have "quota_tenant rt1 = quota_tenant rt" using admit_frame [OF admitted(1)] quota_tenant_setup by blast
    then show ?thesis
      using in_flight_core [OF admitted(4), of tid] in_flight_admit [OF admitted(1), of tid] assms ex
      by (cases q) (auto simp: in_flight_release)
  qed (use ex assms in_flight_admit [of env rt _ rt' tid] in fastforce)+
qed

theorem quota_slots_returned_witness:
  "in_flight (snd (execute_intent sample_abi sample_env (sample_intent ''read'') sample_runtime)) ''t1'' = {}"
proof -
  have e: "in_flight sample_runtime tid = {}" for tid
    by (simp add: in_flight_def sample_defs running_def dict_get_or_def)
  then have "xe_uuid sample_env \<notin> in_flight sample_runtime (quota_tenant sample_runtime)"
    "xe_uuid sample_env \<notin> in_flight sample_runtime ''t1''" by simp_all
  from quota_slots_returned [OF this] show ?thesis by (simp add: e)
qed

section \<open>Errors\<close>

text \<open>
  Property C26. \<^verbatim>\<open>execute_intent\<close> lets an exception escape in two situations only: the isolation
  boundary refuses the tenant (unknown, or at its limit), before anything is counted; or the tenant
  is rate-limited and the bucket's refill rate is zero, where the computed waiting time divides by
  zero. In particular no behaviour of the collaborators makes it raise.
\<close>

theorem execute_intent_raises:
  assumes "execute_intent abi env intent rt = (Inl e, rt')"
  shows "(\<exists>b c. rt_isolation rt = Some b \<and> rt_tenant_context rt = Some c \<and>
            check_resource_limits b (tc_tenant_id c) = Inl e \<and> rt' = rt) \<or>
         (\<exists>q c. rt_quota_manager rt = Some q \<and> rt_tenant_context rt = Some c \<and>
            \<not> fst (check_and_consume_rate (tc_tenant_id c) (xe_t_rate0 env) (xe_t_rate env) q) \<and>
            tb_refill_rate (bucket_of (qm_rate_limiter q) (tc_tenant_id c) (xe_t_rate0 env)) = 0 \<and>
            e = OtherError ''float division by zero'')"
proof -
  have "admit env rt = (Raised e, rt')"
    using assms by (cases rule: execute_intent_cases) auto
  then show ?thesis
  proof (cases rule: admit_cases)
    case (isolation out')
    then show ?thesis
      by (auto simp: isolation_gate_def split: outcome.splits option.splits sum.splits)
  next
    case (quota rt1 out')
    then have g: "quota_gate env rt1 = (Raised e, rt')" by simp
    have same: "rt_quota_manager rt1 = rt_quota_manager rt" "rt_tenant_context rt1 = rt_tenant_context rt"
      using isolation_gate_frame(1,3) [OF quota(1)] by (simp_all add: same_setup_def)
    from g obtain q q1 q2 where q: "rt_quota_manager rt1 = Some q" "quota_tenant rt1 \<noteq> []"
        "check_and_consume_rate (quota_tenant rt1) (xe_t_rate0 env) (xe_t_rate env) q = (False, q1)"
        "retry_after (quota_tenant rt1) (xe_t_retry0 env) (xe_t_retry env) q1 = (Inl e, q2)"
      by (auto simp: quota_gate_def Let_def split: option.splits if_splits prod.splits sum.splits)
    define tid where "tid = quota_tenant rt1"
    define b where "b = bucket_of (qm_rate_limiter q) tid (xe_t_rate0 env)"
    obtain c where c: "rt_tenant_context rt = Some c" "tc_tenant_id c = tid"
      using q(2) same by (auto simp: quota_tenant_def tid_def split: option.splits)
    have l: "qm_rate_limiter q1 = snd (consume tid 1 (xe_t_rate0 env) (xe_t_rate env) (qm_rate_limiter q))"
      using q(3) by (auto simp: check_and_consume_rate_def tid_def split_beta Let_def)
    have "\<not> 1 \<le> tb_tokens (refill (xe_t_rate env) b)"
      using q(3) by (auto simp: check_and_consume_rate_def b_def tid_def consume_eq Let_def)
    then have "bucket_of (qm_rate_limiter q1) tid (xe_t_retry0 env) = refill (xe_t_rate env) b"
      unfolding l consume_bucket by (simp add: b_def)
    moreover have "e = OtherError ''float division by zero''"
        "tb_refill_rate (bucket_of (qm_rate_limiter q1) tid (xe_t_retry0 env)) = 0"
      using q(4) by (auto simp: retry_after_def limiter_retry_after_def bucket_of_def tid_def split_beta Let_def refill_def
          split: if_splits)
    ultimately show ?thesis using q(1,3) c same by (auto simp: tid_def b_def refill_def Let_def)
  qed auto
qed

definition sample_full :: "string list runtime" where
  "sample_full = sample_runtime\<lparr>rt_isolation := Some (sample_boundary\<lparr>ib_execution_counts := [(''t1'', 2)]\<rparr>)\<rparr>"

theorem execute_intent_raises_witness:
  "\<exists>e rt' b c. execute_intent sample_abi sample_env (sample_intent ''read'') sample_full = (Inl e, rt') \<and>
     rt_isolation sample_full = Some b \<and> rt_tenant_context sample_full = Some c \<and>
     check_resource_limits b (tc_tenant_id c) = Inl e"
proof -
  have "case execute_intent sample_abi sample_env (sample_intent ''read'') sample_full of
      (Inl e, _) \<Rightarrow> e = ResourceLimitExceededError ''t1'' ''concurrent_executions'' 2 2 | _ \<Rightarrow> False"
    by code_simp
  then obtain rt' where ex: "execute_intent sample_abi sample_env (sample_intent ''read'') sample_full =
      (Inl (ResourceLimitExceededError ''t1'' ''concurrent_executions'' 2 2), rt')"
    by (auto split: prod.splits sum.splits)
  from execute_intent_raises [OF this] ex show ?thesis by auto
qed

section \<open>Isolation slots\<close>

definition active_of :: "'w runtime \<Rightarrow> string \<Rightarrow> int" where
  "active_of rt tid = (case rt_isolation rt of None \<Rightarrow> 0 | Some b \<Rightarrow> active_count b tid)"

lemma isolation_gate_passed:
  assumes "isolation_gate env rt = (Continue u, rt1)" "rt_isolation rt = Some b" "rt_tenant_context rt = Some c"
  shows "check_resource_limits b (tc_tenant_id c) = Inr ()"
    and "rt_isolation rt1 = Some (Isolation_start_execution (tc_tenant_id c) b)"
  using assms by (auto simp: isolation_gate_def split: sum.splits)

lemma active_admit:
  assumes "admit env rt = (out, rt')" "rt_isolation rt = Some b" "rt_tenant_context rt = Some c"
    and "check_resource_limits b (tc_tenant_id c) = Inr ()"
  shows "rt_isolation rt' = Some (Isolation_start_execution (tc_tenant_id c) b)"
  using assms(1)
proof (cases rule: admit_cases)
  case (isolation out')
  then show ?thesis using assms by (auto simp: isolation_gate_def)
next
  case (quota rt1 out')
  then show ?thesis using isolation_gate_passed [OF quota(1) assms(2,3)] quota_gate_frame(3) [OF quota(2)] by simp
next
  case (closed rt1 rt2 q msg r)
  then show ?thesis using isolation_gate_passed [OF closed(1) assms(2,3)] quota_gate_frame(3) [OF closed(2)] by simp
next
  case (admitted rt1 q)
  then show ?thesis using isolation_gate_passed [OF admitted(1) assms(2,3)] quota_gate_frame(3) [OF admitted(2)] by simp
qed

lemma isolation_slot_count:
  assumes "rt_isolation rt = Some b" "rt_tenant_context rt = Some c"
    and "check_resource_limits b (tc_tenant_id c) = Inr ()" "0 \<le> active_count b (tc_tenant_id c)"
    and "execute_intent abi env intent rt = (r, rt')"
  shows "active_of rt' (tc_tenant_id c) =
     active_count b (tc_tenant_id c) + (if \<exists>res. r = Inr res \<and> er_success res then 0 else 1)"
  using assms(5)
proof (cases rule: execute_intent_cases)
  case (admitted q rt1 rw)
  let ?tid = "tc_tenant_id c"
  have iso1: "rt_isolation rt1 = Some (Isolation_start_execution ?tid b)"
    by (rule active_admit [OF admitted(1) assms(1-3)])
  have "rt_isolation rt' = rt_isolation (settled (Some c) rw rt1)"
    using core_fields(1) [OF admitted(4)] assms(2) by simp
  then have "rt_isolation rt' = (if er_success (fst rw)
      then Some (Isolation_end_execution ?tid (Isolation_start_execution ?tid b))
      else Some (Isolation_start_execution ?tid b))"
    by (auto simp: settled_def isolation_end_def iso1)
  then show ?thesis using assms(4) admitted(3) by (simp add: active_of_def active_count_end active_count_start)
next
  case (raised e)
  then show ?thesis using active_admit [OF raised(1) assms(1-3)] by (simp add: active_of_def active_count_start)
next
  case (refused res)
  then show ?thesis
    using active_admit [OF refused(1) assms(1-3)] admit_returned [OF refused(1)]
    by (simp add: active_of_def active_count_start)
qed

text \<open>
  Property C12. The slot accounting of \<^verbatim>\<open>execute_intent\<close>: an execution that passes the resource check
  and succeeds leaves the tenant's active-execution count unchanged, but one that ends in any other
  way (denied, failed, halted, quota-refused, rejected at shutdown, or raising) leaves it one
  higher: the slot is released on the success path only.
\<close>

theorem isolation_slot_accounting:
  assumes "rt_isolation rt = Some b" "rt_tenant_context rt = Some c"
    and "check_resource_limits b (tc_tenant_id c) = Inr ()" "0 \<le> active_count b (tc_tenant_id c)"
    and "execute_intent abi env intent rt = (r, rt')"
  shows "active_of rt' (tc_tenant_id c) =
     active_count b (tc_tenant_id c) + (if \<exists>res. r = Inr res \<and> er_success res then 0 else 1)"
  by (rule isolation_slot_count [OF assms])

theorem isolation_slot_accounting_witness:
  "active_of (snd (execute_intent sample_abi sample_env (sample_intent ''forbidden'') sample_runtime)) ''t1'' = 1"
proof -
  obtain r rt' where ex: "execute_intent sample_abi sample_env (sample_intent ''forbidden'') sample_runtime = (r, rt')"
    by fastforce
  have pre: "rt_isolation sample_runtime = Some sample_boundary" "rt_tenant_context sample_runtime = Some sample_context"
    "check_resource_limits sample_boundary (tc_tenant_id sample_context) = Inr ()"
    "0 \<le> active_count sample_boundary (tc_tenant_id sample_context)"
    "active_count sample_boundary (tc_tenant_id sample_context) = 0" "tc_tenant_id sample_context = ''t1''"
    by (simp_all add: sample_defs check_resource_limits_def active_count_def dict_get_or_def dict_get_def)
  obtain rt1 where ad: "admit sample_env sample_runtime = (Continue True, rt1)" using sample_admit by blast
  obtain res w where c: "chain sample_abi sample_env (sample_intent ''forbidden'') (rt_tenant_context sample_runtime) (rt_world sample_runtime) = (res, w)"
    by fastforce
  then have "\<not> er_success res" by (auto simp: chain_defs sample_defs)
  then have "case fst (execute_intent sample_abi sample_env (sample_intent ''forbidden'') sample_runtime) of
      Inr res \<Rightarrow> \<not> er_success res | _ \<Rightarrow> False" using execute_by_chain [OF ad c] by auto
  then show ?thesis using isolation_slot_accounting [OF pre(1-4) ex] pre(5,6) ex by (auto split: sum.splits)
qed

end
