(* ===== verification/Runtime_Lifecycle.thy ===== *)
theory Runtime_Lifecycle
  imports Runtime_Properties
begin

text \<open>
  The runtime over time: sequences of executions, the step relation of the runtime's public
  operations, its shutdown states, tenant contexts and checkpoint restore.
\<close>

section \<open>Repeated executions\<close>

fun executions :: "'w abi \<Rightarrow> (ExecEnv \<times> Intent) list \<Rightarrow> 'w runtime \<Rightarrow> 'w runtime" where
  "executions abi [] rt = rt"
| "executions abi ((env, intent) # jobs) rt = executions abi jobs (snd (execute_intent abi env intent rt))"

lemma execute_intent_setup: "same_setup rt (snd (execute_intent abi env intent rt))"
proof -
  obtain r rt' where ex: "execute_intent abi env intent rt = (r, rt')" by fastforce
  then show ?thesis
  proof (cases rule: execute_intent_cases)
    case (admitted q rt1 rw)
    have "same_setup rt1 (settled (rt_tenant_context rt) rw rt1)"
      by (auto simp: same_setup_def settled_def isolation_end_def Isolation_end_execution_def Let_def split: option.splits)
    then have "same_setup rt (release_quota env q (settled (rt_tenant_context rt) rw rt1))"
      using admit_frame [OF admitted(1)] same_setup_trans release_quota_fields(5) by blast
    then show ?thesis using ex same_setup_core2 [OF admitted(4)] by simp
  qed (use ex admit_frame in fastforce)+
qed

lemma executions_setup: "same_setup rt (executions abi jobs rt)"
proof (induction jobs arbitrary: rt)
  case (Cons job jobs)
  obtain env intent where "job = (env, intent)" by fastforce
  then show ?case
    using same_setup_trans [OF execute_intent_setup Cons.IH, of rt abi env intent] by simp
qed simp

text \<open>A collaborator set whose policy grants nothing: no execution succeeds.\<close>

definition grants_nothing :: "'w abi \<Rightarrow> bool" where
  "grants_nothing abi \<longleftrightarrow> (\<forall>intent w reason. fst (evaluate_intent abi intent w) \<noteq> Inr (True, reason))"

lemma grants_nothing_fails:
  assumes "grants_nothing abi" "execute_intent abi env intent rt = (Inr res, rt')"
  shows "\<not> er_success res"
  using assms(2)
proof (cases rule: execute_intent_cases)
  case (admitted q rt1 rw)
  then show ?thesis
    using assms(1) unfolding grants_nothing_def
    by (auto simp: chain_def split: prod.splits sum.splits) (metis (full_types) fst_conv)
qed (auto dest: admit_returned)

lemma limit_check:
  assumes "dict_get (ib_tenants b) tid = Some t"
  shows "check_resource_limits b tid = Inr () \<longleftrightarrow> active_count b tid < rl_max_concurrent_executions (tm_resource_limits t)"
  using assms by (auto simp: check_resource_limits_ok)

lemma failed_execution_active:
  assumes "grants_nothing abi" "rt_isolation rt = Some b" "rt_tenant_context rt = Some c"
    and t: "dict_get (ib_tenants b) (tc_tenant_id c) = Some t" and "0 \<le> active_count b (tc_tenant_id c)"
  shows "\<exists>b'. rt_isolation (snd (execute_intent abi env intent rt)) = Some b' \<and>
           dict_get (ib_tenants b') (tc_tenant_id c) = Some t \<and>
           active_count b' (tc_tenant_id c) =
             (if active_count b (tc_tenant_id c) < rl_max_concurrent_executions (tm_resource_limits t)
              then active_count b (tc_tenant_id c) + 1 else active_count b (tc_tenant_id c))"
proof -
  obtain r rt' where ex: "execute_intent abi env intent rt = (r, rt')" by fastforce
  obtain b' where b': "rt_isolation rt' = Some b'" "ib_tenants b' = ib_tenants b"
    using execute_intent_setup [of rt abi env intent] assms(2) ex by (auto simp: same_setup_def)
  have fail: "\<nexists>res. r = Inr res \<and> er_success res" using grants_nothing_fails [OF assms(1)] ex by auto
  show ?thesis
  proof (cases "check_resource_limits b (tc_tenant_id c) = Inr ()")
    case True
    then show ?thesis
      using isolation_slot_count [OF assms(2,3) True assms(5) ex] fail b' t ex limit_check [OF t]
      by (simp add: active_of_def)
  next
    case False
    then obtain e where "check_resource_limits b (tc_tenant_id c) = Inl e"
      by (cases "check_resource_limits b (tc_tenant_id c)") auto
    then have "execute_intent abi env intent rt = (Inl e, rt)"
      using assms(2,3) by (simp add: execute_intent_def isolation_gate_def)
    then show ?thesis using b' ex t assms(2) limit_check [OF t] False by auto
  qed
qed

lemma failed_executions_active:
  assumes "grants_nothing abi" "rt_isolation rt = Some b" "rt_tenant_context rt = Some c"
    and "dict_get (ib_tenants b) (tc_tenant_id c) = Some t" "0 \<le> active_count b (tc_tenant_id c)"
  shows "\<exists>b'. rt_isolation (executions abi jobs rt) = Some b' \<and>
           dict_get (ib_tenants b') (tc_tenant_id c) = Some t \<and>
           min (active_count b (tc_tenant_id c) + int (length jobs)) (rl_max_concurrent_executions (tm_resource_limits t))
             \<le> active_count b' (tc_tenant_id c)"
  using assms(2-)
proof (induction jobs arbitrary: rt b)
  case (Cons job jobs)
  obtain env intent where job: "job = (env, intent)" by fastforce
  let ?rt = "snd (execute_intent abi env intent rt)"
  obtain b1 where b1: "rt_isolation ?rt = Some b1" "dict_get (ib_tenants b1) (tc_tenant_id c) = Some t"
      "active_count b1 (tc_tenant_id c) =
         (if active_count b (tc_tenant_id c) < rl_max_concurrent_executions (tm_resource_limits t)
          then active_count b (tc_tenant_id c) + 1 else active_count b (tc_tenant_id c))"
    using failed_execution_active [OF assms(1) Cons.prems] by blast
  have "rt_tenant_context ?rt = Some c"
    using execute_intent_setup [of rt abi env intent] Cons.prems(2) by (simp add: same_setup_def)
  from Cons.IH [OF b1(1) this b1(2)] b1(3) Cons.prems(4) show ?case
    by (auto simp: job split: if_splits)
qed auto

text \<open>
  Property C13. Failed executions lock a tenant out: when the policy grants nothing, after as many
  executions as the tenant has slots, however they are interleaved with clock readings and
  identifiers, every further one raises \<^verbatim>\<open>ResourceLimitExceededError\<close>, although no execution is running.
\<close>

theorem failures_exhaust_isolation_slots:
  assumes "grants_nothing abi" "rt_isolation rt = Some b" "rt_tenant_context rt = Some c"
    and "dict_get (ib_tenants b) (tc_tenant_id c) = Some t" "0 \<le> active_count b (tc_tenant_id c)"
    and "rl_max_concurrent_executions (tm_resource_limits t) \<le> int (length jobs)"
  shows "\<exists>n. fst (execute_intent abi env intent (executions abi jobs rt)) =
     Inl (ResourceLimitExceededError (tc_tenant_id c) ''concurrent_executions'' n
       (rl_max_concurrent_executions (tm_resource_limits t)))"
proof -
  obtain b' where b': "rt_isolation (executions abi jobs rt) = Some b'"
      "dict_get (ib_tenants b') (tc_tenant_id c) = Some t"
      "rl_max_concurrent_executions (tm_resource_limits t) \<le> active_count b' (tc_tenant_id c)"
    using failed_executions_active [OF assms(1-5), of jobs] assms(5,6) by auto
  have "rt_tenant_context (executions abi jobs rt) = Some c"
    using executions_setup [of rt abi jobs] assms(3) by (simp add: same_setup_def)
  then show ?thesis
    using b' by (simp add: execute_intent_def isolation_gate_def check_resource_limits_full)
qed

theorem failures_exhaust_isolation_slots_witness:
  "\<exists>n. fst (execute_intent (sample_abi\<lparr>evaluate_intent := \<lambda>i w. (Inr (False, None), w)\<rparr>) sample_env (sample_intent ''read'')
       (executions (sample_abi\<lparr>evaluate_intent := \<lambda>i w. (Inr (False, None), w)\<rparr>)
         [(sample_env, sample_intent ''read''), (sample_env, sample_intent ''read'')] sample_runtime)) =
     Inl (ResourceLimitExceededError ''t1'' ''concurrent_executions'' n 2)"
proof -
  have "grants_nothing (sample_abi\<lparr>evaluate_intent := \<lambda>i w. (Inr (False, None), w)\<rparr>)"
    by (simp add: grants_nothing_def)
  moreover have "rt_isolation sample_runtime = Some sample_boundary" "rt_tenant_context sample_runtime = Some sample_context"
    by (simp_all add: sample_runtime_def runtime_init_def)
  moreover have "dict_get (ib_tenants sample_boundary) (tc_tenant_id sample_context) =
      Some (snd (hd (ib_tenants sample_boundary)))" "0 \<le> active_count sample_boundary (tc_tenant_id sample_context)"
    by (simp_all add: sample_defs dict_get_def active_count_def dict_get_or_def)
  ultimately show ?thesis
    using failures_exhaust_isolation_slots [where jobs = "[(sample_env, sample_intent ''read''), (sample_env, sample_intent ''read'')]"
        and env = sample_env and intent = "sample_intent ''read''"]
    by (fastforce simp: sample_boundary_def sample_context_def sample_limits_def)
qed

section \<open>The runtime's operations as steps\<close>

inductive runtime_step :: "'w abi \<Rightarrow> 'w runtime \<Rightarrow> 'w runtime \<Rightarrow> bool" for abi where
  host: "runtime_step abi rt (host_agent agent_id capabilities now rt)"
| set_context: "set_tenant_context ctx rt = Inr rt' \<Longrightarrow> runtime_step abi rt rt'"
| drain: "runtime_step abi rt (drain rt)"
| stop: "runtime_step abi rt (stop rt)"
| execute: "execute_intent abi env intent rt = (r, rt') \<Longrightarrow> runtime_step abi rt rt'"
| restore: "restore_from_checkpoint abi cid tenant agent rt = (r', rt') \<Longrightarrow> runtime_step abi rt rt'"

inductive_cases runtime_stepE: "runtime_step abi rt rt'"

lemma restore_frame:
  "restore_from_checkpoint abi cid tenant agent rt = (r, rt') \<Longrightarrow> \<exists>w. rt' = rt\<lparr>rt_world := w\<rparr>"
  by (auto simp: restore_from_checkpoint_def split_beta Let_def intro: exI [of _ "rt_world rt"]
      split: sum.splits exn.splits option.splits if_splits)

lemma RuntimeState_rank_le: "RuntimeState_rank s \<le> 2"
  by (cases s) simp_all

lemma runtime_step_state: "runtime_step abi rt rt' \<Longrightarrow> rt_state rt \<le> rt_state rt'"
proof (induction rule: runtime_step.induct)
  case (execute env intent rt r rt')
  then show ?case using execute_intent_setup [of rt abi env intent] by (simp add: same_setup_def)
next
  case (restore cid tenant agent rt r' rt')
  then show ?case using restore_frame by force
next
  case (set_context ctx rt rt')
  then show ?case by (auto simp: set_tenant_context_def split: if_splits option.splits sum.splits)
qed (simp_all add: host_agent_def drain_def stop_def less_eq_RuntimeState_def RuntimeState_rank_le)

lemma runtime_step_pending: "runtime_step abi rt rt' \<Longrightarrow> pending rt n \<Longrightarrow> pending rt' n"
proof (induction rule: runtime_step.induct)
  case (execute env intent rt r rt')
  then show ?case using execution_balance [of rt n abi env intent] by simp
next
  case (restore cid tenant agent rt r' rt')
  then show ?case using restore_frame [OF restore(1)] by (auto simp: pending_def)
next
  case (set_context ctx rt rt')
  then show ?case by (auto simp: pending_def set_tenant_context_def split: if_splits option.splits sum.splits)
qed (auto simp: pending_def host_agent_def drain_def stop_def runtime_log_def runtime_incr_def split: option.splits)

lemma runtime_steps_state: "(runtime_step abi)\<^sup>*\<^sup>* rt rt' \<Longrightarrow> rt_state rt \<le> rt_state rt'"
  by (induction rule: rtranclp_induct) (auto dest: runtime_step_state intro: order_trans)

lemma runtime_steps_pending: "(runtime_step abi)\<^sup>*\<^sup>* rt rt' \<Longrightarrow> pending rt n \<Longrightarrow> pending rt' n"
  by (induction rule: rtranclp_induct) (auto dest: runtime_step_pending)

lemma closed_not_admitted:
  assumes "rt_state rt \<noteq> RS_RUNNING" "admit env rt = (out, rt')"
  shows "\<nexists>q. out = Continue q"
  using assms(2)
proof (cases rule: admit_cases)
  case (admitted rt1 q)
  then show ?thesis using admit_frame [OF assms(2)] assms(1) by (simp add: same_setup_def)
qed (auto split: outcome.splits)

text \<open>
  Property C19. Shutdown is final: once the runtime is draining or stopped, no sequence of its
  operations makes it run again (its state only moves forward), and from then on \<^verbatim>\<open>execute_intent\<close>
  calls no collaborator and reports no success.
\<close>

theorem shutdown_is_final:
  assumes "(runtime_step abi)\<^sup>*\<^sup>* rt rt'" "rt_state rt \<noteq> RS_RUNNING"
    and "execute_intent abi env intent rt' = (r, rt'')"
  shows "rt_state rt \<le> rt_state rt' \<and> rt_world rt'' = rt_world rt' \<and>
     (\<forall>res. r = Inr res \<longrightarrow> \<not> er_success res \<and> er_state res = ES_CREATED)"
proof -
  have le: "rt_state rt \<le> rt_state rt'" by (rule runtime_steps_state [OF assms(1)])
  then have "rt_state rt' \<noteq> RS_RUNNING"
    using assms(2) by (cases "rt_state rt") (auto simp: less_eq_RuntimeState_def)
  note closed = closed_not_admitted [OF this]
  show ?thesis
    using assms(3) le
    by (cases rule: execute_intent_cases) (auto dest: admit_frame admit_returned closed)
qed

theorem shutdown_is_final_witness:
  "\<exists>r rt''. execute_intent sample_abi sample_env (sample_intent ''read'') (stop (drain sample_runtime)) = (r, rt'') \<and>
     rt_world rt'' = []"
proof -
  obtain r rt'' where ex: "execute_intent sample_abi sample_env (sample_intent ''read'') (stop (drain sample_runtime)) = (r, rt'')"
    by fastforce
  have "(runtime_step sample_abi)\<^sup>*\<^sup>* (drain sample_runtime) (stop (drain sample_runtime))"
    by (blast intro: runtime_step.stop)
  moreover have "rt_state (drain sample_runtime) \<noteq> RS_RUNNING" "rt_world (stop (drain sample_runtime)) = []"
    by (simp_all add: drain_def stop_def sample_runtime_def runtime_init_def)
  ultimately show ?thesis using shutdown_is_final [OF _ _ ex] ex by auto
qed

text \<open>
  In every state the runtime can reach from start-up through any sequence of its
  operations, the metrics balance: every execution counted as started is counted exactly once as
  completed or failed, and refused executions in none of the three counters.
\<close>

lemma reachable_metrics_balance:
  assumes "(runtime_step abi)\<^sup>*\<^sup>* (runtime_init w isolation logger (Some MetricsRegistry_init) tracer quota) rt"
    and "rt_metrics rt = Some m"
  shows "get_counter m ''runtime.executions.total'' =
         get_counter m ''runtime.executions.completed'' + get_counter m ''runtime.executions.failed''"
proof -
  have "pending (runtime_init w isolation logger (Some MetricsRegistry_init) tracer quota) 0"
    by (simp add: pending_def runtime_init_def MetricsRegistry_init_def get_counter_def dict_get_or_def)
  from runtime_steps_pending [OF assms(1) this] assms(2) show ?thesis by (simp add: pending_def)
qed

lemma reachable_metrics_balance_witness:
  "\<exists>m. rt_metrics (snd (execute_intent sample_abi sample_env (sample_intent ''read'')
        (runtime_init [] None None (Some MetricsRegistry_init) True None))) = Some m \<and>
     get_counter m ''runtime.executions.total'' =
     get_counter m ''runtime.executions.completed'' + get_counter m ''runtime.executions.failed''"
proof -
  let ?rt = "runtime_init [] None None (Some MetricsRegistry_init) True None :: string list runtime"
  let ?rt' = "snd (execute_intent sample_abi sample_env (sample_intent ''read'') ?rt)"
  have "rt_metrics ?rt' \<noteq> None" by code_simp
  then obtain m where m: "rt_metrics ?rt' = Some m" by blast
  have "(runtime_step sample_abi)\<^sup>*\<^sup>* ?rt ?rt'"
    by (rule r_into_rtranclp) (rule runtime_step.execute [OF surjective_pairing])
  from reachable_metrics_balance [OF this m] m show ?thesis by blast
qed

section \<open>Tenant contexts and checkpoints\<close>

text \<open>
  With an isolation boundary configured, \<^verbatim>\<open>set_tenant_context\<close> accepts a context exactly
  when both identifiers are present, the tenant is registered and the agent is registered under
  that very tenant; it then changes nothing but the context.
\<close>

lemma set_tenant_context_iff:
  assumes "rt_isolation rt = Some b"
  shows "set_tenant_context c rt = Inr rt' \<longleftrightarrow>
     tc_tenant_id c \<noteq> [] \<and> tc_agent_id c \<noteq> [] \<and> get_tenant b (tc_tenant_id c) \<noteq> None \<and>
     get_agent_tenant b (tc_agent_id c) = Some (tc_tenant_id c) \<and> rt' = rt\<lparr>rt_tenant_context := Some c\<rparr>"
proof -
  have "(\<exists>r. validate_tenant_context b c = Inr r) \<longleftrightarrow>
      tc_tenant_id c \<noteq> [] \<and> tc_agent_id c \<noteq> [] \<and> get_tenant b (tc_tenant_id c) \<noteq> None \<and>
      get_agent_tenant b (tc_agent_id c) = Some (tc_tenant_id c)"
    by (auto simp: validate_tenant_context_def TenantContext_is_valid_iff get_tenant_def validate_agent_scope_def
        get_agent_tenant_def split: option.splits sum.splits)
  then show ?thesis
    using assms by (auto simp: set_tenant_context_def TenantContext_is_valid_iff split: sum.splits)
qed

lemma set_tenant_context_iff_witness:
  "set_tenant_context sample_context sample_runtime = Inr (sample_runtime\<lparr>rt_tenant_context := Some sample_context\<rparr>)"
proof -
  have "rt_isolation sample_runtime = Some sample_boundary" by (simp add: sample_defs)
  from set_tenant_context_iff [OF this] show ?thesis
    by (simp add: sample_boundary_def sample_context_def get_tenant_def get_agent_tenant_def dict_get_def)
qed

text \<open>
  Property C38. A checkpoint whose tenant and agent are given is restored only for its owner: with
  an isolation boundary and a tenant context, success means both are the context's and the state is
  what the persistence layer returned; for any other owner the persistence layer is not called.
\<close>

theorem restore_checks_owner:
  assumes "rt_isolation rt = Some b" "rt_tenant_context rt = Some c" "tenant \<noteq> []" "agent \<noteq> []"
    and "restore_from_checkpoint abi cid tenant agent rt = (r, rt')"
  shows "(case r of Inr st \<Rightarrow> tenant = tc_tenant_id c \<and> agent = tc_agent_id c \<and>
                      persist_restore abi cid (rt_world rt) = (Inr st, rt_world rt')
          | Inl e \<Rightarrow> True) \<and>
         (tenant \<noteq> tc_tenant_id c \<or> agent \<noteq> tc_agent_id c \<longrightarrow> rt' = rt)"
proof (cases "tenant = tc_tenant_id c \<and> agent = tc_agent_id c")
  case True
  then have "validate_checkpoint_owner tenant agent (tc_tenant_id c) (tc_agent_id c) = Inr True"
    by (simp add: checkpoint_owner.check_owner)
  with True assms show ?thesis
    by (cases "persist_restore abi cid (rt_world rt)")
      (auto simp: restore_from_checkpoint_def Let_def split: sum.splits exn.splits)
next
  case False
  then obtain e where "validate_checkpoint_owner tenant agent (tc_tenant_id c) (tc_agent_id c) = Inl e"
    using checkpoint_owner.check_passes_iff [of tenant agent "tc_tenant_id c" "tc_agent_id c"]
    by (cases "validate_checkpoint_owner tenant agent (tc_tenant_id c) (tc_agent_id c)") auto
  with False assms show ?thesis by (auto simp: restore_from_checkpoint_def)
qed

theorem restore_checks_owner_witness:
  "\<exists>r. restore_from_checkpoint sample_abi ''cp'' ''t2'' ''a1'' sample_runtime = (r, sample_runtime)"
proof -
  obtain r rt' where ex: "restore_from_checkpoint sample_abi ''cp'' ''t2'' ''a1'' sample_runtime = (r, rt')" by fastforce
  have "rt_isolation sample_runtime = Some sample_boundary" "rt_tenant_context sample_runtime = Some sample_context"
    by (simp_all add: sample_runtime_def runtime_init_def)
  from restore_checks_owner [OF this _ _ ex] ex show ?thesis by (auto simp: sample_context_def)
qed

text \<open>
  The ownership check is optional for the caller: with the default, empty, tenant or
  agent argument \<^verbatim>\<open>restore_from_checkpoint\<close> behaves as if no isolation boundary were configured, and
  restores any tenant's checkpoint.
\<close>

lemma restore_skips_owner_check:
  assumes "tenant = [] \<or> agent = []"
  shows "restore_from_checkpoint abi cid tenant agent rt =
     (let (r, rt') = restore_from_checkpoint abi cid tenant agent (rt\<lparr>rt_isolation := None\<rparr>)
      in (r, rt'\<lparr>rt_isolation := rt_isolation rt\<rparr>))"
  using assms
  by (cases "persist_restore abi cid (rt_world rt)")
    (auto simp: restore_from_checkpoint_def Let_def split: option.splits sum.splits exn.splits)

lemma restore_skips_owner_check_witness:
  "restore_from_checkpoint sample_abi ''cp-of-t2'' [] [] sample_runtime =
     (let (r, rt') = restore_from_checkpoint sample_abi ''cp-of-t2'' [] [] (sample_runtime\<lparr>rt_isolation := None\<rparr>)
      in (r, rt'\<lparr>rt_isolation := rt_isolation sample_runtime\<rparr>))"
  by (rule restore_skips_owner_check) simp

section \<open>The trace\<close>

text \<open>No part of the body creates or drops the tracer.\<close>

definition keeps_tracer :: "('w, 'a) phase \<Rightarrow> bool" where
  "keeps_tracer m \<longleftrightarrow> (\<forall>f. fr_tracer (snd (m f)) = None \<longleftrightarrow> fr_tracer f = None)"

lemma keeps_tracer_seq: "keeps_tracer m \<Longrightarrow> (\<And>a. keeps_tracer (k a)) \<Longrightarrow> keeps_tracer (seq m k)"
  unfolding keeps_tracer_def seq_def by (auto split: prod.splits outcome.splits) (metis snd_conv)+

lemma fold_frame_incr_tracer: "fr_tracer (fold frame_incr ks f) = fr_tracer f"
  by (induction ks arbitrary: f) simp_all

lemma keeps_tracer_basic:
  "keeps_tracer (goto st)" "keeps_tracer (trace_start ph t)" "keeps_tracer (trace_end ok err t)"
  "keeps_tracer (call_world c)" "keeps_tracer (go a)"
  by (auto simp: keeps_tracer_def goto_def trace_start_def trace_end_def call_world_def split_beta Let_def
      split: option.splits sum.splits)

lemma keeps_tracer_modify: "(\<And>f. fr_tracer (g f) = fr_tracer f) \<Longrightarrow> keeps_tracer (modify g)"
  by (simp add: keeps_tracer_def)

lemma keeps_tracer_composed:
  "keeps_tracer (reject env tgt terr t lv msg ex ks msg')" "keeps_tracer (advance st ph t1 t2)"
  unfolding reject_def advance_def
  by (intro keeps_tracer_seq keeps_tracer_modify keeps_tracer_basic;
      simp add: fold_frame_incr_tracer keeps_tracer_def)+

lemma guarded_body_tracer:
  assumes "guarded_body abi env intent ctx f = (out, f')"
  shows "fr_tracer f' = None \<longleftrightarrow> fr_tracer f = None"
proof -
  have parts: "keeps_tracer (start_guarded env)" "keeps_tracer (policy_phase abi env intent)"
    "keeps_tracer (capability_phase abi env intent)" "keeps_tracer (routing_phase abi env intent)"
    "\<And>p. keeps_tracer (gateway_phase abi env intent p)" "\<And>tr. keeps_tracer (checkpoint_phase abi env intent ctx tr)"
    unfolding start_guarded_def policy_phase_def capability_phase_def routing_phase_def gateway_phase_def
      checkpoint_phase_def
    by (auto intro!: keeps_tracer_seq keeps_tracer_basic keeps_tracer_composed keeps_tracer_modify split: sum.splits)
  have "keeps_tracer (completion_phase env ctx tr cid)" for tr cid
    unfolding completion_phase_def Let_def
    by (intro keeps_tracer_seq keeps_tracer_modify) (simp_all add: keeps_tracer_def)
  with parts have "keeps_tracer (guarded_body abi env intent ctx)"
    unfolding guarded_body_def by (intro keeps_tracer_seq)
  then show ?thesis using assms by (metis keeps_tracer_def snd_conv)
qed

lemma prefix_full: "prefix xs ys \<Longrightarrow> length xs = length ys \<Longrightarrow> xs = ys"
  by (auto simp: prefix_def)

text \<open>
  Property C32. The trace of an execution: with tracing on, the closed phases are a non-empty prefix
  of the six phases of the chain, in order, the whole list exactly when the execution succeeds;
  every closed phase but the last succeeded, the last one with the execution's outcome, and no
  phase is left open.
\<close>

theorem trace_follows_chain:
  assumes "rt_tracer_cls rt"
  shows "\<exists>f ps res tr. execute_quota_guarded abi env intent ctx rt = (Returned res, f) \<and>
     prefix ps [INTENT_RECEIVED, CAPABILITY_CHECK, INTENT_ROUTING, TOOL_EXECUTION, CHECKPOINT_SAVE, EXECUTION_COMPLETED] \<and>
     ps \<noteq> [] \<and> (er_success res \<longleftrightarrow> length ps = 6) \<and> fr_tracer f = Some tr \<and> tr_current_phase tr = None \<and>
     map te_phase (tr_entries tr) = ps \<and>
     map te_success (tr_entries tr) = replicate (length ps - 1) True @ [er_success res]"
proof -
  obtain n where "pending rt n" using pending_ex by blast
  from guarded_refines_chain [OF this refl, of abi env intent ctx]
  obtain ps f where ps: "ps \<noteq> []" "prefix ps [INTENT_RECEIVED, CAPABILITY_CHECK, INTENT_ROUTING, TOOL_EXECUTION,
        CHECKPOINT_SAVE, EXECUTION_COMPLETED]"
    and full: "er_success (fst (chain abi env intent ctx (rt_world rt))) \<longleftrightarrow>
        ps = [INTENT_RECEIVED, CAPABILITY_CHECK, INTENT_ROUTING, TOOL_EXECUTION, CHECKPOINT_SAVE, EXECUTION_COMPLETED]"
    and f: "guarded_body abi env intent ctx (guarded_frame env intent ctx rt) =
        (Returned (fst (chain abi env intent ctx (rt_world rt))), f)"
      "ended_at f (settled ctx (chain abi env intent ctx (rt_world rt)) rt) n ps
        (er_success (fst (chain abi env intent ctx (rt_world rt))))"
    by (auto simp: halts_within_def halts_with_def)
  have "fr_tracer f \<noteq> None"
    using guarded_body_tracer [OF f(1)] assms by (simp add: guarded_frame_def)
  moreover have "length ps = 6 \<longleftrightarrow> ps = [INTENT_RECEIVED, CAPABILITY_CHECK, INTENT_ROUTING, TOOL_EXECUTION,
        CHECKPOINT_SAVE, EXECUTION_COMPLETED]"
    using ps(2) prefix_full [OF ps(2)] by auto
  ultimately show ?thesis
    using ps full f unfolding execute_quota_guarded_def ended_at_def trace_phases_def trace_flags_def by fastforce
qed

theorem trace_follows_chain_witness:
  "rt_tracer_cls sample_runtime \<and>
   (\<exists>f res tr. execute_quota_guarded sample_abi sample_env (sample_intent ''read'') None sample_runtime = (Returned res, f) \<and>
      fr_tracer f = Some tr \<and> (er_success res \<longleftrightarrow> length (map te_phase (tr_entries tr)) = 6))"
proof -
  have on: "rt_tracer_cls sample_runtime" by (simp add: sample_runtime_def runtime_init_def)
  from trace_follows_chain [OF on, of sample_abi sample_env "sample_intent ''read''" None] on show ?thesis by metis
qed

end
