(* ===== verification/Capability.thy ===== *)
theory Capability
  imports Errors Tenant
begin

text \<open>
  \<^verbatim>\<open>core/policies/capability.py\<close>, \<^verbatim>\<open>core/policies/capability_registry.py\<close> and
  \<^verbatim>\<open>control_plane/policy/resolver.py\<close>: capability entities, the runtime registry of capabilities and the
  resolver over it. A \<^verbatim>\<open>frozenset\<close> that the code iterates is a list in its iteration order. Version
  comparison is the third-party package \<^verbatim>\<open>packaging\<close>: the argument \<open>version_eq\<close>, which gives \<^const>\<open>None\<close>
  where \<^verbatim>\<open>Version\<close> raises \<^verbatim>\<open>InvalidVersion\<close>.
\<close>

datatype CapabilityCategory =
    CAT_MODEL | CAT_TOOL | CAT_CODE | CAT_MEDIA | CAT_ENTERPRISE | CAT_SECURITY | CAT_SYSTEM | CAT_DEVICE
  | CAT_FILESYSTEM | CAT_NETWORK

record Capability =
  cp_id :: string
  cp_name :: string
  cp_category :: CapabilityCategory
  cp_risk_level :: string
  cp_version :: string
  cp_description :: string
  cp_requirements :: pyobj
  cp_tags :: "string list"
  cp_metadata :: pyobj

definition Capability_validate :: "Capability \<Rightarrow> string list" where
  "Capability_validate c =
     require (cp_id c \<noteq> []) ''capability id required'' @
     require (cp_name c \<noteq> []) ''capability name required''"

section \<open>The registry\<close>

record CapabilityRegistry =
  cr_capabilities :: "(string, Capability) dict"

definition CapabilityRegistry_register :: "Capability \<Rightarrow> CapabilityRegistry \<Rightarrow> exn + CapabilityRegistry" where
  "CapabilityRegistry_register c r =
     (let errors = Capability_validate c in
      if errors \<noteq> [] then Inl (ValueError (''Invalid capability '' @ cp_id c @ '': '' @ list_repr errors))
      else Inr (r\<lparr>cr_capabilities := dict_set (cp_id c) c (cr_capabilities r)\<rparr>))"

fun register_each :: "Capability list \<Rightarrow> CapabilityRegistry \<Rightarrow> exn + CapabilityRegistry" where
  "register_each [] r = Inr r"
| "register_each (c # cs) r =
     (case CapabilityRegistry_register c r of Inl e \<Rightarrow> Inl e | Inr r' \<Rightarrow> register_each cs r')"

definition CapabilityRegistry_init :: "Capability list \<Rightarrow> exn + CapabilityRegistry" where
  "CapabilityRegistry_init capabilities = register_each capabilities \<lparr>cr_capabilities = []\<rparr>"

definition CapabilityRegistry_get :: "CapabilityRegistry \<Rightarrow> string \<Rightarrow> Capability option" where
  "CapabilityRegistry_get r capability_id = dict_get (cr_capabilities r) capability_id"

definition CapabilityRegistry_contains :: "CapabilityRegistry \<Rightarrow> string \<Rightarrow> bool" where
  "CapabilityRegistry_contains r capability_id = dict_has (cr_capabilities r) capability_id"

definition CapabilityRegistry_list :: "CapabilityRegistry \<Rightarrow> Capability list" where
  "CapabilityRegistry_list r = dict_values (cr_capabilities r)"

definition CapabilityRegistry_remove :: "string \<Rightarrow> CapabilityRegistry \<Rightarrow> CapabilityRegistry" where
  "CapabilityRegistry_remove capability_id r = r\<lparr>cr_capabilities := dict_del capability_id (cr_capabilities r)\<rparr>"

definition CapabilityRegistry_count :: "CapabilityRegistry \<Rightarrow> nat" where
  "CapabilityRegistry_count r = length (cr_capabilities r)"

definition CapabilityRegistry_query ::
  "CapabilityRegistry \<Rightarrow> CapabilityCategory option \<Rightarrow> string option \<Rightarrow> Capability list" where
  "CapabilityRegistry_query r category risk_level =
     filter (\<lambda>c. (case category of None \<Rightarrow> True | Some k \<Rightarrow> cp_category c = k) \<and>
                  (case risk_level of None \<Rightarrow> True | Some l \<Rightarrow> cp_risk_level c = l))
       (dict_values (cr_capabilities r))"

definition get_compatible ::
  "(string \<Rightarrow> string \<Rightarrow> bool option) \<Rightarrow> CapabilityRegistry \<Rightarrow> string \<Rightarrow> string option \<Rightarrow> Capability list" where
  "get_compatible version_eq r capability_id version_constraint =
     (case CapabilityRegistry_get r capability_id of
        None \<Rightarrow> []
      | Some base \<Rightarrow>
          (case version_constraint of
             None \<Rightarrow> [base]
           | Some v \<Rightarrow> filter (\<lambda>c. cp_id c = capability_id \<and> version_eq (cp_version c) v = Some True)
                         (dict_values (cr_capabilities r))))"

section \<open>The resolver\<close>

record CapabilityValidationResult =
  cv_valid :: bool
  cv_missing :: "string list"

definition validate_required :: "CapabilityRegistry \<Rightarrow> string list \<Rightarrow> CapabilityValidationResult" where
  "validate_required r required =
     (let missing = filter (\<lambda>cid. \<not> CapabilityRegistry_contains r cid) required
      in \<lparr>cv_valid = (length missing = 0), cv_missing = missing\<rparr>)"

definition resolve :: "CapabilityRegistry \<Rightarrow> string list \<Rightarrow> Capability option list" where
  "resolve r ids = map (CapabilityRegistry_get r) (filter (CapabilityRegistry_contains r) ids)"

section \<open>Lemmas\<close>

definition capability_registry_wf :: "CapabilityRegistry \<Rightarrow> bool" where
  "capability_registry_wf r \<longleftrightarrow> dict_wf (cr_capabilities r) \<and>
     (\<forall>cid c. dict_get (cr_capabilities r) cid = Some c \<longrightarrow> cp_id c = cid \<and> Capability_validate c = [])"

interpretation capabilities:
  keyed_registry CapabilityRegistry_register CapabilityRegistry_get cp_id capability_registry_wf
proof unfold_locales
  show "CapabilityRegistry_register v r = Inr r' \<Longrightarrow>
      CapabilityRegistry_get r' k = (if k = cp_id v then Some v else CapabilityRegistry_get r k)" for v r r' k
    by (auto simp: CapabilityRegistry_register_def CapabilityRegistry_get_def Let_def split: if_splits)
  show "capability_registry_wf r \<Longrightarrow> CapabilityRegistry_register v r = Inr r' \<Longrightarrow> capability_registry_wf r'" for v r r'
    by (auto simp: capability_registry_wf_def CapabilityRegistry_register_def Let_def split: if_splits)
  show "capability_registry_wf r \<Longrightarrow> CapabilityRegistry_get r k = Some v \<Longrightarrow> cp_id v = k" for r k v
    by (simp add: capability_registry_wf_def CapabilityRegistry_get_def)
qed

lemma register_each_all: "register_each cs r = capabilities.register_all cs r"
  by (induction cs arbitrary: r) (auto split: sum.splits)

lemma CapabilityRegistry_init_wf: "CapabilityRegistry_init cs = Inr r \<Longrightarrow> capability_registry_wf r"
  unfolding CapabilityRegistry_init_def register_each_all
  by (erule capabilities.register_all_invar [rotated]) (simp add: capability_registry_wf_def)

lemma CapabilityRegistry_remove_contains [simp, op_simps]:
  "CapabilityRegistry_contains (CapabilityRegistry_remove cid r) k \<longleftrightarrow> k \<noteq> cid \<and> CapabilityRegistry_contains r k"
  by (simp add: CapabilityRegistry_contains_def CapabilityRegistry_remove_def)

lemma validate_required_iff:
  "cv_valid (validate_required r required) \<longleftrightarrow> (\<forall>cid \<in> set required. CapabilityRegistry_contains r cid)"
  by (auto simp: validate_required_def Let_def filter_empty_conv)

text \<open>The resolver never hands out a missing capability: what it resolves are registered entities with the requested ids.\<close>

lemma resolve_registered:
  assumes "capability_registry_wf r" "x \<in> set (resolve r ids)"
  obtains c where "x = Some c" "cp_id c \<in> set ids"
proof -
  obtain cid where "cid \<in> set ids" "CapabilityRegistry_contains r cid" "x = CapabilityRegistry_get r cid"
    using assms(2) by (auto simp: resolve_def)
  then show thesis
    using that assms(1)
    by (auto simp: CapabilityRegistry_contains_def CapabilityRegistry_get_def dict_has_def capability_registry_wf_def)
qed

text \<open>With a version constraint, the only candidate is the entity registered under the identifier.\<close>

lemma get_compatible_sound:
  assumes "capability_registry_wf r" "c \<in> set (get_compatible version_eq r cid v)"
  shows "CapabilityRegistry_get r cid = Some c \<and> (\<forall>w. v = Some w \<longrightarrow> version_eq (cp_version c) w = Some True)"
proof (cases v)
  case None
  then show ?thesis using assms(2) by (auto simp: get_compatible_def split: option.splits)
next
  case (Some w)
  then obtain k where k: "(k, c) \<in> set (cr_capabilities r)" "cp_id c = cid" "version_eq (cp_version c) w = Some True"
    using assms(2) by (auto simp: get_compatible_def dict_values_def split: option.splits)
  then have "dict_get (cr_capabilities r) k = Some c"
    using assms(1) dict_wf_get by (auto simp: capability_registry_wf_def)
  then show ?thesis
    using k assms(1) Some by (auto simp: capability_registry_wf_def CapabilityRegistry_get_def)
qed

end
