(* ===== verification/Policy.thy ===== *)
theory Policy
  imports Capability Abi
begin

text \<open>
  \<^verbatim>\<open>core/policies/policy.py\<close>, \<^verbatim>\<open>control_plane/policy/cache.py\<close>, \<^verbatim>\<open>control_plane/policy/engine.py\<close> and
  \<^verbatim>\<open>control_plane/adapters/to_kernel/policy.py\<close>: policy rules, the decision cache, the rule engine and
  the adapter the runtime calls. A decision is the dictionary the engine returns, with \<^const>\<open>None\<close> for
  a Python \<^verbatim>\<open>None\<close>. \<^verbatim>\<open>sha256\<close> (hex digest) and \<^verbatim>\<open>fnmatch\<close> are arguments. Two clock readings belong to an
  evaluation, one for the lookup and one for the store.
\<close>

section \<open>Rules\<close>

datatype PolicyEffect = ALLOW | DENY | REQUIRE_APPROVAL
datatype PolicyStatus = ACTIVE | INACTIVE | DEPRECATED

primrec PolicyEffect_value :: "PolicyEffect \<Rightarrow> string" where
  "PolicyEffect_value ALLOW = ''ALLOW''"
| "PolicyEffect_value DENY = ''DENY''"
| "PolicyEffect_value REQUIRE_APPROVAL = ''REQUIRE_APPROVAL''"

primrec PolicyStatus_value :: "PolicyStatus \<Rightarrow> string" where
  "PolicyStatus_value ACTIVE = ''ACTIVE''"
| "PolicyStatus_value INACTIVE = ''INACTIVE''"
| "PolicyStatus_value DEPRECATED = ''DEPRECATED''"

text \<open>The call \<^verbatim>\<open>PolicyEffect(effect)\<close>: the member with that value.\<close>

definition PolicyEffect_of :: "string \<Rightarrow> exn + PolicyEffect" where
  "PolicyEffect_of s =
     (case find (\<lambda>e. PolicyEffect_value e = s) [ALLOW, DENY, REQUIRE_APPROVAL] of
        None \<Rightarrow> Inl (ValueError (str_repr s @ '' is not a valid PolicyEffect''))
      | Some e \<Rightarrow> Inr e)"

record PolicyRule =
  pr_policy_id :: string
  pr_tenant_id :: string
  pr_name :: string
  pr_target :: string
  pr_effect :: PolicyEffect
  pr_condition :: "string option"
  pr_priority :: int
  pr_status :: PolicyStatus
  pr_created_at :: "time option"
  pr_updated_at :: "time option"
  pr_required_capabilities :: "string list"

definition PolicyRule_validate :: "PolicyRule \<Rightarrow> string list" where
  "PolicyRule_validate r =
     require (pr_policy_id r \<noteq> []) ''policy_id is required'' @
     require (pr_target r \<noteq> []) (''target is required (e.g. '' @ sq ''mcp.database.*'' @ '')'') @
     require (pr_name r \<noteq> []) ''name is required''"

definition PolicyRule_is_valid :: "PolicyRule \<Rightarrow> bool" where
  "PolicyRule_is_valid r = (length (PolicyRule_validate r) = 0)"

record PolicyEvaluation =
  pv_request_id :: string
  pv_decision :: PolicyEffect
  pv_matched_rule :: "string option"
  pv_reason :: string
  pv_audit_log_ref :: "string option"

definition is_allowed :: "PolicyEvaluation \<Rightarrow> bool" where
  "is_allowed e = (pv_decision e = ALLOW)"

definition is_denied :: "PolicyEvaluation \<Rightarrow> bool" where
  "is_denied e = (pv_decision e = DENY)"

definition requires_approval :: "PolicyEvaluation \<Rightarrow> bool" where
  "requires_approval e = (pv_decision e = REQUIRE_APPROVAL)"

section \<open>The decision cache\<close>

type_synonym decision = "(string, string option) dict"

record InMemoryPolicyCache =
  pc_ttl :: int
  pc_max_entries :: int
  pc_cache :: "(string, decision \<times> time) dict"

definition InMemoryPolicyCache_init :: "int \<Rightarrow> int \<Rightarrow> InMemoryPolicyCache" where
  "InMemoryPolicyCache_init ttl_seconds max_entries =
     \<lparr>pc_ttl = ttl_seconds, pc_max_entries = max_entries, pc_cache = []\<rparr>"

definition make_key :: "string \<Rightarrow> string \<Rightarrow> string \<Rightarrow> string \<Rightarrow> string list \<Rightarrow> string" where
  "make_key policy_version agent_id action resource required_capabilities =
     ''v1|'' @ (if required_capabilities = [] then [] else str_join '','' (sort required_capabilities)) @
     ''|'' @ agent_id @ ''|'' @ action @ ''|'' @ resource"

definition cache_get :: "string \<Rightarrow> time \<Rightarrow> InMemoryPolicyCache \<Rightarrow> decision option \<times> InMemoryPolicyCache" where
  "cache_get key now c =
     (case dict_get (pc_cache c) key of
        None \<Rightarrow> (None, c)
      | Some (v, expires) \<Rightarrow>
          if now \<ge> expires then (None, c\<lparr>pc_cache := dict_del key (pc_cache c)\<rparr>) else (Some v, c))"

definition cache_set :: "string \<Rightarrow> decision \<Rightarrow> time \<Rightarrow> InMemoryPolicyCache \<Rightarrow> InMemoryPolicyCache" where
  "cache_set key v now c =
     (let entries = pc_cache c;
          kept = (if length entries \<ge> 10000
                  then dict_del (fst (arg_min_list (\<lambda>kv. snd (snd kv)) entries)) entries else entries)
      in c\<lparr>pc_cache := dict_set key (v, now + 300) kept\<rparr>)"

definition invalidate :: "(string \<Rightarrow> string \<Rightarrow> bool) \<Rightarrow> string option \<Rightarrow> InMemoryPolicyCache \<Rightarrow> InMemoryPolicyCache" where
  "invalidate fnmatch pattern c =
     (case pattern of
        None \<Rightarrow> c\<lparr>pc_cache := []\<rparr>
      | Some p \<Rightarrow> c\<lparr>pc_cache := filter (\<lambda>kv. \<not> fnmatch (fst kv) p) (pc_cache c)\<rparr>)"

section \<open>The engine\<close>

record PolicyEngine =
  pe_policies :: "(string, PolicyRule) dict"
  pe_capability_registry :: "CapabilityRegistry option"
  pe_cache :: InMemoryPolicyCache

definition PolicyEngine_init :: "CapabilityRegistry option \<Rightarrow> PolicyEngine" where
  "PolicyEngine_init registry =
     \<lparr>pe_policies = [], pe_capability_registry = registry, pe_cache = InMemoryPolicyCache_init 300 10000\<rparr>"

definition make_cache_key ::
  "(string \<Rightarrow> string) \<Rightarrow> string \<Rightarrow> string \<Rightarrow> string \<Rightarrow> string list option \<Rightarrow> string" where
  "make_cache_key sha256 agent_id action resource required_capabilities =
     str_join ''|'' [agent_id, action, resource,
       (case required_capabilities of
          None \<Rightarrow> []
        | Some caps \<Rightarrow> if caps = [] then [] else take 16 (sha256 (str_join '','' (sort caps))))]"

definition target_matches :: "string \<Rightarrow> string \<Rightarrow> bool" where
  "target_matches target resource =
     (if target = ''*'' then True
      else if suffix ''.*'' target
      then (let pre = take (length target - 2) target in resource = pre \<or> prefix (pre @ ''.'') resource)
      else target = resource)"

definition decision_dict :: "string \<Rightarrow> string option \<Rightarrow> string \<Rightarrow> decision" where
  "decision_dict d matched reason = [(''decision'', Some d), (''matched_rule'', matched), (''reason'', Some reason)]"

definition result_of :: "PolicyRule list \<Rightarrow> decision" where
  "result_of matching_rules =
     (if matching_rules = [] then decision_dict ''ALLOW'' None ''No matching policy rule found''
      else let best = hd (sort_key pr_priority matching_rules)
           in decision_dict (PolicyEffect_value (pr_effect best)) (Some (pr_policy_id best))
                (''Matched rule: '' @ pr_name best))"

definition matching_rules :: "PolicyEngine \<Rightarrow> string \<Rightarrow> PolicyRule list" where
  "matching_rules eng resource =
     filter (\<lambda>r. pr_status r = ACTIVE \<and> target_matches (pr_target r) resource) (dict_values (pe_policies eng))"

definition evaluate ::
  "(string \<Rightarrow> string) \<Rightarrow> string \<Rightarrow> string \<Rightarrow> string \<Rightarrow> time \<Rightarrow> time \<Rightarrow> PolicyEngine \<Rightarrow> decision \<times> PolicyEngine" where
  "evaluate sha256 agent_id action resource t_get t_set eng =
     (let cache_key = make_cache_key sha256 agent_id action resource None;
          (cached, cache) = cache_get cache_key t_get (pe_cache eng);
          eng1 = eng\<lparr>pe_cache := cache\<rparr>
      in case cached of
           Some d \<Rightarrow> (d, eng1)
         | None \<Rightarrow>
             let result = result_of (matching_rules eng1 resource)
             in (result, eng1\<lparr>pe_cache := cache_set cache_key result t_set cache\<rparr>))"

text \<open>
  The loop of \<^verbatim>\<open>evaluate_with_capabilities\<close> over the rules: a matching rule that requires an
  unregistered capability ends it with a denial, otherwise the matching rules are collected.
\<close>

definition capability_denial :: "string \<Rightarrow> decision" where
  "capability_denial cap_id = decision_dict ''DENY'' None (''Capability not registered: '' @ cap_id)"

fun collect_rules :: "CapabilityRegistry option \<Rightarrow> string \<Rightarrow> PolicyRule list \<Rightarrow> decision + PolicyRule list" where
  "collect_rules registry resource [] = Inr []"
| "collect_rules registry resource (r # rs) =
     (if pr_status r \<noteq> ACTIVE \<or> \<not> target_matches (pr_target r) resource then collect_rules registry resource rs
      else
        let refusal = (if pr_required_capabilities r = [] then None
                       else case registry of
                              None \<Rightarrow> Some (decision_dict ''DENY'' None
                                       ''Capability registry not available for capability validation'')
                            | Some cr \<Rightarrow> map_option capability_denial
                                (find (\<lambda>c. \<not> CapabilityRegistry_contains cr c) (pr_required_capabilities r)))
        in case refusal of
             Some d \<Rightarrow> Inl d
           | None \<Rightarrow> (case collect_rules registry resource rs of Inl d \<Rightarrow> Inl d | Inr ms \<Rightarrow> Inr (r # ms)))"

definition evaluate_with_capabilities ::
  "(string \<Rightarrow> string) \<Rightarrow> string \<Rightarrow> string \<Rightarrow> string \<Rightarrow> string list \<Rightarrow> time \<Rightarrow> time \<Rightarrow> PolicyEngine \<Rightarrow>
   decision \<times> PolicyEngine" where
  "evaluate_with_capabilities sha256 agent_id action resource required t_get t_set eng =
     (case (case pe_capability_registry eng of
              None \<Rightarrow> None
            | Some cr \<Rightarrow> find (\<lambda>c. \<not> CapabilityRegistry_contains cr c) required) of
        Some cap_id \<Rightarrow> (capability_denial cap_id, eng)
      | None \<Rightarrow>
          let cache_key = make_cache_key sha256 [] [] resource (Some required);
              (cached, cache) = cache_get cache_key t_get (pe_cache eng);
              eng1 = eng\<lparr>pe_cache := cache\<rparr>
          in case cached of
               Some d \<Rightarrow> (d, eng1)
             | None \<Rightarrow>
                 (case collect_rules (pe_capability_registry eng) resource (dict_values (pe_policies eng)) of
                    Inl d \<Rightarrow> (d, eng1)
                  | Inr ms \<Rightarrow> (result_of ms, eng1\<lparr>pe_cache := cache_set cache_key (result_of ms) t_set cache\<rparr>)))"

definition generate_policy_id :: "string \<Rightarrow> string" where
  "generate_policy_id uuid_hex = ''pol-'' @ take 12 uuid_hex"

definition create_policy ::
  "string \<Rightarrow> string \<Rightarrow> string \<Rightarrow> string option \<Rightarrow> string \<Rightarrow> PolicyEngine \<Rightarrow> exn + string \<times> PolicyEngine" where
  "create_policy name target effect condition uuid_hex eng =
     (case PolicyEffect_of effect of
        Inl e \<Rightarrow> Inl e
      | Inr eff \<Rightarrow>
          let policy_id = generate_policy_id uuid_hex;
              rule = \<lparr>pr_policy_id = policy_id, pr_tenant_id = ''default'', pr_name = name, pr_target = target,
                      pr_effect = eff, pr_condition = condition, pr_priority = 100, pr_status = ACTIVE,
                      pr_created_at = None, pr_updated_at = None, pr_required_capabilities = []\<rparr>
          in Inr (policy_id, eng\<lparr>pe_policies := dict_set policy_id rule (pe_policies eng),
                                 pe_cache := (pe_cache eng)\<lparr>pc_cache := []\<rparr>\<rparr>))"

definition list_policies :: "PolicyEngine \<Rightarrow> pyobj list" where
  "list_policies eng =
     map (\<lambda>r. [(''policy_id'', PyStr (pr_policy_id r)), (''name'', PyStr (pr_name r)), (''target'', PyStr (pr_target r)),
               (''effect'', PyStr (PolicyEffect_value (pr_effect r))), (''priority'', PyInt (pr_priority r)),
               (''status'', PyStr (PolicyStatus_value (pr_status r)))]) (dict_values (pe_policies eng))"

section \<open>The adapter\<close>

definition opt_get :: "decision \<Rightarrow> string \<Rightarrow> string option" where
  "opt_get d k = dict_get_or d k None"

definition fmt_opt :: "string option \<Rightarrow> string" where
  "fmt_opt x = (case x of None \<Rightarrow> ''None'' | Some s \<Rightarrow> s)"

definition adapter_verdict :: "string \<Rightarrow> decision \<Rightarrow> bool \<times> string option" where
  "adapter_verdict default_reason result =
     (case opt_get result ''decision'' of
        None \<Rightarrow> (False, Some ''Malformed policy result: missing decision'')
      | Some d \<Rightarrow>
          if d = ''ALLOW'' then (True, None)
          else
            let reason = dict_get_or result ''reason'' (Some default_reason)
            in case opt_get result ''matched_rule'' of
                 None \<Rightarrow> (False, reason)
               | Some m \<Rightarrow> if m = [] then (False, reason) else (False, Some (''['' @ m @ ''] '' @ fmt_opt reason)))"

definition adapter_evaluate_intent ::
  "(string \<Rightarrow> string) \<Rightarrow> Intent \<Rightarrow> time \<Rightarrow> time \<Rightarrow> PolicyEngine \<Rightarrow> (bool \<times> string option) \<times> PolicyEngine" where
  "adapter_evaluate_intent sha256 intent t_get t_set eng =
     (let (result, eng') = evaluate sha256 (in_agent_id intent) (in_action intent) (in_action intent) t_get t_set eng
      in (adapter_verdict ''Policy denied the intent'' result, eng'))"

definition adapter_check_capability ::
  "(string \<Rightarrow> string) \<Rightarrow> string \<Rightarrow> string \<Rightarrow> time \<Rightarrow> time \<Rightarrow> PolicyEngine \<Rightarrow> (bool \<times> string option) \<times> PolicyEngine" where
  "adapter_check_capability sha256 action agent_id t_get t_set eng =
     (let (result, eng') = evaluate sha256 agent_id action action t_get t_set eng
      in (adapter_verdict ''Policy denied the capability'' result, eng'))"

end
