(* ===== verification/Policy_Correctness.thy ===== *)
theory Policy_Correctness
  imports Policy
begin

text \<open>
  Correctness of the policy engine: which rule decides, and that the decision cache never changes a
  decision for identifiers without the separator character, in every state the engine reaches.
\<close>

section \<open>Which rule decides\<close>

lemma target_matches_iff:
  "target_matches target resource \<longleftrightarrow>
     target = ''*'' \<or> (\<exists>p. target = p @ ''.*'' \<and> (resource = p \<or> prefix (p @ ''.'') resource)) \<or>
     (\<not> suffix ''.*'' target \<and> target = resource)"
  by (auto simp: target_matches_def suffix_def Let_def)

text \<open>The head of a stable sort is the first element with the least key.\<close>

lemma insort_key_hd:
  "hd (insort_key f x xs) = (if xs = [] \<or> f x \<le> f (hd xs) then x else hd xs)"
  by (cases xs) auto

lemma sort_key_hd_first:
  assumes "xs \<noteq> []"
  shows "\<exists>ys zs. xs = ys @ hd (sort_key f xs) # zs \<and> (\<forall>y \<in> set ys. f (hd (sort_key f xs)) < f y) \<and>
           (\<forall>z \<in> set zs. f (hd (sort_key f xs)) \<le> f z)"
  using assms
proof (induction xs)
  case (Cons x xs)
  show ?case
  proof (cases "xs = []")
    case False
    let ?m = "hd (sort_key f xs)"
    from Cons.IH [OF False] obtain ys zs where m: "xs = ys @ ?m # zs" "\<forall>y \<in> set ys. f ?m < f y" "\<forall>z \<in> set zs. f ?m \<le> f z"
      by blast
    have "set xs = insert ?m (set ys \<union> set zs)" using m(1) by (metis Un_insert_right list.simps(15) set_append)
    then have all: "\<forall>y \<in> set xs. f ?m \<le> f y" using m(2,3) by auto
    have ne: "sort_key f xs \<noteq> []" using False by (metis length_0_conv length_sort)
    have h: "hd (sort_key f (x # xs)) = (if f x \<le> f ?m then x else ?m)"
      using ne by (simp add: insort_key_hd)
    show ?thesis
    proof (cases "f x \<le> f ?m")
      case True
      with h all show ?thesis by (intro exI [of _ "[]"] exI [of _ xs]) force
    next
      case F: False
      with h m show ?thesis by (intro exI [of _ "x # ys"] exI [of _ zs]) auto
    qed
  qed (auto intro: exI [of _ "[]"])
qed simp

lemma result_of_best:
  assumes "rules \<noteq> []"
  shows "\<exists>ys best zs. rules = ys @ best # zs \<and> (\<forall>r \<in> set ys. pr_priority best < pr_priority r) \<and>
     (\<forall>r \<in> set zs. pr_priority best \<le> pr_priority r) \<and>
     result_of rules = decision_dict (PolicyEffect_value (pr_effect best)) (Some (pr_policy_id best))
       (''Matched rule: '' @ pr_name best)"
  using sort_key_hd_first [OF assms, of pr_priority] assms by (auto simp: result_of_def Let_def)

section \<open>Cache keys\<close>

definition pipe_free :: "string \<Rightarrow> bool" where
  "pipe_free s = (CHR ''|'' \<notin> set s)"

text \<open>What a SHA-256 hex digest looks like.\<close>

definition hex_digest :: "(string \<Rightarrow> string) \<Rightarrow> bool" where
  "hex_digest sha256 \<longleftrightarrow> (\<forall>s. length (sha256 s) = 64 \<and> set (sha256 s) \<subseteq> set ''0123456789abcdef'')"

lemma hex_digest_prefix:
  assumes "hex_digest sha256"
  shows "pipe_free (take 16 (sha256 s))" "take 16 (sha256 s) \<noteq> []"
proof -
  have "set (take 16 (sha256 s)) \<subseteq> set ''0123456789abcdef''"
    using assms set_take_subset by (fastforce simp: hex_digest_def)
  then show "pipe_free (take 16 (sha256 s))" by (auto simp: pipe_free_def)
  show "take 16 (sha256 s) \<noteq> []" using assms by (auto simp: hex_digest_def dest: spec [of _ s])
qed

lemma pipe_split:
  "pipe_free a \<Longrightarrow> pipe_free a' \<Longrightarrow> a @ CHR ''|'' # x = a' @ CHR ''|'' # x' \<longleftrightarrow> a = a' \<and> x = x'"
proof (induction a arbitrary: a')
  case Nil
  then show ?case by (cases a') (auto simp: pipe_free_def)
next
  case (Cons c a)
  then show ?case by (cases a') (auto simp: pipe_free_def)
qed

abbreviation key4 :: "string \<Rightarrow> string \<Rightarrow> string \<Rightarrow> string \<Rightarrow> string" where
  "key4 a b c d \<equiv> str_join ''|'' [a, b, c, d]"

lemma key4_eq: "key4 a b c d = a @ CHR ''|'' # b @ CHR ''|'' # c @ CHR ''|'' # d"
  by simp

lemma pipe_free_count: "pipe_free s \<longleftrightarrow> count_list s (CHR ''|'') = 0"
  by (simp add: pipe_free_def count_list_0_iff)

lemma key4_inj:
  assumes "pipe_free a" "pipe_free b" "pipe_free c" "pipe_free d" "key4 a b c d = key4 a' b' c' d'"
  shows "a' = a \<and> b' = b \<and> c' = c \<and> d' = d"
proof -
  have "count_list (key4 a b c d) (CHR ''|'') = count_list (key4 a' b' c' d') (CHR ''|'')"
    using assms(5) by simp
  then have "pipe_free a'" "pipe_free b'" "pipe_free c'" "pipe_free d'"
    using assms(1-4) by (auto simp: pipe_free_count)
  then show ?thesis using assms unfolding key4_eq by (simp add: pipe_split)
qed

lemma key4_plain:
  assumes "pipe_free a" "pipe_free act" "pipe_free res" "key4 a' act' res' d = key4 a act res []"
  shows "a' = a" "act' = act" "res' = res" "d = []"
  using key4_inj [OF assms(1-3) _ assms(4) [symmetric]] by (simp_all add: pipe_free_def)

lemma make_cache_key_None: "make_cache_key sha256 a b c None = key4 a b c []"
  by (simp add: make_cache_key_def)

section \<open>Coherence of the cache\<close>

definition policy_cache_coherent :: "PolicyEngine \<Rightarrow> bool" where
  "policy_cache_coherent eng \<longleftrightarrow>
     (\<forall>a act res v expires. pipe_free a \<longrightarrow> pipe_free act \<longrightarrow> pipe_free res \<longrightarrow>
        dict_get (pc_cache (pe_cache eng)) (key4 a act res []) = Some (v, expires) \<longrightarrow>
        v = result_of (matching_rules eng res))"

lemma cache_get_entries:
  assumes "cache_get key now c = (hit, c')"
  shows "dict_get (pc_cache c') k = Some x \<Longrightarrow> dict_get (pc_cache c) k = Some x"
    and "hit = Some v \<Longrightarrow> \<exists>expires. dict_get (pc_cache c) key = Some (v, expires) \<and> now < expires"
  using assms by (auto simp: cache_get_def split: option.splits if_splits prod.splits)

lemma cache_set_entries:
  "dict_get (pc_cache (cache_set key v now c)) k = Some x \<Longrightarrow>
     (k = key \<and> fst x = v) \<or> dict_get (pc_cache c) k = Some x"
  by (auto simp: cache_set_def Let_def split: if_splits)

lemma matching_rules_cache [simp]: "matching_rules (eng\<lparr>pe_cache := c\<rparr>) = matching_rules eng"
  by (simp add: matching_rules_def fun_eq_iff)

lemma collect_rules_matching:
  "collect_rules registry resource rs = Inr ms \<Longrightarrow>
     ms = filter (\<lambda>r. pr_status r = ACTIVE \<and> target_matches (pr_target r) resource) rs"
  by (induction rs arbitrary: ms) (auto simp: Let_def split: if_splits option.splits sum.splits)

lemma coherent_get:
  "policy_cache_coherent eng \<Longrightarrow> cache_get key now (pe_cache eng) = (hit, c) \<Longrightarrow>
     policy_cache_coherent (eng\<lparr>pe_cache := c\<rparr>)"
  by (fastforce simp: policy_cache_coherent_def dest: cache_get_entries(1))

lemma coherent_set:
  assumes "policy_cache_coherent eng"
    and "\<And>a act res. pipe_free a \<Longrightarrow> pipe_free act \<Longrightarrow> pipe_free res \<Longrightarrow> key = key4 a act res [] \<Longrightarrow>
           v = result_of (matching_rules eng res)"
  shows "policy_cache_coherent (eng\<lparr>pe_cache := cache_set key v now (pe_cache eng)\<rparr>)"
  unfolding policy_cache_coherent_def
proof (intro allI impI)
  fix a act res v' expires
  assume pf: "pipe_free a" "pipe_free act" "pipe_free res"
    and hit: "dict_get (pc_cache (pe_cache (eng\<lparr>pe_cache := cache_set key v now (pe_cache eng)\<rparr>))) (key4 a act res []) =
      Some (v', expires)"
  from hit have "dict_get (pc_cache (cache_set key v now (pe_cache eng))) (key4 a act res []) = Some (v', expires)"
    by simp
  from cache_set_entries [OF this] pf show "v' = result_of (matching_rules (eng\<lparr>pe_cache := cache_set key v now (pe_cache eng)\<rparr>) res)"
    using assms by (auto simp: policy_cache_coherent_def simp del: str_join.simps)
qed

lemma coherent_evaluate:
  assumes "policy_cache_coherent eng" "evaluate sha256 agent action resource t1 t2 eng = (d, eng')"
  shows "policy_cache_coherent eng'"
proof -
  obtain hit c where g: "cache_get (key4 agent action resource []) t1 (pe_cache eng) = (hit, c)" by fastforce
  note coh = coherent_get [OF assms(1) g]
  show ?thesis
  proof (cases hit)
    case None
    let ?v = "result_of (matching_rules eng resource)"
    have "policy_cache_coherent ((eng\<lparr>pe_cache := c\<rparr>)\<lparr>pe_cache := cache_set (key4 agent action resource []) ?v t2
        (pe_cache (eng\<lparr>pe_cache := c\<rparr>))\<rparr>)"
      by (rule coherent_set [OF coh]) (metis key4_plain(3) matching_rules_cache)
    then show ?thesis
      using assms(2) g None by (auto simp: evaluate_def make_cache_key_None Let_def simp del: str_join.simps)
  qed (use coh assms(2) g in \<open>auto simp: evaluate_def make_cache_key_None Let_def simp del: str_join.simps\<close>)
qed

lemma coherent_evaluate_caps:
  assumes "policy_cache_coherent eng" "hex_digest sha256"
    and "evaluate_with_capabilities sha256 agent action resource required t1 t2 eng = (d, eng')"
  shows "policy_cache_coherent eng'"
proof -
  define key where "key = make_cache_key sha256 [] [] resource (Some required)"
  obtain hit c where g: "cache_get key t1 (pe_cache eng) = (hit, c)" by fastforce
  note coh = coherent_get [OF assms(1) g]
  have store: "policy_cache_coherent ((eng\<lparr>pe_cache := c\<rparr>)\<lparr>pe_cache := cache_set key (result_of ms) t2
      (pe_cache (eng\<lparr>pe_cache := c\<rparr>))\<rparr>)"
    if "collect_rules (pe_capability_registry eng) resource (dict_values (pe_policies eng)) = Inr ms" for ms
  proof (rule coherent_set [OF coh])
    fix a act res
    assume pf: "pipe_free a" "pipe_free act" "pipe_free res" "key = key4 a act res []"
    then have "resource = res" using key4_plain(3) [OF pf(1-3)] by (auto simp: key_def make_cache_key_def simp del: str_join.simps)
    then show "result_of ms = result_of (matching_rules (eng\<lparr>pe_cache := c\<rparr>) res)"
      using collect_rules_matching [OF that] by (simp add: matching_rules_def)
  qed
  show ?thesis
    using assms(1,3) coh store g
    by (auto simp: evaluate_with_capabilities_def key_def [symmetric] Let_def split: option.splits sum.splits)
qed

inductive engine_step :: "(string \<Rightarrow> string) \<Rightarrow> PolicyEngine \<Rightarrow> PolicyEngine \<Rightarrow> bool" for sha256 where
  create: "create_policy name target effect condition uuid eng = Inr (pid, eng') \<Longrightarrow> engine_step sha256 eng eng'"
| eval: "evaluate sha256 agent action resource t1 t2 eng = (d, eng') \<Longrightarrow> engine_step sha256 eng eng'"
| eval_caps: "evaluate_with_capabilities sha256 agent action resource required t1 t2 eng = (d, eng') \<Longrightarrow>
     engine_step sha256 eng eng'"
| capabilities: "engine_step sha256 eng (eng\<lparr>pe_capability_registry := registry\<rparr>)"

lemma engine_step_coherent:
  "engine_step sha256 eng eng' \<Longrightarrow> hex_digest sha256 \<Longrightarrow> policy_cache_coherent eng \<Longrightarrow> policy_cache_coherent eng'"
proof (induction rule: engine_step.induct)
  case (create name target effect condition uuid eng pid eng')
  then show ?case
    by (auto simp: create_policy_def policy_cache_coherent_def Let_def split: sum.splits)
next
  case (capabilities eng registry)
  then show ?case by (simp add: policy_cache_coherent_def matching_rules_def)
qed (auto intro: coherent_evaluate coherent_evaluate_caps)

lemma engine_steps_coherent:
  "(engine_step sha256)\<^sup>*\<^sup>* eng eng' \<Longrightarrow> hex_digest sha256 \<Longrightarrow> policy_cache_coherent eng \<Longrightarrow> policy_cache_coherent eng'"
  by (induction rule: rtranclp_induct) (auto intro: engine_step_coherent)

lemma coherent_init: "policy_cache_coherent (PolicyEngine_init registry)"
  by (simp add: policy_cache_coherent_def PolicyEngine_init_def InMemoryPolicyCache_init_def)

lemma evaluate_coherent:
  assumes "policy_cache_coherent eng" "pipe_free agent" "pipe_free action" "pipe_free resource"
  shows "fst (evaluate sha256 agent action resource t1 t2 eng) = result_of (matching_rules eng resource)"
proof -
  obtain hit c where g: "cache_get (key4 agent action resource []) t1 (pe_cache eng) = (hit, c)" by fastforce
  show ?thesis
  proof (cases hit)
    case (Some v)
    then obtain expires where "dict_get (pc_cache (pe_cache eng)) (key4 agent action resource []) = Some (v, expires)"
      using cache_get_entries(2) [OF g] by blast
    then have "v = result_of (matching_rules eng resource)"
      using assms unfolding policy_cache_coherent_def by blast
    then show ?thesis
      using g Some by (simp add: evaluate_def make_cache_key_None Let_def del: str_join.simps)
  qed (use g in \<open>simp add: evaluate_def make_cache_key_None Let_def del: str_join.simps\<close>)
qed

section \<open>Properties\<close>

definition sample_sha :: "string \<Rightarrow> string" where
  "sample_sha s = replicate 64 (CHR ''a'')"

lemma sample_sha_hex: "hex_digest sample_sha"
  by (simp add: hex_digest_def sample_sha_def)

definition two_rules :: PolicyEngine where
  "two_rules =
     snd (projr (create_policy ''second'' ''x'' ''DENY'' None ''fedcba9876543210''
       (snd (projr (create_policy ''first'' ''x'' ''ALLOW'' None ''0123456789abcdef'' (PolicyEngine_init None))))))"

lemma two_rules_matching: "map pr_priority (matching_rules two_rules ''x'') = [100, 100]"
    "map pr_name (matching_rules two_rules ''x'') = [''first'', ''second'']" "pc_cache (pe_cache two_rules) = []"
  by code_simp+

lemma two_rules_reached: "(engine_step sha256)\<^sup>*\<^sup>* (PolicyEngine_init None) two_rules"
proof -
  obtain p1 e1 where c1: "create_policy ''first'' ''x'' ''ALLOW'' None ''0123456789abcdef'' (PolicyEngine_init None) = Inr (p1, e1)"
    by (force simp: create_policy_def PolicyEffect_of_def Let_def)
  moreover obtain p2 e2 where c2: "create_policy ''second'' ''x'' ''DENY'' None ''fedcba9876543210'' e1 = Inr (p2, e2)"
    by (force simp: create_policy_def PolicyEffect_of_def Let_def)
  ultimately have "two_rules = e2" by (simp add: two_rules_def)
  with c1 c2 show ?thesis
    by (blast intro: engine_step.create rtranclp.rtrancl_into_rtrancl)
qed

text \<open>
  Property C9. The decision cache is transparent: in every engine reached from start-up by creating
  policies, evaluating at any times and changing the capability registry, \<^verbatim>\<open>evaluate\<close> on an agent,
  action and resource without the separator \<^verbatim>\<open>|\<close> returns what a fresh scan of the current rules
  gives, although it may answer from the cache.
\<close>

theorem policy_cache_transparent:
  assumes "hex_digest sha256" "(engine_step sha256)\<^sup>*\<^sup>* (PolicyEngine_init registry) eng"
    and "pipe_free agent" "pipe_free action" "pipe_free resource"
  shows "fst (evaluate sha256 agent action resource t1 t2 eng) = result_of (matching_rules eng resource)"
  using engine_steps_coherent [OF assms(2,1) coherent_init] assms(3-5) by (rule evaluate_coherent)

theorem policy_cache_transparent_witness:
  "\<exists>d eng. evaluate sample_sha ''a'' ''x'' ''x'' 0 0 two_rules = (d, eng) \<and>
     dict_has (pc_cache (pe_cache eng)) ''a|x|x|'' \<and> map pr_name (matching_rules eng ''x'') = [''first'', ''second''] \<and>
     fst (evaluate sample_sha ''a'' ''x'' ''x'' 1 1 eng) = result_of (matching_rules eng ''x'')"
proof -
  obtain d eng where e: "evaluate sample_sha ''a'' ''x'' ''x'' 0 0 two_rules = (d, eng)" by fastforce
  have "dict_has (pc_cache (pe_cache (snd (evaluate sample_sha ''a'' ''x'' ''x'' 0 0 two_rules)))) ''a|x|x|''"
      "map pr_name (matching_rules (snd (evaluate sample_sha ''a'' ''x'' ''x'' 0 0 two_rules)) ''x'') = [''first'', ''second'']"
    by code_simp+
  moreover have "(engine_step sample_sha)\<^sup>*\<^sup>* (PolicyEngine_init None) eng"
    using engine_step.eval [OF e] two_rules_reached by (rule rtranclp.rtrancl_into_rtrancl [rotated])
  ultimately show ?thesis
    using policy_cache_transparent [OF sample_sha_hex, of None eng "''a''" "''x''" "''x''" 1 1] e by (auto simp: pipe_free_def)
qed

text \<open>
  The separator matters: the key of agent \<^verbatim>\<open>x|y|y\<close> on resource \<^verbatim>\<open>y\<close> is the key of agent
  \<^verbatim>\<open>x\<close> on resource \<^verbatim>\<open>y|y\<close>, so after the first is evaluated (and allowed), the second is answered from
  the cache with ALLOW although a rule denies its resource.
\<close>

lemma policy_cache_key_collision:
  "\<exists>pid eng. create_policy ''block'' ''y|y'' ''DENY'' None ''0123456789abcdef'' (PolicyEngine_init None) = Inr (pid, eng) \<and>
     opt_get (fst (evaluate sha256 ''x'' ''y|y'' ''y|y'' 1 1 eng)) ''decision'' = Some ''DENY'' \<and>
     opt_get (fst (evaluate sha256 ''x'' ''y|y'' ''y|y'' 1 1 (snd (evaluate sha256 ''x|y|y'' ''y'' ''y'' 0 0 eng)))) ''decision''
       = Some ''ALLOW''"
  by (simp add: create_policy_def PolicyEffect_of_def generate_policy_id_def PolicyEngine_init_def InMemoryPolicyCache_init_def
      evaluate_def make_cache_key_def cache_get_def cache_set_def matching_rules_def target_matches_def suffix_to_prefix dict_values_def
      result_of_def decision_dict_def opt_get_def dict_get_or_def dict_get_def dict_set_def Let_def)

lemma evaluate_fresh:
  "pc_cache (pe_cache eng) = [] \<Longrightarrow>
     fst (evaluate sha256 agent action resource t1 t2 eng) = result_of (matching_rules eng resource)"
  by (simp add: evaluate_def cache_get_def dict_get_def matching_rules_def Let_def)

text \<open>
  Property C29. Which rule decides, as the module's own documentation has it: when an active rule matches the
  resource, an engine that has not cached a decision answers the effect of the first created among the matching rules
  of least priority number, and names it; when none matches, the decision is ALLOW. The agent, the action and the
  conditions and tenants of the rules play no part. The architecture documents specify another algorithm (lemma
  documents_disagree).
\<close>

theorem best_rule_decides:
  assumes "pc_cache (pe_cache eng) = []"
  shows "if matching_rules eng resource = []
   then fst (evaluate sha256 agent action resource t1 t2 eng) = decision_dict ''ALLOW'' None ''No matching policy rule found''
   else \<exists>ys best zs. matching_rules eng resource = ys @ best # zs \<and> pr_status best = ACTIVE \<and>
     target_matches (pr_target best) resource \<and>
     (\<forall>r. r \<in> set ys \<longrightarrow> pr_priority best < pr_priority r) \<and> (\<forall>r. r \<in> set zs \<longrightarrow> pr_priority best \<le> pr_priority r) \<and>
     fst (evaluate sha256 agent action resource t1 t2 eng) =
       decision_dict (PolicyEffect_value (pr_effect best)) (Some (pr_policy_id best)) (''Matched rule: '' @ pr_name best)"
proof (cases "matching_rules eng resource = []")
  case False
  from result_of_best [OF False] obtain ys best zs where b: "matching_rules eng resource = ys @ best # zs"
    "\<forall>r \<in> set ys. pr_priority best < pr_priority r" "\<forall>r \<in> set zs. pr_priority best \<le> pr_priority r"
    "result_of (matching_rules eng resource) =
       decision_dict (PolicyEffect_value (pr_effect best)) (Some (pr_policy_id best)) (''Matched rule: '' @ pr_name best)"
    by blast
  have "best \<in> set (matching_rules eng resource)" by (simp add: b(1))
  then have "pr_status best = ACTIVE" "target_matches (pr_target best) resource"
    by (simp_all add: matching_rules_def)
  with b show ?thesis unfolding if_not_P [OF False] evaluate_fresh [OF assms] by blast
qed (simp add: evaluate_fresh [OF assms] result_of_def)

theorem best_rule_decides_witness:
  "opt_get (fst (evaluate sample_sha ''a'' ''x'' ''x'' 0 0 two_rules)) ''reason'' = Some ''Matched rule: first''"
proof -
  have ne: "matching_rules two_rules ''x'' \<noteq> []" using two_rules_matching(1) by auto
  from best_rule_decides [OF two_rules_matching(3), of "''x''" sample_sha "''a''" "''x''" 0 0] obtain ys best zs where
    b: "matching_rules two_rules ''x'' = ys @ best # zs" "\<forall>r. r \<in> set ys \<longrightarrow> pr_priority best < pr_priority r"
      "fst (evaluate sample_sha ''a'' ''x'' ''x'' 0 0 two_rules) =
         decision_dict (PolicyEffect_value (pr_effect best)) (Some (pr_policy_id best)) (''Matched rule: '' @ pr_name best)"
    unfolding if_not_P [OF ne] by blast
  have "ys = []" using two_rules_matching(1) b(1,2) by (cases ys) (auto simp: Cons_eq_append_conv append_eq_Cons_conv)
  then have "pr_name best = ''first''" using two_rules_matching(2) b(1) by simp
  then show ?thesis by (simp add: b(3) decision_dict_def opt_get_def dict_get_or_def dict_get_def)
qed

text \<open>
  The decision by the flow of \<^verbatim>\<open>docs/02_ARCHITECTURE/CONTROL_PLANE_DESIGN.md\<close> (and, but for the conditions,
  \<^verbatim>\<open>SERVICE_SPECIFICATIONS.md\<close>): deny rules first, then those that require approval, then allow rules,
  whatever their priorities, and a denial when none matches. The engine agrees with it when rules match and all have
  one effect. It disagrees when no rule matches, when an allow rule was created before a deny rule, and when an
  allow rule has a smaller number.
\<close>

definition documented_decision :: "PolicyRule list \<Rightarrow> string" where
  "documented_decision rules =
     (if \<exists>r \<in> set rules. pr_effect r = DENY then ''DENY''
      else if \<exists>r \<in> set rules. pr_effect r = REQUIRE_APPROVAL then ''REQUIRE_APPROVAL''
      else if \<exists>r \<in> set rules. pr_effect r = ALLOW then ''ALLOW''
      else ''DEFAULT_DENY'')"

lemma documents_agree:
  assumes "rules \<noteq> []" "\<forall>r \<in> set rules. pr_effect r = e"
  shows "opt_get (result_of rules) ''decision'' = Some (documented_decision rules)"
proof -
  obtain ys best zs where b: "rules = ys @ best # zs"
      "result_of rules = decision_dict (PolicyEffect_value (pr_effect best)) (Some (pr_policy_id best)) (''Matched rule: '' @ pr_name best)"
    using result_of_best [OF assms(1)] by blast
  have "pr_effect best = e" using assms(2) b(1) by simp
  moreover have "documented_decision rules = PolicyEffect_value e"
    using assms by (cases e; cases rules) (auto simp: documented_decision_def)
  ultimately show ?thesis by (simp add: b(2) decision_dict_def opt_get_def dict_get_or_def dict_get_def)
qed

definition low_allow_high_deny :: PolicyEngine where
  "low_allow_high_deny =
     two_rules\<lparr>pe_policies := map (\<lambda>(k, r). (k, r\<lparr>pr_priority := if pr_effect r = ALLOW then 1 else 2\<rparr>)) (rev (pe_policies two_rules))\<rparr>"

lemma documents_disagree:
  "opt_get (fst (evaluate sample_sha ''a'' ''x'' ''x'' 0 0 (PolicyEngine_init None))) ''decision'' = Some ''ALLOW'' \<and>
     documented_decision (matching_rules (PolicyEngine_init None) ''x'') = ''DEFAULT_DENY''"
  "opt_get (fst (evaluate sample_sha ''a'' ''x'' ''x'' 0 0 two_rules)) ''decision'' = Some ''ALLOW'' \<and>
     documented_decision (matching_rules two_rules ''x'') = ''DENY''"
  "opt_get (fst (evaluate sample_sha ''a'' ''x'' ''x'' 0 0 low_allow_high_deny)) ''decision'' = Some ''ALLOW'' \<and>
     documented_decision (matching_rules low_allow_high_deny ''x'') = ''DENY''"
  by code_simp+

lemma adapter_grants:
  assumes "policy_cache_coherent eng" "pipe_free (in_agent_id intent)" "pipe_free (in_action intent)"
  shows "fst (fst (adapter_evaluate_intent sha256 intent t1 t2 eng)) =
           (opt_get (result_of (matching_rules eng (in_action intent))) ''decision'' = Some ''ALLOW'') \<and>
         fst (fst (adapter_check_capability sha256 (in_action intent) (in_agent_id intent) t3 t4 eng)) =
           (opt_get (result_of (matching_rules eng (in_action intent))) ''decision'' = Some ''ALLOW'')"
proof -
  have v: "fst (adapter_verdict dflt d) \<longleftrightarrow> opt_get d ''decision'' = Some ''ALLOW''" for dflt d
    by (auto simp: adapter_verdict_def Let_def split: option.splits)
  show ?thesis
    using evaluate_coherent [OF assms(1-3) assms(3)]
    by (simp add: adapter_evaluate_intent_def adapter_check_capability_def split_beta Let_def v)
qed

text \<open>
  Both questions the runtime asks the policy adapter have one answer: for an engine with
  a coherent cache and identifiers without the separator, \<^verbatim>\<open>check_capability\<close> grants an action exactly
  when \<^verbatim>\<open>evaluate_intent\<close> grants the intent, namely when the deciding rule (if any) says ALLOW; the
  capability registry is never asked.
\<close>

lemma adapter_answers_agree:
  assumes "policy_cache_coherent eng" "pipe_free (in_agent_id intent)" "pipe_free (in_action intent)"
  shows "fst (fst (adapter_evaluate_intent sha256 intent t1 t2 eng)) =
           (opt_get (result_of (matching_rules eng (in_action intent))) ''decision'' = Some ''ALLOW'') \<and>
         fst (fst (adapter_check_capability sha256 (in_action intent) (in_agent_id intent) t3 t4 eng)) =
           (opt_get (result_of (matching_rules eng (in_action intent))) ''decision'' = Some ''ALLOW'')"
  by (rule adapter_grants [OF assms])

lemma adapter_answers_agree_witness:
  "fst (fst (adapter_check_capability sample_sha ''x'' ''a'' 0 0 (PolicyEngine_init None)))"
proof -
  have "policy_cache_coherent (PolicyEngine_init None)" by (rule coherent_init)
  from adapter_answers_agree [OF this, where ?sha256.0 = sample_sha and ?t1.0 = 0 and ?t2.0 = 0 and ?t3.0 = 0 and ?t4.0 = 0
      and intent = "\<lparr>in_agent_id = ''a'', in_action = ''x'', in_parameters = [], in_timestamp = 0\<rparr>"]
  show ?thesis
    by (simp add: pipe_free_def matching_rules_def PolicyEngine_init_def dict_values_def result_of_def decision_dict_def
        opt_get_def dict_get_or_def dict_get_def)
qed

end
