(* ===== verification/Budget.thy ===== *)
theory Budget
  imports Errors
begin

text \<open>
  \<^verbatim>\<open>kernel/resources/budget.py\<close>: step, token and time limits of a loop. Each property that reads the
  clock takes the reading as \<open>now\<close>.
\<close>

record ExecutionBudget =
  eb_max_steps :: int
  eb_max_tokens :: int
  eb_timeout_seconds :: int
  eb_current_steps :: int
  eb_tokens_consumed :: int
  eb_started_at :: "time option"

definition default_ExecutionBudget :: ExecutionBudget where
  "default_ExecutionBudget =
     \<lparr>eb_max_steps = 10, eb_max_tokens = 100000, eb_timeout_seconds = 3600, eb_current_steps = 0,
      eb_tokens_consumed = 0, eb_started_at = None\<rparr>"

definition budget_start :: "time \<Rightarrow> ExecutionBudget \<Rightarrow> ExecutionBudget" where
  "budget_start now b = (if eb_started_at b = None then b\<lparr>eb_started_at := Some now\<rparr> else b)"

definition steps_remaining :: "ExecutionBudget \<Rightarrow> int" where
  "steps_remaining b = max 0 (eb_max_steps b - eb_current_steps b)"

definition tokens_remaining :: "ExecutionBudget \<Rightarrow> int" where
  "tokens_remaining b = max 0 (eb_max_tokens b - eb_tokens_consumed b)"

definition is_steps_exhausted :: "ExecutionBudget \<Rightarrow> bool" where
  "is_steps_exhausted b = (eb_current_steps b \<ge> eb_max_steps b)"

definition is_tokens_exhausted :: "ExecutionBudget \<Rightarrow> bool" where
  "is_tokens_exhausted b = (eb_tokens_consumed b \<ge> eb_max_tokens b)"

definition is_timeout :: "time \<Rightarrow> ExecutionBudget \<Rightarrow> bool" where
  "is_timeout now b =
     (case eb_started_at b of None \<Rightarrow> False
      | Some t \<Rightarrow> now - t > of_int (eb_timeout_seconds b))"

definition is_exhausted :: "time \<Rightarrow> ExecutionBudget \<Rightarrow> bool" where
  "is_exhausted now b = (is_steps_exhausted b \<or> is_tokens_exhausted b \<or> is_timeout now b)"

definition consume_step :: "int \<Rightarrow> time \<Rightarrow> ExecutionBudget \<Rightarrow> exn + ExecutionBudget" where
  "consume_step tokens now b =
     (if is_exhausted now b
      then Inl (BudgetExhaustedError (eb_current_steps b) (eb_tokens_consumed b) (eb_max_steps b) (eb_max_tokens b))
      else Inr (b\<lparr>eb_current_steps := eb_current_steps b + 1,
                  eb_tokens_consumed := eb_tokens_consumed b + tokens\<rparr>))"

definition budget_reset :: "ExecutionBudget \<Rightarrow> ExecutionBudget" where
  "budget_reset b = b\<lparr>eb_current_steps := 0, eb_tokens_consumed := 0, eb_started_at := None\<rparr>"

definition budget_to_dict :: "time \<Rightarrow> ExecutionBudget \<Rightarrow> pyobj" where
  "budget_to_dict now b =
     [(''max_steps'', PyInt (eb_max_steps b)),
      (''max_tokens'', PyInt (eb_max_tokens b)),
      (''timeout_seconds'', PyInt (eb_timeout_seconds b)),
      (''current_steps'', PyInt (eb_current_steps b)),
      (''tokens_consumed'', PyInt (eb_tokens_consumed b)),
      (''started_at'', py_opt_str (map_option isoformat (eb_started_at b))),
      (''is_exhausted'', PyBool (is_exhausted now b)),
      (''steps_remaining'', PyInt (steps_remaining b)),
      (''tokens_remaining'', PyInt (tokens_remaining b))]"

section \<open>The budget invariant\<close>

text \<open>Counters never pass the step limit, and every step used is a step not remaining.\<close>

definition budget_wf :: "ExecutionBudget \<Rightarrow> bool" where
  "budget_wf b \<longleftrightarrow> 0 \<le> eb_current_steps b \<and> 0 \<le> eb_tokens_consumed b \<and>
     (0 \<le> eb_max_steps b \<longrightarrow> eb_current_steps b \<le> eb_max_steps b)"

lemma budget_start_fields [simp]:
  "eb_max_steps (budget_start now b) = eb_max_steps b"
  "eb_max_tokens (budget_start now b) = eb_max_tokens b"
  "eb_timeout_seconds (budget_start now b) = eb_timeout_seconds b"
  "eb_current_steps (budget_start now b) = eb_current_steps b"
  "eb_tokens_consumed (budget_start now b) = eb_tokens_consumed b"
  "eb_started_at (budget_start now b) \<noteq> None"
  by (simp_all add: budget_start_def)

lemma budget_start_idem: "budget_start t' (budget_start t b) = budget_start t b"
  by (simp add: budget_start_def)

lemma budget_wf_start [wf_intros]: "budget_wf b \<Longrightarrow> budget_wf (budget_start now b)"
  by (simp add: budget_wf_def)

lemma budget_wf_reset [wf_intros]: "budget_wf (budget_reset b)"
  by (simp add: budget_wf_def budget_reset_def)

lemma consume_step_Inr:
  "consume_step tokens now b = Inr b' \<longleftrightarrow>
     \<not> is_exhausted now b \<and>
     b' = b\<lparr>eb_current_steps := eb_current_steps b + 1, eb_tokens_consumed := eb_tokens_consumed b + tokens\<rparr>"
  by (auto simp: consume_step_def)

lemma budget_wf_consume [wf_intros]:
  "budget_wf b \<Longrightarrow> 0 \<le> tokens \<Longrightarrow> consume_step tokens now b = Inr b' \<Longrightarrow> budget_wf b'"
  by (auto simp: consume_step_Inr budget_wf_def is_exhausted_def is_steps_exhausted_def)

lemma consume_step_remaining:
  "consume_step tokens now b = Inr b' \<Longrightarrow> steps_remaining b = steps_remaining b' + 1"
  by (auto simp: consume_step_Inr steps_remaining_def is_exhausted_def is_steps_exhausted_def)

lemma steps_remaining_zero: "steps_remaining b = 0 \<longleftrightarrow> is_steps_exhausted b"
  by (auto simp: steps_remaining_def is_steps_exhausted_def)

end
