(* ===== verification/Events.thy ===== *)
theory Events
  imports Errors
begin

text \<open>
  \<^verbatim>\<open>kernel/events/models.py\<close> and \<^verbatim>\<open>kernel/events/memory.py\<close>: execution events, the append-only event log
  of one execution, and the in-memory publisher that fans events out to subscriber queues. The
  queues are mutable objects shared with the subscribers, so the publisher carries a store that maps
  a queue's identity to its contents; \<open>QEnd\<close> is the \<^verbatim>\<open>None\<close> that ends a stream.
\<close>

section \<open>Events\<close>

datatype EventType =
    LOOP_STARTED | BUDGET_CHECKED | POLICY_EVALUATED | CAPABILITY_CHECKED | INTENT_ROUTED
  | GATEWAY_ACCESSED | TOOL_EXECUTED | CHECKPOINT_SAVED | STEP_COMPLETED | LOOP_TERMINATED
  | LOOP_FAILED | LOOP_HALTED | BUDGET_EXHAUSTED | TIMEOUT_OCCURRED

primrec EventType_value :: "EventType \<Rightarrow> string" where
  "EventType_value LOOP_STARTED = ''LOOP_STARTED''"
| "EventType_value BUDGET_CHECKED = ''BUDGET_CHECKED''"
| "EventType_value POLICY_EVALUATED = ''POLICY_EVALUATED''"
| "EventType_value CAPABILITY_CHECKED = ''CAPABILITY_CHECKED''"
| "EventType_value INTENT_ROUTED = ''INTENT_ROUTED''"
| "EventType_value GATEWAY_ACCESSED = ''GATEWAY_ACCESSED''"
| "EventType_value TOOL_EXECUTED = ''TOOL_EXECUTED''"
| "EventType_value CHECKPOINT_SAVED = ''CHECKPOINT_SAVED''"
| "EventType_value STEP_COMPLETED = ''STEP_COMPLETED''"
| "EventType_value LOOP_TERMINATED = ''LOOP_TERMINATED''"
| "EventType_value LOOP_FAILED = ''LOOP_FAILED''"
| "EventType_value LOOP_HALTED = ''LOOP_HALTED''"
| "EventType_value BUDGET_EXHAUSTED = ''BUDGET_EXHAUSTED''"
| "EventType_value TIMEOUT_OCCURRED = ''TIMEOUT_OCCURRED''"

text \<open>The field \<^verbatim>\<open>event_type\<close> holds an enum member or a plain string.\<close>

datatype event_kind = EnumType EventType | StrType string

record ExecutionEvent =
  ev_event_id :: string
  ev_execution_id :: string
  ev_tenant_id :: string
  ev_agent_id :: "string option"
  ev_event_type :: event_kind
  ev_payload :: pyobj
  ev_created_at :: time
  ev_schema_version :: string

definition event_state :: "(rat \<Rightarrow> string) \<Rightarrow> ExecutionEvent \<Rightarrow> string" where
  "event_state fr e = py_str fr (dict_get_or (ev_payload e) ''state'' (PyStr []))"

definition event_error :: "(rat \<Rightarrow> string) \<Rightarrow> ExecutionEvent \<Rightarrow> string option" where
  "event_error fr e =
     (case dict_get_or (ev_payload e) ''error'' PyNone of PyNone \<Rightarrow> None | err \<Rightarrow> Some (py_str fr err))"

text \<open>The number an event carries, before the conversion that the accessor \<^verbatim>\<open>step_number\<close> applies.\<close>

definition event_step_number :: "ExecutionEvent \<Rightarrow> pyval" where
  "event_step_number e = dict_get_or (ev_payload e) ''step_number'' (PyInt 0)"

definition event_to_dict :: "ExecutionEvent \<Rightarrow> pyobj" where
  "event_to_dict e =
     [(''event_id'', PyStr (ev_event_id e)),
      (''execution_id'', PyStr (ev_execution_id e)),
      (''tenant_id'', PyStr (ev_tenant_id e)),
      (''agent_id'', py_opt_str (ev_agent_id e)),
      (''event_type'', PyStr (case ev_event_type e of EnumType t \<Rightarrow> EventType_value t | StrType s \<Rightarrow> s)),
      (''payload'', PyDict (ev_payload e)),
      (''created_at'', PyStr (isoformat (ev_created_at e))),
      (''schema_version'', PyStr (ev_schema_version e))]"

section \<open>The event log of one execution\<close>

record EventLog =
  el_execution_id :: string
  el_events :: "ExecutionEvent list"
  el_counter :: nat

definition EventLog_init :: "string \<Rightarrow> EventLog" where
  "EventLog_init execution_id = \<lparr>el_execution_id = execution_id, el_events = [], el_counter = 0\<rparr>"

definition emit ::
  "EventType \<Rightarrow> string \<Rightarrow> pyobj \<Rightarrow> string option \<Rightarrow> time \<Rightarrow> EventLog \<Rightarrow> EventLog" where
  "emit event_type state metadata err now el =
     (let n = el_counter el + 1;
          event = \<lparr>ev_event_id = ''evt-'' @ el_execution_id el @ ''-'' @ zpad 4 n,
                   ev_execution_id = el_execution_id el, ev_tenant_id = [], ev_agent_id = None,
                   ev_event_type = EnumType event_type,
                   ev_payload = [(''state'', PyStr state), (''step_number'', PyInt (int n)),
                                 (''metadata'', PyDict metadata), (''error'', py_opt_str err)],
                   ev_created_at = now, ev_schema_version = ''1.0''\<rparr>
      in el\<lparr>el_counter := n, el_events := el_events el @ [event]\<rparr>)"

definition event_count :: "EventLog \<Rightarrow> nat" where
  "event_count el = length (el_events el)"

definition last_event :: "EventLog \<Rightarrow> ExecutionEvent option" where
  "last_event el = (if el_events el = [] then None else Some (last (el_events el)))"

definition get_events_by_type :: "EventLog \<Rightarrow> EventType \<Rightarrow> ExecutionEvent list" where
  "get_events_by_type el event_type =
     filter (\<lambda>e. ev_event_type e = EnumType event_type) (el_events el)"

definition EventLog_to_dict :: "EventLog \<Rightarrow> pyobj" where
  "EventLog_to_dict el =
     [(''execution_id'', PyStr (el_execution_id el)),
      (''event_count'', PyInt (int (event_count el))),
      (''events'', PyList (map (\<lambda>e. PyDict (event_to_dict e)) (el_events el)))]"

text \<open>
  The audit trail: the events belong to the log's execution, are numbered from 1 without gaps in
  the order of the log, and the counter is the number of events.
\<close>

definition event_log_wf :: "EventLog \<Rightarrow> bool" where
  "event_log_wf el \<longleftrightarrow>
     el_counter el = length (el_events el) \<and>
     (\<forall>i < length (el_events el).
        ev_execution_id (el_events el ! i) = el_execution_id el \<and>
        ev_event_id (el_events el ! i) = ''evt-'' @ el_execution_id el @ ''-'' @ zpad 4 (i + 1) \<and>
        event_step_number (el_events el ! i) = PyInt (int (i + 1)))"

definition event_types :: "EventLog \<Rightarrow> event_kind list" where
  "event_types el = map ev_event_type (el_events el)"

lemma event_log_wf_init [wf_intros]: "event_log_wf (EventLog_init eid)"
  by (simp add: event_log_wf_def EventLog_init_def)

lemma event_log_wf_emit [wf_intros]: "event_log_wf el \<Longrightarrow> event_log_wf (emit ty st md err now el)"
  by (auto simp: event_log_wf_def emit_def Let_def nth_append less_Suc_eq event_step_number_def
      dict_get_or_def dict_get_def)

lemma emit_frame [simp]: "el_execution_id (emit ty st md err now el) = el_execution_id el"
  by (simp add: emit_def Let_def)

lemma event_types_emit [simp, op_simps]:
  "event_types (emit ty st md err now el) = event_types el @ [EnumType ty]"
  by (simp add: event_types_def emit_def Let_def)

lemma event_types_init [simp]: "event_types (EventLog_init eid) = []"
  by (simp add: event_types_def EventLog_init_def)

text \<open>Emitting never touches the events already recorded.\<close>

lemma emit_append_only: "\<exists>e. el_events (emit ty st md err now el) = el_events el @ [e]"
  by (simp add: emit_def Let_def)

lemma zpad_inj: "zpad w m = zpad w n \<Longrightarrow> 0 < m \<Longrightarrow> 0 < n \<Longrightarrow> m = n"
proof -
  have hd_pos: "hd (nat_str k) \<noteq> CHR ''0''" if "0 < k" for k
    using that
  proof (induction k rule: nat_str.induct)
    case (1 k)
    show ?case
    proof (cases "k < 10")
      case True
      then have "k \<in> {1, 2, 3, 4, 5, 6, 7, 8, 9}" using "1.prems" by auto
      then show ?thesis
        by (auto simp: nat_str.simps [of k] digit_char_def char_of_def)
    next
      case False
      then have "hd (nat_str (k div 10)) \<noteq> CHR ''0''" using "1.IH" by auto
      with False show ?thesis by (simp add: nat_str.simps [of k])
    qed
  qed
  have strip: "dropWhile (\<lambda>c. c = CHR ''0'') (zpad w k) = nat_str k" if "0 < k" for k
    using hd_pos [OF that]
    by (cases "nat_str k") (auto simp: zpad_def Let_def dropWhile_append3)
  assume "zpad w m = zpad w n" "0 < m" "0 < n"
  then have "nat_str m = nat_str n" using strip by metis
  then show "m = n" by (simp add: nat_str_inj)
qed

section \<open>The in-memory publisher\<close>

datatype queue_item = QEvent pyobj | QEnd

record InMemoryEventPublisher =
  pb_subscribers :: "(string, (nat \<times> string) list) dict"
  pb_queues :: "nat \<Rightarrow> queue_item list"
  pb_next_queue :: nat

definition InMemoryEventPublisher_init :: InMemoryEventPublisher where
  "InMemoryEventPublisher_init = \<lparr>pb_subscribers = [], pb_queues = (\<lambda>_. []), pb_next_queue = 0\<rparr>"

definition subs :: "InMemoryEventPublisher \<Rightarrow> string \<Rightarrow> (nat \<times> string) list" where
  "subs p execution_id = dict_get_or (pb_subscribers p) execution_id []"

definition put_nowait :: "queue_item \<Rightarrow> nat \<Rightarrow> InMemoryEventPublisher \<Rightarrow> InMemoryEventPublisher" where
  "put_nowait x q p = p\<lparr>pb_queues := (pb_queues p)(q := pb_queues p q @ [x])\<rparr>"

definition subscribe :: "string \<Rightarrow> string \<Rightarrow> InMemoryEventPublisher \<Rightarrow> nat \<times> InMemoryEventPublisher" where
  "subscribe execution_id tenant_id p =
     (let q = pb_next_queue p
      in (q, p\<lparr>pb_next_queue := q + 1,
               pb_subscribers := dict_set execution_id (subs p execution_id @ [(q, tenant_id)]) (pb_subscribers p)\<rparr>))"

definition unsubscribe :: "string \<Rightarrow> nat \<Rightarrow> InMemoryEventPublisher \<Rightarrow> InMemoryEventPublisher" where
  "unsubscribe execution_id queue p =
     p\<lparr>pb_subscribers := dict_set execution_id
        (filter (\<lambda>(q, t). q \<noteq> queue) (subs p execution_id)) (pb_subscribers p)\<rparr>"

definition publish_dict :: "string \<Rightarrow> pyobj \<Rightarrow> InMemoryEventPublisher \<Rightarrow> InMemoryEventPublisher" where
  "publish_dict execution_id event_dict p =
     fold (\<lambda>(q, _). put_nowait (QEvent event_dict) q) (subs p execution_id) p"

definition publish :: "ExecutionEvent \<Rightarrow> InMemoryEventPublisher \<Rightarrow> InMemoryEventPublisher" where
  "publish event p =
     fold (\<lambda>(q, sub_tenant) p'.
         if sub_tenant \<noteq> [] \<and> ev_tenant_id event \<noteq> [] \<and> sub_tenant \<noteq> ev_tenant_id event then p'
         else put_nowait (QEvent (event_to_dict event)) q p')
       (subs p (ev_execution_id event)) p"

definition close_execution :: "string \<Rightarrow> InMemoryEventPublisher \<Rightarrow> InMemoryEventPublisher" where
  "close_execution execution_id p =
     (let p' = fold (\<lambda>(q, _). put_nowait QEnd q) (subs p execution_id) p
      in p'\<lparr>pb_subscribers := dict_del execution_id (pb_subscribers p')\<rparr>)"

definition close_all :: "InMemoryEventPublisher \<Rightarrow> InMemoryEventPublisher" where
  "close_all p = fold close_execution (dict_keys (pb_subscribers p)) p"

definition active_executions :: "InMemoryEventPublisher \<Rightarrow> string list" where
  "active_executions p = dict_keys (pb_subscribers p)"

definition subscriber_count :: "InMemoryEventPublisher \<Rightarrow> string \<Rightarrow> nat" where
  "subscriber_count p execution_id = length (subs p execution_id)"

text \<open>Queue identities are handed out once, and no queue is subscribed twice to an execution.\<close>

definition publisher_wf :: "InMemoryEventPublisher \<Rightarrow> bool" where
  "publisher_wf p \<longleftrightarrow> dict_wf (pb_subscribers p) \<and>
     (\<forall>eid. distinct (map fst (subs p eid)) \<and> (\<forall>(q, t) \<in> set (subs p eid). q < pb_next_queue p))"

lemma put_nowait_frame [simp]:
  "pb_subscribers (put_nowait x q p) = pb_subscribers p" "pb_next_queue (put_nowait x q p) = pb_next_queue p"
  "subs (put_nowait x q p) = subs p"
  by (simp_all add: put_nowait_def subs_def fun_eq_iff)

text \<open>Delivering to a list of distinct queues appends to each queue that passes the filter, once.\<close>

lemma fold_put:
  assumes "distinct (map fst ss)"
  shows "pb_queues (fold (\<lambda>(q, t) p'. if skip t then p' else put_nowait x q p') ss p) q =
     pb_queues p q @ (if \<exists>t. (q, t) \<in> set ss \<and> \<not> skip t then [x] else [])"
  using assms
proof (induction ss arbitrary: p)
  case (Cons s ss)
  obtain q' t' where s: "s = (q', t')" by force
  have fresh: "\<nexists>t. (q', t) \<in> set ss" using Cons.prems s by force
  show ?case
    using Cons.IH [of "if skip t' then p else put_nowait x q' p"] Cons.prems fresh
    by (auto simp: s put_nowait_def)
qed simp

lemma fold_put_frame:
  "pb_subscribers (fold (\<lambda>(q, t) p'. if skip t then p' else put_nowait x q p') ss p) = pb_subscribers p"
  "pb_next_queue (fold (\<lambda>(q, t) p'. if skip t then p' else put_nowait x q p') ss p) = pb_next_queue p"
  by (induction ss arbitrary: p) (auto split: prod.splits)

lemma subs_subscribe [simp, op_simps]:
  "subs (snd (subscribe eid t p)) e = (if e = eid then subs p eid @ [(pb_next_queue p, t)] else subs p e)"
  by (simp add: subs_def subscribe_def dict_get_or_def Let_def)

lemma subs_unsubscribe [simp, op_simps]:
  "subs (unsubscribe eid q p) e = (if e = eid then filter (\<lambda>(q', t). q' \<noteq> q) (subs p eid) else subs p e)"
  by (simp add: subs_def unsubscribe_def dict_get_or_def)

lemma publisher_wf_subscribe [wf_intros]:
  assumes "publisher_wf p"
  shows "publisher_wf (snd (subscribe eid t p))"
proof -
  have frame: "dict_wf (pb_subscribers (snd (subscribe eid t p)))"
    "pb_next_queue (snd (subscribe eid t p)) = pb_next_queue p + 1"
    using assms by (auto simp: publisher_wf_def subscribe_def Let_def)
  have old: "distinct (map fst (subs p e)) \<and> (\<forall>(q, u) \<in> set (subs p e). q < pb_next_queue p)" for e
    using assms by (simp add: publisher_wf_def)
  then have "pb_next_queue p \<notin> fst ` set (subs p e)" for e by fastforce
  with old show ?thesis
    unfolding publisher_wf_def subs_subscribe frame(2) using frame(1) by (auto simp: less_Suc_eq split_beta)
qed

lemma publisher_wf_unsubscribe [wf_intros]:
  assumes "publisher_wf p"
  shows "publisher_wf (unsubscribe eid q p)"
proof -
  have "distinct (map fst (filter P (subs p e)))" for P e
    using assms by (auto simp: publisher_wf_def distinct_map_filter)
  then show ?thesis
    using assms unfolding publisher_wf_def subs_unsubscribe by (auto simp: unsubscribe_def)
qed

lemma publish_queues:
  assumes "publisher_wf p"
  shows "pb_queues (publish e p) q = pb_queues p q @
     (if \<exists>t. (q, t) \<in> set (subs p (ev_execution_id e)) \<and>
           (t = [] \<or> ev_tenant_id e = [] \<or> t = ev_tenant_id e)
      then [QEvent (event_to_dict e)] else [])"
proof -
  have "distinct (map fst (subs p (ev_execution_id e)))"
    using assms by (simp add: publisher_wf_def)
  from fold_put [OF this, of "\<lambda>t. t \<noteq> [] \<and> ev_tenant_id e \<noteq> [] \<and> t \<noteq> ev_tenant_id e"
      "QEvent (event_to_dict e)" p q]
  show ?thesis unfolding publish_def by (auto split: if_splits)
qed

lemma publisher_wf_publish [wf_intros]: "publisher_wf p \<Longrightarrow> publisher_wf (publish e p)"
  unfolding publish_def publisher_wf_def subs_def fold_put_frame by simp

end
