(* ===== verification/Loop.thy ===== *)
theory Loop
  imports Runtime Budget Events
begin

text \<open>
  \<^verbatim>\<open>kernel/lifecycle.py\<close>: \<^verbatim>\<open>LoopController\<close>, which runs intents through the runtime under a budget. The
  event log is a local variable of \<^verbatim>\<open>run_intent\<close> that the method drops; the model hands it out beside
  the result so that the audit trail can be stated.
\<close>

section \<open>State\<close>

datatype LoopTermination =
    LT_COMPLETED | LT_POLICY_DENIED | LT_CAPABILITY_MISSING | LT_CAPABILITY_DENIED | LT_GATEWAY_FAILED
  | LT_TOOL_FAILED | LT_CHECKPOINT_FAILED | LT_ORCHESTRATION_FAILED | LT_BUDGET_EXHAUSTED | LT_TIMEOUT
  | LT_EXCEPTION

primrec LoopTermination_value :: "LoopTermination \<Rightarrow> string" where
  "LoopTermination_value LT_COMPLETED = ''COMPLETED''"
| "LoopTermination_value LT_POLICY_DENIED = ''POLICY_DENIED''"
| "LoopTermination_value LT_CAPABILITY_MISSING = ''CAPABILITY_MISSING''"
| "LoopTermination_value LT_CAPABILITY_DENIED = ''CAPABILITY_DENIED''"
| "LoopTermination_value LT_GATEWAY_FAILED = ''GATEWAY_FAILED''"
| "LoopTermination_value LT_TOOL_FAILED = ''TOOL_FAILED''"
| "LoopTermination_value LT_CHECKPOINT_FAILED = ''CHECKPOINT_FAILED''"
| "LoopTermination_value LT_ORCHESTRATION_FAILED = ''ORCHESTRATION_FAILED''"
| "LoopTermination_value LT_BUDGET_EXHAUSTED = ''BUDGET_EXHAUSTED''"
| "LoopTermination_value LT_TIMEOUT = ''TIMEOUT''"
| "LoopTermination_value LT_EXCEPTION = ''EXCEPTION''"

record LoopResult =
  lp_success :: bool
  lp_execution_id :: string
  lp_steps_executed :: int
  lp_tokens_consumed :: int
  lp_checkpoints :: "string list"
  lp_final_state :: ExecutionState
  lp_termination_reason :: LoopTermination
  lp_error :: "string option"
  lp_history :: "ExecutionResult list"

record 'w loop =
  lc_runtime :: "'w runtime"
  lc_budget :: ExecutionBudget
  lc_history :: "ExecutionResult list"
  lc_logger :: "RuntimeLogger option"
  lc_log :: "LogRecord list"
  lc_metrics :: "MetricsRegistry option"
  lc_state :: RuntimeState

definition LoopController_set_tenant_context :: "TenantContext \<Rightarrow> 'w loop \<Rightarrow> exn + 'w loop" where
  "LoopController_set_tenant_context context lc =
     (case set_tenant_context context (lc_runtime lc) of
        Inl e \<Rightarrow> Inl e | Inr rt \<Rightarrow> Inr (lc\<lparr>lc_runtime := rt\<rparr>))"

definition LoopController_init ::
  "'w runtime \<Rightarrow> ExecutionBudget \<Rightarrow> TenantContext option \<Rightarrow> RuntimeLogger option \<Rightarrow> MetricsRegistry option \<Rightarrow>
   exn + 'w loop" where
  "LoopController_init rt budget tenant_context logger metrics =
     (let lc = \<lparr>lc_runtime = rt, lc_budget = budget, lc_history = [], lc_logger = logger, lc_log = [],
                lc_metrics = metrics, lc_state = RS_RUNNING\<rparr>
      in case tenant_context of None \<Rightarrow> Inr lc | Some c \<Rightarrow> LoopController_set_tenant_context c lc)"

definition loop_log :: "RuntimeLogger option \<Rightarrow> LogLevel \<Rightarrow> string \<Rightarrow> pyobj \<Rightarrow> 'w loop \<Rightarrow> 'w loop" where
  "loop_log logger level message extra lc =
     (case logger of None \<Rightarrow> lc
      | Some lg \<Rightarrow> lc\<lparr>lc_log := logger_log lg level message [] extra (lc_log lc)\<rparr>)"

definition loop_incr :: "string \<Rightarrow> 'w loop \<Rightarrow> 'w loop" where
  "loop_incr metric lc = lc\<lparr>lc_metrics := map_option (increment metric) (lc_metrics lc)\<rparr>"

definition shutdown :: "rat \<Rightarrow> 'w loop \<Rightarrow> 'w loop" where
  "shutdown timeout_seconds lc =
     (if lc_state lc \<noteq> RS_RUNNING then lc
      else loop_log (lc_logger lc) LOG_INFO ''Loop shutting down'' [(''timeout_seconds'', PyFloat timeout_seconds)]
             (lc\<lparr>lc_state := RS_STOPPED\<rparr>))"

section \<open>Failure classification\<close>

definition classify_failure :: "string \<Rightarrow> LoopTermination" where
  "classify_failure err =
     (let error_lower = str_lower err in
      if str_in ''policy'' error_lower then LT_POLICY_DENIED
      else if error_lower \<in> {''denied'', ''rejected''} then LT_POLICY_DENIED
      else if str_in ''capability'' error_lower
      then (if str_in ''not'' error_lower \<or> str_in ''denied'' error_lower then LT_CAPABILITY_DENIED
            else LT_CAPABILITY_MISSING)
      else if str_in ''gateway'' error_lower then LT_GATEWAY_FAILED
      else if str_in ''orchestration'' error_lower then LT_ORCHESTRATION_FAILED
      else if str_in ''checkpoint'' error_lower then LT_CHECKPOINT_FAILED
      else if str_in ''tool'' error_lower then LT_TOOL_FAILED
      else LT_EXCEPTION)"

section \<open>Running one intent\<close>

text \<open>The identifier and clock readings of one \<^verbatim>\<open>run_intent\<close>, in program order.\<close>

record LoopEnv =
  le_uuid :: string
  le_t_start :: time
  le_t_loop :: time
  le_t_exhausted :: time
  le_t_timeout :: time
  le_t_elapsed :: time
  le_t_dict :: time
  le_t_checked :: time
  le_exec :: ExecEnv
  le_t_step :: time
  le_t_terminated :: time
  le_t_consume :: time
  le_t_abort :: time

definition check_budget :: "LoopEnv \<Rightarrow> ExecutionBudget \<Rightarrow> EventLog \<Rightarrow> exn + EventLog" where
  "check_budget env b el =
     (if is_exhausted (le_t_exhausted env) b
      then Inl (LoopBudgetExhaustedError (eb_current_steps b) (eb_tokens_consumed b))
      else if is_timeout (le_t_timeout env) b
      then Inl (LoopTimeoutError (case eb_started_at b of None \<Rightarrow> 0 | Some t \<Rightarrow> le_t_elapsed env - t) (eb_timeout_seconds b))
      else Inr (emit BUDGET_CHECKED (ExecutionState_value ES_CREATED) (budget_to_dict (le_t_dict env) b) None
                  (le_t_checked env) el))"

definition loop_failure ::
  "string \<Rightarrow> LoopTermination \<Rightarrow> string \<Rightarrow> 'w loop \<Rightarrow> LoopResult" where
  "loop_failure execution_id reason err lc =
     \<lparr>lp_success = False, lp_execution_id = execution_id, lp_steps_executed = eb_current_steps (lc_budget lc),
      lp_tokens_consumed = eb_tokens_consumed (lc_budget lc), lp_checkpoints = [], lp_final_state = ES_HALTED,
      lp_termination_reason = reason, lp_error = Some err, lp_history = []\<rparr>"

text \<open>The completion or failure bookkeeping after the runtime returned.\<close>

definition track_result ::
  "LoopEnv \<Rightarrow> RuntimeLogger option \<Rightarrow> ExecutionResult \<Rightarrow> EventLog \<Rightarrow> 'w loop \<Rightarrow> EventLog \<times> 'w loop" where
  "track_result env logger result el lc =
     (if er_success result
      then (emit LOOP_TERMINATED (ExecutionState_value ES_COMPLETED)
              [(''termination_reason'', PyStr (LoopTermination_value LT_COMPLETED))] None (le_t_terminated env)
              (emit STEP_COMPLETED (ExecutionState_value (er_state result))
                 [(''execution_id'', PyStr (er_execution_id result)),
                  (''checkpoint_id'', py_opt_str (er_checkpoint_id result))] None (le_t_step env) el),
            loop_incr ''runtime.loop.completed''
              (loop_log logger LOG_INFO ''Loop completed'' [(''steps'', PyInt (eb_current_steps (lc_budget lc)))] lc))
      else let termination = classify_failure (or_str (er_error result) []) in
           (emit LOOP_FAILED (ExecutionState_value (er_state result))
              [(''termination_reason'', PyStr (LoopTermination_value termination))] (er_error result) (le_t_step env) el,
            loop_incr ''runtime.loop.failed''
              (loop_log logger LOG_WARNING ''Loop failed''
                 [(''reason'', py_opt_str (er_error result)),
                  (''termination'', PyStr (LoopTermination_value termination))] lc)))"

text \<open>The body of the \<^verbatim>\<open>try\<close> statement.\<close>

definition loop_try ::
  "'w abi \<Rightarrow> LoopEnv \<Rightarrow> Intent \<Rightarrow> string \<Rightarrow> RuntimeLogger option \<Rightarrow> EventLog \<Rightarrow> 'w loop \<Rightarrow>
   (exn + LoopResult) \<times> EventLog \<times> 'w loop" where
  "loop_try abi env intent execution_id logger el lc =
     (case check_budget env (lc_budget lc) el of
        Inl e \<Rightarrow> (Inl e, el, lc)
      | Inr el1 \<Rightarrow>
          (case execute_intent abi (le_exec env) intent (lc_runtime lc) of
             (Inl e, rt) \<Rightarrow> (Inl e, el1, lc\<lparr>lc_runtime := rt\<rparr>)
           | (Inr result, rt) \<Rightarrow>
               let lc1 = lc\<lparr>lc_runtime := rt, lc_history := lc_history lc @ [result]\<rparr>;
                   (el2, lc2) = track_result env logger result el1 lc1
               in case consume_step 0 (le_t_consume env) (lc_budget lc2) of
                    Inl e \<Rightarrow> (Inl e, el2, lc2)
                  | Inr b \<Rightarrow>
                      (Inr \<lparr>lp_success = er_success result, lp_execution_id = execution_id,
                            lp_steps_executed = eb_current_steps b, lp_tokens_consumed = eb_tokens_consumed b,
                            lp_checkpoints = (case er_checkpoint_id result of None \<Rightarrow> [] | Some c \<Rightarrow> if c = [] then [] else [c]),
                            lp_final_state = er_state result,
                            lp_termination_reason =
                              (if er_success result then LT_COMPLETED else classify_failure (or_str (er_error result) [])),
                            lp_error = er_error result, lp_history = [result]\<rparr>,
                       el2, lc2\<lparr>lc_budget := b\<rparr>)))"

text \<open>The \<^verbatim>\<open>except\<close> clauses.\<close>

record abort_clause =
  ac_event :: EventType
  ac_reason :: LoopTermination
  ac_level :: LogLevel
  ac_message :: string
  ac_extra :: pyobj
  ac_metric :: string

definition except_clause :: "exn \<Rightarrow> ExecutionBudget \<Rightarrow> abort_clause" where
  "except_clause e b =
     (case e of
        LoopBudgetExhaustedError s t \<Rightarrow>
          \<lparr>ac_event = BUDGET_EXHAUSTED, ac_reason = LT_BUDGET_EXHAUSTED, ac_level = LOG_WARNING,
           ac_message = ''Budget exhausted'', ac_extra = [(''steps'', PyInt (eb_current_steps b))],
           ac_metric = ''runtime.loop.budget_exhausted''\<rparr>
      | LoopTimeoutError x y \<Rightarrow>
          \<lparr>ac_event = TIMEOUT_OCCURRED, ac_reason = LT_TIMEOUT, ac_level = LOG_WARNING,
           ac_message = ''Loop timeout'', ac_extra = [(''error'', PyStr (exc_str e))], ac_metric = ''runtime.loop.timeout''\<rparr>
      | _ \<Rightarrow>
          \<lparr>ac_event = LOOP_HALTED, ac_reason = LT_EXCEPTION, ac_level = LOG_ERROR,
           ac_message = ''Loop halted unexpectedly'', ac_extra = [(''error'', PyStr (exc_str e))],
           ac_metric = ''runtime.loop.exception''\<rparr>)"

definition loop_abort ::
  "LoopEnv \<Rightarrow> string \<Rightarrow> RuntimeLogger option \<Rightarrow> exn \<Rightarrow> EventLog \<Rightarrow> 'w loop \<Rightarrow> (LoopResult \<times> EventLog) \<times> 'w loop" where
  "loop_abort env execution_id logger e el lc =
     (let c = except_clause e (lc_budget lc);
          lc' = loop_incr (ac_metric c) (loop_log logger (ac_level c) (ac_message c) (ac_extra c) lc)
      in ((loop_failure execution_id (ac_reason c) (exc_str e) lc',
           emit (ac_event c) (ExecutionState_value ES_HALTED) [] (Some (exc_str e)) (le_t_abort env) el), lc'))"

definition run_intent ::
  "'w abi \<Rightarrow> LoopEnv \<Rightarrow> Intent \<Rightarrow> string option \<Rightarrow> 'w loop \<Rightarrow> (LoopResult \<times> EventLog) \<times> 'w loop" where
  "run_intent abi env intent execution_id0 lc =
     (let execution_id = or_str execution_id0 (le_uuid env); el0 = EventLog_init execution_id in
      if lc_state lc \<noteq> RS_RUNNING
      then ((loop_failure execution_id LT_EXCEPTION ''Loop is shutting down'' lc, el0), lc)
      else
        let lc1 = lc\<lparr>lc_budget := budget_start (le_t_start env) (lc_budget lc)\<rparr>;
            logger = map_option (with_correlation [(''execution_id'', PyStr execution_id)]) (lc_logger lc);
            lc2 = loop_incr ''runtime.loop.started''
                    (loop_log logger LOG_INFO ''Loop started''
                       [(''agent_id'', PyStr (in_agent_id intent)), (''action'', PyStr (in_action intent))] lc1);
            el1 = emit LOOP_STARTED (ExecutionState_value ES_CREATED)
                    [(''agent_id'', PyStr (in_agent_id intent)), (''action'', PyStr (in_action intent))] None (le_t_loop env) el0
        in case loop_try abi env intent execution_id logger el1 lc2 of
             (Inr result, el, lc') \<Rightarrow> ((result, el), lc')
           | (Inl e, el, lc') \<Rightarrow> loop_abort env execution_id logger e el lc')"

section \<open>Running several intents\<close>

text \<open>Each element carries the clock reading of the exhaustion test and the environment of its run.\<close>

fun run_multi_step :: "'w abi \<Rightarrow> (time \<times> LoopEnv \<times> Intent) list \<Rightarrow> 'w loop \<Rightarrow> LoopResult list \<times> 'w loop" where
  "run_multi_step abi [] lc = ([], lc)"
| "run_multi_step abi ((now, env, intent) # rest) lc =
     (if is_exhausted now (lc_budget lc) then ([], lc)
      else
        let ((result, _), lc') = run_intent abi env intent None lc in
        if \<not> lp_success result then ([result], lc')
        else let (results, lc'') = run_multi_step abi rest lc' in (result # results, lc''))"

definition history :: "'w loop \<Rightarrow> ExecutionResult list" where
  "history lc = lc_history lc"

definition total_steps :: "'w loop \<Rightarrow> int" where
  "total_steps lc = eb_current_steps (lc_budget lc)"

definition total_tokens :: "'w loop \<Rightarrow> int" where
  "total_tokens lc = eb_tokens_consumed (lc_budget lc)"

definition get_event_log :: "'w loop \<Rightarrow> string \<Rightarrow> EventLog" where
  "get_event_log lc execution_id = EventLog_init execution_id"

end
