(* ===== verification/Loop_Correctness.thy ===== *)
theory Loop_Correctness
  imports Loop Runtime_Lifecycle Policy_Correctness
begin

text \<open>
  Correctness of \<^verbatim>\<open>LoopController\<close>: the budget bounds what it runs, a run that succeeds was governed,
  the audit trail of a run, and how failures are classified.
\<close>

lemma loop_observe [simp]:
  "lc_budget (loop_log lg lv msg ex lc) = lc_budget lc" "lc_runtime (loop_log lg lv msg ex lc) = lc_runtime lc"
  "lc_history (loop_log lg lv msg ex lc) = lc_history lc" "lc_state (loop_log lg lv msg ex lc) = lc_state lc"
  "lc_budget (loop_incr k lc) = lc_budget lc" "lc_runtime (loop_incr k lc) = lc_runtime lc"
  "lc_history (loop_incr k lc) = lc_history lc" "lc_state (loop_incr k lc) = lc_state lc"
  by (simp_all add: loop_log_def loop_incr_def split: option.splits)

lemma track_result_fields:
  assumes "track_result env lg res el lc = (el', lc')"
  shows "lc_budget lc' = lc_budget lc" "lc_runtime lc' = lc_runtime lc" "lc_history lc' = lc_history lc"
    "lc_state lc' = lc_state lc" "event_log_wf el \<Longrightarrow> event_log_wf el'"
    "event_types el' = event_types el @ (if er_success res then [EnumType STEP_COMPLETED, EnumType LOOP_TERMINATED]
       else [EnumType LOOP_FAILED])"
  using assms by (auto simp: track_result_def Let_def intro: wf_intros split: if_splits)

lemma loop_abort_fields:
  assumes "loop_abort env eid lg e el lc = ((res, el'), lc')"
  shows "lc_budget lc' = lc_budget lc" "lc_runtime lc' = lc_runtime lc" "lc_history lc' = lc_history lc"
    "\<not> lp_success res" "lp_checkpoints res = []" "lp_history res = []" "event_log_wf el \<Longrightarrow> event_log_wf el'"
    "lp_final_state res = ES_HALTED" "lp_error res = Some (exc_str e)"
    "lp_steps_executed res = eb_current_steps (lc_budget lc)"
    "prefix [EnumType LOOP_STARTED] (event_types el) \<Longrightarrow> prefix [EnumType LOOP_STARTED] (event_types el')"
  using assms by (auto simp: loop_abort_def Let_def loop_failure_def intro: wf_intros)

text \<open>The four ways a run ends.\<close>

lemma run_intent_cases:
  assumes "run_intent abi env intent eid lc = ((res, el), lc')"
  defines "b \<equiv> budget_start (le_t_start env) (lc_budget lc)"
  obtains (closed) "lc_state lc \<noteq> RS_RUNNING" "lc' = lc" "\<not> lp_success res" "el = EventLog_init (or_str eid (le_uuid env))"
      "lp_checkpoints res = []"
    | (budget) "lc_state lc = RS_RUNNING" "\<not> lp_success res" "lc_budget lc' = b" "lc_runtime lc' = lc_runtime lc"
      "lc_history lc' = lc_history lc" "is_exhausted (le_t_exhausted env) b \<or> is_timeout (le_t_timeout env) b"
      "event_log_wf el" "lp_checkpoints res = []" "prefix [EnumType LOOP_STARTED] (event_types el)"
    | (raised) e rt where "lc_state lc = RS_RUNNING" "execute_intent abi (le_exec env) intent (lc_runtime lc) = (Inl e, rt)"
      "\<not> is_exhausted (le_t_exhausted env) b" "\<not> lp_success res" "lc_budget lc' = b" "lc_runtime lc' = rt"
      "lc_history lc' = lc_history lc" "event_log_wf el" "lp_checkpoints res = []" "lp_error res = Some (exc_str e)"
      "prefix [EnumType LOOP_STARTED] (event_types el)"
    | (overrun) result rt where "lc_state lc = RS_RUNNING"
      "execute_intent abi (le_exec env) intent (lc_runtime lc) = (Inr result, rt)"
      "\<not> is_exhausted (le_t_exhausted env) b" "is_exhausted (le_t_consume env) b" "\<not> lp_success res" "lc_budget lc' = b"
      "lc_runtime lc' = rt" "lc_history lc' = lc_history lc @ [result]" "event_log_wf el" "lp_checkpoints res = []"
      "lp_termination_reason res = LT_EXCEPTION" "lp_history res = []"
      "prefix [EnumType LOOP_STARTED] (event_types el)"
    | (ran) result rt where "lc_state lc = RS_RUNNING"
      "execute_intent abi (le_exec env) intent (lc_runtime lc) = (Inr result, rt)"
      "\<not> is_exhausted (le_t_exhausted env) b" "\<not> is_exhausted (le_t_consume env) b"
      "lc_budget lc' = b\<lparr>eb_current_steps := eb_current_steps b + 1\<rparr>" "lc_runtime lc' = rt"
      "lc_history lc' = lc_history lc @ [result]" "event_log_wf el"
      "lp_success res = er_success result" "lp_final_state res = er_state result" "lp_error res = er_error result"
      "lp_history res = [result]" "lp_steps_executed res = eb_current_steps b + 1"
      "lp_checkpoints res = (case er_checkpoint_id result of None \<Rightarrow> [] | Some c \<Rightarrow> if c = [] then [] else [c])"
      "lp_termination_reason res = (if er_success result then LT_COMPLETED else classify_failure (or_str (er_error result) []))"
      "event_types el = [EnumType LOOP_STARTED, EnumType BUDGET_CHECKED] @
         (if er_success result then [EnumType STEP_COMPLETED, EnumType LOOP_TERMINATED] else [EnumType LOOP_FAILED])"
proof (cases "lc_state lc = RS_RUNNING")
  case False
  then have "lc' = lc" "\<not> lp_success res" "el = EventLog_init (or_str eid (le_uuid env))" "lp_checkpoints res = []"
    using assms(1) by (auto simp: run_intent_def Let_def loop_failure_def)
  with False show thesis by (rule closed)
next
  case run: True
  define eid' where "eid' = or_str eid (le_uuid env)"
  define lg where "lg = map_option (with_correlation [(''execution_id'', PyStr eid')]) (lc_logger lc)"
  define lc2 where "lc2 = loop_incr ''runtime.loop.started'' (loop_log lg LOG_INFO ''Loop started''
     [(''agent_id'', PyStr (in_agent_id intent)), (''action'', PyStr (in_action intent))] (lc\<lparr>lc_budget := b\<rparr>))"
  define el1 where "el1 = emit LOOP_STARTED (ExecutionState_value ES_CREATED)
     [(''agent_id'', PyStr (in_agent_id intent)), (''action'', PyStr (in_action intent))] None (le_t_loop env) (EventLog_init eid')"
  have lc2: "lc_budget lc2 = b" "lc_runtime lc2 = lc_runtime lc" "lc_history lc2 = lc_history lc" "lc_state lc2 = lc_state lc"
    by (simp_all add: lc2_def)
  have el1: "event_log_wf el1" "event_types el1 = [EnumType LOOP_STARTED]"
    by (auto simp: el1_def intro: wf_intros)
  obtain r el2 lc3 where tried: "loop_try abi env intent eid' lg el1 lc2 = (r, el2, lc3)" by (cases "loop_try abi env intent eid' lg el1 lc2")
  have eq: "run_intent abi env intent eid lc =
      (case r of Inr result \<Rightarrow> ((result, el2), lc3) | Inl e \<Rightarrow> loop_abort env eid' lg e el2 lc3)"
    using run tried by (simp add: run_intent_def Let_def eid'_def lg_def lc2_def el1_def b_def split: sum.splits)
  show thesis
  proof (cases "check_budget env b el1")
    case (Inl e)
    then have r: "r = Inl e" "el2 = el1" "lc3 = lc2" using tried lc2 by (auto simp: loop_try_def)
    have why: "is_exhausted (le_t_exhausted env) b \<or> is_timeout (le_t_timeout env) b"
      using Inl by (auto simp: check_budget_def split: if_splits)
    have "loop_abort env eid' lg e el1 lc2 = ((res, el), lc')" using assms(1) eq r by simp
    from budget [OF run] loop_abort_fields [OF this] lc2 why el1 show thesis by simp
  next
    case (Inr el1')
    then have ok: "\<not> is_exhausted (le_t_exhausted env) b" and el1': "event_log_wf el1'"
        "event_types el1' = [EnumType LOOP_STARTED, EnumType BUDGET_CHECKED]"
      using el1 by (auto simp: check_budget_def intro: wf_intros split: if_splits)
    obtain x rt where ex: "execute_intent abi (le_exec env) intent (lc_runtime lc) = (x, rt)" by fastforce
    show thesis
    proof (cases x)
      case (Inl e)
      then have r: "r = Inl e" "el2 = el1'" "lc3 = lc2\<lparr>lc_runtime := rt\<rparr>"
        using tried lc2 ex Inr by (auto simp: loop_try_def)
      have "loop_abort env eid' lg e el2 lc3 = ((res, el), lc')" using assms(1) eq r by simp
      from raised [OF run ex [unfolded Inl] ok] loop_abort_fields [OF this] lc2 r el1' show thesis by simp
    next
      case res: (Inr result)
      obtain el3 lc4 where tr: "track_result env lg result el1' (lc2\<lparr>lc_runtime := rt, lc_history := lc_history lc2 @ [result]\<rparr>) =
          (el3, lc4)" by fastforce
      note trf = track_result_fields [OF tr]
      show thesis
      proof (cases "is_exhausted (le_t_consume env) b")
        case True
        then have r: "r = Inl (BudgetExhaustedError (eb_current_steps b) (eb_tokens_consumed b) (eb_max_steps b) (eb_max_tokens b))"
            "el2 = el3" "lc3 = lc4"
          using tried lc2 ex Inr res tr trf by (auto simp: loop_try_def consume_step_def)
        have ab: "loop_abort env eid' lg (BudgetExhaustedError (eb_current_steps b) (eb_tokens_consumed b) (eb_max_steps b)
            (eb_max_tokens b)) el3 lc4 = ((res, el), lc')" using assms(1) eq r by simp
        have "lp_termination_reason res = LT_EXCEPTION" using ab by (auto simp: loop_abort_def Let_def loop_failure_def except_clause_def)
        with overrun [OF run ex [unfolded res] ok True] loop_abort_fields [OF ab] trf lc2 el1' show thesis by simp
      next
        case False
        then show thesis
          using ran [OF run ex [unfolded res] ok False] assms(1) eq tried lc2 ex Inr res tr trf el1'
          by (auto simp: loop_try_def consume_step_def)
      qed
    qed
  qed
qed

section \<open>The budget bounds the loop\<close>

lemma steps_remaining_start [simp]: "steps_remaining (budget_start now b) = steps_remaining b"
  by (simp add: steps_remaining_def)

lemma run_intent_steps:
  assumes "run_intent abi env intent eid lc = ((res, el), lc')"
  shows "steps_remaining (lc_budget lc') \<le> steps_remaining (lc_budget lc)"
    and "lp_success res \<Longrightarrow> steps_remaining (lc_budget lc) = steps_remaining (lc_budget lc') + 1"
  using assms
  by (cases rule: run_intent_cases;
      auto simp: steps_remaining_def is_exhausted_def is_steps_exhausted_def)+

lemma run_intent_budget_wf:
  assumes "run_intent abi env intent eid lc = ((res, el), lc')" "budget_wf (lc_budget lc)"
  shows "budget_wf (lc_budget lc')"
  using assms(1)
proof (cases rule: run_intent_cases)
  case (ran result rt)
  then show ?thesis
    using assms(2) by (auto simp: budget_wf_def is_exhausted_def is_steps_exhausted_def)
qed (use assms(2) in \<open>auto intro: wf_intros\<close>)

lemma run_intent_history:
  assumes "run_intent abi env intent eid lc = ((res, el), lc')"
  shows "\<exists>new. history lc' = history lc @ new \<and> length new \<le> 1"
  using assms by (cases rule: run_intent_cases) (auto simp: history_def)

text \<open>
  Property C30. The budget bounds a multi-step run: \<^verbatim>\<open>run_multi_step\<close> returns at most as many results as
  steps remained, at most one per intent, appends at most one execution per result to the history,
  and stops at the first failure: every result but the last is a success.
\<close>

theorem run_multi_step_bounded:
  assumes "run_multi_step abi jobs lc = (rs, lc')"
  shows "int (length rs) \<le> steps_remaining (lc_budget lc) \<and> length rs \<le> length jobs \<and>
     (\<forall>r \<in> set (butlast rs). lp_success r) \<and>
     (\<exists>new. history lc' = history lc @ new \<and> length new \<le> length rs)"
  using assms
proof (induction jobs arbitrary: lc rs lc')
  case Nil
  then show ?case by (auto simp: steps_remaining_def)
next
  case (Cons job jobs)
  obtain now env intent where job: "job = (now, env, intent)" by (cases job)
  obtain res el lc1 where run: "run_intent abi env intent None lc = ((res, el), lc1)" by (metis surj_pair)
  show ?case
  proof (cases "is_exhausted now (lc_budget lc)")
    case True
    then show ?thesis using Cons.prems job by (auto simp: steps_remaining_def)
  next
    case False
    then have pos: "1 \<le> steps_remaining (lc_budget lc)"
      by (auto simp: steps_remaining_def is_exhausted_def is_steps_exhausted_def)
    obtain new1 where new1: "history lc1 = history lc @ new1" "length new1 \<le> 1"
      using run_intent_history [OF run] by blast
    show ?thesis
    proof (cases "lp_success res")
      case False
      then show ?thesis using Cons.prems job run pos new1 \<open>\<not> is_exhausted now (lc_budget lc)\<close> by auto
    next
      case True
      obtain rs1 lc2 where rest: "run_multi_step abi jobs lc1 = (rs1, lc2)" by fastforce
      have eq: "rs = res # rs1" "lc' = lc2"
        using Cons.prems job run rest True \<open>\<not> is_exhausted now (lc_budget lc)\<close> by auto
      from Cons.IH [OF rest] obtain new2 where "int (length rs1) \<le> steps_remaining (lc_budget lc1)"
          "length rs1 \<le> length jobs" "\<forall>r \<in> set (butlast rs1). lp_success r"
          "history lc2 = history lc1 @ new2" "length new2 \<le> length rs1" by blast
      then show ?thesis
        using eq True new1 run_intent_steps(2) [OF run True]
        by (auto intro!: exI [of _ "new1 @ new2"] split: if_splits)
    qed
  qed
qed

definition sample_budget :: ExecutionBudget where
  "sample_budget = default_ExecutionBudget\<lparr>eb_max_steps := 2\<rparr>"

definition sample_loop :: "string list loop" where
  "sample_loop = \<lparr>lc_runtime = sample_runtime, lc_budget = sample_budget, lc_history = [], lc_logger = None, lc_log = [],
     lc_metrics = None, lc_state = RS_RUNNING\<rparr>"

definition sample_loop_env :: "time \<Rightarrow> LoopEnv" where
  "sample_loop_env t_end =
     \<lparr>le_uuid = ''l1'', le_t_start = 0, le_t_loop = 0, le_t_exhausted = 0, le_t_timeout = 0, le_t_elapsed = 0, le_t_dict = 0,
      le_t_checked = 0, le_exec = sample_env, le_t_step = t_end, le_t_terminated = t_end, le_t_consume = t_end, le_t_abort = t_end\<rparr>"

theorem run_multi_step_bounded_witness:
  "\<exists>rs lc'. run_multi_step sample_abi (replicate 3 (0, sample_loop_env 1, sample_intent ''read'')) sample_loop = (rs, lc') \<and>
     int (length rs) \<le> 2"
proof -
  obtain rs lc' where run: "run_multi_step sample_abi (replicate 3 (0, sample_loop_env 1, sample_intent ''read'')) sample_loop = (rs, lc')"
    by fastforce
  have "steps_remaining (lc_budget sample_loop) = 2"
    by (simp add: sample_loop_def sample_budget_def default_ExecutionBudget_def steps_remaining_def)
  with run_multi_step_bounded [OF run] run show ?thesis by simp
qed

section \<open>What a run reports\<close>

text \<open>
  A loop run that reports success ran the intent through the runtime exactly once and
  successfully: it consumed one budget step, its history gained that result, its checkpoints are
  the result's, and its event log is the complete trail LOOP_STARTED, BUDGET_CHECKED,
  STEP_COMPLETED, LOOP_TERMINATED, numbered without gaps.
\<close>

lemma loop_success_report:
  assumes "run_intent abi env intent eid lc = ((res, el), lc')" "lp_success res"
  shows "\<exists>result rt. execute_intent abi (le_exec env) intent (lc_runtime lc) = (Inr result, rt) \<and> er_success result \<and>
     lc_runtime lc' = rt \<and> history lc' = history lc @ [result] \<and> lp_history res = [result] \<and>
     total_steps lc' = total_steps lc + 1 \<and> lp_steps_executed res = total_steps lc' \<and>
     lp_checkpoints res = (case er_checkpoint_id result of None \<Rightarrow> [] | Some c \<Rightarrow> if c = [] then [] else [c]) \<and>
     event_types el = map EnumType [LOOP_STARTED, BUDGET_CHECKED, STEP_COMPLETED, LOOP_TERMINATED] \<and> event_log_wf el"
  using assms(1)
proof (cases rule: run_intent_cases)
  case (ran result rt)
  then show ?thesis using assms(2) by (auto simp: history_def total_steps_def)
qed (use assms(2) in auto)

lemma run_intent_succeeds:
  assumes "lc_state lc = RS_RUNNING" "execute_intent abi (le_exec env) intent (lc_runtime lc) = (Inr result, rt)" "er_success result"
    and "b = budget_start (le_t_start env) (lc_budget lc)"
    and "\<not> is_exhausted (le_t_exhausted env) b" "\<not> is_timeout (le_t_timeout env) b" "\<not> is_exhausted (le_t_consume env) b"
  shows "lp_success (fst (fst (run_intent abi env intent eid lc)))"
proof -
  obtain res el lc' where r: "run_intent abi env intent eid lc = ((res, el), lc')" by (metis surj_pair)
  from r have "lp_success res" by (cases rule: run_intent_cases) (use assms in auto)
  then show ?thesis by (simp add: r)
qed

lemma sample_loop_success: "lp_success (fst (fst (run_intent sample_abi (sample_loop_env 1) (sample_intent ''read'') None sample_loop)))"
proof -
  obtain result rt where ex: "execute_intent sample_abi sample_env (sample_intent ''read'') sample_runtime = (Inr result, rt)"
      "er_success result" using sample_succeeds by blast
  show ?thesis
    by (rule run_intent_succeeds [where result = result and rt = rt, OF _ _ _ refl])
      (use ex in \<open>simp_all add: sample_loop_def sample_loop_env_def sample_budget_def default_ExecutionBudget_def budget_start_def
         is_exhausted_def is_timeout_def is_steps_exhausted_def is_tokens_exhausted_def\<close>)
qed

lemma loop_success_report_witness:
  "\<exists>res el lc'. run_intent sample_abi (sample_loop_env 1) (sample_intent ''read'') None sample_loop = ((res, el), lc') \<and>
     total_steps lc' = total_steps sample_loop + 1"
proof -
  obtain res el lc' where run: "run_intent sample_abi (sample_loop_env 1) (sample_intent ''read'') None sample_loop = ((res, el), lc')"
    by (metis surj_pair)
  then have "lp_success res" using sample_loop_success by simp
  from loop_success_report [OF run this] run show ?thesis by blast
qed

text \<open>
  An execution that finishes after the loop's deadline is reported as lost: when the
  runtime succeeded, its checkpoint is saved and the result is in the history, but the step can no
  longer be booked, so \<^verbatim>\<open>run_intent\<close> reports failure, termination EXCEPTION, no checkpoint and no
  history.
\<close>

lemma late_success_reported_as_exception:
  assumes "lc_state lc = RS_RUNNING" "b = budget_start (le_t_start env) (lc_budget lc)"
    and "\<not> is_exhausted (le_t_exhausted env) b" "\<not> is_timeout (le_t_timeout env) b"
    and "execute_intent abi (le_exec env) intent (lc_runtime lc) = (Inr result, rt)" "er_success result"
    and "is_timeout (le_t_consume env) b"
    and "run_intent abi env intent eid lc = ((res, el), lc')"
  shows "\<not> lp_success res \<and> lp_termination_reason res = LT_EXCEPTION \<and> lp_checkpoints res = [] \<and> lp_history res = [] \<and>
     history lc' = history lc @ [result] \<and> lc_runtime lc' = rt"
  using assms(8)
proof (cases rule: run_intent_cases)
  case (overrun result' rt')
  then show ?thesis using assms by (simp add: history_def)
next
  case (ran result' rt')
  then show ?thesis using assms by (simp add: is_exhausted_def)
qed (use assms in auto)

lemma late_success_reported_as_exception_witness:
  "\<exists>res el lc' result. run_intent sample_abi (sample_loop_env 4000) (sample_intent ''read'') None sample_loop = ((res, el), lc') \<and>
     \<not> lp_success res \<and> lp_checkpoints res = [] \<and> history lc' = [result] \<and> er_success result"
proof -
  let ?b = "budget_start (le_t_start (sample_loop_env 4000)) (lc_budget sample_loop)"
  have pre: "lc_state sample_loop = RS_RUNNING" "\<not> is_exhausted (le_t_exhausted (sample_loop_env 4000)) ?b"
    "\<not> is_timeout (le_t_timeout (sample_loop_env 4000)) ?b" "is_timeout (le_t_consume (sample_loop_env 4000)) ?b"
    "le_exec (sample_loop_env 4000) = sample_env" "lc_runtime sample_loop = sample_runtime" "history sample_loop = []"
    by (simp_all add: sample_loop_def sample_loop_env_def sample_budget_def default_ExecutionBudget_def budget_start_def
        is_exhausted_def is_steps_exhausted_def is_tokens_exhausted_def is_timeout_def history_def)
  obtain result rt where ex: "execute_intent sample_abi sample_env (sample_intent ''read'') sample_runtime = (Inr result, rt)"
      "er_success result" using sample_succeeds by blast
  obtain res el lc' where run: "run_intent sample_abi (sample_loop_env 4000) (sample_intent ''read'') None sample_loop = ((res, el), lc')"
    by (metis surj_pair)
  from late_success_reported_as_exception [OF pre(1) refl pre(2,3) _ ex(2) pre(4) run] ex pre run show ?thesis by fastforce
qed

text \<open>
  Every run that starts writes an audit trail, numbered without gaps from LOOP_STARTED
  on, but \<^verbatim>\<open>get_event_log\<close> returns an empty log for that execution.
\<close>

lemma audit_trail_not_retrievable:
  assumes "lc_state lc = RS_RUNNING" "run_intent abi env intent eid lc = ((res, el), lc')"
  shows "event_log_wf el \<and> prefix [EnumType LOOP_STARTED] (event_types el) \<and>
     event_count (get_event_log lc' (el_execution_id el)) = 0"
  using assms(2)
  by (cases rule: run_intent_cases) (use assms(1) in \<open>auto simp: get_event_log_def event_count_def EventLog_init_def\<close>)

lemma audit_trail_not_retrievable_witness:
  "\<exists>res el lc'. run_intent sample_abi (sample_loop_env 1) (sample_intent ''read'') None sample_loop = ((res, el), lc') \<and>
     event_log_wf el \<and> event_count (get_event_log lc' (el_execution_id el)) = 0"
proof -
  obtain res el lc' where run: "run_intent sample_abi (sample_loop_env 1) (sample_intent ''read'') None sample_loop = ((res, el), lc')"
    by (metis surj_pair)
  have "lc_state sample_loop = RS_RUNNING" by (simp add: sample_loop_def)
  from audit_trail_not_retrievable [OF this run] run show ?thesis by blast
qed

text \<open>
  A denial by a policy rule is classified as an exception: the adapter's reason for an
  intent denied by a rule named \<^verbatim>\<open>block\<close> is \<^verbatim>\<open>[pol-...] Matched rule: block\<close>, which holds none of the
  words that \<^verbatim>\<open>_classify_failure\<close> looks for, so the loop reports EXCEPTION instead of POLICY_DENIED.
\<close>

lemma rule_denial_classified_as_exception:
  "\<exists>pid eng reason.
     create_policy ''block'' ''db.*'' ''DENY'' None ''0123456789abcdef'' (PolicyEngine_init None) = Inr (pid, eng) \<and>
     fst (adapter_evaluate_intent sample_sha (sample_intent ''db.read'') 0 0 eng) = (False, Some reason) \<and>
     classify_failure (or_str (Some reason) ''Policy rejected intent'') = LT_EXCEPTION"
proof -
  let ?r = "create_policy ''block'' ''db.*'' ''DENY'' None ''0123456789abcdef'' (PolicyEngine_init None)"
  have "case ?r of Inr (pid, eng) \<Rightarrow>
      fst (adapter_evaluate_intent sample_sha (sample_intent ''db.read'') 0 0 eng) =
        (False, Some ''[pol-0123456789ab] Matched rule: block'') | Inl _ \<Rightarrow> False"
    by code_simp
  moreover have "classify_failure (or_str (Some ''[pol-0123456789ab] Matched rule: block'') ''Policy rejected intent'') = LT_EXCEPTION"
    by code_simp
  ultimately show ?thesis by (auto split: sum.splits)
qed

end
