(* ===== verification/Tool_Registry.thy ===== *)
theory Tool_Registry
  imports Errors Tenant
begin

text \<open>
  \<^verbatim>\<open>kernel/resources/tool_registry.py\<close>: tool definitions and the registry that maps tool identifiers
  to them. \<^verbatim>\<open>match_pattern\<close> builds a regular expression from a glob with \<^verbatim>\<open>re.escape\<close> and
  \<^verbatim>\<open>str.replace\<close> and runs \<^verbatim>\<open>re.match\<close>; the three library functions are modelled on text, with a
  matcher for the fragment of the regular-expression syntax that such patterns reach, and the
  result is related to a direct reading of the glob.
\<close>

record ToolDefinition =
  td_tool_id :: string
  td_mcp_server :: string
  td_description :: string
  td_input_schema :: pyobj
  td_output_schema :: pyobj
  td_required_capabilities :: "string set"
  td_tags :: "string set"
  td_metadata :: pyobj

definition ToolDefinition_validate :: "ToolDefinition \<Rightarrow> string list" where
  "ToolDefinition_validate t =
     require (td_tool_id t \<noteq> []) ''tool_id is required'' @
     require (td_mcp_server t \<noteq> []) ''mcp_server is required''"

definition ToolDefinition_is_valid :: "ToolDefinition \<Rightarrow> bool" where
  "ToolDefinition_is_valid t = (length (ToolDefinition_validate t) = 0)"

definition ToolDefinition_to_dict :: "ToolDefinition \<Rightarrow> pyobj" where
  "ToolDefinition_to_dict t =
     [(''tool_id'', PyStr (td_tool_id t)),
      (''mcp_server'', PyStr (td_mcp_server t)),
      (''description'', PyStr (td_description t)),
      (''input_schema'', PyDict (td_input_schema t)),
      (''output_schema'', PyDict (td_output_schema t)),
      (''required_capabilities'', PyList (map PyStr (sorted_list_of_set (td_required_capabilities t)))),
      (''tags'', PyList (map PyStr (sorted_list_of_set (td_tags t)))),
      (''metadata'', PyDict (td_metadata t))]"

section \<open>Regular expressions of escaped globs\<close>

definition re_special :: string where
  "re_special = ''()[]{}?*+-|^$.&~# '' @ [CHR 0x5C, CHR 0x09, CHR 0x0A, CHR 0x0D, CHR 0x0B, CHR 0x0C]"

definition re_escape :: "string \<Rightarrow> string" where
  "re_escape s = concat (map (\<lambda>c. if c \<in> set re_special then [CHR 0x5C, c] else [c]) s)"

function str_replace :: "string \<Rightarrow> string \<Rightarrow> string \<Rightarrow> string" where
  "str_replace old new s =
     (case s of [] \<Rightarrow> []
      | c # cs \<Rightarrow>
          if old \<noteq> [] \<and> prefix old s then new @ str_replace old new (drop (length old) s)
          else c # str_replace old new cs)"
  by pat_completeness auto
termination
  by (relation "measure (\<lambda>(old, new, s). length s)") auto

declare str_replace.simps [simp del]

datatype re_item = Lit char | AnyStar | BeginText | EndText

fun re_parse :: "string \<Rightarrow> re_item list" where
  "re_parse [] = []"
| "re_parse (c # cs) =
     (if c = CHR 0x5C then (case cs of [] \<Rightarrow> [Lit c] | d # ds \<Rightarrow> Lit d # re_parse ds)
      else if c = CHR ''.'' \<and> cs \<noteq> [] \<and> hd cs = CHR ''*'' then AnyStar # re_parse (tl cs)
      else if c = CHR ''^'' then BeginText # re_parse cs
      else if c = CHR ''$'' then EndText # re_parse cs
      else Lit c # re_parse cs)"

text \<open>
  Matching from a position: \<open>start\<close> says whether it is the start of the text; the dot matches any
  character but a newline, and the dollar sign matches at the end or before a final newline.
\<close>

fun re_match_items :: "re_item list \<Rightarrow> bool \<Rightarrow> string \<Rightarrow> bool" where
  "re_match_items [] start s = True"
| "re_match_items (Lit c # r) start s = (case s of [] \<Rightarrow> False | d # ds \<Rightarrow> d = c \<and> re_match_items r False ds)"
| "re_match_items (BeginText # r) start s = (start \<and> re_match_items r start s)"
| "re_match_items (EndText # r) start s = ((s = [] \<or> s = [CHR 0x0A]) \<and> re_match_items r start s)"
| "re_match_items (AnyStar # r) start s =
     (re_match_items r start s \<or>
      (case s of [] \<Rightarrow> False | d # ds \<Rightarrow> d \<noteq> CHR 0x0A \<and> re_match_items (AnyStar # r) False ds))"

definition re_match :: "string \<Rightarrow> string \<Rightarrow> bool" where
  "re_match regex s = re_match_items (re_parse regex) True s"

section \<open>The registry\<close>

record ToolRegistry =
  tg_tools :: "(string, ToolDefinition) dict"

definition ToolRegistry_init :: ToolRegistry where
  "ToolRegistry_init = \<lparr>tg_tools = []\<rparr>"

definition ToolRegistry_register :: "ToolDefinition \<Rightarrow> ToolRegistry \<Rightarrow> exn + ToolRegistry" where
  "ToolRegistry_register tool r =
     (if \<not> ToolDefinition_is_valid tool
      then Inl (ValueError (''Invalid tool definition: '' @ list_repr (ToolDefinition_validate tool)))
      else if dict_has (tg_tools r) (td_tool_id tool) then Inl (ToolAlreadyRegisteredError (td_tool_id tool))
      else Inr (r\<lparr>tg_tools := dict_set (td_tool_id tool) tool (tg_tools r)\<rparr>))"

definition ToolRegistry_unregister :: "string \<Rightarrow> ToolRegistry \<Rightarrow> exn + ToolRegistry" where
  "ToolRegistry_unregister tool_id r =
     (if \<not> dict_has (tg_tools r) tool_id then Inl (ToolNotFoundError tool_id)
      else Inr (r\<lparr>tg_tools := dict_del tool_id (tg_tools r)\<rparr>))"

definition ToolRegistry_get :: "ToolRegistry \<Rightarrow> string \<Rightarrow> ToolDefinition option" where
  "ToolRegistry_get r tool_id = dict_get (tg_tools r) tool_id"

definition is_registered :: "ToolRegistry \<Rightarrow> string \<Rightarrow> bool" where
  "is_registered r tool_id = dict_has (tg_tools r) tool_id"

definition pattern_regex :: "string \<Rightarrow> string" where
  "pattern_regex pattern =
     (let regex = str_replace [CHR 0x5C, CHR ''.'', CHR 0x5C, CHR ''*''] [CHR 0x5C, CHR ''.'', CHR ''.'', CHR ''*'']
                    (re_escape pattern)
      in ''^'' @ regex @ ''$'')"

definition match_pattern :: "ToolRegistry \<Rightarrow> string \<Rightarrow> ToolDefinition list" where
  "match_pattern r pattern =
     filter (\<lambda>t. re_match (pattern_regex pattern) (td_tool_id t)) (dict_values (tg_tools r))"

definition list_tools :: "ToolRegistry \<Rightarrow> ToolDefinition list" where
  "list_tools r = dict_values (tg_tools r)"

definition validate_access :: "ToolRegistry \<Rightarrow> string \<Rightarrow> string set option \<Rightarrow> exn + ToolDefinition" where
  "validate_access r tool_id agent_capabilities =
     (case dict_get (tg_tools r) tool_id of
        None \<Rightarrow> Inl (ToolNotFoundError tool_id)
      | Some tool \<Rightarrow>
          (case agent_capabilities of
             None \<Rightarrow> Inr tool
           | Some caps \<Rightarrow>
               if td_required_capabilities tool \<noteq> {} \<and> \<not> td_required_capabilities tool \<subseteq> caps
               then Inl (ToolCapabilityMismatchError tool_id (td_required_capabilities tool) caps)
               else Inr tool))"

definition tool_count :: "ToolRegistry \<Rightarrow> nat" where
  "tool_count r = length (tg_tools r)"

definition ToolRegistry_to_dict :: "ToolRegistry \<Rightarrow> pyobj" where
  "ToolRegistry_to_dict r =
     [(''tool_count'', PyInt (int (tool_count r))),
      (''tools'', PyDict (map (\<lambda>(tid, t). (tid, PyDict (ToolDefinition_to_dict t))) (tg_tools r)))]"

section \<open>Well-formedness and lookups\<close>

definition tool_registry_wf :: "ToolRegistry \<Rightarrow> bool" where
  "tool_registry_wf r \<longleftrightarrow> dict_wf (tg_tools r) \<and>
     (\<forall>tid t. dict_get (tg_tools r) tid = Some t \<longrightarrow> td_tool_id t = tid \<and> ToolDefinition_is_valid t)"

lemma tool_registry_wf_init [wf_intros]: "tool_registry_wf ToolRegistry_init"
  by (simp add: tool_registry_wf_def ToolRegistry_init_def)

lemma tool_registry_wf_register [wf_intros]:
  "tool_registry_wf r \<Longrightarrow> ToolRegistry_register t r = Inr r' \<Longrightarrow> tool_registry_wf r'"
  by (auto simp: tool_registry_wf_def ToolRegistry_register_def split: if_splits)

lemma tool_registry_wf_unregister [wf_intros]:
  "tool_registry_wf r \<Longrightarrow> ToolRegistry_unregister tid r = Inr r' \<Longrightarrow> tool_registry_wf r'"
  by (auto simp: tool_registry_wf_def ToolRegistry_unregister_def split: if_splits)

interpretation tools: keyed_registry ToolRegistry_register ToolRegistry_get td_tool_id tool_registry_wf
proof unfold_locales
  show "ToolRegistry_register v r = Inr r' \<Longrightarrow>
      ToolRegistry_get r' k = (if k = td_tool_id v then Some v else ToolRegistry_get r k)" for v r r' k
    by (auto simp: ToolRegistry_register_def ToolRegistry_get_def split: if_splits)
  show "tool_registry_wf r \<Longrightarrow> ToolRegistry_register v r = Inr r' \<Longrightarrow> tool_registry_wf r'" for v r r'
    by (rule tool_registry_wf_register)
  show "tool_registry_wf r \<Longrightarrow> ToolRegistry_get r k = Some v \<Longrightarrow> td_tool_id v = k" for r k v
    by (simp add: tool_registry_wf_def ToolRegistry_get_def)
qed

lemma match_pattern_registered:
  assumes "tool_registry_wf r" "t \<in> set (match_pattern r p)"
  shows "ToolRegistry_get r (td_tool_id t) = Some t"
proof -
  from assms(2) obtain k where k: "(k, t) \<in> set (tg_tools r)"
    by (auto simp: match_pattern_def dict_values_def)
  then have "dict_get (tg_tools r) k = Some t"
    using assms(1) by (auto simp: tool_registry_wf_def intro: dict_wf_get)
  with assms(1) show ?thesis by (auto simp: tool_registry_wf_def ToolRegistry_get_def)
qed

section \<open>What a pattern matches\<close>

text \<open>The glob read directly: a dot followed by a star is a dot and a wildcard, the rest is literal.\<close>

fun glob_items :: "string \<Rightarrow> re_item list" where
  "glob_items [] = []"
| "glob_items [c] = [Lit c]"
| "glob_items (c # d # r) =
     (if c = CHR ''.'' \<and> d = CHR ''*'' then Lit c # AnyStar # glob_items r else Lit c # glob_items (d # r))"

abbreviation esc1 :: string where "esc1 \<equiv> [CHR 0x5C, CHR ''.'', CHR 0x5C, CHR ''*'']"
abbreviation esc2 :: string where "esc2 \<equiv> [CHR 0x5C, CHR ''.'', CHR ''.'', CHR ''*'']"

lemma re_escape_simps [simp]:
  "re_escape [] = []"
  "re_escape (c # r) = (if c \<in> set re_special then CHR 0x5C # c # re_escape r else c # re_escape r)"
  by (simp_all add: re_escape_def)

lemma re_escape_not_dot: "re_escape r \<noteq> [] \<Longrightarrow> hd (re_escape r) \<noteq> CHR ''.''"
  by (cases r) (auto simp: re_special_def)

lemma str_replace_Nil [simp]: "str_replace old new [] = []"
  by (simp add: str_replace.simps)

lemma str_replace_skip: "\<not> prefix old (c # cs) \<Longrightarrow> str_replace old new (c # cs) = c # str_replace old new cs"
  by (simp add: str_replace.simps [of old new "c # cs"])

lemma str_replace_hit: "old \<noteq> [] \<Longrightarrow> str_replace old new (old @ cs) = new @ str_replace old new cs"
  by (cases old) (simp_all add: str_replace.simps [of old new "old @ cs"] str_replace.simps)

lemma str_replace_special:
  assumes "c \<in> set re_special" "\<not> (c = CHR ''.'' \<and> prefix [CHR 0x5C, CHR ''*''] (re_escape r))"
  shows "str_replace esc1 new (CHR 0x5C # c # re_escape r) = CHR 0x5C # c # str_replace esc1 new (re_escape r)"
proof -
  have 1: "\<not> prefix esc1 (CHR 0x5C # c # re_escape r)" using assms(2) by auto
  have 2: "\<not> prefix esc1 (c # re_escape r)"
    using re_escape_not_dot [of r] by (cases "re_escape r") auto
  show ?thesis using str_replace_skip [OF 1] str_replace_skip [OF 2] by simp
qed

lemma re_escape_star: "prefix [CHR 0x5C, CHR ''*''] (re_escape r) \<longleftrightarrow> (\<exists>r'. r = CHR ''*'' # r')"
  by (cases r) (auto simp: re_special_def)

lemma re_parse_pattern_body: "re_parse (str_replace esc1 esc2 (re_escape p) @ ''$'') = glob_items p @ [EndText]"
proof (induction p rule: glob_items.induct)
  case 1
  then show ?case by simp
next
  case (2 c)
  show ?case
  proof (cases "c \<in> set re_special")
    case True
    then have "str_replace esc1 esc2 (re_escape [c]) = [CHR 0x5C, c]"
      using str_replace_special [of c "[]" esc2] by (simp add: prefix_def)
    then show ?thesis by simp
  next
    case False
    then have "str_replace esc1 esc2 (re_escape [c]) = [c]"
      by (auto simp: str_replace_skip re_special_def)
    with False show ?thesis by (auto simp: re_special_def)
  qed
next
  case (3 c d r)
  show ?case
  proof (cases "c = CHR ''.'' \<and> d = CHR ''*''")
    case True
    then have "re_escape (c # d # r) = esc1 @ re_escape r" by (simp add: re_special_def)
    then have "str_replace esc1 esc2 (re_escape (c # d # r)) = esc2 @ str_replace esc1 esc2 (re_escape r)"
      using str_replace_hit [of esc1 esc2 "re_escape r"] by simp
    with "3.IH"(1) True show ?thesis by simp
  next
    case False
    note IH = "3.IH"(2) [OF False]
    show ?thesis
    proof (cases "c \<in> set re_special")
      case True
      have "\<not> (c = CHR ''.'' \<and> prefix [CHR 0x5C, CHR ''*''] (re_escape (d # r)))"
        using False by (auto simp: re_special_def split: if_splits)
      from str_replace_special [OF True this, of esc2] True False IH show ?thesis
        by (auto simp del: re_escape_simps(2) simp add: re_escape_simps(2) [of c])
    next
      case nsp: False
      then have "\<not> prefix esc1 (c # re_escape (d # r))" by (auto simp: re_special_def)
      then have "str_replace esc1 esc2 (re_escape (c # d # r)) = c # str_replace esc1 esc2 (re_escape (d # r))"
        using nsp str_replace_skip by simp
      with nsp IH False show ?thesis by (auto simp: re_special_def simp del: re_escape_simps(2))
    qed
  qed
qed

lemma re_match_pattern: "re_match (pattern_regex p) s \<longleftrightarrow> re_match_items (glob_items p @ [EndText]) True s"
  unfolding re_match_def pattern_regex_def Let_def
  using re_parse_pattern_body [of p] by simp

text \<open>No wildcard: exactly the identifier itself (or the identifier and a final newline).\<close>

definition no_wildcard :: "string \<Rightarrow> bool" where
  "no_wildcard p = (\<not> sublist ''.*'' p)"

lemma glob_items_literal: "no_wildcard p \<Longrightarrow> glob_items p = map Lit p"
proof (induction p rule: glob_items.induct)
  case (3 c d r)
  then have "\<not> (c = CHR ''.'' \<and> d = CHR ''*'')" and "no_wildcard (d # r)"
    by (auto simp: no_wildcard_def sublist_Cons_right)
  with "3.IH"(2) show ?case by auto
qed simp_all

lemma re_match_literal:
  "re_match_items (map Lit p @ rest) start s \<longleftrightarrow>
     (\<exists>s'. s = p @ s' \<and> re_match_items rest (start \<and> p = []) s')"
  by (induction p arbitrary: start s) (auto split: list.splits)

lemma match_literal_iff:
  "no_wildcard p \<Longrightarrow> re_match (pattern_regex p) s \<longleftrightarrow> s = p \<or> s = p @ [CHR 0x0A]"
  by (auto simp: re_match_pattern glob_items_literal re_match_literal)

lemma re_match_anystar_end:
  "re_match_items [AnyStar, EndText] start s \<longleftrightarrow>
     (\<exists>x. CHR 0x0A \<notin> set x \<and> (s = x \<or> s = x @ [CHR 0x0A]))"
proof (induction s arbitrary: start)
  case Nil
  then show ?case by auto
next
  case (Cons c s)
  show ?case (is "?l \<longleftrightarrow> ?r")
  proof
    assume ?l
    then consider "c # s = [CHR 0x0A]" | "c \<noteq> CHR 0x0A" "re_match_items [AnyStar, EndText] False s"
      by (auto split: list.splits)
    then show ?r
    proof cases
      case 1
      then show ?thesis by (intro exI [of _ "[]"]) auto
    next
      case 2
      then obtain x where "CHR 0x0A \<notin> set x" "s = x \<or> s = x @ [CHR 0x0A]" using Cons.IH by blast
      with 2(1) show ?thesis by (intro exI [of _ "c # x"]) auto
    qed
  next
    assume ?r
    then obtain x where x: "CHR 0x0A \<notin> set x" "c # s = x \<or> c # s = x @ [CHR 0x0A]" by blast
    show ?l
    proof (cases x)
      case Nil
      with x show ?thesis by simp
    next
      case (Cons d y)
      with x have "c \<noteq> CHR 0x0A" "\<exists>x. CHR 0x0A \<notin> set x \<and> (s = x \<or> s = x @ [CHR 0x0A])" by auto
      with Cons.IH [of False] show ?thesis by simp
    qed
  qed
qed

lemma glob_items_wild: "no_wildcard p \<Longrightarrow> glob_items (p @ ''.*'') = map Lit p @ [Lit (CHR ''.''), AnyStar]"
proof (induction p rule: glob_items.induct)
  case (3 c d r)
  then have "\<not> (c = CHR ''.'' \<and> d = CHR ''*'')" and "no_wildcard (d # r)"
    by (auto simp: no_wildcard_def sublist_Cons_right)
  with "3.IH"(2) show ?case by auto
qed simp_all

lemma match_prefix_iff:
  assumes "no_wildcard p"
  shows "re_match (pattern_regex (p @ ''.*'')) s \<longleftrightarrow>
     (\<exists>x. CHR 0x0A \<notin> set x \<and> (s = p @ ''.'' @ x \<or> s = p @ ''.'' @ x @ [CHR 0x0A]))"
proof -
  have "re_match (pattern_regex (p @ ''.*'')) s \<longleftrightarrow>
      re_match_items (map Lit (p @ ''.'') @ [AnyStar, EndText]) True s"
    by (simp add: re_match_pattern glob_items_wild [OF assms])
  also have "\<dots> \<longleftrightarrow> (\<exists>s'. s = p @ ''.'' @ s' \<and> re_match_items [AnyStar, EndText] False s')"
    unfolding re_match_literal by simp
  also have "\<dots> \<longleftrightarrow> (\<exists>x. CHR 0x0A \<notin> set x \<and> (s = p @ ''.'' @ x \<or> s = p @ ''.'' @ x @ [CHR 0x0A]))"
    unfolding re_match_anystar_end by auto
  finally show ?thesis .
qed

end
