(* ===== verification/Kernel_Properties.thy ===== *)
theory Kernel_Properties
  imports Kernel_State Quotas Events Tool_Registry Isolation
begin

text \<open>
  Theorems about the kernel's single components: the execution state machine, the quota manager and
  its rate limiter, the event publisher and the tool registry's patterns.
\<close>

section \<open>Execution states\<close>

lemma exec_reaches_order:
  "exec_reaches s n t \<Longrightarrow> s = ES_CREATED \<Longrightarrow>
     (t = ES_CREATED \<longrightarrow> n = 0) \<and> (t = ES_VALIDATING \<longrightarrow> n = 1) \<and> (t = ES_AUTHORIZED \<longrightarrow> n = 2) \<and>
     (t = ES_EXECUTING \<longrightarrow> n = 3) \<and> (t = ES_CHECKPOINTING \<longrightarrow> n = 4) \<and> (t = ES_COMPLETED \<longrightarrow> n = 5)"
proof (induction rule: exec_reaches.induct)
  case (there s n t u)
  from there(2) there(3) [OF there(4)] show ?case by (cases rule: exec_step.cases) auto
qed simp

text \<open>
  The execution state machine is bounded and ends only in a terminal state: a run from
  CREATED takes at most five transitions, reaches COMPLETED only through all five states in order,
  and can be continued exactly when its state is not COMPLETED, FAILED or HALTED.
\<close>

lemma execution_runs_bounded:
  assumes "exec_reaches ES_CREATED n s"
  shows "n \<le> 5 \<and> (s = ES_COMPLETED \<longrightarrow> n = 5) \<and>
     ((\<exists>t. is_valid_transition s t) \<longleftrightarrow> s \<notin> {ES_COMPLETED, ES_FAILED, ES_HALTED})"
proof -
  have "n \<le> 5" using exec_reaches_rank [OF assms] by simp
  moreover have "s = ES_COMPLETED \<longrightarrow> n = 5" using exec_reaches_order [OF assms] by simp
  moreover have "(\<exists>t. is_valid_transition s t) \<longleftrightarrow> s \<notin> {ES_COMPLETED, ES_FAILED, ES_HALTED}"
    by (cases s) auto
  ultimately show ?thesis by blast
qed

lemma execution_runs_bounded_witness:
  "exec_reaches ES_CREATED 2 ES_AUTHORIZED \<and> (\<exists>t. is_valid_transition ES_AUTHORIZED t)"
proof -
  have "exec_reaches ES_CREATED (Suc (Suc 0)) ES_AUTHORIZED"
    by (rule exec_reaches.intros exec_step.intros)+
  then have r: "exec_reaches ES_CREATED 2 ES_AUTHORIZED" by (simp add: numeral_2_eq_2)
  from execution_runs_bounded [OF r] r show ?thesis by simp
qed

text \<open>
  Halting: every non-terminal state but CREATED may be halted, and from CREATED the safe
  transition to HALTED silently stays in CREATED; terminal states are never left.
\<close>

lemma created_cannot_halt:
  "transition_safe ES_CREATED ES_HALTED = ES_CREATED \<and>
   (is_valid_transition s ES_HALTED \<longleftrightarrow> \<not> is_terminal s \<and> s \<noteq> ES_CREATED) \<and>
   (is_terminal s \<longrightarrow> transition_safe s t = s)"
  using transition_safe_terminal [of s t]
  by (cases s) (simp_all add: is_terminal_iff transition_safe_def)

lemma created_cannot_halt_witness: "transition_safe ES_FAILED ES_HALTED = ES_FAILED"
  using created_cannot_halt [of ES_FAILED ES_HALTED] by (simp add: is_terminal_iff)

section \<open>Quotas\<close>

lemma refill_idem: "bucket_wf b \<Longrightarrow> tb_last_refill b = t \<Longrightarrow> refill t b = b"
  by (simp add: bucket_wf_def refill_def Let_def)

lemma consume_run_refilled:
  assumes "limiter_wf l" "tb_last_refill (bucket_of l tid t) \<le> t"
  defines "l' \<equiv> l\<lparr>rl_buckets := dict_set tid (refill t (bucket_of l tid t)) (rl_buckets l)\<rparr>"
  shows "fst (consume_run tid (t # ts) l) = fst (consume_run tid (t # ts) l')"
    and "limiter_wf l'" and "bucket_of l' tid x = refill t (bucket_of l tid t)"
proof -
  let ?b = "bucket_of l tid t"
  have b: "bucket_wf ?b" "tb_max_tokens ?b = rl_max_tokens l" "tb_refill_rate ?b = rl_refill_rate l"
    using limiter_wf_bucket [OF assms(1)] by auto
  have rb: "bucket_wf (refill t ?b)" by (rule refill_wf [OF b(1) assms(2)])
  show bo: "bucket_of l' tid x = refill t ?b" for x by (simp add: l'_def bucket_of_def get_bucket_def)
  show "limiter_wf l'"
    using assms(1) rb b by (auto simp: limiter_wf_def l'_def refill_def Let_def)
  have idem: "refill t (refill t ?b) = refill t ?b"
    by (rule refill_idem [OF rb]) (simp add: refill_def Let_def)
  have set2: "dict_set k v (dict_set k u d) = dict_set k v d" for k :: string and u v :: TokenBucket and d
    unfolding dict_set_def by (induction d) auto
  have "consume tid 1 t t l = consume tid 1 t t l'"
    unfolding consume_eq bo idem Let_def
    by (auto simp: l'_def get_bucket_def set2 Let_def split: option.splits)
  then show "fst (consume_run tid (t # ts) l) = fst (consume_run tid (t # ts) l')" by simp
qed

text \<open>
  Property C31. The rate limit holds over every window: of any sequence of a tenant's calls at
  non-decreasing times, at most the bucket's capacity plus the refill rate times the length of the
  window are let through, whatever happened before.
\<close>

theorem rate_limit_window:
  assumes "limiter_wf l" "sorted (t # ts)" "tb_last_refill (bucket_of l tid t) \<le> t"
  shows "of_nat (fst (consume_run tid (t # ts) l)) \<le> rl_max_tokens l + rl_refill_rate l * (last (t # ts) - t)"
proof -
  define l' where "l' = l\<lparr>rl_buckets := dict_set tid (refill t (bucket_of l tid t)) (rl_buckets l)\<rparr>"
  note re = consume_run_refilled [OF assms(1,3), folded l'_def]
  have last: "tb_last_refill (refill t (bucket_of l tid t)) = t" by (simp add: refill_def Let_def)
  have cap: "tb_tokens (refill t (bucket_of l tid t)) \<le> rl_max_tokens l"
    using limiter_wf_bucket [OF assms(1), of tid t] by (simp add: refill_def Let_def)
  have "of_nat (fst (consume_run tid (t # ts) l')) \<le>
      tb_tokens (bucket_of l' tid t) + rl_refill_rate l' * (last (tb_last_refill (bucket_of l' tid t) # t # ts) -
        tb_last_refill (bucket_of l' tid t))"
    by (rule consume_run_balance [OF re(2) assms(2)]) (use assms(2) last in \<open>auto simp: re(3)\<close>)
  then show ?thesis using re(1,3) cap last by (simp add: l'_def)
qed

theorem rate_limit_window_witness:
  "of_nat (fst (consume_run ''t'' (0 # replicate 3 1) \<lparr>rl_max_tokens = 2, rl_refill_rate = 1, rl_buckets = []\<rparr>)) \<le> (3 :: rat)"
proof -
  have "limiter_wf \<lparr>rl_max_tokens = 2, rl_refill_rate = 1, rl_buckets = []\<rparr>" by (simp add: limiter_wf_def)
  from rate_limit_window [OF this, of 0 "replicate 3 1" "''t''"] show ?thesis
    by (simp add: bucket_of_def get_bucket_def Let_def numeral_3_eq_3)
qed

text \<open>
  The concurrency quota: an execution started after a positive check never takes the
  tenant above its configured maximum; ending it frees exactly its slot, other tenants' slots are
  never affected, and ending an unknown execution changes nothing.
\<close>

lemma concurrency_quota:
  assumes "quota_wf q" "check_concurrent q tid"
  shows "int (concurrent_count (Quota_start_execution tid eid q) tid) \<le> qc_max_concurrent (get_config q tid) \<and>
     running (Quota_end_execution tid eid (Quota_start_execution tid eid q)) tid = running q tid - {eid} \<and>
     (\<forall>other. other \<noteq> tid \<longrightarrow> running (Quota_start_execution tid eid q) other = running q other \<and>
        running (Quota_end_execution tid eid q) other = running q other) \<and>
     (eid \<notin> running q tid \<longrightarrow> running (Quota_end_execution tid eid q) tid = running q tid)"
proof -
  have fin: "finite (running q tid)" using assms(1) by (simp add: quota_wf_def)
  have "concurrent_count (Quota_start_execution tid eid q) tid = card (insert eid (running q tid))"
    using running_start [of tid eid q tid] by (simp add: concurrent_count_def running_def)
  moreover have "card (insert eid (running q tid)) \<le> Suc (card (running q tid))" by (rule card_insert_le_m1) simp_all
  ultimately show ?thesis using assms(2) fin by (auto simp: check_concurrent_iff)
qed

lemma concurrency_quota_witness:
  "int (concurrent_count (Quota_start_execution ''t'' ''e'' (QuotaManager_init None)) ''t'') \<le> 5"
proof -
  have "quota_wf (QuotaManager_init None)" "check_concurrent (QuotaManager_init None) ''t''"
    by (simp_all add: quota_wf_def running_def QuotaManager_init_def dict_get_or_def check_concurrent_def get_config_def
        default_TenantQuotaConfig_def)
  from concurrency_quota [OF this] show ?thesis
    by (simp add: get_config_def QuotaManager_init_def dict_get_or_def default_TenantQuotaConfig_def)
qed

section \<open>Events\<close>

text \<open>
  Publishing respects tenants: an event is appended once to the queue of every subscriber
  of its execution whose tenant is the event's (or where one of the two names no tenant), and no
  other queue changes; a subscriber of another tenant receives nothing.
\<close>

lemma publish_respects_tenants:
  assumes "publisher_wf p"
  shows "pb_queues (publish e p) q = pb_queues p q @
     (if \<exists>t. (q, t) \<in> set (subs p (ev_execution_id e)) \<and> (t = [] \<or> ev_tenant_id e = [] \<or> t = ev_tenant_id e)
      then [QEvent (event_to_dict e)] else []) \<and>
     subs (publish e p) = subs p"
proof -
  have "subs (publish e p) = subs p" by (simp add: fun_eq_iff subs_def publish_def fold_put_frame)
  then show ?thesis using publish_queues [OF assms] by simp
qed

lemma publish_respects_tenants_witness:
  "pb_queues (publish \<lparr>ev_event_id = ''1'', ev_execution_id = ''x'', ev_tenant_id = ''t1'', ev_agent_id = None,
       ev_event_type = StrType ''s'', ev_payload = [], ev_created_at = 0, ev_schema_version = ''1.0''\<rparr>
     (snd (subscribe ''x'' ''t2'' InMemoryEventPublisher_init))) 0 = []"
proof -
  have "publisher_wf InMemoryEventPublisher_init"
    by (simp add: publisher_wf_def InMemoryEventPublisher_init_def subs_def dict_get_or_def)
  from publish_respects_tenants [OF publisher_wf_subscribe [OF this, of "''x''" "''t2''"]] show ?thesis
    by (simp add: InMemoryEventPublisher_init_def subs_def dict_get_or_def subscribe_def Let_def dict_get_def dict_set_def)
qed

section \<open>Tool patterns\<close>

text \<open>
  What a tool pattern matches: the regular expression that \<^verbatim>\<open>match_pattern\<close> builds by
  escaping and textual replacement behaves as intended. A pattern without \<^verbatim>\<open>.*\<close> matches exactly itself,
  and \<^verbatim>\<open>p.*\<close> matches exactly the identifiers that begin with \<^verbatim>\<open>p.\<close>, each up to one final newline; only
  registered tools are returned.
\<close>

lemma match_pattern_meaning:
  assumes "no_wildcard p" "tool_registry_wf r"
  shows "(t \<in> set (match_pattern r p) \<longleftrightarrow>
            ToolRegistry_get r (td_tool_id t) = Some t \<and> td_tool_id t \<in> {p, p @ [CHR 0x0A]}) \<and>
         (t \<in> set (match_pattern r (p @ ''.*'')) \<longleftrightarrow>
            ToolRegistry_get r (td_tool_id t) = Some t \<and>
            (\<exists>x. CHR 0x0A \<notin> set x \<and> td_tool_id t \<in> {p @ ''.'' @ x, p @ ''.'' @ x @ [CHR 0x0A]}))"
proof -
  have mem: "t \<in> set (match_pattern r q) \<longleftrightarrow> ToolRegistry_get r (td_tool_id t) = Some t \<and> re_match (pattern_regex q) (td_tool_id t)" for q
  proof
    assume "t \<in> set (match_pattern r q)"
    then show "ToolRegistry_get r (td_tool_id t) = Some t \<and> re_match (pattern_regex q) (td_tool_id t)"
      using match_pattern_registered [OF assms(2)] by (auto simp: match_pattern_def)
  next
    assume "ToolRegistry_get r (td_tool_id t) = Some t \<and> re_match (pattern_regex q) (td_tool_id t)"
    then show "t \<in> set (match_pattern r q)"
      by (auto simp: match_pattern_def ToolRegistry_get_def dict_values_def image_iff dest!: dict_get_SomeD) force
  qed
  show ?thesis
    unfolding mem match_literal_iff [OF assms(1)] match_prefix_iff [OF assms(1)] by auto
qed

definition drop_tool :: ToolDefinition where
  "drop_tool = \<lparr>td_tool_id = ''db.drop'', td_mcp_server = ''srv'', td_description = [], td_input_schema = [],
     td_output_schema = [], td_required_capabilities = {}, td_tags = {}, td_metadata = []\<rparr>"

lemma drop_tool_registered: "ToolRegistry_register drop_tool ToolRegistry_init = Inr \<lparr>tg_tools = [(''db.drop'', drop_tool)]\<rparr>"
  by (simp add: ToolRegistry_register_def ToolRegistry_init_def drop_tool_def ToolDefinition_is_valid_def
      ToolDefinition_validate_def require_def dict_set_def dict_has_def dict_get_def)

lemma match_pattern_meaning_witness:
  "drop_tool \<in> set (match_pattern \<lparr>tg_tools = [(''db.drop'', drop_tool)]\<rparr> ''db.*'') \<and>
   drop_tool \<notin> set (match_pattern \<lparr>tg_tools = [(''db.drop'', drop_tool)]\<rparr> ''db'')"
proof -
  have plain: "no_wildcard ''db''" by (simp add: no_wildcard_def sublist_Cons_right)
  have "ToolRegistry_get \<lparr>tg_tools = [(''db.drop'', drop_tool)]\<rparr> ''db.drop'' = Some drop_tool" "td_tool_id drop_tool = ''db.drop''"
    by (simp_all add: ToolRegistry_get_def dict_get_def drop_tool_def)
  then show ?thesis
    using match_pattern_meaning [OF plain tool_registry_wf_register [OF tool_registry_wf_init drop_tool_registered], of drop_tool]
    by (auto intro!: exI [of _ "''drop''"])
qed

end
