(* ===== verification/Gateway.thy ===== *)
theory Gateway
  imports Abi Observability Events Tool_Registry
begin

text \<open>
  \<^verbatim>\<open>kernel/gateway.py\<close>: \<^verbatim>\<open>MCPToolGateway\<close>, and \<^verbatim>\<open>control_plane/adapters/to_kernel/router.py\<close>:
  \<^verbatim>\<open>SimpleIntentRouter\<close>. An MCP client is foreign code: its \<^verbatim>\<open>call_tool\<close> is a stored function over a
  foreign state \<open>'m\<close> that returns a dictionary or raises.
\<close>

section \<open>State\<close>

type_synonym 'm client = "string \<Rightarrow> pyobj \<Rightarrow> (pyobj, 'm) call"

record GatewayAuditEntry =
  ga_timestamp :: time
  ga_tool_id :: string
  ga_mcp_server :: string
  ga_agent_id :: string
  ga_success :: bool
  ga_error :: "string option"
  ga_duration_ms :: rat

definition GatewayAuditEntry_to_dict :: "GatewayAuditEntry \<Rightarrow> pyobj" where
  "GatewayAuditEntry_to_dict e =
     [(''timestamp'', PyStr (isoformat (ga_timestamp e))),
      (''tool_id'', PyStr (ga_tool_id e)),
      (''mcp_server'', PyStr (ga_mcp_server e)),
      (''agent_id'', PyStr (ga_agent_id e)),
      (''success'', PyBool (ga_success e)),
      (''error'', py_opt_str (ga_error e)),
      (''duration_ms'', PyFloat (ga_duration_ms e))]"

record 'm gateway =
  gw_registry :: ToolRegistry
  gw_clients :: "(string, 'm client) dict"
  gw_audit_log :: "GatewayAuditEntry list"
  gw_event_log :: "EventLog option"
  gw_logger :: "RuntimeLogger option"
  gw_log :: "LogRecord list"
  gw_metrics :: "MetricsRegistry option"
  gw_mcp :: 'm

definition gateway_init ::
  "ToolRegistry \<Rightarrow> (string, 'm client) dict \<Rightarrow> RuntimeLogger option \<Rightarrow> MetricsRegistry option \<Rightarrow> 'm \<Rightarrow> 'm gateway" where
  "gateway_init registry clients logger metrics m =
     \<lparr>gw_registry = registry, gw_clients = clients, gw_audit_log = [], gw_event_log = None,
      gw_logger = logger, gw_log = [], gw_metrics = metrics, gw_mcp = m\<rparr>"

definition set_event_log :: "EventLog \<Rightarrow> 'm gateway \<Rightarrow> 'm gateway" where
  "set_event_log el g = g\<lparr>gw_event_log := Some el\<rparr>"

definition register_client :: "string \<Rightarrow> 'm client \<Rightarrow> 'm gateway \<Rightarrow> 'm gateway" where
  "register_client server_id client g = g\<lparr>gw_clients := dict_set server_id client (gw_clients g)\<rparr>"

section \<open>Access\<close>

definition gateway_log :: "LogLevel \<Rightarrow> string \<Rightarrow> pyobj \<Rightarrow> 'm gateway \<Rightarrow> 'm gateway" where
  "gateway_log level message extra g =
     (case gw_logger g of None \<Rightarrow> g
      | Some lg \<Rightarrow> g\<lparr>gw_log := logger_log lg level message [] extra (gw_log g)\<rparr>)"

definition gateway_incr :: "string \<Rightarrow> 'm gateway \<Rightarrow> 'm gateway" where
  "gateway_incr metric g = g\<lparr>gw_metrics := map_option (increment metric) (gw_metrics g)\<rparr>"

text \<open>The readings of the clock during one access, in program order.\<close>

record GatewayClock =
  gc_start :: time
  gc_audit :: time
  gc_event :: time
  gc_end :: time

definition record_audit ::
  "GatewayClock \<Rightarrow> string \<Rightarrow> string \<Rightarrow> string \<Rightarrow> bool \<Rightarrow> string option \<Rightarrow> 'm gateway \<Rightarrow> 'm gateway" where
  "record_audit clk tool_id mcp_server agent_id success err g =
     (let elapsed = (gc_audit clk - gc_start clk) * 1000;
          entry = \<lparr>ga_timestamp = gc_start clk, ga_tool_id = tool_id, ga_mcp_server = mcp_server,
                   ga_agent_id = agent_id, ga_success = success, ga_error = err, ga_duration_ms = round2 elapsed\<rparr>
      in g\<lparr>gw_audit_log := gw_audit_log g @ [entry],
           gw_event_log := map_option (emit GATEWAY_ACCESSED (ExecutionState_value ES_EXECUTING)
             [(''tool'', PyStr tool_id), (''mcp_server'', PyStr mcp_server), (''agent_id'', PyStr agent_id),
              (''success'', PyBool success), (''duration_ms'', PyFloat (ga_duration_ms entry))]
             err (gc_event clk)) (gw_event_log g)\<rparr>)"

definition access_refused ::
  "GatewayClock \<Rightarrow> ExecutionPath \<Rightarrow> Intent \<Rightarrow> string \<Rightarrow> string \<Rightarrow> LogLevel \<Rightarrow> string \<Rightarrow> pyobj \<Rightarrow> string \<Rightarrow>
   'm gateway \<Rightarrow> (exn + ToolResult) \<times> 'm gateway" where
  "access_refused clk path intent server err level message extra metric g =
     (Inl (GatewayAccessError (xp_tool path) err),
      gateway_incr metric (gateway_log level message extra
        (record_audit clk (xp_tool path) server (in_agent_id intent) False (Some err) g)))"

definition gateway_access_tool ::
  "GatewayClock \<Rightarrow> ExecutionPath \<Rightarrow> Intent \<Rightarrow> (ToolResult, 'm gateway) call" where
  "gateway_access_tool clk path intent g =
     (case ToolRegistry_get (gw_registry g) (xp_tool path) of
        None \<Rightarrow>
          access_refused clk path intent [] (''Tool not registered: '' @ xp_tool path) LOG_WARNING ''Tool not registered''
            [(''tool'', PyStr (xp_tool path)), (''agent_id'', PyStr (in_agent_id intent))]
            ''gateway.tool.registry_miss'' g
      | Some tool_def \<Rightarrow>
          (case dict_get (gw_clients g) (td_mcp_server tool_def) of
             None \<Rightarrow>
               access_refused clk path intent (td_mcp_server tool_def)
                 (''No MCP client for server: '' @ td_mcp_server tool_def) LOG_WARNING ''No MCP client for server''
                 [(''tool'', PyStr (xp_tool path)), (''mcp_server'', PyStr (td_mcp_server tool_def))]
                 ''gateway.tool.client_miss'' g
           | Some client \<Rightarrow>
               (case client (xp_tool path) (xp_parameters path) (gw_mcp g) of
                  (Inl e, m) \<Rightarrow>
                    access_refused clk path intent (td_mcp_server tool_def) (''MCP call failed: '' @ exc_str e)
                      LOG_ERROR ''MCP call failed''
                      [(''tool'', PyStr (xp_tool path)), (''mcp_server'', PyStr (td_mcp_server tool_def)),
                       (''error'', PyStr (exc_str e))]
                      ''gateway.tool.mcp_failure'' (g\<lparr>gw_mcp := m\<rparr>)
                | (Inr data, m) \<Rightarrow>
                    let g1 = record_audit clk (xp_tool path) (td_mcp_server tool_def) (in_agent_id intent) True None
                               (g\<lparr>gw_mcp := m\<rparr>);
                        elapsed = (gc_end clk - gc_start clk) * 1000;
                        g2 = gateway_log LOG_INFO ''Tool access successful''
                               [(''tool'', PyStr (xp_tool path)), (''mcp_server'', PyStr (td_mcp_server tool_def)),
                                (''tool_id'', PyStr (xp_tool path))] g1;
                        g3 = gateway_incr ''gateway.tool.success'' g2
                    in (Inr \<lparr>tl_success = True, tl_data = data, tl_error = None\<rparr>,
                        g3\<lparr>gw_metrics := map_option (metrics_record ''gateway.tool.duration_ms'' (round2 elapsed))
                             (gw_metrics g3)\<rparr>))))"

definition get_audit_log :: "'m gateway \<Rightarrow> pyobj list" where
  "get_audit_log g = map GatewayAuditEntry_to_dict (gw_audit_log g)"

section \<open>The router\<close>

definition execution_path :: "ToolDefinition \<Rightarrow> Intent \<Rightarrow> ExecutionPath" where
  "execution_path tool intent =
     \<lparr>xp_tool = td_tool_id tool, xp_adapter = td_mcp_server tool, xp_parameters = in_parameters intent\<rparr>"

definition SimpleIntentRouter_route_intent :: "ToolRegistry \<Rightarrow> Intent \<Rightarrow> exn + ExecutionPath" where
  "SimpleIntentRouter_route_intent registry intent =
     (case ToolRegistry_get registry (in_action intent) of
        Some exact \<Rightarrow> Inr (execution_path exact intent)
      | None \<Rightarrow>
          (case match_pattern registry (in_action intent) of
             [] \<Rightarrow> Inl (OrchestrationError (''No tool found for action '' @ sq (in_action intent)))
           | [tool] \<Rightarrow> Inr (execution_path tool intent)
           | matches \<Rightarrow>
               Inl (OrchestrationError (''Ambiguous action '' @ sq (in_action intent) @ '' matches multiple tools: '' @
                 list_repr (map td_tool_id matches)))))"

section \<open>Lemmas\<close>

lemma gateway_observe [simp]:
  "gw_registry (gateway_log lv msg ex g) = gw_registry g" "gw_clients (gateway_log lv msg ex g) = gw_clients g"
  "gw_audit_log (gateway_log lv msg ex g) = gw_audit_log g" "gw_event_log (gateway_log lv msg ex g) = gw_event_log g"
  "gw_mcp (gateway_log lv msg ex g) = gw_mcp g"
  "gw_registry (gateway_incr k g) = gw_registry g" "gw_clients (gateway_incr k g) = gw_clients g"
  "gw_audit_log (gateway_incr k g) = gw_audit_log g" "gw_event_log (gateway_incr k g) = gw_event_log g"
  "gw_mcp (gateway_incr k g) = gw_mcp g"
  by (simp_all add: gateway_log_def gateway_incr_def split: option.splits)

lemma record_audit_fields [simp]:
  "gw_registry (record_audit clk t s a ok err g) = gw_registry g"
  "gw_clients (record_audit clk t s a ok err g) = gw_clients g"
  "gw_mcp (record_audit clk t s a ok err g) = gw_mcp g"
  "map (\<lambda>e. (ga_tool_id e, ga_agent_id e, ga_success e)) (gw_audit_log (record_audit clk t s a ok err g)) =
     map (\<lambda>e. (ga_tool_id e, ga_agent_id e, ga_success e)) (gw_audit_log g) @ [(t, a, ok)]"
  "map_option event_types (gw_event_log (record_audit clk t s a ok err g)) =
     map_option (\<lambda>el. event_types el @ [EnumType GATEWAY_ACCESSED]) (gw_event_log g)"
  by (simp_all add: record_audit_def Let_def option.map_comp comp_def)

lemma route_intent_registered:
  assumes "tool_registry_wf r" "SimpleIntentRouter_route_intent r intent = Inr path"
  shows "\<exists>tool. ToolRegistry_get r (xp_tool path) = Some tool \<and> path = execution_path tool intent"
proof (cases "ToolRegistry_get r (in_action intent)")
  case (Some t)
  then have "td_tool_id t = in_action intent" using tools.lookup_key [OF assms(1)] by blast
  with Some assms(2) show ?thesis by (auto simp: SimpleIntentRouter_route_intent_def execution_path_def)
next
  case None
  then obtain t where t: "match_pattern r (in_action intent) = [t]" "path = execution_path t intent"
    using assms(2) by (auto simp: SimpleIntentRouter_route_intent_def split: list.splits)
  from match_pattern_registered [OF assms(1), of t "in_action intent"] t show ?thesis
    by (simp add: execution_path_def)
qed

lemma access_refused_fields:
  "fst (access_refused clk path intent sv err lv msg ex k g) = Inl (GatewayAccessError (xp_tool path) err)"
  "gw_registry (snd (access_refused clk path intent sv err lv msg ex k g)) = gw_registry g"
  "gw_clients (snd (access_refused clk path intent sv err lv msg ex k g)) = gw_clients g"
  "gw_mcp (snd (access_refused clk path intent sv err lv msg ex k g)) = gw_mcp g"
  "map (\<lambda>e. (ga_tool_id e, ga_agent_id e, ga_success e)) (gw_audit_log (snd (access_refused clk path intent sv err lv msg ex k g))) =
     map (\<lambda>e. (ga_tool_id e, ga_agent_id e, ga_success e)) (gw_audit_log g) @ [(xp_tool path, in_agent_id intent, False)]"
  "map_option event_types (gw_event_log (snd (access_refused clk path intent sv err lv msg ex k g))) =
     map_option (\<lambda>el. event_types el @ [EnumType GATEWAY_ACCESSED]) (gw_event_log g)"
  by (simp_all add: access_refused_def)

text \<open>The three refusals and the success of an access, with what each leaves behind.\<close>

lemma gateway_access_cases:
  obtains (no_tool) "ToolRegistry_get (gw_registry g) (xp_tool path) = None"
      "\<exists>lv msg ex k. gateway_access_tool clk path intent g =
         access_refused clk path intent [] (''Tool not registered: '' @ xp_tool path) lv msg ex k g"
    | (no_client) tool where "ToolRegistry_get (gw_registry g) (xp_tool path) = Some tool"
      "dict_get (gw_clients g) (td_mcp_server tool) = None"
      "\<exists>lv msg ex k. gateway_access_tool clk path intent g =
         access_refused clk path intent (td_mcp_server tool) (''No MCP client for server: '' @ td_mcp_server tool) lv msg ex k g"
    | (call_failed) tool client e m where "ToolRegistry_get (gw_registry g) (xp_tool path) = Some tool"
      "dict_get (gw_clients g) (td_mcp_server tool) = Some client"
      "client (xp_tool path) (xp_parameters path) (gw_mcp g) = (Inl e, m)"
      "\<exists>lv msg ex k. gateway_access_tool clk path intent g =
         access_refused clk path intent (td_mcp_server tool) (''MCP call failed: '' @ exc_str e) lv msg ex k (g\<lparr>gw_mcp := m\<rparr>)"
    | (ok) tool client data m where "ToolRegistry_get (gw_registry g) (xp_tool path) = Some tool"
      "dict_get (gw_clients g) (td_mcp_server tool) = Some client"
      "client (xp_tool path) (xp_parameters path) (gw_mcp g) = (Inr data, m)"
      "fst (gateway_access_tool clk path intent g) = Inr \<lparr>tl_success = True, tl_data = data, tl_error = None\<rparr>"
      "gw_mcp (snd (gateway_access_tool clk path intent g)) = m"
      "gw_registry (snd (gateway_access_tool clk path intent g)) = gw_registry g"
      "gw_clients (snd (gateway_access_tool clk path intent g)) = gw_clients g"
      "map (\<lambda>e. (ga_tool_id e, ga_agent_id e, ga_success e)) (gw_audit_log (snd (gateway_access_tool clk path intent g))) =
         map (\<lambda>e. (ga_tool_id e, ga_agent_id e, ga_success e)) (gw_audit_log g) @ [(xp_tool path, in_agent_id intent, True)]"
      "map_option event_types (gw_event_log (snd (gateway_access_tool clk path intent g))) =
         map_option (\<lambda>el. event_types el @ [EnumType GATEWAY_ACCESSED]) (gw_event_log g)"
proof (cases "ToolRegistry_get (gw_registry g) (xp_tool path)")
  case None
  then show thesis by (rule no_tool) (auto simp: gateway_access_tool_def None)
next
  case t: (Some tool)
  show thesis
  proof (cases "dict_get (gw_clients g) (td_mcp_server tool)")
    case None
    with t show thesis by (rule no_client) (auto simp: gateway_access_tool_def t None)
  next
    case c: (Some client)
    obtain r m where r: "client (xp_tool path) (xp_parameters path) (gw_mcp g) = (r, m)" by fastforce
    show thesis
    proof (cases r)
      case (Inl e)
      show thesis
        by (rule call_failed [OF t c r [unfolded Inl]]) (auto simp: gateway_access_tool_def t c r Inl)
    next
      case (Inr data)
      show thesis
        by (rule ok [OF t c r [unfolded Inr]]) (simp_all add: gateway_access_tool_def t c r Inr Let_def)
    qed
  qed
qed

section \<open>Properties\<close>

text \<open>
  Property C27. Every tool access leaves exactly one audit entry, naming tool, agent and outcome, and
  one GATEWAY_ACCESSED event when an event log is attached. An access fails only because the tool is not registered,
  its server has no client or the client raises, with a \<^verbatim>\<open>GatewayAccessError\<close> for that tool that says which;
  otherwise it returns the data that the client of the tool's server gave for the path's parameters.
\<close>

theorem gateway_audits_every_access:
  "case gateway_access_tool clk path intent g of (r, g') \<Rightarrow>
     map (\<lambda>e. (ga_tool_id e, ga_agent_id e, ga_success e)) (gw_audit_log g') =
       map (\<lambda>e. (ga_tool_id e, ga_agent_id e, ga_success e)) (gw_audit_log g) @ [(xp_tool path, in_agent_id intent, \<not> isl r)] \<and>
     map_option event_types (gw_event_log g') =
       map_option (\<lambda>el. event_types el @ [EnumType GATEWAY_ACCESSED]) (gw_event_log g) \<and>
     gw_registry g' = gw_registry g \<and> gw_clients g' = gw_clients g \<and>
     (case r of
        Inl e \<Rightarrow> \<exists>reason. e = GatewayAccessError (xp_tool path) reason \<and>
          (case ToolRegistry_get (gw_registry g) (xp_tool path) of
             None \<Rightarrow> reason = ''Tool not registered: '' @ xp_tool path
           | Some tool \<Rightarrow>
               (case dict_get (gw_clients g) (td_mcp_server tool) of
                  None \<Rightarrow> reason = ''No MCP client for server: '' @ td_mcp_server tool
                | Some client \<Rightarrow> \<exists>x. client (xp_tool path) (xp_parameters path) (gw_mcp g) = (Inl x, gw_mcp g') \<and>
                    reason = ''MCP call failed: '' @ exc_str x))
      | Inr tr \<Rightarrow> tl_success tr \<and> tl_error tr = None \<and>
          (\<exists>tool client. ToolRegistry_get (gw_registry g) (xp_tool path) = Some tool \<and>
             dict_get (gw_clients g) (td_mcp_server tool) = Some client \<and>
             client (xp_tool path) (xp_parameters path) (gw_mcp g) = (Inr (tl_data tr), gw_mcp g')))"
proof (cases rule: gateway_access_cases [of g path clk intent])
  case no_tool
  then obtain lv msg ex k where eq: "gateway_access_tool clk path intent g =
      access_refused clk path intent [] (''Tool not registered: '' @ xp_tool path) lv msg ex k g" by blast
  show ?thesis unfolding eq split_beta by (simp add: access_refused_fields no_tool(1))
next
  case (no_client tool)
  then obtain lv msg ex k where eq: "gateway_access_tool clk path intent g =
      access_refused clk path intent (td_mcp_server tool) (''No MCP client for server: '' @ td_mcp_server tool) lv msg ex k g" by blast
  show ?thesis unfolding eq split_beta by (simp add: access_refused_fields no_client(1,2))
next
  case (call_failed tool client e m)
  then obtain lv msg ex k where eq: "gateway_access_tool clk path intent g =
      access_refused clk path intent (td_mcp_server tool) (''MCP call failed: '' @ exc_str e) lv msg ex k (g\<lparr>gw_mcp := m\<rparr>)" by blast
  show ?thesis unfolding eq split_beta by (simp add: access_refused_fields call_failed(1-3))
next
  case (ok tool client data m)
  then show ?thesis unfolding split_beta by simp
qed

text \<open>
  The gateway checks no capabilities: for a registered tool whose server has a client,
  the access succeeds with the client's data for every agent, also where the registry's own check
  \<^verbatim>\<open>validate_access\<close> would refuse an agent without capabilities because the tool requires some.
\<close>

lemma gateway_ignores_capabilities:
  assumes "ToolRegistry_get (gw_registry g) (xp_tool path) = Some tool"
    and "dict_get (gw_clients g) (td_mcp_server tool) = Some client"
    and "client (xp_tool path) (xp_parameters path) (gw_mcp g) = (Inr data, m)"
  shows "fst (gateway_access_tool clk path intent g) = Inr \<lparr>tl_success = True, tl_data = data, tl_error = None\<rparr> \<and>
     (isl (validate_access (gw_registry g) (xp_tool path) (Some {})) \<longleftrightarrow> td_required_capabilities tool \<noteq> {})"
  using assms
  by (auto simp: gateway_access_tool_def Let_def validate_access_def ToolRegistry_get_def)

definition sample_tool :: ToolDefinition where
  "sample_tool = \<lparr>td_tool_id = ''db.drop'', td_mcp_server = ''srv'', td_description = [], td_input_schema = [],
     td_output_schema = [], td_required_capabilities = {''admin''}, td_tags = {}, td_metadata = []\<rparr>"

definition sample_gateway :: "unit gateway" where
  "sample_gateway = gateway_init \<lparr>tg_tools = [(''db.drop'', sample_tool)]\<rparr> [(''srv'', \<lambda>t p m. (Inr [(''done'', PyBool True)], m))]
     None None ()"

lemma gateway_ignores_capabilities_witness:
  "fst (gateway_access_tool \<lparr>gc_start = 0, gc_audit = 0, gc_event = 0, gc_end = 0\<rparr>
     \<lparr>xp_tool = ''db.drop'', xp_adapter = ''srv'', xp_parameters = []\<rparr>
     \<lparr>in_agent_id = ''guest'', in_action = ''db.drop'', in_parameters = [], in_timestamp = 0\<rparr> sample_gateway) =
   Inr \<lparr>tl_success = True, tl_data = [(''done'', PyBool True)], tl_error = None\<rparr>"
  using gateway_ignores_capabilities [of sample_gateway "\<lparr>xp_tool = ''db.drop'', xp_adapter = ''srv'', xp_parameters = []\<rparr>" sample_tool
      "\<lambda>t p m. (Inr [(''done'', PyBool True)], m)" "[(''done'', PyBool True)]" "()"]
  by (simp add: sample_gateway_def gateway_init_def ToolRegistry_get_def dict_get_def sample_tool_def)

text \<open>
  The router is deterministic and safe: an action that is a registered tool's id is routed
  to that tool; any other action without a wildcard is refused, or names a tool whose id is the
  action and a final newline; and a route always leads to a registered tool of the same registry
  with the intent's parameters.
\<close>

lemma router_routes_to_registered_tool:
  assumes "tool_registry_wf r"
  shows "(\<forall>t. ToolRegistry_get r (in_action intent) = Some t \<longrightarrow>
            SimpleIntentRouter_route_intent r intent = Inr (execution_path t intent)) \<and>
         (\<forall>path. SimpleIntentRouter_route_intent r intent = Inr path \<longrightarrow>
            (\<exists>tool. ToolRegistry_get r (xp_tool path) = Some tool \<and> xp_adapter path = td_mcp_server tool \<and>
               xp_parameters path = in_parameters intent) \<and>
            (no_wildcard (in_action intent) \<longrightarrow>
               xp_tool path = in_action intent \<or> xp_tool path = in_action intent @ [CHR 0x0A]))"
proof (intro conjI allI impI)
  fix t assume "ToolRegistry_get r (in_action intent) = Some t"
  then show "SimpleIntentRouter_route_intent r intent = Inr (execution_path t intent)"
    by (simp add: SimpleIntentRouter_route_intent_def)
next
  fix path assume p: "SimpleIntentRouter_route_intent r intent = Inr path"
  from route_intent_registered [OF assms p]
  show "\<exists>tool. ToolRegistry_get r (xp_tool path) = Some tool \<and> xp_adapter path = td_mcp_server tool \<and>
      xp_parameters path = in_parameters intent"
    by (auto simp: execution_path_def)
  assume nw: "no_wildcard (in_action intent)"
  show "xp_tool path = in_action intent \<or> xp_tool path = in_action intent @ [CHR 0x0A]"
  proof (cases "ToolRegistry_get r (in_action intent)")
    case (Some t)
    then show ?thesis
      using p tools.lookup_key [OF assms Some] by (auto simp: SimpleIntentRouter_route_intent_def execution_path_def)
  next
    case None
    then obtain t where t: "match_pattern r (in_action intent) = [t]" "path = execution_path t intent"
      using p by (auto simp: SimpleIntentRouter_route_intent_def split: list.splits)
    then have "t \<in> set (match_pattern r (in_action intent))" by simp
    then have "re_match (pattern_regex (in_action intent)) (td_tool_id t)" by (simp add: match_pattern_def)
    with t(2) show ?thesis using match_literal_iff [OF nw] by (simp add: execution_path_def)
  qed
qed

lemma router_routes_to_registered_tool_witness:
  "SimpleIntentRouter_route_intent \<lparr>tg_tools = [(''db.drop'', sample_tool)]\<rparr>
     \<lparr>in_agent_id = ''a'', in_action = ''db.drop'', in_parameters = [], in_timestamp = 0\<rparr> =
   Inr \<lparr>xp_tool = ''db.drop'', xp_adapter = ''srv'', xp_parameters = []\<rparr>"
proof -
  have "tool_registry_wf \<lparr>tg_tools = [(''db.drop'', sample_tool)]\<rparr>"
    by (simp add: tool_registry_wf_def dict_wf_def dict_get_def sample_tool_def ToolDefinition_is_valid_def ToolDefinition_validate_def)
  from router_routes_to_registered_tool [OF this,
      of "\<lparr>in_agent_id = ''a'', in_action = ''db.drop'', in_parameters = [], in_timestamp = 0\<rparr>"]
  show ?thesis by (simp add: ToolRegistry_get_def dict_get_def execution_path_def sample_tool_def)
qed

end
