(* ===== verification/Json.thy ===== *)
theory Json
  imports Prelude
begin

text \<open>
  The JSON text the checkpoint store reads and writes: \<^verbatim>\<open>json.dumps(state, sort_keys=True)\<close> with its
  default separators and ASCII escapes, and \<^verbatim>\<open>json.loads\<close> for the standard grammar. The decimal text
  of a float and its reading are the arguments \<open>float_repr\<close> and \<open>float_read\<close>; the round trip is
  proved for values without floats. Reading takes fuel, one unit per character is enough.
\<close>

section \<open>Writing\<close>

primrec sort_keys :: "pyval \<Rightarrow> pyval" where
  "sort_keys PyNone = PyNone"
| "sort_keys (PyBool b) = PyBool b"
| "sort_keys (PyInt i) = PyInt i"
| "sort_keys (PyFloat x) = PyFloat x"
| "sort_keys (PyStr s) = PyStr s"
| "sort_keys (PyList vs) = PyList (map sort_keys vs)"
| "sort_keys (PyDict kvs) = PyDict (sort_key fst (map (map_prod id sort_keys) kvs))"

definition json_char :: "char \<Rightarrow> string" where
  "json_char c =
     (let n = (of_char c :: nat) in
      if c = CHR 0x22 \<or> c = CHR 0x5C then [CHR 0x5C, c]
      else if n = 10 then [CHR 0x5C, CHR ''n'']
      else if n = 13 then [CHR 0x5C, CHR ''r'']
      else if n = 9 then [CHR 0x5C, CHR ''t'']
      else if n = 12 then [CHR 0x5C, CHR ''f'']
      else if n = 8 then [CHR 0x5C, CHR ''b'']
      else if 32 \<le> n \<and> n \<le> 126 then [c]
      else [CHR 0x5C, CHR ''u'', CHR ''0'', CHR ''0'', hex_char (n div 16), hex_char (n mod 16)])"

definition json_str :: "string \<Rightarrow> string" where
  "json_str s = CHR 0x22 # concat (map json_char s) @ [CHR 0x22]"

primrec json_text :: "(rat \<Rightarrow> string) \<Rightarrow> pyval \<Rightarrow> string" where
  "json_text float_repr PyNone = ''null''"
| "json_text float_repr (PyBool b) = (if b then ''true'' else ''false'')"
| "json_text float_repr (PyInt i) = int_str i"
| "json_text float_repr (PyFloat x) = float_repr x"
| "json_text float_repr (PyStr s) = json_str s"
| "json_text float_repr (PyList vs) = ''['' @ str_join '', '' (map (json_text float_repr) vs) @ '']''"
| "json_text float_repr (PyDict kvs) =
     ''{'' @ str_join '', '' (map (\<lambda>(k, t). json_str k @ '': '' @ t) (map (map_prod id (json_text float_repr)) kvs)) @ ''}''"

definition json_dumps :: "(rat \<Rightarrow> string) \<Rightarrow> pyobj \<Rightarrow> string" where
  "json_dumps float_repr state = json_text float_repr (sort_keys (PyDict state))"

section \<open>Reading\<close>

definition is_digit :: "char \<Rightarrow> bool" where
  "is_digit c \<longleftrightarrow> 48 \<le> (of_char c :: nat) \<and> (of_char c :: nat) \<le> 57"

definition digit_val :: "char \<Rightarrow> nat" where
  "digit_val c = (of_char c :: nat) - 48"

definition nat_of_digits :: "string \<Rightarrow> nat" where
  "nat_of_digits ds = foldl (\<lambda>n d. n * 10 + digit_val d) 0 ds"

definition hex_val :: "char \<Rightarrow> nat option" where
  "hex_val c =
     (let n = (of_char c :: nat) in
      if 48 \<le> n \<and> n \<le> 57 then Some (n - 48)
      else if 97 \<le> n \<and> n \<le> 102 then Some (n - 87)
      else if 65 \<le> n \<and> n \<le> 70 then Some (n - 55)
      else None)"

definition skip_ws :: "string \<Rightarrow> string" where
  "skip_ws s = dropWhile (\<lambda>c. c = CHR '' '' \<or> c = CHR 0x09 \<or> c = CHR 0x0A \<or> c = CHR 0x0D) s"

text \<open>The rest of a string after its opening quote. Characters above \<^verbatim>\<open>U+00FF\<close> are outside the model's text.\<close>

fun parse_str :: "string \<Rightarrow> (string \<times> string) option" where
  "parse_str [] = None"
| "parse_str (c # cs) =
     (if c = CHR 0x22 then Some ([], cs)
      else if c = CHR 0x5C then
        (case cs of
           [] \<Rightarrow> None
         | e # rest \<Rightarrow>
             (if e = CHR ''u'' then
                (case rest of
                   h1 # h2 # h3 # h4 # rest' \<Rightarrow>
                     (case (hex_val h1, hex_val h2, hex_val h3, hex_val h4) of
                        (Some 0, Some 0, Some a, Some b) \<Rightarrow>
                          map_option (\<lambda>(s, r). (char_of (a * 16 + b) # s, r)) (parse_str rest')
                      | _ \<Rightarrow> None)
                 | _ \<Rightarrow> None)
              else
                (case map_of [(CHR 0x22, CHR 0x22), (CHR 0x5C, CHR 0x5C), (CHR ''/'', CHR ''/''), (CHR ''b'', CHR 0x08),
                              (CHR ''f'', CHR 0x0C), (CHR ''n'', CHR 0x0A), (CHR ''r'', CHR 0x0D), (CHR ''t'', CHR 0x09)] e of
                   None \<Rightarrow> None
                 | Some d \<Rightarrow> map_option (\<lambda>(s, r). (d # s, r)) (parse_str rest))))
      else if (of_char c :: nat) < 32 then None
      else map_option (\<lambda>(s, r). (c # s, r)) (parse_str cs))"

text \<open>A number: sign, integer part without leading zeros, optional fraction and exponent.\<close>

definition parse_frac :: "string \<Rightarrow> string \<times> string" where
  "parse_frac s =
     (case s of
        c # d # r \<Rightarrow> if c = CHR ''.'' \<and> is_digit d
          then ([c] @ takeWhile is_digit (d # r), dropWhile is_digit (d # r)) else ([], s)
      | _ \<Rightarrow> ([], s))"

definition parse_exp :: "string \<Rightarrow> string \<times> string" where
  "parse_exp s =
     (case s of
        e # r \<Rightarrow>
          if e = CHR ''e'' \<or> e = CHR ''E'' then
            (let (sgn, r') = (case r of c # r'' \<Rightarrow> if c = CHR ''+'' \<or> c = CHR ''-'' then ([c], r'') else ([], r) | [] \<Rightarrow> ([], r)) in
             if takeWhile is_digit r' \<noteq> [] then (e # sgn @ takeWhile is_digit r', dropWhile is_digit r') else ([], s))
          else ([], s)
      | [] \<Rightarrow> ([], s))"

definition parse_num :: "(string \<Rightarrow> rat) \<Rightarrow> string \<Rightarrow> (pyval \<times> string) option" where
  "parse_num float_read s =
     (let (sgn, s1) = (case s of c # r \<Rightarrow> if c = CHR ''-'' then ([c], r) else ([], s) | [] \<Rightarrow> ([], s));
          ds = (case s1 of c # _ \<Rightarrow> if c = CHR ''0'' then [c] else takeWhile is_digit s1 | [] \<Rightarrow> []);
          s2 = drop (length ds) s1
      in if ds = [] then None
         else let (fr, s3) = parse_frac s2; (ex, s4) = parse_exp s3 in
              if fr = [] \<and> ex = []
              then Some (PyInt ((if sgn = [] then 1 else -1) * int (nat_of_digits ds)), s4)
              else Some (PyFloat (float_read (sgn @ ds @ fr @ ex)), s4))"

definition parse_lit :: "string \<Rightarrow> (pyval \<times> string) option" where
  "parse_lit s =
     (if prefix ''null'' s then Some (PyNone, drop 4 s)
      else if prefix ''true'' s then Some (PyBool True, drop 4 s)
      else if prefix ''false'' s then Some (PyBool False, drop 5 s)
      else None)"

text \<open>Values, the elements of an array and the members of an object; one unit of fuel per call.\<close>

fun parse_val :: "(string \<Rightarrow> rat) \<Rightarrow> nat \<Rightarrow> string \<Rightarrow> (pyval \<times> string) option"
  and parse_elems :: "(string \<Rightarrow> rat) \<Rightarrow> nat \<Rightarrow> string \<Rightarrow> (pyval list \<times> string) option"
  and parse_members :: "(string \<Rightarrow> rat) \<Rightarrow> nat \<Rightarrow> string \<Rightarrow> ((string \<times> pyval) list \<times> string) option" where
  "parse_val fl 0 s = None"
| "parse_val fl (Suc n) s =
     (case s of
        [] \<Rightarrow> None
      | c # r \<Rightarrow>
          if c = CHR 0x22 then map_option (map_prod PyStr id) (parse_str r)
          else if c = CHR ''['' then
            (let r' = skip_ws r in
             case r' of
               [] \<Rightarrow> None
             | d # r'' \<Rightarrow> if d = CHR '']'' then Some (PyList [], r'')
                          else map_option (map_prod PyList id) (parse_elems fl n r'))
          else if c = CHR ''{'' then
            (let r' = skip_ws r in
             case r' of
               [] \<Rightarrow> None
             | d # r'' \<Rightarrow> if d = CHR ''}'' then Some (PyDict [], r'')
                          else map_option (\<lambda>(ms, rest). (PyDict (fold (\<lambda>(k, v). dict_set k v) ms []), rest))
                                 (parse_members fl n r'))
          else if c = CHR ''-'' \<or> is_digit c then parse_num fl s
          else parse_lit s)"
| "parse_elems fl 0 s = None"
| "parse_elems fl (Suc n) s =
     (case parse_val fl n s of
        None \<Rightarrow> None
      | Some (v, r) \<Rightarrow>
          (case skip_ws r of
             [] \<Rightarrow> None
           | c # r' \<Rightarrow> if c = CHR '']'' then Some ([v], r')
                        else if c = CHR '','' then map_option (map_prod ((#) v) id) (parse_elems fl n (skip_ws r'))
                        else None))"
| "parse_members fl 0 s = None"
| "parse_members fl (Suc n) s =
     (case s of
        [] \<Rightarrow> None
      | q # r0 \<Rightarrow>
          if q \<noteq> CHR 0x22 then None
          else
          (case parse_str r0 of
             None \<Rightarrow> None
           | Some (k, r1) \<Rightarrow>
               (case skip_ws r1 of
                  [] \<Rightarrow> None
                | c # r2 \<Rightarrow>
                    if c \<noteq> CHR '':'' then None
                    else
                    (case parse_val fl n (skip_ws r2) of
                       None \<Rightarrow> None
                     | Some (v, r3) \<Rightarrow>
                         (case skip_ws r3 of
                            [] \<Rightarrow> None
                          | d # r4 \<Rightarrow> if d = CHR ''}'' then Some ([(k, v)], r4)
                                       else if d = CHR '','' then map_option (map_prod ((#) (k, v)) id) (parse_members fl n (skip_ws r4))
                                       else None)))))"

definition json_loads :: "(string \<Rightarrow> rat) \<Rightarrow> string \<Rightarrow> pyval option" where
  "json_loads float_read s =
     (case parse_val float_read (Suc (length s)) (skip_ws s) of
        None \<Rightarrow> None
      | Some (v, rest) \<Rightarrow> if skip_ws rest = [] then Some v else None)"

section \<open>Strings round trip\<close>

lemma hex_val_char: "d < 16 \<Longrightarrow> hex_val (hex_char d) = Some d"
  by (auto simp: hex_val_def hex_char_def Let_def of_char_of)

lemma of_char_256: "(of_char c :: nat) < 256"
  by (metis of_char_of char_of_char mod_less_divisor zero_less_numeral)

lemma char_of_consts:
  "char_of (10 :: nat) = CHR 0x0A" "char_of (13 :: nat) = CHR 0x0D" "char_of (9 :: nat) = CHR 0x09"
  "char_of (12 :: nat) = CHR 0x0C" "char_of (8 :: nat) = CHR 0x08" "char_of (48 :: nat) = CHR ''0''"
  by code_simp+

lemma char_eqI: "(of_char c :: nat) = n \<Longrightarrow> c = char_of n"
  by (metis char_of_char)

lemma parse_str_plain:
  assumes "32 \<le> (of_char c :: nat)" "c \<noteq> CHR 0x22" "c \<noteq> CHR 0x5C"
  shows "parse_str (c # cs) = map_option (\<lambda>(s, r). (c # s, r)) (parse_str cs)"
  using assms by simp

lemma parse_str_unicode:
  "parse_str ([CHR 0x5C, CHR ''u'', CHR ''0'', CHR ''0'', hex_char ((of_char c :: nat) div 16), hex_char ((of_char c :: nat) mod 16)] @ cs) =
     map_option (\<lambda>(s, r). (c # s, r)) (parse_str cs)"
proof -
  have "(of_char c :: nat) div 16 < 16" using of_char_256 [of c] by (intro less_mult_imp_div_less) simp
  moreover have "char_of ((of_char c :: nat) div 16 * 16 + (of_char c :: nat) mod 16) = c"
    by (simp add: div_mult_mod_eq)
  moreover have "hex_val (CHR ''0'') = Some 0" by (simp add: hex_val_def)
  ultimately show ?thesis by (simp add: hex_val_char)
qed

lemma parse_str_char: "parse_str (json_char c @ cs) = map_option (\<lambda>(s, r). (c # s, r)) (parse_str cs)"
proof -
  let ?n = "of_char c :: nat"
  consider (q) "c = CHR 0x22 \<or> c = CHR 0x5C" | (n) "?n = 10" | (r) "?n = 13" | (t) "?n = 9" | (f) "?n = 12" | (b) "?n = 8"
    | (plain) "32 \<le> ?n" "?n \<le> 126" "c \<noteq> CHR 0x22" "c \<noteq> CHR 0x5C"
    | (other) "\<not> (32 \<le> ?n \<and> ?n \<le> 126)" "?n \<notin> {10, 13, 9, 12, 8}" "c \<noteq> CHR 0x22" "c \<noteq> CHR 0x5C"
    by fastforce
  then show ?thesis
  proof cases
    case plain
    then show ?thesis using parse_str_plain [of c cs] by (simp add: json_char_def Let_def del: parse_str.simps)
  next
    case other
    then have "json_char c = [CHR 0x5C, CHR ''u'', CHR ''0'', CHR ''0'', hex_char (?n div 16), hex_char (?n mod 16)]"
      by (auto simp: json_char_def Let_def)
    then show ?thesis using parse_str_unicode [of c cs] by (simp only:)
  next
    case q
    then show ?thesis by (auto simp: json_char_def Let_def)
  next
    case n
    then show ?thesis by (auto simp: json_char_def Let_def char_of_consts dest!: char_eqI)
  next
    case r
    then show ?thesis by (auto simp: json_char_def Let_def char_of_consts dest!: char_eqI)
  next
    case t
    then show ?thesis by (auto simp: json_char_def Let_def char_of_consts dest!: char_eqI)
  next
    case f
    then show ?thesis by (auto simp: json_char_def Let_def char_of_consts dest!: char_eqI)
  next
    case b
    then show ?thesis by (auto simp: json_char_def Let_def char_of_consts dest!: char_eqI)
  qed
qed

lemma parse_str_text: "parse_str (concat (map json_char s) @ CHR 0x22 # r) = Some (s, r)"
  by (induction s) (simp_all add: parse_str_char del: parse_str.simps(2), simp)

section \<open>Numbers round trip\<close>

lemma is_digit_char: "d < 10 \<Longrightarrow> is_digit (digit_char d) \<and> digit_val (digit_char d) = d"
  by (simp add: is_digit_def digit_val_def digit_char_def of_char_of)

lemma nat_str_digits: "\<forall>c \<in> set (nat_str n). is_digit c"
proof (induction n rule: nat_str.induct)
  case (1 n)
  then show ?case by (subst nat_str.simps) (auto simp: is_digit_char)
qed

lemma nat_of_digits_str: "nat_of_digits (nat_str n) = n"
proof (induction n rule: nat_str.induct)
  case (1 n)
  then show ?case
    by (subst nat_str.simps) (auto simp: nat_of_digits_def is_digit_char)
qed

lemma nat_str_zero: "nat_str 0 = ''0''"
  by (simp add: nat_str.simps digit_char_def char_of_consts)

lemma nat_str_hd: "0 < n \<Longrightarrow> hd (nat_str n) \<noteq> CHR ''0''"
proof (induction n rule: nat_str.induct)
  case (1 n)
  show ?case
  proof (cases "n < 10")
    case True
    then have "digit_char n \<noteq> digit_char 0" using "1.prems" by (simp add: digit_char_inj)
    with True show ?thesis by (simp add: nat_str.simps [of n] digit_char_def char_of_consts)
  next
    case False
    then show ?thesis using "1.IH" by (simp add: nat_str.simps [of n])
  qed
qed

definition value_end :: "string \<Rightarrow> bool" where
  "value_end r \<longleftrightarrow> r = [] \<or> hd r \<in> {CHR '','', CHR '']'', CHR ''}''}"

lemma parse_num_nat:
  assumes "value_end r"
  shows "(case nat_str n @ r of c # _ \<Rightarrow> if c = CHR ''0'' then [c] else takeWhile is_digit (nat_str n @ r) | [] \<Rightarrow> []) = nat_str n"
proof -
  have "\<not> (r \<noteq> [] \<and> is_digit (hd r))" using assms by (auto simp: value_end_def is_digit_def)
  then have tw: "takeWhile is_digit (nat_str n @ r) = nat_str n"
    using nat_str_digits [of n] by (cases r) (auto simp: takeWhile_append2)
  show ?thesis
  proof (cases "n = 0")
    case False
    then have "hd (nat_str n) \<noteq> CHR ''0''" by (simp add: nat_str_hd)
    with tw show ?thesis by (cases "nat_str n") auto
  qed (simp add: nat_str_zero)
qed

lemma parse_tail: "value_end r \<Longrightarrow> parse_frac r = ([], r) \<and> parse_exp r = ([], r)"
  by (cases r) (auto simp: value_end_def parse_frac_def parse_exp_def split: list.splits)

lemma parse_num_int:
  assumes "value_end r"
  shows "parse_num fl (int_str i @ r) = Some (PyInt i, r)"
proof (cases "i < 0")
  case True
  then show ?thesis
    using parse_num_nat [OF assms, of "nat (- i)"] parse_tail [OF assms]
    by (simp add: parse_num_def int_str_def nat_of_digits_str Let_def)
next
  case False
  have "hd (nat_str (nat i)) \<noteq> CHR ''-''" using nat_str_digits [of "nat i"]
    by (cases "nat_str (nat i)") (auto simp: is_digit_def)
  then have "(case nat_str (nat i) @ r of c # r' \<Rightarrow> if c = CHR ''-'' then ([c], r') else ([], nat_str (nat i) @ r)
      | [] \<Rightarrow> ([], nat_str (nat i) @ r)) = ([], nat_str (nat i) @ r)"
    by (cases "nat_str (nat i)") auto
  with False show ?thesis
    using parse_num_nat [OF assms, of "nat i"] parse_tail [OF assms]
    by (simp add: parse_num_def int_str_def nat_of_digits_str Let_def)
qed

section \<open>Values round trip\<close>

text \<open>No floats inside, and the keys of every dictionary are distinct.\<close>

primrec plain_val :: "pyval \<Rightarrow> bool" where
  "plain_val PyNone = True"
| "plain_val (PyBool b) = True"
| "plain_val (PyInt i) = True"
| "plain_val (PyFloat x) = False"
| "plain_val (PyStr s) = True"
| "plain_val (PyList vs) = list_all id (map plain_val vs)"
| "plain_val (PyDict kvs) = (distinct (map fst kvs) \<and> list_all snd (map (map_prod id plain_val) kvs))"

definition value_start :: "char \<Rightarrow> bool" where
  "value_start c \<longleftrightarrow> c \<notin> {CHR '' '', CHR 0x09, CHR 0x0A, CHR 0x0D, CHR '']'', CHR ''}'', CHR '',''}"

lemma nat_str_Cons: "\<exists>c r. nat_str n = c # r \<and> is_digit c"
  using nat_str_digits [of n] by (cases "nat_str n") auto

lemma json_text_start: "plain_val v \<Longrightarrow> \<exists>c r. json_text fr v = c # r \<and> value_start c"
proof (cases v)
  case (PyInt i)
  then show ?thesis using nat_str_Cons [of "nat i"]
    by (auto simp: int_str_def value_start_def is_digit_def)
qed (auto simp: value_start_def json_str_def)

lemma skip_ws_start: "value_start c \<Longrightarrow> skip_ws (c # r) = c # r"
  by (simp add: skip_ws_def value_start_def)

lemma skip_ws_text: "plain_val v \<Longrightarrow> skip_ws (json_text fr v @ r) = json_text fr v @ r"
  using json_text_start [of v fr] skip_ws_start by auto

lemma skip_ws_simps [simp]:
  "skip_ws (CHR '' '' # r) = skip_ws r" "skip_ws (CHR '']'' # r) = CHR '']'' # r" "skip_ws (CHR ''}'' # r) = CHR ''}'' # r"
  "skip_ws (CHR '','' # r) = CHR '','' # r" "skip_ws (CHR '':'' # r) = CHR '':'' # r" "skip_ws (CHR 0x22 # r) = CHR 0x22 # r"
  "skip_ws [] = []"
  by (simp_all add: skip_ws_def)

definition reads_back :: "(rat \<Rightarrow> string) \<Rightarrow> (string \<Rightarrow> rat) \<Rightarrow> pyval \<Rightarrow> bool" where
  "reads_back fr fl v \<longleftrightarrow>
     (\<forall>n r. length (json_text fr v) \<le> n \<longrightarrow> value_end r \<longrightarrow> parse_val fl n (json_text fr v @ r) = Some (v, r))"

lemma reads_backD: "reads_back fr fl v \<Longrightarrow> length (json_text fr v) \<le> n \<Longrightarrow> value_end r \<Longrightarrow>
    parse_val fl n (json_text fr v @ r) = Some (v, r)"
  by (simp add: reads_back_def)

lemma value_end_simps [simp]:
  "value_end (CHR '','' # r)" "value_end (CHR '']'' # r)" "value_end (CHR ''}'' # r)" "value_end []"
  by (simp_all add: value_end_def)

lemma str_join_Cons: "ys \<noteq> [] \<Longrightarrow> str_join sep (x # ys) = x @ sep @ str_join sep ys"
  by (cases ys) auto

lemma parse_elems_text:
  assumes "vs \<noteq> []" "\<forall>v \<in> set vs. plain_val v \<and> reads_back fr fl v"
    and "length (str_join '', '' (map (json_text fr) vs)) < n"
  shows "parse_elems fl n (str_join '', '' (map (json_text fr) vs) @ CHR '']'' # r) = Some (vs, r)"
  using assms
proof (induction vs arbitrary: n)
  case (Cons v vs)
  then obtain m where n: "n = Suc m" by (cases n) auto
  show ?case
  proof (cases "vs = []")
    case True
    then show ?thesis using Cons.prems n by (simp add: reads_backD)
  next
    case False
    obtain w ws where vs: "vs = w # ws" using False by (cases vs) auto
    have start: "skip_ws (str_join '', '' (map (json_text fr) vs) @ CHR '']'' # r) = str_join '', '' (map (json_text fr) vs) @ CHR '']'' # r"
      using Cons.prems(2) vs json_text_start [of w fr] skip_ws_start by (cases ws) auto
    have "parse_elems fl m (str_join '', '' (map (json_text fr) vs) @ CHR '']'' # r) = Some (vs, r)"
      using Cons.IH [OF False, of m] Cons.prems False n by (simp add: str_join_Cons)
    then show ?thesis
      using Cons.prems False n start by (simp add: str_join_Cons reads_backD)
  qed
qed simp

definition member_text :: "(rat \<Rightarrow> string) \<Rightarrow> string \<times> pyval \<Rightarrow> string" where
  "member_text fr kv = json_str (fst kv) @ '': '' @ json_text fr (snd kv)"

lemma json_text_dict: "json_text fr (PyDict kvs) = ''{'' @ str_join '', '' (map (member_text fr) kvs) @ ''}''"
proof -
  have "(\<lambda>(k, t). json_str k @ '': '' @ t) \<circ> map_prod id (json_text fr) = member_text fr"
    by (simp add: fun_eq_iff member_text_def)
  then show ?thesis by simp
qed

lemma parse_members_text:
  assumes "kvs \<noteq> []" "\<forall>kv \<in> set kvs. plain_val (snd kv) \<and> reads_back fr fl (snd kv)"
    and "length (str_join '', '' (map (member_text fr) kvs)) < n"
  shows "parse_members fl n (str_join '', '' (map (member_text fr) kvs) @ CHR ''}'' # r) = Some (kvs, r)"
  using assms
proof (induction kvs arbitrary: n)
  case (Cons kv kvs)
  then obtain m where n: "n = Suc m" by (cases n) auto
  obtain k v where kv: "kv = (k, v)" by fastforce
  have plain: "plain_val v" "reads_back fr fl v" using Cons.prems(2) kv by auto
  have key: "parse_str (concat (map json_char k) @ CHR 0x22 # x) = Some (k, x)" for x by (rule parse_str_text)
  show ?case
  proof (cases "kvs = []")
    case True
    then show ?thesis
      using Cons.prems(3) n kv plain by (simp add: member_text_def json_str_def key skip_ws_text reads_backD)
  next
    case False
    obtain k' v' rest where kvs: "kvs = (k', v') # rest" using False by (cases kvs) auto
    define J where "J = str_join '', '' (map (member_text fr) kvs)"
    have joined: "str_join '', '' (map (member_text fr) (kv # kvs)) =
        CHR 0x22 # concat (map json_char k) @ CHR 0x22 # '': '' @ json_text fr v @ '', '' @ J"
      using False by (simp add: str_join_Cons kv member_text_def [of fr "(k, v)"] json_str_def [of k] J_def [symmetric])
    have start: "skip_ws (J @ CHR ''}'' # r) = J @ CHR ''}'' # r"
      using kvs by (cases rest) (simp_all add: J_def member_text_def json_str_def)
    have "parse_members fl m (J @ CHR ''}'' # r) = Some (kvs, r)"
      using Cons.IH [OF False, of m] Cons.prems(2,3) n unfolding joined J_def [symmetric] by simp
    then show ?thesis
      using Cons.prems(3) n kv plain start unfolding joined by (simp add: key skip_ws_text reads_backD)
  qed
qed simp

lemma fold_dict_set:
  "distinct (map fst (acc @ kvs)) \<Longrightarrow> fold (\<lambda>(k, v). dict_set k v) kvs acc = acc @ kvs"
proof (induction kvs arbitrary: acc)
  case (Cons kv kvs)
  obtain k v where kv: "kv = (k, v)" by fastforce
  have "\<not> dict_has acc k" using Cons.prems kv by (auto simp: dict_has_keys dict_keys_def)
  then show ?case using Cons.IH [of "acc @ [(k, v)]"] Cons.prems kv by (simp add: dict_set_absent)
qed simp

lemma plain_reads_back: "plain_val v \<Longrightarrow> reads_back fr fl v"
proof (induction v)
  case (PyInt i)
  show ?case
    unfolding reads_back_def
  proof (intro allI impI)
    fix n r assume n: "length (json_text fr (PyInt i)) \<le> n" and r: "value_end r"
    obtain c cs where c: "int_str i = c # cs" "c = CHR ''-'' \<or> is_digit c"
      using nat_str_Cons [of "nat i"] by (cases "i < 0") (auto simp: int_str_def)
    then have "c \<noteq> CHR 0x22 \<and> c \<noteq> CHR ''['' \<and> c \<noteq> CHR ''{''" by (auto simp: is_digit_def)
    moreover obtain m where "n = Suc m" using n c by (cases n) auto
    ultimately show "parse_val fl n (json_text fr (PyInt i) @ r) = Some (PyInt i, r)"
      using c parse_num_int [OF r, of fl i] by simp
  qed
next
  case (PyList vs)
  then have all: "\<forall>v \<in> set vs. plain_val v \<and> reads_back fr fl v" by (auto simp: list_all_iff)
  show ?case
    unfolding reads_back_def
  proof (intro allI impI)
    fix n r assume n: "length (json_text fr (PyList vs)) \<le> n"
    then obtain m where m: "n = Suc m" by (cases n) auto
    show "parse_val fl n (json_text fr (PyList vs) @ r) = Some (PyList vs, r)"
    proof (cases vs)
      case (Cons w ws)
      obtain c cs where c: "str_join '', '' (map (json_text fr) vs) = c # cs" "value_start c"
        using all Cons json_text_start [of w fr] by (cases ws) auto
      have "parse_elems fl m (c # cs @ CHR '']'' # r) = Some (vs, r)"
        using parse_elems_text [OF _ all, of m r] Cons n m c(1) by simp
      then show ?thesis using c m by (simp add: skip_ws_start value_start_def)
    qed (simp add: m)
  qed
next
  case (PyDict kvs)
  then have all: "\<forall>kv \<in> set kvs. plain_val (snd kv) \<and> reads_back fr fl (snd kv)" and d: "distinct (map fst kvs)"
    by (auto simp: list_all_iff)
  show ?case
    unfolding reads_back_def
  proof (intro allI impI)
    fix n r assume n: "length (json_text fr (PyDict kvs)) \<le> n"
    then obtain m where m: "n = Suc m" by (cases n) (auto simp: json_text_dict)
    show "parse_val fl n (json_text fr (PyDict kvs) @ r) = Some (PyDict kvs, r)"
    proof (cases kvs)
      case (Cons w ws)
      obtain cs where c: "str_join '', '' (map (member_text fr) kvs) = CHR 0x22 # cs"
        using Cons by (cases ws) (auto simp: member_text_def json_str_def)
      have "parse_members fl m (CHR 0x22 # cs @ CHR ''}'' # r) = Some (kvs, r)"
        using parse_members_text [OF _ all, of m r] Cons n m c unfolding json_text_dict by simp
      then show ?thesis
        using c m fold_dict_set [of "[]" kvs] d unfolding json_text_dict by simp
    qed (simp add: m)
  qed
qed (auto simp: reads_back_def Suc_le_eq gr0_conv_Suc parse_lit_def is_digit_def json_str_def parse_str_text less_iff_Suc_add)

text \<open>Sorting the keys keeps a value plain and, as a dictionary, the same.\<close>

lemma plain_sort_keys: "plain_val v \<Longrightarrow> plain_val (sort_keys v)"
proof (induction v)
  case (PyDict kvs)
  have "distinct (map fst (map (map_prod id sort_keys) kvs))" using PyDict.prems by (simp add: comp_def)
  then have "distinct (map fst (sort_key fst (map (map_prod id sort_keys) kvs)))"
    by (simp only: distinct_map distinct_sort set_sort)
  then show ?case using PyDict by (auto simp: list_all_iff)
qed (auto simp: list_all_iff)

lemma json_loads_dumps:
  assumes "plain_val (PyDict state)"
  shows "json_loads fl (json_dumps fr state) = Some (sort_keys (PyDict state))"
proof -
  let ?v = "sort_keys (PyDict state)"
  have plain: "plain_val ?v" using plain_sort_keys [OF assms] .
  have "parse_val fl (Suc (length (json_text fr ?v))) (json_text fr ?v @ []) = Some (?v, [])"
    by (rule reads_backD [OF plain_reads_back [OF plain]]) simp_all
  then show ?thesis
    using skip_ws_text [OF plain, of fr "[]"] by (simp add: json_loads_def json_dumps_def del: sort_keys.simps json_text.simps)
qed

end
