(* ===== verification/Checkpoint.thy ===== *)
theory Checkpoint
  imports Json Errors Tenant Abi
begin

text \<open>
  \<^verbatim>\<open>core/domain/checkpoint.py\<close>, \<^verbatim>\<open>infrastructure/storage/checkpoint/in_memory.py\<close> and
  \<^verbatim>\<open>control_plane/adapters/to_kernel/checkpoint.py\<close>: checkpoints, the in-memory repository and the
  adapter through which the runtime saves and restores state. The deep copies of the repository are
  values here. The order in which Python iterates a set is the argument \<open>order\<close>; \<open>sha256\<close> is the hex
  digest, \<open>float_repr\<close> and \<open>float_read\<close> the text of floats.
\<close>

section \<open>Checkpoints\<close>

datatype CheckpointTrigger =
    STEP_COMPLETE | BEFORE_TOOL_CALL | AFTER_TOOL_CALL | ERROR_RECOVERY | PAUSE_REQUEST | BEFORE_IRREVERSIBLE

record Checkpoint =
  ck_checkpoint_id :: string
  ck_execution_id :: string
  ck_version :: int
  ck_trigger_reason :: CheckpointTrigger
  ck_checkpoint_hash :: string
  ck_schema_version :: string
  ck_parent_checkpoint_id :: "string option"
  ck_agent_state_ref :: "string option"
  ck_memory_refs :: "string list"
  ck_tool_history :: "pyobj list"
  ck_created_at :: "time option"

definition Checkpoint_validate :: "Checkpoint \<Rightarrow> string list" where
  "Checkpoint_validate c =
     require (ck_checkpoint_id c \<noteq> []) ''checkpoint_id is required'' @
     require (ck_execution_id c \<noteq> []) ''execution_id is required'' @
     require (ck_checkpoint_hash c \<noteq> []) ''checkpoint_hash is required'' @
     require (\<not> ck_version c < 0) ''version must be >= 0''"

definition Checkpoint_is_valid :: "Checkpoint \<Rightarrow> bool" where
  "Checkpoint_is_valid c = (length (Checkpoint_validate c) = 0)"

section \<open>The in-memory repository\<close>

record InMemoryCheckpointRepository =
  mc_store :: "(string, Checkpoint) dict"
  mc_execution_index :: "(string, string set) dict"

definition InMemoryCheckpointRepository_init :: InMemoryCheckpointRepository where
  "InMemoryCheckpointRepository_init = \<lparr>mc_store = [], mc_execution_index = []\<rparr>"

definition repo_save :: "Checkpoint \<Rightarrow> InMemoryCheckpointRepository \<Rightarrow> Checkpoint \<times> InMemoryCheckpointRepository" where
  "repo_save c r =
     (c, r\<lparr>mc_store := dict_set (ck_checkpoint_id c) c (mc_store r),
           mc_execution_index := dict_set (ck_execution_id c)
             (insert (ck_checkpoint_id c) (dict_get_or (mc_execution_index r) (ck_execution_id c) {})) (mc_execution_index r)\<rparr>)"

definition repo_get :: "InMemoryCheckpointRepository \<Rightarrow> string \<Rightarrow> Checkpoint option" where
  "repo_get r checkpoint_id = dict_get (mc_store r) checkpoint_id"

definition repo_ids :: "InMemoryCheckpointRepository \<Rightarrow> string \<Rightarrow> string set" where
  "repo_ids r execution_id = dict_get_or (mc_execution_index r) execution_id {}"

text \<open>The lookups \<^verbatim>\<open>self._store[cid] for cid in ids\<close>; a missing key raises.\<close>

fun fetch_all :: "InMemoryCheckpointRepository \<Rightarrow> string list \<Rightarrow> exn + Checkpoint list" where
  "fetch_all r [] = Inr []"
| "fetch_all r (cid # cids) =
     (case dict_get (mc_store r) cid of
        None \<Rightarrow> Inl (KeyError cid)
      | Some c \<Rightarrow> (case fetch_all r cids of Inl e \<Rightarrow> Inl e | Inr cs \<Rightarrow> Inr (c # cs)))"

definition list_by_execution ::
  "(string set \<Rightarrow> string list) \<Rightarrow> InMemoryCheckpointRepository \<Rightarrow> string \<Rightarrow> exn + Checkpoint list" where
  "list_by_execution order r execution_id =
     (case fetch_all r (order (repo_ids r execution_id)) of
        Inl e \<Rightarrow> Inl e
      | Inr cs \<Rightarrow> Inr (sort_key (\<lambda>c. (ck_version c, ck_checkpoint_id c)) cs))"

text \<open>\<^verbatim>\<open>max(xs, key=f)\<close>: the first element with the greatest key.\<close>

fun max_by :: "('a \<Rightarrow> 'b :: linorder) \<Rightarrow> 'a \<Rightarrow> 'a list \<Rightarrow> 'a" where
  "max_by f best [] = best"
| "max_by f best (x # xs) = max_by f (if f best < f x then x else best) xs"

definition get_latest ::
  "(string set \<Rightarrow> string list) \<Rightarrow> InMemoryCheckpointRepository \<Rightarrow> string \<Rightarrow> exn + Checkpoint option" where
  "get_latest order r execution_id =
     (if repo_ids r execution_id = {} then Inr None
      else case fetch_all r (order (repo_ids r execution_id)) of
        Inl e \<Rightarrow> Inl e
      | Inr [] \<Rightarrow> Inl (ValueError ''max() arg is an empty sequence'')
      | Inr (c # cs) \<Rightarrow> Inr (Some (max_by ck_version c cs)))"

section \<open>The adapter\<close>

record CheckpointPersistenceAdapter =
  ca_repo :: InMemoryCheckpointRepository
  ca_version_counter :: "(string, int) dict"

definition CheckpointPersistenceAdapter_init :: "InMemoryCheckpointRepository \<Rightarrow> CheckpointPersistenceAdapter" where
  "CheckpointPersistenceAdapter_init repo = \<lparr>ca_repo = repo, ca_version_counter = []\<rparr>"

definition adapter_save ::
  "(rat \<Rightarrow> string) \<Rightarrow> (string \<Rightarrow> string) \<Rightarrow> string \<Rightarrow> time \<Rightarrow> string \<Rightarrow> pyobj \<Rightarrow> (string, CheckpointPersistenceAdapter) call" where
  "adapter_save float_repr sha256 uuid_hex now execution_id state a =
     (let checkpoint_id = ''cp-'' @ take 12 uuid_hex;
          current_version = dict_get_or (ca_version_counter a) execution_id 0 + 1;
          a1 = a\<lparr>ca_version_counter := dict_set execution_id current_version (ca_version_counter a)\<rparr>;
          state_json = json_dumps float_repr state;
          checkpoint = \<lparr>ck_checkpoint_id = checkpoint_id, ck_execution_id = execution_id, ck_version = current_version,
            ck_trigger_reason = STEP_COMPLETE, ck_checkpoint_hash = take 16 (sha256 state_json), ck_schema_version = ''1.0'',
            ck_parent_checkpoint_id = None, ck_agent_state_ref = Some state_json, ck_memory_refs = [], ck_tool_history = [],
            ck_created_at = Some now\<rparr>;
          errors = Checkpoint_validate checkpoint
      in if errors \<noteq> [] then (Inl (CheckpointPersistenceError ''save'' (''Invalid checkpoint: '' @ list_repr errors)), a1)
         else (Inr checkpoint_id, a1\<lparr>ca_repo := snd (repo_save checkpoint (ca_repo a))\<rparr>))"

text \<open>
  \<^verbatim>\<open>cast\<close> checks nothing, so a state that is valid JSON but no object is returned as it is; \<open>decode_msg\<close> is
  the text of the \<^verbatim>\<open>JSONDecodeError\<close>.
\<close>

definition adapter_restore ::
  "(string \<Rightarrow> rat) \<Rightarrow> (string \<Rightarrow> string) \<Rightarrow> string \<Rightarrow> CheckpointPersistenceAdapter \<Rightarrow> exn + pyval" where
  "adapter_restore float_read decode_msg checkpoint_id a =
     (case repo_get (ca_repo a) checkpoint_id of
        None \<Rightarrow> Inl (CheckpointPersistenceError ''restore'' (''Checkpoint not found: '' @ checkpoint_id))
      | Some c \<Rightarrow>
          (case ck_agent_state_ref c of
             None \<Rightarrow> Inl (CheckpointPersistenceError ''restore'' (''Checkpoint '' @ sq checkpoint_id @ '' contains no state''))
           | Some state_json \<Rightarrow>
               (case json_loads float_read state_json of
                  None \<Rightarrow> Inl (CheckpointPersistenceError ''restore''
                            (''Corrupted state in checkpoint '' @ sq checkpoint_id @ '': '' @ decode_msg state_json))
                | Some v \<Rightarrow> Inr v)))"

section \<open>Invariants\<close>

text \<open>Every indexed identifier is stored, and what is stored is indexed under its own execution.\<close>

definition checkpoint_repo_wf :: "InMemoryCheckpointRepository \<Rightarrow> bool" where
  "checkpoint_repo_wf r \<longleftrightarrow>
     (\<forall>eid. finite (repo_ids r eid) \<and> (\<forall>cid \<in> repo_ids r eid. dict_has (mc_store r) cid)) \<and>
     (\<forall>cid c. dict_get (mc_store r) cid = Some c \<longrightarrow> ck_checkpoint_id c = cid \<and> cid \<in> repo_ids r (ck_execution_id c))"

definition iteration_order :: "(string set \<Rightarrow> string list) \<Rightarrow> bool" where
  "iteration_order order \<longleftrightarrow> (\<forall>S. finite S \<longrightarrow> set (order S) = S \<and> distinct (order S))"

lemma repo_ids_save [simp, op_simps]:
  "repo_ids (snd (repo_save c r)) eid =
     (if eid = ck_execution_id c then insert (ck_checkpoint_id c) (repo_ids r eid) else repo_ids r eid)"
  by (simp add: repo_ids_def repo_save_def dict_get_or_def)

lemma repo_get_save [simp, op_simps]:
  "repo_get (snd (repo_save c r)) cid = (if cid = ck_checkpoint_id c then Some c else repo_get r cid)"
  by (simp add: repo_get_def repo_save_def)

lemma checkpoint_repo_wf_init [wf_intros]: "checkpoint_repo_wf InMemoryCheckpointRepository_init"
  by (simp add: checkpoint_repo_wf_def InMemoryCheckpointRepository_init_def repo_ids_def dict_get_or_def)

lemma checkpoint_repo_wf_save [wf_intros]:
  assumes "checkpoint_repo_wf r"
  shows "checkpoint_repo_wf (snd (repo_save c r))"
proof -
  have st: "mc_store (snd (repo_save c r)) = dict_set (ck_checkpoint_id c) c (mc_store r)" by (simp add: repo_save_def)
  show ?thesis using assms unfolding checkpoint_repo_wf_def repo_ids_save st by (auto, metis)
qed

lemma fetch_all_ok:
  "\<forall>cid \<in> set cids. dict_has (mc_store r) cid \<Longrightarrow> fetch_all r cids = Inr (map (\<lambda>cid. the (dict_get (mc_store r) cid)) cids)"
  by (induction cids) (auto simp: dict_has_def split: option.splits)

lemma max_by_greatest:
  "max_by f best xs \<in> insert best (set xs) \<and> f best \<le> f (max_by f best xs) \<and> (\<forall>x \<in> set xs. f x \<le> f (max_by f best xs))"
proof (induction xs arbitrary: best)
  case (Cons x xs)
  from Cons.IH [of "if f best < f x then x else best"] show ?case
    by (auto split: if_splits)
qed simp

text \<open>
  The contract of \<^verbatim>\<open>CheckpointRepository\<close> that the step executor relies on: saving succeeds, returns what
  it stored, and makes it retrievable under its identifier without touching other checkpoints.
\<close>

locale checkpoint_repository =
  fixes save :: "Checkpoint \<Rightarrow> (Checkpoint, 'r) call"
    and get :: "'r \<Rightarrow> string \<Rightarrow> Checkpoint option"
    and invar :: "'r \<Rightarrow> bool"
  assumes save_returns: "fst (save c r) = Inr c"
    and get_saved: "get (snd (save c r)) k = (if k = ck_checkpoint_id c then Some c else get r k)"
    and save_invar: "invar r \<Longrightarrow> invar (snd (save c r))"
begin

lemma save_cases: obtains r' where "save c r = (Inr c, r')" "r' = snd (save c r)"
  by (metis save_returns prod.collapse)

lemma saves_keep:
  "get r k = Some c \<Longrightarrow> k \<notin> ck_checkpoint_id ` set cs \<Longrightarrow> get (fold (\<lambda>d. snd \<circ> save d) cs r) k = Some c"
  by (induction cs arbitrary: r) (auto simp: get_saved)

lemma saves_invar: "invar r \<Longrightarrow> invar (fold (\<lambda>d. snd \<circ> save d) cs r)"
  by (induction cs arbitrary: r) (auto intro: save_invar)

end

definition repo_save_call :: "Checkpoint \<Rightarrow> (Checkpoint, InMemoryCheckpointRepository) call" where
  "repo_save_call c r = (let (stored, r') = repo_save c r in (Inr stored, r'))"

interpretation memory_checkpoints: checkpoint_repository repo_save_call repo_get checkpoint_repo_wf
proof unfold_locales
  show "fst (repo_save_call c r) = Inr c" for c r by (simp add: repo_save_call_def repo_save_def)
  show "repo_get (snd (repo_save_call c r)) k = (if k = ck_checkpoint_id c then Some c else repo_get r k)" for c r k
    by (simp add: repo_save_call_def split_beta)
  show "checkpoint_repo_wf (snd (repo_save_call c r))" if "checkpoint_repo_wf r" for c r
    using checkpoint_repo_wf_save [OF that] by (simp add: repo_save_call_def split_beta)
qed

text \<open>The checkpoints of an execution: what the repository's index and store say together.\<close>

definition checkpoints_of :: "InMemoryCheckpointRepository \<Rightarrow> string \<Rightarrow> Checkpoint set" where
  "checkpoints_of r eid = {c. \<exists>cid \<in> repo_ids r eid. dict_get (mc_store r) cid = Some c}"

lemma fetched_set:
  assumes "checkpoint_repo_wf r" "iteration_order order"
  shows "\<exists>cs. fetch_all r (order (repo_ids r eid)) = Inr cs \<and> set cs = checkpoints_of r eid \<and> distinct (map ck_checkpoint_id cs)"
proof -
  have o: "set (order (repo_ids r eid)) = repo_ids r eid" "distinct (order (repo_ids r eid))"
    using assms by (simp_all add: checkpoint_repo_wf_def iteration_order_def)
  let ?cs = "map (\<lambda>cid. the (dict_get (mc_store r) cid)) (order (repo_ids r eid))"
  have has: "\<forall>cid \<in> set (order (repo_ids r eid)). \<exists>c. dict_get (mc_store r) cid = Some c \<and> ck_checkpoint_id c = cid"
    using assms(1) unfolding checkpoint_repo_wf_def dict_has_def o(1) by blast
  have "map ck_checkpoint_id ?cs = order (repo_ids r eid)"
    using has by (simp add: comp_def) (rule map_idI, force)
  moreover have "set ?cs = checkpoints_of r eid" using has o(1) by (force simp: checkpoints_of_def)
  moreover have "fetch_all r (order (repo_ids r eid)) = Inr ?cs"
    using has by (intro fetch_all_ok) (auto simp: dict_has_def)
  ultimately show ?thesis using o(2) by metis
qed

section \<open>Properties\<close>

definition sample_order :: "string set \<Rightarrow> string list" where
  "sample_order S = sorted_list_of_set S"

lemma sample_order_ok: "iteration_order sample_order"
  by (simp add: iteration_order_def sample_order_def)

text \<open>
  Listing an execution's checkpoints, for any order in which the set is iterated, raises
  nothing and returns exactly the stored checkpoints the execution's index names, each once, ordered
  by version and then identifier; the latest one is one of them with the greatest version, and there
  is none exactly when the execution has no checkpoints.
\<close>

lemma checkpoint_listing:
  assumes "checkpoint_repo_wf r" "iteration_order order"
  shows "\<exists>cs. list_by_execution order r eid = Inr cs \<and> set cs = checkpoints_of r eid \<and>
           sorted_wrt (\<lambda>c d. (ck_version c, ck_checkpoint_id c) \<le> (ck_version d, ck_checkpoint_id d)) cs \<and>
           distinct (map ck_checkpoint_id cs) \<and>
           (\<exists>latest. get_latest order r eid = Inr latest \<and>
              (case latest of None \<Rightarrow> cs = []
               | Some c \<Rightarrow> c \<in> set cs \<and> (\<forall>d. d \<in> set cs \<longrightarrow> ck_version d \<le> ck_version c)))"
proof -
  obtain xs where xs: "fetch_all r (order (repo_ids r eid)) = Inr xs" "set xs = checkpoints_of r eid"
      "distinct (map ck_checkpoint_id xs)"
    using fetched_set [OF assms] by blast
  let ?key = "\<lambda>c. (ck_version c, ck_checkpoint_id c)"
  let ?cs = "sort_key ?key xs"
  have "distinct (map ck_checkpoint_id ?cs)" using xs(3) by (simp only: distinct_map distinct_sort set_sort)
  moreover have "sorted_wrt (\<lambda>c d. ?key c \<le> ?key d) ?cs" using sorted_sort_key [of ?key xs] by (simp add: sorted_map)
  moreover have "\<exists>latest. get_latest order r eid = Inr latest \<and>
      (case latest of None \<Rightarrow> ?cs = [] | Some c \<Rightarrow> c \<in> set ?cs \<and> (\<forall>d. d \<in> set ?cs \<longrightarrow> ck_version d \<le> ck_version c))"
  proof (cases "repo_ids r eid = {}")
    case True
    then have "xs = []" using xs(2) by (simp add: checkpoints_of_def)
    with True show ?thesis by (simp add: get_latest_def)
  next
    case False
    then have "set xs \<noteq> {}" using assms(1) xs(2) by (fastforce simp: checkpoints_of_def checkpoint_repo_wf_def dict_has_def)
    then obtain y ys where y: "xs = y # ys" by (cases xs) auto
    have "max_by ck_version y ys \<in> set xs \<and> (\<forall>d. d \<in> set xs \<longrightarrow> ck_version d \<le> ck_version (max_by ck_version y ys))"
      using max_by_greatest [of ck_version y ys] y by auto
    moreover have "get_latest order r eid = Inr (Some (max_by ck_version y ys))"
      using False xs(1) y by (simp add: get_latest_def)
    ultimately show ?thesis by (simp del: sort_key_simps)
  qed
  ultimately show ?thesis using xs by (auto simp: list_by_execution_def)
qed

definition sample_version :: "string \<Rightarrow> int \<Rightarrow> Checkpoint" where
  "sample_version cid v =
     \<lparr>ck_checkpoint_id = cid, ck_execution_id = ''e1'', ck_version = v, ck_trigger_reason = STEP_COMPLETE,
      ck_checkpoint_hash = ''h'', ck_schema_version = ''1.0'', ck_parent_checkpoint_id = None,
      ck_agent_state_ref = None, ck_memory_refs = [], ck_tool_history = [], ck_created_at = None\<rparr>"

definition two_versions :: InMemoryCheckpointRepository where
  "two_versions =
     snd (repo_save (sample_version ''a'' 1) (snd (repo_save (sample_version ''b'' 2) InMemoryCheckpointRepository_init)))"

lemma two_versions_ok: "checkpoint_repo_wf two_versions"
  unfolding two_versions_def by (intro wf_intros)

lemma checkpoint_listing_witness:
  "\<exists>latest. get_latest sample_order two_versions ''e1'' = Inr (Some latest) \<and> ck_version latest = 2"
proof -
  obtain cs latest where cs: "set cs = checkpoints_of two_versions ''e1''"
    and latest: "get_latest sample_order two_versions ''e1'' = Inr latest"
      "case latest of None \<Rightarrow> cs = [] | Some c \<Rightarrow> c \<in> set cs \<and> (\<forall>d. d \<in> set cs \<longrightarrow> ck_version d \<le> ck_version c)"
    using checkpoint_listing [OF two_versions_ok sample_order_ok, of "''e1''"] by blast
  have "repo_ids two_versions ''e1'' = {''a'', ''b''}"
    by (simp add: two_versions_def sample_version_def repo_ids_def dict_get_or_def InMemoryCheckpointRepository_init_def repo_save_def)
  moreover have "dict_get (mc_store two_versions) ''a'' = Some (sample_version ''a'' 1)"
      "dict_get (mc_store two_versions) ''b'' = Some (sample_version ''b'' 2)"
    by (simp_all add: two_versions_def repo_save_def sample_version_def InMemoryCheckpointRepository_init_def)
  ultimately have "set cs = {sample_version ''a'' 1, sample_version ''b'' 2}"
    unfolding cs checkpoints_of_def by auto
  moreover have "ck_version (sample_version cid v) = v" for cid v by (simp add: sample_version_def)
  ultimately show ?thesis using latest by (cases latest) auto
qed

section \<open>The adapter\<close>

text \<open>No checkpoint of an execution is newer than the adapter's counter for it.\<close>

definition adapter_wf :: "CheckpointPersistenceAdapter \<Rightarrow> bool" where
  "adapter_wf a \<longleftrightarrow> checkpoint_repo_wf (ca_repo a) \<and>
     (\<forall>eid c. c \<in> checkpoints_of (ca_repo a) eid \<longrightarrow> ck_version c \<le> dict_get_or (ca_version_counter a) eid 0) \<and>
     (\<forall>eid. 0 \<le> dict_get_or (ca_version_counter a) eid 0)"

lemma adapter_wf_init [wf_intros]: "adapter_wf (CheckpointPersistenceAdapter_init InMemoryCheckpointRepository_init)"
  using checkpoint_repo_wf_init
  by (simp add: adapter_wf_def CheckpointPersistenceAdapter_init_def checkpoints_of_def
      InMemoryCheckpointRepository_init_def dict_get_or_def)

lemma adapter_save_cases:
  assumes "adapter_save fr sha256 hex now eid state a = (r, a')"
  obtains (invalid) e where "r = Inl e" "ca_repo a' = ca_repo a"
      "ca_version_counter a' = dict_set eid (dict_get_or (ca_version_counter a) eid 0 + 1) (ca_version_counter a)"
    | (saved) c where "r = Inr (ck_checkpoint_id c)" "ca_repo a' = snd (repo_save c (ca_repo a))" "ck_execution_id c = eid"
      "ck_checkpoint_id c = ''cp-'' @ take 12 hex" "ck_version c = dict_get_or (ca_version_counter a) eid 0 + 1"
      "ck_agent_state_ref c = Some (json_dumps fr state)"
      "ca_version_counter a' = dict_set eid (dict_get_or (ca_version_counter a) eid 0 + 1) (ca_version_counter a)"
  using assms by (auto simp: adapter_save_def Let_def split: if_splits)

lemma checkpoints_of_save:
  assumes "repo_get r (ck_checkpoint_id c) = None" "checkpoint_repo_wf r"
  shows "checkpoints_of (snd (repo_save c r)) eid =
     (if eid = ck_execution_id c then insert c (checkpoints_of r eid) else checkpoints_of r eid)"
proof -
  have st: "mc_store (snd (repo_save c r)) = dict_set (ck_checkpoint_id c) c (mc_store r)" by (simp add: repo_save_def)
  have fresh: "ck_checkpoint_id c \<notin> repo_ids r eid" for eid
    using assms unfolding checkpoint_repo_wf_def dict_has_def repo_get_def by blast
  show ?thesis unfolding checkpoints_of_def repo_ids_save st using fresh by (auto split: if_splits) metis+
qed

lemma dict_get_or_set [simp]: "dict_get_or (dict_set k v d) k' x = (if k' = k then v else dict_get_or d k' x)"
  by (simp add: dict_get_or_def)

lemma adapter_wf_save [wf_intros]:
  assumes "adapter_wf a" "adapter_save fr sha256 hex now eid state a = (r, a')"
    and "repo_get (ca_repo a) (''cp-'' @ take 12 hex) = None"
  shows "adapter_wf a'"
  using assms(2)
proof (cases rule: adapter_save_cases)
  case (invalid e)
  then show ?thesis using assms(1) unfolding adapter_wf_def by (fastforce intro: add_increasing2)
next
  case (saved c)
  have "checkpoint_repo_wf (ca_repo a)" using assms(1) by (simp add: adapter_wf_def)
  note cs = checkpoints_of_save [of "ca_repo a" c, OF _ this]
  show ?thesis
    using assms(1,3) cs saved checkpoint_repo_wf_save [OF \<open>checkpoint_repo_wf (ca_repo a)\<close>, of c]
    unfolding adapter_wf_def by (fastforce intro: add_increasing2)
qed

lemma dict_get_sort_keys:
  assumes "distinct (map fst kvs)" "sort_keys (PyDict kvs) = PyDict kvs'"
  shows "dict_get kvs' k = map_option sort_keys (dict_get kvs k)"
proof -
  have kvs': "kvs' = sort_key fst (map (map_prod id sort_keys) kvs)" using assms(2) by simp
  have d: "distinct (map fst (map (map_prod id sort_keys) kvs))" using assms(1) by (simp add: comp_def)
  then have "distinct (map fst kvs')" unfolding kvs' by (simp only: distinct_map distinct_sort set_sort)
  then have "map_of kvs' = map_of (map (map_prod id sort_keys) kvs)"
    using d by (simp only: map_of_inject_set) (simp add: kvs')
  moreover have "map_of (map (map_prod id sort_keys) kvs) k = map_option sort_keys (map_of kvs k)"
    by (induction kvs) auto
  ultimately show ?thesis by (simp add: dict_get_def)
qed

lemma adapter_save_succeeds:
  assumes "eid \<noteq> []" "\<And>s. take 16 (sha256 s) \<noteq> []" "0 \<le> dict_get_or (ca_version_counter a) eid 0"
  shows "fst (adapter_save fr sha256 hex now eid state a) = Inr (''cp-'' @ take 12 hex)"
  using assms by (simp add: adapter_save_def Checkpoint_validate_def Let_def)

lemma adapter_save_restores:
  assumes "eid \<noteq> []" "\<And>s. length (sha256 s) = 64" "adapter_wf a" "plain_val (PyDict state)"
  shows "\<exists>cid a' kvs. adapter_save fr sha256 hex now eid state a = (Inr cid, a') \<and>
     adapter_restore fl decode_msg cid a' = Inr (PyDict kvs) \<and>
     (\<forall>k. dict_get kvs k = map_option sort_keys (dict_get state k))"
proof -
  obtain r a' where sv: "adapter_save fr sha256 hex now eid state a = (r, a')" by fastforce
  have nonempty: "take 16 (sha256 x) \<noteq> []" for x using assms(2) [of x] by auto
  have "0 \<le> dict_get_or (ca_version_counter a) eid 0" using assms(3) by (simp add: adapter_wf_def)
  then have r: "r = Inr (''cp-'' @ take 12 hex)"
    using adapter_save_succeeds [of eid sha256 a fr hex now state] assms(1) nonempty sv by simp
  obtain kvs where kvs: "sort_keys (PyDict state) = PyDict kvs" by simp
  have "adapter_restore fl decode_msg (''cp-'' @ take 12 hex) a' = Inr (PyDict kvs)"
    using sv
  proof (cases rule: adapter_save_cases)
    case (saved c)
    have "repo_get (ca_repo a') (''cp-'' @ take 12 hex) = Some c" unfolding saved(2) repo_get_save saved(4) by simp
    then show ?thesis
      using saved(6) json_loads_dumps [OF assms(4)] kvs by (simp add: adapter_restore_def)
  qed (use r in simp)
  moreover have "\<forall>k. dict_get kvs k = map_option sort_keys (dict_get state k)"
    using dict_get_sort_keys [OF _ kvs] assms(4) by simp
  ultimately show ?thesis using sv r by blast
qed

text \<open>
  Property C10. Saved state comes back: \<^verbatim>\<open>save\<close> of a float-free state under a non-empty execution id
  succeeds, and \<^verbatim>\<open>restore\<close> of the returned checkpoint id gives a dictionary with the same keys, each
  bound to the same value (nested dictionaries with their keys sorted), through the JSON text in
  the repository.
\<close>

theorem checkpoint_save_restore:
  assumes "eid \<noteq> []" "\<And>s. length (sha256 s) = 64" "adapter_wf a" "plain_val (PyDict state)"
  shows "\<exists>cid a' kvs. adapter_save fr sha256 hex now eid state a = (Inr cid, a') \<and>
     adapter_restore fl decode_msg cid a' = Inr (PyDict kvs) \<and>
     (\<forall>k. dict_get kvs k = map_option sort_keys (dict_get state k))"
  by (rule adapter_save_restores [OF assms])

theorem checkpoint_save_restore_witness:
  "\<exists>cid a' kvs. adapter_save (\<lambda>_. ''0.0'') (\<lambda>_. replicate 64 (CHR ''a'')) ''0123456789abcdef'' 0 ''e1''
       [(''b'', PyInt 1), (''a'', PyStr ''x'')]
       (CheckpointPersistenceAdapter_init InMemoryCheckpointRepository_init) = (Inr cid, a') \<and>
     adapter_restore (\<lambda>_. 0) (\<lambda>_. []) cid a' = Inr (PyDict kvs) \<and> dict_get kvs ''a'' = Some (PyStr ''x'')"
proof -
  have "plain_val (PyDict [(''b'', PyInt 1), (''a'', PyStr ''x'')])" by simp
  from checkpoint_save_restore [OF _ _ adapter_wf_init this, of "''e1''" "\<lambda>_. replicate 64 (CHR ''a'')" "\<lambda>_. ''0.0''"
      "''0123456789abcdef''" 0 "\<lambda>_. 0" "\<lambda>_. []"]
  obtain cid a' kvs where sr: "adapter_save (\<lambda>_. ''0.0'') (\<lambda>_. replicate 64 (CHR ''a'')) ''0123456789abcdef'' 0 ''e1''
       [(''b'', PyInt 1), (''a'', PyStr ''x'')]
       (CheckpointPersistenceAdapter_init InMemoryCheckpointRepository_init) = (Inr cid, a')"
     "adapter_restore (\<lambda>_. 0) (\<lambda>_. []) cid a' = Inr (PyDict kvs)"
     "\<forall>k. dict_get kvs k = map_option sort_keys (dict_get [(''b'', PyInt 1), (''a'', PyStr ''x'')] k)" by auto
  from sr(3) have "dict_get kvs ''a'' = Some (PyStr ''x'')" by (simp add: dict_get_def)
  with sr(1,2) show ?thesis by blast
qed

text \<open>
  The newest checkpoint is the last one saved: when \<^verbatim>\<open>save\<close> succeeds with an unused
  identifier, \<^verbatim>\<open>get_latest\<close> of that execution returns exactly the checkpoint just saved, with a version
  one above the adapter's previous count, and checkpoints of other executions are untouched.
\<close>

lemma last_saved_is_latest:
  assumes "adapter_wf a" "iteration_order order" "repo_get (ca_repo a) (''cp-'' @ take 12 hex) = None"
    and "adapter_save fr sha256 hex now eid state a = (Inr cid, a')"
  shows "\<exists>c. get_latest order (ca_repo a') eid = Inr (Some c) \<and> ck_checkpoint_id c = cid \<and>
     ck_version c = dict_get_or (ca_version_counter a) eid 0 + 1 \<and>
     (\<forall>eid'. eid' \<noteq> eid \<longrightarrow> checkpoints_of (ca_repo a') eid' = checkpoints_of (ca_repo a) eid')"
  using assms(4)
proof (cases rule: adapter_save_cases)
  case (saved c)
  have wf: "checkpoint_repo_wf (ca_repo a)" "checkpoint_repo_wf (ca_repo a')"
    using assms(1) adapter_wf_save [OF assms(1,4,3)] by (simp_all add: adapter_wf_def)
  have cs: "checkpoints_of (ca_repo a') eid' =
      (if eid' = eid then insert c (checkpoints_of (ca_repo a) eid') else checkpoints_of (ca_repo a) eid')" for eid'
    using checkpoints_of_save [OF _ wf(1), of c eid'] assms(3) saved by simp
  have old: "ck_version d < ck_version c" if "d \<in> checkpoints_of (ca_repo a) eid" for d
    using assms(1) that saved(5) by (fastforce simp: adapter_wf_def)
  obtain xs where xs: "fetch_all (ca_repo a') (order (repo_ids (ca_repo a') eid)) = Inr xs"
      "set xs = insert c (checkpoints_of (ca_repo a) eid)"
    using fetched_set [OF wf(2) assms(2), of eid] cs by auto
  then obtain y ys where y: "xs = y # ys" by (cases xs) auto
  let ?m = "max_by ck_version y ys"
  have "?m \<in> set xs" "\<forall>d \<in> set xs. ck_version d \<le> ck_version ?m" using max_by_greatest [of ck_version y ys] y by auto
  then have "?m = c" using xs(2) old by force
  moreover have "repo_ids (ca_repo a') eid \<noteq> {}" using saved(2,3) by simp
  ultimately have "get_latest order (ca_repo a') eid = Inr (Some c)" using xs(1) y by (simp add: get_latest_def)
  then show ?thesis using saved cs by auto
qed simp

lemma last_saved_is_latest_witness:
  "\<exists>cid a' c. adapter_save (\<lambda>_. ''0.0'') (\<lambda>_. replicate 64 (CHR ''a'')) ''0123456789abcdef'' 0 ''e1'' []
       (CheckpointPersistenceAdapter_init InMemoryCheckpointRepository_init) = (Inr cid, a') \<and>
     get_latest sample_order (ca_repo a') ''e1'' = Inr (Some c) \<and> ck_checkpoint_id c = cid \<and> ck_version c = 1"
proof -
  let ?a = "CheckpointPersistenceAdapter_init InMemoryCheckpointRepository_init"
  obtain r a' where sv: "adapter_save (\<lambda>_. ''0.0'') (\<lambda>_. replicate 64 (CHR ''a'')) ''0123456789abcdef'' 0 ''e1'' [] ?a = (r, a')"
    by fastforce
  have "fst (adapter_save (\<lambda>_. ''0.0'') (\<lambda>_. replicate 64 (CHR ''a'')) ''0123456789abcdef'' 0 ''e1'' [] ?a) =
      Inr (''cp-'' @ take 12 ''0123456789abcdef'')"
    by (rule adapter_save_succeeds) (simp_all add: CheckpointPersistenceAdapter_init_def dict_get_or_def)
  then have r: "r = Inr (''cp-'' @ take 12 ''0123456789abcdef'')" using sv by simp
  have "repo_get (ca_repo ?a) (''cp-'' @ take 12 ''0123456789abcdef'') = None"
    by (simp add: repo_get_def CheckpointPersistenceAdapter_init_def InMemoryCheckpointRepository_init_def)
  from last_saved_is_latest [OF adapter_wf_init sample_order_ok this sv [unfolded r]] sv r show ?thesis
    by (auto simp: CheckpointPersistenceAdapter_init_def dict_get_or_def)
qed

end
