(* ===== verification/Stack.thy ===== *)
theory Stack
  imports Runtime_Lifecycle Policy_Correctness Gateway Checkpoint
begin

text \<open>
  The kernel over the repository's own collaborators: the policy adapter and engine, the intent
  router and the tool gateway over one tool registry, and the checkpoint adapter over the in-memory
  repository, wired as the runtime's four protocols ask for them. What the runtime promises for
  every collaborator is here turned into promises about rules, audit entries and checkpoints.
\<close>

section \<open>Collaborators that decide before they act\<close>

text \<open>
  The part of the collaborators' state that an execution is meant to change only through the gateway
  and the persistence layer: asking the policy and routing leave it alone.
\<close>

locale governed_collaborators =
  fixes abi :: "'w abi" and effects :: "'w \<Rightarrow> 'e"
  assumes evaluate_keeps: "effects (snd (evaluate_intent abi intent w)) = effects w"
    and check_keeps: "effects (snd (check_capability abi action agent w)) = effects w"
    and route_keeps: "effects (snd (route_intent abi intent w)) = effects w"
begin

lemma denied_chain_keeps_effects:
  assumes "denied abi intent w"
  shows "effects (snd (chain abi env intent ctx w)) = effects w"
proof -
  obtain r1 w1 where ev: "evaluate_intent abi intent w = (r1, w1)" by fastforce
  obtain r2 w2 where ch: "check_capability abi (in_action intent) (in_agent_id intent) w1 = (r2, w2)" by fastforce
  have "effects w1 = effects w" "effects w2 = effects w"
    using evaluate_keeps [of intent w] check_keeps [of "in_action intent" "in_agent_id intent" w1] ev ch by simp_all
  with assms ev ch show ?thesis
    by (auto simp: chain_def chain_capability_def denied_def split: sum.splits if_splits bool.splits)
qed

lemma denied_execution_keeps_effects:
  assumes "denied abi intent (rt_world rt)"
  shows "effects (rt_world (snd (execute_intent abi env intent rt))) = effects (rt_world rt)"
proof -
  obtain r rt' where ex: "execute_intent abi env intent rt = (r, rt')" by fastforce
  from ex show ?thesis
  proof (cases rule: execute_intent_cases)
    case (admitted q rt1 rw)
    have "rt_world rt' = snd rw" using core_fields(2) [OF admitted(4)] by (simp add: settled_world_snd)
    then show ?thesis using denied_chain_keeps_effects assms ex admitted(2) by simp
  next
    case (raised e)
    then show ?thesis using admit_frame [OF raised(1)] ex by (simp add: same_setup_def)
  next
    case (refused res)
    then show ?thesis using admit_frame [OF refused(1)] ex by (simp add: same_setup_def)
  qed
qed

end

section \<open>The wiring\<close>

record 'm stack =
  sk_engine :: PolicyEngine
  sk_gateway :: "'m gateway"
  sk_checkpoints :: CheckpointPersistenceAdapter

text \<open>Library functions the collaborators call, and the readings of one execution.\<close>

record StackLib =
  sl_sha256 :: "string \<Rightarrow> string"
  sl_float_repr :: "rat \<Rightarrow> string"
  sl_float_read :: "string \<Rightarrow> rat"
  sl_decode_msg :: "string \<Rightarrow> string"

record StackEnv =
  se_t_evaluate :: "time \<times> time"
  se_t_check :: "time \<times> time"
  se_gateway :: GatewayClock
  se_uuid_hex :: string
  se_t_save :: time

definition on_engine :: "(PolicyEngine \<Rightarrow> 'a \<times> PolicyEngine) \<Rightarrow> ('a, 'm stack) call" where
  "on_engine f w = (let (a, eng) = f (sk_engine w) in (Inr a, w\<lparr>sk_engine := eng\<rparr>))"

definition stack_abi :: "StackLib \<Rightarrow> StackEnv \<Rightarrow> 'm stack abi" where
  "stack_abi lib se =
     \<lparr>evaluate_intent = (\<lambda>intent. on_engine (adapter_evaluate_intent (sl_sha256 lib) intent
                            (fst (se_t_evaluate se)) (snd (se_t_evaluate se)))),
      check_capability = (\<lambda>action agent_id. on_engine (adapter_check_capability (sl_sha256 lib) action agent_id
                            (fst (se_t_check se)) (snd (se_t_check se)))),
      route_intent = (\<lambda>intent w. (SimpleIntentRouter_route_intent (gw_registry (sk_gateway w)) intent, w)),
      access_tool = (\<lambda>path intent w. let (r, g) = gateway_access_tool (se_gateway se) path intent (sk_gateway w)
                                     in (r, w\<lparr>sk_gateway := g\<rparr>)),
      persist_save = (\<lambda>execution_id state w.
        let (r, a) = adapter_save (sl_float_repr lib) (sl_sha256 lib) (se_uuid_hex se) (se_t_save se) execution_id state (sk_checkpoints w)
        in (r, w\<lparr>sk_checkpoints := a\<rparr>)),
      persist_restore = (\<lambda>cid w. (adapter_restore (sl_float_read lib) (sl_decode_msg lib) cid (sk_checkpoints w), w))\<rparr>"

interpretation stack: governed_collaborators "stack_abi lib se" "\<lambda>w. (sk_gateway w, sk_checkpoints w)" for lib se
  by unfold_locales (simp_all add: stack_abi_def on_engine_def split_beta Let_def)

section \<open>Lemmas\<close>

definition rules_allow :: "PolicyEngine \<Rightarrow> Intent \<Rightarrow> bool" where
  "rules_allow eng intent \<longleftrightarrow> opt_get (result_of (matching_rules eng (in_action intent))) ''decision'' = Some ''ALLOW''"

text \<open>
  The rules allow an intent when the first of the matching rules of least priority number says ALLOW, and also when
  no rule matches.
\<close>

lemma rules_allow_best:
  assumes "matching_rules eng (in_action intent) \<noteq> []"
  shows "\<exists>ys best zs. matching_rules eng (in_action intent) = ys @ best # zs \<and>
     (\<forall>r \<in> set ys. pr_priority best < pr_priority r) \<and> (\<forall>r \<in> set zs. pr_priority best \<le> pr_priority r) \<and>
     (rules_allow eng intent \<longleftrightarrow> pr_effect best = ALLOW)"
proof -
  have "PolicyEffect_value e = ''ALLOW'' \<longleftrightarrow> e = ALLOW" for e by (cases e) simp_all
  moreover obtain ys best zs where b: "matching_rules eng (in_action intent) = ys @ best # zs"
      "\<forall>r \<in> set ys. pr_priority best < pr_priority r" "\<forall>r \<in> set zs. pr_priority best \<le> pr_priority r"
      "result_of (matching_rules eng (in_action intent)) =
         decision_dict (PolicyEffect_value (pr_effect best)) (Some (pr_policy_id best)) (''Matched rule: '' @ pr_name best)"
    using result_of_best [OF assms] by blast
  ultimately have "rules_allow eng intent \<longleftrightarrow> pr_effect best = ALLOW"
    unfolding rules_allow_def b(4) by (simp add: decision_dict_def opt_get_def dict_get_or_def dict_get_def)
  with b(1-3) show ?thesis by blast
qed

lemma no_rule_allows: "matching_rules eng (in_action intent) = [] \<Longrightarrow> rules_allow eng intent"
  by (simp add: rules_allow_def result_of_def decision_dict_def opt_get_def dict_get_or_def dict_get_def)

lemma stack_denied:
  assumes "policy_cache_coherent (sk_engine w)" "pipe_free (in_agent_id intent)" "pipe_free (in_action intent)"
    and "\<not> rules_allow (sk_engine w) intent"
  shows "denied (stack_abi lib se) intent w"
  using adapter_grants [OF assms(1-3)] assms(4)
  by (auto simp: denied_def stack_abi_def on_engine_def rules_allow_def split_beta Let_def split: bool.splits prod.splits)

lemma stack_save:
  assumes "persist_save (stack_abi lib se) eid state w = (r, w')"
  shows "adapter_save (sl_float_repr lib) (sl_sha256 lib) (se_uuid_hex se) (se_t_save se) eid state (sk_checkpoints w) = (r, sk_checkpoints w')"
    "sk_gateway w' = sk_gateway w"
  using assms by (auto simp: stack_abi_def Let_def split: prod.splits)

lemma stack_access:
  assumes "access_tool (stack_abi lib se) path intent w = (Inr tr, w')"
  shows "map (\<lambda>e. (ga_tool_id e, ga_agent_id e, ga_success e)) (gw_audit_log (sk_gateway w')) =
       map (\<lambda>e. (ga_tool_id e, ga_agent_id e, ga_success e)) (gw_audit_log (sk_gateway w)) @ [(xp_tool path, in_agent_id intent, True)]"
    "ToolRegistry_get (gw_registry (sk_gateway w)) (xp_tool path) \<noteq> None" "sk_checkpoints w' = sk_checkpoints w"
    "gw_registry (sk_gateway w') = gw_registry (sk_gateway w)"
proof -
  let ?g = "sk_gateway w"
  have acc: "gateway_access_tool (se_gateway se) path intent ?g = (Inr tr, sk_gateway w')" "sk_checkpoints w' = sk_checkpoints w"
    using assms by (auto simp: stack_abi_def Let_def split: prod.splits)
  show "sk_checkpoints w' = sk_checkpoints w" by (rule acc(2))
  have "map (\<lambda>e. (ga_tool_id e, ga_agent_id e, ga_success e)) (gw_audit_log (sk_gateway w')) =
       map (\<lambda>e. (ga_tool_id e, ga_agent_id e, ga_success e)) (gw_audit_log ?g) @ [(xp_tool path, in_agent_id intent, True)] \<and>
     ToolRegistry_get (gw_registry ?g) (xp_tool path) \<noteq> None \<and> gw_registry (sk_gateway w') = gw_registry ?g"
    using gateway_access_cases [of ?g path "se_gateway se" intent]
  proof cases
    case (ok tool client data m)
    then show ?thesis using acc(1) by simp
  qed (use acc(1) in \<open>auto simp: access_refused_def\<close>)
  then show "map (\<lambda>e. (ga_tool_id e, ga_agent_id e, ga_success e)) (gw_audit_log (sk_gateway w')) =
       map (\<lambda>e. (ga_tool_id e, ga_agent_id e, ga_success e)) (gw_audit_log ?g) @ [(xp_tool path, in_agent_id intent, True)]"
    "ToolRegistry_get (gw_registry ?g) (xp_tool path) \<noteq> None" "gw_registry (sk_gateway w') = gw_registry ?g" by simp_all
qed

text \<open>A tool that was reached through the router over the same registry is registered there.\<close>

lemma stack_evaluate_keeps:
  assumes "evaluate_intent (stack_abi lib se) intent w = (r, w1)" "check_capability (stack_abi lib se) action agent w1 = (r', w2)"
    and "route_intent (stack_abi lib se) intent w2 = (r'', w3)"
  shows "sk_gateway w3 = sk_gateway w" "sk_checkpoints w3 = sk_checkpoints w"
  using assms by (auto simp: stack_abi_def on_engine_def Let_def split: prod.splits)

lemma plain_checkpoint_state:
  "plain_val (PyDict (tl_data tr)) \<Longrightarrow> plain_val (PyDict (checkpoint_state env intent ctx tr))"
  by (auto simp: checkpoint_state_def split: option.splits)

lemma checkpoint_state_get:
  "dict_get (checkpoint_state env intent ctx tr) ''intent_action'' = Some (PyStr (in_action intent))"
  "dict_get (checkpoint_state env intent ctx tr) ''intent_agent'' = Some (PyStr (in_agent_id intent))"
  "dict_get (checkpoint_state env intent ctx tr) ''tool_result'' = Some (PyDict (tl_data tr))"
  by (simp_all add: checkpoint_state_def dict_get_def)

section \<open>A concrete stack\<close>

definition sample_lib :: StackLib where
  "sample_lib = \<lparr>sl_sha256 = (\<lambda>_. replicate 64 (CHR ''a'')), sl_float_repr = (\<lambda>_. ''0.0''), sl_float_read = (\<lambda>_. 0),
     sl_decode_msg = (\<lambda>_. [])\<rparr>"

definition sample_stack_env :: StackEnv where
  "sample_stack_env = \<lparr>se_t_evaluate = (0, 0), se_t_check = (0, 0), se_gateway = \<lparr>gc_start = 0, gc_audit = 0, gc_event = 0, gc_end = 0\<rparr>,
     se_uuid_hex = ''0123456789abcdef'', se_t_save = 0\<rparr>"

definition sample_stack :: "PolicyEngine \<Rightarrow> unit stack" where
  "sample_stack eng = \<lparr>sk_engine = eng, sk_gateway = sample_gateway,
     sk_checkpoints = CheckpointPersistenceAdapter_init InMemoryCheckpointRepository_init\<rparr>"

definition stack_runtime :: "PolicyEngine \<Rightarrow> unit stack runtime" where
  "stack_runtime eng = runtime_init (sample_stack eng) None None None False None"

definition denying_engine :: PolicyEngine where
  "denying_engine = (PolicyEngine_init None)\<lparr>pe_policies := [(''pol-1'',
     \<lparr>pr_policy_id = ''pol-1'', pr_tenant_id = [], pr_name = ''block'', pr_target = ''db.drop'', pr_effect = DENY, pr_condition = None,
      pr_priority = 1, pr_status = ACTIVE, pr_created_at = None, pr_updated_at = None, pr_required_capabilities = []\<rparr>)]\<rparr>"

definition drop_intent :: Intent where
  "drop_intent = \<lparr>in_agent_id = ''a1'', in_action = ''db.drop'', in_parameters = [], in_timestamp = 0\<rparr>"

lemma drop_pipe_free: "pipe_free (in_agent_id drop_intent)" "pipe_free (in_action drop_intent)"
  by (simp_all add: pipe_free_def drop_intent_def)

lemma stack_runtime_world: "rt_world (stack_runtime eng) = sample_stack eng" "sk_engine (sample_stack eng) = eng"
  by (simp_all add: stack_runtime_def runtime_init_def sample_stack_def)

definition allowing_engine :: PolicyEngine where
  "allowing_engine = denying_engine\<lparr>pe_policies := map (\<lambda>(k, r). (k, r\<lparr>pr_effect := ALLOW\<rparr>)) (pe_policies denying_engine)\<rparr>"

lemma allowing_engine_coherent: "policy_cache_coherent allowing_engine"
  by (simp add: policy_cache_coherent_def allowing_engine_def denying_engine_def PolicyEngine_init_def InMemoryPolicyCache_init_def)

lemma denying_engine_coherent: "policy_cache_coherent denying_engine"
  by (simp add: policy_cache_coherent_def denying_engine_def PolicyEngine_init_def InMemoryPolicyCache_init_def)

lemma denying_engine_denies: "\<not> rules_allow denying_engine drop_intent"
  unfolding rules_allow_def by code_simp

section \<open>Properties\<close>

text \<open>
  Property C8. A rule's denial leaves no trace outside the policy engine: when the first matching rule of least
  priority number says other than ALLOW, executing the intent changes neither the gateway (no tool is called, no
  audit entry is written) nor the checkpoint store, and no success is reported. It is assumed that the policy cache is
  coherent, which it is in every engine reached with requests without the separator \<^verbatim>\<open>|\<close>, and that the names of
  the intent's agent and action are without it; otherwise the cache can answer ALLOW (lemma policy_cache_key_collision).
\<close>

theorem denied_by_rule_leaves_no_trace:
  assumes "policy_cache_coherent (sk_engine (rt_world rt))" "pipe_free (in_agent_id intent)" "pipe_free (in_action intent)"
    and "\<not> rules_allow (sk_engine (rt_world rt)) intent"
    and "execute_intent (stack_abi lib se) env intent rt = (r, rt')"
  shows "sk_gateway (rt_world rt') = sk_gateway (rt_world rt) \<and> sk_checkpoints (rt_world rt') = sk_checkpoints (rt_world rt) \<and>
     (\<forall>res. r = Inr res \<longrightarrow> \<not> er_success res)"
proof (intro conjI allI impI)
  note den = stack_denied [OF assms(1-4), of lib se]
  from stack.denied_execution_keeps_effects [OF den, of env] assms(5)
  show "sk_gateway (rt_world rt') = sk_gateway (rt_world rt)" "sk_checkpoints (rt_world rt') = sk_checkpoints (rt_world rt)" by simp_all
  fix res assume r: "r = Inr res"
  from assms(5) show "\<not> er_success res"
  proof (cases rule: execute_intent_cases)
    case (admitted q rt1 rw)
    show ?thesis
    proof
      assume "er_success res"
      then have "er_success (fst rw)" using admitted(3) r by simp
      with chain_success [of "stack_abi lib se" env intent "rt_tenant_context rt" "rt_world rt" "fst rw" "snd rw"] admitted(2) den
      show False by (auto simp: denied_def)
    qed
  qed (use r in \<open>auto dest: admit_returned\<close>)
qed

theorem denied_by_rule_leaves_no_trace_witness:
  "\<exists>r rt'. execute_intent (stack_abi sample_lib sample_stack_env) sample_env drop_intent (stack_runtime denying_engine) = (r, rt') \<and>
     sk_gateway (rt_world rt') = sample_gateway"
proof -
  obtain r rt' where ex: "execute_intent (stack_abi sample_lib sample_stack_env) sample_env drop_intent (stack_runtime denying_engine) = (r, rt')"
    by fastforce
  from denied_by_rule_leaves_no_trace [OF _ drop_pipe_free _ ex] ex show ?thesis
    by (simp add: stack_runtime_world denying_engine_coherent denying_engine_denies) (simp add: sample_stack_def)
qed

text \<open>
  Property C6. What a success of the assembled system means: no rule matches the action (which the engine takes for
  ALLOW) or the first matching rule of least priority number says ALLOW, the tool that ran is registered, exactly one audit
  entry was written and it records that tool's success for the intent's agent, and the checkpoint named in
  the result, restored through the runtime, gives back the intent's action and agent and the tool's data
  (with nested keys sorted). It is assumed that the policy cache is coherent, which it is in every engine reached with
  requests without the separator \<^verbatim>\<open>|\<close>, and the checkpoint store well-formed, which every save under an unused
  identifier keeps, that the names of agent and action are without that separator,
  that the execution has an identifier, that digests have 64 characters and that the tool's data hold no floats.
\<close>

theorem stack_success_is_governed:
  assumes "policy_cache_coherent (sk_engine (rt_world rt))" "pipe_free (in_agent_id intent)" "pipe_free (in_action intent)"
    and "\<And>s. length (sl_sha256 lib s) = 64" "adapter_wf (sk_checkpoints (rt_world rt))" "xe_uuid env \<noteq> []"
    and "execute_intent (stack_abi lib se) env intent rt = (Inr res, rt')" "er_success res" "plain_val (PyDict (er_data res))"
  shows "(matching_rules (sk_engine (rt_world rt)) (in_action intent) = [] \<or>
      (\<exists>ys best zs. matching_rules (sk_engine (rt_world rt)) (in_action intent) = ys @ best # zs \<and> pr_effect best = ALLOW \<and>
         (\<forall>r \<in> set ys. pr_priority best < pr_priority r) \<and> (\<forall>r \<in> set zs. pr_priority best \<le> pr_priority r))) \<and>
     (\<exists>tool. ToolRegistry_get (gw_registry (sk_gateway (rt_world rt))) tool \<noteq> None \<and>
        map (\<lambda>e. (ga_tool_id e, ga_agent_id e, ga_success e)) (gw_audit_log (sk_gateway (rt_world rt'))) =
        map (\<lambda>e. (ga_tool_id e, ga_agent_id e, ga_success e)) (gw_audit_log (sk_gateway (rt_world rt))) @ [(tool, in_agent_id intent, True)]) \<and>
     (\<exists>cid kvs. er_checkpoint_id res = Some cid \<and>
        fst (restore_from_checkpoint (stack_abi lib se) cid [] [] rt') = Inr (PyDict kvs) \<and>
        dict_get kvs ''intent_action'' = Some (PyStr (in_action intent)) \<and>
        dict_get kvs ''intent_agent'' = Some (PyStr (in_agent_id intent)) \<and>
        dict_get kvs ''tool_result'' = Some (sort_keys (PyDict (er_data res))))"
proof -
  let ?abi = "stack_abi lib se" and ?w = "rt_world rt"
  obtain reason w1 cap_reason w2 path w3 tr w4 cid where c:
      "evaluate_intent ?abi intent ?w = (Inr (True, reason), w1)"
      "check_capability ?abi (in_action intent) (in_agent_id intent) w1 = (Inr (True, cap_reason), w2)"
      "route_intent ?abi intent w2 = (Inr path, w3)" "access_tool ?abi path intent w3 = (Inr tr, w4)"
      "persist_save ?abi (xe_uuid env) (checkpoint_state env intent (rt_tenant_context rt) tr) w4 = (Inr cid, rt_world rt')"
      "er_checkpoint_id res = Some cid" "er_data res = tl_data tr"
    using success_calls [OF assms(7,8)] by auto
  note early = stack_evaluate_keeps [OF c(1-3)] and acc = stack_access [OF c(4)] and save = stack_save [OF c(5)]
  have allow: "rules_allow (sk_engine ?w) intent"
  proof (rule ccontr)
    assume "\<not> rules_allow (sk_engine ?w) intent"
    then have "denied ?abi intent ?w" by (rule stack_denied [OF assms(1-3)])
    with c(1,2) show False by (simp add: denied_def)
  qed
  have "plain_val (PyDict (checkpoint_state env intent (rt_tenant_context rt) tr))"
    by (rule plain_checkpoint_state) (use assms(9) c(7) in simp)
  moreover have "adapter_wf (sk_checkpoints w4)" using assms(5) early acc(3) by simp
  ultimately obtain kvs where kvs:
      "adapter_restore (sl_float_read lib) (sl_decode_msg lib) cid (sk_checkpoints (rt_world rt')) = Inr (PyDict kvs)"
      "\<forall>k. dict_get kvs k = map_option sort_keys (dict_get (checkpoint_state env intent (rt_tenant_context rt) tr) k)"
    using adapter_save_restores [where ?sha256.0 = "sl_sha256 lib" and eid = "xe_uuid env" and a = "sk_checkpoints w4" and fr = "sl_float_repr lib"
        and state = "checkpoint_state env intent (rt_tenant_context rt) tr" and hex = "se_uuid_hex se" and now = "se_t_save se"
        and fl = "sl_float_read lib" and decode_msg = "sl_decode_msg lib", OF assms(6,4)] save(1) by auto
  have "fst (restore_from_checkpoint ?abi cid [] [] rt') = Inr (PyDict kvs)"
    using kvs(1) by (simp add: restore_from_checkpoint_def stack_abi_def split: option.splits)
  moreover have "dict_get kvs ''intent_action'' = Some (PyStr (in_action intent))"
    "dict_get kvs ''intent_agent'' = Some (PyStr (in_agent_id intent))"
    "dict_get kvs ''tool_result'' = Some (sort_keys (PyDict (er_data res)))"
    using c(7) by (simp_all add: kvs(2) checkpoint_state_get)
  moreover have "matching_rules (sk_engine ?w) (in_action intent) = [] \<or>
      (\<exists>ys best zs. matching_rules (sk_engine ?w) (in_action intent) = ys @ best # zs \<and> pr_effect best = ALLOW \<and>
         (\<forall>r \<in> set ys. pr_priority best < pr_priority r) \<and> (\<forall>r \<in> set zs. pr_priority best \<le> pr_priority r))"
    using allow rules_allow_best [of "sk_engine ?w" intent] by blast
  ultimately show ?thesis using acc(1,2) early save(2) c(6) by auto
qed

lemma sample_stack_succeeds:
  "case execute_intent (stack_abi sample_lib sample_stack_env) sample_env drop_intent (stack_runtime allowing_engine) of
     (Inr res, rt') \<Rightarrow> er_success res \<and> plain_val (PyDict (er_data res)) | _ \<Rightarrow> False"
  by code_simp

theorem stack_success_is_governed_witness:
  "\<exists>res rt' cid kvs. execute_intent (stack_abi sample_lib sample_stack_env) sample_env drop_intent (stack_runtime allowing_engine) = (Inr res, rt') \<and>
     er_checkpoint_id res = Some cid \<and>
     (\<exists>ys best zs. matching_rules allowing_engine ''db.drop'' = ys @ best # zs \<and> pr_effect best = ALLOW) \<and>
     fst (restore_from_checkpoint (stack_abi sample_lib sample_stack_env) cid [] [] rt') = Inr (PyDict kvs) \<and>
     dict_get kvs ''intent_action'' = Some (PyStr ''db.drop'')"
proof -
  obtain res rt' where ex: "execute_intent (stack_abi sample_lib sample_stack_env) sample_env drop_intent (stack_runtime allowing_engine) = (Inr res, rt')"
      "er_success res" "plain_val (PyDict (er_data res))"
    using sample_stack_succeeds by (auto split: prod.splits sum.splits)
  have sha: "\<And>s. length (sl_sha256 sample_lib s) = 64" by (simp add: sample_lib_def)
  have wf: "adapter_wf (sk_checkpoints (rt_world (stack_runtime allowing_engine)))"
    unfolding stack_runtime_world(1) by (simp add: sample_stack_def adapter_wf_init)
  have "matching_rules allowing_engine ''db.drop'' \<noteq> []" by code_simp
  with stack_success_is_governed [OF _ drop_pipe_free sha wf _ ex] ex(1) show ?thesis
    by (auto simp: stack_runtime_world allowing_engine_coherent drop_intent_def sample_env_def)
qed

end
