(* ===== verification/Orchestrator.thy ===== *)
theory Orchestrator
  imports Errors
begin

text \<open>
  \<^verbatim>\<open>control_plane/orchestrator/state_machine.py\<close>, \<^verbatim>\<open>control_plane/orchestrator/coordinator.py\<close> and
  \<^verbatim>\<open>control_plane/lifecycle/manager.py\<close>: the control plane's execution state machine with its transition
  history, the step planner and the lifecycle manager over both. The agent registry the manager
  asks is an abstract interface: its lookup is the argument \<open>get_instance\<close>.
\<close>

section \<open>State machine\<close>

datatype ExecutionStatus = XS_PENDING | XS_RUNNING | XS_PAUSED | XS_RESUMING | XS_COMPLETED | XS_FAILED

primrec ExecutionStatus_value :: "ExecutionStatus \<Rightarrow> string" where
  "ExecutionStatus_value XS_PENDING = ''PENDING''"
| "ExecutionStatus_value XS_RUNNING = ''RUNNING''"
| "ExecutionStatus_value XS_PAUSED = ''PAUSED''"
| "ExecutionStatus_value XS_RESUMING = ''RESUMING''"
| "ExecutionStatus_value XS_COMPLETED = ''COMPLETED''"
| "ExecutionStatus_value XS_FAILED = ''FAILED''"

record StateTransition =
  st_from_state :: ExecutionStatus
  st_to_state :: ExecutionStatus
  st_reason :: string
  st_actor :: string
  st_timestamp :: time
  st_metadata :: pyobj

primrec LEGAL_TRANSITIONS :: "ExecutionStatus \<Rightarrow> ExecutionStatus set" where
  "LEGAL_TRANSITIONS XS_PENDING = {XS_RUNNING, XS_FAILED}"
| "LEGAL_TRANSITIONS XS_RUNNING = {XS_PAUSED, XS_COMPLETED, XS_FAILED}"
| "LEGAL_TRANSITIONS XS_PAUSED = {XS_RESUMING, XS_FAILED}"
| "LEGAL_TRANSITIONS XS_RESUMING = {XS_RUNNING, XS_FAILED}"
| "LEGAL_TRANSITIONS XS_COMPLETED = {}"
| "LEGAL_TRANSITIONS XS_FAILED = {}"

record ExecutionStateMachine =
  sm_current_state :: ExecutionStatus
  sm_history :: "StateTransition list"

definition ExecutionStateMachine_init :: "ExecutionStatus \<Rightarrow> ExecutionStateMachine" where
  "ExecutionStateMachine_init initial = \<lparr>sm_current_state = initial, sm_history = []\<rparr>"

definition can_transition :: "ExecutionStateMachine \<Rightarrow> ExecutionStatus \<Rightarrow> bool" where
  "can_transition sm target = (target \<in> LEGAL_TRANSITIONS (sm_current_state sm))"

definition sm_transition ::
  "ExecutionStatus \<Rightarrow> string \<Rightarrow> string \<Rightarrow> pyobj \<Rightarrow> time \<Rightarrow> ExecutionStateMachine \<Rightarrow>
   exn + StateTransition \<times> ExecutionStateMachine" where
  "sm_transition target reason actor metadata now sm =
     (if \<not> can_transition sm target
      then Inl (InvalidTransitionError (ExecutionStatus_value (sm_current_state sm)) (ExecutionStatus_value target))
      else
        let record = \<lparr>st_from_state = sm_current_state sm, st_to_state = target, st_reason = reason, st_actor = actor,
                      st_timestamp = now, st_metadata = metadata\<rparr>
        in Inr (record, sm\<lparr>sm_current_state := target, sm_history := sm_history sm @ [record]\<rparr>))"

text \<open>The guarded call that the lifecycle manager makes everywhere: transition only where it is legal.\<close>

definition try_transition ::
  "ExecutionStatus \<Rightarrow> string \<Rightarrow> string \<Rightarrow> pyobj \<Rightarrow> time \<Rightarrow> ExecutionStateMachine \<Rightarrow> ExecutionStateMachine" where
  "try_transition target reason actor metadata now sm =
     (case sm_transition target reason actor metadata now sm of Inl _ \<Rightarrow> sm | Inr (_, sm') \<Rightarrow> sm')"

section \<open>Step planning\<close>

datatype StepAction = SA_EXECUTE | SA_PAUSE_FOR_APPROVAL | SA_CHECKPOINT | SA_COMPLETE | SA_FAIL

record StepPlan =
  sp_action :: StepAction
  sp_execution_id :: string
  sp_step_number :: int
  sp_reason :: string
  sp_metadata :: "pyobj option"

definition plan_step :: "int \<Rightarrow> string \<Rightarrow> int \<Rightarrow> string \<Rightarrow> rat \<Rightarrow> string list \<Rightarrow> StepPlan" where
  "plan_step max_steps execution_id step_number goal budget_remaining allowed_tools =
     (let plan = (\<lambda>action reason. \<lparr>sp_action = action, sp_execution_id = execution_id, sp_step_number = step_number,
                     sp_reason = reason, sp_metadata = None\<rparr>)
      in if step_number \<ge> max_steps then plan SA_COMPLETE ''max_steps_reached''
         else if budget_remaining \<le> 0 then plan SA_PAUSE_FOR_APPROVAL ''budget_exceeded''
         else if allowed_tools = [] then plan SA_COMPLETE ''no_tools_available''
         else plan SA_EXECUTE ''ready_to_execute'')"

definition validate_step_prerequisites :: "string \<Rightarrow> int \<Rightarrow> int \<Rightarrow> bool \<times> string" where
  "validate_step_prerequisites current_state step_number max_steps =
     (if current_state \<notin> {''RUNNING'', ''RESUMING''}
      then (False, ''Cannot execute step in state: '' @ current_state)
      else if step_number \<ge> max_steps then (False, ''Step limit exceeded'')
      else (True, ''prerequisites_met''))"

section \<open>Lifecycle manager\<close>

record LifecycleManager =
  lm_state_machines :: "(string, ExecutionStateMachine) dict"

definition get_state_machine :: "string \<Rightarrow> LifecycleManager \<Rightarrow> ExecutionStateMachine \<times> LifecycleManager" where
  "get_state_machine execution_id m =
     (case dict_get (lm_state_machines m) execution_id of
        Some sm \<Rightarrow> (sm, m)
      | None \<Rightarrow>
          let sm = ExecutionStateMachine_init XS_PENDING
          in (sm, m\<lparr>lm_state_machines := dict_set execution_id sm (lm_state_machines m)\<rparr>))"

text \<open>Writing back a machine after its methods ran.\<close>

definition put_machine :: "string \<Rightarrow> ExecutionStateMachine \<Rightarrow> LifecycleManager \<Rightarrow> LifecycleManager" where
  "put_machine execution_id sm m = m\<lparr>lm_state_machines := dict_set execution_id sm (lm_state_machines m)\<rparr>"

definition start_execution ::
  "(string \<Rightarrow> pyobj option) \<Rightarrow> string \<Rightarrow> string \<Rightarrow> time \<Rightarrow> LifecycleManager \<Rightarrow> (exn + string) \<times> LifecycleManager" where
  "start_execution get_instance instance_id goal now m =
     (case get_instance instance_id of
        None \<Rightarrow> (Inl (AgentInstanceNotFoundError instance_id), m)
      | Some _ \<Rightarrow>
          let execution_id = ''exec-'' @ instance_id;
              (sm, m1) = get_state_machine execution_id m;
              sm' = (if can_transition sm XS_RUNNING
                     then try_transition XS_RUNNING ''user_started'' ''lifecycle_manager''
                            [(''instance_id'', PyStr instance_id), (''goal'', PyStr goal)] now sm
                     else sm)
          in (Inr execution_id, put_machine execution_id sm' m1))"

definition stop_execution :: "string \<Rightarrow> time \<Rightarrow> LifecycleManager \<Rightarrow> LifecycleManager" where
  "stop_execution execution_id now m =
     (let (sm, m1) = get_state_machine execution_id m in
      if sm_current_state sm \<in> {XS_COMPLETED, XS_FAILED} then m1
      else if can_transition sm XS_FAILED
      then put_machine execution_id (try_transition XS_FAILED ''user_stopped'' ''lifecycle_manager'' [] now sm) m1
      else m1)"

definition pause_execution :: "string \<Rightarrow> time \<Rightarrow> LifecycleManager \<Rightarrow> LifecycleManager" where
  "pause_execution execution_id now m =
     (let (sm, m1) = get_state_machine execution_id m in
      if can_transition sm XS_PAUSED
      then put_machine execution_id (try_transition XS_PAUSED ''user_paused'' ''lifecycle_manager'' [] now sm) m1
      else m1)"

definition resume_execution :: "string \<Rightarrow> time \<Rightarrow> time \<Rightarrow> LifecycleManager \<Rightarrow> LifecycleManager" where
  "resume_execution execution_id now1 now2 m =
     (let (sm, m1) = get_state_machine execution_id m;
          sm1 = (if can_transition sm XS_RESUMING
                 then try_transition XS_RESUMING ''user_resumed'' ''lifecycle_manager'' [] now1 sm else sm);
          sm2 = (if can_transition sm1 XS_RUNNING
                 then try_transition XS_RUNNING ''step_execution_started'' ''orchestrator'' [] now2 sm1 else sm1)
      in put_machine execution_id sm2 m1)"

definition get_execution_status :: "string \<Rightarrow> LifecycleManager \<Rightarrow> string \<times> LifecycleManager" where
  "get_execution_status execution_id m =
     (let (sm, m1) = get_state_machine execution_id m in (ExecutionStatus_value (sm_current_state sm), m1))"

definition get_transition_history :: "string \<Rightarrow> LifecycleManager \<Rightarrow> pyobj list \<times> LifecycleManager" where
  "get_transition_history execution_id m =
     (let (sm, m1) = get_state_machine execution_id m in
      (map (\<lambda>t. [(''from_state'', PyStr (ExecutionStatus_value (st_from_state t))),
                 (''to_state'', PyStr (ExecutionStatus_value (st_to_state t))),
                 (''reason'', PyStr (st_reason t)), (''actor'', PyStr (st_actor t)),
                 (''timestamp'', PyStr (isoformat (st_timestamp t)))]) (sm_history sm), m1))"

section \<open>Histories\<close>

text \<open>
  The history of a machine that started in \<open>s\<close> is a chain of legal transitions from \<open>s\<close> to its
  current state.
\<close>

fun chained :: "ExecutionStatus \<Rightarrow> StateTransition list \<Rightarrow> ExecutionStatus \<Rightarrow> bool" where
  "chained s [] t = (s = t)"
| "chained s (r # rs) t = (st_from_state r = s \<and> st_to_state r \<in> LEGAL_TRANSITIONS s \<and> chained (st_to_state r) rs t)"

definition machine_wf :: "ExecutionStateMachine \<Rightarrow> bool" where
  "machine_wf sm = chained XS_PENDING (sm_history sm) (sm_current_state sm)"

definition manager_wf :: "LifecycleManager \<Rightarrow> bool" where
  "manager_wf m \<longleftrightarrow> (\<forall>eid sm. dict_get (lm_state_machines m) eid = Some sm \<longrightarrow> machine_wf sm)"

text \<open>The status of an execution, PENDING for one never heard of.\<close>

definition status_of :: "LifecycleManager \<Rightarrow> string \<Rightarrow> ExecutionStatus" where
  "status_of m eid = (case dict_get (lm_state_machines m) eid of None \<Rightarrow> XS_PENDING | Some sm \<Rightarrow> sm_current_state sm)"

lemma chained_append: "chained s (rs @ [r]) t \<longleftrightarrow>
    (\<exists>u. chained s rs u \<and> st_from_state r = u \<and> st_to_state r \<in> LEGAL_TRANSITIONS u \<and> st_to_state r = t)"
  by (induction rs arbitrary: s) auto

lemma machine_wf_init: "machine_wf (ExecutionStateMachine_init XS_PENDING)"
  by (simp add: machine_wf_def ExecutionStateMachine_init_def)

lemma machine_wf_transition [wf_intros]:
  "machine_wf sm \<Longrightarrow> sm_transition target reason actor md now sm = Inr (r, sm') \<Longrightarrow> machine_wf sm'"
  by (auto simp: sm_transition_def machine_wf_def chained_append can_transition_def Let_def split: if_splits)

lemma try_transition_state:
  "sm_current_state (try_transition target reason actor md now sm) =
     (if can_transition sm target then target else sm_current_state sm)"
  by (simp add: try_transition_def sm_transition_def Let_def)

lemma machine_wf_try [wf_intros]: "machine_wf sm \<Longrightarrow> machine_wf (try_transition target reason actor md now sm)"
  unfolding try_transition_def by (auto split: sum.splits intro: machine_wf_transition)

lemma get_state_machine_spec:
  assumes "get_state_machine eid m = (sm, m1)"
  shows "sm_current_state sm = status_of m eid" "status_of m1 eid' = status_of m eid'"
    "manager_wf m \<Longrightarrow> machine_wf sm" "manager_wf m \<Longrightarrow> manager_wf m1"
  using assms machine_wf_init
  by (auto simp: get_state_machine_def status_of_def manager_wf_def ExecutionStateMachine_init_def Let_def
      split: option.splits if_splits)

lemma put_machine_spec:
  "status_of (put_machine eid sm m) eid' = (if eid' = eid then sm_current_state sm else status_of m eid')"
  "manager_wf m \<Longrightarrow> machine_wf sm \<Longrightarrow> manager_wf (put_machine eid sm m)"
  by (auto simp: put_machine_def status_of_def manager_wf_def)

inductive manager_step :: "LifecycleManager \<Rightarrow> LifecycleManager \<Rightarrow> bool" where
  start: "start_execution get_instance iid goal now m = (r, m') \<Longrightarrow> manager_step m m'"
| stop: "manager_step m (stop_execution eid now m)"
| pause: "manager_step m (pause_execution eid now m)"
| resume: "manager_step m (resume_execution eid now1 now2 m)"
| status: "get_execution_status eid m = (s, m') \<Longrightarrow> manager_step m m'"
| trail: "get_transition_history eid m = (h, m') \<Longrightarrow> manager_step m m'"

text \<open>How each operation changes the status of the execution it names; other executions keep theirs.\<close>

lemma start_status:
  assumes "start_execution get_instance iid goal now m = (r, m')"
  shows "status_of m' eid' = (if get_instance iid \<noteq> None \<and> eid' = ''exec-'' @ iid \<and> XS_RUNNING \<in> LEGAL_TRANSITIONS (status_of m eid')
     then XS_RUNNING else status_of m eid')"
proof -
  obtain sm m1 where g: "get_state_machine (''exec-'' @ iid) m = (sm, m1)" by fastforce
  note sp = get_state_machine_spec(1,2) [OF g]
  show ?thesis
    using assms g sp
    by (auto simp: start_execution_def Let_def put_machine_spec try_transition_state can_transition_def split: option.splits if_splits)
qed

lemma stop_status:
  "status_of (stop_execution eid now m) eid' =
     (if eid' = eid \<and> status_of m eid \<notin> {XS_COMPLETED, XS_FAILED} then XS_FAILED else status_of m eid')"
proof -
  obtain sm m1 where g: "get_state_machine eid m = (sm, m1)" by fastforce
  note sp = get_state_machine_spec(1,2) [OF g]
  show ?thesis
    using g sp
    by (cases "status_of m eid") (auto simp: stop_execution_def Let_def put_machine_spec try_transition_state can_transition_def)
qed

lemma pause_status:
  "status_of (pause_execution eid now m) eid' =
     (if eid' = eid \<and> status_of m eid = XS_RUNNING then XS_PAUSED else status_of m eid')"
proof -
  obtain sm m1 where g: "get_state_machine eid m = (sm, m1)" by fastforce
  note sp = get_state_machine_spec(1,2) [OF g]
  show ?thesis
    using g sp
    by (cases "status_of m eid") (auto simp: pause_execution_def Let_def put_machine_spec try_transition_state can_transition_def)
qed

lemma resume_status:
  "status_of (resume_execution eid now1 now2 m) eid' =
     (if eid' = eid \<and> status_of m eid \<in> {XS_PENDING, XS_PAUSED, XS_RESUMING} then XS_RUNNING else status_of m eid')"
proof -
  obtain sm m1 where g: "get_state_machine eid m = (sm, m1)" by fastforce
  note sp = get_state_machine_spec(1,2) [OF g]
  show ?thesis
    using g sp
    by (cases "status_of m eid") (auto simp: resume_execution_def Let_def put_machine_spec try_transition_state can_transition_def)
qed

lemma query_status:
  "get_execution_status eid m = (s, m') \<Longrightarrow> status_of m' eid' = status_of m eid'"
  "get_transition_history eid m = (h, m') \<Longrightarrow> status_of m' eid' = status_of m eid'"
  using get_state_machine_spec(2) by (fastforce simp: get_execution_status_def get_transition_history_def Let_def split: prod.splits)+

lemma manager_step_terminal:
  "manager_step m m' \<Longrightarrow> status_of m eid \<in> {XS_COMPLETED, XS_FAILED} \<Longrightarrow> status_of m' eid = status_of m eid"
proof (induction rule: manager_step.induct)
  case (start get_instance iid goal now m r m')
  then show ?case using start_status [OF start(1), of eid] by auto
qed (auto simp: stop_status pause_status resume_status dest: query_status)

lemma manager_step_wf: "manager_step m m' \<Longrightarrow> manager_wf m \<Longrightarrow> manager_wf m'"
proof (induction rule: manager_step.induct)
  case (start get_instance iid goal now m r m')
  obtain sm m1 where g: "get_state_machine (''exec-'' @ iid) m = (sm, m1)" by fastforce
  then show ?case
    using start get_state_machine_spec(3,4) [OF g]
    by (auto simp: start_execution_def Let_def intro!: put_machine_spec wf_intros split: option.splits if_splits)
next
  case (stop m eid now)
  obtain sm m1 where g: "get_state_machine eid m = (sm, m1)" by fastforce
  then show ?case
    using stop get_state_machine_spec(3,4) [OF g]
    by (auto simp: stop_execution_def Let_def intro!: put_machine_spec wf_intros)
next
  case (pause m eid now)
  obtain sm m1 where g: "get_state_machine eid m = (sm, m1)" by fastforce
  then show ?case
    using pause get_state_machine_spec(3,4) [OF g]
    by (auto simp: pause_execution_def Let_def intro!: put_machine_spec wf_intros)
next
  case (resume m eid now1 now2)
  obtain sm m1 where g: "get_state_machine eid m = (sm, m1)" by fastforce
  then show ?case
    using resume get_state_machine_spec(3,4) [OF g]
    by (auto simp: resume_execution_def Let_def intro!: put_machine_spec wf_intros)
qed (auto simp: get_execution_status_def get_transition_history_def Let_def split: prod.splits dest: get_state_machine_spec(4))

lemma manager_steps_wf: "manager_step\<^sup>*\<^sup>* m m' \<Longrightarrow> manager_wf m \<Longrightarrow> manager_wf m'"
  by (induction rule: rtranclp_induct) (auto intro: manager_step_wf)

lemma manager_steps_terminal:
  "manager_step\<^sup>*\<^sup>* m m' \<Longrightarrow> status_of m eid \<in> {XS_COMPLETED, XS_FAILED} \<Longrightarrow> status_of m' eid = status_of m eid"
  by (induction rule: rtranclp_induct) (auto dest: manager_step_terminal)

section \<open>Properties\<close>

text \<open>
  Property C39. Histories are causal: in every lifecycle manager reached from an empty one by any
  sequence of its operations, the transition history of each execution is a chain of legal
  transitions from PENDING to its current state.
\<close>

theorem lifecycle_histories_legal:
  assumes "manager_step\<^sup>*\<^sup>* \<lparr>lm_state_machines = []\<rparr> m" "dict_get (lm_state_machines m) eid = Some sm"
  shows "chained XS_PENDING (sm_history sm) (sm_current_state sm)"
proof -
  have "manager_wf \<lparr>lm_state_machines = []\<rparr>" by (simp add: manager_wf_def)
  from manager_steps_wf [OF assms(1) this] assms(2) show ?thesis by (simp add: manager_wf_def machine_wf_def)
qed

theorem lifecycle_histories_legal_witness:
  "\<exists>sm. dict_get (lm_state_machines (resume_execution ''e'' 0 0 \<lparr>lm_state_machines = []\<rparr>)) ''e'' = Some sm \<and>
     chained XS_PENDING (sm_history sm) (sm_current_state sm)"
proof -
  let ?m = "resume_execution ''e'' 0 0 \<lparr>lm_state_machines = []\<rparr>"
  obtain sm where sm: "dict_get (lm_state_machines ?m) ''e'' = Some sm"
    by (auto simp: resume_execution_def put_machine_def split_beta Let_def)
  have "manager_step\<^sup>*\<^sup>* \<lparr>lm_state_machines = []\<rparr> ?m" by (blast intro: manager_step.resume)
  from lifecycle_histories_legal [OF this sm] sm show ?thesis by blast
qed

text \<open>
  A stopped execution stays stopped, silently: once an execution is COMPLETED or FAILED no
  sequence of operations changes its status, and \<^verbatim>\<open>start_execution\<close> for its instance still returns the
  execution's identifier as if it had been started.
\<close>

lemma restart_is_silently_ignored:
  assumes "status_of m (''exec-'' @ iid) \<in> {XS_COMPLETED, XS_FAILED}" "manager_step\<^sup>*\<^sup>* m m'" "get_instance iid \<noteq> None"
  shows "fst (start_execution get_instance iid goal now m') = Inr (''exec-'' @ iid) \<and>
     status_of (snd (start_execution get_instance iid goal now m')) (''exec-'' @ iid) = status_of m (''exec-'' @ iid)"
proof -
  have "status_of m' (''exec-'' @ iid) = status_of m (''exec-'' @ iid)" by (rule manager_steps_terminal [OF assms(2,1)])
  moreover have "fst (start_execution get_instance iid goal now m') = Inr (''exec-'' @ iid)"
    using assms(3) by (auto simp: start_execution_def Let_def split_beta)
  moreover have "status_of (snd (start_execution get_instance iid goal now m')) (''exec-'' @ iid) = status_of m' (''exec-'' @ iid)"
    using start_status [OF surjective_pairing, of get_instance iid goal now m' "''exec-'' @ iid"] assms(1) calculation(1) by auto
  ultimately show ?thesis by simp
qed

lemma restart_is_silently_ignored_witness:
  "fst (start_execution (\<lambda>_. Some []) ''i'' ''g'' 2 (stop_execution ''exec-i'' 1 \<lparr>lm_state_machines = []\<rparr>)) = Inr ''exec-i''"
proof -
  let ?m = "stop_execution ''exec-i'' 1 \<lparr>lm_state_machines = []\<rparr>"
  have "status_of ?m (''exec-'' @ ''i'') \<in> {XS_COMPLETED, XS_FAILED}"
    using stop_status [of "''exec-i''" 1 "\<lparr>lm_state_machines = []\<rparr>" "''exec-i''"] by (simp add: status_of_def)
  from restart_is_silently_ignored [OF this rtranclp.rtrancl_refl, of "\<lambda>_. Some []"] show ?thesis by simp
qed

text \<open>
  \<^verbatim>\<open>resume_execution\<close> starts executions: on an execution that was never started (any unknown
  identifier) it leads to RUNNING, with no instance looked up; on a paused one it passes through
  RESUMING to RUNNING, and a running or terminal one it leaves alone.
\<close>

lemma resume_starts_pending_executions:
  "status_of (resume_execution eid now1 now2 m) eid =
     (if status_of m eid \<in> {XS_PENDING, XS_PAUSED, XS_RESUMING} then XS_RUNNING else status_of m eid) \<and>
   status_of \<lparr>lm_state_machines = []\<rparr> eid = XS_PENDING"
  by (simp add: resume_status) (simp add: status_of_def)

end
