(* ===== verification/Step_Runtime.thy ===== *)
theory Step_Runtime
  imports Checkpoint Orchestrator Observability
begin

text \<open>
  Step execution: the contracts \<^verbatim>\<open>core/contracts/step_request.py\<close> and \<^verbatim>\<open>step_response.py\<close>, the execution
  context and its builder (\<^verbatim>\<open>kernel/execution/context.py\<close>, \<^verbatim>\<open>context_builder.py\<close>), the in-memory step
  executor (\<^verbatim>\<open>kernel/execution/in_memory.py\<close>) and the adapter that plans a step, runs it and reports
  failures to the state machine (\<^verbatim>\<open>control_plane/adapters/to_runtime/runtime.py\<close>).

  The checkpoint store that a context carries is typed \<^verbatim>\<open>Any\<close>: its type is \<open>'r\<close> and its \<^verbatim>\<open>save\<close> an
  argument, with the contract of \<^verbatim>\<open>CheckpointRepository\<close> as a locale that the in-memory repository
  interprets. It is shared by reference, so an operation returns the store it leaves. Deep copies
  are values here. The memory reference is carried and never used.
\<close>

section \<open>Contracts\<close>

record StepRequest =
  sq_execution_id :: string
  sq_agent_id :: string
  sq_goal :: string
  sq_state :: pyobj
  sq_allowed_tools :: "string list"
  sq_allowed_models :: "string list"
  sq_max_tokens :: int
  sq_max_time_seconds :: int

datatype StepStatus = SS_COMPLETED | SS_TOOL_REQUEST | SS_APPROVAL_REQUIRED | SS_CHECKPOINT_REQUIRED | SS_FAILED

record ToolRequest =
  tq_mcp_server :: string
  tq_tool_name :: string
  tq_arguments :: pyobj

record StepResponse =
  ss_status :: StepStatus
  ss_updated_state :: pyobj
  ss_output :: string
  ss_tool_request :: "ToolRequest option"
  ss_error_message :: string
  ss_tokens_consumed :: int

section \<open>Context and builder\<close>

record 'r ExecutionContext =
  xc_execution_id :: string
  xc_agent_id :: string
  xc_step_number :: int
  xc_state :: pyobj
  xc_budget_remaining :: int
  xc_tokens_per_step :: int
  xc_allowed_tools :: "string list"
  xc_metadata :: pyobj
  xc_tokens_consumed :: int
  xc_memory :: "pyval option"
  xc_checkpoint :: "'r option"

text \<open>The builder has the fields of the context; \<^verbatim>\<open>build\<close> copies them.\<close>

record 'r ContextBuilder =
  cb_execution_id :: string
  cb_agent_id :: string
  cb_step_number :: int
  cb_budget_remaining :: int
  cb_tokens_per_step :: int
  cb_state :: pyobj
  cb_allowed_tools :: "string list"
  cb_metadata :: pyobj
  cb_tokens_consumed :: int
  cb_memory :: "pyval option"
  cb_checkpoint :: "'r option"

definition ContextBuilder_init :: "string \<Rightarrow> string \<Rightarrow> exn + 'r ContextBuilder" where
  "ContextBuilder_init execution_id agent_id =
     (if execution_id = [] then Inl (ValueError ''execution_id is required'')
      else if agent_id = [] then Inl (ValueError ''agent_id is required'')
      else Inr \<lparr>cb_execution_id = execution_id, cb_agent_id = agent_id, cb_step_number = 0, cb_budget_remaining = 0,
             cb_tokens_per_step = 10, cb_state = [], cb_allowed_tools = [], cb_metadata = [], cb_tokens_consumed = 0,
             cb_memory = None, cb_checkpoint = None\<rparr>)"

definition with_step_number :: "int \<Rightarrow> 'r ContextBuilder \<Rightarrow> 'r ContextBuilder" where
  "with_step_number step_number b = b\<lparr>cb_step_number := step_number\<rparr>"

definition with_budget :: "int \<Rightarrow> 'r ContextBuilder \<Rightarrow> 'r ContextBuilder" where
  "with_budget budget b = b\<lparr>cb_budget_remaining := budget\<rparr>"

definition with_tokens_per_step :: "int \<Rightarrow> 'r ContextBuilder \<Rightarrow> 'r ContextBuilder" where
  "with_tokens_per_step n b = b\<lparr>cb_tokens_per_step := n\<rparr>"

definition with_state :: "pyobj \<Rightarrow> 'r ContextBuilder \<Rightarrow> 'r ContextBuilder" where
  "with_state state b = b\<lparr>cb_state := state\<rparr>"

definition with_allowed_tools :: "string list \<Rightarrow> 'r ContextBuilder \<Rightarrow> 'r ContextBuilder" where
  "with_allowed_tools tools b = b\<lparr>cb_allowed_tools := tools\<rparr>"

definition with_metadata :: "pyobj \<Rightarrow> 'r ContextBuilder \<Rightarrow> 'r ContextBuilder" where
  "with_metadata metadata b = b\<lparr>cb_metadata := metadata\<rparr>"

definition with_memory :: "pyval option \<Rightarrow> 'r ContextBuilder \<Rightarrow> 'r ContextBuilder" where
  "with_memory memory b = b\<lparr>cb_memory := memory\<rparr>"

definition with_checkpoint :: "'r option \<Rightarrow> 'r ContextBuilder \<Rightarrow> 'r ContextBuilder" where
  "with_checkpoint checkpoint b = b\<lparr>cb_checkpoint := checkpoint\<rparr>"

definition build :: "'r ContextBuilder \<Rightarrow> 'r ExecutionContext" where
  "build b =
     \<lparr>xc_execution_id = cb_execution_id b, xc_agent_id = cb_agent_id b, xc_step_number = cb_step_number b,
      xc_state = cb_state b, xc_budget_remaining = cb_budget_remaining b, xc_tokens_per_step = cb_tokens_per_step b,
      xc_allowed_tools = cb_allowed_tools b, xc_metadata = cb_metadata b, xc_tokens_consumed = cb_tokens_consumed b,
      xc_memory = cb_memory b, xc_checkpoint = cb_checkpoint b\<rparr>"

section \<open>The in-memory step executor\<close>

definition validate_request :: "StepRequest \<Rightarrow> exn + unit" where
  "validate_request request =
     (let errors = require (sq_execution_id request \<noteq> []) ''execution_id is required'' @
                   require (sq_agent_id request \<noteq> []) ''agent_id is required'' @
                   require (sq_goal request \<noteq> []) ''goal is required''
      in if errors \<noteq> [] then Inl (InvalidStepRequestError errors) else Inr ())"

definition step_check_budget :: "'r ExecutionContext \<Rightarrow> exn + unit" where
  "step_check_budget ctx = (if xc_budget_remaining ctx \<le> 0 then Inl (BudgetExceededError 0 0) else Inr ())"

text \<open>
  \<^verbatim>\<open>runtime_meta.get("steps_executed", 0) + 1\<close> on whatever the state holds under \<^verbatim>\<open>_runtime\<close>: only a
  dictionary has \<^verbatim>\<open>get\<close>, and only a number can be added to.
\<close>

definition next_step_count :: "pyobj \<Rightarrow> exn + pyval" where
  "next_step_count state =
     (case dict_get_or state ''_runtime'' (PyDict []) of
        PyDict runtime_meta \<Rightarrow> py_add_int (dict_get_or runtime_meta ''steps_executed'' (PyInt 0)) 1
      | _ \<Rightarrow> Inl (OtherError ''object has no attribute get''))"

definition step_checkpoint :: "string \<Rightarrow> time \<Rightarrow> 'r ExecutionContext \<Rightarrow> Checkpoint" where
  "step_checkpoint uuid now ctx =
     \<lparr>ck_checkpoint_id = uuid, ck_execution_id = xc_execution_id ctx, ck_version = xc_step_number ctx,
      ck_trigger_reason = STEP_COMPLETE, ck_checkpoint_hash = ''auto'', ck_schema_version = ''1.0'',
      ck_parent_checkpoint_id = None, ck_agent_state_ref = None, ck_memory_refs = [], ck_tool_history = [],
      ck_created_at = Some now\<rparr>"

definition execute_step ::
  "(Checkpoint \<Rightarrow> (Checkpoint, 'r) call) \<Rightarrow> string \<Rightarrow> time \<Rightarrow> StepRequest \<Rightarrow> (StepResponse, 'r ExecutionContext) call" where
  "execute_step save uuid now request ctx =
     (case validate_request request of Inl e \<Rightarrow> (Inl e, ctx) | Inr _ \<Rightarrow>
      (case step_check_budget ctx of Inl e \<Rightarrow> (Inl e, ctx) | Inr _ \<Rightarrow>
       (case next_step_count (sq_state request) of Inl e \<Rightarrow> (Inl e, ctx) | Inr steps \<Rightarrow>
        let node = ''step-'' @ int_str (xc_step_number ctx);
            updated_state = dict_set ''_runtime'' (PyDict [(''steps_executed'', steps), (''last_node'', PyStr node)])
                              (sq_state request);
            tokens = xc_tokens_per_step ctx;
            ctx' = ctx\<lparr>xc_tokens_consumed := xc_tokens_consumed ctx + tokens,
                       xc_budget_remaining := xc_budget_remaining ctx - tokens\<rparr>;
            response = \<lparr>ss_status = SS_COMPLETED, ss_updated_state = updated_state,
                        ss_output = ''Step '' @ int_str (xc_step_number ctx) @ '' executed for goal: '' @ sq_goal request,
                        ss_tool_request = None, ss_error_message = [], ss_tokens_consumed = tokens\<rparr>
        in case xc_checkpoint ctx' of
             None \<Rightarrow> (Inr response, ctx')
           | Some store \<Rightarrow>
               (case save (step_checkpoint uuid now ctx') store of
                  (Inl e, store') \<Rightarrow> (Inl e, ctx'\<lparr>xc_checkpoint := Some store'\<rparr>)
                | (Inr _, store') \<Rightarrow> (Inr response, ctx'\<lparr>xc_checkpoint := Some store'\<rparr>)))))"

section \<open>The adapter\<close>

record 'r RuntimeExecutorAdapter =
  ra_max_steps :: int
  ra_memory :: "pyval option"
  ra_checkpoint :: "'r option"

text \<open>\<^verbatim>\<open>int(x)\<close> of a float truncates towards zero.\<close>

definition py_int :: "rat \<Rightarrow> int" where
  "py_int x = (if 0 \<le> x then \<lfloor>x\<rfloor> else \<lceil>x\<rceil>)"

definition step_context ::
  "string \<Rightarrow> string \<Rightarrow> int \<Rightarrow> pyobj \<Rightarrow> rat \<Rightarrow> string list \<Rightarrow> 'r RuntimeExecutorAdapter \<Rightarrow> exn + 'r ExecutionContext" where
  "step_context execution_id agent_id step_number safe_state budget_remaining allowed_tools ra =
     (case ContextBuilder_init execution_id agent_id of
        Inl e \<Rightarrow> Inl e
      | Inr b \<Rightarrow> Inr (build (with_checkpoint (ra_checkpoint ra) (with_memory (ra_memory ra)
                  (with_allowed_tools allowed_tools (with_state safe_state (with_step_number step_number
                    (with_budget (py_int budget_remaining) b))))))))"

definition report_failure :: "string \<Rightarrow> time \<Rightarrow> ExecutionStateMachine \<Rightarrow> ExecutionStateMachine" where
  "report_failure reason now sm =
     (if can_transition sm XS_FAILED then try_transition XS_FAILED reason ''runtime_adapter'' [] now sm else sm)"

definition adapter_execute_step ::
  "(StepRequest \<Rightarrow> (StepResponse, 'r ExecutionContext) call) \<Rightarrow> time \<Rightarrow> string \<Rightarrow> string \<Rightarrow> string \<Rightarrow> int \<Rightarrow> pyobj \<Rightarrow> rat \<Rightarrow>
   string list \<Rightarrow> (StepResponse, 'r RuntimeExecutorAdapter \<times> ExecutionStateMachine) call" where
  "adapter_execute_step runtime now execution_id agent_id goal step_number state budget_remaining allowed_tools s =
     (let (ra, sm) = s in
      case step_context execution_id agent_id step_number state budget_remaining allowed_tools ra of
        Inl e \<Rightarrow> (Inl e, (ra, sm))
      | Inr ctx \<Rightarrow>
          let req = \<lparr>sq_execution_id = execution_id, sq_agent_id = agent_id, sq_goal = goal, sq_state = state,
                     sq_allowed_tools = allowed_tools, sq_allowed_models = [], sq_max_tokens = 50000,
                     sq_max_time_seconds = 3600\<rparr>;
              (r, ctx') = runtime req ctx;
              ra' = ra\<lparr>ra_checkpoint := xc_checkpoint ctx'\<rparr>
          in case r of
               Inl exc \<Rightarrow>
                 (Inr \<lparr>ss_status = SS_FAILED, ss_updated_state = [], ss_output = [], ss_tool_request = None,
                       ss_error_message = exc_str exc, ss_tokens_consumed = 0\<rparr>,
                  (ra', report_failure (exc_str exc) now sm))
             | Inr response \<Rightarrow>
                 (Inr response,
                  (ra', if ss_status response = SS_FAILED
                        then report_failure (if ss_error_message response = [] then ''step_execution_failed''
                                             else ss_error_message response) now sm
                        else sm)))"

definition plan_and_execute ::
  "(StepRequest \<Rightarrow> (StepResponse, 'r ExecutionContext) call) \<Rightarrow> time \<Rightarrow> string \<Rightarrow> string \<Rightarrow> string \<Rightarrow> int \<Rightarrow> pyobj \<Rightarrow> rat \<Rightarrow>
   string list \<Rightarrow> (StepPlan \<times> StepResponse option, 'r RuntimeExecutorAdapter \<times> ExecutionStateMachine) call" where
  "plan_and_execute runtime now execution_id agent_id goal step_number state budget_remaining allowed_tools s =
     (let plan = plan_step (ra_max_steps (fst s)) execution_id step_number goal budget_remaining allowed_tools in
      if sp_action plan \<noteq> SA_EXECUTE then (Inr (plan, None), s)
      else case adapter_execute_step runtime now execution_id agent_id goal (sp_step_number plan) state
                  budget_remaining allowed_tools s of
             (Inl e, s') \<Rightarrow> (Inl e, s')
           | (Inr response, s') \<Rightarrow> (Inr (plan, Some response), s'))"

section \<open>Lemmas\<close>

lemma plan_step_execute:
  "sp_action (plan_step m eid n goal b tools) = SA_EXECUTE \<longleftrightarrow> n < m \<and> 0 < b \<and> tools \<noteq> []"
  by (auto simp: plan_step_def Let_def)

lemma plan_step_number [simp]: "sp_step_number (plan_step m eid n goal b tools) = n"
  by (simp add: plan_step_def Let_def)

text \<open>What the builder chain of the adapter produces.\<close>

lemma step_context_built:
  assumes "eid \<noteq> []" "aid \<noteq> []"
  shows "step_context eid aid n state b tools ra =
    Inr \<lparr>xc_execution_id = eid, xc_agent_id = aid, xc_step_number = n, xc_state = state, xc_budget_remaining = py_int b,
         xc_tokens_per_step = 10, xc_allowed_tools = tools, xc_metadata = [], xc_tokens_consumed = 0,
         xc_memory = ra_memory ra, xc_checkpoint = ra_checkpoint ra\<rparr>"
  using assms
  by (simp add: step_context_def ContextBuilder_init_def build_def with_checkpoint_def with_memory_def
      with_allowed_tools_def with_state_def with_step_number_def with_budget_def)

lemma step_context_raises:
  "step_context eid aid n state b tools ra = Inl e \<longleftrightarrow>
     eid = [] \<and> e = ValueError ''execution_id is required'' \<or> eid \<noteq> [] \<and> aid = [] \<and> e = ValueError ''agent_id is required''"
  by (auto simp: step_context_def ContextBuilder_init_def)

lemma report_failure_state:
  "sm_current_state (report_failure reason now sm) =
     (if sm_current_state sm \<in> {XS_COMPLETED, XS_FAILED} then sm_current_state sm else XS_FAILED)"
  by (cases "sm_current_state sm") (auto simp: report_failure_def try_transition_state can_transition_def)

lemma report_failure_wf [wf_intros]: "machine_wf sm \<Longrightarrow> machine_wf (report_failure reason now sm)"
  by (simp add: report_failure_def machine_wf_try)

lemma execute_step_success:
  assumes "execute_step save uuid now req ctx = (Inr resp, ctx')"
  obtains steps where "next_step_count (sq_state req) = Inr steps" "0 < xc_budget_remaining ctx"
    "ss_status resp = SS_COMPLETED" "ss_tokens_consumed resp = xc_tokens_per_step ctx"
    "ss_updated_state resp = dict_set ''_runtime''
       (PyDict [(''steps_executed'', steps), (''last_node'', PyStr (''step-'' @ int_str (xc_step_number ctx)))]) (sq_state req)"
    "xc_tokens_consumed ctx' = xc_tokens_consumed ctx + xc_tokens_per_step ctx"
    "xc_budget_remaining ctx' = xc_budget_remaining ctx - xc_tokens_per_step ctx"
    "xc_checkpoint ctx' = map_option (\<lambda>r. snd (save (step_checkpoint uuid now ctx) r)) (xc_checkpoint ctx)"
proof -
  have ck: "step_checkpoint uuid now (ctx\<lparr>xc_tokens_consumed := a, xc_budget_remaining := b\<rparr>) = step_checkpoint uuid now ctx"
    for a b by (simp add: step_checkpoint_def)
  show thesis
    using assms that
    by (auto simp: execute_step_def step_check_budget_def Let_def ck split: sum.splits if_splits option.splits prod.splits)
qed

text \<open>What any repository that keeps the contract holds after a step.\<close>

context checkpoint_repository
begin

lemma execute_step_stores:
  assumes "execute_step save uuid now req ctx = (Inr resp, ctx')" "xc_checkpoint ctx = Some store" "invar store"
  shows "\<exists>store'. xc_checkpoint ctx' = Some store' \<and> invar store' \<and>
     (\<forall>k. get store' k = (if k = uuid then Some (step_checkpoint uuid now ctx) else get store k))"
proof -
  have "xc_checkpoint ctx' = Some (snd (save (step_checkpoint uuid now ctx) store))"
    using assms(1,2) by (auto elim: execute_step_success)
  with assms(3) show ?thesis by (simp add: get_saved save_invar) (simp add: step_checkpoint_def)
qed

lemma execute_step_total:
  assumes "validate_request req = Inr ()" "0 < xc_budget_remaining ctx" "next_step_count (sq_state req) = Inr steps"
  shows "\<exists>resp ctx'. execute_step save uuid now req ctx = (Inr resp, ctx')"
proof (cases "xc_checkpoint ctx")
  case None
  then show ?thesis using assms by (auto simp: execute_step_def step_check_budget_def Let_def)
next
  case (Some store)
  let ?c = "step_checkpoint uuid now (ctx\<lparr>xc_tokens_consumed := xc_tokens_consumed ctx + xc_tokens_per_step ctx,
                       xc_budget_remaining := xc_budget_remaining ctx - xc_tokens_per_step ctx\<rparr>)"
  obtain store' where "save ?c store = (Inr ?c, store')" by (rule save_cases)
  with Some show ?thesis using assms by (auto simp: execute_step_def step_check_budget_def Let_def)
qed

end

text \<open>One step of the adapter over any step engine, for non-empty identifiers.\<close>

lemma adapter_step_cases:
  assumes "eid \<noteq> []" "aid \<noteq> []"
    and "adapter_execute_step runtime now eid aid goal n state b tools (ra, sm) = (r, (ra', sm'))"
  obtains req ctx x ctx' resp where "step_context eid aid n state b tools ra = Inr ctx" "runtime req ctx = (x, ctx')"
    "sq_state req = state" "sq_goal req = goal" "sq_execution_id req = eid" "sq_agent_id req = aid"
    "r = Inr resp" "ra' = ra\<lparr>ra_checkpoint := xc_checkpoint ctx'\<rparr>"
    "case x of Inl e \<Rightarrow> ss_status resp = SS_FAILED \<and> ss_error_message resp = exc_str e | Inr y \<Rightarrow> resp = y"
    "if ss_status resp = SS_FAILED then \<exists>reason. sm' = report_failure reason now sm else sm' = sm"
proof -
  let ?req = "\<lparr>sq_execution_id = eid, sq_agent_id = aid, sq_goal = goal, sq_state = state, sq_allowed_tools = tools,
               sq_allowed_models = [], sq_max_tokens = 50000, sq_max_time_seconds = 3600\<rparr>"
  obtain ctx where ctx: "step_context eid aid n state b tools ra = Inr ctx" using step_context_built [OF assms(1,2)] by blast
  obtain x ctx' where run: "runtime ?req ctx = (x, ctx')" by fastforce
  note eq = assms(3) [unfolded adapter_execute_step_def Let_def prod.case ctx sum.case run]
  show thesis
  proof (cases x)
    case (Inl e)
    show thesis by (rule that [OF ctx run]) (use eq Inl in auto)
  next
    case (Inr y)
    show thesis by (rule that [OF ctx run, of y]) (use eq Inr in \<open>auto split: if_splits\<close>)
  qed
qed

section \<open>Properties\<close>

text \<open>
  The adapter decides no lifecycle transition but failure: for any step engine,
  \<^verbatim>\<open>plan_and_execute\<close> with non-empty identifiers returns the coordinator's plan without raising; it runs a
  step exactly when the step limit is not reached, budget is left and tools are allowed, and leaves
  everything alone otherwise; the state machine moves only to FAILED, and exactly when the step's
  response says FAILED and the execution was not already terminal.
\<close>

lemma adapter_reports_only_failure:
  assumes "eid \<noteq> []" "aid \<noteq> []"
  shows "\<exists>resp ra' sm'. plan_and_execute runtime now eid aid goal n state b tools (ra, sm) =
       (Inr (plan_step (ra_max_steps ra) eid n goal b tools, resp), (ra', sm')) \<and>
     (resp \<noteq> None \<longleftrightarrow> n < ra_max_steps ra \<and> 0 < b \<and> tools \<noteq> []) \<and> (resp = None \<longrightarrow> ra' = ra) \<and>
     (if (\<exists>r. resp = Some r \<and> ss_status r = SS_FAILED) \<and> sm_current_state sm \<notin> {XS_COMPLETED, XS_FAILED}
      then sm_current_state sm' = XS_FAILED else sm' = sm)"
proof (cases "sp_action (plan_step (ra_max_steps ra) eid n goal b tools) = SA_EXECUTE")
  case False
  then show ?thesis using plan_step_execute [of "ra_max_steps ra" eid n goal b tools] by (simp add: plan_and_execute_def)
next
  case True
  obtain r ra' sm' where run: "adapter_execute_step runtime now eid aid goal n state b tools (ra, sm) = (r, (ra', sm'))"
    by (metis surj_pair)
  obtain resp where resp: "r = Inr resp"
      "if ss_status resp = SS_FAILED then \<exists>reason. sm' = report_failure reason now sm else sm' = sm"
    by (rule adapter_step_cases [OF assms run]) blast
  have "sm' = sm" if "sm_current_state sm \<in> {XS_COMPLETED, XS_FAILED}"
    using resp(2) that by (auto simp: report_failure_def can_transition_def split: if_splits)
  with resp True run show ?thesis
    using plan_step_execute [of "ra_max_steps ra" eid n goal b tools]
    by (auto simp: plan_and_execute_def report_failure_state split: if_splits)
qed

definition sample_adapter :: "InMemoryCheckpointRepository RuntimeExecutorAdapter" where
  "sample_adapter = \<lparr>ra_max_steps = 100, ra_memory = None, ra_checkpoint = Some InMemoryCheckpointRepository_init\<rparr>"

lemma adapter_reports_only_failure_witness:
  "\<exists>resp ra' sm'. plan_and_execute (execute_step repo_save_call ''u'' 0) 0 ''e'' ''a'' ''g'' 3 [] 50 [''t'']
       (sample_adapter, ExecutionStateMachine_init XS_RUNNING) =
       (Inr (plan_step 100 ''e'' 3 ''g'' 50 [''t''], Some resp), (ra', sm'))"
  using adapter_reports_only_failure [of "''e''" "''a''" "execute_step repo_save_call ''u'' 0" 0 "''g''" 3 "[]" 50 "[''t'']"
      sample_adapter "ExecutionStateMachine_init XS_RUNNING"]
  by (auto simp: sample_adapter_def)

text \<open>
  A budget between zero and one fails the execution: the coordinator, which compares the
  float, plans to execute, while the context gets the truncated budget 0, which the step executor
  refuses; the running execution ends FAILED although the plan for no budget at all is a pause for
  approval.
\<close>

lemma fractional_budget_fails_execution:
  assumes "0 < b" "b < 1" "n < ra_max_steps ra" "tools \<noteq> []" "eid \<noteq> []" "aid \<noteq> []" "goal \<noteq> []"
    and "sm_current_state sm \<notin> {XS_COMPLETED, XS_FAILED}"
  shows "\<exists>resp ra' sm'. plan_and_execute (execute_step save uuid t) now eid aid goal n state b tools (ra, sm) =
       (Inr (plan_step (ra_max_steps ra) eid n goal b tools, Some resp), (ra', sm')) \<and>
     ss_status resp = SS_FAILED \<and> ss_error_message resp = ''Budget exceeded: 0 > 0'' \<and> sm_current_state sm' = XS_FAILED \<and>
     sp_action (plan_step (ra_max_steps ra) eid n goal 0 tools) = SA_PAUSE_FOR_APPROVAL"
proof -
  obtain r ra' sm' where run: "adapter_execute_step (execute_step save uuid t) now eid aid goal n state b tools (ra, sm) = (r, (ra', sm'))"
    by (metis surj_pair)
  obtain req ctx x ctx' resp where c: "step_context eid aid n state b tools ra = Inr ctx" "execute_step save uuid t req ctx = (x, ctx')"
      "sq_goal req = goal" "sq_execution_id req = eid" "sq_agent_id req = aid" "r = Inr resp"
      "case x of Inl e \<Rightarrow> ss_status resp = SS_FAILED \<and> ss_error_message resp = exc_str e | Inr y \<Rightarrow> resp = y"
      "if ss_status resp = SS_FAILED then \<exists>reason. sm' = report_failure reason now sm else sm' = sm"
    by (rule adapter_step_cases [OF assms(5,6) run])
  have "py_int b = 0" using assms(1,2) by (simp add: py_int_def floor_eq_iff)
  then have "xc_budget_remaining ctx = 0" using c(1) assms(5,6) by (auto simp: step_context_built)
  then have "x = Inl (BudgetExceededError 0 0)"
    using c(2-5) assms(5-7) by (auto simp: execute_step_def validate_request_def require_def step_check_budget_def)
  moreover have "exc_str (BudgetExceededError 0 0) = ''Budget exceeded: 0 > 0''"
    by (simp add: int_str_def nat_str_zero)
  ultimately show ?thesis
    using c(6-8) run assms plan_step_execute [of "ra_max_steps ra" eid n goal b tools]
    by (auto simp: plan_and_execute_def report_failure_state plan_step_def)
qed

lemma fractional_budget_fails_execution_witness:
  "\<exists>resp s. plan_and_execute (execute_step repo_save_call ''u'' 0) 0 ''e'' ''a'' ''g'' 3 [] (1 / 2) [''t'']
      (sample_adapter, ExecutionStateMachine_init XS_RUNNING) = (Inr (plan_step 100 ''e'' 3 ''g'' (1 / 2) [''t''], Some resp), s) \<and>
     sm_current_state (snd s) = XS_FAILED"
  using fractional_budget_fails_execution [of "1 / 2" 3 sample_adapter "[''t'']" "''e''" "''a''" "''g''"
      "ExecutionStateMachine_init XS_RUNNING" repo_save_call "''u''" 0 0 "[]"]
  by (auto simp: sample_adapter_def ExecutionStateMachine_init_def)

text \<open>
  A step that did not fail is checkpointed, without its state: the repository gains one
  checkpoint, with the step's number as version, and keeps all others; the response's state is the
  request's with the step counted under \<^verbatim>\<open>_runtime\<close>; and \<^verbatim>\<open>restore\<close> of the new checkpoint through the
  kernel's persistence adapter raises, because no state was stored with it.
\<close>

lemma step_checkpoint_has_no_state:
  assumes "plan_and_execute (execute_step repo_save_call uuid t) now eid aid goal n state b tools (ra, sm) =
       (Inr (plan, Some resp), (ra', sm'))"
    and "ss_status resp \<noteq> SS_FAILED" "ra_checkpoint ra = Some store" "checkpoint_repo_wf store" "eid \<noteq> []" "aid \<noteq> []"
  shows "\<exists>store' c. ra_checkpoint ra' = Some store' \<and> checkpoint_repo_wf store' \<and>
     (\<forall>k. repo_get store' k = (if k = uuid then Some c else repo_get store k)) \<and>
     ck_version c = n \<and> ck_execution_id c = eid \<and>
     (\<forall>k. k \<noteq> ''_runtime'' \<longrightarrow> dict_get (ss_updated_state resp) k = dict_get state k) \<and>
     adapter_restore fl dm uuid (CheckpointPersistenceAdapter_init store') =
       Inl (CheckpointPersistenceError ''restore'' (''Checkpoint '' @ sq uuid @ '' contains no state''))"
proof -
  have run: "adapter_execute_step (execute_step repo_save_call uuid t) now eid aid goal n state b tools (ra, sm) =
      (Inr resp, (ra', sm'))"
    using assms(1) by (auto simp: plan_and_execute_def Let_def split: if_splits prod.splits sum.splits)
  obtain req ctx x ctx' resp' where c: "step_context eid aid n state b tools ra = Inr ctx"
      "execute_step repo_save_call uuid t req ctx = (x, ctx')" "sq_state req = state"
      "ra' = ra\<lparr>ra_checkpoint := xc_checkpoint ctx'\<rparr>" "(Inr resp :: exn + StepResponse) = Inr resp'"
      "case x of Inl e \<Rightarrow> ss_status resp' = SS_FAILED \<and> ss_error_message resp' = exc_str e | Inr y \<Rightarrow> resp' = y"
    by (rule adapter_step_cases [OF assms(5,6) run])
  have ok: "execute_step repo_save_call uuid t req ctx = (Inr resp, ctx')" using c(2,5,6) assms(2) by (cases x) auto
  have ctx: "xc_checkpoint ctx = Some store" "xc_step_number ctx = n" "xc_execution_id ctx = eid"
    using c(1) assms(3,5,6) by (auto simp: step_context_built)
  from memory_checkpoints.execute_step_stores [OF ok ctx(1) assms(4)] obtain store' where st:
      "xc_checkpoint ctx' = Some store'" "checkpoint_repo_wf store'"
      "\<forall>k. repo_get store' k = (if k = uuid then Some (step_checkpoint uuid t ctx) else repo_get store k)" by blast
  moreover have "dict_get (ss_updated_state resp) k = dict_get state k" if "k \<noteq> ''_runtime''" for k
    using that by (rule_tac execute_step_success [OF ok]) (simp add: c(3))
  ultimately show ?thesis
    using c(4) ctx(2,3)
    by (intro exI [of _ store'] exI [of _ "step_checkpoint uuid t ctx"])
      (simp add: adapter_restore_def CheckpointPersistenceAdapter_init_def, simp add: step_checkpoint_def)
qed

lemma step_checkpoint_has_no_state_witness:
  "\<exists>resp s store' c. plan_and_execute (execute_step repo_save_call ''u'' 0) 0 ''e'' ''a'' ''g'' 3 [] 50 [''t'']
      (sample_adapter, ExecutionStateMachine_init XS_RUNNING) = (Inr (plan_step 100 ''e'' 3 ''g'' 50 [''t''], Some resp), s) \<and>
     ra_checkpoint (fst s) = Some store' \<and> repo_get store' ''u'' = Some c \<and> ck_version c = 3"
proof -
  let ?run = "plan_and_execute (execute_step repo_save_call ''u'' 0) 0 ''e'' ''a'' ''g'' 3 [] 50 [''t'']
      (sample_adapter, ExecutionStateMachine_init XS_RUNNING)"
  obtain resp ra' sm' where r: "?run = (Inr (plan_step 100 ''e'' 3 ''g'' 50 [''t''], Some resp), (ra', sm'))" "ss_status resp \<noteq> SS_FAILED"
    by (simp add: plan_and_execute_def adapter_execute_step_def step_context_built plan_step_execute execute_step_def
        validate_request_def require_def step_check_budget_def next_step_count_def dict_get_or_def py_add_int_def py_int_def
        sample_adapter_def repo_save_call_def split_beta)
  have "ra_checkpoint sample_adapter = Some InMemoryCheckpointRepository_init" by (simp add: sample_adapter_def)
  from step_checkpoint_has_no_state [OF r this checkpoint_repo_wf_init] r show ?thesis by fastforce
qed

end
