(* ===== verification/Memory_Store.thy ===== *)
theory Memory_Store
  imports Checkpoint
begin

text \<open>
  \<^verbatim>\<open>core/domain/memory.py\<close> and \<^verbatim>\<open>infrastructure/storage/memory/in_memory.py\<close>: the items of an agent's memory
  and their in-memory repository. Expiry is checked item by item with a fresh clock reading: \<open>now\<close>
  gives the reading at an item. Time stamps are aware; \<^verbatim>\<open>datetime.min\<close>, which stands for a missing
  one when items are sorted, is naive, and comparing the two raises.
\<close>

section \<open>Items\<close>

datatype MemoryType = MT_FACT | MT_PREFERENCE | MT_SUMMARY | MT_EXPERIENCE | MT_DOCUMENT

record MemoryItem =
  mm_item_id :: string
  mm_tenant_id :: string
  mm_agent_instance_id :: string
  mm_type :: MemoryType
  mm_content :: string
  mm_confidence :: rat
  mm_source :: string
  mm_created_at :: "time option"
  mm_expires_at :: "time option"

definition MemoryItem_validate :: "MemoryItem \<Rightarrow> string list" where
  "MemoryItem_validate m =
     require (mm_item_id m \<noteq> []) ''item_id is required'' @
     require (mm_content m \<noteq> []) ''content is required'' @
     require (0 \<le> mm_confidence m \<and> mm_confidence m \<le> 1) ''confidence must be between 0.0 and 1.0''"

definition MemoryItem_is_valid :: "MemoryItem \<Rightarrow> bool" where
  "MemoryItem_is_valid m = (length (MemoryItem_validate m) = 0)"

definition is_expired :: "time \<Rightarrow> MemoryItem \<Rightarrow> bool" where
  "is_expired now m = (case mm_expires_at m of None \<Rightarrow> False | Some t \<Rightarrow> now > t)"

section \<open>The repository\<close>

record InMemoryMemoryRepository =
  im_store :: "(string, MemoryItem) dict"
  im_agent_index :: "(string, string set) dict"

definition InMemoryMemoryRepository_init :: InMemoryMemoryRepository where
  "InMemoryMemoryRepository_init = \<lparr>im_store = [], im_agent_index = []\<rparr>"

definition is_not_expired :: "(string \<Rightarrow> time) \<Rightarrow> MemoryItem \<Rightarrow> bool" where
  "is_not_expired now m = (\<not> is_expired (now (mm_item_id m)) m)"

definition memory_key :: "MemoryItem \<Rightarrow> time \<times> string" where
  "memory_key m = (case mm_created_at m of None \<Rightarrow> 0 | Some t \<Rightarrow> t, mm_item_id m)"

text \<open>Sorting a list in which some items have a time stamp and some have none compares the two kinds.\<close>

definition memory_sorted :: "MemoryItem list \<Rightarrow> exn + MemoryItem list" where
  "memory_sorted items =
     (if (\<exists>m \<in> set items. mm_created_at m = None) \<and> (\<exists>m \<in> set items. mm_created_at m \<noteq> None)
      then Inl (OtherError ''can't compare offset-naive and offset-aware datetimes'')
      else Inr (sort_key memory_key items))"

definition memory_save :: "MemoryItem \<Rightarrow> InMemoryMemoryRepository \<Rightarrow> MemoryItem \<times> InMemoryMemoryRepository" where
  "memory_save m r =
     (m, r\<lparr>im_store := dict_set (mm_item_id m) m (im_store r),
           im_agent_index := dict_set (mm_agent_instance_id m)
             (insert (mm_item_id m) (dict_get_or (im_agent_index r) (mm_agent_instance_id m) {})) (im_agent_index r)\<rparr>)"

definition memory_get :: "(string \<Rightarrow> time) \<Rightarrow> string \<Rightarrow> InMemoryMemoryRepository \<Rightarrow> MemoryItem option" where
  "memory_get now memory_id r =
     (case dict_get (im_store r) memory_id of
        None \<Rightarrow> None
      | Some m \<Rightarrow> if is_expired (now (mm_item_id m)) m then None else Some m)"

definition memory_search ::
  "(string \<Rightarrow> time) \<Rightarrow> string \<Rightarrow> string option \<Rightarrow> MemoryType option \<Rightarrow> rat \<Rightarrow> InMemoryMemoryRepository \<Rightarrow> exn + MemoryItem list" where
  "memory_search now query agent_instance_id memory_type min_confidence r =
     memory_sorted (filter (\<lambda>m.
       is_not_expired now m \<and>
       (case agent_instance_id of None \<Rightarrow> True | Some a \<Rightarrow> mm_agent_instance_id m = a) \<and>
       (case memory_type of None \<Rightarrow> True | Some ty \<Rightarrow> mm_type m = ty) \<and>
       \<not> mm_confidence m < min_confidence \<and>
       str_in (str_lower query) (str_lower (mm_content m))) (dict_values (im_store r)))"

definition agent_ids :: "InMemoryMemoryRepository \<Rightarrow> string \<Rightarrow> string set" where
  "agent_ids r agent_instance_id = dict_get_or (im_agent_index r) agent_instance_id {}"

fun fetch_items :: "InMemoryMemoryRepository \<Rightarrow> string list \<Rightarrow> exn + MemoryItem list" where
  "fetch_items r [] = Inr []"
| "fetch_items r (iid # iids) =
     (case dict_get (im_store r) iid of
        None \<Rightarrow> Inl (KeyError iid)
      | Some m \<Rightarrow> (case fetch_items r iids of Inl e \<Rightarrow> Inl e | Inr ms \<Rightarrow> Inr (m # ms)))"

definition list_by_agent ::
  "(string set \<Rightarrow> string list) \<Rightarrow> (string \<Rightarrow> time) \<Rightarrow> string \<Rightarrow> InMemoryMemoryRepository \<Rightarrow> exn + MemoryItem list" where
  "list_by_agent order now agent_instance_id r =
     (case fetch_items r (order (agent_ids r agent_instance_id)) of
        Inl e \<Rightarrow> Inl e
      | Inr items \<Rightarrow> memory_sorted (filter (is_not_expired now) items))"

text \<open>\<^verbatim>\<open>discard\<close> acts on the index's set, or on a temporary when the agent has none.\<close>

definition memory_delete :: "string \<Rightarrow> InMemoryMemoryRepository \<Rightarrow> InMemoryMemoryRepository" where
  "memory_delete memory_id r =
     (case dict_get (im_store r) memory_id of
        None \<Rightarrow> r
      | Some m \<Rightarrow>
          let r1 = r\<lparr>im_store := dict_del memory_id (im_store r)\<rparr>
          in case dict_get (im_agent_index r) (mm_agent_instance_id m) of
               None \<Rightarrow> r1
             | Some ids \<Rightarrow> r1\<lparr>im_agent_index := dict_set (mm_agent_instance_id m) (ids - {memory_id}) (im_agent_index r)\<rparr>)"

section \<open>Invariant\<close>

text \<open>An item is stored under its own identifier and indexed under its own agent only.\<close>

definition memory_wf :: "InMemoryMemoryRepository \<Rightarrow> bool" where
  "memory_wf r \<longleftrightarrow> dict_wf (im_store r) \<and> (\<forall>a. finite (agent_ids r a)) \<and>
     (\<forall>iid m. dict_get (im_store r) iid = Some m \<longrightarrow> mm_item_id m = iid) \<and>
     (\<forall>a iid. iid \<in> agent_ids r a \<longleftrightarrow> (\<exists>m. dict_get (im_store r) iid = Some m \<and> mm_agent_instance_id m = a))"

lemma agent_ids_save [simp, op_simps]:
  "agent_ids (snd (memory_save m r)) a =
     (if a = mm_agent_instance_id m then insert (mm_item_id m) (agent_ids r a) else agent_ids r a)"
  by (simp add: agent_ids_def memory_save_def dict_get_or_def)

lemma store_save [simp]: "im_store (snd (memory_save m r)) = dict_set (mm_item_id m) m (im_store r)"
  by (simp add: memory_save_def)

lemma store_delete [simp]: "dict_get (im_store (memory_delete iid r)) k = (if k = iid then None else dict_get (im_store r) k)"
  by (auto simp: memory_delete_def Let_def split: option.splits)

lemma agent_ids_delete:
  "agent_ids (memory_delete iid r) a =
     (case dict_get (im_store r) iid of None \<Rightarrow> agent_ids r a
      | Some m \<Rightarrow> if a = mm_agent_instance_id m then agent_ids r a - {iid} else agent_ids r a)"
  by (auto simp: memory_delete_def agent_ids_def dict_get_or_def Let_def split: option.splits)

lemma memory_wf_init [wf_intros]: "memory_wf InMemoryMemoryRepository_init"
  by (simp add: memory_wf_def InMemoryMemoryRepository_init_def agent_ids_def dict_get_or_def)

lemma memory_wf_save [wf_intros]:
  assumes "memory_wf r" "\<And>old. dict_get (im_store r) (mm_item_id m) = Some old \<Longrightarrow> mm_agent_instance_id old = mm_agent_instance_id m"
  shows "memory_wf (snd (memory_save m r))"
  using assms unfolding memory_wf_def agent_ids_save store_save by (auto simp: pydict.invar_insert)

lemma memory_wf_delete [wf_intros]:
  assumes "memory_wf r"
  shows "memory_wf (memory_delete iid r)"
proof -
  have "dict_wf (im_store (memory_delete iid r))"
    using assms by (auto simp: memory_wf_def memory_delete_def Let_def split: option.splits)
  then show ?thesis using assms unfolding memory_wf_def agent_ids_delete store_delete by (auto split: option.splits)
qed

lemma fetch_items_ok:
  "\<forall>iid \<in> set iids. dict_has (im_store r) iid \<Longrightarrow> fetch_items r iids = Inr (map (\<lambda>iid. the (dict_get (im_store r) iid)) iids)"
  by (induction iids) (auto simp: dict_has_def split: option.splits)

lemma fetch_items_missing:
  "iid \<in> set iids \<Longrightarrow> dict_get (im_store r) iid = None \<Longrightarrow> \<exists>k. fetch_items r iids = Inl (KeyError k)"
  by (induction iids) (auto split: option.splits sum.splits)

definition live_items :: "(string \<Rightarrow> time) \<Rightarrow> string \<Rightarrow> InMemoryMemoryRepository \<Rightarrow> MemoryItem set" where
  "live_items now a r = {m. \<exists>iid. dict_get (im_store r) iid = Some m \<and> mm_agent_instance_id m = a \<and> is_not_expired now m}"

definition undated_and_dated :: "MemoryItem set \<Rightarrow> bool" where
  "undated_and_dated M \<longleftrightarrow> (\<exists>m \<in> M. mm_created_at m = None) \<and> (\<exists>m \<in> M. mm_created_at m \<noteq> None)"

lemma fetched_items:
  assumes "memory_wf r" "iteration_order order"
  obtains ms where "fetch_items r (order (agent_ids r a)) = Inr ms" "distinct ms"
    "set (filter (is_not_expired now) ms) = live_items now a r"
proof -
  have o: "set (order (agent_ids r a)) = agent_ids r a" "distinct (order (agent_ids r a))"
    using assms by (simp_all add: memory_wf_def iteration_order_def)
  let ?ms = "map (\<lambda>iid. the (dict_get (im_store r) iid)) (order (agent_ids r a))"
  have idx: "\<And>iid. iid \<in> agent_ids r a \<longleftrightarrow> (\<exists>m. dict_get (im_store r) iid = Some m \<and> mm_agent_instance_id m = a)"
    and own: "\<And>iid m. dict_get (im_store r) iid = Some m \<Longrightarrow> mm_item_id m = iid"
    using assms(1) by (auto simp: memory_wf_def)
  have "fetch_items r (order (agent_ids r a)) = Inr ?ms"
    by (rule fetch_items_ok) (auto simp: o idx dict_has_def)
  moreover have "inj_on (\<lambda>iid. the (dict_get (im_store r) iid)) (agent_ids r a)"
    by (rule inj_on_inverseI [where g = mm_item_id]) (auto simp: idx own)
  then have "distinct ?ms" using o by (simp add: distinct_map)
  moreover have "set (filter (is_not_expired now) ?ms) = live_items now a r"
  proof (rule set_eqI)
    fix m
    have "m \<in> set ?ms \<longleftrightarrow> (\<exists>iid. dict_get (im_store r) iid = Some m \<and> mm_agent_instance_id m = a)"
    proof
      assume "m \<in> set ?ms"
      then obtain iid where "iid \<in> agent_ids r a" "m = the (dict_get (im_store r) iid)" by (auto simp: o(1))
      then show "\<exists>iid. dict_get (im_store r) iid = Some m \<and> mm_agent_instance_id m = a" by (auto simp: idx)
    next
      assume "\<exists>iid. dict_get (im_store r) iid = Some m \<and> mm_agent_instance_id m = a"
      then obtain iid where i: "dict_get (im_store r) iid = Some m" "mm_agent_instance_id m = a" by blast
      then have "iid \<in> set (order (agent_ids r a))" by (simp add: o(1) idx)
      with i(1) show "m \<in> set ?ms" by (simp add: rev_image_eqI)
    qed
    then show "m \<in> set (filter (is_not_expired now) ?ms) \<longleftrightarrow> m \<in> live_items now a r"
      unfolding live_items_def set_filter by blast
  qed
  ultimately show thesis by (rule that)
qed

section \<open>Properties\<close>

text \<open>
  What an agent remembers: in a well-formed repository, for any order in which sets are iterated,
  \<^verbatim>\<open>list_by_agent\<close> returns exactly the agent's unexpired items, each once, ordered by time stamp and then
  identifier; but it raises when some of them have a time stamp and some have none.
\<close>

lemma memory_listing_exact:
  assumes "memory_wf r" "iteration_order order"
  shows "if undated_and_dated (live_items now a r)
     then list_by_agent order now a r = Inl (OtherError ''can't compare offset-naive and offset-aware datetimes'')
     else \<exists>ms. list_by_agent order now a r = Inr ms \<and> set ms = live_items now a r \<and> distinct ms \<and> sorted (map memory_key ms)"
proof -
  obtain ms where ms: "fetch_items r (order (agent_ids r a)) = Inr ms" "distinct ms"
      "set (filter (is_not_expired now) ms) = live_items now a r"
    by (rule fetched_items [OF assms])
  then show ?thesis
    unfolding list_by_agent_def memory_sorted_def undated_and_dated_def by (auto simp: ms(3) [symmetric] simp del: set_filter)
qed

definition sample_memory :: "string \<Rightarrow> time option \<Rightarrow> MemoryItem" where
  "sample_memory iid created = \<lparr>mm_item_id = iid, mm_tenant_id = ''t'', mm_agent_instance_id = ''a'', mm_type = MT_FACT,
     mm_content = ''c'', mm_confidence = 1, mm_source = [], mm_created_at = created, mm_expires_at = None\<rparr>"

lemma memory_listing_exact_witness:
  "list_by_agent sample_order (\<lambda>_. 0) ''a''
     (snd (memory_save (sample_memory ''y'' None) (snd (memory_save (sample_memory ''x'' (Some 1)) InMemoryMemoryRepository_init)))) =
   Inl (OtherError ''can't compare offset-naive and offset-aware datetimes'')"
proof -
  let ?r = "snd (memory_save (sample_memory ''y'' None) (snd (memory_save (sample_memory ''x'' (Some 1)) InMemoryMemoryRepository_init)))"
  have wf: "memory_wf ?r"
    by (intro memory_wf_save memory_wf_init) (auto simp: sample_memory_def InMemoryMemoryRepository_init_def split: if_splits)
  have "sample_memory ''x'' (Some 1) \<in> live_items (\<lambda>_. 0) ''a'' ?r" "sample_memory ''y'' None \<in> live_items (\<lambda>_. 0) ''a'' ?r"
    by (auto simp: live_items_def sample_memory_def InMemoryMemoryRepository_init_def is_not_expired_def is_expired_def
        intro: exI [of _ "''x''"] exI [of _ "''y''"])
  then have "undated_and_dated (live_items (\<lambda>_. 0) ''a'' ?r)"
    unfolding undated_and_dated_def by (metis (no_types, lifting) MemoryItem.select_convs(8) option.distinct(1) sample_memory_def)
  with memory_listing_exact [OF wf sample_order_ok, of "\<lambda>_. 0" "''a''"] show ?thesis by simp
qed

text \<open>
  Moving an item to another agent corrupts the first one's memory: after an item is saved again
  under another agent, the first agent is listed that agent's item (unless the listing raises), and once
  the item is deleted every listing of the first agent raises \<^verbatim>\<open>KeyError\<close>.
\<close>

lemma moved_item_breaks_listing:
  assumes "iteration_order order" "finite (agent_ids r (mm_agent_instance_id m))" "b \<noteq> mm_agent_instance_id m"
    and "m' = m\<lparr>mm_agent_instance_id := b\<rparr>" "r' = snd (memory_save m' (snd (memory_save m r)))"
  shows "(\<forall>ms. list_by_agent order now (mm_agent_instance_id m) r' = Inr ms \<longrightarrow> is_not_expired now m' \<longrightarrow> m' \<in> set ms) \<and>
     (\<exists>k. list_by_agent order now (mm_agent_instance_id m) (memory_delete (mm_item_id m) r') = Inl (KeyError k))"
proof
  let ?a = "mm_agent_instance_id m" and ?iid = "mm_item_id m"
  have ids: "?iid \<in> agent_ids r' ?a" "finite (agent_ids r' ?a)" and stored: "dict_get (im_store r') ?iid = Some m'"
    using assms(2-5) by (auto simp: agent_ids_save)
  have in_order: "?iid \<in> set (order (agent_ids r' ?a))" using ids assms(1) by (simp add: iteration_order_def)
  have fetched: "m' \<in> set ms" if "fetch_items r' iids = Inr ms" "?iid \<in> set iids" for iids ms
    using that stored by (induction iids arbitrary: ms) (auto split: option.splits sum.splits)
  show "\<forall>ms. list_by_agent order now ?a r' = Inr ms \<longrightarrow> is_not_expired now m' \<longrightarrow> m' \<in> set ms"
    using fetched [OF _ in_order] by (auto simp: list_by_agent_def memory_sorted_def split: sum.splits if_splits)
  have "agent_ids (memory_delete ?iid r') ?a = agent_ids r' ?a"
    using stored assms(3,4) by (simp add: agent_ids_delete)
  with fetch_items_missing [OF in_order, of "memory_delete ?iid r'"]
  show "\<exists>k. list_by_agent order now ?a (memory_delete ?iid r') = Inl (KeyError k)"
    by (auto simp: list_by_agent_def)
qed

lemma moved_item_breaks_listing_witness:
  "\<exists>k. list_by_agent sample_order (\<lambda>_. 0) ''a'' (memory_delete ''x'' (snd (memory_save ((sample_memory ''x'' None)\<lparr>mm_agent_instance_id := ''b''\<rparr>)
     (snd (memory_save (sample_memory ''x'' None) InMemoryMemoryRepository_init))))) = Inl (KeyError k)"
  using moved_item_breaks_listing [OF sample_order_ok _ _ refl refl, of InMemoryMemoryRepository_init "sample_memory ''x'' None" "''b''" "\<lambda>_. 0"]
  by (simp add: sample_memory_def agent_ids_def InMemoryMemoryRepository_init_def dict_get_or_def)

end
