(* ===== verification/Agent_Registry.thy ===== *)
theory Agent_Registry
  imports Errors Observability
begin

text \<open>
  \<^verbatim>\<open>control_plane/registry/memory_instance_repository.py\<close> and \<^verbatim>\<open>memory_template_repository.py\<close>: the in-memory
  stores of agent instances and templates. An instance keeps the caller's configuration dictionary
  itself, not a copy, and updates it in place, so configurations are references into a store that
  maps a dictionary's identity to its contents. Both repositories hand out numbered identifiers;
  that contract is the locale \<open>id_repository\<close>, which both interpret.
\<close>

section \<open>Instances\<close>

record AgentInstance =
  an_id :: string
  an_tenant_id :: string
  an_template_id :: string
  an_name :: string
  an_config :: nat
  an_status :: string

record MemoryInstanceRepository =
  mi_instances :: "(string, AgentInstance) dict"
  mi_next_id :: int
  mi_configs :: "nat \<Rightarrow> pyobj"

definition MemoryInstanceRepository_init :: "(nat \<Rightarrow> pyobj) \<Rightarrow> MemoryInstanceRepository" where
  "MemoryInstanceRepository_init configs = \<lparr>mi_instances = [], mi_next_id = 1, mi_configs = configs\<rparr>"

definition instance_row :: "string \<times> string \<times> string \<times> nat \<Rightarrow> string \<Rightarrow> AgentInstance" where
  "instance_row = (\<lambda>(tenant_id, template_id, name, config) instance_id.
     \<lparr>an_id = instance_id, an_tenant_id = tenant_id, an_template_id = template_id, an_name = name, an_config = config,
      an_status = ''active''\<rparr>)"

definition create_instance ::
  "string \<times> string \<times> string \<times> nat \<Rightarrow> MemoryInstanceRepository \<Rightarrow> string \<times> MemoryInstanceRepository" where
  "create_instance args r =
     (let instance_id = ''inst-'' @ int_str (mi_next_id r)
      in (instance_id, r\<lparr>mi_next_id := mi_next_id r + 1,
                         mi_instances := dict_set instance_id (instance_row args instance_id) (mi_instances r)\<rparr>))"

definition get_instance :: "MemoryInstanceRepository \<Rightarrow> string \<Rightarrow> AgentInstance option" where
  "get_instance r instance_id = dict_get (mi_instances r) instance_id"

definition list_instances :: "MemoryInstanceRepository \<Rightarrow> string \<Rightarrow> AgentInstance list" where
  "list_instances r tenant_id = filter (\<lambda>i. an_tenant_id i = tenant_id) (dict_values (mi_instances r))"

definition update_instance :: "string \<Rightarrow> pyobj \<Rightarrow> MemoryInstanceRepository \<Rightarrow> MemoryInstanceRepository" where
  "update_instance instance_id config r =
     (case dict_get (mi_instances r) instance_id of
        None \<Rightarrow> r
      | Some i \<Rightarrow> r\<lparr>mi_configs := (mi_configs r)(an_config i := dict_merge (mi_configs r (an_config i)) config)\<rparr>)"

definition delete_instance :: "string \<Rightarrow> MemoryInstanceRepository \<Rightarrow> MemoryInstanceRepository" where
  "delete_instance instance_id r =
     (case dict_get (mi_instances r) instance_id of
        None \<Rightarrow> r
      | Some i \<Rightarrow> r\<lparr>mi_instances := dict_set instance_id (i\<lparr>an_status := ''archived''\<rparr>) (mi_instances r)\<rparr>)"

section \<open>Templates\<close>

record AgentTemplate =
  tp_id :: string
  tp_name :: string
  tp_framework :: string
  tp_manifest :: pyobj
  tp_status :: string

record MemoryTemplateRepository =
  mt_templates :: "(string, AgentTemplate) dict"
  mt_next_id :: int

definition MemoryTemplateRepository_init :: MemoryTemplateRepository where
  "MemoryTemplateRepository_init = \<lparr>mt_templates = [], mt_next_id = 1\<rparr>"

definition template_row :: "string \<times> string \<times> pyobj \<Rightarrow> string \<Rightarrow> AgentTemplate" where
  "template_row = (\<lambda>(name, framework, manifest) template_id.
     \<lparr>tp_id = template_id, tp_name = name, tp_framework = framework, tp_manifest = manifest, tp_status = ''active''\<rparr>)"

definition create_template ::
  "string \<times> string \<times> pyobj \<Rightarrow> MemoryTemplateRepository \<Rightarrow> string \<times> MemoryTemplateRepository" where
  "create_template args r =
     (let template_id = ''tpl-'' @ int_str (mt_next_id r)
      in (template_id, r\<lparr>mt_next_id := mt_next_id r + 1,
                         mt_templates := dict_set template_id (template_row args template_id) (mt_templates r)\<rparr>))"

definition get_template :: "MemoryTemplateRepository \<Rightarrow> string \<Rightarrow> AgentTemplate option" where
  "get_template r template_id = dict_get (mt_templates r) template_id"

definition list_templates :: "MemoryTemplateRepository \<Rightarrow> string option \<Rightarrow> AgentTemplate list" where
  "list_templates r framework =
     (let templates = dict_values (mt_templates r)
      in if or_str framework [] \<noteq> [] then filter (\<lambda>t. tp_framework t = or_str framework []) templates else templates)"

definition delete_template :: "string \<Rightarrow> MemoryTemplateRepository \<Rightarrow> MemoryTemplateRepository" where
  "delete_template template_id r =
     (case dict_get (mt_templates r) template_id of
        None \<Rightarrow> r
      | Some t \<Rightarrow> r\<lparr>mt_templates := dict_set template_id (t\<lparr>tp_status := ''archived''\<rparr>) (mt_templates r)\<rparr>)"

section \<open>The contract of a numbering repository\<close>

locale id_repository =
  fixes create :: "'a \<Rightarrow> 'r \<Rightarrow> string \<times> 'r"
    and get :: "'r \<Rightarrow> string \<Rightarrow> 'v option"
    and row :: "'a \<Rightarrow> string \<Rightarrow> 'v"
    and invar :: "'r \<Rightarrow> bool"
  assumes create_fresh: "invar r \<Longrightarrow> get r (fst (create a r)) = None"
    and get_create: "invar r \<Longrightarrow> get (snd (create a r)) k = (if k = fst (create a r) then Some (row a k) else get r k)"
    and create_invar: "invar r \<Longrightarrow> invar (snd (create a r))"
begin

fun create_all :: "'a list \<Rightarrow> 'r \<Rightarrow> string list \<times> 'r" where
  "create_all [] r = ([], r)"
| "create_all (a # as) r = (let (i, r1) = create a r; (is, r2) = create_all as r1 in (i # is, r2))"

lemma create_all_rows:
  assumes "invar r" "create_all as r = (is, r')"
  shows "invar r'" "length is = length as" "distinct is" "\<And>i. i \<in> set is \<Longrightarrow> get r i = None"
    "\<And>k. k \<notin> set is \<Longrightarrow> get r' k = get r k" "list_all2 (\<lambda>a i. get r' i = Some (row a i)) as is"
  using assms
proof (atomize (full), induction as arbitrary: r "is")
  case (Cons a as)
  obtain i r1 where c: "create a r = (i, r1)" by fastforce
  obtain "is'" where rest: "create_all as r1 = (is', r')" "is = i # is'"
    using Cons.prems(2) c by (auto split: prod.splits)
  have r1: "invar r1" "get r i = None" "\<And>k. get r1 k = (if k = i then Some (row a k) else get r k)"
    using create_invar [OF Cons.prems(1), of a] create_fresh [OF Cons.prems(1), of a]
      get_create [OF Cons.prems(1), of a] c by simp_all
  note ih = Cons.IH [OF r1(1) rest(1)]
  have notin: "i \<notin> set is'" using ih r1(3) [of i] by fastforce
  then have "get r' i = Some (row a i)" using ih r1(3) by simp
  moreover have "get r k = None" if "k \<in> set is'" for k using ih r1(3) [of k] that notin by (auto split: if_splits)
  ultimately show ?case using ih r1 notin rest(2) by (auto split: if_splits)
qed simp

end

text \<open>Every identifier handed out so far is the prefix and a smaller number.\<close>

definition numbered :: "string \<Rightarrow> (string, 'v) dict \<Rightarrow> int \<Rightarrow> bool" where
  "numbered pre d n \<longleftrightarrow> 0 \<le> n \<and> (\<forall>k. dict_has d k \<longrightarrow> (\<exists>i. 0 \<le> i \<and> i < n \<and> k = pre @ int_str i))"

definition instances_wf :: "MemoryInstanceRepository \<Rightarrow> bool" where
  "instances_wf r \<longleftrightarrow> dict_wf (mi_instances r) \<and> numbered ''inst-'' (mi_instances r) (mi_next_id r)"

definition templates_wf :: "MemoryTemplateRepository \<Rightarrow> bool" where
  "templates_wf r \<longleftrightarrow> dict_wf (mt_templates r) \<and> numbered ''tpl-'' (mt_templates r) (mt_next_id r)"

lemma int_str_inj: "0 \<le> i \<Longrightarrow> 0 \<le> j \<Longrightarrow> int_str i = int_str j \<longleftrightarrow> i = j"
  by (simp add: int_str_def nat_str_inj eq_nat_nat_iff)

lemma numbered_fresh: "numbered pre d n \<Longrightarrow> dict_get d (pre @ int_str n) = None"
  unfolding numbered_def dict_has_def using int_str_inj by fastforce

lemma numbered_set: "numbered pre d n \<Longrightarrow> numbered pre (dict_set (pre @ int_str n) v d) (n + 1)"
  unfolding numbered_def dict_has_set by (metis add_increasing2 le_less_trans less_add_one order_less_imp_le zero_le_one zless_add1_eq)

lemma numbered_keep: "numbered pre d n \<Longrightarrow> dict_has d k \<Longrightarrow> numbered pre (dict_set k v d) n"
  by (auto simp: numbered_def)

interpretation instances: id_repository create_instance get_instance instance_row instances_wf
proof unfold_locales
  show "get_instance r (fst (create_instance a r)) = None" if "instances_wf r" for r a
    using that numbered_fresh [of "''inst-''" "mi_instances r" "mi_next_id r"] by (simp add: create_instance_def get_instance_def instances_wf_def Let_def)
  show "get_instance (snd (create_instance a r)) k = (if k = fst (create_instance a r) then Some (instance_row a k) else get_instance r k)"
    if "instances_wf r" for r a k
    by (simp add: create_instance_def get_instance_def Let_def)
  show "instances_wf (snd (create_instance a r))" if "instances_wf r" for r a
    using that numbered_set [of "''inst-''" "mi_instances r" "mi_next_id r"] by (simp add: create_instance_def instances_wf_def pydict.invar_insert Let_def)
qed

interpretation templates: id_repository create_template get_template template_row templates_wf
proof unfold_locales
  show "get_template r (fst (create_template a r)) = None" if "templates_wf r" for r a
    using that numbered_fresh [of "''tpl-''" "mt_templates r" "mt_next_id r"] by (simp add: create_template_def get_template_def templates_wf_def Let_def)
  show "get_template (snd (create_template a r)) k = (if k = fst (create_template a r) then Some (template_row a k) else get_template r k)"
    if "templates_wf r" for r a k
    by (simp add: create_template_def get_template_def Let_def)
  show "templates_wf (snd (create_template a r))" if "templates_wf r" for r a
    using that numbered_set [of "''tpl-''" "mt_templates r" "mt_next_id r"] by (simp add: create_template_def templates_wf_def pydict.invar_insert Let_def)
qed

lemma instances_wf_init [wf_intros]: "instances_wf (MemoryInstanceRepository_init configs)"
  by (simp add: instances_wf_def MemoryInstanceRepository_init_def numbered_def dict_has_def)

lemma instances_wf_update [wf_intros]: "instances_wf r \<Longrightarrow> instances_wf (update_instance iid config r)"
  by (simp add: instances_wf_def update_instance_def split: option.splits)

lemma instances_wf_delete [wf_intros]: "instances_wf r \<Longrightarrow> instances_wf (delete_instance iid r)"
  by (auto simp: instances_wf_def delete_instance_def dict_has_def intro: numbered_keep split: option.splits)

inductive instances_step :: "MemoryInstanceRepository \<Rightarrow> MemoryInstanceRepository \<Rightarrow> bool" where
  create: "create_instance args r = (iid, r') \<Longrightarrow> instances_step r r'"
| update: "instances_step r (update_instance iid config r)"
| archive: "instances_step r (delete_instance iid r)"

lemma instances_step_wf: "instances_step r r' \<Longrightarrow> instances_wf r \<Longrightarrow> instances_wf r'"
proof (induction rule: instances_step.induct)
  case (create args r iid r')
  then show ?case using instances.create_invar [of r args] by simp
qed (auto intro: wf_intros)

lemma instances_step_keeps:
  "instances_step r r' \<Longrightarrow> instances_wf r \<Longrightarrow> get_instance r k = Some i \<Longrightarrow>
   \<exists>st. get_instance r' k = Some (i\<lparr>an_status := st\<rparr>)"
proof (induction rule: instances_step.induct)
  case (create args r iid r')
  then have "k \<noteq> iid" using instances.create_fresh [of r args] by auto
  with create show ?case
    using instances.get_create [of r args k] by (auto intro: exI [of _ "an_status i"])
next
  case (update r iid config)
  then show ?case
    by (auto simp: get_instance_def update_instance_def intro: exI [of _ "an_status i"] split: option.splits)
next
  case (archive r iid)
  then show ?case
    by (auto simp: get_instance_def delete_instance_def intro: exI [of _ "an_status i"] split: option.splits)
qed

lemma instances_steps_keep:
  "instances_step\<^sup>*\<^sup>* r r' \<Longrightarrow> instances_wf r \<Longrightarrow> get_instance r k = Some i \<Longrightarrow>
   instances_wf r' \<and> (\<exists>st. get_instance r' k = Some (i\<lparr>an_status := st\<rparr>))"
proof (induction rule: rtranclp_induct)
  case base
  then show ?case by (auto intro: exI [of _ "an_status i"])
next
  case (step r1 r2)
  then obtain st where "instances_wf r1" "get_instance r1 k = Some (i\<lparr>an_status := st\<rparr>)" by blast
  with instances_step_keeps [OF step(2) this] instances_step_wf [OF step(2)] show ?case by auto
qed

section \<open>Properties\<close>

text \<open>
  An identifier names one instance for ever: an instance created in a reachable repository
  gets an identifier that no earlier instance has, and whatever happens later (further creations,
  updates, archiving) it is found under that identifier with the tenant, template, name and
  configuration it was created with; only its status may change.
\<close>

lemma instance_identifiers_are_stable:
  assumes "instances_step\<^sup>*\<^sup>* (MemoryInstanceRepository_init configs) r"
    and "create_instance (tenant, template, name, config) r = (iid, r1)" "instances_step\<^sup>*\<^sup>* r1 r'"
  shows "get_instance r iid = None \<and>
     (\<exists>st. get_instance r' iid = Some \<lparr>an_id = iid, an_tenant_id = tenant, an_template_id = template, an_name = name,
                                     an_config = config, an_status = st\<rparr>)"
proof -
  have wf: "instances_wf r"
    using assms(1) by (induction rule: rtranclp_induct) (auto intro: instances_wf_init instances_step_wf)
  have "instances_wf r1" "get_instance r iid = None"
    "get_instance r1 iid = Some (instance_row (tenant, template, name, config) iid)"
    using instances.create_invar [OF wf] instances.create_fresh [OF wf] instances.get_create [OF wf] assms(2)
    by (metis fst_conv snd_conv)+
  with instances_steps_keep [OF assms(3)] show ?thesis by (fastforce simp: instance_row_def)
qed

lemma instance_identifiers_are_stable_witness:
  "\<exists>st. get_instance (delete_instance ''inst-1'' (snd (create_instance (''t'', ''tpl-1'', ''n'', 0) (MemoryInstanceRepository_init (\<lambda>_. []))))) ''inst-1''
     = Some \<lparr>an_id = ''inst-1'', an_tenant_id = ''t'', an_template_id = ''tpl-1'', an_name = ''n'', an_config = 0, an_status = st\<rparr>"
proof -
  have "create_instance (''t'', ''tpl-1'', ''n'', 0) (MemoryInstanceRepository_init (\<lambda>_. [])) =
      (''inst-1'', snd (create_instance (''t'', ''tpl-1'', ''n'', 0) (MemoryInstanceRepository_init (\<lambda>_. []))))"
    by (simp add: create_instance_def MemoryInstanceRepository_init_def Let_def) code_simp
  from instance_identifiers_are_stable [OF rtranclp.rtrancl_refl this r_into_rtranclp [of instances_step, OF instances_step.archive]]
  show ?thesis by blast
qed

text \<open>
  Configurations are shared, not copied: \<^verbatim>\<open>update_instance\<close> changes the configuration of
  exactly those instances that were created with the very dictionary of the updated one, of whatever
  tenant, and leaves every other one alone.
\<close>

lemma update_reaches_sharers:
  assumes "get_instance r iid = Some a" "get_instance r jid = Some b"
  shows "mi_configs (update_instance iid config r) (an_config b) =
     (if an_config b = an_config a then dict_merge (mi_configs r (an_config b)) config else mi_configs r (an_config b)) \<and>
     get_instance (update_instance iid config r) jid = Some b"
  using assms by (auto simp: get_instance_def update_instance_def)

lemma update_reaches_sharers_witness:
  "\<exists>a b r. get_instance r ''inst-1'' = Some a \<and> get_instance r ''inst-2'' = Some b \<and> an_tenant_id a = ''t'' \<and> an_tenant_id b = ''u'' \<and>
     mi_configs (update_instance ''inst-1'' [(''k'', PyInt 1)] r) (an_config b) = dict_merge (mi_configs r (an_config b)) [(''k'', PyInt 1)]"
proof -
  let ?a = "instance_row (''t'', ''tpl-1'', ''n'', 0) ''inst-1''" and ?b = "instance_row (''u'', ''tpl-1'', ''n'', 0) ''inst-2''"
  let ?r = "\<lparr>mi_instances = [(''inst-1'', ?a), (''inst-2'', ?b)], mi_next_id = 3, mi_configs = (\<lambda>_. [])\<rparr>"
  have "get_instance ?r ''inst-1'' = Some ?a" "get_instance ?r ''inst-2'' = Some ?b"
    by (simp_all add: get_instance_def dict_get_def)
  from update_reaches_sharers [OF this, of "[(''k'', PyInt 1)]"] this show ?thesis
    by (intro exI [of _ ?a] exI [of _ ?b] exI [of _ ?r]) (simp add: instance_row_def)
qed

end
