(* ===== verification/Api_Auth.thy ===== *)
theory Api_Auth
  imports Errors Observability
begin

text \<open>
  \<^verbatim>\<open>core/identity/auth_context.py\<close>, \<^verbatim>\<open>api/auth/provider.py\<close> and \<^verbatim>\<open>api/audit/recorder.py\<close>: identities, the
  API-key provider, which stores the fingerprints of keys, and the audit recorder. The hex digest of
  SHA-256 is the argument \<open>sha256\<close>. The constant-time comparison is equality here.
\<close>

section \<open>The key provider\<close>

record AuthContext =
  ac_tenant_id :: string
  ac_agent_id :: string
  ac_permissions :: "string list"

record APIKeyAuthProvider =
  ak_key_prefix :: string
  ak_fingerprints :: "(string, AuthContext) dict"

definition fingerprint :: "(string \<Rightarrow> string) \<Rightarrow> string \<Rightarrow> string" where
  "fingerprint sha256 raw_key = sha256 raw_key"

definition APIKeyAuthProvider_init ::
  "(string \<Rightarrow> string) \<Rightarrow> (string, AuthContext) dict \<Rightarrow> string \<Rightarrow> APIKeyAuthProvider" where
  "APIKeyAuthProvider_init sha256 keys key_prefix =
     \<lparr>ak_key_prefix = key_prefix,
      ak_fingerprints = fold (\<lambda>(raw_key, ctx). dict_set (fingerprint sha256 raw_key) ctx) keys []\<rparr>"

definition add_key :: "(string \<Rightarrow> string) \<Rightarrow> string \<Rightarrow> AuthContext \<Rightarrow> APIKeyAuthProvider \<Rightarrow> APIKeyAuthProvider" where
  "add_key sha256 api_key ctx p = p\<lparr>ak_fingerprints := dict_set (fingerprint sha256 api_key) ctx (ak_fingerprints p)\<rparr>"

definition remove_key :: "(string \<Rightarrow> string) \<Rightarrow> string \<Rightarrow> APIKeyAuthProvider \<Rightarrow> bool \<times> APIKeyAuthProvider" where
  "remove_key sha256 api_key p =
     (let fp = fingerprint sha256 api_key in
      if dict_has (ak_fingerprints p) fp
      then (True, p\<lparr>ak_fingerprints := dict_del fp (ak_fingerprints p)\<rparr>) else (False, p))"

definition rotate_key ::
  "(string \<Rightarrow> string) \<Rightarrow> string \<Rightarrow> string \<Rightarrow> AuthContext option \<Rightarrow> MetricsRegistry option \<Rightarrow> APIKeyAuthProvider \<Rightarrow>
   bool \<times> MetricsRegistry option \<times> APIKeyAuthProvider" where
  "rotate_key sha256 old_key new_key ctx metrics p =
     (let old_fp = fingerprint sha256 old_key in
      case dict_get (ak_fingerprints p) old_fp of
        None \<Rightarrow> (False, metrics, p)
      | Some existing_ctx \<Rightarrow>
          let target_ctx = (case ctx of None \<Rightarrow> existing_ctx | Some c \<Rightarrow> c)
          in (True, map_option (increment ''security.auth.rotation'') metrics,
              p\<lparr>ak_fingerprints := dict_set (fingerprint sha256 new_key) target_ctx
                                      (dict_del old_fp (ak_fingerprints p))\<rparr>))"

text \<open>The scan over the stored fingerprints returns the first that equals the candidate.\<close>

definition authenticate :: "(string \<Rightarrow> string) \<Rightarrow> string \<Rightarrow> APIKeyAuthProvider \<Rightarrow> AuthContext option" where
  "authenticate sha256 api_key p =
     (if api_key = [] then None
      else let candidate = fingerprint sha256 api_key
           in map_option snd (find (\<lambda>(stored_fp, _). candidate = stored_fp) (ak_fingerprints p)))"

definition key_count :: "APIKeyAuthProvider \<Rightarrow> nat" where
  "key_count p = length (ak_fingerprints p)"

section \<open>Audit events\<close>

datatype AuditEventType = AUTH_SUCCESS | AUTH_FAILURE | KEY_ROTATION | TENANT_DENIED | WEBSOCKET_DEPRECATED

primrec AuditEventType_value :: "AuditEventType \<Rightarrow> string" where
  "AuditEventType_value AUTH_SUCCESS = ''auth.success''"
| "AuditEventType_value AUTH_FAILURE = ''auth.failure''"
| "AuditEventType_value KEY_ROTATION = ''auth.key_rotation''"
| "AuditEventType_value TENANT_DENIED = ''tenant.denied''"
| "AuditEventType_value WEBSOCKET_DEPRECATED = ''websocket.deprecated_auth''"

record AuditEvent =
  au_event_id :: string
  au_event_type :: AuditEventType
  au_tenant_id :: string
  au_agent_id :: string
  au_execution_id :: string
  au_detail :: string
  au_timestamp :: time

text \<open>The recorder writes to the log stream of its logger.\<close>

record AuditRecorder =
  ar_logger :: "RuntimeLogger option"
  ar_log :: "LogRecord list"

definition audit_record :: "AuditEvent \<Rightarrow> AuditRecorder \<Rightarrow> AuditRecorder" where
  "audit_record event r =
     (case ar_logger r of
        None \<Rightarrow> r
      | Some lg \<Rightarrow>
          r\<lparr>ar_log := logger_log lg LOG_INFO
               (if au_detail event \<noteq> [] then au_detail event else AuditEventType_value (au_event_type event)) []
               [(''audit_event_id'', PyStr (au_event_id event)),
                (''audit_event_type'', PyStr (AuditEventType_value (au_event_type event))),
                (''tenant_id'', PyStr (au_tenant_id event)), (''agent_id'', PyStr (au_agent_id event)),
                (''execution_id'', PyStr (au_execution_id event))] (ar_log r)\<rparr>)"

definition audit_event :: "string \<Rightarrow> time \<Rightarrow> AuditEventType \<Rightarrow> string \<Rightarrow> string \<Rightarrow> string \<Rightarrow> string \<Rightarrow> AuditEvent" where
  "audit_event uuid now ty tenant_id agent_id execution_id detail =
     \<lparr>au_event_id = uuid, au_event_type = ty, au_tenant_id = tenant_id, au_agent_id = agent_id,
      au_execution_id = execution_id, au_detail = detail, au_timestamp = now\<rparr>"

definition record_auth_failure ::
  "string \<Rightarrow> time \<Rightarrow> string \<Rightarrow> string \<Rightarrow> AuditRecorder \<Rightarrow> AuditEvent \<times> AuditRecorder" where
  "record_auth_failure uuid now tenant_id detail r =
     (let event = audit_event uuid now AUTH_FAILURE tenant_id [] [] (if detail \<noteq> [] then detail else ''Authentication failed'')
      in (event, audit_record event r))"

definition record_auth_success ::
  "string \<Rightarrow> time \<Rightarrow> string \<Rightarrow> string \<Rightarrow> AuditRecorder \<Rightarrow> AuditEvent \<times> AuditRecorder" where
  "record_auth_success uuid now tenant_id agent_id r =
     (let event = audit_event uuid now AUTH_SUCCESS tenant_id agent_id [] ''Authentication succeeded''
      in (event, audit_record event r))"

definition record_key_rotation ::
  "string \<Rightarrow> time \<Rightarrow> string \<Rightarrow> string \<Rightarrow> AuditRecorder \<Rightarrow> AuditEvent \<times> AuditRecorder" where
  "record_key_rotation uuid now tenant_id detail r =
     (let event = audit_event uuid now KEY_ROTATION tenant_id [] [] (if detail \<noteq> [] then detail else ''API key rotated'')
      in (event, audit_record event r))"

definition record_tenant_denied ::
  "string \<Rightarrow> time \<Rightarrow> string \<Rightarrow> string \<Rightarrow> string \<Rightarrow> AuditRecorder \<Rightarrow> AuditEvent \<times> AuditRecorder" where
  "record_tenant_denied uuid now tenant_id execution_id detail r =
     (let event = audit_event uuid now TENANT_DENIED tenant_id [] execution_id
                    (if detail \<noteq> [] then detail else ''Cross-tenant access denied'')
      in (event, audit_record event r))"

definition record_websocket_deprecated ::
  "string \<Rightarrow> time \<Rightarrow> string \<Rightarrow> string \<Rightarrow> AuditRecorder \<Rightarrow> AuditEvent \<times> AuditRecorder" where
  "record_websocket_deprecated uuid now tenant_id detail r =
     (let event = audit_event uuid now WEBSOCKET_DEPRECATED tenant_id [] []
                    (if detail \<noteq> [] then detail else ''WebSocket deprecated auth method used'')
      in (event, audit_record event r))"

section \<open>What the provider promises\<close>

text \<open>
  The provider refines a table from raw keys to identities. A key operation, its effect on the table
  and the provider's own operation:
\<close>

datatype key_op = Key_Add string AuthContext | Key_Remove string | Key_Rotate string string "AuthContext option"

primrec op_keys :: "key_op \<Rightarrow> string set" where
  "op_keys (Key_Add k c) = {k}"
| "op_keys (Key_Remove k) = {k}"
| "op_keys (Key_Rotate old new c) = {old, new}"

primrec table_step :: "key_op \<Rightarrow> (string \<rightharpoonup> AuthContext) \<Rightarrow> (string \<rightharpoonup> AuthContext)" where
  "table_step (Key_Add k c) m = m(k \<mapsto> c)"
| "table_step (Key_Remove k) m = m(k := None)"
| "table_step (Key_Rotate old new c) m =
     (case m old of None \<Rightarrow> m | Some x \<Rightarrow> (m(old := None))(new \<mapsto> (case c of None \<Rightarrow> x | Some y \<Rightarrow> y)))"

primrec provider_step :: "(string \<Rightarrow> string) \<Rightarrow> key_op \<Rightarrow> APIKeyAuthProvider \<Rightarrow> APIKeyAuthProvider" where
  "provider_step sha256 (Key_Add k c) p = add_key sha256 k c p"
| "provider_step sha256 (Key_Remove k) p = snd (remove_key sha256 k p)"
| "provider_step sha256 (Key_Rotate old new c) p = snd (snd (rotate_key sha256 old new c None p))"

definition represents :: "(string \<Rightarrow> string) \<Rightarrow> string set \<Rightarrow> APIKeyAuthProvider \<Rightarrow> (string \<rightharpoonup> AuthContext) \<Rightarrow> bool" where
  "represents sha256 K p m \<longleftrightarrow> (\<forall>k \<in> K. dict_get (ak_fingerprints p) (sha256 k) = m k)"

lemma authenticate_lookup:
  "authenticate sha256 k p = (if k = [] then None else dict_get (ak_fingerprints p) (sha256 k))"
proof -
  have "map_option snd (find (\<lambda>(fp, _). c = fp) d) = map_of d c" for c and d :: "(string, AuthContext) dict"
    by (induction d) auto
  then show ?thesis by (simp add: authenticate_def fingerprint_def dict_get_def)
qed

lemma provider_step_represents:
  assumes inj: "inj_on sha256 K" and sub: "op_keys op \<subseteq> K" and rep: "represents sha256 K p m"
  shows "represents sha256 K (provider_step sha256 op p) (table_step op m)"
proof -
  have eq: "sha256 a = sha256 b \<longleftrightarrow> a = b" if "a \<in> K" "b \<in> K" for a b using inj that by (simp add: inj_on_eq_iff)
  have get: "dict_get (ak_fingerprints p) (sha256 a) = m a" if "a \<in> K" for a using rep that by (simp add: represents_def)
  show ?thesis
  proof (cases op)
    case (Key_Rotate old new c)
    with sub have "old \<in> K" "new \<in> K" by auto
    then show ?thesis
      unfolding Key_Rotate represents_def
      by (auto simp: rotate_key_def fingerprint_def Let_def get eq split: option.splits)
  qed (use sub in \<open>auto simp: represents_def add_key_def remove_key_def fingerprint_def dict_has_def Let_def get eq
        split: if_splits\<close>)
qed

lemma provider_steps_represents:
  assumes "inj_on sha256 K" "\<Union> (op_keys ` set ops) \<subseteq> K" "represents sha256 K p m"
  shows "represents sha256 K (fold (provider_step sha256) ops p) (fold table_step ops m)"
  using assms(2,3)
proof (induction ops arbitrary: p m)
  case (Cons op ops)
  from Cons.prems have "represents sha256 K (provider_step sha256 op p) (table_step op m)"
    by (intro provider_step_represents [OF assms(1)]) auto
  then show ?case using Cons.IH Cons.prems by simp
qed simp

text \<open>
  Property C25. The key provider is a key table: after any sequence of additions, removals and rotations,
  a key authenticates exactly as the table from raw keys to identities says, although only the
  fingerprints are stored; the empty key never authenticates. The digest is assumed to have no
  collision among the keys in use.
\<close>

theorem provider_refines_key_table:
  assumes "inj_on sha256 K" "\<Union> (op_keys ` set ops) \<subseteq> K" "k \<in> K"
  shows "authenticate sha256 k (fold (provider_step sha256) ops (APIKeyAuthProvider_init sha256 [] pre)) =
     (if k = [] then None else fold table_step ops Map.empty k)"
proof -
  have "represents sha256 K (APIKeyAuthProvider_init sha256 [] pre) Map.empty"
    by (simp add: represents_def APIKeyAuthProvider_init_def)
  from provider_steps_represents [OF assms(1,2) this] assms(3) show ?thesis
    by (simp add: authenticate_lookup represents_def)
qed

theorem provider_refines_key_table_witness:
  "authenticate rev ''new'' (fold (provider_step rev)
      [Key_Add ''old'' \<lparr>ac_tenant_id = ''t'', ac_agent_id = ''a'', ac_permissions = []\<rparr>, Key_Rotate ''old'' ''new'' None]
      (APIKeyAuthProvider_init rev [] [])) = Some \<lparr>ac_tenant_id = ''t'', ac_agent_id = ''a'', ac_permissions = []\<rparr>"
  using provider_refines_key_table [of rev UNIV
      "[Key_Add ''old'' \<lparr>ac_tenant_id = ''t'', ac_agent_id = ''a'', ac_permissions = []\<rparr>, Key_Rotate ''old'' ''new'' None]" "''new''" "[]"]
  by simp

end
