(* ===== verification/Api.thy ===== *)
theory Api
  imports Runtime_Lifecycle Events Api_Auth
begin

text \<open>
  \<^verbatim>\<open>api/rest/app.py\<close> with the contracts of \<^verbatim>\<open>api/schemas/models.py\<close>: the REST and WebSocket endpoints over
  one runtime, as operations on the application's state. The framework (routing, parsing and
  validation of a request's body) is not modelled: an operation takes what the framework hands to
  the handler, and a reply is the value or the error body that the exception handlers build. The
  event publisher is the in-memory one. Clock readings and identifiers are arguments.
\<close>

section \<open>Contracts\<close>

record IntentRequest =
  iq_agent_id :: string
  iq_action :: string
  iq_parameters :: pyobj

record ExecutionResponse =
  rs_execution_id :: string
  rs_success :: bool
  rs_state :: string
  rs_checkpoint_id :: "string option"
  rs_data :: pyobj
  rs_error :: "string option"

record ExecutionStatusResponse =
  rx_execution_id :: string
  rx_state :: string
  rx_agent_id :: string
  rx_action :: string
  rx_success :: bool
  rx_error :: "string option"

record ErrorResponse =
  rr_error :: string
  rr_code :: string
  rr_details :: pyobj

record HealthResponse =
  rh_status :: string
  rh_version :: string
  rh_runtime :: string

datatype 'a reply = Reply int 'a | ErrorReply int ErrorResponse

definition status_code_to_code :: "int \<Rightarrow> string" where
  "status_code_to_code status_code =
     (if status_code = 400 then ''BAD_REQUEST'' else if status_code = 401 then ''UNAUTHORIZED''
      else if status_code = 403 then ''FORBIDDEN'' else if status_code = 404 then ''NOT_FOUND''
      else if status_code = 422 then ''VALIDATION_ERROR'' else if status_code = 429 then ''RATE_LIMITED''
      else if status_code = 500 then ''INTERNAL_ERROR'' else if status_code = 503 then ''SERVICE_UNAVAILABLE''
      else ''UNKNOWN'')"

definition http_exception_handler :: "int \<Rightarrow> string \<Rightarrow> 'a reply" where
  "http_exception_handler status_code detail =
     ErrorReply status_code \<lparr>rr_error = detail, rr_code = status_code_to_code status_code, rr_details = []\<rparr>"

definition general_exception_handler :: "exn \<Rightarrow> 'a reply" where
  "general_exception_handler exc =
     ErrorReply 500 \<lparr>rr_error = exc_str exc, rr_code = ''INTERNAL_ERROR'', rr_details = []\<rparr>"

section \<open>The application\<close>

record ExecutionRecord =
  xr_execution_id :: string
  xr_success :: bool
  xr_state :: string
  xr_agent_id :: string
  xr_action :: string
  xr_tenant_id :: string
  xr_checkpoint_id :: "string option"
  xr_error :: "string option"
  xr_created_at :: string

record 'w App =
  app_runtime :: "'w runtime"
  app_auth_provider :: APIKeyAuthProvider
  app_event_publisher :: InMemoryEventPublisher
  app_metrics_registry :: MetricsRegistry
  app_executions :: "(string, ExecutionRecord) dict"
  app_startup_time :: "time option"

text \<open>The defaults of \<^verbatim>\<open>create_app\<close>: an empty key provider, the in-memory publisher and a new registry.\<close>

definition create_app ::
  "(string \<Rightarrow> string) \<Rightarrow> 'w runtime \<Rightarrow> APIKeyAuthProvider option \<Rightarrow> InMemoryEventPublisher option \<Rightarrow> MetricsRegistry option \<Rightarrow>
   'w App" where
  "create_app sha256 runtime auth_provider event_publisher metrics_registry =
     \<lparr>app_runtime = runtime,
      app_auth_provider = (case auth_provider of None \<Rightarrow> APIKeyAuthProvider_init sha256 [] [] | Some a \<Rightarrow> a),
      app_event_publisher = (case event_publisher of None \<Rightarrow> InMemoryEventPublisher_init | Some p \<Rightarrow> p),
      app_metrics_registry = (case metrics_registry of None \<Rightarrow> MetricsRegistry_init | Some m \<Rightarrow> m),
      app_executions = [], app_startup_time = None\<rparr>"

definition app_incr :: "string \<Rightarrow> 'w App \<Rightarrow> 'w App" where
  "app_incr metric app = app\<lparr>app_metrics_registry := increment metric (app_metrics_registry app)\<rparr>"

definition lifespan_startup :: "string \<Rightarrow> time \<Rightarrow> 'w App \<Rightarrow> 'w App" where
  "lifespan_startup api_version now app =
     app\<lparr>app_startup_time := Some now,
         app_runtime := runtime_log LOG_INFO ''API starting'' [(''version'', PyStr api_version)] (app_runtime app)\<rparr>"

definition lifespan_shutdown :: "'w App \<Rightarrow> 'w App" where
  "lifespan_shutdown app =
     (let rt = stop (runtime_log LOG_INFO ''API shutting down'' [] (app_runtime app))
      in app\<lparr>app_runtime := runtime_log LOG_INFO ''API shutdown complete'' [] rt,
             app_event_publisher := close_all (app_event_publisher app)\<rparr>)"

section \<open>Authentication\<close>

definition get_auth_context :: "(string \<Rightarrow> string) \<Rightarrow> string \<Rightarrow> 'w App \<Rightarrow> AuthContext option \<times> 'w App" where
  "get_auth_context sha256 api_key app =
     (case authenticate sha256 api_key (app_auth_provider app) of
        None \<Rightarrow> (None, app_incr ''security.auth.failed'' app)
      | Some ctx \<Rightarrow> (Some ctx, app))"

text \<open>\<^verbatim>\<open>Depends(get_auth_context)\<close>: the handler runs only with an identity, the 401 reply is built otherwise.\<close>

definition with_auth ::
  "(string \<Rightarrow> string) \<Rightarrow> string \<Rightarrow> (AuthContext \<Rightarrow> 'w App \<Rightarrow> 'a reply \<times> 'w App) \<Rightarrow> 'w App \<Rightarrow> 'a reply \<times> 'w App" where
  "with_auth sha256 api_key handler app =
     (case get_auth_context sha256 api_key app of
        (None, app') \<Rightarrow> (http_exception_handler 401 ''Invalid or missing API key'', app')
      | (Some auth, app') \<Rightarrow> handler auth app')"

definition starts_with :: "string \<Rightarrow> string \<Rightarrow> bool" where
  "starts_with pre s = (take (length pre) s = pre)"

definition ws_authenticate ::
  "(string \<Rightarrow> string) \<Rightarrow> string \<Rightarrow> string \<Rightarrow> string \<Rightarrow> 'w App \<Rightarrow> AuthContext option \<times> 'w App" where
  "ws_authenticate sha256 auth_header ws_protocol api_key app =
     (if starts_with ''Bearer '' auth_header
      then (authenticate sha256 (drop 7 auth_header) (app_auth_provider app), app)
      else
        let by_protocol = (if ws_protocol \<noteq> [] \<and> starts_with ''kitematic.'' ws_protocol
                           then authenticate sha256 (drop (length ''kitematic.'') ws_protocol) (app_auth_provider app)
                           else None)
        in case by_protocol of
             Some ctx \<Rightarrow> (Some ctx, app)
           | None \<Rightarrow>
               if api_key = [] then (None, app)
               else case authenticate sha256 api_key (app_auth_provider app) of
                      Some ctx \<Rightarrow> (Some ctx, app_incr ''security.websocket.deprecated'' app)
                    | None \<Rightarrow> (None, app))"

section \<open>REST endpoints\<close>

record ApiEnv =
  ae_exec :: ExecEnv
  ae_intent_now :: time
  ae_record_now :: time
  ae_event_uuid :: string
  ae_event_now :: time

definition or_else :: "string \<Rightarrow> string \<Rightarrow> string" where
  "or_else a b = (if a \<noteq> [] then a else b)"

definition execution_record :: "ApiEnv \<Rightarrow> IntentRequest \<Rightarrow> string \<Rightarrow> ExecutionResult \<Rightarrow> ExecutionRecord" where
  "execution_record env intent_req tenant_id result =
     \<lparr>xr_execution_id = er_execution_id result, xr_success = er_success result,
      xr_state = ExecutionState_value (er_state result), xr_agent_id = iq_agent_id intent_req,
      xr_action = iq_action intent_req, xr_tenant_id = tenant_id, xr_checkpoint_id = er_checkpoint_id result,
      xr_error = er_error result, xr_created_at = isoformat (ae_record_now env)\<rparr>"

definition completed_event :: "ApiEnv \<Rightarrow> string \<Rightarrow> string \<Rightarrow> ExecutionResult \<Rightarrow> ExecutionEvent" where
  "completed_event env tenant_id agent_id result =
     \<lparr>ev_event_id = ae_event_uuid env, ev_execution_id = er_execution_id result, ev_tenant_id = tenant_id,
      ev_agent_id = Some agent_id, ev_event_type = StrType ''execution.completed'',
      ev_payload = [(''success'', PyBool (er_success result)),
                    (''state'', PyStr (ExecutionState_value (er_state result))),
                    (''error'', py_opt_str (er_error result))],
      ev_created_at = ae_event_now env, ev_schema_version = ''1.0''\<rparr>"

definition submit_intent ::
  "(string \<Rightarrow> string) \<Rightarrow> 'w abi \<Rightarrow> ApiEnv \<Rightarrow> string \<Rightarrow> string \<Rightarrow> string \<Rightarrow> IntentRequest \<Rightarrow> 'w App \<Rightarrow>
   ExecutionResponse reply \<times> 'w App" where
  "submit_intent sha256 abi env api_key x_tenant_id x_agent_id intent_req =
     with_auth sha256 api_key (\<lambda>auth app.
       let tenant_id = or_else x_tenant_id (ac_tenant_id auth);
           agent_id = or_else x_agent_id (or_else (ac_agent_id auth) (iq_agent_id intent_req));
           intent = \<lparr>in_agent_id = iq_agent_id intent_req, in_action = iq_action intent_req,
                     in_parameters = iq_parameters intent_req, in_timestamp = ae_intent_now env\<rparr>
       in case execute_intent abi (ae_exec env) intent (app_runtime app) of
            (Inl exc, rt) \<Rightarrow> (general_exception_handler exc, app\<lparr>app_runtime := rt\<rparr>)
          | (Inr result, rt) \<Rightarrow>
              let app1 = app\<lparr>app_runtime := rt,
                             app_executions := dict_set (er_execution_id result)
                               (execution_record env intent_req tenant_id result) (app_executions app)\<rparr>;
                  app2 = app_incr (if er_success result then ''api.intents_succeeded'' else ''api.intents_failed'')
                           (app_incr ''api.intents_submitted'' app1)
              in (Reply 201 \<lparr>rs_execution_id = er_execution_id result, rs_success = er_success result,
                             rs_state = ExecutionState_value (er_state result), rs_checkpoint_id = er_checkpoint_id result,
                             rs_data = er_data result, rs_error = er_error result\<rparr>,
                  app2\<lparr>app_event_publisher := publish (completed_event env tenant_id agent_id result)
                                                 (app_event_publisher app2)\<rparr>))"

definition api_get_execution_status ::
  "(string \<Rightarrow> string) \<Rightarrow> string \<Rightarrow> string \<Rightarrow> 'w App \<Rightarrow> ExecutionStatusResponse reply \<times> 'w App" where
  "api_get_execution_status sha256 api_key execution_id =
     with_auth sha256 api_key (\<lambda>auth app.
       case dict_get (app_executions app) execution_id of
         None \<Rightarrow> (http_exception_handler 403 ''Execution not found or access denied'', app)
       | Some r \<Rightarrow>
           if xr_tenant_id r \<noteq> [] \<and> xr_tenant_id r \<noteq> ac_tenant_id auth
           then (http_exception_handler 403 ''Execution not found or access denied'', app_incr ''security.tenant.denied'' app)
           else (Reply 200 \<lparr>rx_execution_id = xr_execution_id r, rx_state = xr_state r, rx_agent_id = xr_agent_id r,
                            rx_action = xr_action r, rx_success = xr_success r, rx_error = xr_error r\<rparr>, app))"

definition health_check :: "HealthResponse reply" where
  "health_check = Reply 200 \<lparr>rh_status = ''ok'', rh_version = ''1.0.0-rc.1'', rh_runtime = ''kitematic-runtime''\<rparr>"

definition api_get_metrics :: "(string \<Rightarrow> string) \<Rightarrow> string \<Rightarrow> 'w App \<Rightarrow> MetricsSnapshot reply \<times> 'w App" where
  "api_get_metrics sha256 api_key =
     with_auth sha256 api_key (\<lambda>auth app. (Reply 200 (snapshot (app_metrics_registry app)), app))"

section \<open>The event stream\<close>

text \<open>
  A connection is refused with the close code 4001, or subscribes a queue under the identity's
  tenant. The listener sends what the queue holds until the end marker, then the final frame;
  disconnecting unsubscribes the queue.
\<close>

definition ws_connect ::
  "(string \<Rightarrow> string) \<Rightarrow> string \<Rightarrow> string \<Rightarrow> string \<Rightarrow> string \<Rightarrow> 'w App \<Rightarrow> (int + nat) \<times> 'w App" where
  "ws_connect sha256 execution_id auth_header ws_protocol api_key app =
     (case ws_authenticate sha256 auth_header ws_protocol api_key app of
        (None, app') \<Rightarrow> (Inl 4001, app')
      | (Some ctx, app') \<Rightarrow>
          let (queue, p) = subscribe execution_id (ac_tenant_id ctx) (app_event_publisher app')
          in (Inr queue, app'\<lparr>app_event_publisher := p\<rparr>))"

fun listen_queue :: "string \<Rightarrow> queue_item list \<Rightarrow> pyobj list" where
  "listen_queue execution_id [] = []"
| "listen_queue execution_id (QEvent event # items) = event # listen_queue execution_id items"
| "listen_queue execution_id (QEnd # items) =
     [[(''type'', PyStr ''stream.ended''), (''execution_id'', PyStr execution_id)]]"

definition ws_disconnect :: "string \<Rightarrow> nat \<Rightarrow> 'w App \<Rightarrow> 'w App" where
  "ws_disconnect execution_id queue app =
     app\<lparr>app_event_publisher := unsubscribe execution_id queue (app_event_publisher app)\<rparr>"

section \<open>Lemmas\<close>

lemma app_incr_frame [simp]:
  "app_runtime (app_incr k app) = app_runtime app" "app_auth_provider (app_incr k app) = app_auth_provider app"
  "app_event_publisher (app_incr k app) = app_event_publisher app" "app_executions (app_incr k app) = app_executions app"
  "app_metrics_registry (app_incr k app) = increment k (app_metrics_registry app)"
  by (simp_all add: app_incr_def)

lemma with_auth_cases:
  assumes "with_auth sha256 key handler app = (r, app')"
  obtains (refused) "authenticate sha256 key (app_auth_provider app) = None"
      "r = http_exception_handler 401 ''Invalid or missing API key''" "app' = app_incr ''security.auth.failed'' app"
    | (granted) auth where "authenticate sha256 key (app_auth_provider app) = Some auth" "handler auth app = (r, app')"
  using assms by (auto simp: with_auth_def get_auth_context_def split: option.splits)

lemma submit_cases:
  assumes "submit_intent sha256 abi env key x_tenant x_agent req app = (r, app')"
  obtains (refused) "authenticate sha256 key (app_auth_provider app) = None"
      "r = http_exception_handler 401 ''Invalid or missing API key''" "app' = app_incr ''security.auth.failed'' app"
    | (raised) auth intent exc rt where "authenticate sha256 key (app_auth_provider app) = Some auth"
      "execute_intent abi (ae_exec env) intent (app_runtime app) = (Inl exc, rt)"
      "r = general_exception_handler exc" "app' = app\<lparr>app_runtime := rt\<rparr>"
    | (executed) auth intent result rt where "authenticate sha256 key (app_auth_provider app) = Some auth"
      "execute_intent abi (ae_exec env) intent (app_runtime app) = (Inr result, rt)"
      "app_runtime app' = rt" "app_auth_provider app' = app_auth_provider app"
      "app_executions app' = dict_set (er_execution_id result)
         (execution_record env req (or_else x_tenant (ac_tenant_id auth)) result) (app_executions app)"
      "app_metrics_registry app' = increment (if er_success result then ''api.intents_succeeded'' else ''api.intents_failed'')
         (increment ''api.intents_submitted'' (app_metrics_registry app))"
      "app_event_publisher app' = publish (completed_event env (or_else x_tenant (ac_tenant_id auth))
         (or_else x_agent (or_else (ac_agent_id auth) (iq_agent_id req))) result) (app_event_publisher app)"
      "r = Reply 201 \<lparr>rs_execution_id = er_execution_id result, rs_success = er_success result,
         rs_state = ExecutionState_value (er_state result), rs_checkpoint_id = er_checkpoint_id result,
         rs_data = er_data result, rs_error = er_error result\<rparr>"
  using assms unfolding submit_intent_def
proof (cases rule: with_auth_cases)
  case (granted auth)
  let ?intent = "\<lparr>in_agent_id = iq_agent_id req, in_action = iq_action req, in_parameters = iq_parameters req,
                  in_timestamp = ae_intent_now env\<rparr>"
  show thesis
  proof (cases "execute_intent abi (ae_exec env) ?intent (app_runtime app)")
    case (Pair x rt)
    show thesis
    proof (cases x)
      case (Inl exc)
      show thesis by (rule raised [OF granted(1) Pair [unfolded Inl]]) (use granted(2) Pair Inl in \<open>auto simp: Let_def\<close>)
    next
      case (Inr result)
      show thesis
        by (rule executed [OF granted(1) Pair [unfolded Inr]])
          (use granted(2) Pair Inr in \<open>auto simp: Let_def app_incr_def\<close>)
    qed
  qed
qed (rule refused)

section \<open>Streams\<close>

text \<open>
  No queue serves two executions, unused queues are empty, and the events waiting in a queue
  that a tenant subscribed to an execution are of that execution and of that tenant, or of none.
\<close>

definition event_visible :: "string \<Rightarrow> string \<Rightarrow> pyobj \<Rightarrow> bool" where
  "event_visible eid t d \<longleftrightarrow> dict_get d ''execution_id'' = Some (PyStr eid) \<and>
     (t = [] \<or> dict_get d ''tenant_id'' \<in> {Some (PyStr t), Some (PyStr [])})"

definition streams_wf :: "InMemoryEventPublisher \<Rightarrow> bool" where
  "streams_wf p \<longleftrightarrow> publisher_wf p \<and>
     (\<forall>q eid eid' t t'. (q, t) \<in> set (subs p eid) \<longrightarrow> (q, t') \<in> set (subs p eid') \<longrightarrow> eid = eid') \<and>
     (\<forall>q. pb_next_queue p \<le> q \<longrightarrow> pb_queues p q = []) \<and>
     (\<forall>eid q t d. (q, t) \<in> set (subs p eid) \<longrightarrow> QEvent d \<in> set (pb_queues p q) \<longrightarrow> event_visible eid t d)"

lemma streams_wf_init [wf_intros]: "streams_wf InMemoryEventPublisher_init"
  by (simp add: streams_wf_def publisher_wf_def InMemoryEventPublisher_init_def subs_def dict_get_or_def)

lemma subscribe_frame [simp]:
  "pb_queues (snd (subscribe eid t p)) = pb_queues p" "pb_next_queue (snd (subscribe eid t p)) = Suc (pb_next_queue p)"
  "fst (subscribe eid t p) = pb_next_queue p"
  by (simp_all add: subscribe_def Let_def)

lemma subscribed_below: "publisher_wf p \<Longrightarrow> (q, t) \<in> set (subs p eid) \<Longrightarrow> q < pb_next_queue p"
  unfolding publisher_wf_def by blast

lemma streams_wf_subscribe [wf_intros]:
  assumes "streams_wf p"
  shows "streams_wf (snd (subscribe eid t p))"
proof -
  have wf: "publisher_wf p" "\<And>q e e' u u'. (q, u) \<in> set (subs p e) \<Longrightarrow> (q, u') \<in> set (subs p e') \<Longrightarrow> e = e'"
    "\<And>q. pb_next_queue p \<le> q \<Longrightarrow> pb_queues p q = []"
    "\<And>e q u d. (q, u) \<in> set (subs p e) \<Longrightarrow> QEvent d \<in> set (pb_queues p q) \<Longrightarrow> event_visible e u d"
    using assms by (auto simp: streams_wf_def)
  have fresh: "(pb_next_queue p, u) \<notin> set (subs p e)" for u e using subscribed_below [OF wf(1)] by blast
  have empty: "pb_queues p (pb_next_queue p) = []" by (rule wf(3)) simp
  show ?thesis
    unfolding streams_wf_def using publisher_wf_subscribe [OF wf(1)] wf fresh empty by (auto split: if_splits)
qed

text \<open>Dropping subscriptions and putting end markers into queues keeps the invariant.\<close>

lemma streams_wf_shrink:
  assumes "streams_wf p" "publisher_wf p'" "pb_next_queue p' = pb_next_queue p"
    and "\<And>eid. set (subs p' eid) \<subseteq> set (subs p eid)"
    and "\<And>q d. QEvent d \<in> set (pb_queues p' q) \<Longrightarrow> QEvent d \<in> set (pb_queues p q)"
    and "\<And>q. pb_next_queue p \<le> q \<Longrightarrow> pb_queues p' q = []"
  shows "streams_wf p'"
proof -
  have old: "\<And>q e e' u u'. (q, u) \<in> set (subs p e) \<Longrightarrow> (q, u') \<in> set (subs p e') \<Longrightarrow> e = e'"
    "\<And>e q u d. (q, u) \<in> set (subs p e) \<Longrightarrow> QEvent d \<in> set (pb_queues p q) \<Longrightarrow> event_visible e u d"
    using assms(1) by (auto simp: streams_wf_def)
  show ?thesis
    unfolding streams_wf_def assms(3)
  proof (intro conjI allI impI)
    show "e = e'" if "(q, u) \<in> set (subs p' e)" "(q, u') \<in> set (subs p' e')" for q e e' u u'
      using old(1) that assms(4) by blast
    show "event_visible e u d" if "(q, u) \<in> set (subs p' e)" "QEvent d \<in> set (pb_queues p' q)" for e q u d
      using old(2) that assms(4,5) by blast
  qed (use assms(2,6) in auto)
qed

lemma streams_wf_unsubscribe [wf_intros]: "streams_wf p \<Longrightarrow> streams_wf (unsubscribe eid q p)"
  by (rule streams_wf_shrink, assumption)
    (auto simp: streams_wf_def publisher_wf_unsubscribe subs_unsubscribe, auto simp: unsubscribe_def)

lemma close_execution_frame:
  assumes "publisher_wf p"
  shows "pb_next_queue (close_execution eid p) = pb_next_queue p"
    "subs (close_execution eid p) e = (if e = eid then [] else subs p e)"
    "pb_queues (close_execution eid p) q = pb_queues p q @ (if \<exists>t. (q, t) \<in> set (subs p eid) then [QEnd] else [])"
    "publisher_wf (close_execution eid p)"
proof -
  have d: "distinct (map fst (subs p eid))" using assms by (simp add: publisher_wf_def)
  have eq: "fold (\<lambda>(q, _). put_nowait QEnd q) ss p =
      fold (\<lambda>(q, t) p'. if False then p' else put_nowait QEnd q p') ss p" for ss by simp
  note fr = fold_put_frame [of "\<lambda>_. False" QEnd] and put = fold_put [OF d, of "\<lambda>_. False" QEnd p q]
  show "pb_next_queue (close_execution eid p) = pb_next_queue p"
    by (simp only: close_execution_def Let_def eq) (simp add: fr del: if_False)
  show subs: "subs (close_execution eid p) e = (if e = eid then [] else subs p e)" for e
    by (simp only: close_execution_def Let_def eq) (simp add: subs_def dict_get_or_def fr del: if_False)
  show "pb_queues (close_execution eid p) q = pb_queues p q @ (if \<exists>t. (q, t) \<in> set (subs p eid) then [QEnd] else [])"
    using put by (simp add: close_execution_def Let_def)
  show "publisher_wf (close_execution eid p)"
    using assms unfolding publisher_wf_def subs
    by (simp only: close_execution_def Let_def eq) (auto simp add: fr simp del: if_False)
qed

lemma streams_wf_close [wf_intros]:
  assumes "streams_wf p"
  shows "streams_wf (close_execution eid p)"
proof -
  have wf: "publisher_wf p" using assms by (simp add: streams_wf_def)
  note fr = close_execution_frame [OF wf]
  show ?thesis
    by (rule streams_wf_shrink [OF assms])
      (use assms subscribed_below [OF wf] in \<open>fastforce simp: fr streams_wf_def split: if_splits\<close>)+
qed

lemma streams_wf_close_all [wf_intros]: "streams_wf p \<Longrightarrow> streams_wf (close_all p)"
proof -
  have "streams_wf (fold close_execution es p)" if "streams_wf p" for es p
    using that by (induction es arbitrary: p) (auto intro: streams_wf_close)
  then show "streams_wf p \<Longrightarrow> streams_wf (close_all p)" by (simp add: close_all_def)
qed

lemma publish_frame: "subs (publish e p) = subs p" "pb_next_queue (publish e p) = pb_next_queue p"
  by (simp_all add: publish_def subs_def fun_eq_iff fold_put_frame)

lemma event_to_dict_fields:
  "dict_get (event_to_dict e) ''execution_id'' = Some (PyStr (ev_execution_id e))"
  "dict_get (event_to_dict e) ''tenant_id'' = Some (PyStr (ev_tenant_id e))"
  by (simp_all add: event_to_dict_def dict_get_def)

lemma streams_wf_publish [wf_intros]:
  assumes "streams_wf p"
  shows "streams_wf (publish e p)"
proof -
  have wf: "publisher_wf p" using assms by (simp add: streams_wf_def)
  have same: "eid = ev_execution_id e \<and> u = t"
    if "(q, t) \<in> set (subs p eid)" "(q, u) \<in> set (subs p (ev_execution_id e))" for q t u eid
  proof -
    have "eid = ev_execution_id e" using assms that unfolding streams_wf_def by blast
    moreover have "distinct (map fst (subs p eid))" using wf by (simp add: publisher_wf_def)
    ultimately show ?thesis using that by (metis eq_key_imp_eq_value)
  qed
  have unused: "(q, t) \<notin> set (subs p eid)" if "pb_next_queue p \<le> q" for q t eid
    using subscribed_below [OF wf] that by (meson leD)
  show ?thesis
    using assms publisher_wf_publish [OF wf] unfolding streams_wf_def publish_frame publish_queues [OF wf]
    by (auto simp: event_visible_def event_to_dict_fields unused dest: same split: if_splits)
qed

end
