(* ===== verification/Api_Properties.thy ===== *)
theory Api_Properties
  imports Api
begin

text \<open>
  Reachable states of the application and what its endpoints promise: authentication before
  anything else, isolation of execution records and of event streams between tenants, and the
  balance of the request counters.
\<close>

section \<open>Reachable applications\<close>

inductive api_step :: "(string \<Rightarrow> string) \<Rightarrow> 'w abi \<Rightarrow> 'w App \<Rightarrow> 'w App \<Rightarrow> bool" for sha256 abi where
  submit: "submit_intent sha256 abi env key x_tenant x_agent req app = (r, app') \<Longrightarrow> api_step sha256 abi app app'"
| status: "api_get_execution_status sha256 key eid app = (r, app') \<Longrightarrow> api_step sha256 abi app app'"
| metrics: "api_get_metrics sha256 key app = (r, app') \<Longrightarrow> api_step sha256 abi app app'"
| connect: "ws_connect sha256 eid header protocol key app = (r, app') \<Longrightarrow> api_step sha256 abi app app'"
| disconnect: "api_step sha256 abi app (ws_disconnect eid q app)"
| startup: "api_step sha256 abi app (lifespan_startup version now app)"
| shutdown: "api_step sha256 abi app (lifespan_shutdown app)"
| keys: "api_step sha256 abi app (app\<lparr>app_auth_provider := provider_step sha256 op (app_auth_provider app)\<rparr>)"
| kernel: "runtime_step abi (app_runtime app) rt \<Longrightarrow> api_step sha256 abi app (app\<lparr>app_runtime := rt\<rparr>)"

text \<open>The invariant: streams are separated, records sit under their own identifier, and counters balance.\<close>

definition counters_balance :: "MetricsRegistry \<Rightarrow> bool" where
  "counters_balance m \<longleftrightarrow> get_counter m ''api.intents_submitted'' =
     get_counter m ''api.intents_succeeded'' + get_counter m ''api.intents_failed''"

definition app_wf :: "'w App \<Rightarrow> bool" where
  "app_wf app \<longleftrightarrow> streams_wf (app_event_publisher app) \<and> counters_balance (app_metrics_registry app) \<and>
     (\<forall>eid r. dict_get (app_executions app) eid = Some r \<longrightarrow> xr_execution_id r = eid)"

lemma counters_balance_other:
  "counters_balance m \<Longrightarrow> k \<notin> {''api.intents_submitted'', ''api.intents_succeeded'', ''api.intents_failed''} \<Longrightarrow>
   counters_balance (increment k m)"
  by (auto simp: counters_balance_def)

lemma counters_balance_submitted:
  "counters_balance m \<Longrightarrow>
   counters_balance (increment (if b then ''api.intents_succeeded'' else ''api.intents_failed'') (increment ''api.intents_submitted'' m))"
  by (simp add: counters_balance_def)

lemma app_wf_incr [wf_intros]:
  "app_wf app \<Longrightarrow> k \<notin> {''api.intents_submitted'', ''api.intents_succeeded'', ''api.intents_failed''} \<Longrightarrow> app_wf (app_incr k app)"
  by (simp add: app_wf_def counters_balance_other)

lemma app_wf_runtime [simp]: "app_wf (app\<lparr>app_runtime := rt\<rparr>) = app_wf app"
  "app_wf (app\<lparr>app_auth_provider := ap\<rparr>) = app_wf app"
  by (simp_all add: app_wf_def)

lemma app_wf_create: "app_wf (create_app sha256 rt auth None None)"
  by (simp add: app_wf_def create_app_def streams_wf_init counters_balance_def MetricsRegistry_init_def get_counter_def
      dict_get_or_def)

lemma app_wf_submit:
  assumes "submit_intent sha256 abi env key x_tenant x_agent req app = (r, app')" "app_wf app"
  shows "app_wf app'"
  using assms(1)
proof (cases rule: submit_cases)
  case refused
  then show ?thesis using assms(2) by (simp add: app_wf_incr)
next
  case raised
  then show ?thesis using assms(2) by simp
next
  case (executed auth intent result rt)
  then show ?thesis
    using assms(2) counters_balance_submitted
    by (auto simp: app_wf_def execution_record_def intro: streams_wf_publish split: if_splits)
qed

lemma ws_authenticate_app:
  "ws_authenticate sha256 header protocol key app = (c, app') \<Longrightarrow> app' \<in> {app, app_incr ''security.websocket.deprecated'' app}"
  by (auto simp: ws_authenticate_def Let_def split: if_splits option.splits)

lemma app_wf_connect:
  assumes "ws_connect sha256 eid header protocol key app = (r, app')" "app_wf app"
  shows "app_wf app'"
proof -
  obtain c app1 where a: "ws_authenticate sha256 header protocol key app = (c, app1)" by fastforce
  have "app_wf (app_incr ''security.websocket.deprecated'' app)" by (rule app_wf_incr [OF assms(2)]) simp
  with ws_authenticate_app [OF a] assms(2) have wf: "app_wf app1" by auto
  show ?thesis
  proof (cases c)
    case None
    with a wf assms(1) show ?thesis by (simp add: ws_connect_def)
  next
    case (Some ctx)
    then have "app' = app1\<lparr>app_event_publisher := snd (subscribe eid (ac_tenant_id ctx) (app_event_publisher app1))\<rparr>"
      using a assms(1) by (auto simp: ws_connect_def split_beta)
    with wf show ?thesis by (simp add: app_wf_def streams_wf_subscribe)
  qed
qed

lemma app_wf_step: "api_step sha256 abi app app' \<Longrightarrow> app_wf app \<Longrightarrow> app_wf app'"
proof (induction rule: api_step.induct)
  case (submit env key x_tenant x_agent req app r app')
  then show ?case by (rule app_wf_submit)
next
  case (status key eid app r app')
  from status(1) show ?case
    unfolding api_get_execution_status_def
    by (cases rule: with_auth_cases) (use status(2) in \<open>auto intro: app_wf_incr split: option.splits if_splits\<close>)
next
  case (metrics key app r app')
  from metrics(1) show ?case
    unfolding api_get_metrics_def by (cases rule: with_auth_cases) (use metrics(2) in \<open>auto intro: app_wf_incr\<close>)
next
  case (connect eid header protocol key app r app')
  then show ?case by (rule app_wf_connect)
next
  case (disconnect app eid q)
  then show ?case by (simp add: app_wf_def ws_disconnect_def streams_wf_unsubscribe)
next
  case (shutdown app)
  then show ?case by (simp add: app_wf_def lifespan_shutdown_def Let_def streams_wf_close_all)
next
  case (startup app version now)
  then show ?case by (simp add: app_wf_def lifespan_startup_def)
qed simp_all

lemma app_wf_steps: "(api_step sha256 abi)\<^sup>*\<^sup>* app app' \<Longrightarrow> app_wf app \<Longrightarrow> app_wf app'"
  by (induction rule: rtranclp_induct) (auto intro: app_wf_step)

section \<open>Properties\<close>

text \<open>
  Property C28. No endpoint acts for an unknown key: with a key that does not authenticate, submitting an
  intent, asking for a status or for the metrics answers 401 UNAUTHORIZED, and nothing of the
  application changes but the counter of failed authentications; in particular the runtime is not called.
\<close>

theorem api_requires_key:
  assumes "authenticate sha256 key (app_auth_provider app) = None"
  shows "submit_intent sha256 abi env key x_tenant x_agent req app =
       (ErrorReply 401 \<lparr>rr_error = ''Invalid or missing API key'', rr_code = ''UNAUTHORIZED'', rr_details = []\<rparr>,
        app_incr ''security.auth.failed'' app) \<and>
     api_get_execution_status sha256 key eid app =
       (ErrorReply 401 \<lparr>rr_error = ''Invalid or missing API key'', rr_code = ''UNAUTHORIZED'', rr_details = []\<rparr>,
        app_incr ''security.auth.failed'' app) \<and>
     api_get_metrics sha256 key app =
       (ErrorReply 401 \<lparr>rr_error = ''Invalid or missing API key'', rr_code = ''UNAUTHORIZED'', rr_details = []\<rparr>,
        app_incr ''security.auth.failed'' app)"
  using assms
  by (simp add: submit_intent_def api_get_execution_status_def api_get_metrics_def with_auth_def get_auth_context_def
      http_exception_handler_def status_code_to_code_def)

definition sample_auth :: APIKeyAuthProvider where
  "sample_auth = APIKeyAuthProvider_init rev
     [(''key-a'', \<lparr>ac_tenant_id = ''A'', ac_agent_id = ''a'', ac_permissions = []\<rparr>),
      (''key-b'', \<lparr>ac_tenant_id = ''B'', ac_agent_id = ''b'', ac_permissions = []\<rparr>)] []"

definition sample_app :: "string list App" where
  "sample_app = create_app rev sample_runtime (Some sample_auth) None None"

theorem api_requires_key_witness:
  "fst (api_get_metrics rev ''wrong'' sample_app) =
     ErrorReply 401 \<lparr>rr_error = ''Invalid or missing API key'', rr_code = ''UNAUTHORIZED'', rr_details = []\<rparr>"
proof -
  have "authenticate rev ''wrong'' (app_auth_provider sample_app) = None"
    by (simp add: sample_app_def sample_auth_def create_app_def APIKeyAuthProvider_init_def fingerprint_def authenticate_lookup)
  from api_requires_key [OF this] show ?thesis by simp
qed

text \<open>
  Property C23. A tenant sees only its own executions: in every reachable application, asking for an
  execution's status with a valid key gives the state, agent, action, success and error recorded for that
  execution exactly when a record is stored under the caller's tenant (or under none); in every other case, whether
  the execution is unknown or another tenant's, the answer is the same 403. Asking changes neither the
  runtime nor the records.
\<close>

theorem execution_status_isolated:
  assumes "(api_step sha256 abi)\<^sup>*\<^sup>* (create_app sha256 rt auth0 None None) app"
    and "authenticate sha256 key (app_auth_provider app) = Some auth"
    and "api_get_execution_status sha256 key eid app = (r, app')"
  shows "(case r of
       Reply st s \<Rightarrow> st = 200 \<and>
         (\<exists>x. dict_get (app_executions app) eid = Some x \<and> xr_tenant_id x \<in> {[], ac_tenant_id auth} \<and>
            s = \<lparr>rx_execution_id = eid, rx_state = xr_state x, rx_agent_id = xr_agent_id x, rx_action = xr_action x,
                 rx_success = xr_success x, rx_error = xr_error x\<rparr>)
     | ErrorReply st e \<Rightarrow> st = 403 \<and>
         e = \<lparr>rr_error = ''Execution not found or access denied'', rr_code = ''FORBIDDEN'', rr_details = []\<rparr> \<and>
         (\<nexists>x. dict_get (app_executions app) eid = Some x \<and> xr_tenant_id x \<in> {[], ac_tenant_id auth})) \<and>
     app_runtime app' = app_runtime app \<and> app_executions app' = app_executions app"
proof -
  have "app_wf app" by (rule app_wf_steps [OF assms(1) app_wf_create])
  then have own: "xr_execution_id x = eid" if "dict_get (app_executions app) eid = Some x" for x
    using that by (simp add: app_wf_def)
  show ?thesis
    using assms(2,3) own
    by (auto simp: api_get_execution_status_def with_auth_def get_auth_context_def http_exception_handler_def
        status_code_to_code_def split: option.splits if_splits)
qed

definition sample_api_env :: ApiEnv where
  "sample_api_env = \<lparr>ae_exec = sample_env, ae_intent_now = 0, ae_record_now = 0, ae_event_uuid = ''u'', ae_event_now = 0\<rparr>"

definition sample_request :: IntentRequest where
  "sample_request = \<lparr>iq_agent_id = ''a1'', iq_action = ''read'', iq_parameters = []\<rparr>"

lemma sample_keys:
  "authenticate rev ''key-a'' (app_auth_provider sample_app) = Some \<lparr>ac_tenant_id = ''A'', ac_agent_id = ''a'', ac_permissions = []\<rparr>"
  "authenticate rev ''key-b'' (app_auth_provider sample_app) = Some \<lparr>ac_tenant_id = ''B'', ac_agent_id = ''b'', ac_permissions = []\<rparr>"
  by (simp_all add: sample_app_def sample_auth_def create_app_def APIKeyAuthProvider_init_def fingerprint_def authenticate_lookup)

lemma submit_provider:
  "submit_intent sha256 abi env key x_tenant x_agent req app = (r, app') \<Longrightarrow> app_auth_provider app' = app_auth_provider app"
  by (erule submit_cases) auto

text \<open>A submission under one tenant's key, and what the keys of two tenants are told about it.\<close>

lemma sample_record:
  "\<exists>res. dict_get (app_executions (snd (submit_intent rev sample_abi sample_api_env ''key-a'' [] [] sample_request sample_app))) ''e1'' =
     Some (execution_record sample_api_env sample_request ''A'' res) \<and> er_success res"
proof -
  obtain res rt' where ex: "execute_intent sample_abi sample_env (sample_intent ''read'') sample_runtime = (Inr res, rt')" "er_success res"
    using sample_succeeds by blast
  have id: "er_execution_id res = ''e1''" using success_calls [OF ex] by (auto simp: sample_env_def)
  have rt: "app_runtime sample_app = sample_runtime" by (simp add: sample_app_def create_app_def)
  show ?thesis
    using ex by (simp add: submit_intent_def with_auth_def get_auth_context_def sample_keys sample_request_def sample_api_env_def
        sample_intent_def Let_def rt or_else_def id) blast
qed

theorem execution_status_isolated_witness:
  "let app = snd (submit_intent rev sample_abi sample_api_env ''key-a'' [] [] sample_request sample_app);
       status = (\<lambda>key. fst (api_get_execution_status rev key ''e1'' app))
   in (\<exists>s. status ''key-a'' = Reply 200 s \<and> rx_agent_id s = ''a1'' \<and> rx_action s = ''read'' \<and> rx_success s) \<and>
      (\<exists>e. status ''key-b'' = ErrorReply 403 e)"
proof -
  let ?sub = "submit_intent rev sample_abi sample_api_env ''key-a'' [] [] sample_request sample_app"
  have step: "(api_step rev sample_abi)\<^sup>*\<^sup>* sample_app (snd ?sub)"
    by (rule r_into_rtranclp, rule api_step.submit [OF surjective_pairing])
  have keys: "authenticate rev ''key-a'' (app_auth_provider (snd ?sub)) = Some \<lparr>ac_tenant_id = ''A'', ac_agent_id = ''a'', ac_permissions = []\<rparr>"
      "authenticate rev ''key-b'' (app_auth_provider (snd ?sub)) = Some \<lparr>ac_tenant_id = ''B'', ac_agent_id = ''b'', ac_permissions = []\<rparr>"
    using submit_provider [OF surjective_pairing, of rev sample_abi sample_api_env "''key-a''" "[]" "[]" sample_request sample_app]
      sample_keys by simp_all
  obtain res where rec: "dict_get (app_executions (snd ?sub)) ''e1'' = Some (execution_record sample_api_env sample_request ''A'' res)"
      "er_success res"
    using sample_record by blast
  note isolated = execution_status_isolated [where rt = sample_runtime and ?auth0.0 = "Some sample_auth" and ?sha256.0 = rev,
      folded sample_app_def, OF step _ surjective_pairing, of _ _ "''e1''"]
  have "\<exists>s. fst (api_get_execution_status rev ''key-a'' ''e1'' (snd ?sub)) = Reply 200 s \<and> rx_agent_id s = ''a1'' \<and> rx_action s = ''read'' \<and> rx_success s"
    using isolated [OF keys(1)] rec by (auto simp: execution_record_def sample_request_def split: reply.splits)
  moreover have "\<exists>e. fst (api_get_execution_status rev ''key-b'' ''e1'' (snd ?sub)) = ErrorReply 403 e"
    using isolated [OF keys(2)] rec by (auto simp: execution_record_def split: reply.splits)
  ultimately show ?thesis by (simp add: Let_def)
qed

text \<open>
  The tenant of an execution is whatever the caller says: with a non-empty tenant parameter,
  a submitted intent is recorded under that tenant, so afterwards a key reads its status exactly when it
  is a key of the named tenant, whoever submitted it; and neither the reply nor the runtime depends on the
  tenant and agent parameters, which never reach the kernel.
\<close>

lemma tenant_parameter_is_trusted:
  assumes "submit_intent sha256 abi env key x_tenant x_agent req app = (Reply 201 resp, app')"
    and "x_tenant \<noteq> []" "authenticate sha256 key' (app_auth_provider app) = Some auth'"
  shows "((\<exists>s. fst (api_get_execution_status sha256 key' (rs_execution_id resp) app') = Reply 200 s) \<longleftrightarrow> ac_tenant_id auth' = x_tenant) \<and>
     fst (submit_intent sha256 abi env key y_tenant y_agent req app) = Reply 201 resp \<and>
       app_runtime (snd (submit_intent sha256 abi env key y_tenant y_agent req app)) = app_runtime app'"
proof (rule conjI)
  show "fst (submit_intent sha256 abi env key y_tenant y_agent req app) = Reply 201 resp \<and>
       app_runtime (snd (submit_intent sha256 abi env key y_tenant y_agent req app)) = app_runtime app'"
    using assms(1)
    by (auto simp: submit_intent_def with_auth_def get_auth_context_def Let_def http_exception_handler_def
        general_exception_handler_def split: option.splits prod.splits sum.splits)
  show "(\<exists>s. fst (api_get_execution_status sha256 key' (rs_execution_id resp) app') = Reply 200 s) \<longleftrightarrow> ac_tenant_id auth' = x_tenant"
    using assms(1)
  proof (cases rule: submit_cases)
    case (executed auth intent result rt)
    then show ?thesis
      using assms(2,3)
      by (auto simp: api_get_execution_status_def with_auth_def get_auth_context_def execution_record_def or_else_def
          http_exception_handler_def)
  qed (simp_all add: http_exception_handler_def general_exception_handler_def)
qed

lemma sample_submission:
  "\<exists>resp app'. submit_intent rev sample_abi sample_api_env ''key-a'' x_tenant x_agent sample_request sample_app = (Reply 201 resp, app') \<and>
     rs_success resp"
proof -
  obtain res rt' where "execute_intent sample_abi sample_env (sample_intent ''read'') sample_runtime = (Inr res, rt')" "er_success res"
    using sample_succeeds by blast
  moreover have "app_runtime sample_app = sample_runtime" by (simp add: sample_app_def create_app_def)
  ultimately show ?thesis
    by (simp add: submit_intent_def with_auth_def get_auth_context_def sample_keys sample_request_def sample_api_env_def
        sample_intent_def Let_def)
qed

lemma tenant_parameter_is_trusted_witness:
  "\<exists>resp app'. submit_intent rev sample_abi sample_api_env ''key-a'' ''B'' [] sample_request sample_app = (Reply 201 resp, app') \<and>
     (\<exists>s. fst (api_get_execution_status rev ''key-b'' (rs_execution_id resp) app') = Reply 200 s) \<and>
     (\<nexists>s. fst (api_get_execution_status rev ''key-a'' (rs_execution_id resp) app') = Reply 200 s)"
proof -
  obtain resp app' where r: "submit_intent rev sample_abi sample_api_env ''key-a'' ''B'' [] sample_request sample_app = (Reply 201 resp, app')"
    using sample_submission by blast
  from tenant_parameter_is_trusted [OF r _ sample_keys(2)] tenant_parameter_is_trusted [OF r _ sample_keys(1)] r
  show ?thesis by simp
qed

text \<open>
  Property C24. Event streams are isolated: in every reachable application, whatever a connection sends for
  a queue that a tenant subscribed to an execution is an event of that very execution published for that
  tenant (or for none), or the final frame of that execution's stream.
\<close>

theorem event_streams_isolated:
  assumes "(api_step sha256 abi)\<^sup>*\<^sup>* (create_app sha256 rt auth0 None None) app"
    and "(q, tenant) \<in> set (subs (app_event_publisher app) eid)" "tenant \<noteq> []"
    and "frame \<in> set (listen_queue eid (pb_queues (app_event_publisher app) q))"
  shows "dict_get frame ''execution_id'' = Some (PyStr eid) \<and>
     (dict_get frame ''tenant_id'' \<in> {Some (PyStr tenant), Some (PyStr [])} \<or> dict_get frame ''type'' = Some (PyStr ''stream.ended''))"
proof -
  have "streams_wf (app_event_publisher app)" using app_wf_steps [OF assms(1) app_wf_create] by (simp add: app_wf_def)
  then have seen: "event_visible eid tenant d" if "QEvent d \<in> set (pb_queues (app_event_publisher app) q)" for d
    using assms(2) that unfolding streams_wf_def by blast
  have "QEvent f \<in> set items \<or> f = [(''type'', PyStr ''stream.ended''), (''execution_id'', PyStr eid)]"
    if "f \<in> set (listen_queue eid items)" for f items
    using that by (induction eid items rule: listen_queue.induct) auto
  from this [OF assms(4)] show ?thesis
    using seen assms(3) by (auto simp: event_visible_def) (simp_all add: dict_get_def)
qed

lemma sample_stream:
  "case ws_connect rev ''e1'' ''Bearer key-a'' [] [] sample_app of
     (Inr q, app1) \<Rightarrow>
       (case submit_intent rev sample_abi sample_api_env ''key-a'' [] [] sample_request app1 of
          (_, app2) \<Rightarrow> (q, ''A'') \<in> set (subs (app_event_publisher app2) ''e1'') \<and>
                       listen_queue ''e1'' (pb_queues (app_event_publisher app2) q) \<noteq> [])
   | _ \<Rightarrow> False"
proof -
  obtain q p where sub: "subscribe ''e1'' ''A'' (app_event_publisher sample_app) = (q, p)" by fastforce
  have subs: "subs p ''e1'' = [(q, ''A'')]" "pb_queues p q = []"
    using sub by (auto simp: subscribe_def subs_def sample_app_def create_app_def InMemoryEventPublisher_init_def Let_def dict_get_or_def)
  have conn: "ws_connect rev ''e1'' ''Bearer key-a'' [] [] sample_app = (Inr q, sample_app\<lparr>app_event_publisher := p\<rparr>)"
    by (simp add: ws_connect_def ws_authenticate_def starts_with_def sample_keys sub)
  obtain res rt' where ex: "execute_intent sample_abi sample_env (sample_intent ''read'') sample_runtime = (Inr res, rt')" "er_success res"
    using sample_succeeds by blast
  have id: "er_execution_id res = ''e1''" using success_calls [OF ex] by (auto simp: sample_env_def)
  have rt: "app_runtime sample_app = sample_runtime" by (simp add: sample_app_def create_app_def)
  show ?thesis
    using ex(1) by (simp add: conn submit_intent_def with_auth_def get_auth_context_def sample_keys sample_request_def sample_api_env_def
        sample_intent_def Let_def rt or_else_def publish_def completed_event_def id subs put_nowait_def app_incr_def)
      (simp add: subs_def subs(1) [unfolded subs_def])
qed

theorem event_streams_isolated_witness:
  "\<exists>q app1 resp app2 frame. ws_connect rev ''e1'' ''Bearer key-a'' [] [] sample_app = (Inr q, app1) \<and>
     submit_intent rev sample_abi sample_api_env ''key-a'' [] [] sample_request app1 = (resp, app2) \<and>
     frame \<in> set (listen_queue ''e1'' (pb_queues (app_event_publisher app2) q)) \<and>
     dict_get frame ''execution_id'' = Some (PyStr ''e1'')"
proof -
  obtain q app1 resp app2 where s: "ws_connect rev ''e1'' ''Bearer key-a'' [] [] sample_app = (Inr q, app1)"
      "submit_intent rev sample_abi sample_api_env ''key-a'' [] [] sample_request app1 = (resp, app2)"
      "(q, ''A'') \<in> set (subs (app_event_publisher app2) ''e1'')"
      "listen_queue ''e1'' (pb_queues (app_event_publisher app2) q) \<noteq> []"
    using sample_stream by (auto split: prod.splits sum.splits) (metis surj_pair)
  then obtain frame where f: "frame \<in> set (listen_queue ''e1'' (pb_queues (app_event_publisher app2) q))"
    by (meson list.set_sel(1))
  have "(api_step rev sample_abi)\<^sup>*\<^sup>* sample_app app2"
    using api_step.connect [OF s(1)] api_step.submit [OF s(2)] by (meson converse_rtranclp_into_rtranclp r_into_rtranclp)
  from event_streams_isolated [where rt = sample_runtime and ?auth0.0 = "Some sample_auth" and ?sha256.0 = rev, folded sample_app_def,
      OF this s(3) _ f] s f show ?thesis by auto
qed

text \<open>
  The request counters balance: in every reachable application, the intents counted as
  submitted are exactly those counted as succeeded or failed; a submission that raises is in none.
\<close>

lemma api_counters_balance:
  assumes "(api_step sha256 abi)\<^sup>*\<^sup>* (create_app sha256 rt auth0 None None) app"
  shows "get_counter (app_metrics_registry app) ''api.intents_submitted'' =
     get_counter (app_metrics_registry app) ''api.intents_succeeded'' + get_counter (app_metrics_registry app) ''api.intents_failed''"
  using app_wf_steps [OF assms app_wf_create] by (simp add: app_wf_def counters_balance_def)

lemma api_counters_balance_witness:
  "\<exists>resp app. submit_intent rev sample_abi sample_api_env ''key-a'' [] [] sample_request sample_app = (Reply 201 resp, app) \<and>
     get_counter (app_metrics_registry app) ''api.intents_submitted'' =
       get_counter (app_metrics_registry app) ''api.intents_succeeded'' + get_counter (app_metrics_registry app) ''api.intents_failed''"
proof -
  obtain resp app where s: "submit_intent rev sample_abi sample_api_env ''key-a'' [] [] sample_request sample_app = (Reply 201 resp, app)"
    using sample_submission by blast
  then have "(api_step rev sample_abi)\<^sup>*\<^sup>* sample_app app" by (blast intro: api_step.submit)
  from api_counters_balance [OF this [unfolded sample_app_def]] s show ?thesis by blast
qed

end
