(* ===== verification/Marketplace.thy ===== *)
theory Marketplace
  imports Errors Tenant
begin

text \<open>
  \<^verbatim>\<open>control_plane/governance/marketplace\<close>: extension manifests and their validation, the listing registry,
  the review service, the security checker, the trust scorer, enterprise policies, the private
  marketplace and the artifact store. The text of \<^verbatim>\<open>datetime.utcnow().isoformat()\<close> and the digits of
  \<^verbatim>\<open>uuid4().hex\<close> are arguments; \<open>sha256\<close> is the hex digest of bytes. Reading files is in Marketplace_Files.
\<close>

section \<open>Regular expressions\<close>

text \<open>
  The fragment that the validators use: character classes, concatenation, alternatives and repetition,
  decided by derivatives. \<^verbatim>\<open>re.match\<close> of an expression between \<^verbatim>\<open>^\<close> and \<^verbatim>\<open>$\<close> accepts the whole text, or the whole
  text before one final newline.
\<close>

datatype rx = RNone | REmpty | RClass "char \<Rightarrow> bool" | RCat rx rx | RAlt rx rx | RStar rx

primrec nullable :: "rx \<Rightarrow> bool" where
  "nullable RNone = False"
| "nullable REmpty = True"
| "nullable (RClass P) = False"
| "nullable (RCat r s) = (nullable r \<and> nullable s)"
| "nullable (RAlt r s) = (nullable r \<or> nullable s)"
| "nullable (RStar r) = True"

primrec deriv :: "char \<Rightarrow> rx \<Rightarrow> rx" where
  "deriv c RNone = RNone"
| "deriv c REmpty = RNone"
| "deriv c (RClass P) = (if P c then REmpty else RNone)"
| "deriv c (RCat r s) = (if nullable r then RAlt (RCat (deriv c r) s) (deriv c s) else RCat (deriv c r) s)"
| "deriv c (RAlt r s) = RAlt (deriv c r) (deriv c s)"
| "deriv c (RStar r) = RCat (deriv c r) (RStar r)"

definition rx_accepts :: "rx \<Rightarrow> string \<Rightarrow> bool" where
  "rx_accepts r s = nullable (fold deriv s r)"

definition re_match_anchored :: "rx \<Rightarrow> string \<Rightarrow> bool" where
  "re_match_anchored r s = (rx_accepts r s \<or> s \<noteq> [] \<and> last s = CHR 0x0A \<and> rx_accepts r (butlast s))"

definition RPlus :: "rx \<Rightarrow> rx" where
  "RPlus r = RCat r (RStar r)"

definition ROpt :: "rx \<Rightarrow> rx" where
  "ROpt r = RAlt REmpty r"

definition is_lower_alnum :: "char \<Rightarrow> bool" where
  "is_lower_alnum c = (CHR ''a'' \<le> c \<and> c \<le> CHR ''z'' \<or> CHR ''0'' \<le> c \<and> c \<le> CHR ''9'')"

definition rx_digit :: "char \<Rightarrow> bool" where
  "rx_digit c = (CHR ''0'' \<le> c \<and> c \<le> CHR ''9'')"

definition EXTENSION_ID_PATTERN :: rx where
  "EXTENSION_ID_PATTERN =
     RAlt (RCat (RClass is_lower_alnum) (RCat (RStar (RClass (\<lambda>c. is_lower_alnum c \<or> c = CHR ''-''))) (RClass is_lower_alnum)))
          (RClass is_lower_alnum)"

definition VERSION_PATTERN :: rx where
  "VERSION_PATTERN =
     (let num = RPlus (RClass rx_digit); dot = RClass (\<lambda>c. c = CHR ''.'');
          tail = RPlus (RClass (\<lambda>c. is_lower_alnum c \<or> c = CHR ''.'' \<or> c = CHR ''-''))
      in RCat num (RCat dot (RCat num (RCat dot (RCat num
           (RCat (ROpt (RCat (RClass (\<lambda>c. c = CHR ''-'')) tail)) (ROpt (RCat (RClass (\<lambda>c. c = CHR ''+'')) tail))))))))"

section \<open>Invariants and manifests\<close>

definition MAX_CAPABILITIES_PER_EXTENSION :: nat where "MAX_CAPABILITIES_PER_EXTENSION = 50"
definition MIN_CAPABILITIES_PER_EXTENSION :: nat where "MIN_CAPABILITIES_PER_EXTENSION = 1"
definition MIN_EXTENSION_ID_LENGTH :: nat where "MIN_EXTENSION_ID_LENGTH = 3"
definition MAX_EXTENSION_ID_LENGTH :: nat where "MAX_EXTENSION_ID_LENGTH = 64"

definition invariants_validate_extension_id :: "string \<Rightarrow> string list" where
  "invariants_validate_extension_id extension_id =
     require (\<not> length extension_id < MIN_EXTENSION_ID_LENGTH)
       (''Extension ID too short (min '' @ nat_str MIN_EXTENSION_ID_LENGTH @ '')'') @
     require (\<not> length extension_id > MAX_EXTENSION_ID_LENGTH)
       (''Extension ID too long (max '' @ nat_str MAX_EXTENSION_ID_LENGTH @ '')'') @
     require (re_match_anchored EXTENSION_ID_PATTERN extension_id) ''Extension ID must be lowercase alphanumeric with hyphens''"

definition invariants_validate_version :: "string \<Rightarrow> string list" where
  "invariants_validate_version version =
     require (re_match_anchored VERSION_PATTERN version) (''Invalid version format (expected semver): '' @ version)"

definition invariants_validate_capabilities :: "string list \<Rightarrow> string list" where
  "invariants_validate_capabilities capabilities =
     require (\<not> length capabilities > MAX_CAPABILITIES_PER_EXTENSION)
       (''Too many capabilities (max '' @ nat_str MAX_CAPABILITIES_PER_EXTENSION @ '')'') @
     require (\<not> length capabilities < MIN_CAPABILITIES_PER_EXTENSION)
       (''Too few capabilities (min '' @ nat_str MIN_CAPABILITIES_PER_EXTENSION @ '')'')"

record ExtensionManifest =
  xm_extension_id :: string
  xm_name :: string
  xm_version :: string
  xm_publisher_id :: string
  xm_description :: string
  xm_readme :: string
  xm_tags :: "string list"
  xm_capabilities :: "string list"
  xm_allowed_models :: "string list"
  xm_allowed_tools :: "string list"
  xm_dependencies :: "string list"
  xm_min_runtime_version :: string
  xm_max_runtime_version :: "string option"
  xm_icon_url :: string
  xm_homepage_url :: string
  xm_repository_url :: string
  xm_license :: string
  xm_keywords :: "string list"
  xm_maintainers :: "string list"
  xm_created_at :: "time option"
  xm_updated_at :: "time option"
  xm_metadata :: pyobj

definition manifest_validate_extension_id :: "string \<Rightarrow> string list" where
  "manifest_validate_extension_id extension_id =
     require (\<not> length extension_id < 3) ''Extension ID must be at least 3 characters'' @
     require (\<not> length extension_id > 64) ''Extension ID too long (max 64 chars)'' @
     require (re_match_anchored EXTENSION_ID_PATTERN extension_id) ''Extension ID must be lowercase alphanumeric with hyphens''"

definition ExtensionManifest_validate :: "ExtensionManifest \<Rightarrow> string list" where
  "ExtensionManifest_validate m =
     manifest_validate_extension_id (xm_extension_id m) @
     require (re_match_anchored VERSION_PATTERN (xm_version m)) (''Invalid version format: '' @ xm_version m) @
     invariants_validate_capabilities (xm_capabilities m)"

text \<open>The validator class computes the capability errors as well, and does not add them.\<close>

definition validator_validate_capabilities :: "string list \<Rightarrow> string list" where
  "validator_validate_capabilities capabilities = invariants_validate_capabilities capabilities"

definition ExtensionManifestValidator_validate :: "ExtensionManifest \<Rightarrow> string list" where
  "ExtensionManifestValidator_validate m =
     (let errors = manifest_validate_extension_id (xm_extension_id m) @
            require (re_match_anchored VERSION_PATTERN (xm_version m)) (''Invalid version format: '' @ xm_version m);
          cap_errors = validator_validate_capabilities (xm_capabilities m)
      in errors)"

section \<open>Publishers\<close>

datatype PublisherStatus = PENDING_VERIFICATION | VERIFIED | SUSPENDED | REVOKED

record Publisher =
  pu_publisher_id :: string
  pu_name :: string
  pu_email :: string
  pu_status :: PublisherStatus
  pu_verified_at :: "time option"
  pu_created_at :: time
  pu_updated_at :: time
  pu_metadata :: pyobj

definition publisher_verify :: "time \<Rightarrow> time \<Rightarrow> Publisher \<Rightarrow> Publisher" where
  "publisher_verify now1 now2 p =
     \<lparr>pu_publisher_id = pu_publisher_id p, pu_name = pu_name p, pu_email = pu_email p, pu_status = VERIFIED,
      pu_verified_at = Some now1, pu_created_at = pu_created_at p, pu_updated_at = now2, pu_metadata = pu_metadata p\<rparr>"

definition publisher_suspend :: "time \<Rightarrow> Publisher \<Rightarrow> Publisher" where
  "publisher_suspend now p =
     \<lparr>pu_publisher_id = pu_publisher_id p, pu_name = pu_name p, pu_email = pu_email p, pu_status = SUSPENDED,
      pu_verified_at = pu_verified_at p, pu_created_at = pu_created_at p, pu_updated_at = now, pu_metadata = pu_metadata p\<rparr>"

section \<open>Listings\<close>

datatype ExtensionListingStatus =
    LS_DRAFT | LS_SUBMITTED | LS_UNDER_REVIEW | LS_APPROVED | LS_PUBLISHED | LS_DEPRECATED | LS_REMOVED

definition ExtensionListingStatus_of :: "string \<Rightarrow> exn + ExtensionListingStatus" where
  "ExtensionListingStatus_of s =
     (if s = ''DRAFT'' then Inr LS_DRAFT else if s = ''SUBMITTED'' then Inr LS_SUBMITTED
      else if s = ''UNDER_REVIEW'' then Inr LS_UNDER_REVIEW else if s = ''APPROVED'' then Inr LS_APPROVED
      else if s = ''PUBLISHED'' then Inr LS_PUBLISHED else if s = ''DEPRECATED'' then Inr LS_DEPRECATED
      else if s = ''REMOVED'' then Inr LS_REMOVED
      else Inl (ValueError (str_repr s @ '' is not a valid ExtensionListingStatus'')))"

text \<open>What the registry stores of a listing, and what it hands out: the status is converted.\<close>

record 's listing =
  ls_listing_id :: string
  ls_manifest :: ExtensionManifest
  ls_status :: 's
  ls_publisher_id :: string
  ls_created_at :: string
  ls_updated_at :: string

record InMemoryExtensionRegistry =
  xg_listings :: "(string, string listing) dict"

definition extension_register :: "string \<Rightarrow> string \<Rightarrow> ExtensionManifest \<Rightarrow> InMemoryExtensionRegistry \<Rightarrow> string \<times> InMemoryExtensionRegistry" where
  "extension_register uuid_hex now manifest r =
     (let listing_id = ''lst-'' @ take 12 uuid_hex
      in (listing_id, r\<lparr>xg_listings := dict_set listing_id
            \<lparr>ls_listing_id = listing_id, ls_manifest = manifest, ls_status = ''DRAFT'', ls_publisher_id = xm_publisher_id manifest,
             ls_created_at = now, ls_updated_at = now\<rparr> (xg_listings r)\<rparr>))"

definition extension_unregister :: "string \<Rightarrow> InMemoryExtensionRegistry \<Rightarrow> bool \<times> InMemoryExtensionRegistry" where
  "extension_unregister listing_id r =
     (if dict_has (xg_listings r) listing_id then (True, r\<lparr>xg_listings := dict_del listing_id (xg_listings r)\<rparr>) else (False, r))"

definition listing_from_data :: "string listing \<Rightarrow> exn + ExtensionListingStatus listing" where
  "listing_from_data d =
     (case ExtensionListingStatus_of (ls_status d) of
        Inl e \<Rightarrow> Inl e
      | Inr st \<Rightarrow> Inr \<lparr>ls_listing_id = ls_listing_id d, ls_manifest = ls_manifest d, ls_status = st,
                        ls_publisher_id = ls_publisher_id d, ls_created_at = ls_created_at d, ls_updated_at = ls_updated_at d\<rparr>)"

definition extension_get :: "InMemoryExtensionRegistry \<Rightarrow> string \<Rightarrow> exn + ExtensionListingStatus listing option" where
  "extension_get r listing_id =
     (case dict_get (xg_listings r) listing_id of
        None \<Rightarrow> Inr None
      | Some d \<Rightarrow> map_sum id Some (listing_from_data d))"

text \<open>\<^verbatim>\<open>xs[a:b]\<close>: negative bounds count from the end, and both are clamped.\<close>

definition slice_bound :: "'a list \<Rightarrow> int \<Rightarrow> nat" where
  "slice_bound xs i = (if i < 0 then nat (i + int (length xs)) else min (nat i) (length xs))"

definition py_slice :: "'a list \<Rightarrow> int \<Rightarrow> int \<Rightarrow> 'a list" where
  "py_slice xs a b = take (slice_bound xs b - slice_bound xs a) (drop (slice_bound xs a) xs)"

text \<open>A manifest has no \<^verbatim>\<open>extension_type\<close>, so filtering by it raises at the first listing.\<close>

fun collect_listings ::
  "string option \<Rightarrow> string option \<Rightarrow> string option \<Rightarrow> string listing list \<Rightarrow> exn + ExtensionListingStatus listing list" where
  "collect_listings extension_type publisher_id status [] = Inr []"
| "collect_listings extension_type publisher_id status (d # ds) =
     (if or_str extension_type [] \<noteq> [] then Inl (OtherError ''ExtensionManifest object has no attribute extension_type'')
      else if or_str publisher_id [] \<noteq> [] \<and> ls_publisher_id d \<noteq> or_str publisher_id []
      then collect_listings extension_type publisher_id status ds
      else if or_str status [] \<noteq> [] \<and> ls_status d \<noteq> or_str status []
      then collect_listings extension_type publisher_id status ds
      else case listing_from_data d of
             Inl e \<Rightarrow> Inl e
           | Inr l \<Rightarrow> map_sum id (Cons l) (collect_listings extension_type publisher_id status ds))"

definition extension_list ::
  "string option \<Rightarrow> string option \<Rightarrow> string option \<Rightarrow> int \<Rightarrow> int \<Rightarrow> InMemoryExtensionRegistry \<Rightarrow> exn + ExtensionListingStatus listing list" where
  "extension_list extension_type publisher_id status limit offset r =
     map_sum id (\<lambda>results. py_slice results offset (offset + limit))
       (collect_listings extension_type publisher_id status (dict_values (xg_listings r)))"

definition extension_update_status :: "string \<Rightarrow> string \<Rightarrow> string \<Rightarrow> InMemoryExtensionRegistry \<Rightarrow> bool \<times> InMemoryExtensionRegistry" where
  "extension_update_status now listing_id status r =
     (case dict_get (xg_listings r) listing_id of
        None \<Rightarrow> (False, r)
      | Some d \<Rightarrow> (True, r\<lparr>xg_listings := dict_set listing_id (d\<lparr>ls_status := status, ls_updated_at := now\<rparr>) (xg_listings r)\<rparr>))"

section \<open>Reviews\<close>

record ReviewDecisionEntry =
  rd_decision :: string
  rd_reviewer_id :: string
  rd_reason :: string
  rd_timestamp :: string

record Review =
  rv_review_id :: string
  rv_listing_id :: string
  rv_status :: string
  rv_submitted_by :: string
  rv_submitted_at :: string
  rv_decisions :: "ReviewDecisionEntry list"

type_synonym ReviewService = "(string, Review) dict"

definition submit_for_review :: "string \<Rightarrow> string \<Rightarrow> string \<Rightarrow> ReviewService \<Rightarrow> string \<times> ReviewService" where
  "submit_for_review now listing_id submitter_id s =
     (''rev-'' @ listing_id,
      dict_set listing_id \<lparr>rv_review_id = ''rev-'' @ listing_id, rv_listing_id = listing_id, rv_status = ''PENDING'',
        rv_submitted_by = submitter_id, rv_submitted_at = now, rv_decisions = []\<rparr> s)"

definition record_decision :: "string \<Rightarrow> string \<Rightarrow> string \<Rightarrow> string \<Rightarrow> string \<Rightarrow> ReviewService \<Rightarrow> bool \<times> ReviewService" where
  "record_decision now listing_id decision reviewer_id reason s =
     (case dict_get s listing_id of
        None \<Rightarrow> (False, s)
      | Some r \<Rightarrow> (True, dict_set listing_id (r\<lparr>rv_decisions := rv_decisions r @
            [\<lparr>rd_decision = decision, rd_reviewer_id = reviewer_id, rd_reason = reason, rd_timestamp = now\<rparr>]\<rparr>) s))"

definition get_review :: "ReviewService \<Rightarrow> string \<Rightarrow> Review option" where
  "get_review s listing_id = dict_get s listing_id"

definition review_get_status :: "ReviewService \<Rightarrow> string \<Rightarrow> string option" where
  "review_get_status s listing_id = map_option rv_status (dict_get s listing_id)"

section \<open>Security, trust and enterprise rules\<close>

record SecurityFinding =
  sf_severity :: string
  sf_category :: string
  sf_description :: string
  sf_file_path :: string
  sf_line_number :: int
  sf_recommendation :: string
  sf_cve_refs :: "string list"

record SecurityScanResult =
  sr_passed :: bool
  sr_findings :: "SecurityFinding list"
  sr_scanned_at :: string
  sr_scanner_version :: string

text \<open>The four rules of the checker: each returns no finding.\<close>

definition check_malware_signatures :: "'p \<Rightarrow> SecurityFinding list" where "check_malware_signatures package = []"
definition check_permissions :: "'p \<Rightarrow> SecurityFinding list" where "check_permissions package = []"
definition check_data_exfiltration :: "'p \<Rightarrow> SecurityFinding list" where "check_data_exfiltration package = []"
definition check_vulnerabilities :: "'p \<Rightarrow> SecurityFinding list" where "check_vulnerabilities package = []"

definition scan_with :: "('p \<Rightarrow> SecurityFinding list) list \<Rightarrow> string \<Rightarrow> 'p \<Rightarrow> SecurityScanResult" where
  "scan_with rules now package =
     (let findings = concat (map (\<lambda>rule. rule package) rules);
          critical_count = length (filter (\<lambda>f. sf_severity f = ''CRITICAL'') findings);
          high_count = length (filter (\<lambda>f. sf_severity f = ''HIGH'') findings)
      in \<lparr>sr_passed = (critical_count = 0 \<and> high_count = 0), sr_findings = findings, sr_scanned_at = now,
          sr_scanner_version = ''1.0.0''\<rparr>)"

definition scan_extension :: "string \<Rightarrow> 'p \<Rightarrow> SecurityScanResult" where
  "scan_extension = scan_with [check_malware_signatures, check_permissions, check_data_exfiltration, check_vulnerabilities]"

definition score_publisher :: "Publisher \<Rightarrow> rat" where
  "score_publisher p = min 1 (if pu_status p = VERIFIED then 0 + 3 / 10 else 0)"

definition score_extension :: "'l \<Rightarrow> rat" where
  "score_extension listing = min 1 0"

record EnterpriseRule =
  en_rule_id :: string
  en_name :: string
  en_description :: string
  en_effect :: string
  en_conditions :: "pyobj option"
  en_actions :: "string list"

definition enforcer_check_rule :: "EnterpriseRule \<Rightarrow> pyobj \<Rightarrow> bool" where
  "enforcer_check_rule rule ctx = True"

fun enforcer_evaluate :: "EnterpriseRule list \<Rightarrow> pyobj \<Rightarrow> bool \<times> string list" where
  "enforcer_evaluate [] ctx = (True, [])"
| "enforcer_evaluate (rule # rules) ctx =
     (if \<not> enforcer_check_rule rule ctx
      then (False, [''Policy violation: '' @ en_name rule @ '' - '' @ en_description rule])
      else enforcer_evaluate rules ctx)"

definition enforcer_validate_extension :: "EnterpriseRule list \<Rightarrow> pyobj \<Rightarrow> bool \<times> string list" where
  "enforcer_validate_extension rules listing =
     (let (allowed, violations) = enforcer_evaluate rules listing in (length violations = 0, violations))"

section \<open>Private marketplaces\<close>

record PrivateMarketplaceConfig =
  pm_marketplace_id :: string
  pm_name :: string
  pm_owner_organization :: string
  pm_allowed_publishers :: "string list"
  pm_allowed_extensions :: "string list"
  pm_created_at :: string

record PrivateMarketplace =
  pv_config :: PrivateMarketplaceConfig
  pv_extensions :: "(string, pyobj \<times> string) dict"

definition private_add_extension :: "string \<Rightarrow> string \<Rightarrow> pyobj \<Rightarrow> PrivateMarketplace \<Rightarrow> string \<times> PrivateMarketplace" where
  "private_add_extension uuid_hex now listing p =
     (let listing_id = ''prv-'' @ take 12 uuid_hex
      in (listing_id, p\<lparr>pv_extensions := dict_set listing_id (listing, now) (pv_extensions p)\<rparr>))"

definition private_remove_extension :: "string \<Rightarrow> PrivateMarketplace \<Rightarrow> bool \<times> PrivateMarketplace" where
  "private_remove_extension listing_id p =
     (if dict_has (pv_extensions p) listing_id then (True, p\<lparr>pv_extensions := dict_del listing_id (pv_extensions p)\<rparr>) else (False, p))"

definition private_list_extensions :: "PrivateMarketplace \<Rightarrow> (pyobj \<times> string) list" where
  "private_list_extensions p = dict_values (pv_extensions p)"

definition private_get_extension :: "PrivateMarketplace \<Rightarrow> string \<Rightarrow> (pyobj \<times> string) option" where
  "private_get_extension p listing_id = dict_get (pv_extensions p) listing_id"

section \<open>Artifacts\<close>

record ArtifactMetadata =
  af_manifest_id :: string
  af_version :: string
  af_checksum :: string

record InMemoryArtifactStore =
  as_artifacts :: "(string, string) dict"
  as_metadata :: "(string, ArtifactMetadata) dict"

definition artifact_store ::
  "(string \<Rightarrow> string) \<Rightarrow> ExtensionManifest \<Rightarrow> string \<Rightarrow> InMemoryArtifactStore \<Rightarrow> string \<times> InMemoryArtifactStore" where
  "artifact_store sha256 manifest artifact_data s =
     (let artifact_id = take 16 (sha256 artifact_data)
      in (artifact_id, s\<lparr>as_artifacts := dict_set artifact_id artifact_data (as_artifacts s),
            as_metadata := dict_set artifact_id \<lparr>af_manifest_id = xm_extension_id manifest, af_version = xm_version manifest,
                             af_checksum = sha256 artifact_data\<rparr> (as_metadata s)\<rparr>))"

definition artifact_retrieve :: "InMemoryArtifactStore \<Rightarrow> string \<Rightarrow> string option" where
  "artifact_retrieve s artifact_id = dict_get (as_artifacts s) artifact_id"

definition artifact_delete :: "string \<Rightarrow> InMemoryArtifactStore \<Rightarrow> bool \<times> InMemoryArtifactStore" where
  "artifact_delete artifact_id s =
     (if dict_has (as_artifacts s) artifact_id
      then (True, s\<lparr>as_artifacts := dict_del artifact_id (as_artifacts s), as_metadata := dict_del artifact_id (as_metadata s)\<rparr>)
      else (False, s))"

definition artifact_get_metadata :: "InMemoryArtifactStore \<Rightarrow> string \<Rightarrow> ArtifactMetadata option" where
  "artifact_get_metadata s artifact_id = dict_get (as_metadata s) artifact_id"

section \<open>Loaders\<close>

definition loader_validate :: "string list \<Rightarrow> pyobj \<Rightarrow> bool \<times> string list" where
  "loader_validate required manifest =
     (let errors = concat (map (\<lambda>field. require (dict_has manifest field) (''Missing required field: '' @ field)) required)
      in (length errors = 0, errors))"

definition ExtensionLoader_validate_extension :: "pyobj \<Rightarrow> bool \<times> string list" where
  "ExtensionLoader_validate_extension = loader_validate [''id'', ''name'', ''version'', ''type'', ''capabilities'']"

definition DefaultManifestLoader_validate_manifest :: "pyobj \<Rightarrow> bool \<times> string list" where
  "DefaultManifestLoader_validate_manifest = loader_validate [''id'', ''name'', ''version'', ''type'']"

section \<open>What the expressions accept\<close>

text \<open>The language of an expression, and that the derivatives decide it.\<close>

inductive_set star :: "string set \<Rightarrow> string set" for L where
  star_empty: "[] \<in> star L"
| star_step: "x \<in> L \<Longrightarrow> y \<in> star L \<Longrightarrow> x @ y \<in> star L"

primrec lang :: "rx \<Rightarrow> string set" where
  "lang RNone = {}"
| "lang REmpty = {[]}"
| "lang (RClass P) = {[c] | c. P c}"
| "lang (RCat r s) = {x @ y | x y. x \<in> lang r \<and> y \<in> lang s}"
| "lang (RAlt r s) = lang r \<union> lang s"
| "lang (RStar r) = star (lang r)"

lemma nullable_lang: "nullable r \<longleftrightarrow> [] \<in> lang r"
  by (induction r) (auto intro: star_empty)

lemma star_Cons: "c # w \<in> star L \<longleftrightarrow> (\<exists>x y. c # x \<in> L \<and> y \<in> star L \<and> w = x @ y)"
proof
  assume "c # w \<in> star L"
  then show "\<exists>x y. c # x \<in> L \<and> y \<in> star L \<and> w = x @ y"
  proof (induction "c # w" arbitrary: w rule: star.induct)
    case (star_step x y)
    then show ?case by (cases x) auto
  qed
next
  assume "\<exists>x y. c # x \<in> L \<and> y \<in> star L \<and> w = x @ y"
  then show "c # w \<in> star L" using star_step by fastforce
qed

lemma deriv_lang: "w \<in> lang (deriv c r) \<longleftrightarrow> c # w \<in> lang r"
proof (induction r arbitrary: w)
  case (RCat r s)
  have split: "(\<exists>x y. c # w = x @ y \<and> x \<in> lang r \<and> y \<in> lang s) \<longleftrightarrow>
      (\<exists>x y. w = x @ y \<and> c # x \<in> lang r \<and> y \<in> lang s) \<or> [] \<in> lang r \<and> c # w \<in> lang s"
    by (auto simp: Cons_eq_append_conv)
  show ?case using RCat split by (auto simp: nullable_lang)
next
  case (RStar r)
  then show ?case by (auto simp: star_Cons)
qed auto

lemma rx_accepts_lang: "rx_accepts r s \<longleftrightarrow> s \<in> lang r"
proof -
  have "nullable (fold deriv s r) \<longleftrightarrow> s \<in> lang r"
    by (induction s arbitrary: r) (simp_all add: nullable_lang deriv_lang)
  then show ?thesis by (simp add: rx_accepts_def)
qed

lemma star_class: "w \<in> star {[c] | c. P c} \<longleftrightarrow> (\<forall>c \<in> set w. P c)"
  by (induction w) (auto simp: star_Cons intro: star_empty)

lemma lang_class: "s \<in> lang (RClass P) \<longleftrightarrow> (\<exists>a. s = [a] \<and> P a)"
  by auto

lemma lang_star_class: "s \<in> lang (RStar (RClass P)) \<longleftrightarrow> (\<forall>c \<in> set s. P c)"
  by (simp add: star_class)

lemma lang_class_cat: "s \<in> lang (RCat (RClass P) r) \<longleftrightarrow> (\<exists>a t. s = a # t \<and> P a \<and> t \<in> lang r)"
proof -
  have "s \<in> lang (RCat (RClass P) r) \<longleftrightarrow> (\<exists>x y. s = x @ y \<and> (\<exists>a. x = [a] \<and> P a) \<and> y \<in> lang r)" by simp
  then show ?thesis by (metis append_Cons append_Nil)
qed

lemma lang_cat_class: "s \<in> lang (RCat r (RClass P)) \<longleftrightarrow> (\<exists>t b. s = t @ [b] \<and> t \<in> lang r \<and> P b)"
  by auto

definition well_formed_id :: "string \<Rightarrow> bool" where
  "well_formed_id s \<longleftrightarrow> s \<noteq> [] \<and> (\<forall>c \<in> set s. is_lower_alnum c \<or> c = CHR ''-'') \<and> is_lower_alnum (hd s) \<and> is_lower_alnum (last s)"

lemma extension_id_lang: "rx_accepts EXTENSION_ID_PATTERN s \<longleftrightarrow> well_formed_id s"
proof -
  have "s \<in> lang EXTENSION_ID_PATTERN \<longleftrightarrow>
      (\<exists>a t. s = a # t \<and> is_lower_alnum a \<and>
        (\<exists>w b. t = w @ [b] \<and> (\<forall>c \<in> set w. is_lower_alnum c \<or> c = CHR ''-'') \<and> is_lower_alnum b)) \<or>
      (\<exists>a. s = [a] \<and> is_lower_alnum a)"
    by (simp only: EXTENSION_ID_PATTERN_def lang.simps(5) Un_iff lang_class_cat lang_cat_class lang_class lang_star_class)
  also have "\<dots> \<longleftrightarrow> well_formed_id s"
  proof (cases s)
    case (Cons a t)
    then show ?thesis by (cases t rule: rev_cases) (auto simp: well_formed_id_def)
  qed (simp add: well_formed_id_def)
  finally show ?thesis by (simp add: rx_accepts_lang)
qed

section \<open>Properties\<close>

text \<open>
  Which extension identifiers are accepted: the validators of the manifest and of the
  invariants agree and, through the regular expression they use, accept exactly the identifiers of 3 to
  64 characters that consist of lower-case letters, digits and hyphens and neither begin nor end with a
  hyphen, with or without one final newline.
\<close>

lemma extension_id_accepted_iff:
  "(manifest_validate_extension_id s = [] \<longleftrightarrow>
      3 \<le> length s \<and> length s \<le> 64 \<and> (well_formed_id s \<or> (\<exists>t. s = t @ [CHR 0x0A] \<and> well_formed_id t))) \<and>
   (invariants_validate_extension_id s = [] \<longleftrightarrow> manifest_validate_extension_id s = [])"
proof -
  have "re_match_anchored EXTENSION_ID_PATTERN s \<longleftrightarrow> well_formed_id s \<or> (\<exists>t. s = t @ [CHR 0x0A] \<and> well_formed_id t)"
    by (cases s rule: rev_cases) (auto simp: re_match_anchored_def extension_id_lang)
  then show ?thesis
    by (auto simp: manifest_validate_extension_id_def invariants_validate_extension_id_def require_def
        MIN_EXTENSION_ID_LENGTH_def MAX_EXTENSION_ID_LENGTH_def)
qed

text \<open>
  Listing the registry: without filters every listing is returned, paged by Python's slice,
  unless one of them has a status that is no listing status, in which case the whole listing raises;
  \<^verbatim>\<open>update_status\<close> stores any text, so one bad update takes the listing down.
\<close>

lemma one_bad_status_takes_listing_down:
  assumes "dict_get (xg_listings r) lid = Some d" "isl (ExtensionListingStatus_of status)"
  shows "(isl (extension_list None None None limit offset r) \<longleftrightarrow>
        (\<exists>l \<in> set (dict_values (xg_listings r)). isl (ExtensionListingStatus_of (ls_status l)))) \<and>
     fst (extension_update_status now lid status r) \<and>
     isl (extension_list None None None limit offset (snd (extension_update_status now lid status r)))"
proof -
  have col: "isl (collect_listings None None None ds) \<longleftrightarrow> (\<exists>l \<in> set ds. isl (ExtensionListingStatus_of (ls_status l)))" for ds
    by (induction ds) (auto simp: listing_from_data_def or_str_def isl_map_sum split: sum.splits)
  have upd: "extension_update_status now lid status r =
      (True, r\<lparr>xg_listings := dict_set lid (d\<lparr>ls_status := status, ls_updated_at := now\<rparr>) (xg_listings r)\<rparr>)"
    using assms(1) by (simp add: extension_update_status_def)
  have "d\<lparr>ls_status := status, ls_updated_at := now\<rparr> \<in>
      set (dict_values (dict_set lid (d\<lparr>ls_status := status, ls_updated_at := now\<rparr>) (xg_listings r)))"
    by (metis dict_get_SomeD dict_values_def image_eqI list.set_map pydict.lookup_insert_same snd_conv)
  then have "\<exists>l \<in> set (dict_values (xg_listings (snd (extension_update_status now lid status r)))). isl (ExtensionListingStatus_of (ls_status l))"
    unfolding upd using assms(2) by (intro bexI) simp_all
  then show ?thesis by (simp add: extension_list_def isl_map_sum col upd)
qed

definition sample_manifest :: ExtensionManifest where
  "sample_manifest = \<lparr>xm_extension_id = ''ext'', xm_name = ''n'', xm_version = ''1.0.0'', xm_publisher_id = ''p'', xm_description = [],
     xm_readme = [], xm_tags = [], xm_capabilities = [], xm_allowed_models = [], xm_allowed_tools = [], xm_dependencies = [],
     xm_min_runtime_version = ''1.0.0'', xm_max_runtime_version = None, xm_icon_url = [], xm_homepage_url = [],
     xm_repository_url = [], xm_license = ''MIT'', xm_keywords = [], xm_maintainers = [], xm_created_at = None,
     xm_updated_at = None, xm_metadata = []\<rparr>"

lemma one_bad_status_takes_listing_down_witness:
  "\<exists>lid r. extension_register ''0123456789abcdef'' ''now'' sample_manifest \<lparr>xg_listings = []\<rparr> = (lid, r) \<and>
     isl (extension_list None None None 50 0 (snd (extension_update_status ''later'' lid ''LIVE'' r)))"
proof -
  obtain lid r where reg: "extension_register ''0123456789abcdef'' ''now'' sample_manifest \<lparr>xg_listings = []\<rparr> = (lid, r)" by fastforce
  then obtain d where d: "dict_get (xg_listings r) lid = Some d" by (auto simp: extension_register_def Let_def)
  have "isl (ExtensionListingStatus_of ''LIVE'')" by (simp add: ExtensionListingStatus_of_def)
  from one_bad_status_takes_listing_down [OF d this] reg show ?thesis by blast
qed

text \<open>
  The validator class drops the capability errors it computes: the manifest's own validation reports
  exactly those in addition.
\<close>

lemma validator_ignores_capabilities:
  "ExtensionManifest_validate m = ExtensionManifestValidator_validate m @ invariants_validate_capabilities (xm_capabilities m)"
  by (simp add: ExtensionManifest_validate_def ExtensionManifestValidator_validate_def Let_def)

text \<open>No decision ever changes a review's status.\<close>

lemma reviews_stay_pending:
  assumes "\<And>r. dict_get s lid' = Some r \<Longrightarrow> rv_status r = ''PENDING''"
  shows "review_get_status (snd (submit_for_review now lid who s)) lid' \<in> {None, Some ''PENDING''}"
    "review_get_status (snd (record_decision now lid decision who reason s)) lid' \<in> {None, Some ''PENDING''}"
  using assms
  by (auto simp: review_get_status_def submit_for_review_def record_decision_def split: option.splits)

text \<open>The scan passes every package, whatever it contains.\<close>

lemma scan_always_passes: "sr_passed (scan_extension now package)"
  by (simp add: scan_extension_def scan_with_def check_malware_signatures_def check_permissions_def
      check_data_exfiltration_def check_vulnerabilities_def Let_def)

text \<open>
  Artifacts are stored by content: after storing any sequence of artifacts, each of them is
  retrieved unchanged under the identifier it was given, with its digest as checksum, as long as no two
  of the stored contents share the first 16 digits of their digest.
\<close>

lemma stored_artifacts_come_back:
  assumes "inj_on (\<lambda>b. take 16 (sha256 b)) (snd ` set uploads)" "(manifest, b) \<in> set uploads"
    and "s' = fold (\<lambda>(m, b). snd \<circ> artifact_store sha256 m b) uploads s"
  shows "artifact_retrieve s' (take 16 (sha256 b)) = Some b \<and>
     map_option af_checksum (artifact_get_metadata s' (take 16 (sha256 b))) = Some (sha256 b)"
  using assms
proof (induction uploads arbitrary: s' rule: rev_induct)
  case (snoc u us)
  obtain m c where u: "u = (m, c)" by force
  define t where "t = fold (\<lambda>(m, b). snd \<circ> artifact_store sha256 m b) us s"
  have s': "s' = snd (artifact_store sha256 m c t)" using snoc.prems(3) by (simp add: u t_def comp_def)
  show ?case
  proof (cases "b = c")
    case True
    then show ?thesis by (simp add: s' artifact_store_def artifact_retrieve_def artifact_get_metadata_def Let_def)
  next
    case False
    then have "(manifest, b) \<in> set us" using snoc.prems(2) u by auto
    moreover have "inj_on (\<lambda>b. take 16 (sha256 b)) (snd ` set us)"
      by (rule inj_on_subset [OF snoc.prems(1)]) auto
    moreover have "take 16 (sha256 b) \<noteq> take 16 (sha256 c)"
      using inj_onD [OF snoc.prems(1), of b c] False snoc.prems(2) u by force
    moreover from calculation(1,2) have "artifact_retrieve t (take 16 (sha256 b)) = Some b"
        "map_option af_checksum (artifact_get_metadata t (take 16 (sha256 b))) = Some (sha256 b)"
      using snoc.IH [OF _ _ t_def] by blast+
    ultimately show ?thesis by (simp add: s' artifact_store_def artifact_retrieve_def artifact_get_metadata_def Let_def)
  qed
qed simp

lemma stored_artifacts_come_back_witness:
  "artifact_retrieve (fold (\<lambda>(m, b). snd \<circ> artifact_store rev m b) [(sample_manifest, ''one''), (sample_manifest, ''two'')]
      \<lparr>as_artifacts = [], as_metadata = []\<rparr>) (take 16 (rev ''one'')) = Some ''one''"
  using stored_artifacts_come_back [of rev "[(sample_manifest, ''one''), (sample_manifest, ''two'')]" sample_manifest "''one''",
      OF _ _ refl] by simp

end
