(* ===== verification/Datetime.thy ===== *)
theory Datetime
  imports Json
begin

text \<open>
  \<^verbatim>\<open>datetime.isoformat()\<close> and \<^verbatim>\<open>datetime.fromisoformat(text)\<close> of UTC instants, which the file-system
  checkpoint repository uses to write and read time stamps. \<open>fromisoformat\<close> reads the texts that
  \<open>isoformat\<close> writes; the other forms the library accepts do not occur in the repository's files.
\<close>

section \<open>Days and civil dates\<close>

definition days_from_civil :: "int \<Rightarrow> int \<Rightarrow> int \<Rightarrow> int" where
  "days_from_civil y m d =
     (let y' = (if m \<le> 2 then y - 1 else y); era = y' div 400; yoe = y' mod 400;
          mp = (if 2 < m then m - 3 else m + 9);
          doy = (153 * mp + 2) div 5 + d - 1;
          doe = yoe * 365 + yoe div 4 - yoe div 100 + doy
      in era * 146097 + doe - 719468)"

text \<open>The first day of a year of the 400-year era, and the year the conversion computes for a day.\<close>

definition year_start :: "int \<Rightarrow> int" where
  "year_start y = 365 * y + y div 4 - y div 100"

definition year_of_day :: "int \<Rightarrow> int" where
  "year_of_day doe = (doe - doe div 1460 + doe div 36524 - doe div 146096) div 365"

definition year_numerator :: "int \<Rightarrow> int" where
  "year_numerator doe = doe - doe div 1460 + doe div 36524"

lemma year_numerator_mono: "a \<le> b \<Longrightarrow> year_numerator a \<le> year_numerator b"
proof -
  assume ab: "a \<le> b"
  have "b div 1460 - a div 1460 \<le> b - a" using ab by linarith
  moreover have "a div 36524 \<le> b div 36524" using ab by (simp add: zdiv_mono1)
  ultimately show ?thesis by (simp add: year_numerator_def)
qed

text \<open>The years of an era, checked one by one at their first and last day.\<close>

lemma year_bounds_checked:
  "list_all (\<lambda>y. 365 * y \<le> year_numerator (year_start y) \<and>
      (y = 399 \<or> year_numerator (year_start (y + 1) - 1) < 365 * (y + 1))) (map int [0..<400])"
  by code_simp

lemma year_numerator_bounds:
  assumes "0 \<le> y" "y < 400"
  shows "365 * y \<le> year_numerator (year_start y)"
    and "y < 399 \<Longrightarrow> year_numerator (year_start (y + 1) - 1) < 365 * (y + 1)"
proof -
  have "y \<in> set (map int [0..<400])" using assms by (auto simp: image_iff intro!: bexI [of _ "nat y"])
  with year_bounds_checked show "365 * y \<le> year_numerator (year_start y)"
    "y < 399 \<Longrightarrow> year_numerator (year_start (y + 1) - 1) < 365 * (y + 1)"
    unfolding list_all_iff by fastforce+
qed

lemma year_start_step: "year_start y < year_start (y + 1)"
proof -
  have "(y + 1) div 100 \<le> y div 100 + 1" "y div 4 \<le> (y + 1) div 4" by linarith+
  then show ?thesis by (simp add: year_start_def)
qed

lemma year_interval:
  assumes "0 \<le> doe" "doe < year_start (int n)"
  shows "\<exists>y. 0 \<le> y \<and> y < int n \<and> year_start y \<le> doe \<and> doe < year_start (y + 1)"
  using assms(2)
proof (induction n)
  case (Suc n)
  show ?case
  proof (cases "doe < year_start (int n)")
    case True
    then show ?thesis using Suc.IH by fastforce
  next
    case False
    then show ?thesis using Suc.prems by (intro exI [of _ "int n"]) (simp add: add.commute)
  qed
qed (use assms(1) in \<open>simp add: year_start_def\<close>)

lemma year_of_day_spec:
  assumes "0 \<le> doe" "doe < 146097"
  shows "0 \<le> year_of_day doe \<and> year_of_day doe < 400 \<and> year_start (year_of_day doe) \<le> doe \<and>
     doe - year_start (year_of_day doe) \<le> 365"
proof (cases "doe = 146096")
  case True
  have "year_of_day 146096 = 399" "year_start 399 = 145731" by code_simp+
  with True show ?thesis by simp
next
  case False
  then have small: "doe < 146096" using assms by simp
  then have num: "year_of_day doe = year_numerator doe div 365"
    using assms by (simp add: year_of_day_def year_numerator_def)
  have "year_start (int 400) = 146096" by code_simp
  then obtain y where y: "0 \<le> y" "y < 400" "year_start y \<le> doe" "doe < year_start (y + 1)"
    using year_interval [of doe 400] assms small by auto
  have "365 * y \<le> year_numerator doe"
    using year_numerator_bounds(1) [OF y(1,2)] year_numerator_mono [OF y(3)] by simp
  moreover have "year_numerator doe < 365 * (y + 1)"
  proof (cases "y = 399")
    case True
    have "year_numerator 146095 < 365 * 400" by code_simp
    then show ?thesis using year_numerator_mono [of doe 146095] small True by simp
  next
    case False
    then show ?thesis
      using year_numerator_bounds(2) [OF y(1,2)] year_numerator_mono [of doe "year_start (y + 1) - 1"] y by simp
  qed
  ultimately have "year_numerator doe div 365 = y"
    by (intro int_div_pos_eq [where r = "year_numerator doe - 365 * y"]) auto
  then have "year_of_day doe = y" by (simp add: num)
  moreover have "year_start (y + 1) \<le> year_start y + 366"
  proof -
    have "(y + 1) div 4 \<le> y div 4 + 1" "y div 100 \<le> (y + 1) div 100" by linarith+
    then show ?thesis by (simp add: year_start_def)
  qed
  ultimately show ?thesis using y by simp
qed

lemma civil_date_shape:
  assumes "civil_date n = (y, m, d)"
  shows "days_from_civil y m d = n" "1 \<le> m" "m \<le> 12" "1 \<le> d" "d \<le> 31"
proof -
  define z where "z = n + 719468"
  define era where "era = z div 146097"
  define doe where "doe = z mod 146097"
  define yoe where "yoe = year_of_day doe"
  define doy where "doy = doe - year_start yoe"
  define mp where "mp = (5 * doy + 2) div 153"
  have doe: "0 \<le> doe" "doe < 146097" by (simp_all add: doe_def)
  have yoe: "0 \<le> yoe" "yoe < 400" and doy: "0 \<le> doy" "doy \<le> 365"
    using year_of_day_spec [OF doe] by (auto simp: yoe_def doy_def)
  have mp: "0 \<le> mp" "mp \<le> 11" using doy by (simp_all add: mp_def)
  have folds: "(doe - doe div 1460 + doe div 36524 - doe div 146096) div 365 = yoe"
    "doe - (365 * yoe + yoe div 4 - yoe div 100) = doy"
    by (simp_all add: yoe_def year_of_day_def doy_def year_start_def)
  have "civil_date n = (let m = (if mp < 10 then mp + 3 else mp - 9)
      in (yoe + era * 400 + (if m \<le> 2 then 1 else 0), m, doy - (153 * mp + 2) div 5 + 1))"
    unfolding civil_date_def Let_def z_def [symmetric] era_def [symmetric] doe_def [symmetric] folds mp_def [symmetric]
    by (rule refl)
  then have m: "m = (if mp < 10 then mp + 3 else mp - 9)" and d: "d = doy - (153 * mp + 2) div 5 + 1"
    and y: "y = yoe + era * 400 + (if m \<le> 2 then 1 else 0)"
    using assms by (simp_all only: Let_def prod.inject)
  show "1 \<le> m" "m \<le> 12" using m mp by (auto split: if_splits)
  show "1 \<le> d" "d \<le> 31" using d doy by (simp_all add: mp_def)
  have mp_back: "(if 2 < m then m - 3 else m + 9) = mp" using m mp by (auto split: if_splits)
  have y': "(if m \<le> 2 then y - 1 else y) = yoe + era * 400" using y by simp
  have "(yoe + era * 400) div 400 = era" "(yoe + era * 400) mod 400 = yoe" using yoe by simp_all
  then have "days_from_civil y m d = era * 146097 + (yoe * 365 + yoe div 4 - yoe div 100 + doy) - 719468"
    unfolding days_from_civil_def Let_def mp_back y' by (simp add: d)
  also have "\<dots> = era * 146097 + doe - 719468" by (simp add: doy_def year_start_def)
  also have "\<dots> = n" using div_mult_mod_eq [of z 146097] by (simp add: era_def doe_def z_def)
  finally show "days_from_civil y m d = n" .
qed

section \<open>Reading\<close>

definition read_digits :: "nat \<Rightarrow> string \<Rightarrow> (int \<times> string) option" where
  "read_digits w s =
     (if length (take w s) = w \<and> list_all is_digit (take w s) then Some (int (nat_of_digits (take w s)), drop w s) else None)"

definition read_text :: "string \<Rightarrow> string \<Rightarrow> string option" where
  "read_text p s = (if take (length p) s = p then Some (drop (length p) s) else None)"

definition valid_date :: "int \<Rightarrow> int \<Rightarrow> int \<Rightarrow> bool" where
  "valid_date y m d \<longleftrightarrow> 1 \<le> y \<and> y \<le> 9999 \<and> civil_date (days_from_civil y m d) = (y, m, d)"

definition fromisoformat :: "string \<Rightarrow> time option" where
  "fromisoformat s =
     Option.bind (read_digits 4 s) (\<lambda>(y, s). Option.bind (read_text ''-'' s) (\<lambda>s.
     Option.bind (read_digits 2 s) (\<lambda>(m, s). Option.bind (read_text ''-'' s) (\<lambda>s.
     Option.bind (read_digits 2 s) (\<lambda>(d, s). Option.bind (read_text ''T'' s) (\<lambda>s.
     Option.bind (read_digits 2 s) (\<lambda>(hh, s). Option.bind (read_text '':'' s) (\<lambda>s.
     Option.bind (read_digits 2 s) (\<lambda>(mm, s). Option.bind (read_text '':'' s) (\<lambda>s.
     Option.bind (read_digits 2 s) (\<lambda>(ss, s).
     Option.bind (case read_text ''.'' s of None \<Rightarrow> Some (0, s) | Some s' \<Rightarrow> read_digits 6 s') (\<lambda>(us, s).
       if s = ''+00:00'' \<and> valid_date y m d \<and> hh < 24 \<and> mm < 60 \<and> ss < 60
       then Some (of_int ((days_from_civil y m d * 86400 + hh * 3600 + mm * 60 + ss) * 1000000 + us) / 1000000)
       else None))))))))))))"

lemma read_text_append [simp]: "read_text p (p @ s) = Some s"
  by (simp add: read_text_def)

lemma nat_of_digits_zeros: "nat_of_digits (replicate k (CHR ''0'') @ s) = nat_of_digits s"
  by (induction k) (simp_all add: nat_of_digits_def digit_val_def)

lemma nat_str_length: "n < 10 ^ w \<Longrightarrow> 0 < w \<Longrightarrow> length (nat_str n) \<le> w"
proof (induction w arbitrary: n)
  case (Suc w)
  show ?case
  proof (cases "n < 10")
    case False
    then have "n div 10 < 10 ^ w" "0 < w" using Suc.prems by (auto intro!: Nat.gr0I simp: div_less_iff_less_mult mult.commute)
    from Suc.IH [OF this] False show ?thesis by (simp add: nat_str.simps [of n])
  qed (simp add: nat_str.simps [of n])
qed simp

lemma read_digits_zpad:
  assumes "0 \<le> i" "i < 10 ^ w" "0 < w"
  shows "read_digits w (zpad w (nat i) @ s) = Some (i, s)"
proof -
  have "nat i < 10 ^ w" using assms by (simp add: nat_less_iff)
  then have len: "length (zpad w (nat i)) = w" using nat_str_length [of "nat i" w] assms by (simp add: zpad_def Let_def)
  have "list_all is_digit (zpad w (nat i))"
    using nat_str_digits [of "nat i"] by (auto simp: zpad_def Let_def list_all_iff is_digit_def)
  moreover have "nat_of_digits (zpad w (nat i)) = nat i"
    by (simp add: zpad_def Let_def nat_of_digits_zeros nat_of_digits_str)
  ultimately show ?thesis using len assms by (simp add: read_digits_def)
qed

text \<open>The instants a \<^verbatim>\<open>datetime\<close> can hold: whole microseconds, years 1 to 9999.\<close>

definition datetime_value :: "time \<Rightarrow> bool" where
  "datetime_value t \<longleftrightarrow> of_int \<lfloor>t * 1000000\<rfloor> = t * 1000000 \<and>
     (let (y, _, _) = civil_date (\<lfloor>t * 1000000\<rfloor> div 1000000 div 86400) in 1 \<le> y \<and> y \<le> 9999)"

lemma fromisoformat_isoformat:
  assumes "datetime_value t"
  shows "fromisoformat (isoformat t) = Some t"
proof -
  define us where "us = \<lfloor>t * 1000000\<rfloor>"
  define secs where "secs = us div 1000000"
  define frac where "frac = us mod 1000000"
  define s where "s = secs mod 86400"
  obtain y m d where c: "civil_date (secs div 86400) = (y, m, d)" by (metis prod_cases3)
  note cd = civil_date_shape [OF c]
  have y: "1 \<le> y" "y \<le> 9999" and t: "of_int us = t * 1000000"
    using assms c by (auto simp: datetime_value_def us_def secs_def)
  have s: "0 \<le> s" "s < 86400" and frac: "0 \<le> frac" "frac < 1000000" by (simp_all add: s_def frac_def)
  then have hms: "0 \<le> s div 3600" "s div 3600 < 24" "0 \<le> s mod 3600 div 60" "s mod 3600 div 60 < 60" "0 \<le> s mod 60" "s mod 60 < 60"
    by auto
  have iso: "isoformat t = zpad 4 (nat y) @ ''-'' @ zpad 2 (nat m) @ ''-'' @ zpad 2 (nat d) @ ''T'' @
      zpad 2 (nat (s div 3600)) @ '':'' @ zpad 2 (nat (s mod 3600 div 60)) @ '':'' @ zpad 2 (nat (s mod 60)) @
      (if frac = 0 then [] else ''.'' @ zpad 6 (nat frac)) @ ''+00:00''"
    unfolding isoformat_def Let_def us_def [symmetric] secs_def [symmetric] frac_def [symmetric] s_def [symmetric] c by simp
  have r4: "read_digits 4 (zpad 4 (nat y) @ x) = Some (y, x)" for x using y by (intro read_digits_zpad) auto
  have r2: "0 \<le> i \<Longrightarrow> i < 100 \<Longrightarrow> read_digits 2 (zpad 2 (nat i) @ x) = Some (i, x)" for i x
    using read_digits_zpad [of i 2 x] by simp
  have r6: "read_digits 6 (zpad 6 (nat frac) @ x) = Some (frac, x)" for x using frac by (intro read_digits_zpad) auto
  have tail: "(case read_text ''.'' ((if frac = 0 then [] else ''.'' @ zpad 6 (nat frac)) @ ''+00:00'') of
      None \<Rightarrow> Some (0, (if frac = 0 then [] else ''.'' @ zpad 6 (nat frac)) @ ''+00:00'') | Some s' \<Rightarrow> read_digits 6 s') = Some (frac, ''+00:00'')"
    by (cases "frac = 0") (auto simp: r6 read_text_def)
  have valid: "valid_date y m d" using y c cd(1) by (simp add: valid_date_def)
  have whole: "(secs div 86400 * 86400 + s div 3600 * 3600 + s mod 3600 div 60 * 60 + s mod 60) * 1000000 + frac = us"
  proof -
    have "s mod 3600 mod 60 = s mod 60" by (simp add: mod_mod_cancel)
    then have "s div 3600 * 3600 + s mod 3600 div 60 * 60 + s mod 60 = s"
      using div_mult_mod_eq [of s 3600] div_mult_mod_eq [of "s mod 3600" 60] by linarith
    then have "secs div 86400 * 86400 + s div 3600 * 3600 + s mod 3600 div 60 * 60 + s mod 60 = secs"
      using div_mult_mod_eq [of secs 86400] s_def by linarith
    then show ?thesis using div_mult_mod_eq [of us 1000000] by (simp add: secs_def frac_def)
  qed
  have "m < 100" "d < 100" "0 \<le> m" "0 \<le> d" using cd by auto
  have less_24: "(24 :: int) < 100" and less_60: "(60 :: int) < 100" by simp_all
  note digits = r4 r2 [OF \<open>0 \<le> m\<close> \<open>m < 100\<close>] r2 [OF \<open>0 \<le> d\<close> \<open>d < 100\<close>]
    r2 [OF hms(1) less_trans [OF hms(2) less_24]] r2 [OF hms(3) less_trans [OF hms(4) less_60]] r2 [OF hms(5) less_trans [OF hms(6) less_60]]
  have checks: "(''+00:00'' = ''+00:00'' \<and> valid_date y m d \<and> s div 3600 < 24 \<and> s mod 3600 div 60 < 60 \<and> s mod 60 < 60) = True"
    using valid hms by simp
  have "fromisoformat (isoformat t) = Some (of_int us / 1000000)"
    unfolding iso fromisoformat_def digits read_text_append Option.bind_lunit prod.case tail checks if_True cd(1) whole
    by (rule refl)
  then show ?thesis using t by simp
qed

end
