(* ===== verification/Files.thy ===== *)
theory Files
  imports Errors Abi
begin

text \<open>
  The file system as the repository's code uses it: absolute paths as component lists, the
  directories that exist and the text of every file. Opening a path follows its components as the
  operating system does, \<^verbatim>\<open>..\<close> included. Symbolic links, permissions and limits on names are left out.
\<close>

section \<open>Files\<close>

type_synonym path = "string list"

record fs =
  fs_dirs :: "path list"
  fs_files :: "(path, string) dict"

fun walk :: "path list \<Rightarrow> path \<Rightarrow> path \<Rightarrow> path option" where
  "walk dirs here [] = Some here"
| "walk dirs here (c # cs) =
     (if c = ''..'' then walk dirs (butlast here) cs
      else if here @ [c] \<in> set dirs then walk dirs (here @ [c]) cs
      else None)"

definition locate :: "fs \<Rightarrow> path \<Rightarrow> path option" where
  "locate fs p = (if p = [] then None else map_option (\<lambda>d. d @ [last p]) (walk (fs_dirs fs) [] (butlast p)))"

definition path_text :: "path \<Rightarrow> string" where
  "path_text p = concat (map (\<lambda>c. CHR ''/'' # c) p)"

text \<open>What \<^verbatim>\<open>open(p, "w")\<close> refuses, and the file it opens.\<close>

definition open_write :: "fs \<Rightarrow> path \<Rightarrow> exn + path" where
  "open_write fs p =
     (if CHR 0x00 \<in> set (concat p) then Inl (ValueError ''embedded null byte'')
      else case locate fs p of
        None \<Rightarrow> Inl (OtherError (''[Errno 2] No such file or directory: '' @ sq (path_text p)))
      | Some q \<Rightarrow>
          if q \<in> set (fs_dirs fs) then Inl (OtherError (''[Errno 21] Is a directory: '' @ sq (path_text p))) else Inr q)"

text \<open>The text of an existing regular file; every failure to read is caught by the callers.\<close>

definition read_file :: "fs \<Rightarrow> path \<Rightarrow> string option" where
  "read_file fs p = Option.bind (locate fs p) (dict_get (fs_files fs))"

text \<open>The two operations the repository writes with.\<close>

datatype fs_op = Write path string | Replace path path

definition write_text :: "path \<Rightarrow> string \<Rightarrow> fs \<Rightarrow> fs" where
  "write_text q txt fs = fs\<lparr>fs_files := dict_set q txt (fs_files fs)\<rparr>"

fun run_op :: "fs_op \<Rightarrow> (unit, fs) call" where
  "run_op (Write p txt) fs =
     (case open_write fs p of Inl e \<Rightarrow> (Inl e, fs) | Inr q \<Rightarrow> (Inr (), write_text q txt fs))"
| "run_op (Replace p p') fs =
     (case read_file fs p of
        None \<Rightarrow> (Inl (OtherError (''[Errno 2] No such file or directory: '' @ sq (path_text p) @ '' -> '' @ sq (path_text p'))), fs)
      | Some txt \<Rightarrow>
          (case open_write fs p' of
             Inl e \<Rightarrow> (Inl e, fs)
           | Inr q \<Rightarrow> (Inr (), fs\<lparr>fs_files := dict_set q txt (dict_del (the (locate fs p)) (fs_files fs))\<rparr>)))"

fun run_ops :: "fs_op list \<Rightarrow> (unit, fs) call" where
  "run_ops [] fs = (Inr (), fs)"
| "run_ops (op # ops) fs = (case run_op op fs of (Inl e, fs') \<Rightarrow> (Inl e, fs') | (Inr _, fs') \<Rightarrow> run_ops ops fs')"

text \<open>
  The file systems a crash can leave behind: the process stops between two operations, or while
  a file is written, which then holds a prefix of its text. Renaming is atomic.
\<close>

inductive crash :: "fs_op list \<Rightarrow> fs \<Rightarrow> fs \<Rightarrow> bool" where
  stopped: "crash ops fs fs"
| torn: "open_write fs p = Inr q \<Longrightarrow> prefix part txt \<Longrightarrow> crash (Write p txt # ops) fs (write_text q part fs)"
| later: "run_op op fs = (Inr (), fs') \<Longrightarrow> crash ops fs' fs'' \<Longrightarrow> crash (op # ops) fs fs''"

section \<open>Paths\<close>

text \<open>\<^verbatim>\<open>s.split("/")\<close>; \<^verbatim>\<open>pathlib\<close> drops empty components and dots, and an absolute part replaces what precedes it.\<close>

fun split_slash :: "string \<Rightarrow> string list" where
  "split_slash [] = [[]]"
| "split_slash (c # cs) =
     (if c = CHR ''/'' then [] # split_slash cs
      else case split_slash cs of [] \<Rightarrow> [[c]] | w # ws \<Rightarrow> (c # w) # ws)"

definition join_path :: "path \<Rightarrow> string \<Rightarrow> path" where
  "join_path base s =
     (let parts = filter (\<lambda>c. c \<noteq> [] \<and> c \<noteq> ''.'') (split_slash s)
      in if prefix ''/'' s then parts else base @ parts)"

lemma split_slash_plain: "CHR ''/'' \<notin> set s \<Longrightarrow> split_slash s = [s]"
  by (induction s) auto

lemma join_path_plain:
  "CHR ''/'' \<notin> set s \<Longrightarrow> s \<noteq> [] \<Longrightarrow> s \<noteq> ''.'' \<Longrightarrow> join_path base s = base @ [s]"
  by (cases s) (auto simp: join_path_def split_slash_plain Let_def)

section \<open>Directories\<close>

definition is_dir :: "fs \<Rightarrow> path \<Rightarrow> bool" where
  "is_dir fs p \<longleftrightarrow> walk (fs_dirs fs) [] p \<noteq> None"

definition is_file :: "fs \<Rightarrow> path \<Rightarrow> bool" where
  "is_file fs p \<longleftrightarrow> read_file fs p \<noteq> None"

text \<open>\<^verbatim>\<open>sorted(p.iterdir())\<close>, as names.\<close>

definition sorted_entries :: "fs \<Rightarrow> path \<Rightarrow> string list" where
  "sorted_entries fs p =
     (case walk (fs_dirs fs) [] p of
        None \<Rightarrow> []
      | Some d \<Rightarrow> sort (remdups (map last (filter (\<lambda>q. q \<noteq> [] \<and> butlast q = d) (fs_dirs fs @ map fst (fs_files fs))))))"

text \<open>The path with every \<^verbatim>\<open>..\<close> followed, for directories that may not exist yet.\<close>

definition resolve :: "path \<Rightarrow> path" where
  "resolve p = fold (\<lambda>c here. if c = ''..'' then butlast here else here @ [c]) p []"

text \<open>
  \<^verbatim>\<open>p.mkdir(parents=True, exist_ok=True)\<close>, \<^verbatim>\<open>shutil.copytree(src, dest, dirs_exist_ok=True)\<close> and
  \<^verbatim>\<open>shutil.rmtree(p)\<close>. A copy onto a tree in which a file stands where a directory is needed, or the
  reverse, fails; what it copied until then is not modelled. A tree with files is not copied onto itself.
\<close>

definition mkdirs :: "path \<Rightarrow> (unit, fs) call" where
  "mkdirs p fs =
     (let ds = map (\<lambda>n. resolve (take n p)) [1..<length p + 1] in
      case find (dict_has (fs_files fs)) ds of
        Some d \<Rightarrow> (Inl (OtherError (''[Errno 17] File exists: '' @ sq (path_text d))), fs)
      | None \<Rightarrow> (Inr (), fs\<lparr>fs_dirs := fs_dirs fs @ ds\<rparr>))"

definition copytree :: "path \<Rightarrow> path \<Rightarrow> (unit, fs) call" where
  "copytree src dest fs =
     (case walk (fs_dirs fs) [] src of
        None \<Rightarrow> (Inl (OtherError (''[Errno 2] No such file or directory: '' @ sq (path_text src))), fs)
      | Some s \<Rightarrow>
          let d = resolve dest;
              move = (\<lambda>q. d @ drop (length s) q);
              dirs = map move (filter (prefix s) (fs_dirs fs @ [s]));
              copies = map (\<lambda>(q, txt). (move q, txt)) (filter (\<lambda>(q, _). prefix s q) (fs_files fs))
          in if d = s \<and> copies \<noteq> []
             then (Inl (OtherError (sq (path_text src) @ '' and '' @ sq (path_text dest) @ '' are the same file'')), fs)
             else if list_ex (dict_has (fs_files fs)) dirs \<or> list_ex (\<lambda>(q, _). q \<in> set (fs_dirs fs)) copies
             then (Inl (OtherError ''File exists''), fs)
             else (Inr (), fs\<lparr>fs_dirs := fs_dirs fs @ dirs,
                              fs_files := fold (\<lambda>(q, txt). dict_set q txt) copies (fs_files fs)\<rparr>))"

definition rmtree :: "path \<Rightarrow> fs \<Rightarrow> fs" where
  "rmtree p fs =
     (let d = resolve p
      in fs\<lparr>fs_dirs := filter (\<lambda>q. \<not> prefix d q) (fs_dirs fs),
            fs_files := filter (\<lambda>(q, _). \<not> prefix d q) (fs_files fs)\<rparr>)"

lemma resolve_plain: "''..'' \<notin> set p \<Longrightarrow> resolve p = p"
proof -
  have "''..'' \<notin> set p \<Longrightarrow> fold (\<lambda>c here. if c = ''..'' then butlast here else here @ [c]) p acc = acc @ p" for acc
    by (induction p arbitrary: acc) auto
  then show "''..'' \<notin> set p \<Longrightarrow> resolve p = p" by (simp add: resolve_def)
qed

lemma mkdirs_empty:
  assumes "''..'' \<notin> set p" "D = map (\<lambda>n. take n p) [1..<length p + 1]"
  shows "mkdirs p \<lparr>fs_dirs = [], fs_files = []\<rparr> = (Inr (), \<lparr>fs_dirs = D, fs_files = []\<rparr>)"
proof -
  have "map (\<lambda>n. resolve (take n p)) [1..<length p + 1] = D"
    unfolding assms(2) using assms(1) by (intro map_cong refl resolve_plain) (auto dest: in_set_takeD)
  moreover have "find (dict_has ([] :: (path, string) dict)) D = None" by (induction D) (simp_all add: dict_has_def)
  ultimately show ?thesis unfolding mkdirs_def Let_def by (simp only: fs.simps option.case append_Nil)
qed

lemma walk_prefixes:
  assumes "''..'' \<notin> set p" "\<forall>n. 0 < n \<longrightarrow> n \<le> length p \<longrightarrow> here @ take n p \<in> set dirs"
  shows "walk dirs here p = Some (here @ p)"
  using assms
proof (induction p arbitrary: here)
  case (Cons c p)
  have "here @ [c] \<in> set dirs" using Cons.prems(2) [rule_format, of 1] by simp
  moreover have "\<forall>n. 0 < n \<longrightarrow> n \<le> length p \<longrightarrow> (here @ [c]) @ take n p \<in> set dirs"
    using Cons.prems(2) by (metis Suc_le_mono append.assoc append_Cons append_Nil length_Cons take_Suc_Cons zero_less_Suc)
  ultimately show ?case using Cons.IH [of "here @ [c]"] Cons.prems(1) by auto
qed simp

lemma walk_mono: "set dirs \<subseteq> set dirs' \<Longrightarrow> walk dirs here p = Some q \<Longrightarrow> walk dirs' here p = Some q"
  by (induction p arbitrary: here) (auto split: if_splits)

lemma mkdirs_success:
  assumes "mkdirs p fs = (Inr u, fs')" "''..'' \<notin> set p"
  shows "fs_files fs' = fs_files fs" "set (fs_dirs fs) \<subseteq> set (fs_dirs fs')"
    "0 < n \<Longrightarrow> n \<le> length p \<Longrightarrow> take n p \<in> set (fs_dirs fs')"
proof -
  have ds: "map (\<lambda>n. resolve (take n p)) [1..<length p + 1] = map (\<lambda>n. take n p) [1..<length p + 1]"
    using assms(2) by (intro map_cong refl resolve_plain) (auto dest: in_set_takeD)
  have fs': "fs' = fs\<lparr>fs_dirs := fs_dirs fs @ map (\<lambda>n. take n p) [1..<length p + 1]\<rparr>"
    using assms(1) unfolding mkdirs_def Let_def ds by (auto split: option.splits)
  show "fs_files fs' = fs_files fs" "set (fs_dirs fs) \<subseteq> set (fs_dirs fs')" by (simp_all add: fs')
  show "0 < n \<Longrightarrow> n \<le> length p \<Longrightarrow> take n p \<in> set (fs_dirs fs')"
    unfolding fs' by (simp del: upt_Suc add: image_iff) (rule disjI2, rule bexI [of _ n], auto)
qed

text \<open>A copied tree holds the files of its source.\<close>

lemma copytree_success:
  assumes "copytree src dest fs = (Inr u, fs')" "''..'' \<notin> set dest" "walk (fs_dirs fs) [] src = Some s"
  shows "set (fs_dirs fs) \<subseteq> set (fs_dirs fs')" "dest \<in> set (fs_dirs fs')"
    "dict_wf (fs_files fs) \<Longrightarrow> dict_get (fs_files fs) (s @ rest) = Some txt \<Longrightarrow> dict_get (fs_files fs') (dest @ rest) = Some txt"
proof -
  let ?move = "\<lambda>q. dest @ drop (length s) q"
  let ?copies = "map (\<lambda>(q, txt). (?move q, txt)) (filter (\<lambda>(q, _). prefix s q) (fs_files fs))"
  have fs': "fs' = fs\<lparr>fs_dirs := fs_dirs fs @ map ?move (filter (prefix s) (fs_dirs fs @ [s])),
      fs_files := fold (\<lambda>(q, txt). dict_set q txt) ?copies (fs_files fs)\<rparr>"
    using assms(1) unfolding copytree_def assms(3) Let_def resolve_plain [OF assms(2)] by (auto split: if_splits)
  show "set (fs_dirs fs) \<subseteq> set (fs_dirs fs')" "dest \<in> set (fs_dirs fs')" by (auto simp: fs')
  assume wf: "dict_wf (fs_files fs)" and found: "dict_get (fs_files fs) (s @ rest) = Some txt"
  have "inj_on ?move {q. prefix s q}" by (auto simp: inj_on_def prefix_def)
  moreover have "distinct (map fst (filter (\<lambda>(q, _). prefix s q) (fs_files fs)))"
    using wf by (simp add: dict_wf_def distinct_map_filter)
  ultimately have "distinct (map ?move (map fst (filter (\<lambda>(q, _). prefix s q) (fs_files fs))))"
    unfolding distinct_map [of ?move] by (auto intro: inj_on_subset)
  then have "distinct (map fst (rev ?copies))" by (simp add: rev_map [symmetric] comp_def split_beta)
  moreover have "(dest @ rest, txt) \<in> set (rev ?copies)" using dict_get_SomeD [OF found] by force
  ultimately have "map_of (rev ?copies) (dest @ rest) = Some txt" by (rule map_of_is_SomeI)
  then show "dict_get (fs_files fs') (dest @ rest) = Some txt"
    unfolding fs' using pydict.insert_all_lookup [of ?copies "fs_files fs" "dest @ rest"] by simp
qed

lemma sorted_entriesI:
  assumes "walk (fs_dirs fs) [] p = Some d" "d @ [n] \<in> set (fs_dirs fs)"
  shows "n \<in> set (sorted_entries fs p)"
proof -
  have "n = last (d @ [n])" "d @ [n] \<noteq> []" "butlast (d @ [n]) = d" by simp_all
  then have "n \<in> last ` {q \<in> set (fs_dirs fs). q \<noteq> [] \<and> butlast q = d}" using assms(2) by blast
  then show ?thesis by (auto simp: sorted_entries_def assms(1))
qed

end
