(* ===== verification/File_Checkpoint.thy ===== *)
theory File_Checkpoint
  imports Checkpoint Datetime Files "HOL-Library.Multiset"
begin

text \<open>
  \<^verbatim>\<open>infrastructure/storage/checkpoint/file_system.py\<close>: one JSON file per checkpoint under
  \<^verbatim>\<open>checkpoints/\<close> and an index file, both written to a temporary file and renamed, over the file
  system of theory Files. A \<^verbatim>\<open>..\<close> inside a checkpoint identifier is followed as in any path.
\<close>

section \<open>Paths of the repository\<close>

definition checkpoint_path :: "path \<Rightarrow> string \<Rightarrow> path" where
  "checkpoint_path base checkpoint_id = join_path (base @ [''checkpoints'']) (checkpoint_id @ ''.json'')"

text \<open>\<^verbatim>\<open>dest.with_suffix(".tmp")\<close>: the name of \<open>dest\<close> ends in \<^verbatim>\<open>.json\<close>, which is no suffix when nothing precedes it.\<close>

definition temporary_path :: "path \<Rightarrow> path" where
  "temporary_path dest =
     (let name = last dest; stem = take (length name - 5) name
      in butlast dest @ [(if stem = [] then name else stem) @ ''.tmp''])"

definition index_path :: "path \<Rightarrow> path" where
  "index_path base = base @ [''index.json'']"

definition index_temporary_path :: "path \<Rightarrow> path" where
  "index_temporary_path base = base @ [''index.tmp'']"

section \<open>Checkpoints as JSON objects\<close>

primrec CheckpointTrigger_value :: "CheckpointTrigger \<Rightarrow> string" where
  "CheckpointTrigger_value STEP_COMPLETE = ''STEP_COMPLETE''"
| "CheckpointTrigger_value BEFORE_TOOL_CALL = ''BEFORE_TOOL_CALL''"
| "CheckpointTrigger_value AFTER_TOOL_CALL = ''AFTER_TOOL_CALL''"
| "CheckpointTrigger_value ERROR_RECOVERY = ''ERROR_RECOVERY''"
| "CheckpointTrigger_value PAUSE_REQUEST = ''PAUSE_REQUEST''"
| "CheckpointTrigger_value BEFORE_IRREVERSIBLE = ''BEFORE_IRREVERSIBLE''"

definition CheckpointTrigger_of :: "string \<Rightarrow> CheckpointTrigger option" where
  "CheckpointTrigger_of s =
     find (\<lambda>t. CheckpointTrigger_value t = s)
       [STEP_COMPLETE, BEFORE_TOOL_CALL, AFTER_TOOL_CALL, ERROR_RECOVERY, PAUSE_REQUEST, BEFORE_IRREVERSIBLE]"

definition checkpoint_to_dict :: "Checkpoint \<Rightarrow> pyobj" where
  "checkpoint_to_dict cp =
     [(''checkpoint_id'', PyStr (ck_checkpoint_id cp)),
      (''execution_id'', PyStr (ck_execution_id cp)),
      (''version'', PyInt (ck_version cp)),
      (''trigger_reason'', PyStr (CheckpointTrigger_value (ck_trigger_reason cp))),
      (''checkpoint_hash'', PyStr (ck_checkpoint_hash cp)),
      (''schema_version'', PyStr (ck_schema_version cp)),
      (''parent_checkpoint_id'', py_opt_str (ck_parent_checkpoint_id cp)),
      (''agent_state_ref'', py_opt_str (ck_agent_state_ref cp)),
      (''memory_refs'', PyList (map PyStr (ck_memory_refs cp))),
      (''tool_history'', PyList (map PyDict (ck_tool_history cp))),
      (''created_at'', (case ck_created_at cp of None \<Rightarrow> PyNone | Some t \<Rightarrow> PyStr (isoformat t)))]"

text \<open>
  Reading back. The dataclass checks no types, so a file whose fields have other JSON types gives an
  object the typed record cannot hold: \<open>Untyped\<close>.
\<close>

datatype 'a loaded = Loaded 'a | Raised exn | Untyped

primrec and_then :: "'a loaded \<Rightarrow> ('a \<Rightarrow> 'b loaded) \<Rightarrow> 'b loaded" where
  "and_then (Loaded x) f = f x"
| "and_then (Raised e) f = Raised e"
| "and_then Untyped f = Untyped"

definition as_str :: "pyval \<Rightarrow> string loaded" where
  "as_str v = (case v of PyStr s \<Rightarrow> Loaded s | _ \<Rightarrow> Untyped)"

definition as_int :: "pyval \<Rightarrow> int loaded" where
  "as_int v = (case v of PyInt i \<Rightarrow> Loaded i | _ \<Rightarrow> Untyped)"

definition as_opt_str :: "pyval \<Rightarrow> string option loaded" where
  "as_opt_str v = (case v of PyNone \<Rightarrow> Loaded None | PyStr s \<Rightarrow> Loaded (Some s) | _ \<Rightarrow> Untyped)"

definition as_obj :: "pyval \<Rightarrow> pyobj loaded" where
  "as_obj v = (case v of PyDict kvs \<Rightarrow> Loaded kvs | _ \<Rightarrow> Untyped)"

fun as_each :: "(pyval \<Rightarrow> 'a loaded) \<Rightarrow> pyval list \<Rightarrow> 'a list loaded" where
  "as_each f [] = Loaded []"
| "as_each f (v # vs) = and_then (f v) (\<lambda>x. and_then (as_each f vs) (\<lambda>xs. Loaded (x # xs)))"

definition as_list :: "(pyval \<Rightarrow> 'a loaded) \<Rightarrow> pyval \<Rightarrow> 'a list loaded" where
  "as_list f v = (case v of PyList vs \<Rightarrow> as_each f vs | _ \<Rightarrow> Untyped)"

definition getitem :: "pyobj \<Rightarrow> string \<Rightarrow> pyval loaded" where
  "getitem d k = (case dict_get d k of None \<Rightarrow> Raised (KeyError k) | Some v \<Rightarrow> Loaded v)"

definition as_trigger :: "pyval \<Rightarrow> CheckpointTrigger loaded" where
  "as_trigger v =
     and_then (as_str v) (\<lambda>s. case CheckpointTrigger_of s of
       None \<Rightarrow> Raised (ValueError (str_repr s @ '' is not a valid CheckpointTrigger''))
     | Some t \<Rightarrow> Loaded t)"

definition as_created_at :: "pyval \<Rightarrow> time option loaded" where
  "as_created_at v =
     (case v of
        PyStr s \<Rightarrow> if s = [] then Loaded None
                   else (case fromisoformat s of None \<Rightarrow> Untyped | Some t \<Rightarrow> Loaded (Some t))
      | _ \<Rightarrow> if v \<in> {PyNone, PyBool False, PyInt 0, PyFloat 0, PyList [], PyDict []} then Loaded None
             else Raised (OtherError ''fromisoformat: argument must be str''))"

definition dict_to_checkpoint :: "pyval \<Rightarrow> Checkpoint loaded" where
  "dict_to_checkpoint data =
     (case data of
        PyDict d \<Rightarrow>
          and_then (as_created_at (dict_get_or d ''created_at'' PyNone)) (\<lambda>created_at.
          and_then (and_then (getitem d ''checkpoint_id'') as_str) (\<lambda>checkpoint_id.
          and_then (and_then (getitem d ''execution_id'') as_str) (\<lambda>execution_id.
          and_then (and_then (getitem d ''version'') as_int) (\<lambda>version.
          and_then (and_then (getitem d ''trigger_reason'') as_trigger) (\<lambda>trigger_reason.
          and_then (and_then (getitem d ''checkpoint_hash'') as_str) (\<lambda>checkpoint_hash.
          and_then (as_str (dict_get_or d ''schema_version'' (PyStr ''1.0''))) (\<lambda>schema_version.
          and_then (as_opt_str (dict_get_or d ''parent_checkpoint_id'' PyNone)) (\<lambda>parent_checkpoint_id.
          and_then (as_opt_str (dict_get_or d ''agent_state_ref'' PyNone)) (\<lambda>agent_state_ref.
          and_then (as_list as_str (dict_get_or d ''memory_refs'' (PyList []))) (\<lambda>memory_refs.
          and_then (as_list as_obj (dict_get_or d ''tool_history'' (PyList []))) (\<lambda>tool_history.
            Loaded \<lparr>ck_checkpoint_id = checkpoint_id, ck_execution_id = execution_id, ck_version = version,
              ck_trigger_reason = trigger_reason, ck_checkpoint_hash = checkpoint_hash,
              ck_schema_version = schema_version, ck_parent_checkpoint_id = parent_checkpoint_id,
              ck_agent_state_ref = agent_state_ref, ck_memory_refs = memory_refs,
              ck_tool_history = tool_history, ck_created_at = created_at\<rparr>)))))))))))
      | _ \<Rightarrow> Raised (OtherError ''object has no attribute get''))"

section \<open>The repository\<close>

definition py_type_name :: "pyval \<Rightarrow> string" where
  "py_type_name v =
     (case v of PyNone \<Rightarrow> ''NoneType'' | PyBool _ \<Rightarrow> ''bool'' | PyInt _ \<Rightarrow> ''int'' | PyFloat _ \<Rightarrow> ''float''
      | PyStr _ \<Rightarrow> ''str'' | PyList _ \<Rightarrow> ''list'' | PyDict _ \<Rightarrow> ''dict'')"

definition load_index :: "(string \<Rightarrow> rat) \<Rightarrow> path \<Rightarrow> fs \<Rightarrow> pyval" where
  "load_index float_read base fs =
     (case read_file fs (index_path base) of
        None \<Rightarrow> PyDict []
      | Some txt \<Rightarrow> (case json_loads float_read txt of None \<Rightarrow> PyDict [] | Some v \<Rightarrow> v))"

text \<open>
  Adding an identifier to the index. The index is whatever JSON the file holds, so every other
  shape raises as the operators \<^verbatim>\<open>in\<close>, \<^verbatim>\<open>[]\<close> and the method \<^verbatim>\<open>append\<close> do on that type.
\<close>

definition append_id :: "string \<Rightarrow> pyval \<Rightarrow> exn + pyval" where
  "append_id checkpoint_id v =
     (case v of
        PyList xs \<Rightarrow> Inr (PyList (if PyStr checkpoint_id \<in> set xs then xs else xs @ [PyStr checkpoint_id]))
      | PyStr s \<Rightarrow> if str_in checkpoint_id s then Inr v else Inl (OtherError ''str object has no attribute append'')
      | PyDict d \<Rightarrow> if dict_has d checkpoint_id then Inr v else Inl (OtherError ''dict object has no attribute append'')
      | _ \<Rightarrow> Inl (OtherError (''argument of type '' @ sq (py_type_name v) @ '' is not iterable'')))"

definition update_index :: "string \<Rightarrow> string \<Rightarrow> pyval \<Rightarrow> exn + pyobj" where
  "update_index exec_id checkpoint_id index =
     (case index of
        PyDict d \<Rightarrow>
          (case append_id checkpoint_id (dict_get_or d exec_id (PyList [])) of
             Inl e \<Rightarrow> Inl e | Inr v \<Rightarrow> Inr (dict_set exec_id v d))
      | PyList _ \<Rightarrow> Inl (OtherError ''list indices must be integers or slices, not str'')
      | PyStr s \<Rightarrow> Inl (OtherError (if str_in exec_id s then ''string indices must be integers''
                                   else ''str object does not support item assignment''))
      | _ \<Rightarrow> Inl (OtherError (''argument of type '' @ sq (py_type_name index) @ '' is not iterable'')))"

definition write_ops :: "path \<Rightarrow> path \<Rightarrow> string \<Rightarrow> fs_op list" where
  "write_ops tmp dest txt = [Write tmp txt, Replace tmp dest]"

definition checkpoint_ops :: "(rat \<Rightarrow> string) \<Rightarrow> path \<Rightarrow> Checkpoint \<Rightarrow> fs_op list" where
  "checkpoint_ops float_repr base cp =
     (let dest = checkpoint_path base (ck_checkpoint_id cp)
      in write_ops (temporary_path dest) dest (json_dumps float_repr (checkpoint_to_dict cp)))"

definition index_ops :: "(rat \<Rightarrow> string) \<Rightarrow> path \<Rightarrow> pyobj \<Rightarrow> fs_op list" where
  "index_ops float_repr base index = write_ops (index_temporary_path base) (index_path base) (json_dumps float_repr index)"

definition FileSystemCheckpointRepository_init :: "path \<Rightarrow> (unit, fs) call" where
  "FileSystemCheckpointRepository_init base = mkdirs (base @ [''checkpoints''])"

definition file_save ::
  "(rat \<Rightarrow> string) \<Rightarrow> (string \<Rightarrow> rat) \<Rightarrow> path \<Rightarrow> Checkpoint \<Rightarrow> (Checkpoint, fs) call" where
  "file_save float_repr float_read base cp fs =
     (case run_ops (checkpoint_ops float_repr base cp) fs of
        (Inl e, fs1) \<Rightarrow> (Inl e, fs1)
      | (Inr _, fs1) \<Rightarrow>
          (case update_index (ck_execution_id cp) (ck_checkpoint_id cp) (load_index float_read base fs1) of
             Inl e \<Rightarrow> (Inl e, fs1)
           | Inr index \<Rightarrow>
               (case run_ops (index_ops float_repr base index) fs1 of
                  (Inl e, fs2) \<Rightarrow> (Inl e, fs2)
                | (Inr _, fs2) \<Rightarrow> (Inr cp, fs2))))"

text \<open>A missing or unreadable file and a missing field give \<^verbatim>\<open>None\<close>; other exceptions escape.\<close>

definition file_get :: "(string \<Rightarrow> rat) \<Rightarrow> path \<Rightarrow> fs \<Rightarrow> string \<Rightarrow> Checkpoint option loaded" where
  "file_get float_read base fs checkpoint_id =
     (case read_file fs (checkpoint_path base checkpoint_id) of
        None \<Rightarrow> Loaded None
      | Some txt \<Rightarrow>
          (case json_loads float_read txt of
             None \<Rightarrow> Loaded None
           | Some data \<Rightarrow>
               (case dict_to_checkpoint data of
                  Loaded cp \<Rightarrow> Loaded (Some cp)
                | Raised (KeyError _) \<Rightarrow> Loaded None
                | Raised e \<Rightarrow> Raised e
                | Untyped \<Rightarrow> Untyped)))"

fun get_each :: "(string \<Rightarrow> rat) \<Rightarrow> path \<Rightarrow> fs \<Rightarrow> string list \<Rightarrow> Checkpoint list loaded" where
  "get_each float_read base fs [] = Loaded []"
| "get_each float_read base fs (cid # cids) =
     and_then (file_get float_read base fs cid) (\<lambda>found.
     and_then (get_each float_read base fs cids) (\<lambda>cps.
       Loaded (case found of None \<Rightarrow> cps | Some cp \<Rightarrow> cp # cps)))"

definition file_list_by_execution :: "(string \<Rightarrow> rat) \<Rightarrow> path \<Rightarrow> fs \<Rightarrow> string \<Rightarrow> Checkpoint list loaded" where
  "file_list_by_execution float_read base fs execution_id =
     (case load_index float_read base fs of
        PyDict d \<Rightarrow>
          and_then (as_list as_str (dict_get_or d execution_id (PyList []))) (\<lambda>ids.
          and_then (get_each float_read base fs ids) (\<lambda>cps.
            Loaded (sort_key (\<lambda>c. (ck_version c, ck_checkpoint_id c)) cps)))
      | _ \<Rightarrow> Raised (OtherError ''object has no attribute get''))"

definition file_get_latest :: "(string \<Rightarrow> rat) \<Rightarrow> path \<Rightarrow> fs \<Rightarrow> string \<Rightarrow> Checkpoint option loaded" where
  "file_get_latest float_read base fs execution_id =
     and_then (file_list_by_execution float_read base fs execution_id) (\<lambda>cps.
       Loaded (case cps of [] \<Rightarrow> None | c # cs \<Rightarrow> Some (max_by ck_version c cs)))"

section \<open>Records round trip\<close>

text \<open>Checkpoints the JSON files hold without loss, and what comes back: the keys of the tool history sorted.\<close>

definition sorted_obj :: "pyobj \<Rightarrow> pyobj" where
  "sorted_obj d = (case sort_keys (PyDict d) of PyDict d' \<Rightarrow> d' | _ \<Rightarrow> [])"

definition plain_id :: "string \<Rightarrow> bool" where
  "plain_id cid \<longleftrightarrow> CHR ''/'' \<notin> set cid \<and> CHR 0x00 \<notin> set cid"

definition storable :: "Checkpoint \<Rightarrow> bool" where
  "storable c \<longleftrightarrow> plain_id (ck_checkpoint_id c) \<and> list_all (\<lambda>d. plain_val (PyDict d)) (ck_tool_history c) \<and>
     (case ck_created_at c of None \<Rightarrow> True | Some t \<Rightarrow> datetime_value t)"

definition as_stored :: "Checkpoint \<Rightarrow> Checkpoint" where
  "as_stored c = c\<lparr>ck_tool_history := map sorted_obj (ck_tool_history c)\<rparr>"

lemma sort_keys_obj: "sort_keys (PyDict d) = PyDict (sorted_obj d)"
  by (simp add: sorted_obj_def)

lemma as_stored_fields [simp]:
  "ck_checkpoint_id (as_stored c) = ck_checkpoint_id c" "ck_version (as_stored c) = ck_version c"
  "ck_execution_id (as_stored c) = ck_execution_id c"
  by (simp_all add: as_stored_def)

lemma CheckpointTrigger_of_value [simp]: "CheckpointTrigger_of (CheckpointTrigger_value t) = Some t"
  by (cases t) (simp_all add: CheckpointTrigger_of_def)

lemma as_each_map: "(\<And>x. x \<in> set xs \<Longrightarrow> f (g x) = Loaded (h x)) \<Longrightarrow> as_each f (map g xs) = Loaded (map h xs)"
  by (induction xs) auto

lemma as_opt_str_py [simp]: "as_opt_str (py_opt_str x) = Loaded x"
  by (cases x) (simp_all add: as_opt_str_def py_opt_str_def)

lemma sort_keys_opt_str [simp]: "sort_keys (py_opt_str x) = py_opt_str x"
  by (cases x) (simp_all add: py_opt_str_def)

lemma plain_opt_str [simp]: "plain_val (py_opt_str x)"
  by (cases x) (simp_all add: py_opt_str_def)

lemma isoformat_nonempty: "isoformat t \<noteq> []"
  by (simp add: isoformat_def Let_def split_beta)

lemma as_created_at_stored:
  "(case t of None \<Rightarrow> True | Some x \<Rightarrow> datetime_value x) \<Longrightarrow>
     as_created_at (case t of None \<Rightarrow> PyNone | Some x \<Rightarrow> PyStr (isoformat x)) = Loaded t"
  by (cases t) (simp_all add: as_created_at_def isoformat_nonempty fromisoformat_isoformat)

lemma checkpoint_dict_plain: "storable c \<Longrightarrow> plain_val (PyDict (checkpoint_to_dict c))"
  by (auto simp: checkpoint_to_dict_def storable_def list_all_iff split: option.splits)

lemma dict_to_checkpoint_stored:
  assumes "storable c"
  shows "dict_to_checkpoint (sort_keys (PyDict (checkpoint_to_dict c))) = Loaded (as_stored c)"
proof -
  define d where "d = sorted_obj (checkpoint_to_dict c)"
  have get: "dict_get d k = map_option sort_keys (dict_get (checkpoint_to_dict c) k)" for k
    using dict_get_sort_keys [of "checkpoint_to_dict c" d k] checkpoint_dict_plain [OF assms]
    by (simp add: d_def sort_keys_obj del: sort_keys.simps)
  have history: "as_each as_obj (map (sort_keys \<circ> PyDict) (ck_tool_history c)) = Loaded (map sorted_obj (ck_tool_history c))"
    by (rule as_each_map) (simp add: as_obj_def sort_keys_obj del: sort_keys.simps)
  have refs: "as_each as_str (map (sort_keys \<circ> PyStr) (ck_memory_refs c)) = Loaded (ck_memory_refs c)"
    using as_each_map [of "ck_memory_refs c" as_str "sort_keys \<circ> PyStr" id] by (simp add: as_str_def)
  have created: "sort_keys (case ck_created_at c of None \<Rightarrow> PyNone | Some t \<Rightarrow> PyStr (isoformat t)) =
      (case ck_created_at c of None \<Rightarrow> PyNone | Some t \<Rightarrow> PyStr (isoformat t))" by (cases "ck_created_at c") simp_all
  have stamp: "as_created_at (case ck_created_at c of None \<Rightarrow> PyNone | Some t \<Rightarrow> PyStr (isoformat t)) = Loaded (ck_created_at c)"
    using assms by (intro as_created_at_stored) (simp add: storable_def)
  have fields: "dict_get d ''created_at'' = Some (case ck_created_at c of None \<Rightarrow> PyNone | Some t \<Rightarrow> PyStr (isoformat t))"
    "dict_get d ''checkpoint_id'' = Some (PyStr (ck_checkpoint_id c))" "dict_get d ''execution_id'' = Some (PyStr (ck_execution_id c))"
    "dict_get d ''version'' = Some (PyInt (ck_version c))"
    "dict_get d ''trigger_reason'' = Some (PyStr (CheckpointTrigger_value (ck_trigger_reason c)))"
    "dict_get d ''checkpoint_hash'' = Some (PyStr (ck_checkpoint_hash c))" "dict_get d ''schema_version'' = Some (PyStr (ck_schema_version c))"
    "dict_get d ''parent_checkpoint_id'' = Some (py_opt_str (ck_parent_checkpoint_id c))"
    "dict_get d ''agent_state_ref'' = Some (py_opt_str (ck_agent_state_ref c))"
    "dict_get d ''memory_refs'' = Some (PyList (map (sort_keys \<circ> PyStr) (ck_memory_refs c)))"
    "dict_get d ''tool_history'' = Some (PyList (map (sort_keys \<circ> PyDict) (ck_tool_history c)))"
    unfolding get by (simp_all add: checkpoint_to_dict_def dict_get_def created)
  have "dict_to_checkpoint (PyDict d) = Loaded (as_stored c)"
    by (simp add: dict_to_checkpoint_def dict_get_or_def getitem_def fields stamp
        as_str_def [abs_def] as_int_def as_trigger_def as_list_def refs [unfolded as_str_def [abs_def]] history as_stored_def)
  then show ?thesis by (simp add: d_def sort_keys_obj del: sort_keys.simps)
qed

section \<open>The repository's own files\<close>

text \<open>The directory is set up and none of the repository's files is a directory.\<close>

definition files_ok :: "path \<Rightarrow> fs \<Rightarrow> bool" where
  "files_ok base fs \<longleftrightarrow>
     walk (fs_dirs fs) [] base = Some base \<and>
     walk (fs_dirs fs) [] (base @ [''checkpoints'']) = Some (base @ [''checkpoints'']) \<and>
     CHR 0x00 \<notin> set (concat base) \<and>
     (\<forall>n. base @ [''checkpoints'', n] \<notin> set (fs_dirs fs)) \<and>
     index_path base \<notin> set (fs_dirs fs) \<and> index_temporary_path base \<notin> set (fs_dirs fs)"

definition own_file :: "path \<Rightarrow> path \<Rightarrow> bool" where
  "own_file base p \<longleftrightarrow> p = index_path base \<or> p = index_temporary_path base \<or>
     (\<exists>n. p = base @ [''checkpoints'', n] \<and> CHR 0x00 \<notin> set n)"

definition checkpoint_file :: "path \<Rightarrow> string \<Rightarrow> path" where
  "checkpoint_file base cid = base @ [''checkpoints'', cid @ ''.json'']"

definition temporary_file :: "path \<Rightarrow> string \<Rightarrow> path" where
  "temporary_file base cid = base @ [''checkpoints'', (if cid = [] then ''.json'' else cid) @ ''.tmp'']"

lemma own_file_locate:
  assumes "files_ok base fs" "own_file base p"
  shows "locate fs p = Some p"
  using assms by (auto simp: files_ok_def own_file_def locate_def index_path_def index_temporary_path_def butlast_append)

lemma own_file_open: "files_ok base fs \<Longrightarrow> own_file base p \<Longrightarrow> open_write fs p = Inr p"
  using own_file_locate [of base fs p]
  by (auto simp: files_ok_def own_file_def open_write_def index_path_def index_temporary_path_def)

lemma own_file_read: "files_ok base fs \<Longrightarrow> own_file base p \<Longrightarrow> read_file fs p = dict_get (fs_files fs) p"
  by (simp add: read_file_def own_file_locate)

lemma files_ok_cong: "fs_dirs fs' = fs_dirs fs \<Longrightarrow> files_ok base fs' \<longleftrightarrow> files_ok base fs"
  by (simp add: files_ok_def)

lemma checkpoint_path_plain: "plain_id cid \<Longrightarrow> checkpoint_path base cid = checkpoint_file base cid"
  by (cases cid) (auto simp: checkpoint_path_def join_path_def plain_id_def split_slash_plain checkpoint_file_def Let_def)

lemma temporary_path_plain: "temporary_path (checkpoint_file base cid) = temporary_file base cid"
  by (simp add: temporary_path_def temporary_file_def checkpoint_file_def Let_def butlast_append)

lemma own_files [simp]:
  "own_file base (index_path base)" "own_file base (index_temporary_path base)"
  "plain_id cid \<Longrightarrow> own_file base (checkpoint_file base cid)" "plain_id cid \<Longrightarrow> own_file base (temporary_file base cid)"
  by (auto simp: own_file_def checkpoint_file_def temporary_file_def plain_id_def)

lemma suffix_differs: "a @ ''.json'' \<noteq> b @ ''.tmp''"
proof
  assume "a @ ''.json'' = b @ ''.tmp''"
  then have "last (a @ ''.json'') = last (b @ ''.tmp'')" by simp
  then show False by simp
qed

lemma distinct_files [simp]:
  "checkpoint_file base a = checkpoint_file base b \<longleftrightarrow> a = b"
  "checkpoint_file base a \<noteq> temporary_file base b" "temporary_file base b \<noteq> checkpoint_file base a"
  "checkpoint_file base a \<noteq> index_path base" "index_path base \<noteq> checkpoint_file base a"
  "checkpoint_file base a \<noteq> index_temporary_path base" "index_temporary_path base \<noteq> checkpoint_file base a"
  "temporary_file base a \<noteq> index_path base" "index_path base \<noteq> temporary_file base a"
  "index_path base \<noteq> index_temporary_path base" "index_temporary_path base \<noteq> index_path base"
  using suffix_differs [of a "(if b = [] then ''.json'' else b)"] suffix_differs [of a "(if b = [] then ''.json'' else b)", symmetric]
  by (auto simp: checkpoint_file_def temporary_file_def index_path_def index_temporary_path_def)

text \<open>Writing a file through its temporary: the outcome, and what a crash leaves.\<close>

lemma run_write_ops:
  assumes "files_ok base fs" "own_file base tmp" "own_file base dest" "tmp \<noteq> dest"
  shows "run_ops (write_ops tmp dest txt) fs =
     (Inr (), fs\<lparr>fs_files := dict_set dest txt (dict_del tmp (dict_set tmp txt (fs_files fs)))\<rparr>)"
proof -
  have ok: "files_ok base (write_text tmp txt fs)" using assms(1) by (simp add: files_ok_def write_text_def)
  then show ?thesis
    using assms own_file_open [OF assms(1,2)] own_file_open [OF ok assms(3)] own_file_read [OF ok assms(2)] own_file_locate [OF ok assms(2)]
    by (simp add: write_ops_def write_text_def)
qed

lemma crash_write_ops:
  assumes "crash (write_ops tmp dest txt) fs fs'"
    and "files_ok base fs" "own_file base tmp" "own_file base dest" "tmp \<noteq> dest"
  shows "fs_dirs fs' = fs_dirs fs" "\<And>p. p \<notin> {tmp, dest} \<Longrightarrow> dict_get (fs_files fs') p = dict_get (fs_files fs) p"
    "dict_get (fs_files fs') dest \<in> {dict_get (fs_files fs) dest, Some txt}"
proof -
  have ok: "files_ok base (write_text tmp txt fs)" using assms(2) by (simp add: files_ok_def write_text_def)
  note facts = own_file_open [OF assms(2,3)] own_file_open [OF ok assms(4)] own_file_read [OF ok assms(3)] own_file_locate [OF ok assms(3)]
  have "fs' = fs \<or> (\<exists>part. fs' = write_text tmp part fs) \<or>
     fs' = fs\<lparr>fs_files := dict_set dest txt (dict_del tmp (dict_set tmp txt (fs_files fs)))\<rparr>"
    using assms(1) unfolding write_ops_def
  proof (cases rule: crash.cases)
    case (torn q part)
    then show ?thesis using facts by auto
  next
    case (later fs1)
    then have fs1: "fs1 = write_text tmp txt fs" and c: "crash [Replace tmp dest] fs1 fs'" using facts by auto
    from c show ?thesis
    proof (cases rule: crash.cases)
      case (later fs2)
      then have "fs2 = fs\<lparr>fs_files := dict_set dest txt (dict_del tmp (dict_set tmp txt (fs_files fs)))\<rparr>"
        using facts fs1 by (simp add: write_text_def)
      moreover have "fs' = fs2" using later by (auto elim: crash.cases)
      ultimately show ?thesis by simp
    qed (use fs1 in auto)
  qed auto
  then show "fs_dirs fs' = fs_dirs fs" "\<And>p. p \<notin> {tmp, dest} \<Longrightarrow> dict_get (fs_files fs') p = dict_get (fs_files fs) p"
    "dict_get (fs_files fs') dest \<in> {dict_get (fs_files fs) dest, Some txt}"
    using assms(5) by (auto simp: write_text_def)
qed

section \<open>What the files say\<close>

text \<open>The index as a dictionary of identifier lists, and the checkpoint of an identifier.\<close>

definition index_dict :: "(string \<Rightarrow> rat) \<Rightarrow> path \<Rightarrow> fs \<Rightarrow> pyobj" where
  "index_dict fl base fs = (case load_index fl base fs of PyDict d \<Rightarrow> d | _ \<Rightarrow> [])"

definition ids_at :: "pyobj \<Rightarrow> string \<Rightarrow> string list" where
  "ids_at d eid = (case as_list as_str (dict_get_or d eid (PyList [])) of Loaded ids \<Rightarrow> ids | _ \<Rightarrow> [])"

definition stored_at :: "(string \<Rightarrow> rat) \<Rightarrow> path \<Rightarrow> fs \<Rightarrow> string \<Rightarrow> Checkpoint option" where
  "stored_at fl base fs cid = (case file_get fl base fs cid of Loaded found \<Rightarrow> found | _ \<Rightarrow> None)"

definition index_ok :: "pyobj \<Rightarrow> bool" where
  "index_ok d \<longleftrightarrow> distinct (map fst d) \<and> (\<forall>(k, v) \<in> set d. \<exists>ids. v = PyList (map PyStr ids))"

definition file_repo_wf :: "(string \<Rightarrow> rat) \<Rightarrow> path \<Rightarrow> fs \<Rightarrow> bool" where
  "file_repo_wf fl base fs \<longleftrightarrow>
     files_ok base fs \<and> load_index fl base fs = PyDict (index_dict fl base fs) \<and> index_ok (index_dict fl base fs) \<and>
     (\<forall>eid. distinct (ids_at (index_dict fl base fs) eid) \<and>
       (\<forall>cid \<in> set (ids_at (index_dict fl base fs) eid). plain_id cid \<and>
          (\<exists>c. file_get fl base fs cid = Loaded (Some c) \<and> ck_checkpoint_id c = cid)))"

definition add_id :: "string \<Rightarrow> string list \<Rightarrow> string list" where
  "add_id cid ids = (if cid \<in> set ids then ids else ids @ [cid])"

lemma as_list_strs [simp]: "as_list as_str (PyList (map PyStr ids)) = Loaded ids"
  using as_each_map [of ids as_str PyStr id] by (simp add: as_list_def as_str_def)

lemma index_ok_at:
  assumes "index_ok d"
  shows "dict_get_or d eid (PyList []) = PyList (map PyStr (ids_at d eid))"
proof (cases "dict_get d eid")
  case None
  then show ?thesis by (simp add: dict_get_or_def ids_at_def as_list_def)
next
  case (Some v)
  then obtain ids where "v = PyList (map PyStr ids)" using assms dict_get_SomeD [OF Some] by (auto simp: index_ok_def)
  with Some show ?thesis by (simp add: dict_get_or_def ids_at_def)
qed

lemma append_id_list: "append_id cid (PyList (map PyStr ids)) = Inr (PyList (map PyStr (add_id cid ids)))"
  by (auto simp: append_id_def add_id_def)

lemma update_index_ok:
  assumes "index_ok d"
  shows "update_index eid cid (PyDict d) = Inr (dict_set eid (PyList (map PyStr (add_id cid (ids_at d eid)))) d)"
  by (simp add: update_index_def index_ok_at [OF assms] append_id_list)

lemma index_ok_set:
  assumes "index_ok d"
  shows "index_ok (dict_set eid (PyList (map PyStr ids)) d)"
  using assms by (auto simp: index_ok_def dict_set_def distinct_update dest: dict_set_in [unfolded dict_set_def])

lemma ids_at_set: "ids_at (dict_set eid (PyList (map PyStr ids)) d) eid' = (if eid' = eid then ids else ids_at d eid')"
  by (simp add: ids_at_def dict_get_or_set)

lemma index_ok_plain: "index_ok d \<Longrightarrow> plain_val (PyDict d)"
  by (fastforce simp: index_ok_def list_all_iff)

lemma sort_keys_strs [simp]: "map (sort_keys \<circ> PyStr) ids = map PyStr ids"
  by simp

lemma index_ok_sorted:
  assumes "index_ok d"
  shows "index_ok (sorted_obj d)" "ids_at (sorted_obj d) eid = ids_at d eid"
proof -
  have d: "distinct (map fst d)" using assms by (simp add: index_ok_def)
  have get: "dict_get (sorted_obj d) k = map_option sort_keys (dict_get d k)" for k
    by (rule dict_get_sort_keys [OF d]) (rule sort_keys_obj)
  have so: "sorted_obj d = sort_key fst (map (map_prod id sort_keys) d)" by (simp add: sorted_obj_def)
  then have set: "set (sorted_obj d) = map_prod id sort_keys ` set d" by simp
  have "distinct (map fst (map (map_prod id sort_keys) d))" using d by (simp add: comp_def)
  then have "distinct (map fst (sorted_obj d))" unfolding so by (simp only: distinct_map distinct_sort set_sort)
  then show "index_ok (sorted_obj d)" using assms unfolding index_ok_def set by fastforce
  have "dict_get_or (sorted_obj d) eid (PyList []) = dict_get_or d eid (PyList [])"
    using index_ok_at [OF assms, of eid] by (auto simp: dict_get_or_def get split: option.splits)
  then show "ids_at (sorted_obj d) eid = ids_at d eid" by (simp add: ids_at_def)
qed

text \<open>Reading depends only on the file read.\<close>

lemma load_index_cong:
  assumes "files_ok base fs" "files_ok base fs'" "dict_get (fs_files fs') (index_path base) = dict_get (fs_files fs) (index_path base)"
  shows "load_index fl base fs' = load_index fl base fs"
  using assms by (simp add: load_index_def own_file_read)

lemma file_get_cong:
  assumes "files_ok base fs" "files_ok base fs'" "plain_id cid"
    and "dict_get (fs_files fs') (checkpoint_file base cid) = dict_get (fs_files fs) (checkpoint_file base cid)"
  shows "file_get fl base fs' cid = file_get fl base fs cid"
  using assms by (simp add: file_get_def checkpoint_path_plain own_file_read)

lemma load_index_written:
  assumes "files_ok base fs" "index_ok d" "dict_get (fs_files fs) (index_path base) = Some (json_dumps fr d)"
  shows "load_index fl base fs = PyDict (sorted_obj d)"
  using assms by (simp add: load_index_def own_file_read json_loads_dumps index_ok_plain sort_keys_obj del: sort_keys.simps plain_val.simps)

lemma file_get_written:
  assumes "files_ok base fs" "storable c"
    and "dict_get (fs_files fs) (checkpoint_file base (ck_checkpoint_id c)) = Some (json_dumps fr (checkpoint_to_dict c))"
  shows "file_get fl base fs (ck_checkpoint_id c) = Loaded (Some (as_stored c))"
proof -
  have "plain_id (ck_checkpoint_id c)" using assms(2) by (simp add: storable_def)
  then show ?thesis
    using assms json_loads_dumps [OF checkpoint_dict_plain [OF assms(2)], of fl fr] dict_to_checkpoint_stored [OF assms(2)]
    by (simp add: file_get_def checkpoint_path_plain own_file_read del: sort_keys.simps)
qed

section \<open>Saving\<close>

definition new_index :: "(string \<Rightarrow> rat) \<Rightarrow> path \<Rightarrow> Checkpoint \<Rightarrow> fs \<Rightarrow> pyobj" where
  "new_index fl base c fs =
     dict_set (ck_execution_id c)
       (PyList (map PyStr (add_id (ck_checkpoint_id c) (ids_at (index_dict fl base fs) (ck_execution_id c)))))
       (index_dict fl base fs)"

text \<open>
  The stages of saving \<open>c\<close> on \<open>fs\<close>: nothing visible has changed, the checkpoint's file is new, or
  both it and the index are. Temporary files and everything else may differ.
\<close>

datatype stage = Untouched | File_Written | Indexed

definition at_stage :: "(rat \<Rightarrow> string) \<Rightarrow> (string \<Rightarrow> rat) \<Rightarrow> path \<Rightarrow> Checkpoint \<Rightarrow> stage \<Rightarrow> fs \<Rightarrow> fs \<Rightarrow> bool" where
  "at_stage fr fl base c st fs fs' \<longleftrightarrow>
     fs_dirs fs' = fs_dirs fs \<and>
     (\<forall>k. plain_id k \<longrightarrow> k \<noteq> ck_checkpoint_id c \<longrightarrow>
        dict_get (fs_files fs') (checkpoint_file base k) = dict_get (fs_files fs) (checkpoint_file base k)) \<and>
     dict_get (fs_files fs') (checkpoint_file base (ck_checkpoint_id c)) =
       (if st = Untouched then dict_get (fs_files fs) (checkpoint_file base (ck_checkpoint_id c))
        else Some (json_dumps fr (checkpoint_to_dict c))) \<and>
     dict_get (fs_files fs') (index_path base) =
       (if st = Indexed then Some (json_dumps fr (new_index fl base c fs)) else dict_get (fs_files fs) (index_path base))"

lemma at_stage_files_ok: "at_stage fr fl base c st fs fs' \<Longrightarrow> files_ok base fs \<Longrightarrow> files_ok base fs'"
  by (simp add: at_stage_def files_ok_def)

lemma at_stage_get:
  assumes "files_ok base fs" "storable c" "at_stage fr fl base c st fs fs'" "plain_id k"
  shows "file_get fl base fs' k =
    (if k = ck_checkpoint_id c \<and> st \<noteq> Untouched then Loaded (Some (as_stored c)) else file_get fl base fs k)"
proof (cases "k = ck_checkpoint_id c \<and> st \<noteq> Untouched")
  case True
  then have "file_get fl base fs' (ck_checkpoint_id c) = Loaded (Some (as_stored c))"
    using assms(3) at_stage_files_ok [OF assms(3,1)] by (intro file_get_written [OF _ assms(2)]) (simp_all add: at_stage_def)
  with True show ?thesis by simp
next
  case False
  then have "dict_get (fs_files fs') (checkpoint_file base k) = dict_get (fs_files fs) (checkpoint_file base k)"
    using assms(3,4) by (auto simp: at_stage_def)
  then have "file_get fl base fs' k = file_get fl base fs k"
    by (rule file_get_cong [OF assms(1) at_stage_files_ok [OF assms(3,1)] assms(4)])
  then show ?thesis unfolding if_not_P [OF False] .
qed

lemma at_stage_index:
  assumes "files_ok base fs" "load_index fl base fs = PyDict (index_dict fl base fs)" "index_ok (index_dict fl base fs)"
    and "at_stage fr fl base c st fs fs'"
  shows "load_index fl base fs' = PyDict (index_dict fl base fs')" "index_ok (index_dict fl base fs')"
    "ids_at (index_dict fl base fs') eid =
      (if eid = ck_execution_id c \<and> st = Indexed then add_id (ck_checkpoint_id c) (ids_at (index_dict fl base fs) eid)
       else ids_at (index_dict fl base fs) eid)"
proof -
  note ok' = at_stage_files_ok [OF assms(4,1)]
  have nok: "index_ok (new_index fl base c fs)" unfolding new_index_def by (rule index_ok_set [OF assms(3)])
  have li: "load_index fl base fs' = PyDict (if st = Indexed then sorted_obj (new_index fl base c fs) else index_dict fl base fs)"
  proof (cases "st = Indexed")
    case True
    with assms(4) show ?thesis using load_index_written [OF ok' nok] by (simp add: at_stage_def)
  next
    case False
    with assms(4) show ?thesis using load_index_cong [OF assms(1) ok'] assms(2) by (simp add: at_stage_def)
  qed
  then have idx: "index_dict fl base fs' = (if st = Indexed then sorted_obj (new_index fl base c fs) else index_dict fl base fs)"
    by (simp add: index_dict_def)
  show "load_index fl base fs' = PyDict (index_dict fl base fs')" using li idx by simp
  show "index_ok (index_dict fl base fs')" using idx assms(3) index_ok_sorted [OF nok] by simp
  show "ids_at (index_dict fl base fs') eid =
      (if eid = ck_execution_id c \<and> st = Indexed then add_id (ck_checkpoint_id c) (ids_at (index_dict fl base fs) eid)
       else ids_at (index_dict fl base fs) eid)"
    using index_ok_sorted(2) [OF nok] by (simp add: idx new_index_def ids_at_set)
qed

lemma file_repo_wfD:
  assumes "file_repo_wf fl base fs"
  shows "files_ok base fs" "load_index fl base fs = PyDict (index_dict fl base fs)" "index_ok (index_dict fl base fs)"
    "distinct (ids_at (index_dict fl base fs) eid)"
    "cid \<in> set (ids_at (index_dict fl base fs) eid) \<Longrightarrow>
       plain_id cid \<and> (\<exists>c. file_get fl base fs cid = Loaded (Some c) \<and> ck_checkpoint_id c = cid)"
  using assms by (simp_all add: file_repo_wf_def)

lemma at_stage_wf:
  assumes wf: "file_repo_wf fl base fs" and c: "storable c" and st: "at_stage fr fl base c st fs fs'"
  shows "file_repo_wf fl base fs'"
proof -
  note wfD = file_repo_wfD [OF wf] and ix = at_stage_index [OF file_repo_wfD(1-3) [OF wf] st]
  note get = at_stage_get [OF wfD(1) c st]
  have "distinct (ids_at (index_dict fl base fs') eid)" for eid
    using wfD(4) by (auto simp: ix(3) add_id_def)
  moreover have "plain_id k \<and> (\<exists>d. file_get fl base fs' k = Loaded (Some d) \<and> ck_checkpoint_id d = k)"
    if "k \<in> set (ids_at (index_dict fl base fs') eid)" for eid k
  proof -
    from that have "(k = ck_checkpoint_id c \<and> st = Indexed) \<or> k \<in> set (ids_at (index_dict fl base fs) eid)"
      by (auto simp: ix(3) add_id_def split: if_splits)
    then show ?thesis using wfD(5) [of k eid] get [of k] c by (auto simp: storable_def)
  qed
  ultimately show ?thesis using at_stage_files_ok [OF st wfD(1)] ix(1,2) by (simp add: file_repo_wf_def)
qed

text \<open>The two writes of a save, one after the other.\<close>

definition after_write :: "path \<Rightarrow> path \<Rightarrow> string \<Rightarrow> fs \<Rightarrow> fs" where
  "after_write tmp dest txt fs = fs\<lparr>fs_files := dict_set dest txt (dict_del tmp (dict_set tmp txt (fs_files fs)))\<rparr>"

lemma after_write_get [simp]:
  "fs_dirs (after_write tmp dest txt fs) = fs_dirs fs"
  "p \<noteq> tmp \<Longrightarrow> dict_get (fs_files (after_write tmp dest txt fs)) p = (if p = dest then Some txt else dict_get (fs_files fs) p)"
  by (simp_all add: after_write_def)

lemma file_save_steps:
  assumes wf: "file_repo_wf fl base fs" and c: "storable c"
  obtains fs1 fs2 where
    "run_ops (checkpoint_ops fr base c) fs = (Inr (), fs1)" "at_stage fr fl base c File_Written fs fs1"
    "update_index (ck_execution_id c) (ck_checkpoint_id c) (load_index fl base fs1) = Inr (new_index fl base c fs)"
    "run_ops (index_ops fr base (new_index fl base c fs)) fs1 = (Inr (), fs2)" "at_stage fr fl base c Indexed fs fs2"
    "file_save fr fl base c fs = (Inr c, fs2)"
proof -
  let ?id = "ck_checkpoint_id c"
  have ok: "files_ok base fs" and li: "load_index fl base fs = PyDict (index_dict fl base fs)" and iok: "index_ok (index_dict fl base fs)"
    using wf by (simp_all add: file_repo_wf_def)
  have cid: "plain_id ?id" using c by (simp add: storable_def)
  define fs1 where "fs1 = after_write (temporary_file base ?id) (checkpoint_file base ?id) (json_dumps fr (checkpoint_to_dict c)) fs"
  define fs2 where "fs2 = after_write (index_temporary_path base) (index_path base) (json_dumps fr (new_index fl base c fs)) fs1"
  have ops: "checkpoint_ops fr base c = write_ops (temporary_file base ?id) (checkpoint_file base ?id) (json_dumps fr (checkpoint_to_dict c))"
    by (simp add: checkpoint_ops_def checkpoint_path_plain [OF cid] temporary_path_plain Let_def)
  have run1: "run_ops (checkpoint_ops fr base c) fs = (Inr (), fs1)"
    unfolding ops fs1_def after_write_def using ok cid by (intro run_write_ops) auto
  have ok1: "files_ok base fs1" using ok by (simp add: files_ok_def fs1_def)
  have run2: "run_ops (index_ops fr base (new_index fl base c fs)) fs1 = (Inr (), fs2)"
    unfolding index_ops_def fs2_def after_write_def using ok1 by (intro run_write_ops) auto
  have s1: "at_stage fr fl base c File_Written fs fs1" by (simp add: at_stage_def fs1_def)
  have s2: "at_stage fr fl base c Indexed fs fs2" by (simp add: at_stage_def fs1_def fs2_def)
  have "load_index fl base fs1 = PyDict (index_dict fl base fs)" using load_index_cong [OF ok ok1] li by (simp add: fs1_def)
  then have upd: "update_index (ck_execution_id c) ?id (load_index fl base fs1) = Inr (new_index fl base c fs)"
    using update_index_ok [OF iok] by (simp add: new_index_def)
  have "file_save fr fl base c fs = (Inr c, fs2)" by (simp add: file_save_def run1 upd run2)
  with that run1 s1 upd run2 s2 show thesis by blast
qed

section \<open>The contract of a checkpoint store\<close>

text \<open>
  What both repositories promise, for the checkpoints each of them accepts: a save succeeds, and a
  lookup afterwards finds what was saved last under the identifier. \<open>kept\<close> is the form in which a
  checkpoint comes back.
\<close>

locale checkpoint_store =
  fixes save :: "Checkpoint \<Rightarrow> (Checkpoint, 'r) call"
    and get :: "'r \<Rightarrow> string \<Rightarrow> Checkpoint option"
    and invar :: "'r \<Rightarrow> bool"
    and accepts :: "Checkpoint \<Rightarrow> bool"
    and addressable :: "string \<Rightarrow> bool"
    and kept :: "Checkpoint \<Rightarrow> Checkpoint"
  assumes save_succeeds: "invar r \<Longrightarrow> accepts c \<Longrightarrow> fst (save c r) = Inr c"
    and get_after: "invar r \<Longrightarrow> accepts c \<Longrightarrow> addressable k \<Longrightarrow>
        get (snd (save c r)) k = (if k = ck_checkpoint_id c then Some (kept c) else get r k)"
    and invar_after: "invar r \<Longrightarrow> accepts c \<Longrightarrow> invar (snd (save c r))"
begin

lemma all_saved_invar: "invar r \<Longrightarrow> list_all accepts cs \<Longrightarrow> invar (fold (\<lambda>c. snd \<circ> save c) cs r)"
  by (induction cs arbitrary: r) (auto intro: invar_after)

lemma all_saved_get:
  "invar r \<Longrightarrow> list_all accepts cs \<Longrightarrow> addressable k \<Longrightarrow>
     get (fold (\<lambda>c. snd \<circ> save c) cs r) k =
       (case find (\<lambda>c. ck_checkpoint_id c = k) (rev cs) of None \<Rightarrow> get r k | Some c \<Rightarrow> Some (kept c))"
proof (induction cs arbitrary: r)
  case (Cons c cs)
  have "find P (xs @ [x]) = (case find P xs of None \<Rightarrow> if P x then Some x else None | Some y \<Rightarrow> Some y)"
    for P and xs :: "Checkpoint list" and x by (induction xs) auto
  then show ?case using Cons invar_after [of r c] get_after [of r c k] by (auto split: option.splits)
qed simp

end

text \<open>The in-memory repository keeps the contract for every checkpoint; the files for the storable ones.\<close>

sublocale checkpoint_repository < stored: checkpoint_store save get invar "\<lambda>_. True" "\<lambda>_. True" "\<lambda>c. c"
  by unfold_locales (simp_all add: save_returns get_saved save_invar)

lemma file_save_stage:
  assumes "file_repo_wf fl base fs" "storable c"
  shows "fst (file_save fr fl base c fs) = Inr c" "at_stage fr fl base c Indexed fs (snd (file_save fr fl base c fs))"
proof -
  obtain fs1 fs2 where "at_stage fr fl base c Indexed fs fs2" "file_save fr fl base c fs = (Inr c, fs2)"
    by (rule file_save_steps [OF assms])
  then show "fst (file_save fr fl base c fs) = Inr c" "at_stage fr fl base c Indexed fs (snd (file_save fr fl base c fs))" by simp_all
qed

interpretation file_checkpoints:
  checkpoint_store "file_save fr fl base" "stored_at fl base" "file_repo_wf fl base" storable plain_id as_stored
  for fr fl base
proof unfold_locales
  fix fs c k assume wf: "file_repo_wf fl base fs" and c: "storable c"
  note stage = file_save_stage [OF wf c, of fr]
  show "fst (file_save fr fl base c fs) = Inr c" by (rule stage(1))
  show "file_repo_wf fl base (snd (file_save fr fl base c fs))" by (rule at_stage_wf [OF wf c stage(2)])
  assume "plain_id k"
  from at_stage_get [OF file_repo_wfD(1) [OF wf] c stage(2) this]
  show "stored_at fl base (snd (file_save fr fl base c fs)) k = (if k = ck_checkpoint_id c then Some (as_stored c) else stored_at fl base fs k)"
    by (simp add: stored_at_def)
qed

section \<open>A fresh directory\<close>

lemma file_repo_wf_init:
  assumes "''..'' \<notin> set base" "CHR 0x00 \<notin> set (concat base)"
    and "FileSystemCheckpointRepository_init base \<lparr>fs_dirs = [], fs_files = []\<rparr> = (r, fs)"
  shows "r = Inr ()" "file_repo_wf fl base fs"
proof -
  let ?p = "base @ [''checkpoints'']"
  define D where "D = map (\<lambda>n. take n ?p) [1..<length ?p + 1]"
  have "FileSystemCheckpointRepository_init base \<lparr>fs_dirs = [], fs_files = []\<rparr> =
      (Inr (), \<lparr>fs_dirs = D, fs_files = []\<rparr>)"
    unfolding FileSystemCheckpointRepository_init_def by (rule mkdirs_empty [OF _ D_def]) (use assms(1) in simp)
  with assms(3) have r: "r = Inr ()" and D: "fs_dirs fs = D" and files: "fs_files fs = []" by auto
  have len_p: "length ?p + 1 = length base + 2" by simp
  note dirs = D [unfolded D_def len_p]
  show "r = Inr ()" by (rule r)
  have dir_iff: "d \<in> set (fs_dirs fs) \<longleftrightarrow> (\<exists>n. 0 < n \<and> n < length base + 2 \<and> d = take n ?p)" for d
    unfolding dirs by (simp only: set_map set_upt image_iff Bex_def atLeastLessThan_iff Suc_le_eq One_nat_def) blast
  have len: "d \<in> set (fs_dirs fs) \<Longrightarrow> length d \<le> length base + 1" for d by (auto simp: dir_iff)
  have pre: "\<forall>n. 0 < n \<longrightarrow> n \<le> length ?p \<longrightarrow> take n ?p \<in> set (fs_dirs fs)"
    unfolding dir_iff by (metis One_nat_def add.commute add_Suc_right length_append_singleton less_Suc_eq_le one_add_one plus_1_eq_Suc)
  have w1: "walk (fs_dirs fs) [] ?p = Some ?p" using walk_prefixes [of ?p "[]"] pre assms(1) by simp
  have "\<forall>n. 0 < n \<longrightarrow> n \<le> length base \<longrightarrow> take n base \<in> set (fs_dirs fs)"
  proof (intro allI impI)
    fix n assume n: "0 < n" "n \<le> length base"
    then have "take n base = take n ?p" by simp
    then show "take n base \<in> set (fs_dirs fs)" unfolding dir_iff using n by (intro exI [of _ n]) auto
  qed
  then have w2: "walk (fs_dirs fs) [] base = Some base" using walk_prefixes [of base "[]"] assms(1) by simp
  have idx: "base @ [n] \<in> set (fs_dirs fs) \<Longrightarrow> n = ''checkpoints''" for n
  proof -
    assume "base @ [n] \<in> set (fs_dirs fs)"
    then obtain m where m: "base @ [n] = take m ?p" "m < length base + 2" unfolding dir_iff by blast
    have "length (base @ [n]) = min (length ?p) m" unfolding m(1) by (rule length_take)
    then have "m = length base + 1" using m(2) by simp
    then show "n = ''checkpoints''" using m(1) by simp
  qed
  have "\<forall>n. base @ [''checkpoints'', n] \<notin> set (fs_dirs fs)" using len by fastforce
  moreover have "index_path base \<notin> set (fs_dirs fs)" "index_temporary_path base \<notin> set (fs_dirs fs)"
    using idx [of "''index.json''"] idx [of "''index.tmp''"] by (auto simp: index_path_def index_temporary_path_def)
  ultimately have ok: "files_ok base fs" using assms(2) w1 w2 by (simp only: files_ok_def simp_thms)
  have "load_index fl base fs = PyDict []" using own_file_read [OF ok] by (simp add: load_index_def files)
  then show "file_repo_wf fl base fs" using ok by (simp add: file_repo_wf_def index_dict_def index_ok_def ids_at_def dict_get_or_def as_list_def)
qed

section \<open>Properties\<close>

definition sample_checkpoint :: "string \<Rightarrow> string \<Rightarrow> Checkpoint" where
  "sample_checkpoint cid eid =
     \<lparr>ck_checkpoint_id = cid, ck_execution_id = eid, ck_version = 1, ck_trigger_reason = STEP_COMPLETE,
      ck_checkpoint_hash = ''h'', ck_schema_version = ''1.0'', ck_parent_checkpoint_id = None,
      ck_agent_state_ref = Some ''{}'', ck_memory_refs = [], ck_tool_history = [], ck_created_at = Some 0\<rparr>"

definition sample_fs :: fs where
  "sample_fs = snd (FileSystemCheckpointRepository_init [''b''] \<lparr>fs_dirs = [], fs_files = []\<rparr>)"

lemma sample_fs_wf: "file_repo_wf fl [''b''] sample_fs"
  by (rule file_repo_wf_init(2) [of "[''b'']" "fst (FileSystemCheckpointRepository_init [''b''] \<lparr>fs_dirs = [], fs_files = []\<rparr>)"])
    (simp_all add: sample_fs_def)

lemma sample_storable: "plain_id cid \<Longrightarrow> storable (sample_checkpoint cid eid)"
proof -
  have "datetime_value 0" by code_simp
  then show "plain_id cid \<Longrightarrow> storable (sample_checkpoint cid eid)" by (simp add: storable_def sample_checkpoint_def)
qed

text \<open>
  Property C37. Checkpoints on disk come back: after saving any checkpoints with plain identifiers,
  float-free tool histories and representable time stamps, the file of an identifier reads back as
  the checkpoint saved last under it (tool histories with sorted keys), an identifier that was not
  saved reads as before, and the repository's files stay well-formed.
\<close>

theorem files_round_trip:
  assumes "file_repo_wf fl base fs" "list_all storable cs" "plain_id k"
  shows "file_repo_wf fl base (fold (\<lambda>c. snd \<circ> file_save fr fl base c) cs fs) \<and>
     stored_at fl base (fold (\<lambda>c. snd \<circ> file_save fr fl base c) cs fs) k =
       (case find (\<lambda>c. ck_checkpoint_id c = k) (rev cs) of None \<Rightarrow> stored_at fl base fs k | Some c \<Rightarrow> Some (as_stored c))"
  using file_checkpoints.all_saved_invar [OF assms(1,2)] file_checkpoints.all_saved_get [OF assms] by blast

theorem files_round_trip_witness:
  "stored_at (\<lambda>_. 0) [''b''] (snd (file_save (\<lambda>_. ''0.0'') (\<lambda>_. 0) [''b''] (sample_checkpoint ''cp-1'' ''e1'') sample_fs)) ''cp-1'' =
     Some (sample_checkpoint ''cp-1'' ''e1'')"
proof -
  have id: "plain_id ''cp-1''" by (simp add: plain_id_def)
  then have "list_all storable [sample_checkpoint ''cp-1'' ''e1'']" by (simp add: sample_storable)
  from files_round_trip [OF sample_fs_wf this id, of "\<lambda>_. 0" "\<lambda>_. ''0.0''"] show ?thesis
    by (simp add: sample_checkpoint_def as_stored_def)
qed

text \<open>What a crash during \<^verbatim>\<open>save\<close> leaves: it hits the write of the checkpoint's file or that of the index.\<close>

inductive save_crash :: "(rat \<Rightarrow> string) \<Rightarrow> (string \<Rightarrow> rat) \<Rightarrow> path \<Rightarrow> Checkpoint \<Rightarrow> fs \<Rightarrow> fs \<Rightarrow> bool" where
  in_checkpoint: "crash (checkpoint_ops fr base c) fs fs' \<Longrightarrow> save_crash fr fl base c fs fs'"
| in_index: "run_ops (checkpoint_ops fr base c) fs = (Inr (), fs1) \<Longrightarrow>
    update_index (ck_execution_id c) (ck_checkpoint_id c) (load_index fl base fs1) = Inr index \<Longrightarrow>
    crash (index_ops fr base index) fs1 fs' \<Longrightarrow> save_crash fr fl base c fs fs'"

lemma crash_stage:
  assumes wf: "file_repo_wf fl base fs" and c: "storable c" and cr: "save_crash fr fl base c fs fs'"
  shows "\<exists>st. at_stage fr fl base c st fs fs'"
  using cr
proof cases
  case in_checkpoint
  let ?id = "ck_checkpoint_id c"
  have cid: "plain_id ?id" using c by (simp add: storable_def)
  have "checkpoint_ops fr base c = write_ops (temporary_file base ?id) (checkpoint_file base ?id) (json_dumps fr (checkpoint_to_dict c))"
    by (simp add: checkpoint_ops_def checkpoint_path_plain [OF cid] temporary_path_plain Let_def)
  with in_checkpoint have "crash (write_ops (temporary_file base ?id) (checkpoint_file base ?id) (json_dumps fr (checkpoint_to_dict c))) fs fs'"
    by simp
  note cw = crash_write_ops [OF this file_repo_wfD(1) [OF wf]]
  have "at_stage fr fl base c Untouched fs fs' \<or> at_stage fr fl base c File_Written fs fs'"
    using cw cid by (auto simp: at_stage_def)
  then show ?thesis by blast
next
  case (in_index fs1 index)
  obtain fs2 where run: "run_ops (checkpoint_ops fr base c) fs = (Inr (), fs2)" "at_stage fr fl base c File_Written fs fs2"
      "update_index (ck_execution_id c) (ck_checkpoint_id c) (load_index fl base fs2) = Inr (new_index fl base c fs)"
    by (rule file_save_steps [OF wf c])
  then have eq: "fs1 = fs2" "index = new_index fl base c fs" using in_index by auto
  with in_index have "crash (write_ops (index_temporary_path base) (index_path base) (json_dumps fr (new_index fl base c fs))) fs2 fs'"
    by (simp add: index_ops_def)
  note cw = crash_write_ops [OF this at_stage_files_ok [OF run(2) file_repo_wfD(1) [OF wf]]]
  have "at_stage fr fl base c File_Written fs fs' \<or> at_stage fr fl base c Indexed fs fs'"
    using cw run(2) by (auto simp: at_stage_def)
  then show ?thesis by blast
qed

text \<open>
  Property C11. A crash cannot damage the repository: whenever the process stops during a save, even in
  the middle of writing a file, the files it leaves are well-formed, every other checkpoint reads as
  before, the checkpoint being saved reads as before or as the new one, and the index lists what it
  listed before or, when the new checkpoint is readable, that and the new identifier. It is assumed that the
  repository is well-formed and that the checkpoint can be stored: its identifier is without slash and null character,
  its history without floats and its time one that \<^verbatim>\<open>datetime\<close> represents. An identifier that is a path can
  replace the index (lemma path_in_identifier_wipes_index).
\<close>

theorem save_survives_crash:
  assumes "file_repo_wf fl base fs" "storable c" "save_crash fr fl base c fs fs'"
  shows "file_repo_wf fl base fs' \<and>
     (\<forall>k. plain_id k \<and> k \<noteq> ck_checkpoint_id c \<longrightarrow> file_get fl base fs' k = file_get fl base fs k) \<and>
     file_get fl base fs' (ck_checkpoint_id c) \<in> {file_get fl base fs (ck_checkpoint_id c), Loaded (Some (as_stored c))} \<and>
     ((\<forall>eid. ids_at (index_dict fl base fs') eid = ids_at (index_dict fl base fs) eid) \<or>
      file_get fl base fs' (ck_checkpoint_id c) = Loaded (Some (as_stored c)) \<and>
      (\<forall>eid. ids_at (index_dict fl base fs') eid =
         (if eid = ck_execution_id c then add_id (ck_checkpoint_id c) (ids_at (index_dict fl base fs) eid)
          else ids_at (index_dict fl base fs) eid)))"
proof -
  obtain st where st: "at_stage fr fl base c st fs fs'" using crash_stage [OF assms] by blast
  have id: "plain_id (ck_checkpoint_id c)" using assms(2) by (simp add: storable_def)
  note get = at_stage_get [OF file_repo_wfD(1) [OF assms(1)] assms(2) st]
  note ix = at_stage_index(3) [OF file_repo_wfD(1-3) [OF assms(1)] st]
  show ?thesis using at_stage_wf [OF assms(1,2) st] get get [OF id] ix by (cases st) auto
qed

theorem save_survives_crash_witness:
  "\<exists>fs'. save_crash (\<lambda>_. ''0.0'') (\<lambda>_. 0) [''b''] (sample_checkpoint ''cp-1'' ''e1'') sample_fs fs' \<and> fs' \<noteq> sample_fs \<and>
     file_repo_wf (\<lambda>_. 0) [''b''] fs'"
proof -
  let ?c = "sample_checkpoint ''cp-1'' ''e1''"
  have id: "plain_id ''cp-1''" by (simp add: plain_id_def)
  have ops: "\<exists>txt rest. checkpoint_ops (\<lambda>_. ''0.0'') [''b''] ?c = Write (temporary_file [''b''] ''cp-1'') txt # rest"
    by (simp add: checkpoint_ops_def write_ops_def Let_def sample_checkpoint_def checkpoint_path_plain [OF id] temporary_path_plain)
  have "open_write sample_fs (temporary_file [''b''] ''cp-1'') = Inr (temporary_file [''b''] ''cp-1'')"
    using own_file_open [OF file_repo_wfD(1) [OF sample_fs_wf]] id by simp
  with ops have cr: "save_crash (\<lambda>_. ''0.0'') (\<lambda>_. 0) [''b''] ?c sample_fs (write_text (temporary_file [''b''] ''cp-1'') [] sample_fs)"
    by (auto intro!: in_checkpoint torn)
  have "fs_files sample_fs = []" by code_simp
  then have "write_text (temporary_file [''b''] ''cp-1'') [] sample_fs \<noteq> sample_fs"
    by (auto simp: write_text_def dict_set_def dest: arg_cong [where f = fs_files])
  with cr save_survives_crash [OF sample_fs_wf sample_storable [OF id] cr] show ?thesis by blast
qed

section \<open>The same repository twice\<close>

text \<open>The files and the in-memory dictionaries say the same.\<close>

definition same_store :: "(string \<Rightarrow> rat) \<Rightarrow> path \<Rightarrow> InMemoryCheckpointRepository \<Rightarrow> fs \<Rightarrow> bool" where
  "same_store fl base r fs \<longleftrightarrow> checkpoint_repo_wf r \<and> file_repo_wf fl base fs \<and>
     (\<forall>k. plain_id k \<longrightarrow> file_get fl base fs k = Loaded (map_option as_stored (repo_get r k))) \<and>
     (\<forall>eid. set (ids_at (index_dict fl base fs) eid) = repo_ids r eid)"

lemma same_store_save:
  assumes same: "same_store fl base r fs" and c: "storable c"
  shows "same_store fl base (snd (repo_save c r)) (snd (file_save fr fl base c fs))"
proof -
  have wf: "file_repo_wf fl base fs" "checkpoint_repo_wf r" using same by (simp_all add: same_store_def)
  note st = file_save_stage(2) [OF wf(1) c, of fr]
  have "file_repo_wf fl base (snd (file_save fr fl base c fs))" by (rule at_stage_wf [OF wf(1) c st])
  then show ?thesis
    using same at_stage_get [OF file_repo_wfD(1) [OF wf(1)] c st] at_stage_index(3) [OF file_repo_wfD(1-3) [OF wf(1)] st]
      checkpoint_repo_wf_save [OF wf(2), of c]
    by (auto simp: same_store_def add_id_def)
qed

lemma same_store_saves:
  "same_store fl base r fs \<Longrightarrow> list_all storable cs \<Longrightarrow>
     same_store fl base (fold (\<lambda>c. snd \<circ> repo_save c) cs r) (fold (\<lambda>c. snd \<circ> file_save fr fl base c) cs fs)"
  by (induction cs arbitrary: r fs) (auto intro: same_store_save)

lemma same_store_init:
  assumes "''..'' \<notin> set base" "CHR 0x00 \<notin> set (concat base)"
  shows "same_store fl base InMemoryCheckpointRepository_init (snd (FileSystemCheckpointRepository_init base \<lparr>fs_dirs = [], fs_files = []\<rparr>))"
proof -
  obtain r fs where init: "FileSystemCheckpointRepository_init base \<lparr>fs_dirs = [], fs_files = []\<rparr> = (r, fs)" by fastforce
  note wf = file_repo_wf_init(2) [OF assms init]
  have files: "fs_files fs = []" using init by (auto simp: FileSystemCheckpointRepository_init_def mkdirs_def Let_def split: option.splits)
  note ok = file_repo_wfD(1) [OF wf]
  have "file_get fl base fs k = Loaded None" if "plain_id k" for k
    using own_file_read [OF ok] that by (simp add: file_get_def checkpoint_path_plain files)
  moreover have "index_dict fl base fs = []" using own_file_read [OF ok] by (simp add: index_dict_def load_index_def files)
  ultimately show ?thesis
    using wf checkpoint_repo_wf_init init
    by (simp add: same_store_def repo_get_def repo_ids_def InMemoryCheckpointRepository_init_def dict_get_or_def ids_at_def as_list_def)
qed

lemma get_each_found:
  "\<forall>k \<in> set ids. file_get fl base fs k = Loaded (Some (g k)) \<Longrightarrow> get_each fl base fs ids = Loaded (map g ids)"
  by (induction ids) auto

lemma sort_key_as_stored:
  "sort_key (\<lambda>c. (ck_version c, ck_checkpoint_id c)) (map as_stored cs) =
     map as_stored (sort_key (\<lambda>c. (ck_version c, ck_checkpoint_id c)) cs)"
proof -
  have "insort_key (\<lambda>c. (ck_version c, ck_checkpoint_id c)) (as_stored c) (map as_stored xs) =
      map as_stored (insort_key (\<lambda>c. (ck_version c, ck_checkpoint_id c)) c xs)" for c xs
    by (induction xs) auto
  then show ?thesis by (induction cs) simp_all
qed

lemma same_store_listing:
  assumes same: "same_store fl base r fs" and order: "iteration_order order"
  shows "\<exists>cs. list_by_execution order r eid = Inr cs \<and> file_list_by_execution fl base fs eid = Loaded (map as_stored cs)"
proof -
  let ?key = "\<lambda>c. (ck_version c, ck_checkpoint_id c)" and ?ids = "ids_at (index_dict fl base fs) eid"
  let ?get = "\<lambda>k. the (dict_get (mc_store r) k)"
  have wf: "checkpoint_repo_wf r" "file_repo_wf fl base fs" and ids: "set ?ids = repo_ids r eid"
    using same by (simp_all add: same_store_def)
  note fwf = file_repo_wfD [OF wf(2)]
  have o: "set (order (repo_ids r eid)) = repo_ids r eid" "distinct (order (repo_ids r eid))"
    using wf(1) order by (simp_all add: checkpoint_repo_wf_def iteration_order_def)
  have has: "\<exists>c. dict_get (mc_store r) k = Some c \<and> ck_checkpoint_id c = k" if "k \<in> repo_ids r eid" for k
    using wf(1) that unfolding checkpoint_repo_wf_def dict_has_def by blast
  have mem: "fetch_all r (order (repo_ids r eid)) = Inr (map ?get (order (repo_ids r eid)))"
    using has o(1) by (intro fetch_all_ok) (auto simp: dict_has_def)
  have "file_get fl base fs k = Loaded (Some (as_stored (?get k)))" if "k \<in> set ?ids" for k
    using fwf(5) [OF that] same has [of k] that ids by (auto simp: same_store_def repo_get_def)
  then have fetched: "get_each fl base fs ?ids = Loaded (map as_stored (map ?get ?ids))"
    using get_each_found [of ?ids fl base fs "\<lambda>k. as_stored (?get k)"] by simp
  have "mset ?ids = mset (order (repo_ids r eid))" using o ids fwf(4) by (metis set_eq_iff_mset_eq_distinct)
  then have perm: "mset (map ?get ?ids) = mset (map ?get (order (repo_ids r eid)))" by simp
  have inj: "inj_on ?key (set (map ?get ?ids))"
  proof (rule inj_onI)
    fix a b assume a: "a \<in> set (map ?get ?ids)" and b: "b \<in> set (map ?get ?ids)" and ab: "?key a = ?key b"
    have own: "ck_checkpoint_id (?get k) = k" if "k \<in> set ?ids" for k using has [of k] that ids by auto
    obtain i j where "a = ?get i" "i \<in> set ?ids" "b = ?get j" "j \<in> set ?ids" using a b by auto
    then show "a = b" using own [of i] own [of j] ab by simp
  qed
  have "sort_key ?key (map ?get ?ids) = sort_key ?key (map ?get (order (repo_ids r eid)))"
    by (rule sort_key_inj_key_eq [OF _ inj sorted_sort_key]) (simp only: perm mset_sort)
  then show ?thesis
    using mem fetched fwf(2) index_ok_at [OF fwf(3), of eid] sort_key_as_stored
    by (simp add: list_by_execution_def file_list_by_execution_def del: map_map)
qed

text \<open>
  Property C33. The two repositories are interchangeable: when the same storable checkpoints are saved
  in a fresh directory and in an empty in-memory repository, listing any execution's checkpoints gives
  the same checkpoints in the same order, whatever order the in-memory sets are iterated in.
\<close>

theorem files_refine_memory:
  assumes "''..'' \<notin> set base" "CHR 0x00 \<notin> set (concat base)" "list_all storable cs" "iteration_order order"
  shows "\<exists>listing. list_by_execution order (fold (\<lambda>c. snd \<circ> repo_save c) cs InMemoryCheckpointRepository_init) eid = Inr listing \<and>
     file_list_by_execution fl base (fold (\<lambda>c. snd \<circ> file_save fr fl base c) cs
       (snd (FileSystemCheckpointRepository_init base \<lparr>fs_dirs = [], fs_files = []\<rparr>))) eid = Loaded (map as_stored listing)"
  by (rule same_store_listing [OF same_store_saves [OF same_store_init [OF assms(1,2)] assms(3)] assms(4)])

theorem files_refine_memory_witness:
  "\<exists>listing. list_by_execution sample_order (snd (repo_save (sample_checkpoint ''cp-1'' ''e1'') InMemoryCheckpointRepository_init)) ''e1'' = Inr listing \<and>
     file_list_by_execution (\<lambda>_. 0) [''b''] (snd (file_save (\<lambda>_. ''0.0'') (\<lambda>_. 0) [''b''] (sample_checkpoint ''cp-1'' ''e1'') sample_fs)) ''e1'' =
       Loaded (map as_stored listing)"
proof -
  have "list_all storable [sample_checkpoint ''cp-1'' ''e1'']" by (simp add: sample_storable plain_id_def)
  from files_refine_memory [OF _ _ this sample_order_ok, of "[''b'']" "''e1''" "\<lambda>_. 0" "\<lambda>_. ''0.0''"] show ?thesis
    by (simp add: sample_fs_def)
qed

text \<open>
  The identifier is not checked: saving a checkpoint named \<^verbatim>\<open>../index\<close> writes it over the index
  file, after which the checkpoints of every other execution are no longer listed.
\<close>

lemma path_in_identifier_wipes_index:
  "let save = (\<lambda>c. snd \<circ> file_save (\<lambda>_. ''0.0'') (\<lambda>_. 0) [''b''] c);
       fs1 = save (sample_checkpoint ''c'' ''e'') sample_fs;
       fs2 = save (sample_checkpoint ''../index'' ''f'') fs1
   in index_dict (\<lambda>_. 0) [''b''] fs1 = [(''e'', PyList [PyStr ''c''])] \<and> dict_get (index_dict (\<lambda>_. 0) [''b''] fs2) ''e'' = None"
  by code_simp

end
