(* ===== verification/Plugin.thy ===== *)
theory Plugin
  imports Files Tenant
begin

text \<open>
  \<^verbatim>\<open>core/domain/plugin.py\<close>, \<^verbatim>\<open>core/domain/capability.py\<close> and \<^verbatim>\<open>agents/loader/\<close>: plugin manifests, their
  validation from raw YAML data, discovery, installation and removal on the file system, and the
  bridge that registers a plugin. The YAML reader, the text of floats and the three protocols the
  bridge calls are arguments. The tuple of permissions of a capability is a \<open>PyList\<close>.
\<close>

section \<open>Manifests\<close>

datatype PluginType = AGENT | TOOL | MODEL | FRAMEWORK

primrec PluginType_value :: "PluginType \<Rightarrow> string" where
  "PluginType_value AGENT = ''agent''"
| "PluginType_value TOOL = ''tool''"
| "PluginType_value MODEL = ''model''"
| "PluginType_value FRAMEWORK = ''framework''"

record PluginManifest =
  pm_name :: string
  pm_version :: string
  pm_plugin_type :: PluginType
  pm_runtime_type :: string
  pm_description :: pyval
  pm_author :: string
  pm_entrypoint :: pyobj
  pm_capabilities :: "pyobj list"
  pm_permissions :: "pyval list"
  pm_dependencies :: "pyval list"
  pm_min_kernel_version :: pyval
  pm_config_schema :: pyval
  pm_provider :: pyval

definition PluginManifest_validate :: "PluginManifest \<Rightarrow> string list" where
  "PluginManifest_validate m =
     require (pm_name m \<noteq> []) ''name is required'' @
     require (pm_version m \<noteq> []) ''version is required'' @
     require (dict_has (pm_entrypoint m) ''module'') ''entrypoint.module is required'' @
     require (dict_has (pm_entrypoint m) ''class'') ''entrypoint.class is required'' @
     require (pm_runtime_type m \<noteq> []) ''runtime_type is required''"

definition PluginManifest_is_valid :: "PluginManifest \<Rightarrow> bool" where
  "PluginManifest_is_valid m = (length (PluginManifest_validate m) = 0)"

text \<open>The dictionary of the capability dataclass, \<^verbatim>\<open>c.__dict__\<close>.\<close>

definition plugin_capability :: "pyval \<Rightarrow> pyval \<Rightarrow> pyval \<Rightarrow> pyval list \<Rightarrow> pyobj" where
  "plugin_capability nm risk_level description permissions =
     [(''name'', nm), (''risk_level'', risk_level), (''description'', description), (''permissions'', PyList permissions)]"

section \<open>Validation\<close>

text \<open>What validation and loading raise; \<open>Uncaught\<close> is a \<^verbatim>\<open>TypeError\<close> or \<^verbatim>\<open>AttributeError\<close>.\<close>

datatype load_error = ValidationError "string list" | YAMLError string | FileError string | Uncaught string

primrec load_error_str :: "load_error \<Rightarrow> string" where
  "load_error_str (ValidationError errors) = str_join ''; '' errors"
| "load_error_str (YAMLError msg) = msg"
| "load_error_str (FileError msg) = msg"
| "load_error_str (Uncaught msg) = msg"

definition is_space :: "char \<Rightarrow> bool" where
  "is_space c \<longleftrightarrow> (of_char c :: nat) \<in> {9, 10, 11, 12, 13, 28, 29, 30, 31, 32, 133, 160}"

definition str_strip :: "string \<Rightarrow> string" where
  "str_strip s = rev (dropWhile is_space (rev (dropWhile is_space s)))"

definition truthy :: "pyval \<Rightarrow> bool" where
  "truthy v \<longleftrightarrow> v \<notin> {PyNone, PyBool False, PyInt 0, PyFloat 0, PyStr [], PyList [], PyDict []}"

text \<open>The value of a required text field and the errors it adds.\<close>

definition require_str :: "pyobj \<Rightarrow> string \<Rightarrow> string \<times> string list" where
  "require_str raw key =
     (case dict_get_or raw key PyNone of
        PyStr s \<Rightarrow> if str_strip s = [] then ([], [key @ '' is required'']) else (str_strip s, [])
      | _ \<Rightarrow> ([], [key @ '' is required'']))"

definition PluginType_of :: "pyval \<Rightarrow> PluginType option" where
  "PluginType_of v = find (\<lambda>t. v = PyStr (PluginType_value t)) [AGENT, TOOL, MODEL, FRAMEWORK]"

definition RISK_LEVELS :: "string list" where
  "RISK_LEVELS = [''low'', ''medium'', ''high'', ''critical'']"

definition indexed :: "nat \<Rightarrow> string" where
  "indexed i = ''capabilities['' @ nat_str i @ '']''"

text \<open>The loop over the capabilities, from index \<open>i\<close> on: the errors and the capabilities kept.\<close>

fun check_capabilities :: "nat \<Rightarrow> pyval list \<Rightarrow> string list \<times> pyobj list" where
  "check_capabilities i [] = ([], [])"
| "check_capabilities i (v # vs) =
     (let (errors, caps) = check_capabilities (Suc i) vs in
      case v of
        PyDict cap \<Rightarrow>
          let risk = dict_get_or cap ''risk_level'' (PyStr ''low'');
              perm_list = (case dict_get_or cap ''permissions'' (PyList []) of PyList ps \<Rightarrow> ps | _ \<Rightarrow> [])
          in (require (truthy (dict_get_or cap ''name'' (PyStr []))) (indexed i @ ''.name is required'') @
              require (risk \<in> set (map PyStr RISK_LEVELS))
                (indexed i @ ''.risk_level must be one of low, medium, high, critical'') @ errors,
              plugin_capability (dict_get_or cap ''name'' (PyStr [])) risk (dict_get_or cap ''description'' (PyStr [])) perm_list # caps)
      | _ \<Rightarrow> ((indexed i @ '' must be a dict'') # errors, caps))"

text \<open>\<^verbatim>\<open>enumerate(x)\<close> goes over the characters of a text and the keys of a dictionary, and raises on other values.\<close>

definition iterate :: "pyval \<Rightarrow> load_error + pyval list" where
  "iterate v =
     (case v of
        PyList vs \<Rightarrow> Inr vs
      | PyStr s \<Rightarrow> Inr (map (\<lambda>c. PyStr [c]) s)
      | PyDict d \<Rightarrow> Inr (map PyStr (dict_keys d))
      | PyNone \<Rightarrow> Inl (Uncaught ''NoneType object is not iterable'')
      | PyBool _ \<Rightarrow> Inl (Uncaught ''bool object is not iterable'')
      | PyInt _ \<Rightarrow> Inl (Uncaught ''int object is not iterable'')
      | PyFloat _ \<Rightarrow> Inl (Uncaught ''float object is not iterable''))"

definition entrypoint_errors :: "pyval \<Rightarrow> string list" where
  "entrypoint_errors v =
     (case v of
        PyDict e \<Rightarrow> require (dict_has e ''module'') ''entrypoint.module is required'' @
                    require (dict_has e ''class'') ''entrypoint.class is required''
      | _ \<Rightarrow> [''entrypoint must be a dict with '' @ sq ''module'' @ '' and '' @ sq ''class'' @ '' keys''])"

definition list_or :: "string \<Rightarrow> pyval \<Rightarrow> string list \<times> pyval list" where
  "list_or key v = (case v of PyList vs \<Rightarrow> ([], vs) | _ \<Rightarrow> ([key @ '' must be a list''], []))"

definition validate_manifest :: "(rat \<Rightarrow> string) \<Rightarrow> pyobj \<Rightarrow> load_error + PluginManifest" where
  "validate_manifest float_repr raw =
     (let (name, e_name) = require_str raw ''name'';
          (version, e_version) = require_str raw ''version'';
          plugin_type_raw = dict_get_or raw ''plugin_type'' (PyStr []);
          (plugin_type, e_type) =
            (case PluginType_of plugin_type_raw of
               Some t \<Rightarrow> (t, [])
             | None \<Rightarrow> (TOOL, [''invalid plugin_type '' @ sq (py_str float_repr plugin_type_raw) @ ''; expected one of '' @
                              list_repr (map PluginType_value [AGENT, TOOL, MODEL, FRAMEWORK])]));
          (runtime_type, e_runtime) = require_str raw ''runtime_type'';
          description = dict_get_or raw ''description'' (PyStr []);
          (author, e_author) = require_str raw ''author'';
          entrypoint = dict_get_or raw ''entrypoint'' PyNone;
          e_entry = entrypoint_errors entrypoint
      in case iterate (dict_get_or raw ''capabilities'' (PyList [])) of
           Inl e \<Rightarrow> Inl e
         | Inr capabilities_raw \<Rightarrow>
             let (e_caps, capabilities) = check_capabilities 0 capabilities_raw;
                 (e_perm, permissions) = list_or ''permissions'' (dict_get_or raw ''permissions'' (PyList []));
                 (e_deps, dependencies) = list_or ''dependencies'' (dict_get_or raw ''dependencies'' (PyList []));
                 errors = e_name @ e_version @ e_type @ e_runtime @ e_author @ e_entry @ e_caps @ e_perm @ e_deps
             in if errors \<noteq> [] then Inl (ValidationError errors)
                else Inr \<lparr>pm_name = name, pm_version = version, pm_plugin_type = plugin_type, pm_runtime_type = runtime_type,
                          pm_description = description, pm_author = author,
                          pm_entrypoint = (case entrypoint of PyDict e \<Rightarrow> e | _ \<Rightarrow> []),
                          pm_capabilities = capabilities, pm_permissions = permissions, pm_dependencies = dependencies,
                          pm_min_kernel_version = dict_get_or raw ''min_kernel_version'' (PyStr ''1.0.0''),
                          pm_config_schema = dict_get_or raw ''config_schema'' PyNone,
                          pm_provider = dict_get_or raw ''provider'' PyNone\<rparr>)"

section \<open>Discovery\<close>

definition PLUGIN_DIRS :: "string list" where
  "PLUGIN_DIRS = [''tools'', ''frameworks'', ''models'']"

definition load_manifest ::
  "(string \<Rightarrow> load_error + pyval) \<Rightarrow> (rat \<Rightarrow> string) \<Rightarrow> fs \<Rightarrow> path \<Rightarrow> load_error + PluginManifest" where
  "load_manifest safe_load float_repr fs p =
     (case read_file fs p of
        None \<Rightarrow> Inl (FileError (''No such file: '' @ path_text p))
      | Some txt \<Rightarrow>
          (case safe_load txt of
             Inl e \<Rightarrow> Inl e
           | Inr (PyDict raw) \<Rightarrow> validate_manifest float_repr raw
           | Inr _ \<Rightarrow> Inl (ValidationError [''manifest must be a YAML mapping''])))"

text \<open>
  The plugins found so far and the failures to be logged; an exception outside the three classes
  the loop catches ends the whole discovery.
\<close>

fun discover_in ::
  "(string \<Rightarrow> load_error + pyval) \<Rightarrow> (rat \<Rightarrow> string) \<Rightarrow> fs \<Rightarrow> path list \<Rightarrow>
     PluginManifest list \<times> (path \<times> string) list \<Rightarrow> load_error + PluginManifest list \<times> (path \<times> string) list" where
  "discover_in safe_load fr fs [] acc = Inr acc"
| "discover_in safe_load fr fs (p # ps) (plugins, errors) =
     (if \<not> is_dir fs p \<or> \<not> is_file fs (p @ [''manifest.yaml'']) then discover_in safe_load fr fs ps (plugins, errors)
      else case load_manifest safe_load fr fs (p @ [''manifest.yaml'']) of
        Inr m \<Rightarrow> discover_in safe_load fr fs ps (plugins @ [m], errors)
      | Inl (Uncaught msg) \<Rightarrow> Inl (Uncaught msg)
      | Inl e \<Rightarrow> discover_in safe_load fr fs ps (plugins, errors @ [(p @ [''manifest.yaml''], load_error_str e)]))"

definition plugin_paths :: "fs \<Rightarrow> path \<Rightarrow> path list" where
  "plugin_paths fs project =
     concat (map (\<lambda>subdir. let d = project @ [''agents'', subdir] in map (\<lambda>n. d @ [n]) (sorted_entries fs d))
       (filter (\<lambda>subdir. is_dir fs (project @ [''agents'', subdir])) PLUGIN_DIRS))"

definition discover_plugins ::
  "(string \<Rightarrow> load_error + pyval) \<Rightarrow> (rat \<Rightarrow> string) \<Rightarrow> fs \<Rightarrow> path \<Rightarrow> load_error + PluginManifest list \<times> (path \<times> string) list" where
  "discover_plugins safe_load fr fs project = discover_in safe_load fr fs (plugin_paths fs project) ([], [])"

definition discover_plugin ::
  "(string \<Rightarrow> load_error + pyval) \<Rightarrow> (rat \<Rightarrow> string) \<Rightarrow> fs \<Rightarrow> path \<Rightarrow> string \<Rightarrow> load_error + PluginManifest option" where
  "discover_plugin safe_load fr fs project name =
     (case discover_plugins safe_load fr fs project of
        Inl e \<Rightarrow> Inl e
      | Inr (plugins, _) \<Rightarrow> Inr (find (\<lambda>m. pm_name m = name) plugins))"

section \<open>Installation\<close>

definition plugin_dest :: "path \<Rightarrow> PluginManifest \<Rightarrow> path" where
  "plugin_dest project m =
     (let type_dir = PluginType_value (pm_plugin_type m) @ ''s'';
          type_dir = (if type_dir = ''agents'' then ''tools'' else type_dir)
      in join_path (project @ [''agents'', type_dir]) (pm_name m))"

definition file_call :: "(exn + 'a) \<times> fs \<Rightarrow> (load_error + 'a) \<times> fs" where
  "file_call r = (case r of (Inl e, fs) \<Rightarrow> (Inl (FileError (exc_str e)), fs) | (Inr x, fs) \<Rightarrow> (Inr x, fs))"

definition install_from_path ::
  "(string \<Rightarrow> load_error + pyval) \<Rightarrow> (rat \<Rightarrow> string) \<Rightarrow> path \<Rightarrow> path \<Rightarrow> fs \<Rightarrow> (load_error + PluginManifest) \<times> fs" where
  "install_from_path safe_load fr source project fs =
     (case read_file fs (source @ [''manifest.yaml'']) of
        None \<Rightarrow> (Inl (ValidationError [''manifest.yaml not found in '' @ path_text source]), fs)
      | Some txt \<Rightarrow>
          (case safe_load txt of
             Inl e \<Rightarrow> (Inl e, fs)
           | Inr (PyDict raw) \<Rightarrow>
               (case validate_manifest fr raw of
                  Inl e \<Rightarrow> (Inl e, fs)
                | Inr m \<Rightarrow>
                    let dest = plugin_dest project m in
                    (case file_call (mkdirs (butlast dest) fs) of
                       (Inl e, fs1) \<Rightarrow> (Inl e, fs1)
                     | (Inr _, fs1) \<Rightarrow>
                         (case file_call (copytree source dest fs1) of
                            (Inl e, fs2) \<Rightarrow> (Inl e, fs2)
                          | (Inr _, fs2) \<Rightarrow> (Inr m, fs2))))
           | Inr _ \<Rightarrow> (Inl (Uncaught ''object has no attribute get''), fs)))"

definition install_from_registry :: "string \<Rightarrow> string option \<Rightarrow> load_error + PluginManifest" where
  "install_from_registry name version = Inl (Uncaught ''Registry-based install is not yet implemented'')"

definition remove_plugin ::
  "(string \<Rightarrow> load_error + pyval) \<Rightarrow> (rat \<Rightarrow> string) \<Rightarrow> string \<Rightarrow> path \<Rightarrow> fs \<Rightarrow> (load_error + bool) \<times> fs" where
  "remove_plugin safe_load fr name project fs =
     (case discover_plugins safe_load fr fs project of
        Inl e \<Rightarrow> (Inl e, fs)
      | Inr (plugins, _) \<Rightarrow>
          (case find (\<lambda>m. pm_name m = name) plugins of
             None \<Rightarrow> (Inr False, fs)
           | Some target \<Rightarrow>
               let dest = plugin_dest project target in
               if is_dir fs dest then (Inr True, rmtree dest fs) else (Inr False, fs)))"

definition list_installed ::
  "(string \<Rightarrow> load_error + pyval) \<Rightarrow> (rat \<Rightarrow> string) \<Rightarrow> fs \<Rightarrow> path \<Rightarrow> load_error + PluginManifest list" where
  "list_installed safe_load fr fs project = map_sum id fst (discover_plugins safe_load fr fs project)"

section \<open>The registry bridge\<close>

text \<open>The three protocols over their common state.\<close>

record 'w plugin_system =
  add_capabilities :: "string \<Rightarrow> pyobj list \<Rightarrow> (unit, 'w) call"
  remove_capabilities :: "string \<Rightarrow> (unit, 'w) call"
  register_tool :: "string \<Rightarrow> pyobj \<Rightarrow> (unit, 'w) call"
  unregister_tool :: "string \<Rightarrow> (unit, 'w) call"
  evaluate_capabilities :: "(pyobj list \<Rightarrow> pyobj \<Rightarrow> (bool, 'w) call) option"

record RegistrationResult =
  rr_success :: bool
  rr_plugin_name :: string
  rr_errors :: "string list"

definition register_plugin :: "'w plugin_system \<Rightarrow> PluginManifest \<Rightarrow> (RegistrationResult, 'w) call" where
  "register_plugin sys m w =
     (let commit = (\<lambda>w.
            case add_capabilities sys (pm_name m) (pm_capabilities m) w of
              (Inl e, w1) \<Rightarrow> (Inl e, w1)
            | (Inr _, w1) \<Rightarrow>
                (case register_tool sys (pm_name m) (pm_entrypoint m) w1 of
                   (Inl e, w2) \<Rightarrow> (Inl e, w2)
                 | (Inr _, w2) \<Rightarrow> (Inr \<lparr>rr_success = True, rr_plugin_name = pm_name m, rr_errors = []\<rparr>, w2)))
      in case evaluate_capabilities sys of
           None \<Rightarrow> commit w
         | Some evaluate \<Rightarrow>
             (case evaluate (pm_capabilities m)
                [(''plugin_name'', PyStr (pm_name m)), (''plugin_type'', PyStr (PluginType_value (pm_plugin_type m)))] w of
                (Inl e, w1) \<Rightarrow> (Inl e, w1)
              | (Inr allowed, w1) \<Rightarrow>
                  if \<not> allowed
                  then (Inr \<lparr>rr_success = False, rr_plugin_name = pm_name m,
                             rr_errors = [''Plugin '' @ sq (pm_name m) @ '' capabilities rejected by policy'']\<rparr>, w1)
                  else commit w1))"

definition unregister_plugin :: "'w plugin_system \<Rightarrow> string \<Rightarrow> (unit, 'w) call" where
  "unregister_plugin sys manifest_name w =
     (case remove_capabilities sys manifest_name w of
        (Inl e, w1) \<Rightarrow> (Inl e, w1)
      | (Inr _, w1) \<Rightarrow> unregister_tool sys manifest_name w1)"

section \<open>Validated manifests\<close>

lemma require_nil [simp]: "require b msg = [] \<longleftrightarrow> b"
  by (simp add: require_def)

lemma require_strD: "require_str raw key = (s, []) \<Longrightarrow> s \<noteq> [] \<and> (\<exists>t. dict_get raw key = Some (PyStr t) \<and> s = str_strip t)"
  by (auto simp: require_str_def dict_get_or_def split: pyval.splits if_splits option.splits)

text \<open>The dictionaries a manifest's capabilities may be.\<close>

definition capability_ok :: "pyobj \<Rightarrow> bool" where
  "capability_ok c \<longleftrightarrow> (\<exists>nm risk description permissions.
     c = plugin_capability nm (PyStr risk) description permissions \<and> truthy nm \<and> risk \<in> set RISK_LEVELS)"

lemma plugin_capability_ok:
  "truthy nm \<Longrightarrow> risk \<in> set RISK_LEVELS \<Longrightarrow> capability_ok (plugin_capability nm (PyStr risk) description permissions)"
  unfolding capability_ok_def by blast

lemma checked_capabilities:
  "check_capabilities i vs = ([], caps) \<Longrightarrow> length caps = length vs \<and> list_all capability_ok caps"
proof (induction vs arbitrary: i caps)
  case (Cons v vs)
  obtain errors cs where rest: "check_capabilities (Suc i) vs = (errors, cs)" by fastforce
  obtain cap where v: "v = PyDict cap" using Cons.prems rest by (cases v) (auto simp: Let_def)
  have "errors = []" and caps: "tl caps = cs" "caps \<noteq> []" "capability_ok (hd caps)"
    using Cons.prems rest v by (auto simp: Let_def intro: plugin_capability_ok)
  then show ?case using Cons.IH [of "Suc i" cs] rest by (cases caps) auto
qed simp

lemma entrypoint_checked: "entrypoint_errors v = [] \<Longrightarrow> \<exists>e. v = PyDict e \<and> dict_has e ''module'' \<and> dict_has e ''class''"
  by (cases v) (auto simp: entrypoint_errors_def)

text \<open>A capability of the manifest and the raw entry it comes from.\<close>

definition capability_of :: "pyval \<Rightarrow> pyobj \<Rightarrow> bool" where
  "capability_of v c \<longleftrightarrow>
     (\<exists>entry nm risk. v = PyDict entry \<and> dict_get entry ''name'' = Some nm \<and> truthy nm \<and> risk \<in> set RISK_LEVELS \<and>
        dict_get_or entry ''risk_level'' (PyStr ''low'') = PyStr risk \<and>
        dict_get c ''name'' = Some nm \<and> dict_get c ''risk_level'' = Some (PyStr risk) \<and>
        dict_get c ''description'' = Some (dict_get_or entry ''description'' (PyStr [])) \<and>
        dict_get c ''permissions'' = Some (PyList (case dict_get entry ''permissions'' of Some (PyList ps) \<Rightarrow> ps | _ \<Rightarrow> [])))"

lemma capabilities_of:
  "check_capabilities i vs = ([], caps) \<Longrightarrow> list_all2 capability_of vs caps"
proof (induction vs arbitrary: i caps)
  case (Cons v vs)
  obtain errors cs where rest: "check_capabilities (Suc i) vs = (errors, cs)" by fastforce
  obtain cap where v: "v = PyDict cap" using Cons.prems rest by (cases v) (auto simp: Let_def)
  let ?nm = "dict_get_or cap ''name'' (PyStr [])" and ?risk = "dict_get_or cap ''risk_level'' (PyStr ''low'')"
  let ?c = "plugin_capability ?nm ?risk (dict_get_or cap ''description'' (PyStr []))
      (case dict_get_or cap ''permissions'' (PyList []) of PyList ps \<Rightarrow> ps | _ \<Rightarrow> [])"
  have none: "errors = []" "caps = ?c # cs" "truthy ?nm" "?risk \<in> set (map PyStr RISK_LEVELS)"
    using Cons.prems rest v by (auto simp: Let_def)
  then obtain risk where risk: "?risk = PyStr risk" "risk \<in> set RISK_LEVELS" by auto
  have nm: "dict_get cap ''name'' = Some ?nm"
    using none(3) by (cases "dict_get cap ''name''") (simp_all add: dict_get_or_def truthy_def)
  have "(case dict_get_or cap ''permissions'' (PyList []) of PyList ps \<Rightarrow> ps | _ \<Rightarrow> []) =
      (case dict_get cap ''permissions'' of Some (PyList ps) \<Rightarrow> ps | _ \<Rightarrow> [])"
    by (simp add: dict_get_or_def split: option.splits)
  then have "capability_of v ?c"
    unfolding capability_of_def v plugin_capability_def using nm none(3) risk by (auto simp: dict_get_def)
  then show ?case using Cons.IH [of "Suc i" cs] rest none(1,2) by simp
qed simp

text \<open>The raw capabilities: none when the field is missing or an empty text or mapping.\<close>

definition raw_capabilities :: "pyobj \<Rightarrow> pyval list" where
  "raw_capabilities raw = (case dict_get raw ''capabilities'' of Some (PyList vs) \<Rightarrow> vs | _ \<Rightarrow> [])"

lemma iterated_capabilities:
  assumes "iterate (dict_get_or raw ''capabilities'' (PyList [])) = Inr vs" "check_capabilities 0 vs = ([], caps)"
  shows "vs = raw_capabilities raw"
proof (cases vs)
  case Nil
  then show ?thesis using assms(1) by (auto simp: iterate_def raw_capabilities_def dict_get_or_def split: option.splits pyval.splits)
next
  case (Cons v ws)
  then obtain entry where "v = PyDict entry" using capabilities_of [OF assms(2)] by (auto simp: capability_of_def list_all2_Cons1)
  then show ?thesis
    using assms(1) Cons by (auto simp: iterate_def raw_capabilities_def dict_get_or_def split: option.splits pyval.splits)
qed

text \<open>What every manifest that leaves validation satisfies.\<close>

definition manifest_ok :: "PluginManifest \<Rightarrow> bool" where
  "manifest_ok m \<longleftrightarrow> PluginManifest_is_valid m \<and> pm_author m \<noteq> [] \<and> list_all capability_ok (pm_capabilities m)"

lemma validate_manifest_ok:
  assumes "validate_manifest fr raw = Inr m"
  shows "manifest_ok m \<and> dict_get raw ''plugin_type'' = Some (PyStr (PluginType_value (pm_plugin_type m))) \<and>
     (\<forall>(key, text) \<in> set [(''name'', pm_name m), (''version'', pm_version m), (''runtime_type'', pm_runtime_type m), (''author'', pm_author m)].
        text \<noteq> [] \<and> (\<exists>t. dict_get raw key = Some (PyStr t) \<and> text = str_strip t)) \<and>
     dict_get raw ''entrypoint'' = Some (PyDict (pm_entrypoint m)) \<and>
     list_all2 capability_of (raw_capabilities raw) (pm_capabilities m)"
proof -
  obtain name version runtime author where
      r: "require_str raw ''name'' = (name, [])" "require_str raw ''version'' = (version, [])"
        "require_str raw ''runtime_type'' = (runtime, [])" "require_str raw ''author'' = (author, [])"
    and m: "pm_name m = name" "pm_version m = version" "pm_runtime_type m = runtime" "pm_author m = author"
    using assms by (auto simp: validate_manifest_def Let_def split_beta split: sum.splits if_splits) (metis prod.collapse)
  have ep: "entrypoint_errors (dict_get_or raw ''entrypoint'' PyNone) = []"
    and epm: "pm_entrypoint m = (case dict_get_or raw ''entrypoint'' PyNone of PyDict e \<Rightarrow> e | _ \<Rightarrow> [])"
    using assms by (auto simp: validate_manifest_def Let_def split_beta split: sum.splits if_splits)
  obtain vs where caps: "iterate (dict_get_or raw ''capabilities'' (PyList [])) = Inr vs" "check_capabilities 0 vs = ([], pm_capabilities m)"
    using assms by (auto simp: validate_manifest_def Let_def split_beta split: sum.splits if_splits) (metis prod.collapse)
  have "PluginType_of (dict_get_or raw ''plugin_type'' (PyStr [])) = Some (pm_plugin_type m)"
    using assms by (auto simp: validate_manifest_def Let_def split_beta split: sum.splits if_splits option.splits)
  then have "dict_get_or raw ''plugin_type'' (PyStr []) = PyStr (PluginType_value (pm_plugin_type m))"
    unfolding PluginType_of_def find_Some_iff by metis
  moreover have "PluginType_value t \<noteq> []" "[] \<noteq> PluginType_value t" for t by (cases t, simp_all)+
  ultimately have "dict_get raw ''plugin_type'' = Some (PyStr (PluginType_value (pm_plugin_type m)))"
    by (auto simp: dict_get_or_def split: option.splits)
  moreover have "manifest_ok m"
    using r [THEN require_strD] m entrypoint_checked [OF ep] epm checked_capabilities [OF caps(2)]
    by (auto simp: manifest_ok_def PluginManifest_is_valid_def PluginManifest_validate_def)
  moreover have "dict_get raw ''entrypoint'' = Some (PyDict (pm_entrypoint m))"
    using entrypoint_checked [OF ep] epm by (auto simp: dict_get_or_def split: option.splits)
  ultimately show ?thesis
    using r [THEN require_strD] m capabilities_of [OF caps(2)] iterated_capabilities [OF caps] by simp
qed

section \<open>Installation and discovery\<close>

lemma discover_in_keeps: "discover_in sl fr fs ps (acc, er) = Inr (ms, er') \<Longrightarrow> set acc \<subseteq> set ms"
proof (induction ps arbitrary: acc er)
  case (Cons p ps)
  then show ?case by (force split: if_splits sum.splits load_error.splits)
qed simp

lemma discover_in_finds:
  "discover_in sl fr fs ps (acc, er) = Inr (ms, er') \<Longrightarrow> p \<in> set ps \<Longrightarrow> is_dir fs p \<Longrightarrow> is_file fs (p @ [''manifest.yaml'']) \<Longrightarrow>
     load_manifest sl fr fs (p @ [''manifest.yaml'']) = Inr m \<Longrightarrow> m \<in> set ms"
proof (induction ps arbitrary: acc er)
  case (Cons q ps)
  show ?case
  proof (cases "p = q")
    case True
    then have "discover_in sl fr fs ps (acc @ [m], er) = Inr (ms, er')" using Cons.prems by simp
    from discover_in_keeps [OF this] show ?thesis by simp
  next
    case False
    then show ?thesis using Cons by (auto split: if_splits sum.splits load_error.splits)
  qed
qed simp

lemma plugin_dest_plain:
  assumes "CHR ''/'' \<notin> set (pm_name m)" "pm_name m \<noteq> []" "pm_name m \<noteq> ''.''"
  obtains td where "td \<in> set PLUGIN_DIRS" "plugin_dest project m = project @ [''agents'', td, pm_name m]"
proof -
  let ?td = "if PluginType_value (pm_plugin_type m) @ ''s'' = ''agents'' then ''tools'' else PluginType_value (pm_plugin_type m) @ ''s''"
  have "?td \<in> set PLUGIN_DIRS" by (cases "pm_plugin_type m") (simp_all add: PLUGIN_DIRS_def)
  moreover have "plugin_dest project m = project @ [''agents'', ?td, pm_name m]"
    using assms by (simp add: plugin_dest_def Let_def join_path_plain)
  ultimately show thesis by (rule that)
qed

lemma install_cases:
  assumes "install_from_path sl fr source project fs = (Inr m, fs')"
  obtains content raw fs1 where "read_file fs (source @ [''manifest.yaml'']) = Some content" "sl content = Inr (PyDict raw)"
    "validate_manifest fr raw = Inr m" "mkdirs (butlast (plugin_dest project m)) fs = (Inr (), fs1)"
    "copytree source (plugin_dest project m) fs1 = (Inr (), fs')"
  using assms
  by (auto simp: install_from_path_def file_call_def Let_def split: option.splits sum.splits pyval.splits prod.splits)

lemma installed_files:
  assumes wf: "dict_wf (fs_files fs)" and inst: "install_from_path sl fr source project fs = (Inr m, fs')"
    and dest: "plugin_dest project m = project @ [''agents'', td, nm]" and dots: "''..'' \<notin> set (project @ [''agents'', td, nm])"
  shows "walk (fs_dirs fs') [] (project @ [''agents'', td]) = Some (project @ [''agents'', td])"
    "walk (fs_dirs fs') [] (project @ [''agents'', td, nm]) = Some (project @ [''agents'', td, nm])"
    "project @ [''agents'', td, nm] \<in> set (fs_dirs fs')"
    "load_manifest sl fr fs' (project @ [''agents'', td, nm, ''manifest.yaml'']) = Inr m"
    "is_file fs' (project @ [''agents'', td, nm, ''manifest.yaml''])"
proof -
  let ?p = "project @ [''agents'', td]" and ?d = "project @ [''agents'', td, nm]"
  obtain content raw fs1 where r: "read_file fs (source @ [''manifest.yaml'']) = Some content" "sl content = Inr (PyDict raw)"
      "validate_manifest fr raw = Inr m" "mkdirs (butlast (plugin_dest project m)) fs = (Inr (), fs1)"
      "copytree source (plugin_dest project m) fs1 = (Inr (), fs')" by (rule install_cases [OF inst])
  have mk: "mkdirs ?p fs = (Inr (), fs1)" using r(4) by (simp add: dest butlast_append)
  note mks = mkdirs_success [OF mk]
  obtain s where s: "walk (fs_dirs fs) [] source = Some s" "dict_get (fs_files fs) (s @ [''manifest.yaml'']) = Some content"
    using r(1) by (auto simp: read_file_def locate_def bind_eq_Some_conv split: if_splits)
  have s1: "walk (fs_dirs fs1) [] source = Some s" using walk_mono [OF mks(2) s(1)] dots by simp
  note cp = copytree_success [OF r(5) [unfolded dest] dots s1]
  show inD: "?d \<in> set (fs_dirs fs')" by (rule cp(2))
  have pre: "take n ?p \<in> set (fs_dirs fs')" if "0 < n" "n \<le> length ?p" for n
    using mks(3) [of n] that cp(1) dots by auto
  show "walk (fs_dirs fs') [] ?p = Some ?p" using walk_prefixes [of ?p "[]" "fs_dirs fs'"] pre dots by simp
  have "take n ?d \<in> set (fs_dirs fs')" if "0 < n" "n \<le> length ?d" for n
  proof (cases "n = length ?d")
    case False
    then have "take n ?d = take n ?p" "n \<le> length ?p" using that(2) by (auto simp: take_Cons' numeral_2_eq_2)
    then show ?thesis using pre [of n] that(1) by simp
  qed (use inD in simp)
  then show wd: "walk (fs_dirs fs') [] ?d = Some ?d" using walk_prefixes [of ?d "[]" "fs_dirs fs'"] dots by simp
  have "dict_get (fs_files fs') (?d @ [''manifest.yaml'']) = Some content" using cp(3) [of "[''manifest.yaml'']" content] wf s(2) mks(1) dots by simp
  then have rd: "read_file fs' (project @ [''agents'', td, nm, ''manifest.yaml'']) = Some content"
    using wd by (simp add: read_file_def locate_def butlast_append)
  then show "load_manifest sl fr fs' (project @ [''agents'', td, nm, ''manifest.yaml'']) = Inr m"
    "is_file fs' (project @ [''agents'', td, nm, ''manifest.yaml''])"
    using r(2,3) by (simp_all add: load_manifest_def is_file_def)
qed

lemma plugin_pathsI:
  assumes "td \<in> set PLUGIN_DIRS" "n \<in> set (sorted_entries fs (project @ [''agents'', td]))" "is_dir fs (project @ [''agents'', td])"
  shows "project @ [''agents'', td, n] \<in> set (plugin_paths fs project)"
  unfolding plugin_paths_def Let_def set_concat set_map set_filter
  using assms by (intro UN_I [of td] UnionI) (auto simp: image_iff)

lemma install_then_discover:
  assumes "dict_wf (fs_files fs)" "install_from_path sl fr source project fs = (Inr m, fs')" "''..'' \<notin> set project"
    and "CHR ''/'' \<notin> set (pm_name m)" "pm_name m \<notin> {''.'', ''..''}"
    and "discover_plugins sl fr fs' project = Inr (ms, errs)"
  shows "m \<in> set ms"
proof -
  obtain raw where "validate_manifest fr raw = Inr m" by (rule install_cases [OF assms(2)])
  from validate_manifest_ok [OF this] have ne: "pm_name m \<noteq> []"
    by (auto simp: manifest_ok_def PluginManifest_is_valid_def PluginManifest_validate_def)
  obtain td where td: "td \<in> set PLUGIN_DIRS" "plugin_dest project m = project @ [''agents'', td, pm_name m]"
    using plugin_dest_plain [OF assms(4) ne] assms(5) by auto
  then have dots: "''..'' \<notin> set (project @ [''agents'', td, pm_name m])" using assms(3,5) by (auto simp: PLUGIN_DIRS_def)
  note inst = installed_files [OF assms(1,2) td(2) dots]
  have "pm_name m \<in> set (sorted_entries fs' (project @ [''agents'', td]))"
    by (rule sorted_entriesI [OF inst(1)]) (use inst(3) in simp)
  then have "project @ [''agents'', td, pm_name m] \<in> set (plugin_paths fs' project)"
    by (rule plugin_pathsI [OF td(1)]) (simp add: is_dir_def inst(1))
  from discover_in_finds [OF assms(6) [unfolded discover_plugins_def] this] inst show ?thesis
    by (simp add: is_dir_def)
qed

section \<open>Properties\<close>

definition sample_raw :: pyobj where
  "sample_raw =
     [(''name'', PyStr '' mail ''), (''version'', PyStr ''1.0''), (''plugin_type'', PyStr ''tool''), (''runtime_type'', PyStr ''python''),
      (''author'', PyStr ''a''), (''entrypoint'', PyDict [(''module'', PyStr ''m''), (''class'', PyStr ''C'')]),
      (''capabilities'', PyList [PyDict [(''name'', PyStr ''send'')]])]"

definition sample_load :: "string \<Rightarrow> load_error + pyval" where
  "sample_load s = (if s = ''ok'' then Inr (PyDict sample_raw)
                    else if s = ''null'' then Inr (PyDict [(''capabilities'', PyNone)])
                    else Inl (YAMLError ''bad''))"

definition sample_project :: fs where
  "sample_project =
     \<lparr>fs_dirs = [[''p''], [''p'', ''agents''], [''p'', ''agents'', ''tools''], [''src'']],
      fs_files = [([''src'', ''manifest.yaml''], ''ok'')]\<rparr>"

text \<open>
  Property C36. What validation lets through is well-typed and is what the data say: name, version, runtime type and
  author are non-empty and the texts of the data without surrounding white space, the plugin type is the one the
  data name, the entry point is theirs and has module and class, and there is one capability for each raw entry,
  in order, each an entry with a name, one of the four risk levels (low when not given), the entry's
  description and the entry's permissions when they are a list.
\<close>

theorem validated_manifest_well_typed:
  assumes "validate_manifest fr raw = Inr m"
  shows "PluginManifest_validate m = [] \<and> list_all capability_ok (pm_capabilities m) \<and>
     dict_get raw ''plugin_type'' = Some (PyStr (PluginType_value (pm_plugin_type m))) \<and>
     (\<forall>(key, text) \<in> set [(''name'', pm_name m), (''version'', pm_version m), (''runtime_type'', pm_runtime_type m), (''author'', pm_author m)].
        text \<noteq> [] \<and> (\<exists>t. dict_get raw key = Some (PyStr t) \<and> text = str_strip t)) \<and>
     dict_get raw ''entrypoint'' = Some (PyDict (pm_entrypoint m)) \<and>
     list_all2 capability_of (raw_capabilities raw) (pm_capabilities m)"
  using validate_manifest_ok [OF assms] by (simp add: manifest_ok_def PluginManifest_is_valid_def)

theorem validated_manifest_well_typed_witness:
  "\<exists>m. validate_manifest (\<lambda>_. ''0.0'') sample_raw = Inr m \<and> pm_name m = ''mail'' \<and> length (pm_capabilities m) = 1"
proof -
  have "\<not> isl (validate_manifest (\<lambda>_. ''0.0'') sample_raw)" by code_simp
  then obtain m where m: "validate_manifest (\<lambda>_. ''0.0'') sample_raw = Inr m" by (cases "validate_manifest (\<lambda>_. ''0.0'') sample_raw") auto
  have "str_strip '' mail '' = ''mail''" by code_simp
  moreover have "length (raw_capabilities sample_raw) = 1" by code_simp
  ultimately show ?thesis
    using validated_manifest_well_typed [OF m] m by (auto simp: sample_raw_def dict_get_def dest: list_all2_lengthD)
qed

text \<open>
  Property C35. An installed plugin is found: when an installation into a file system with one file per path succeeds under a name without a slash
  that is neither \<^verbatim>\<open>.\<close> nor \<^verbatim>\<open>..\<close>, in a project directory given without \<^verbatim>\<open>..\<close>, and discovery on the
  resulting files does not raise, the manifest is among the discovered plugins. A plugin named \<^verbatim>\<open>..\<close> is not found
  (lemma dotdot_plugin_lost).
\<close>

theorem installed_plugin_discovered:
  assumes "dict_wf (fs_files fs)" "install_from_path sl fr source project fs = (Inr m, fs')" "''..'' \<notin> set project"
    and "CHR ''/'' \<notin> set (pm_name m)" "pm_name m \<notin> {''.'', ''..''}"
    and "discover_plugins sl fr fs' project = Inr (ms, errs)"
  shows "m \<in> set ms"
  by (rule install_then_discover [OF assms])

theorem installed_plugin_discovered_witness:
  "\<exists>m fs' ms errs. install_from_path sample_load (\<lambda>_. ''0.0'') [''src''] [''p''] sample_project = (Inr m, fs') \<and>
     discover_plugins sample_load (\<lambda>_. ''0.0'') fs' [''p''] = Inr (ms, errs) \<and> m \<in> set ms"
proof -
  let ?i = "install_from_path sample_load (\<lambda>_. ''0.0'') [''src''] [''p''] sample_project"
  have "case ?i of (Inr m, fs') \<Rightarrow> pm_name m = ''mail'' \<and> \<not> isl (discover_plugins sample_load (\<lambda>_. ''0.0'') fs' [''p'']) | _ \<Rightarrow> False"
    by code_simp
  then obtain m fs' where i: "?i = (Inr m, fs')" "pm_name m = ''mail''" "\<not> isl (discover_plugins sample_load (\<lambda>_. ''0.0'') fs' [''p''])"
    by (auto split: prod.splits sum.splits)
  then obtain ms errs where d: "discover_plugins sample_load (\<lambda>_. ''0.0'') fs' [''p''] = Inr (ms, errs)"
    by (cases "discover_plugins sample_load (\<lambda>_. ''0.0'') fs' [''p'']") auto
  have "dict_wf (fs_files sample_project)" by (simp add: sample_project_def dict_wf_def)
  from installed_plugin_discovered [OF this i(1) _ _ _ d] i d show ?thesis by auto
qed

text \<open>A plugin named \<^verbatim>\<open>..\<close> passes validation, is copied over the directory \<^verbatim>\<open>agents\<close> and is not discovered.\<close>

definition dotdot_load :: "string \<Rightarrow> load_error + pyval" where
  "dotdot_load s = Inr (PyDict (dict_set ''name'' (PyStr ''..'') sample_raw))"

lemma dotdot_plugin_lost:
  "case install_from_path dotdot_load (\<lambda>_. ''0.0'') [''src''] [''p''] sample_project of
     (Inr m, fs') \<Rightarrow> pm_name m = ''..'' \<and> is_file fs' [''p'', ''agents'', ''manifest.yaml''] \<and>
        discover_plugins dotdot_load (\<lambda>_. ''0.0'') fs' [''p''] = Inr ([], [])
   | _ \<Rightarrow> False"
  by code_simp

text \<open>
  One bad manifest stops discovery: \<^verbatim>\<open>capabilities:\<close> without a value is \<^verbatim>\<open>None\<close>, iterating it raises a
  \<^verbatim>\<open>TypeError\<close>, which the discovery loop does not catch.
\<close>

lemma null_capabilities_raise:
  "dict_get raw ''capabilities'' = Some PyNone \<Longrightarrow> validate_manifest fr raw = Inl (Uncaught ''NoneType object is not iterable'')"
  by (simp add: validate_manifest_def Let_def split_beta dict_get_or_def iterate_def)

lemma uncaught_stops_discovery:
  "p \<in> set ps \<Longrightarrow> is_dir fs p \<Longrightarrow> is_file fs (p @ [''manifest.yaml'']) \<Longrightarrow>
     load_manifest sl fr fs (p @ [''manifest.yaml'']) = Inl (Uncaught msg) \<Longrightarrow> \<exists>msg'. discover_in sl fr fs ps acc = Inl (Uncaught msg')"
proof (induction ps arbitrary: acc)
  case (Cons q ps)
  obtain plugins errors where acc: "acc = (plugins, errors)" by fastforce
  show ?case
  proof (cases "p = q")
    case False
    then show ?thesis using Cons by (auto simp: acc split: sum.splits load_error.splits)
  qed (use Cons.prems in \<open>simp add: acc\<close>)
qed simp

text \<open>The name is a path: removing a plugin named \<^verbatim>\<open>../../kernel\<close> removes the project's kernel directory.\<close>

lemma remove_escapes:
  assumes "pm_name m = ''../../kernel''" "pm_plugin_type m = TOOL" "''..'' \<notin> set project"
  shows "resolve (plugin_dest project m) = project @ [''kernel'']"
proof -
  have "plugin_dest project m = project @ [''agents'', ''tools'', ''..'', ''..'', ''kernel'']"
    using assms(1,2) by (simp add: plugin_dest_def join_path_def)
  moreover have "resolve (p @ q) = fold (\<lambda>c here. if c = ''..'' then butlast here else here @ [c]) q (resolve p)" for p q
    by (simp add: resolve_def)
  ultimately show ?thesis using resolve_plain [OF assms(3)] by (simp add: butlast_append)
qed

text \<open>
  The bridge asks first: when the policy refuses, neither the capability store nor the tool registry
  has been called; a success means the policy allowed and both registrations happened, in this order.
\<close>

lemma bridge_needs_policy:
  assumes "evaluate_capabilities sys = Some ev" "register_plugin sys m w = (Inr r, w')"
  shows "\<exists>allowed w1 ctx. ev (pm_capabilities m) ctx w = (Inr allowed, w1) \<and> (rr_success r \<longleftrightarrow> allowed) \<and>
     (if allowed then \<exists>w2. add_capabilities sys (pm_name m) (pm_capabilities m) w1 = (Inr (), w2) \<and>
         register_tool sys (pm_name m) (pm_entrypoint m) w2 = (Inr (), w')
      else w' = w1)"
  using assms by (auto simp: register_plugin_def Let_def split: prod.splits sum.splits if_splits)

text \<open>There is no way back: when the tool registry refuses the plugin, its capabilities stay in the store.\<close>

lemma bridge_keeps_capabilities:
  assumes "evaluate_capabilities sys = None" "add_capabilities sys (pm_name m) (pm_capabilities m) w = (Inr (), w1)"
    and "register_tool sys (pm_name m) (pm_entrypoint m) w1 = (Inl e, w1)"
  shows "register_plugin sys m w = (Inl e, w1)"
  using assms by (simp add: register_plugin_def Let_def)

end
