(* ===== verification/Architecture.thy ===== *)
theory Architecture
  imports Prelude
begin

text \<open>
  \<^verbatim>\<open>scripts/verify_architecture.py\<close>: the static checks that guard the layering of the repository. A
  source file is its path and the nodes of its syntax tree in the order \<^verbatim>\<open>ast.walk\<close> yields them, of
  which the checks look at six kinds; \<open>None\<close> stands for a file that does not parse. The checks that
  import modules or compare class definitions enter \<open>run_verification\<close> as given results; they are
  modelled in Interface_Checks, which completes the run to \<open>verify\<close>.
\<close>

section \<open>Sources\<close>

datatype ast_node =
    Import "string list"
  | ImportFrom "string option"
  | Pass nat
  | StrConstant string nat
  | RaiseCall string nat
  | OtherNode

record source_file =
  sf_parts :: "string list"
  sf_tree :: "ast_node list option"

record CheckResult =
  cr_name :: string
  cr_passed :: bool
  cr_details :: "string list"

definition check_result :: "string \<Rightarrow> string list \<Rightarrow> CheckResult" where
  "check_result nm violations = \<lparr>cr_name = nm, cr_passed = (length violations = 0), cr_details = violations\<rparr>"

definition rel_text :: "source_file \<Rightarrow> string" where
  "rel_text f = str_join ''/'' (sf_parts f)"

text \<open>\<^verbatim>\<open>s.split(".")\<close>\<close>

fun split_dot :: "string \<Rightarrow> string list" where
  "split_dot [] = [[]]"
| "split_dot (c # cs) =
     (if c = CHR ''.'' then [] # split_dot cs
      else case split_dot cs of [] \<Rightarrow> [[c]] | w # ws \<Rightarrow> (c # w) # ws)"

definition discover_python_files :: "bool \<Rightarrow> source_file list \<Rightarrow> source_file list" where
  "discover_python_files exclude_tests files =
     sort_key sf_parts
       (filter (\<lambda>f. ''__pycache__'' \<notin> set (sf_parts f) \<and> \<not> (exclude_tests \<and> hd (sf_parts f) = ''tests'')) files)"

definition get_layer :: "source_file \<Rightarrow> string option" where
  "get_layer f =
     (if hd (sf_parts f) \<in> set [''core'', ''kernel'', ''control_plane'', ''agents'', ''ai_gateway'', ''infrastructure'',
        ''api'', ''config'', ''runtime'', ''services''] then Some (hd (sf_parts f)) else None)"

fun node_imports :: "ast_node \<Rightarrow> string list" where
  "node_imports (Import names) = names"
| "node_imports (ImportFrom (Some m)) = (if m = [] then [] else [m])"
| "node_imports _ = []"

definition extract_imports :: "source_file \<Rightarrow> string list" where
  "extract_imports f = (case sf_tree f of None \<Rightarrow> [] | Some nodes \<Rightarrow> concat (map node_imports nodes))"

definition is_project_import :: "string \<Rightarrow> bool" where
  "is_project_import m \<longleftrightarrow> hd (split_dot m) \<in> set [''runtime'', ''services'']"

definition classify_import :: "string \<Rightarrow> string option" where
  "classify_import m =
     (if hd (split_dot m) = ''runtime'' then Some ''runtime''
      else if hd (split_dot m) = ''services'' then Some ''services''
      else None)"

section \<open>Checks on single files\<close>

definition LAYER_ALLOWED_IMPORTS :: "(string, string list) dict" where
  "LAYER_ALLOWED_IMPORTS =
     [(''core'', [''core'']),
      (''kernel'', [''core'', ''kernel'']),
      (''control_plane'', [''core'', ''kernel'', ''control_plane'']),
      (''agents'', [''core'', ''kernel'', ''agents'', ''ai_gateway'']),
      (''ai_gateway'', [''core'', ''ai_gateway'']),
      (''infrastructure'', [''core'', ''infrastructure'']),
      (''api'', [''core'', ''kernel'', ''control_plane'', ''api'']),
      (''config'', [''core'', ''config'']),
      (''runtime'', [''core'', ''kernel'', ''runtime'']),
      (''services'', [''core'', ''kernel'', ''control_plane'', ''services''])]"

definition FORBIDDEN_IMPORTS :: "(string, string list) dict" where
  "FORBIDDEN_IMPORTS =
     [(''control_plane'',
       [''sqlite3'', ''psycopg'', ''psycopg2'', ''sqlalchemy'', ''pymongo'', ''redis'',
        ''requests'', ''httpx'', ''aiohttp'', ''urllib'', ''http.client'', ''websockets''])]"

definition direction_violated :: "string \<Rightarrow> string \<Rightarrow> bool" where
  "direction_violated layer imp =
     (is_project_import imp \<and>
      (case classify_import imp of
         None \<Rightarrow> False
       | Some target_layer \<Rightarrow> target_layer \<notin> set (dict_get_or LAYER_ALLOWED_IMPORTS layer [])))"

definition check_dependency_direction :: "source_file list \<Rightarrow> CheckResult" where
  "check_dependency_direction files =
     check_result ''Dependency Direction''
       (concat (map (\<lambda>f. case get_layer f of
            None \<Rightarrow> []
          | Some layer \<Rightarrow>
              map (\<lambda>imp. ''  '' @ rel_text f @ [CHR 0x0A] @ ''    imports '' @ imp)
                (filter (direction_violated layer) (extract_imports f)))
          (discover_python_files True files)))"

text \<open>One violation per forbidden name that matches; the names are a set, here in the order written.\<close>

definition check_forbidden_imports :: "source_file list \<Rightarrow> CheckResult" where
  "check_forbidden_imports files =
     check_result ''Forbidden Imports''
       (concat (map (\<lambda>f. concat (map (\<lambda>(dir_pattern, forbidden).
            if dir_pattern \<in> set (sf_parts f)
            then concat (map (\<lambda>imp. concat (map (\<lambda>fb.
                   if imp = fb \<or> prefix (fb @ ''.'') imp
                   then [''  '' @ rel_text f @ [CHR 0x0A] @ ''    imports '' @ CHR 0x27 # imp @ CHR 0x27 # '' (forbidden)''] else [])
                   forbidden)) (extract_imports f))
            else []) FORBIDDEN_IMPORTS))
          (discover_python_files True files)))"

definition check_layer_isolation :: "source_file list \<Rightarrow> CheckResult" where
  "check_layer_isolation files =
     check_result ''Layer Isolation''
       (concat (map (\<lambda>f. if hd (sf_parts f) \<noteq> ''runtime'' then []
          else map (\<lambda>imp. ''  '' @ rel_text f @ [CHR 0x0A] @ ''    imports '' @ CHR 0x27 # imp @ [CHR 0x27])
                 (filter (prefix ''services'') (extract_imports f)))
          (discover_python_files True files)))"

definition private_part :: "string \<Rightarrow> bool" where
  "private_part p \<longleftrightarrow> prefix ''_'' p \<and> p \<notin> set [''__future__'', ''__main__'', ''__init__'']"

definition check_package_boundaries :: "source_file list \<Rightarrow> CheckResult" where
  "check_package_boundaries files =
     check_result ''Package Boundaries''
       (concat (map (\<lambda>f.
          map (\<lambda>imp. ''  '' @ rel_text f @ [CHR 0x0A] @ ''    imports '' @ CHR 0x27 # imp @ CHR 0x27 # '' (private package)'')
            (filter (\<lambda>imp. list_ex private_part (split_dot imp)) (extract_imports f)))
          (discover_python_files True files)))"

fun node_hygiene :: "string \<Rightarrow> ast_node \<Rightarrow> string list" where
  "node_hygiene rel (Pass lineno) = [''  '' @ rel @ '':'' @ nat_str lineno]"
| "node_hygiene rel (StrConstant s lineno) =
     (case find (\<lambda>pat. str_in pat s) [''TODO'', ''FIXME'', ''HACK''] of
        None \<Rightarrow> []
      | Some pat \<Rightarrow> [''  '' @ rel @ '':'' @ nat_str lineno @ '' -- contains '' @ CHR 0x27 # pat @ [CHR 0x27]])"
| "node_hygiene rel (RaiseCall nm lineno) = (if nm = ''NotImplementedError'' then [''  '' @ rel @ '':'' @ nat_str lineno] else [])"
| "node_hygiene rel _ = []"

definition check_hygiene :: "source_file list \<Rightarrow> CheckResult" where
  "check_hygiene files =
     check_result ''Hygiene''
       (concat (map (\<lambda>f.
          if hd (sf_parts f) = ''scripts'' \<or> last (sf_parts f) = ''__init__.py'' then []
          else case sf_tree f of None \<Rightarrow> [] | Some nodes \<Rightarrow> concat (map (node_hygiene (rel_text f)) nodes))
          (discover_python_files True files)))"

section \<open>Import cycles\<close>

text \<open>The file a module name stands for: the module itself, or else the package.\<close>

definition module_file :: "source_file list \<Rightarrow> string \<Rightarrow> string option" where
  "module_file files imp =
     (let parts = split_dot imp;
          candidate = butlast parts @ [last parts @ ''.py''];
          candidate_pkg = parts @ [''__init__.py'']
      in if candidate \<in> set (map sf_parts files) then Some (str_join ''/'' candidate)
         else if candidate_pkg \<in> set (map sf_parts files) then Some (str_join ''/'' candidate_pkg)
         else None)"

type_synonym graph = "(string, string list) dict"

definition module_deps :: "source_file list \<Rightarrow> source_file \<Rightarrow> string list" where
  "module_deps files f =
     List.map_filter (\<lambda>imp. if is_project_import imp then module_file files imp else None) (extract_imports f)"

definition add_module :: "source_file list \<Rightarrow> source_file \<Rightarrow> graph \<Rightarrow> graph" where
  "add_module files f g = (if get_layer f = None then g else dict_set (rel_text f) (module_deps files f) g)"

definition import_graph :: "source_file list \<Rightarrow> graph" where
  "import_graph files = fold (add_module files) (discover_python_files True files) []"

datatype color = WHITE | GRAY | BLACK

type_synonym colors = "(string, color) dict"

text \<open>
  The depth-first search with its colours and path. The first argument is the recursion depth the
  interpreter still allows; \<open>None\<close> is its \<^verbatim>\<open>RecursionError\<close>.
\<close>

fun dfs :: "graph \<Rightarrow> nat \<Rightarrow> string \<Rightarrow> colors \<Rightarrow> string list \<Rightarrow> (bool \<times> colors \<times> string list) option"
  and dfs_neighbours :: "graph \<Rightarrow> nat \<Rightarrow> string list \<Rightarrow> colors \<Rightarrow> string list \<Rightarrow> (bool \<times> colors \<times> string list) option" where
  "dfs g 0 node color path = None"
| "dfs g (Suc depth) node color path =
     (case dfs_neighbours g depth (dict_get_or g node []) (dict_set node GRAY color) (path @ [node]) of
        None \<Rightarrow> None
      | Some (True, color', path') \<Rightarrow> Some (True, color', path')
      | Some (False, color', path') \<Rightarrow> Some (False, dict_set node BLACK color', butlast path'))"
| "dfs_neighbours g depth [] color path = Some (False, color, path)"
| "dfs_neighbours g depth (nb # nbs) color path =
     (case dict_get color nb of
        None \<Rightarrow> dfs_neighbours g depth nbs color path
      | Some GRAY \<Rightarrow> Some (True, color, path @ [nb])
      | Some WHITE \<Rightarrow>
          (case dfs g depth nb color path of
             None \<Rightarrow> None
           | Some (True, color', path') \<Rightarrow> Some (True, color', path')
           | Some (False, color', path') \<Rightarrow> dfs_neighbours g depth nbs color' path')
      | Some BLACK \<Rightarrow> dfs_neighbours g depth nbs color path)"

fun search_from :: "graph \<Rightarrow> nat \<Rightarrow> string list \<Rightarrow> colors \<Rightarrow> string list \<Rightarrow> (bool \<times> string list) option" where
  "search_from g depth [] color path = Some (False, path)"
| "search_from g depth (node # nodes) color path =
     (if dict_get color node = Some WHITE then
        (case dfs g depth node color path of
           None \<Rightarrow> None
         | Some (True, color', path') \<Rightarrow> Some (True, path')
         | Some (False, color', path') \<Rightarrow> search_from g depth nodes color' path')
      else search_from g depth nodes color path)"

definition find_cycle :: "nat \<Rightarrow> graph \<Rightarrow> (bool \<times> string list) option" where
  "find_cycle depth g = search_from g depth (dict_keys g) (map (\<lambda>node. (node, WHITE)) (dict_keys g)) []"

definition check_import_cycles :: "nat \<Rightarrow> source_file list \<Rightarrow> CheckResult option" where
  "check_import_cycles depth files =
     map_option (\<lambda>(found_cycle, cycle_path).
         \<lparr>cr_name = ''Import Cycles'', cr_passed = (\<not> found_cycle),
          cr_details = (if found_cycle then [''  Cycle detected: '' @ str_join '' -> '' cycle_path] else [])\<rparr>)
       (find_cycle depth (import_graph files))"

definition run_verification ::
  "nat \<Rightarrow> CheckResult \<Rightarrow> CheckResult \<Rightarrow> source_file list \<Rightarrow> (CheckResult list \<times> int) option" where
  "run_verification depth interface_compliance contract_consistency files =
     map_option (\<lambda>cycles.
         let results = [check_dependency_direction files, check_layer_isolation files, check_forbidden_imports files, cycles,
                        interface_compliance, contract_consistency, check_package_boundaries files, check_hygiene files];
             failed = length (filter (\<lambda>r. \<not> cr_passed r) results)
         in (results, if failed > 0 then 1 else 0))
       (check_import_cycles depth files)"

section \<open>The search is correct\<close>

definition edge :: "graph \<Rightarrow> string \<Rightarrow> string \<Rightarrow> bool" where
  "edge g u v \<longleftrightarrow> dict_has g u \<and> dict_has g v \<and> v \<in> set (dict_get_or g u [])"

text \<open>A walk that ends where it has been before.\<close>

definition cycle_report :: "graph \<Rightarrow> string list \<Rightarrow> bool" where
  "cycle_report g path \<longleftrightarrow> successively (edge g) path \<and> (\<exists>p x q. path = p @ [x] @ q @ [x])"

definition search_inv :: "graph \<Rightarrow> colors \<Rightarrow> string list \<Rightarrow> bool" where
  "search_inv g color path \<longleftrightarrow>
     (\<forall>x. dict_get color x = None \<longleftrightarrow> \<not> dict_has g x) \<and>
     distinct path \<and> successively (edge g) path \<and>
     (\<forall>x. dict_get color x = Some GRAY \<longleftrightarrow> x \<in> set path) \<and>
     (\<forall>x y. dict_get color x = Some BLACK \<longrightarrow> edge g x y \<longrightarrow> dict_get color y = Some BLACK) \<and>
     (\<forall>x. dict_get color x = Some BLACK \<longrightarrow> \<not> (edge g)\<^sup>+\<^sup>+ x x)"

definition progress :: "colors \<Rightarrow> colors \<Rightarrow> bool" where
  "progress color color' \<longleftrightarrow>
     (\<forall>x. dict_get color x = Some BLACK \<longrightarrow> dict_get color' x = Some BLACK) \<and>
     (\<forall>x. dict_get color' x = Some WHITE \<longrightarrow> dict_get color x = Some WHITE)"

lemma progress_trans: "progress a b \<Longrightarrow> progress b c \<Longrightarrow> progress a c"
  unfolding progress_def by blast

lemma progress_black: "progress a b \<Longrightarrow> dict_get a x = Some BLACK \<Longrightarrow> dict_get b x = Some BLACK"
  unfolding progress_def by blast

lemma progress_refl [simp]: "progress a a"
  by (simp add: progress_def)

lemma search_invD:
  assumes "search_inv g color path"
  shows "dict_get color x = Some c \<Longrightarrow> dict_has g x"
    and "dict_get color x = Some GRAY \<longleftrightarrow> x \<in> set path"
    and "dict_get color x = Some BLACK \<Longrightarrow> edge g x y \<Longrightarrow> dict_get color y = Some BLACK"
    and "dict_get color x = Some BLACK \<Longrightarrow> \<not> (edge g)\<^sup>+\<^sup>+ x x"
proof -
  have dom: "\<forall>x. dict_get color x = None \<longleftrightarrow> \<not> dict_has g x" and gray: "\<forall>x. dict_get color x = Some GRAY \<longleftrightarrow> x \<in> set path"
    and closed: "\<forall>x y. dict_get color x = Some BLACK \<longrightarrow> edge g x y \<longrightarrow> dict_get color y = Some BLACK"
    and acyclic: "\<forall>x. dict_get color x = Some BLACK \<longrightarrow> \<not> (edge g)\<^sup>+\<^sup>+ x x"
    using assms unfolding search_inv_def by simp_all
  show "dict_get color x = Some c \<Longrightarrow> dict_has g x" using dom by (metis option.distinct(1))
  show "dict_get color x = Some GRAY \<longleftrightarrow> x \<in> set path" using gray by simp
  show "dict_get color x = Some BLACK \<Longrightarrow> edge g x y \<Longrightarrow> dict_get color y = Some BLACK" using closed by blast
  show "dict_get color x = Some BLACK \<Longrightarrow> \<not> (edge g)\<^sup>+\<^sup>+ x x" using acyclic by simp
qed

lemma black_closed:
  assumes "search_inv g color path" "(edge g)\<^sup>*\<^sup>* x y" "dict_get color x = Some BLACK"
  shows "dict_get color y = Some BLACK"
  using assms(2,3) by (induction rule: rtranclp_induct) (blast intro: search_invD(3) [OF assms(1)])+

lemma enter_inv:
  assumes "search_inv g color path" "dict_get color node = Some WHITE" "path = [] \<or> edge g (last path) node"
  shows "search_inv g (dict_set node GRAY color) (path @ [node])"
proof -
  have "node \<notin> set path" using search_invD(2) [OF assms(1), of node] assms(2) by simp
  moreover have "dict_has g node" using search_invD(1) [OF assms(1,2)] .
  ultimately show ?thesis using assms by (auto simp: search_inv_def successively_append_iff)
qed

lemma leave_inv:
  assumes inv: "search_inv g color (path @ [node])"
    and nbs: "\<forall>n \<in> set (dict_get_or g node []). dict_has g n \<longrightarrow> dict_get color n = Some BLACK"
  shows "search_inv g (dict_set node BLACK color) path"
proof -
  have gray: "dict_get color node = Some GRAY" using inv by (simp add: search_inv_def)
  have succ: "dict_get color y = Some BLACK" if "edge g node y" for y using nbs that by (simp add: edge_def)
  have "\<not> (edge g)\<^sup>+\<^sup>+ node node"
  proof
    assume "(edge g)\<^sup>+\<^sup>+ node node"
    then obtain y where "edge g node y" "(edge g)\<^sup>*\<^sup>* y node" by (blast dest: tranclpD)
    then show False using black_closed [OF inv] succ gray by fastforce
  qed
  then show ?thesis
    using inv succ search_invD(1) [OF inv gray] unfolding search_inv_def by (auto simp: successively_append_iff)
qed

lemma gray_report:
  assumes "search_inv g color path" "dict_get color nb = Some GRAY" "edge g (last path) nb"
  shows "cycle_report g (path @ [nb])"
proof -
  have "nb \<in> set path" using assms(1,2) by (simp add: search_inv_def)
  then obtain p q where "path = p @ nb # q" by (meson split_list)
  then have "path @ [nb] = p @ [nb] @ q @ [nb]" by simp
  moreover have "successively (edge g) (path @ [nb])" using assms by (auto simp: search_inv_def successively_append_iff)
  ultimately show ?thesis unfolding cycle_report_def by blast
qed

lemma dfs_correct:
  "dfs g depth node color path = Some (found, color', path') \<Longrightarrow>
     search_inv g color path \<Longrightarrow> dict_get color node = Some WHITE \<Longrightarrow> path = [] \<or> edge g (last path) node \<Longrightarrow>
     (if found then cycle_report g path'
      else path' = path \<and> search_inv g color' path \<and> progress color color' \<and> dict_get color' node = Some BLACK)"
  and dfs_neighbours_correct:
  "dfs_neighbours g depth nbs color path = Some (found, color', path') \<Longrightarrow>
     search_inv g color path \<Longrightarrow> path \<noteq> [] \<Longrightarrow> \<forall>n \<in> set nbs. dict_has g n \<longrightarrow> edge g (last path) n \<Longrightarrow>
     (if found then cycle_report g path'
      else path' = path \<and> search_inv g color' path \<and> progress color color' \<and>
           (\<forall>n \<in> set nbs. dict_has g n \<longrightarrow> dict_get color' n = Some BLACK))"
proof (induction g depth node color path and g depth nbs color path arbitrary: found color' path' and found color' path'
    rule: dfs_dfs_neighbours.induct)
  case (2 g depth node color path)
  let ?nbs = "dict_get_or g node []"
  have inv: "search_inv g (dict_set node GRAY color) (path @ [node])" by (rule enter_inv [OF "2.prems"(2-4)])
  note has = search_invD(1) [OF "2.prems"(2,3)]
  obtain found1 color1 path1 where nb: "dfs_neighbours g depth ?nbs (dict_set node GRAY color) (path @ [node]) = Some (found1, color1, path1)"
    using "2.prems"(1) by (cases "dfs_neighbours g depth ?nbs (dict_set node GRAY color) (path @ [node])") auto
  have IH: "if found1 then cycle_report g path1
      else path1 = path @ [node] \<and> search_inv g color1 (path @ [node]) \<and> progress (dict_set node GRAY color) color1 \<and>
           (\<forall>n \<in> set ?nbs. dict_has g n \<longrightarrow> dict_get color1 n = Some BLACK)"
    using "2.IH" [OF nb inv] has by (simp add: edge_def)
  show ?case
  proof (cases found1)
    case True
    then show ?thesis using IH nb "2.prems"(1) by simp
  next
    case False
    then have "search_inv g (dict_set node BLACK color1) path" using IH by (intro leave_inv) auto
    moreover have "progress color (dict_set node BLACK color1)"
      using IH False "2.prems"(3) by (auto simp: progress_def)
    ultimately show ?thesis using IH False nb "2.prems"(1) by auto
  qed
next
  case (4 g depth nb nbs color path)
  show ?case
  proof (cases "dict_get color nb")
    case None
    then have "\<not> dict_has g nb" using "4.prems"(2) by (simp add: search_inv_def)
    then show ?thesis using "4.IH"(1) [OF None, of found color' path'] "4.prems" None by simp
  next
    case (Some col)
    note has = search_invD(1) [OF "4.prems"(2) Some]
    then have e: "edge g (last path) nb" using "4.prems"(4) by simp
    show ?thesis
    proof (cases col)
      case GRAY
      then show ?thesis using gray_report [OF "4.prems"(2) _ e] Some "4.prems"(1) by simp
    next
      case BLACK
      then show ?thesis using "4.IH"(4) [of col found color' path'] "4.prems" Some by (auto simp: progress_def)
    next
      case WHITE
      then obtain f1 c1 p1 where d: "dfs g depth nb color path = Some (f1, c1, p1)"
        using "4.prems"(1) Some by (cases "dfs g depth nb color path") auto
      have IH: "if f1 then cycle_report g p1
          else p1 = path \<and> search_inv g c1 path \<and> progress color c1 \<and> dict_get c1 nb = Some BLACK"
        using "4.IH"(2) [OF _ _ d] Some WHITE "4.prems"(2) e by simp
      show ?thesis
      proof (cases f1)
        case False
        then have p1: "p1 = path" and inv1: "search_inv g c1 path" and pr: "progress color c1" and black: "dict_get c1 nb = Some BLACK"
          using IH by simp_all
        have "dfs_neighbours g depth nbs c1 p1 = Some (found, color', path')" using d Some WHITE False "4.prems"(1) by simp
        from "4.IH"(3) [OF Some WHITE d refl _ refl this] have rest: "if found then cycle_report g path'
            else path' = path \<and> search_inv g color' path \<and> progress c1 color' \<and>
              (\<forall>n \<in> set nbs. dict_has g n \<longrightarrow> dict_get color' n = Some BLACK)"
          using False inv1 "4.prems"(3,4) unfolding p1 by simp
        then show ?thesis using progress_trans [OF pr] progress_black [OF _ black] by (cases found) auto
      qed (use IH d Some WHITE "4.prems"(1) in simp)
    qed
  qed
qed auto

section \<open>The search ends\<close>

definition whites :: "colors \<Rightarrow> string set" where
  "whites color = {x. dict_get color x = Some WHITE}"

lemma finite_whites [simp]: "finite (whites color)"
  by (rule finite_subset [of _ "fst ` set color"]) (force simp: whites_def dest: dict_get_SomeD)+

lemma whites_set [simp]: "whites (dict_set x c color) = (if c = WHITE then insert x (whites color) else whites color - {x})"
  by (auto simp: whites_def)

lemma dfs_whites:
  "dfs g depth node color path = Some (found, color', path') \<Longrightarrow> whites color' \<subseteq> whites color"
  and dfs_neighbours_whites:
  "dfs_neighbours g depth nbs color path = Some (found, color', path') \<Longrightarrow> whites color' \<subseteq> whites color"
proof (induction g depth node color path and g depth nbs color path arbitrary: found color' path' and found color' path'
    rule: dfs_dfs_neighbours.induct)
  case (2 g depth node color path)
  then show ?case by (fastforce split: option.splits bool.splits prod.splits)
next
  case (4 g depth nb nbs color path)
  show ?case
  proof (cases "dict_get color nb = Some WHITE")
    case True
    then obtain f c p where d: "dfs g depth nb color path = Some (f, c, p)"
      using "4.prems" by (cases "dfs g depth nb color path") auto
    have "whites c \<subseteq> whites color" using "4.IH"(2) [OF True refl d] .
    moreover have "\<not> f \<Longrightarrow> whites color' \<subseteq> whites c"
      using "4.IH"(3) [OF True refl d refl _ refl, of found color' path'] "4.prems" d True by simp
    ultimately show ?thesis using "4.prems" d True by (cases f) auto
  next
    case False
    then show ?thesis using "4.IH"(1,4) "4.prems" by (auto split: option.splits color.splits)
  qed
qed auto

text \<open>A depth of one call per module that has not been visited is enough.\<close>

lemma dfs_enough:
  "dict_get color node = Some WHITE \<Longrightarrow> card (whites color) \<le> depth \<Longrightarrow> dfs g depth node color path \<noteq> None"
  and dfs_neighbours_enough:
  "card (whites color) \<le> depth \<Longrightarrow> dfs_neighbours g depth nbs color path \<noteq> None"
proof (induction g depth node color path and g depth nbs color path rule: dfs_dfs_neighbours.induct)
  case (1 g node color path)
  then have "whites color \<noteq> {}" by (auto simp: whites_def)
  with "1.prems"(2) show ?case by simp
next
  case (2 g depth node color path)
  have "node \<in> whites color" using "2.prems"(1) by (simp add: whites_def)
  then have "card (whites color - {node}) \<le> depth" using "2.prems"(2) by simp
  then show ?case using "2.IH" by (auto split: option.splits bool.splits)
next
  case (4 g depth nb nbs color path)
  show ?case
  proof (cases "dict_get color nb = Some WHITE")
    case True
    then obtain f c p where d: "dfs g depth nb color path = Some (f, c, p)" using "4.IH"(2) "4.prems" by fastforce
    have "card (whites c) \<le> depth" using card_mono [OF finite_whites dfs_whites [OF d]] "4.prems" by simp
    then show ?thesis using "4.IH"(3) [OF True refl d refl _ refl] d True by (cases f) auto
  next
    case False
    then show ?thesis using "4.IH"(1,4) "4.prems" by (auto split: option.splits color.splits)
  qed
qed simp

lemma search_from_correct:
  assumes "search_inv g color []"
  shows "search_from g depth nodes color [] = Some (found, path') \<Longrightarrow>
     (if found then cycle_report g path'
      else \<exists>color'. search_inv g color' [] \<and> progress color color' \<and>
        (\<forall>n \<in> set nodes. dict_has g n \<longrightarrow> dict_get color' n = Some BLACK))"
  using assms
proof (induction nodes arbitrary: color)
  case Nil
  then show ?case by (auto intro: progress_refl)
next
  case (Cons node nodes)
  show ?case
  proof (cases "dict_get color node = Some WHITE")
    case True
    then obtain f c p where d: "dfs g depth node color [] = Some (f, c, p)"
      using Cons.prems(1) by (cases "dfs g depth node color []") auto
    note dc = dfs_correct [OF d Cons.prems(2) True]
    show ?thesis
    proof (cases f)
      case False
      then have "p = []" and inv: "search_inv g c []" and pr: "progress color c" and black: "dict_get c node = Some BLACK"
        using dc by simp_all
      then have "search_from g depth nodes c [] = Some (found, path')" using d False True Cons.prems(1) by simp
      from Cons.IH [OF this inv] show ?thesis using progress_trans [OF pr] progress_black [OF _ black] by (cases found) auto
    qed (use dc d True Cons.prems(1) in simp)
  next
    case False
    have "dict_get color node = None \<or> dict_get color node = Some BLACK"
      using False search_invD(2) [OF Cons.prems(2), of node] by (cases "dict_get color node") (auto, metis color.exhaust)
    then have known: "dict_has g node \<Longrightarrow> dict_get color node = Some BLACK"
      using Cons.prems(2) by (auto simp: search_inv_def)
    have "search_from g depth nodes color [] = Some (found, path')" using False Cons.prems(1) by simp
    from Cons.IH [OF this Cons.prems(2)] show ?thesis using known progress_black by (cases found) auto
  qed
qed

lemma search_from_enough:
  "card (whites color) \<le> depth \<Longrightarrow> search_from g depth nodes color path \<noteq> None"
proof (induction nodes arbitrary: color path)
  case (Cons node nodes)
  show ?case
  proof (cases "dict_get color node = Some WHITE")
    case True
    then obtain f c p where d: "dfs g depth node color path = Some (f, c, p)" using dfs_enough Cons.prems by fastforce
    have "card (whites c) \<le> depth" using card_mono [OF finite_whites dfs_whites [OF d]] Cons.prems by simp
    then show ?thesis using Cons.IH d True by (cases f) auto
  qed (use Cons in simp)
qed simp

lemma successively_tranclp: "successively R (x # q @ [y]) \<Longrightarrow> R\<^sup>+\<^sup>+ x y"
  by (induction q arbitrary: x) (auto intro: tranclp_into_tranclp2)

lemma report_cycle: "cycle_report g path \<Longrightarrow> \<exists>x. (edge g)\<^sup>+\<^sup>+ x x"
proof -
  assume "cycle_report g path"
  then obtain p x q where "successively (edge g) (p @ (x # q @ [x]))" by (auto simp: cycle_report_def)
  then have "successively (edge g) (x # q @ [x])" by (simp only: successively_append_iff)
  then show ?thesis using successively_tranclp by metis
qed

lemma initial_colors: "dict_get (map (\<lambda>node. (node, WHITE)) (dict_keys g)) x = (if dict_has g x then Some WHITE else None)"
proof -
  have "map_of (map (\<lambda>node. (node, WHITE)) ks) x = (if x \<in> set ks then Some WHITE else None)" for ks by (induction ks) auto
  then show ?thesis unfolding dict_get_def dict_has_keys by (simp add: comp_def)
qed

lemma initial_inv: "search_inv g (map (\<lambda>node. (node, WHITE)) (dict_keys g)) []"
  by (simp add: search_inv_def initial_colors)

lemma find_cycle_correct:
  assumes "length (dict_keys g) \<le> depth"
  shows "\<exists>found path. find_cycle depth g = Some (found, path) \<and> (found \<longleftrightarrow> (\<exists>x. (edge g)\<^sup>+\<^sup>+ x x)) \<and>
     (found \<longrightarrow> cycle_report g path)"
proof -
  let ?colors = "map (\<lambda>node. (node, WHITE)) (dict_keys g)"
  have "whites ?colors \<subseteq> set (dict_keys g)" by (auto simp: whites_def initial_colors dict_has_keys split: if_splits)
  then have "card (whites ?colors) \<le> card (set (dict_keys g))" by (rule card_mono [OF finite_set])
  then have "card (whites ?colors) \<le> depth" using card_length [of "dict_keys g"] assms by linarith
  from search_from_enough [OF this] obtain found path where f: "find_cycle depth g = Some (found, path)"
    unfolding find_cycle_def by fastforce
  note correct = search_from_correct [OF initial_inv f [unfolded find_cycle_def]]
  have "(edge g)\<^sup>+\<^sup>+ x x \<Longrightarrow> found" for x
  proof (rule ccontr)
    assume x: "(edge g)\<^sup>+\<^sup>+ x x" and "\<not> found"
    then obtain color' where c: "search_inv g color' []" "\<forall>n \<in> set (dict_keys g). dict_has g n \<longrightarrow> dict_get color' n = Some BLACK"
      using correct by auto
    have "dict_has g x" using x by (auto simp: edge_def dest: tranclpD)
    then show False using c search_invD(4) [OF c(1)] x by (simp add: dict_has_keys)
  qed
  then show ?thesis using f correct report_cycle by (cases found) auto
qed

section \<open>Properties\<close>

lemma cycles_checked:
  assumes "length (dict_keys (import_graph files)) \<le> depth"
  shows "\<exists>r. check_import_cycles depth files = Some r \<and>
     (cr_passed r \<longleftrightarrow> \<not> (\<exists>x. (edge (import_graph files))\<^sup>+\<^sup>+ x x)) \<and>
     (\<not> cr_passed r \<longrightarrow> (\<exists>path. cycle_report (import_graph files) path \<and>
        cr_details r = [''  Cycle detected: '' @ str_join '' -> '' path]))"
proof -
  obtain found path where f: "find_cycle depth (import_graph files) = Some (found, path)"
      "found \<longleftrightarrow> (\<exists>x. (edge (import_graph files))\<^sup>+\<^sup>+ x x)" "found \<longrightarrow> cycle_report (import_graph files) path"
    using find_cycle_correct [OF assms] by blast
  show ?thesis
  proof (cases found)
    case True
    then show ?thesis using f by (simp add: check_import_cycles_def del: append.simps) blast
  qed (use f in \<open>simp add: check_import_cycles_def\<close>)
qed

text \<open>
  The relation that the check is about, said without its graph: a file of one of the ten layers imports another one, by
  a name of the packages \<^verbatim>\<open>runtime\<close> or \<^verbatim>\<open>services\<close>, which stands for a module, or else for a package.
\<close>

definition in_layers :: "source_file \<Rightarrow> bool" where
  "in_layers f \<longleftrightarrow> ''__pycache__'' \<notin> set (sf_parts f) \<and>
     hd (sf_parts f) \<in> set [''core'', ''kernel'', ''control_plane'', ''agents'', ''ai_gateway'', ''infrastructure'',
       ''api'', ''config'', ''runtime'', ''services'']"

definition imports_name :: "source_file \<Rightarrow> string \<Rightarrow> bool" where
  "imports_name f imp \<longleftrightarrow> (\<exists>nodes. sf_tree f = Some nodes \<and>
     ((\<exists>names. Import names \<in> set nodes \<and> imp \<in> set names) \<or> imp \<noteq> [] \<and> ImportFrom (Some imp) \<in> set nodes))"

definition runtime_or_services :: "string \<Rightarrow> bool" where
  "runtime_or_services imp \<longleftrightarrow> imp = ''runtime'' \<or> prefix ''runtime.'' imp \<or> imp = ''services'' \<or> prefix ''services.'' imp"

definition names_file :: "source_file list \<Rightarrow> string \<Rightarrow> string \<Rightarrow> bool" where
  "names_file files imp v \<longleftrightarrow>
     (let parts = split_dot imp;
          module = butlast parts @ [last parts @ ''.py''];
          package = parts @ [''__init__.py'']
      in if \<exists>f \<in> set files. sf_parts f = module then v = str_join ''/'' module
         else (\<exists>f \<in> set files. sf_parts f = package) \<and> v = str_join ''/'' package)"

definition file_imports :: "source_file list \<Rightarrow> string \<Rightarrow> string \<Rightarrow> bool" where
  "file_imports files u v \<longleftrightarrow>
     (\<exists>f \<in> set files. in_layers f \<and> rel_text f = u \<and>
        (\<exists>imp. imports_name f imp \<and> runtime_or_services imp \<and> names_file files imp v)) \<and>
     (\<exists>f \<in> set files. in_layers f \<and> rel_text f = v)"

lemma split_dot_not_Nil [simp]: "split_dot s \<noteq> []"
  by (induction s) (auto split: list.splits)

lemma hd_split_dot: "hd (split_dot s) = takeWhile (\<lambda>c. c \<noteq> CHR ''.'') s"
proof (induction s)
  case (Cons c s)
  then show ?case by (cases "split_dot s") auto
qed simp

lemma takeWhile_word:
  assumes "\<forall>c \<in> set w. P c" "\<not> P d"
  shows "takeWhile P s = w \<longleftrightarrow> s = w \<or> (\<exists>d' rest. \<not> P d' \<and> s = w @ d' # rest)"
proof
  assume t: "takeWhile P s = w"
  have s: "s = takeWhile P s @ dropWhile P s" by simp
  show "s = w \<or> (\<exists>d' rest. \<not> P d' \<and> s = w @ d' # rest)"
  proof (cases "dropWhile P s")
    case (Cons d' rest)
    then have "\<not> P d'" using hd_dropWhile [of P s] by simp
    then show ?thesis using s t Cons by metis
  next
    case Nil
    then show ?thesis using s t by (metis append_Nil2)
  qed
next
  assume "s = w \<or> (\<exists>d' rest. \<not> P d' \<and> s = w @ d' # rest)"
  then show "takeWhile P s = w" using assms(1) by (auto simp: takeWhile_append takeWhile_eq_all_conv)
qed

lemma project_import_iff: "is_project_import imp \<longleftrightarrow> runtime_or_services imp"
proof -
  have word: "takeWhile (\<lambda>c. c \<noteq> CHR ''.'') imp = w \<longleftrightarrow> imp = w \<or> prefix (w @ ''.'') imp" if "CHR ''.'' \<notin> set w" for w
    using takeWhile_word [of w "\<lambda>c. c \<noteq> CHR ''.''" "CHR ''.''" imp] that by (auto simp: prefix_def)
  show ?thesis
    using word [of "''runtime''"] word [of "''services''"] by (auto simp: is_project_import_def runtime_or_services_def hd_split_dot)
qed

lemma extracted_iff: "imp \<in> set (extract_imports f) \<longleftrightarrow> imports_name f imp"
proof -
  have "imp \<in> set (node_imports n) \<longleftrightarrow> (\<exists>names. n = Import names \<and> imp \<in> set names) \<or> imp \<noteq> [] \<and> n = ImportFrom (Some imp)" for n
    by (cases n rule: node_imports.cases) auto
  note names = this
  show ?thesis
  proof (cases "sf_tree f")
    case (Some nodes)
    then have "imp \<in> set (extract_imports f) \<longleftrightarrow> (\<exists>n \<in> set nodes. imp \<in> set (node_imports n))" by (simp add: extract_imports_def)
    then show ?thesis using Some by (simp only: names imports_name_def option.inject) blast
  qed (simp add: extract_imports_def imports_name_def)
qed

lemma module_file_iff: "module_file files imp = Some v \<longleftrightarrow> names_file files imp v"
proof -
  have "p \<in> set (map sf_parts files) \<longleftrightarrow> (\<exists>f \<in> set files. sf_parts f = p)" for p by auto
  then show ?thesis unfolding module_file_def names_file_def Let_def by (simp only: split: if_splits) auto
qed

lemma module_deps_iff:
  "v \<in> set (module_deps files f) \<longleftrightarrow> (\<exists>imp. imports_name f imp \<and> runtime_or_services imp \<and> names_file files imp v)"
proof -
  have "v \<in> set (List.map_filter h xs) \<longleftrightarrow> (\<exists>x \<in> set xs. h x = Some v)" for h :: "string \<Rightarrow> string option" and xs
    by (induction xs) (auto simp: List.map_filter_simps split: option.splits)
  then show ?thesis
    by (simp add: module_deps_def Bex_def extracted_iff project_import_iff module_file_iff [symmetric] if_distrib [where f = "\<lambda>x. x = _"]) metis
qed

lemma add_modules_other:
  "\<forall>f \<in> set fs. get_layer f = None \<or> rel_text f \<noteq> u \<Longrightarrow> dict_get (fold (add_module files) fs g) u = dict_get g u"
  by (induction fs arbitrary: g) (auto simp: add_module_def)

lemma add_modules_own:
  "distinct (map rel_text fs) \<Longrightarrow> f \<in> set fs \<Longrightarrow> get_layer f \<noteq> None \<Longrightarrow>
     dict_get (fold (add_module files) fs g) (rel_text f) = Some (module_deps files f)"
proof (induction fs arbitrary: g)
  case (Cons h fs)
  show ?case
  proof (cases "f = h")
    case True
    have "rel_text h \<notin> set (map rel_text fs)" using Cons.prems(1) by simp
    then have "\<forall>f' \<in> set fs. get_layer f' = None \<or> rel_text f' \<noteq> rel_text h" by (metis image_eqI set_map)
    moreover obtain l where "get_layer h = Some l" using Cons.prems(3) True by auto
    ultimately show ?thesis using True by (simp add: add_modules_other add_module_def [of files h])
  next
    case False
    then show ?thesis using Cons by simp
  qed
qed simp

lemma discovered:
  "f \<in> set (discover_python_files True files) \<and> get_layer f \<noteq> None \<longleftrightarrow> f \<in> set files \<and> in_layers f"
  by (auto simp: discover_python_files_def get_layer_def in_layers_def split: if_splits)

lemma import_graph_get:
  assumes "distinct (map rel_text files)"
  shows "dict_get (import_graph files) u = Some deps \<longleftrightarrow>
     (\<exists>f \<in> set files. in_layers f \<and> rel_text f = u \<and> deps = module_deps files f)"
proof -
  let ?fs = "discover_python_files True files"
  have "distinct (map rel_text ?fs)"
    using assms by (auto simp: discover_python_files_def distinct_map inj_on_def)
  note own = add_modules_own [OF this]
  show ?thesis
  proof (cases "\<exists>f \<in> set ?fs. get_layer f \<noteq> None \<and> rel_text f = u")
    case True
    then obtain f where f: "f \<in> set ?fs" "get_layer f \<noteq> None" "rel_text f = u" by blast
    have "f' = f" if "f' \<in> set files" "rel_text f' = u" for f'
      using assms f discovered [of f files] that by (auto simp: distinct_map inj_on_def)
    then show ?thesis using own [OF f(1,2), of files "[]"] f discovered [of f files] by (auto simp: import_graph_def)
  next
    case False
    then have "dict_get (import_graph files) u = dict_get ([] :: graph) u"
      unfolding import_graph_def by (intro add_modules_other) blast
    moreover have "\<not> (\<exists>f \<in> set files. in_layers f \<and> rel_text f = u)" using False discovered [of _ files] by blast
    ultimately show ?thesis by (auto simp: dict_get_def)
  qed
qed

lemma import_graph_edges:
  assumes "distinct (map rel_text files)"
  shows "edge (import_graph files) = file_imports files"
proof (intro ext)
  fix u v
  have has: "dict_has (import_graph files) x \<longleftrightarrow> (\<exists>f \<in> set files. in_layers f \<and> rel_text f = x)" for x
    using import_graph_get [OF assms, of x] by (metis dict_has_def not_None_eq)
  show "edge (import_graph files) u v = file_imports files u v"
  proof (cases "dict_get (import_graph files) u")
    case None
    then show ?thesis using has [of u] by (auto simp: edge_def file_imports_def dict_has_def)
  next
    case (Some deps)
    then obtain f where f: "f \<in> set files" "in_layers f" "rel_text f = u" "deps = module_deps files f"
      using import_graph_get [OF assms] by blast
    have "f' = f" if "f' \<in> set files" "rel_text f' = u" for f'
      using assms f(1,3) that by (auto simp: distinct_map inj_on_def)
    then have "(\<exists>f' \<in> set files. in_layers f' \<and> rel_text f' = u \<and> P f') \<longleftrightarrow> P f" for P using f(1-3) by blast
    moreover have "edge (import_graph files) u v \<longleftrightarrow> dict_has (import_graph files) v \<and> v \<in> set deps"
      using Some by (auto simp: edge_def dict_has_def dict_get_or_def)
    ultimately show ?thesis by (simp only: file_imports_def has f(4) module_deps_iff) blast
  qed
qed

text \<open>
  Property C34. The import-cycle check is exact for what it looks at: with a recursion depth of at least the number of
  modules, and files with different paths, it returns; it passes exactly when no file of the ten layers imports
  itself through a chain of imports by names of the packages \<^verbatim>\<open>runtime\<close> and \<^verbatim>\<open>services\<close>; and when it fails, the
  reported path is a chain of such imports that ends where it has been before. Imports by any other name are not seen
  (lemma layer_checks_blind).
\<close>

theorem import_cycles_exact:
  assumes "length (dict_keys (import_graph files)) \<le> depth" "distinct (map rel_text files)"
  shows "\<exists>r. check_import_cycles depth files = Some r \<and>
     (cr_passed r \<longleftrightarrow> \<not> (\<exists>x. (file_imports files)\<^sup>+\<^sup>+ x x)) \<and>
     (\<not> cr_passed r \<longrightarrow> (\<exists>path p x q. successively (file_imports files) path \<and> path = p @ [x] @ q @ [x] \<and>
        cr_details r = [''  Cycle detected: '' @ str_join '' -> '' path]))"
  using cycles_checked [OF assms(1)] unfolding cycle_report_def import_graph_edges [OF assms(2)] by blast

definition cyclic_sample :: "source_file list" where
  "cyclic_sample =
     [\<lparr>sf_parts = [''runtime'', ''a.py''], sf_tree = Some [Import [''runtime.b'']]\<rparr>,
      \<lparr>sf_parts = [''runtime'', ''b.py''], sf_tree = Some [ImportFrom (Some ''runtime.a'')]\<rparr>]"

theorem import_cycles_exact_witness:
  "\<exists>r path. check_import_cycles 1000 cyclic_sample = Some r \<and> \<not> cr_passed r \<and> successively (file_imports cyclic_sample) path \<and>
     cr_details r = [''  Cycle detected: '' @ str_join '' -> '' path]"
proof -
  have dist: "distinct (map rel_text cyclic_sample)" by code_simp
  have "length (dict_keys (import_graph cyclic_sample)) \<le> 1000" by code_simp
  moreover have "map_option cr_passed (check_import_cycles 2 cyclic_sample) = Some False" by code_simp
  moreover have "length (dict_keys (import_graph cyclic_sample)) \<le> 2" by code_simp
  ultimately show ?thesis
    using import_cycles_exact [OF _ dist, of 1000] import_cycles_exact [OF _ dist, of 2] by fastforce
qed

lemma add_module_no_deps:
  assumes "\<forall>imp \<in> set (extract_imports f). \<not> is_project_import imp" "\<forall>vs \<in> set (dict_values g). vs = []"
  shows "\<forall>vs \<in> set (dict_values (add_module files f g)). vs = []"
proof -
  have "module_deps files f = []" using assms(1) by (simp add: module_deps_def List.map_filter_def filter_empty_conv)
  moreover have "vs = []" if "vs \<in> set (dict_values (dict_set k [] g))" for vs k
  proof -
    from that obtain u where "(u, vs) \<in> set (dict_set k [] g)" by (auto simp: dict_values_def)
    from dict_set_in [OF this] show ?thesis using assms(2) by (force simp: dict_values_def)
  qed
  ultimately show ?thesis using assms(2) by (simp add: add_module_def)
qed

lemma add_modules_no_deps:
  "\<forall>f \<in> set fs. \<forall>imp \<in> set (extract_imports f). \<not> is_project_import imp \<Longrightarrow> \<forall>vs \<in> set (dict_values g). vs = [] \<Longrightarrow>
     \<forall>vs \<in> set (dict_values (fold (add_module files) fs g)). vs = []"
proof (induction fs arbitrary: g)
  case (Cons f fs)
  have "\<forall>vs \<in> set (dict_values (add_module files f g)). vs = []" using Cons.prems by (intro add_module_no_deps) auto
  then show ?case using Cons.IH Cons.prems(1) by simp
qed simp

text \<open>
  The layer checks see only imports of \<^verbatim>\<open>runtime\<close> and \<^verbatim>\<open>services\<close>: in a project without a
  \<^verbatim>\<open>runtime\<close> directory whose files import neither package, dependency direction, layer isolation and the
  cycle check pass, whatever its layers import of each other.
\<close>

lemma layer_checks_blind:
  assumes "\<forall>f \<in> set files. hd (sf_parts f) \<noteq> ''runtime'' \<and> (\<forall>imp \<in> set (extract_imports f). \<not> is_project_import imp)"
    and "length (dict_keys (import_graph files)) \<le> depth"
  shows "cr_passed (check_dependency_direction files) \<and> cr_passed (check_layer_isolation files) \<and>
     (\<exists>r. check_import_cycles depth files = Some r \<and> cr_passed r)"
proof -
  have sub: "set (discover_python_files True files) \<subseteq> set files" by (auto simp: discover_python_files_def)
  have "cr_passed (check_dependency_direction files)"
    using assms(1) sub by (force simp: check_dependency_direction_def check_result_def direction_violated_def filter_empty_conv split: option.splits)
  moreover have "cr_passed (check_layer_isolation files)"
    using assms(1) sub by (auto simp: check_layer_isolation_def check_result_def)
  moreover have "\<forall>vs \<in> set (dict_values (import_graph files)). vs = []"
    unfolding import_graph_def using assms(1) sub by (intro add_modules_no_deps) (auto simp: dict_values_def)
  then have "\<not> edge (import_graph files) x y" for x y
    by (cases "dict_get (import_graph files) x")
      (fastforce simp: edge_def dict_get_or_def dict_values_def dest: dict_get_SomeD)+
  then have "\<not> (edge (import_graph files))\<^sup>+\<^sup>+ x x" for x by (auto dest: tranclpD)
  ultimately show ?thesis using cycles_checked [OF assms(2)] by auto
qed

lemma layer_checks_blind_witness:
  "cr_passed (check_dependency_direction
     [\<lparr>sf_parts = [''core'', ''a.py''], sf_tree = Some [Import [''api.rest.app'']]\<rparr>,
      \<lparr>sf_parts = [''api'', ''rest'', ''app.py''], sf_tree = Some [Import [''core.a'']]\<rparr>])"
  (is "cr_passed (check_dependency_direction ?files)")
proof -
  have "\<forall>f \<in> set ?files. hd (sf_parts f) \<noteq> ''runtime'' \<and> (\<forall>imp \<in> set (extract_imports f). \<not> is_project_import imp)"
    by code_simp
  moreover have "length (dict_keys (import_graph ?files)) \<le> 2" by code_simp
  ultimately show ?thesis using layer_checks_blind [of ?files 2] by blast
qed

end
