(* ===== verification/Capability_Catalog.thy ===== *)
theory Capability_Catalog
  imports Capability
begin

text \<open>
  \<^verbatim>\<open>core/policies/capability_catalog.py\<close>: the built-in capabilities, and the queries over them. The
  version order is, as in \<^verbatim>\<open>Capability\<close>, an argument that gives \<^const>\<open>None\<close> where \<^verbatim>\<open>Version\<close> raises.
\<close>

text \<open>The constructor with the fields that the catalog leaves at their defaults.\<close>

definition builtin :: "string \<Rightarrow> string \<Rightarrow> CapabilityCategory \<Rightarrow> string \<Rightarrow> string \<Rightarrow> Capability" where
  "builtin cap_id name category risk_level description =
     \<lparr>cp_id = cap_id, cp_name = name, cp_category = category, cp_risk_level = risk_level,
      cp_version = ''1.0'', cp_description = description, cp_requirements = [], cp_tags = [], cp_metadata = []\<rparr>"

definition CHAT_GENERATE :: Capability where
  "CHAT_GENERATE = builtin ''chat.generate'' ''Chat Generation'' CAT_MODEL ''low''
     ''Generate chat completions''"

definition CHAT_STREAM :: Capability where
  "CHAT_STREAM = builtin ''chat.stream'' ''Chat Streaming'' CAT_MODEL ''low''
     ''Stream chat completions''"

definition EMBEDDING_GENERATE :: Capability where
  "EMBEDDING_GENERATE = builtin ''embedding.generate'' ''Embedding Generation'' CAT_MODEL ''low''
     ''Generate text embeddings''"

definition IMAGE_GENERATE :: Capability where
  "IMAGE_GENERATE = builtin ''image.generate'' ''Image Generation'' CAT_MEDIA ''medium''
     ''Generate images from prompts''"

definition IMAGE_EDIT :: Capability where
  "IMAGE_EDIT = builtin ''image.edit'' ''Image Editing'' CAT_MEDIA ''medium''
     ''Edit existing images''"

definition VISION_DETECT :: Capability where
  "VISION_DETECT = builtin ''vision.detect'' ''Object Detection'' CAT_MEDIA ''medium''
     ''Detect objects in images''"

definition VISION_CAPTION :: Capability where
  "VISION_CAPTION = builtin ''vision.caption'' ''Image Captioning'' CAT_MEDIA ''low''
     ''Generate image captions''"

definition SPEECH_TTS :: Capability where
  "SPEECH_TTS = builtin ''speech.tts'' ''Text-to-Speech'' CAT_MEDIA ''low''
     ''Text-to-speech synthesis''"

definition SPEECH_STT :: Capability where
  "SPEECH_STT = builtin ''speech.stt'' ''Speech-to-Text'' CAT_MEDIA ''low''
     ''Speech-to-text transcription''"

definition CODE_GENERATE :: Capability where
  "CODE_GENERATE = builtin ''code.generate'' ''Code Generation'' CAT_CODE ''medium''
     ''Generate source code''"

definition CODE_REVIEW :: Capability where
  "CODE_REVIEW = builtin ''code.review'' ''Code Review'' CAT_CODE ''medium''
     ''Review source code for issues''"

definition AGENT_RUN :: Capability where
  "AGENT_RUN = builtin ''agent.run'' ''Agent Execution'' CAT_MODEL ''medium''
     ''Run autonomous agent loops''"

definition TOOL_EXECUTE :: Capability where
  "TOOL_EXECUTE = builtin ''tool.execute'' ''Tool Execution'' CAT_TOOL ''medium''
     ''Execute external tools and APIs''"

definition FILESYSTEM_READ :: Capability where
  "FILESYSTEM_READ = builtin ''filesystem.read'' ''Filesystem Read'' CAT_FILESYSTEM ''low''
     ''Read files from filesystem''"

definition FILESYSTEM_WRITE :: Capability where
  "FILESYSTEM_WRITE = builtin ''filesystem.write'' ''Filesystem Write'' CAT_FILESYSTEM ''high''
     ''Write files to filesystem''"

definition NETWORK_EGRESS :: Capability where
  "NETWORK_EGRESS = builtin ''network.egress'' ''Network Egress'' CAT_NETWORK ''critical''
     ''Make outbound network requests''"

definition catalog_all :: "Capability list" where
  "catalog_all = [CHAT_GENERATE, CHAT_STREAM, EMBEDDING_GENERATE, IMAGE_GENERATE,
     IMAGE_EDIT, VISION_DETECT, VISION_CAPTION, SPEECH_TTS,
     SPEECH_STT, CODE_GENERATE, CODE_REVIEW, AGENT_RUN,
     TOOL_EXECUTE, FILESYSTEM_READ, FILESYSTEM_WRITE, NETWORK_EGRESS]"

definition by_id :: "string \<Rightarrow> Capability option" where
  "by_id cap_id = find (\<lambda>cap. cp_id cap = cap_id) catalog_all"

definition resolve_version ::
  "(string \<Rightarrow> string \<Rightarrow> bool option) \<Rightarrow> string \<Rightarrow> string option \<Rightarrow> Capability option" where
  "resolve_version version_eq cap_id version_constraint =
     (case by_id cap_id of
        None \<Rightarrow> None
      | Some cap \<Rightarrow>
          (case version_constraint of
             None \<Rightarrow> Some cap
           | Some v \<Rightarrow>
               (case version_eq (cp_version cap) v of
                  Some same \<Rightarrow> if same then Some cap else None
                | None \<Rightarrow> if cp_version cap = v then Some cap else None)))"

definition catalog_get_compatible ::
  "(string \<Rightarrow> string \<Rightarrow> bool option) \<Rightarrow> string \<Rightarrow> string option \<Rightarrow> Capability list" where
  "catalog_get_compatible version_eq cap_id version_constraint =
     (case by_id cap_id of
        None \<Rightarrow> []
      | Some cap \<Rightarrow>
          (case version_constraint of
             None \<Rightarrow> [cap]
           | Some v \<Rightarrow>
               (case resolve_version version_eq cap_id version_constraint of Some c \<Rightarrow> [c] | None \<Rightarrow> [])))"

definition catalog_query :: "CapabilityCategory option \<Rightarrow> string option \<Rightarrow> Capability list" where
  "catalog_query category risk_level =
     filter (\<lambda>cap. \<not> (category \<noteq> None \<and> category \<noteq> Some (cp_category cap)) \<and>
                    \<not> (risk_level \<noteq> None \<and> risk_level \<noteq> Some (cp_risk_level cap))) catalog_all"

section \<open>Registering a list of capabilities\<close>

lemmas catalog_defs = CHAT_GENERATE_def CHAT_STREAM_def EMBEDDING_GENERATE_def IMAGE_GENERATE_def IMAGE_EDIT_def VISION_DETECT_def
  VISION_CAPTION_def SPEECH_TTS_def SPEECH_STT_def CODE_GENERATE_def CODE_REVIEW_def AGENT_RUN_def
  TOOL_EXECUTE_def FILESYSTEM_READ_def FILESYSTEM_WRITE_def NETWORK_EGRESS_def

lemma dict_has_snoc: "dict_has (d @ [(k, v)]) k' \<longleftrightarrow> k' = k \<or> dict_has d k'"
  by (auto simp: dict_has_def dict_get_def map_add_def split: option.splits)

text \<open>Valid capabilities with different identifiers are registered in the order of the list.\<close>

lemma register_each_distinct:
  assumes "\<forall>c \<in> set cs. Capability_validate c = []" "distinct (map cp_id cs)"
    "\<forall>c \<in> set cs. \<not> dict_has (cr_capabilities r) (cp_id c)"
  shows "register_each cs r = Inr (r\<lparr>cr_capabilities := cr_capabilities r @ map (\<lambda>c. (cp_id c, c)) cs\<rparr>)"
  using assms
proof (induction cs arbitrary: r)
  case (Cons c cs)
  let ?r = "r\<lparr>cr_capabilities := cr_capabilities r @ [(cp_id c, c)]\<rparr>"
  have "\<forall>d \<in> set cs. \<not> dict_has (cr_capabilities ?r) (cp_id d)"
    using Cons.prems by (auto simp: dict_has_snoc image_iff dest: sym)
  with Cons.IH [of ?r] Cons.prems show ?case by (simp add: CapabilityRegistry_register_def dict_set_absent)
qed simp

lemma by_position: "dict_get (map (\<lambda>c. (f c, c)) cs) k = find (\<lambda>c. f c = k) cs"
  by (induction cs) (auto simp: dict_get_def)

lemma filter_distinct: "distinct (map f cs) \<Longrightarrow>
    filter (\<lambda>c. f c = k \<and> P c) cs = (case find (\<lambda>c. f c = k) cs of None \<Rightarrow> [] | Some c \<Rightarrow> if P c then [c] else [])"
proof (induction cs)
  case (Cons c cs)
  have "find (\<lambda>d. f d = f c) cs = None" using Cons.prems by (auto simp: find_None_iff image_iff)
  with Cons show ?case by (auto simp: filter_empty_conv)
qed simp

lemma catalog_ids: "map cp_id catalog_all =
   [''chat.generate'', ''chat.stream'', ''embedding.generate'', ''image.generate'', ''image.edit'',
    ''vision.detect'', ''vision.caption'', ''speech.tts'', ''speech.stt'', ''code.generate'', ''code.review'',
    ''agent.run'', ''tool.execute'', ''filesystem.read'', ''filesystem.write'', ''network.egress'']"
  by (simp add: catalog_all_def catalog_defs builtin_def)

lemma catalog_distinct: "distinct (map cp_id catalog_all)"
  unfolding catalog_ids by simp

lemma catalog_built: "c \<in> set catalog_all \<Longrightarrow> Capability_validate c = [] \<and> cp_version c = ''1.0'' \<and>
    cp_risk_level c \<in> {''low'', ''medium'', ''high'', ''critical''}"
  by (auto simp: catalog_all_def catalog_defs builtin_def Capability_validate_def require_def)

lemma catalog_registered:
  "CapabilityRegistry_init catalog_all = Inr \<lparr>cr_capabilities = map (\<lambda>c. (cp_id c, c)) catalog_all\<rparr>"
  unfolding CapabilityRegistry_init_def
  using register_each_distinct [of catalog_all "\<lparr>cr_capabilities = []\<rparr>"] catalog_built catalog_distinct
  by (simp add: dict_has_def)

lemma by_id_in: "by_id k = Some c \<Longrightarrow> c \<in> set catalog_all \<and> cp_id c = k"
  unfolding by_id_def by (auto simp: find_Some_iff)

section \<open>Properties\<close>

text \<open>
  The static catalog and the runtime registry answer alike: registering the built-in
  capabilities succeeds, and the registry then gives the same entity for every identifier, the same
  answer to every query by category and risk, and the same compatible capabilities for every version
  constraint, provided the version comparison accepts the catalog's own version 1.0.
\<close>

lemma catalog_registry_agree:
  assumes "version_eq ''1.0'' ''1.0'' = Some True"
  shows "\<exists>r. CapabilityRegistry_init catalog_all = Inr r \<and> capability_registry_wf r \<and>
     CapabilityRegistry_get r k = by_id k \<and> CapabilityRegistry_query r category risk = catalog_query category risk \<and>
     get_compatible version_eq r k v = catalog_get_compatible version_eq k v"
proof -
  let ?r = "\<lparr>cr_capabilities = map (\<lambda>c. (cp_id c, c)) catalog_all\<rparr>"
  have vals: "dict_values (cr_capabilities ?r) = catalog_all"
    by (simp add: dict_values_def comp_def)
  have get: "CapabilityRegistry_get ?r k = by_id k"
    by (simp add: CapabilityRegistry_get_def by_position by_id_def)
  have query: "CapabilityRegistry_query ?r category risk = catalog_query category risk"
    unfolding CapabilityRegistry_query_def vals catalog_query_def
    by (rule filter_cong) (auto split: option.splits)
  have compat: "get_compatible version_eq ?r k v = catalog_get_compatible version_eq k v"
  proof (cases "by_id k")
    case (Some c)
    then have v1: "cp_version c = ''1.0''" using by_id_in catalog_built by blast
    have "w \<noteq> ''1.0''" if "version_eq ''1.0'' w = None" for w using that assms by auto
    then show ?thesis
      using Some v1 unfolding get_compatible_def vals get filter_distinct [OF catalog_distinct]
      by (auto simp: catalog_get_compatible_def resolve_version_def by_id_def split: option.splits)
  qed (simp add: get_compatible_def get catalog_get_compatible_def)
  show ?thesis
    using catalog_registered CapabilityRegistry_init_wf [OF catalog_registered] get query compat by blast
qed

lemma catalog_registry_agree_witness:
  "\<exists>r. CapabilityRegistry_init catalog_all = Inr r \<and> capability_registry_wf r \<and>
     CapabilityRegistry_get r ''network.egress'' = by_id ''network.egress'' \<and>
     CapabilityRegistry_query r (Some CAT_MEDIA) (Some ''low'') = catalog_query (Some CAT_MEDIA) (Some ''low'') \<and>
     get_compatible (\<lambda>a b. Some (a = b)) r ''network.egress'' (Some ''1.0'') =
       catalog_get_compatible (\<lambda>a b. Some (a = b)) ''network.egress'' (Some ''1.0'')"
  by (rule catalog_registry_agree) simp

lemma catalog_examples:
  "catalog_query (Some CAT_MEDIA) (Some ''low'') = [VISION_CAPTION, SPEECH_TTS, SPEECH_STT]"
  "catalog_get_compatible (\<lambda>a b. Some (a = b)) ''network.egress'' (Some ''2.0'') = []"
  "catalog_get_compatible (\<lambda>a b. Some (a = b)) ''network.egress'' (Some ''1.0'') = [NETWORK_EGRESS]"
  by code_simp+

end
