(* ===== verification/Settings.thy ===== *)
theory Settings
  imports Plugin
begin

text \<open>
  \<^verbatim>\<open>config/settings.py\<close> and \<^verbatim>\<open>config/secrets.py\<close>: the runtime's configuration with the constraints and
  validators of its fields, and the secrets read from the environment and from a file. Reading the
  environment into typed values is the work of the package \<^verbatim>\<open>pydantic\<close>; the model starts from the typed
  values given for the fields. Text is ASCII where its case changes.
\<close>

definition chr_upper :: "char \<Rightarrow> char" where
  "chr_upper c = (if 97 \<le> (of_char c :: nat) \<and> (of_char c :: nat) \<le> 122 then char_of ((of_char c :: nat) - 32) else c)"

definition str_upper :: "string \<Rightarrow> string" where
  "str_upper s = map chr_upper s"

lemma case_idem [simp]: "str_upper (str_upper s) = str_upper s" "str_lower (str_lower s) = str_lower s"
proof -
  have "chr_upper (chr_upper c) = chr_upper c" for c
    by (auto simp: chr_upper_def)
  then show "str_upper (str_upper s) = str_upper s" by (simp add: str_upper_def)
  have "chr_lower (chr_lower c) = chr_lower c" for c
    by (auto simp: chr_lower_def)
  then show "str_lower (str_lower s) = str_lower s" by (simp add: str_lower_def)
qed

section \<open>Runtime settings\<close>

record RuntimeSettings =
  budget_max_steps :: int
  budget_max_tokens :: int
  budget_timeout_seconds :: int
  tenant_max_agents :: int
  tenant_max_steps_per_agent :: int
  tenant_max_tokens_per_agent :: int
  tenant_max_concurrent_executions :: int
  tenant_max_checkpoints :: int
  log_level :: string
  log_output :: string
  event_backend :: string
  redis_url :: string
  event_channel_prefix :: string
  quota_max_concurrent :: int
  quota_max_per_minute :: int
  quota_max_steps :: int
  quota_rate_limit_per_second :: rat
  quota_burst_size :: int
  api_title :: string
  api_version :: string

definition default_settings :: RuntimeSettings where
  "default_settings =
     \<lparr>budget_max_steps = 10, budget_max_tokens = 100000, budget_timeout_seconds = 3600,
      tenant_max_agents = 10, tenant_max_steps_per_agent = 10, tenant_max_tokens_per_agent = 100000,
      tenant_max_concurrent_executions = 5, tenant_max_checkpoints = 100,
      log_level = ''INFO'', log_output = ''stdout'',
      event_backend = ''memory'', redis_url = [], event_channel_prefix = ''kitematic'',
      quota_max_concurrent = 5, quota_max_per_minute = 60, quota_max_steps = 10,
      quota_rate_limit_per_second = 10, quota_burst_size = 100,
      api_title = ''Kitematic Runtime API'', api_version = ''0.2.0''\<rparr>"

text \<open>The bounds \<^verbatim>\<open>gt=0\<close> and \<^verbatim>\<open>ge=0\<close> of the fields; the result names the fields that break theirs.\<close>

definition out_of_bounds :: "RuntimeSettings \<Rightarrow> string list" where
  "out_of_bounds s =
     concat (map (\<lambda>(name, ok). require ok name)
       [(''budget_max_steps'', 0 < budget_max_steps s),
        (''budget_max_tokens'', 0 < budget_max_tokens s),
        (''budget_timeout_seconds'', 0 < budget_timeout_seconds s),
        (''tenant_max_agents'', 0 < tenant_max_agents s),
        (''tenant_max_steps_per_agent'', 0 < tenant_max_steps_per_agent s),
        (''tenant_max_tokens_per_agent'', 0 < tenant_max_tokens_per_agent s),
        (''tenant_max_concurrent_executions'', 0 < tenant_max_concurrent_executions s),
        (''tenant_max_checkpoints'', 0 < tenant_max_checkpoints s),
        (''quota_max_concurrent'', 0 \<le> quota_max_concurrent s),
        (''quota_max_per_minute'', 0 \<le> quota_max_per_minute s),
        (''quota_max_steps'', 0 \<le> quota_max_steps s),
        (''quota_rate_limit_per_second'', 0 \<le> quota_rate_limit_per_second s),
        (''quota_burst_size'', 0 \<le> quota_burst_size s)])"

definition ALLOWED_BACKENDS :: "string list" where
  "ALLOWED_BACKENDS = [''memory'', ''redis'', ''redis_pubsub'', ''redis_streams'', ''streams'']"

definition validate_event_backend :: "string \<Rightarrow> exn + string" where
  "validate_event_backend value =
     (let lower = str_lower value in
      if lower \<notin> set ALLOWED_BACKENDS
      then Inl (ValueError (''Invalid event_backend: '' @ str_repr value @ ''. Must be one of: '' @ list_repr ALLOWED_BACKENDS))
      else Inr lower)"

definition ALLOWED_LEVELS :: "string list" where
  "ALLOWED_LEVELS = [''CRITICAL'', ''DEBUG'', ''ERROR'', ''INFO'', ''WARNING'']"

definition validate_log_level :: "string \<Rightarrow> exn + string" where
  "validate_log_level value =
     (let upper = str_upper value in
      if upper \<notin> set ALLOWED_LEVELS
      then Inl (ValueError (''Invalid log level: '' @ str_repr value @ ''. Must be one of: '' @ list_repr ALLOWED_LEVELS))
      else Inr upper)"

text \<open>
  Constructing the settings from a value for every field: all violations are collected, and an
  accepted object carries the validators' results. The result on the left lists the violations.
\<close>

definition validator_errors :: "exn + string \<Rightarrow> string list" where
  "validator_errors r = (case r of Inl e \<Rightarrow> [exc_str e] | Inr _ \<Rightarrow> [])"

definition RuntimeSettings_init :: "RuntimeSettings \<Rightarrow> string list + RuntimeSettings" where
  "RuntimeSettings_init given =
     (let level = validate_log_level (log_level given); backend = validate_event_backend (event_backend given);
          errors = out_of_bounds given @ validator_errors level @ validator_errors backend
      in case (errors, level, backend) of
           ([], Inr l, Inr b) \<Rightarrow> Inr (given\<lparr>log_level := l, event_backend := b\<rparr>)
         | _ \<Rightarrow> Inl errors)"

section \<open>Secrets\<close>

record SecretsModel =
  admin_api_key :: string
  api_key_salt :: string

definition SECRET_FIELDS :: "string list" where
  "SECRET_FIELDS = [''admin_api_key'', ''api_key_salt'']"

text \<open>\<^verbatim>\<open>open(path)\<close> for reading: the text, \<^const>\<open>None\<close> for \<^verbatim>\<open>FileNotFoundError\<close>, any other error on the left.\<close>

definition open_read :: "fs \<Rightarrow> path \<Rightarrow> exn + string option" where
  "open_read fs p =
     (if is_dir fs p then Inl (OtherError (''[Errno 21] Is a directory: '' @ sq (path_text p)))
      else if \<exists>n \<in> set [1..<length p]. is_file fs (take n p)
      then Inl (OtherError (''[Errno 20] Not a directory: '' @ sq (path_text p)))
      else Inr (read_file fs p))"

text \<open>Iterating over a text file: the lines, with the universal newlines as separators.\<close>

fun file_lines :: "string \<Rightarrow> string list" where
  "file_lines [] = [[]]"
| "file_lines (c # cs) =
     (if of_char c \<in> {10, 13 :: nat} then [] # file_lines cs
      else case file_lines cs of [] \<Rightarrow> [[c]] | l # ls \<Rightarrow> (c # l) # ls)"

definition partition_eq :: "string \<Rightarrow> string \<times> string" where
  "partition_eq s = (takeWhile (\<lambda>c. c \<noteq> CHR ''='') s, drop 1 (dropWhile (\<lambda>c. c \<noteq> CHR ''='') s))"

definition env_secrets :: "(string \<Rightarrow> string option) \<Rightarrow> string \<Rightarrow> (string, string) dict" where
  "env_secrets environ env_prefix =
     fold (\<lambda>field data. case environ (env_prefix @ str_upper field) of
              Some (c # cs) \<Rightarrow> dict_set field (c # cs) data
            | _ \<Rightarrow> data) SECRET_FIELDS []"

definition read_line :: "string \<Rightarrow> (string, string) dict \<Rightarrow> (string, string) dict" where
  "read_line raw data =
     (let line = str_strip raw in
      if line = [] \<or> prefix ''#'' line \<or> CHR ''='' \<notin> set line then data
      else let (key, value) = partition_eq line; field = str_lower (str_strip key)
           in if field \<in> set SECRET_FIELDS \<and> \<not> dict_has data field then dict_set field (str_strip value) data else data)"

definition create_secrets_provider ::
  "(string \<Rightarrow> string option) \<Rightarrow> fs \<Rightarrow> path \<Rightarrow> string \<Rightarrow> string \<Rightarrow> exn + SecretsModel" where
  "create_secrets_provider environ fs cwd env_prefix secrets_file =
     (let data = env_secrets environ env_prefix;
          model = (\<lambda>d. \<lparr>admin_api_key = dict_get_or d ''admin_api_key'' [], api_key_salt = dict_get_or d ''api_key_salt'' []\<rparr>)
      in if secrets_file = [] then Inr (model data)
         else case open_read fs (join_path cwd secrets_file) of
                Inl e \<Rightarrow> Inl e
              | Inr None \<Rightarrow> Inr (model data)
              | Inr (Some txt) \<Rightarrow> Inr (model (fold read_line (file_lines txt) data)))"

section \<open>Lemmas\<close>

definition settings_ok :: "RuntimeSettings \<Rightarrow> bool" where
  "settings_ok s \<longleftrightarrow> out_of_bounds s = [] \<and> event_backend s \<in> set ALLOWED_BACKENDS \<and> log_level s \<in> set ALLOWED_LEVELS"

lemma allowed_fixed:
  "b \<in> set ALLOWED_BACKENDS \<Longrightarrow> str_lower b = b" "l \<in> set ALLOWED_LEVELS \<Longrightarrow> str_upper l = l"
  by (auto simp: ALLOWED_BACKENDS_def ALLOWED_LEVELS_def str_lower_def str_upper_def chr_lower_def chr_upper_def)

lemma validated_level: "validate_log_level v = Inr l \<longleftrightarrow> l = str_upper v \<and> l \<in> set ALLOWED_LEVELS"
  by (auto simp: validate_log_level_def Let_def)

lemma validated_backend: "validate_event_backend v = Inr b \<longleftrightarrow> b = str_lower v \<and> b \<in> set ALLOWED_BACKENDS"
  by (auto simp: validate_event_backend_def Let_def)

lemma out_of_bounds_frame [simp]: "out_of_bounds (s\<lparr>log_level := l, event_backend := b\<rparr>) = out_of_bounds s"
  by (simp add: out_of_bounds_def)

lemma settings_accepted: "RuntimeSettings_init given = Inr s \<longleftrightarrow>
    out_of_bounds given = [] \<and> validate_log_level (log_level given) = Inr (log_level s) \<and>
    validate_event_backend (event_backend given) = Inr (event_backend s) \<and>
    s = given\<lparr>log_level := log_level s, event_backend := event_backend s\<rparr>"
  by (auto simp: RuntimeSettings_init_def Let_def validator_errors_def split: list.splits sum.splits)

lemma default_settings_ok: "settings_ok default_settings"
  by (simp add: settings_ok_def out_of_bounds_def default_settings_def ALLOWED_BACKENDS_def ALLOWED_LEVELS_def require_def)

lemma settings_normal:
  assumes "RuntimeSettings_init given = Inr s"
  shows "settings_ok s" "RuntimeSettings_init s = Inr s"
proof -
  have s: "out_of_bounds given = []" "validate_log_level (log_level given) = Inr (log_level s)"
    "validate_event_backend (event_backend given) = Inr (event_backend s)"
    "s = given\<lparr>log_level := log_level s, event_backend := event_backend s\<rparr>"
    using assms unfolding settings_accepted by auto
  then have "out_of_bounds s = []" by (metis out_of_bounds_frame)
  with s show ok: "settings_ok s" by (auto simp: settings_ok_def validated_level validated_backend)
  then show "RuntimeSettings_init s = Inr s"
    by (simp add: settings_accepted settings_ok_def validated_level validated_backend allowed_fixed)
qed

text \<open>The value a line of a secrets file gives a field, if it is about that field.\<close>

definition line_value :: "string \<Rightarrow> string \<Rightarrow> string option" where
  "line_value field raw =
     (let line = str_strip raw; (key, value) = partition_eq line in
      if CHR ''='' \<in> set line \<and> \<not> prefix ''#'' line \<and> str_lower (str_strip key) = field
      then Some (str_strip value) else None)"

text \<open>What a secret should be: the environment's value, else the first line about it, else empty.\<close>

definition secret_value :: "(string \<Rightarrow> string option) \<Rightarrow> string \<Rightarrow> string list \<Rightarrow> string \<Rightarrow> string" where
  "secret_value environ env_prefix ls field =
     or_str (environ (env_prefix @ str_upper field))
       (case List.map_filter (line_value field) ls of [] \<Rightarrow> [] | v # _ \<Rightarrow> v)"

lemma read_line_get:
  assumes "field \<in> set SECRET_FIELDS"
  shows "dict_get (read_line raw d) field = (case dict_get d field of Some v \<Rightarrow> Some v | None \<Rightarrow> line_value field raw)"
proof -
  obtain k v where kv: "partition_eq (str_strip raw) = (k, v)" by force
  show ?thesis
    using assms by (auto simp: read_line_def line_value_def Let_def kv dict_has_def split: option.splits)
qed

lemma read_lines_get:
  assumes "field \<in> set SECRET_FIELDS"
  shows "dict_get (fold read_line ls d) field =
    (case dict_get d field of
       Some v \<Rightarrow> Some v
     | None \<Rightarrow> (case List.map_filter (line_value field) ls of [] \<Rightarrow> None | v # _ \<Rightarrow> Some v))"
  by (induction ls arbitrary: d)
    (auto simp: read_line_get [OF assms] List.map_filter_simps split: option.splits list.splits)

lemma env_secrets_get:
  assumes "field \<in> set SECRET_FIELDS"
  shows "dict_get (env_secrets environ env_prefix) field =
    (case environ (env_prefix @ str_upper field) of Some (c # cs) \<Rightarrow> Some (c # cs) | _ \<Rightarrow> None)"
  using assms by (auto simp: env_secrets_def SECRET_FIELDS_def split: option.splits list.splits)

lemma provided_secret:
  assumes "field \<in> set SECRET_FIELDS"
  shows "dict_get_or (fold read_line ls (env_secrets environ env_prefix)) field [] =
    secret_value environ env_prefix ls field"
  unfolding dict_get_or_def read_lines_get [OF assms] env_secrets_get [OF assms] secret_value_def or_str_def
  by (auto split: option.splits list.splits)

lemma env_only_secret:
  "field \<in> set SECRET_FIELDS \<Longrightarrow> dict_get_or (env_secrets environ env_prefix) field [] = secret_value environ env_prefix [] field"
  using provided_secret [of field "[]"] by simp

lemma file_lines_nonempty: "file_lines s \<noteq> []"
  by (induction s) (auto split: list.splits)

lemma file_lines_append: "\<forall>c \<in> set l. of_char c \<notin> {10, 13 :: nat} \<Longrightarrow> file_lines (l @ CHR 0x0A # s) = l # file_lines s"
  by (induction l) (auto simp: file_lines_nonempty)

lemma dropWhile_same: "length (dropWhile P xs) = length xs \<Longrightarrow> dropWhile P xs = xs"
  by (metis add_cancel_left_left append_Nil length_0_conv length_append takeWhile_dropWhile_id)

lemma stripped_end:
  assumes "str_strip a = a"
  shows "dropWhile is_space (rev a) = rev a"
proof -
  let ?b = "dropWhile is_space a"
  have a: "rev a = dropWhile is_space (rev ?b)" using assms by (metis rev_rev_ident str_strip_def)
  then have "length a \<le> length ?b" by (metis length_dropWhile_le length_rev)
  then have "?b = a" by (intro dropWhile_same) (simp add: length_dropWhile_le order_antisym)
  then show ?thesis using a by simp
qed

section \<open>Properties\<close>

text \<open>
  Whatever typed values the settings are built from, an accepted object satisfies every
  bound, names one of the known event backends in lower case and one of the known log levels in upper
  case, and building settings from it again changes nothing.
\<close>

lemma settings_validated:
  assumes "RuntimeSettings_init given = Inr s"
  shows "settings_ok s \<and> RuntimeSettings_init s = Inr s"
  using settings_normal [OF assms] by simp

lemma settings_validated_witness:
  "settings_ok (default_settings\<lparr>log_level := ''DEBUG'', event_backend := ''redis''\<rparr>) \<and>
   RuntimeSettings_init (default_settings\<lparr>log_level := ''DEBUG'', event_backend := ''redis''\<rparr>) =
     Inr (default_settings\<lparr>log_level := ''DEBUG'', event_backend := ''redis''\<rparr>)"
  by (rule settings_validated [of "default_settings\<lparr>log_level := ''Debug'', event_backend := ''Redis''\<rparr>"]) code_simp

text \<open>
  The secrets come from the documented sources in the documented order: a non-empty
  environment variable, else the first line of the secrets file about the field, else the empty text.
  A file that does not exist counts as empty; any other error of opening it is raised.
\<close>

lemma secrets_by_priority:
  "create_secrets_provider environ fs cwd env_prefix secrets_file =
     (let file_part = (if secrets_file = [] then Inr None else open_read fs (join_path cwd secrets_file))
      in case file_part of
           Inl e \<Rightarrow> Inl e
         | Inr contents \<Rightarrow>
             (let ls = (case contents of None \<Rightarrow> [] | Some txt \<Rightarrow> file_lines txt)
              in Inr \<lparr>admin_api_key = secret_value environ env_prefix ls ''admin_api_key'',
                      api_key_salt = secret_value environ env_prefix ls ''api_key_salt''\<rparr>))"
  by (simp add: create_secrets_provider_def Let_def provided_secret env_only_secret SECRET_FIELDS_def
      split: option.splits sum.splits)

text \<open>A secrets file written by hand is read back, whatever \<^verbatim>\<open>=\<close> or \<^verbatim>\<open>#\<close> the values contain.\<close>

lemma secrets_file_read_back:
  assumes "str_strip a = a" "\<forall>c \<in> set a. of_char c \<notin> {10, 13 :: nat}" "environ (env_prefix @ ''ADMIN_API_KEY'') = None"
  shows "secret_value environ env_prefix (file_lines (''ADMIN_API_KEY='' @ a @ CHR 0x0A # rest)) ''admin_api_key'' = a"
proof -
  have strip: "str_strip (''ADMIN_API_KEY='' @ a) = ''ADMIN_API_KEY='' @ a"
  proof (cases "a = []")
    case False
    then obtain c cs where c: "rev a = c # cs" by (cases "rev a") auto
    then have "\<not> is_space c" using stripped_end [OF assms(1)] by (metis hd_dropWhile list.distinct(1) list.sel(1))
    moreover have "a = rev cs @ [c]" using c by (metis rev.simps(2) rev_rev_ident)
    moreover have "\<not> is_space CHR ''A''" by (simp add: is_space_def)
    ultimately show ?thesis by (simp add: str_strip_def)
  qed (simp add: str_strip_def is_space_def)
  have name: "str_lower (str_strip ''ADMIN_API_KEY'') = ''admin_api_key''" "str_upper ''admin_api_key'' = ''ADMIN_API_KEY''"
    by code_simp+
  have "line_value ''admin_api_key'' (''ADMIN_API_KEY='' @ a) = Some a"
    unfolding line_value_def strip using name by (simp add: partition_eq_def assms(1))
  then show ?thesis
    using file_lines_append [of "''ADMIN_API_KEY='' @ a" rest] assms name
    by (simp add: secret_value_def List.map_filter_simps or_str_def)
qed

end
