(* ===== verification/Redis_Events.thy ===== *)
theory Redis_Events
  imports Api Json Settings
begin

text \<open>
  \<^verbatim>\<open>kernel/events/protocol.py\<close>, \<^verbatim>\<open>redis_publisher.py\<close>, \<^verbatim>\<open>redis_streams.py\<close> and \<^verbatim>\<open>factory.py\<close>: the two
  event publishers over a Redis server and the choice of the backend. The Redis client is a parameter,
  a record of the calls the code makes over the server's state. Both classes deliver to the queues of
  subscribers of the same process; that part is common to them and has one model. The iteration order
  of the set of stream keys is the order of a list.
\<close>

section \<open>The Redis client\<close>

datatype redis_error = ResponseError string | OtherRedisError exn

type_synonym ('a, 'r) rcall = "'r \<Rightarrow> (redis_error + 'a) \<times> 'r"

text \<open>One item of a group read: \<^const>\<open>None\<close> when it is not a pair; its parts may be \<^verbatim>\<open>None\<close>.\<close>

type_synonym read_item = "(string option \<times> (string \<times> pyobj) list option) option"

record 'r redis =
  from_url :: "string \<Rightarrow> redis_error + unit"
  redis_publish_channel :: "string \<Rightarrow> string \<Rightarrow> (unit, 'r) rcall"
  xadd :: "string \<Rightarrow> pyobj \<Rightarrow> nat \<Rightarrow> (string, 'r) rcall"
  xgroup_create :: "string \<Rightarrow> string \<Rightarrow> (unit, 'r) rcall"
  xreadgroup :: "string \<Rightarrow> string \<Rightarrow> string list \<Rightarrow> int \<Rightarrow> int \<Rightarrow> (read_item list option, 'r) rcall"
  xack :: "string \<Rightarrow> string \<Rightarrow> string \<Rightarrow> (unit, 'r) rcall"
  xrange :: "string \<Rightarrow> string \<Rightarrow> int \<Rightarrow> ((string \<times> pyobj) list option, 'r) rcall"
  xtrim :: "string \<Rightarrow> int \<Rightarrow> (unit, 'r) rcall"

section \<open>Local subscribers\<close>

record local_queues =
  lq_queues :: "(string, (nat \<times> string) list) dict"
  lq_store :: "nat \<Rightarrow> queue_item list"
  lq_next :: nat

definition local_subs :: "'a local_queues_scheme \<Rightarrow> string \<Rightarrow> (nat \<times> string) list" where
  "local_subs p execution_id = dict_get_or (lq_queues p) execution_id []"

definition local_put :: "queue_item \<Rightarrow> nat \<Rightarrow> 'a local_queues_scheme \<Rightarrow> 'a local_queues_scheme" where
  "local_put x q p = p\<lparr>lq_store := (lq_store p)(q := lq_store p q @ [x])\<rparr>"

definition local_deliver ::
  "string \<Rightarrow> string \<Rightarrow> pyobj \<Rightarrow> 'a local_queues_scheme \<Rightarrow> 'a local_queues_scheme" where
  "local_deliver execution_id event_tenant data p =
     fold (\<lambda>(q, sub_tenant) p'.
         if sub_tenant \<noteq> [] \<and> event_tenant \<noteq> [] \<and> sub_tenant \<noteq> event_tenant then p'
         else local_put (QEvent data) q p')
       (local_subs p execution_id) p"

definition local_subscribe ::
  "string \<Rightarrow> string \<Rightarrow> 'a local_queues_scheme \<Rightarrow> nat \<times> 'a local_queues_scheme" where
  "local_subscribe execution_id tenant_id p =
     (let q = lq_next p
      in (q, p\<lparr>lq_next := q + 1,
               lq_queues := dict_set execution_id (local_subs p execution_id @ [(q, tenant_id)]) (lq_queues p)\<rparr>))"

definition local_unsubscribe :: "string \<Rightarrow> nat \<Rightarrow> 'a local_queues_scheme \<Rightarrow> 'a local_queues_scheme" where
  "local_unsubscribe execution_id queue p =
     p\<lparr>lq_queues := dict_set execution_id
        (filter (\<lambda>(q, t). q \<noteq> queue) (local_subs p execution_id)) (lq_queues p)\<rparr>"

definition local_close :: "string \<Rightarrow> 'a local_queues_scheme \<Rightarrow> 'a local_queues_scheme" where
  "local_close execution_id p =
     (let p' = fold (\<lambda>(q, _). local_put QEnd q) (local_subs p execution_id) p
      in p'\<lparr>lq_queues := dict_del execution_id (lq_queues p')\<rparr>)"

definition local_close_all :: "'a local_queues_scheme \<Rightarrow> 'a local_queues_scheme" where
  "local_close_all p = fold local_close (dict_keys (lq_queues p)) p"

definition local_active_executions :: "'a local_queues_scheme \<Rightarrow> string list" where
  "local_active_executions p = dict_keys (lq_queues p)"

definition local_subscriber_count :: "'a local_queues_scheme \<Rightarrow> string \<Rightarrow> nat" where
  "local_subscriber_count p execution_id = length (local_subs p execution_id)"

section \<open>Pub/Sub\<close>

record RedisEventPublisher = local_queues +
  rp_redis_url :: string
  rp_channel_prefix :: string
  rp_connected :: bool

definition RedisEventPublisher_init :: "bool \<Rightarrow> string \<Rightarrow> string \<Rightarrow> exn + RedisEventPublisher" where
  "RedisEventPublisher_init has_redis url channel_prefix =
     (if \<not> has_redis
      then Inl (PyRuntimeError (''Redis support requires the '' @ sq ''redis'' @ '' package. Install it with: pip install redis''))
      else Inr \<lparr>lq_queues = [], lq_store = (\<lambda>_. []), lq_next = 0,
                rp_redis_url = url, rp_channel_prefix = channel_prefix, rp_connected = False\<rparr>)"

definition redis_connect :: "'r redis \<Rightarrow> RedisEventPublisher \<Rightarrow> redis_error + RedisEventPublisher" where
  "redis_connect srv p =
     (if rp_connected p then Inr p
      else case from_url srv (rp_redis_url p) of Inl e \<Rightarrow> Inl e | Inr _ \<Rightarrow> Inr (p\<lparr>rp_connected := True\<rparr>))"

definition redis_publish ::
  "'r redis \<Rightarrow> (rat \<Rightarrow> string) \<Rightarrow> ExecutionEvent \<Rightarrow> (unit, RedisEventPublisher \<times> 'r) rcall" where
  "redis_publish srv fr event = (\<lambda>(p, r).
     (let channel = rp_channel_prefix p @ '':events:'' @ ev_execution_id event in
      case redis_connect srv p of
        Inl e \<Rightarrow> (Inl e, p, r)
      | Inr p1 \<Rightarrow>
          (let data = json_text fr (PyDict (event_to_dict event)) in
           case redis_publish_channel srv channel data r of
             (Inl e, r') \<Rightarrow> (Inl e, p1, r')
           | (Inr _, r') \<Rightarrow>
               (Inr (), local_deliver (ev_execution_id event) (ev_tenant_id event) (event_to_dict event) p1, r'))))"

section \<open>Streams\<close>

record RedisStreamPublisher = local_queues +
  rs_redis_url :: string
  rs_prefix :: string
  rs_instance_id :: string
  rs_connected :: bool
  rs_stream_keys :: "string list"

text \<open>The argument \<open>self_id\<close> is the hexadecimal identity of the object.\<close>

definition RedisStreamPublisher_init ::
  "bool \<Rightarrow> string \<Rightarrow> string \<Rightarrow> string \<Rightarrow> string \<Rightarrow> exn + RedisStreamPublisher" where
  "RedisStreamPublisher_init has_redis self_id url stream_prefix instance_id =
     (if \<not> has_redis
      then Inl (PyRuntimeError (''Redis Streams support requires the '' @ sq ''redis'' @ '' package. Install it with: pip install redis''))
      else Inr \<lparr>lq_queues = [], lq_store = (\<lambda>_. []), lq_next = 0,
                rs_redis_url = url, rs_prefix = stream_prefix,
                rs_instance_id = (if instance_id = [] then ''inst-'' @ self_id else instance_id),
                rs_connected = False, rs_stream_keys = []\<rparr>)"

definition stream_connect :: "'r redis \<Rightarrow> RedisStreamPublisher \<Rightarrow> redis_error + RedisStreamPublisher" where
  "stream_connect srv p =
     (if rs_connected p then Inr p
      else case from_url srv (rs_redis_url p) of Inl e \<Rightarrow> Inl e | Inr _ \<Rightarrow> Inr (p\<lparr>rs_connected := True\<rparr>))"

definition stream_key :: "RedisStreamPublisher \<Rightarrow> string \<Rightarrow> string" where
  "stream_key p execution_id = rs_prefix p @ '':s:'' @ execution_id"

definition group_name :: "RedisStreamPublisher \<Rightarrow> string \<Rightarrow> string" where
  "group_name p tenant_id = rs_prefix p @ '':g:'' @ (if tenant_id = [] then ''default'' else tenant_id)"

definition consumer_name :: "RedisStreamPublisher \<Rightarrow> string" where
  "consumer_name p = rs_prefix p @ '':c:'' @ rs_instance_id p"

text \<open>The fields added to a stream and put into the local queues; \<open>now\<close> is \<^verbatim>\<open>time.time()\<close>.\<close>

definition stream_data :: "(rat \<Rightarrow> string) \<Rightarrow> time \<Rightarrow> ExecutionEvent \<Rightarrow> pyobj" where
  "stream_data fr now event =
     event_to_dict event @
     [(''__event_type__'', PyStr (case ev_event_type event of EnumType t \<Rightarrow> EventType_value t | StrType s \<Rightarrow> s)),
      (''__tenant_id__'', PyStr (ev_tenant_id event)),
      (''__agent_id__'', PyStr (case ev_agent_id event of None \<Rightarrow> [] | Some a \<Rightarrow> a)),
      (''__timestamp__'', PyStr (fr now))]"

definition stream_publish ::
  "'r redis \<Rightarrow> (rat \<Rightarrow> string) \<Rightarrow> time \<Rightarrow> ExecutionEvent \<Rightarrow> (unit, RedisStreamPublisher \<times> 'r) rcall" where
  "stream_publish srv fr now event = (\<lambda>(p, r).
     (let stream = stream_key p (ev_execution_id event) in
      case stream_connect srv p of
        Inl e \<Rightarrow> (Inl e, p, r)
      | Inr p1 \<Rightarrow>
          (let data = stream_data fr now event in
           case xadd srv stream data 10000 r of
             (Inl e, r') \<Rightarrow> (Inl e, p1, r')
           | (Inr _, r') \<Rightarrow>
               (Inr (), local_deliver (ev_execution_id event) (ev_tenant_id event) data
                          (p1\<lparr>rs_stream_keys := List.insert stream (rs_stream_keys p1)\<rparr>), r'))))"

definition stream_subscribe :: "string \<Rightarrow> string \<Rightarrow> RedisStreamPublisher \<Rightarrow> nat \<times> RedisStreamPublisher" where
  "stream_subscribe execution_id tenant_id p = local_subscribe execution_id tenant_id p"

definition stream_unsubscribe :: "string \<Rightarrow> nat \<Rightarrow> RedisStreamPublisher \<Rightarrow> RedisStreamPublisher" where
  "stream_unsubscribe execution_id queue p = local_unsubscribe execution_id queue p"

definition stream_close :: "string \<Rightarrow> RedisStreamPublisher \<Rightarrow> RedisStreamPublisher" where
  "stream_close execution_id p =
     local_close execution_id (p\<lparr>rs_stream_keys := removeAll (stream_key p execution_id) (rs_stream_keys p)\<rparr>)"

definition stream_close_all :: "RedisStreamPublisher \<Rightarrow> RedisStreamPublisher" where
  "stream_close_all p = fold stream_close (dict_keys (lq_queues p)) p"

fun create_groups :: "'r redis \<Rightarrow> string \<Rightarrow> string list \<Rightarrow> (unit, 'r) rcall" where
  "create_groups srv grp [] r = (Inr (), r)"
| "create_groups srv grp (stream # streams) r =
     (case xgroup_create srv stream grp r of
        (Inl (ResponseError msg), r') \<Rightarrow>
          (if \<not> str_in ''BUSYGROUP'' msg then (Inl (ResponseError msg), r') else create_groups srv grp streams r')
      | (Inl e, r') \<Rightarrow> (Inl e, r')
      | (Inr _, r') \<Rightarrow> create_groups srv grp streams r')"

definition ensure_consumer_group :: "'r redis \<Rightarrow> string \<Rightarrow> (string, RedisStreamPublisher \<times> 'r) rcall" where
  "ensure_consumer_group srv tenant_id = (\<lambda>(p, r).
     (case stream_connect srv p of
        Inl e \<Rightarrow> (Inl e, p, r)
      | Inr p1 \<Rightarrow>
          (let grp = group_name p1 tenant_id in
           case create_groups srv grp (rs_stream_keys p1) r of
             (Inl e, r') \<Rightarrow> (Inl e, p1, r')
           | (Inr _, r') \<Rightarrow> (Inr grp, p1, r'))))"

record StreamMessage =
  sm_stream :: string
  sm_id :: string
  sm_data :: pyobj

definition item_messages :: "read_item \<Rightarrow> StreamMessage list" where
  "item_messages item =
     (case item of
        Some (Some stream, Some entries) \<Rightarrow>
          map (\<lambda>(msg_id, fields). \<lparr>sm_stream = stream, sm_id = msg_id, sm_data = fields\<rparr>) entries
      | _ \<Rightarrow> [])"

definition read_messages ::
  "'r redis \<Rightarrow> string \<Rightarrow> int \<Rightarrow> int \<Rightarrow> (StreamMessage list, RedisStreamPublisher \<times> 'r) rcall" where
  "read_messages srv tenant_id cnt block_ms = (\<lambda>(p, r).
     (case stream_connect srv p of
        Inl e \<Rightarrow> (Inl e, p, r)
      | Inr p1 \<Rightarrow>
          (let grp = group_name p1 tenant_id; consumer = consumer_name p1;
               stream_keys = (if rs_stream_keys p1 \<noteq> [] then rs_stream_keys p1 else [rs_prefix p1 @ '':s:placeholder''])
           in case xreadgroup srv grp consumer stream_keys cnt block_ms r of
                (Inl (ResponseError _), r') \<Rightarrow> (Inr [], p1, r')
              | (Inl e, r') \<Rightarrow> (Inl e, p1, r')
              | (Inr None, r') \<Rightarrow> (Inr [], p1, r')
              | (Inr (Some results), r') \<Rightarrow> (Inr (concat (map item_messages results)), p1, r'))))"

definition acknowledge :: "'r redis \<Rightarrow> string \<Rightarrow> string \<Rightarrow> string \<Rightarrow> (unit, RedisStreamPublisher \<times> 'r) rcall" where
  "acknowledge srv stream msg_id tenant_id = (\<lambda>(p, r).
     (case stream_connect srv p of
        Inl e \<Rightarrow> (Inl e, p, r)
      | Inr p1 \<Rightarrow> (case xack srv stream (group_name p1 tenant_id) msg_id r of (res, r') \<Rightarrow> (res, p1, r'))))"

definition replay ::
  "'r redis \<Rightarrow> string \<Rightarrow> string \<Rightarrow> string \<Rightarrow> int \<Rightarrow> (StreamMessage list, RedisStreamPublisher \<times> 'r) rcall" where
  "replay srv execution_id tenant_id start_id cnt = (\<lambda>(p, r).
     (case stream_connect srv p of
        Inl e \<Rightarrow> (Inl e, p, r)
      | Inr p1 \<Rightarrow>
          (let stream = stream_key p1 execution_id in
           case xrange srv stream start_id cnt r of
             (Inl (ResponseError _), r') \<Rightarrow> (Inr [], p1, r')
           | (Inl e, r') \<Rightarrow> (Inl e, p1, r')
           | (Inr None, r') \<Rightarrow> (Inr [], p1, r')
           | (Inr (Some entries), r') \<Rightarrow>
               (Inr (map (\<lambda>(msg_id, fields). \<lparr>sm_stream = stream, sm_id = msg_id, sm_data = fields\<rparr>) entries), p1, r'))))"

definition stream_trim :: "'r redis \<Rightarrow> string \<Rightarrow> int \<Rightarrow> (unit, RedisStreamPublisher \<times> 'r) rcall" where
  "stream_trim srv execution_id maxlen = (\<lambda>(p, r).
     (case stream_connect srv p of
        Inl e \<Rightarrow> (Inl e, p, r)
      | Inr p1 \<Rightarrow>
          (case xtrim srv (stream_key p1 execution_id) maxlen r of
             (Inl (ResponseError _), r') \<Rightarrow> (Inr (), p1, r')
           | (res, r') \<Rightarrow> (res, p1, r'))))"

section \<open>The choice of the backend\<close>

datatype event_publisher =
    MemoryBackend InMemoryEventPublisher
  | PubSubBackend RedisEventPublisher
  | StreamsBackend RedisStreamPublisher

definition create_event_publisher :: "bool \<Rightarrow> string \<Rightarrow> RuntimeSettings \<Rightarrow> exn + event_publisher" where
  "create_event_publisher has_redis self_id settings =
     (let backend = str_lower (event_backend settings) in
      if backend = ''memory'' then Inr (MemoryBackend InMemoryEventPublisher_init)
      else if backend \<in> {''redis'', ''redis_pubsub''} then
        (if redis_url settings = [] then Inl (ValueError (''redis_url is required when event_backend is '' @ sq ''redis''))
         else map_sum id PubSubBackend
                (RedisEventPublisher_init has_redis (redis_url settings) (event_channel_prefix settings)))
      else if backend \<in> {''redis_streams'', ''streams''} then
        (if redis_url settings = [] then Inl (ValueError (''redis_url is required when event_backend is '' @ sq ''redis_streams''))
         else map_sum id StreamsBackend
                (RedisStreamPublisher_init has_redis self_id (redis_url settings) (event_channel_prefix settings) []))
      else Inl (ValueError (''Unknown event_backend: '' @ str_repr backend @
                  ''. Must be one of: '' @ sq ''memory'' @ '', '' @ sq ''redis'' @ '', '' @ sq ''redis_streams'')))"

section \<open>The contract of a publisher\<close>

text \<open>
  What \<^verbatim>\<open>kernel/events/protocol.py\<close> asks of every backend, over the queues its subscribers hold:
  \<open>accepted\<close> tells whether a publish goes through, \<open>frame_of\<close> what a subscriber receives.
\<close>

abbreviation admits :: "string \<Rightarrow> ExecutionEvent \<Rightarrow> bool" where
  "admits t e \<equiv> t = [] \<or> ev_tenant_id e = [] \<or> t = ev_tenant_id e"

locale publisher_protocol =
  fixes publish_to :: "ExecutionEvent \<Rightarrow> 's \<Rightarrow> 's"
    and accepted :: "ExecutionEvent \<Rightarrow> 's \<Rightarrow> bool"
    and frame_of :: "ExecutionEvent \<Rightarrow> pyobj"
    and subscribe_to :: "string \<Rightarrow> string \<Rightarrow> 's \<Rightarrow> nat \<times> 's"
    and unsubscribe_from :: "string \<Rightarrow> nat \<Rightarrow> 's \<Rightarrow> 's"
    and close_one :: "string \<Rightarrow> 's \<Rightarrow> 's"
    and listeners :: "'s \<Rightarrow> string \<Rightarrow> (nat \<times> string) list"
    and inbox :: "'s \<Rightarrow> nat \<Rightarrow> queue_item list"
    and sound :: "'s \<Rightarrow> bool"
  assumes sound_publish: "sound s \<Longrightarrow> sound (publish_to e s)"
    and sound_subscribe: "sound s \<Longrightarrow> sound (snd (subscribe_to eid t s))"
    and sound_unsubscribe: "sound s \<Longrightarrow> sound (unsubscribe_from eid q s)"
    and sound_close: "sound s \<Longrightarrow> sound (close_one eid s)"
    and publish_listeners: "sound s \<Longrightarrow> listeners (publish_to e s) = listeners s"
    and publish_inbox: "sound s \<Longrightarrow> inbox (publish_to e s) q = inbox s q @
      (if accepted e s \<and> (\<exists>t. (q, t) \<in> set (listeners s (ev_execution_id e)) \<and> admits t e)
       then [QEvent (frame_of e)] else [])"
    and subscribe_listeners: "sound s \<Longrightarrow> listeners (snd (subscribe_to eid t s)) x =
      (if x = eid then listeners s eid @ [(fst (subscribe_to eid t s), t)] else listeners s x)"
    and unsubscribe_listeners: "sound s \<Longrightarrow> listeners (unsubscribe_from eid q s) x =
      (if x = eid then filter (\<lambda>(q', t). q' \<noteq> q) (listeners s eid) else listeners s x)"
    and close_listeners: "sound s \<Longrightarrow> listeners (close_one eid s) x = (if x = eid then [] else listeners s x)"
    and keeps_inbox: "sound s \<Longrightarrow> inbox (snd (subscribe_to eid t s)) q = inbox s q"
      "sound s \<Longrightarrow> inbox (unsubscribe_from eid q' s) q = inbox s q"
    and close_inbox: "sound s \<Longrightarrow> inbox (close_one eid s) q = inbox s q @
      (if \<exists>t. (q, t) \<in> set (listeners s eid) then [QEnd] else [])"
begin

lemma sound_publishes: "sound s \<Longrightarrow> sound (fold publish_to es s) \<and> listeners (fold publish_to es s) = listeners s"
  by (induction es arbitrary: s) (auto simp: sound_publish publish_listeners)

text \<open>
  What a queue gains by a sequence of publishes: some of the events, in their order, each at most
  once, all of an execution it listens to and admitted by the tenant it subscribed with.
\<close>

lemma published:
  assumes "sound s"
  shows "\<exists>ds. inbox (fold publish_to es s) q = inbox s q @ map (\<lambda>e. QEvent (frame_of e)) ds \<and> subseq ds es \<and>
    (\<forall>d \<in> set ds. \<exists>t. (q, t) \<in> set (listeners s (ev_execution_id d)) \<and> admits t d)"
  using assms
proof (induction es arbitrary: s)
  case (Cons e es)
  let ?s = "publish_to e s"
  obtain ds where ds: "inbox (fold publish_to es ?s) q = inbox ?s q @ map (\<lambda>e. QEvent (frame_of e)) ds" "subseq ds es"
    "\<forall>d \<in> set ds. \<exists>t. (q, t) \<in> set (listeners ?s (ev_execution_id d)) \<and> admits t d"
    using Cons.IH [OF sound_publish [OF Cons.prems]] by blast
  show ?case
  proof (cases "accepted e s \<and> (\<exists>t. (q, t) \<in> set (listeners s (ev_execution_id e)) \<and> admits t e)")
    case True
    show ?thesis
      by (rule exI [of _ "e # ds"]) (use True ds in \<open>simp add: publish_inbox publish_listeners Cons.prems\<close>)
  next
    case False
    then have "inbox ?s q = inbox s q" by (simp add: publish_inbox Cons.prems)
    then show ?thesis
      by (intro exI [of _ ds]) (use ds in \<open>simp add: publish_listeners Cons.prems list_emb_Cons\<close>)
  qed
qed simp

text \<open>A queue that listens to nothing any more receives nothing.\<close>

lemma silent:
  assumes "sound s" "\<And>e t. e \<in> set es \<Longrightarrow> (q, t) \<notin> set (listeners s (ev_execution_id e))"
  shows "inbox (fold publish_to es s) q = inbox s q"
  using assms
proof (induction es arbitrary: s)
  case (Cons e es)
  have "inbox (publish_to e s) q = inbox s q" using Cons.prems by (auto simp: publish_inbox)
  with Cons.IH [of "publish_to e s"] Cons.prems show ?case by (simp add: sound_publish publish_listeners)
qed simp

lemma closed_is_final:
  assumes "sound s" "(q, t) \<in> set (listeners s eid)" "\<forall>e \<in> set es. ev_execution_id e = eid"
  shows "inbox (fold publish_to es (close_one eid s)) q = inbox s q @ [QEnd]"
proof -
  have "inbox (fold publish_to es (close_one eid s)) q = inbox (close_one eid s) q"
    by (rule silent) (use assms in \<open>auto simp: sound_close close_listeners\<close>)
  then show ?thesis using assms by (auto simp: close_inbox)
qed

lemma unsubscribed_is_final:
  assumes "sound s" "\<forall>e \<in> set es. ev_execution_id e = eid"
  shows "inbox (fold publish_to es (unsubscribe_from eid q s)) q = inbox s q"
proof -
  have "inbox (fold publish_to es (unsubscribe_from eid q s)) q = inbox (unsubscribe_from eid q s) q"
    by (rule silent) (use assms in \<open>auto simp: sound_unsubscribe unsubscribe_listeners\<close>)
  then show ?thesis using assms by (simp add: keeps_inbox)
qed

end

interpretation memory_publisher:
  publisher_protocol publish "\<lambda>e p. True" event_to_dict subscribe unsubscribe close_execution subs pb_queues publisher_wf
proof unfold_locales
  show "pb_queues (publish e s) q = pb_queues s q @
      (if True \<and> (\<exists>t. (q, t) \<in> set (subs s (ev_execution_id e)) \<and> admits t e) then [QEvent (event_to_dict e)] else [])"
    if "publisher_wf s" for s e q
    using publish_queues [OF that] by simp
qed (simp_all add: wf_intros publish_frame close_execution_frame, simp add: unsubscribe_def)

section \<open>Both Redis publishers keep the contract\<close>

text \<open>The local subscribers of a Redis publisher, seen as an in-memory publisher.\<close>

definition memory_view :: "'a local_queues_scheme \<Rightarrow> InMemoryEventPublisher" where
  "memory_view p = \<lparr>pb_subscribers = lq_queues p, pb_queues = lq_store p, pb_next_queue = lq_next p\<rparr>"

lemma view_simps [simp]:
  "pb_subscribers (memory_view p) = lq_queues p" "pb_queues (memory_view p) = lq_store p"
  "pb_next_queue (memory_view p) = lq_next p" "subs (memory_view p) = local_subs p"
  by (simp_all add: memory_view_def subs_def local_subs_def fun_eq_iff)

lemma view_updates [simp]:
  "memory_view (p\<lparr>rp_connected := b\<rparr>) = memory_view p" "memory_view (p'\<lparr>rs_connected := b\<rparr>) = memory_view p'"
  "memory_view (p'\<lparr>rs_stream_keys := ks\<rparr>) = memory_view p'"
  by (simp_all add: memory_view_def)

lemma local_subs_updates [simp]:
  "local_subs (p\<lparr>rp_connected := b\<rparr>) = local_subs p" "local_subs (p'\<lparr>rs_connected := b\<rparr>) = local_subs p'"
  "local_subs (p'\<lparr>rs_stream_keys := ks\<rparr>) = local_subs p'"
  by (simp_all add: local_subs_def fun_eq_iff)

lemma view_put: "memory_view (local_put x q p) = put_nowait x q (memory_view p)"
  by (simp add: memory_view_def local_put_def put_nowait_def)

lemma view_fold: "memory_view (fold (\<lambda>(q, t) p'. if skip t then p' else local_put x q p') ss p) =
    fold (\<lambda>(q, t) p'. if skip t then p' else put_nowait x q p') ss (memory_view p)"
  by (induction ss arbitrary: p) (auto simp: view_put split: prod.splits)

lemma view_subscribe:
  "subscribe eid t (memory_view p) = map_prod id memory_view (local_subscribe eid t p)"
  by (simp add: subscribe_def local_subscribe_def Let_def memory_view_def local_subs_def subs_def)

lemma view_unsubscribe: "memory_view (local_unsubscribe eid q p) = unsubscribe eid q (memory_view p)"
  by (simp add: unsubscribe_def local_unsubscribe_def memory_view_def local_subs_def subs_def)

lemma view_close: "memory_view (local_close eid p) = close_execution eid (memory_view p)"
proof -
  have "memory_view (fold (\<lambda>(q, _). local_put QEnd q) ss p) = fold (\<lambda>(q, _). put_nowait QEnd q) ss (memory_view p)" for ss
    using view_fold [of "\<lambda>_. False" QEnd ss p] by simp
  note puts = this
  have "memory_view (p'\<lparr>lq_queues := d\<rparr>) = (memory_view p')\<lparr>pb_subscribers := d\<rparr>" for d and p' :: "'a local_queues_scheme"
    by (simp add: memory_view_def)
  then show ?thesis by (simp add: close_execution_def local_close_def Let_def flip: puts)
qed

lemma view_close_all: "memory_view (local_close_all p) = close_all (memory_view p)"
proof -
  have "memory_view (fold local_close es p) = fold close_execution es (memory_view p)" for es
    by (induction es arbitrary: p) (simp_all add: view_close)
  then show ?thesis by (simp add: local_close_all_def close_all_def)
qed

lemma view_deliver: "memory_view (local_deliver eid tn data p) =
    fold (\<lambda>(q, t) p'. if t \<noteq> [] \<and> tn \<noteq> [] \<and> t \<noteq> tn then p' else put_nowait (QEvent data) q p')
      (local_subs p eid) (memory_view p)"
  unfolding local_deliver_def by (rule view_fold)

lemma view_deliver_event:
  "memory_view (local_deliver (ev_execution_id e) (ev_tenant_id e) (event_to_dict e) p) = publish e (memory_view p)"
  by (simp add: view_deliver publish_def)

lemma deliver_store:
  assumes "publisher_wf (memory_view p)"
  shows "lq_store (local_deliver eid tn data p) q = lq_store p q @
     (if \<exists>t. (q, t) \<in> set (local_subs p eid) \<and> (t = [] \<or> tn = [] \<or> t = tn) then [QEvent data] else [])"
proof -
  have "distinct (map fst (local_subs p eid))" using assms by (simp add: publisher_wf_def)
  from fold_put [OF this, of "\<lambda>t. t \<noteq> [] \<and> tn \<noteq> [] \<and> t \<noteq> tn" "QEvent data" "memory_view p" q]
  show ?thesis by (simp add: view_deliver flip: view_simps(2))
qed

lemma deliver_frame:
  "local_subs (local_deliver eid tn data p) = local_subs p"
  "publisher_wf (memory_view (local_deliver eid tn data p)) = publisher_wf (memory_view p)"
proof -
  have fr: "pb_subscribers (memory_view (local_deliver eid tn data p)) = pb_subscribers (memory_view p)"
    "pb_next_queue (memory_view (local_deliver eid tn data p)) = pb_next_queue (memory_view p)"
    unfolding view_deliver by (rule fold_put_frame)+
  then show "local_subs (local_deliver eid tn data p) = local_subs p"
    by (simp add: local_subs_def fun_eq_iff)
  then show "publisher_wf (memory_view (local_deliver eid tn data p)) = publisher_wf (memory_view p)"
    using fr by (simp add: publisher_wf_def)
qed

text \<open>What a publish leaves behind: nothing of the local subscribers changes unless it succeeds.\<close>

lemma redis_publish_view:
  "memory_view (fst (snd (redis_publish srv fr e s))) =
     (if fst (redis_publish srv fr e s) = Inr () then publish e (memory_view (fst s)) else memory_view (fst s))"
  by (cases s)
    (auto simp: redis_publish_def redis_connect_def Let_def view_deliver_event split: sum.splits prod.splits if_splits)

lemma stream_publish_cases:
  obtains
    (failed) "fst (stream_publish srv fr now e s) \<noteq> Inr ()"
      "memory_view (fst (snd (stream_publish srv fr now e s))) = memory_view (fst s)"
  | (delivered) p where "fst (stream_publish srv fr now e s) = Inr ()" "memory_view p = memory_view (fst s)"
      "fst (snd (stream_publish srv fr now e s)) = local_deliver (ev_execution_id e) (ev_tenant_id e) (stream_data fr now e) p"
proof -
  obtain p0 r where s: "s = (p0, r)" by force
  show thesis
  proof (cases "stream_connect srv p0")
    case (Inl err)
    then show thesis using failed by (simp add: s stream_publish_def Let_def)
  next
    case (Inr p1)
    then have view: "memory_view p1 = memory_view p0"
      by (auto simp: stream_connect_def split: if_splits sum.splits)
    obtain res r' where "xadd srv (stream_key p0 (ev_execution_id e)) (stream_data fr now e) 10000 r = (res, r')" by force
    with Inr view show thesis
      using failed delivered [of "p1\<lparr>rs_stream_keys := List.insert (stream_key p0 (ev_execution_id e)) (rs_stream_keys p1)\<rparr>"]
      by (cases res) (simp_all add: s stream_publish_def Let_def)
  qed
qed

lemma subs_of_view: "memory_view p = memory_view p' \<Longrightarrow> local_subs p = local_subs p' \<and> lq_store p = lq_store p'"
  by (metis view_simps(2,4))

lemmas view_sound = publisher_wf_subscribe publisher_wf_unsubscribe close_execution_frame(4)

lemma local_subscribe_laws:
  "memory_view (snd (local_subscribe eid t p)) = snd (subscribe eid t (memory_view p))"
  "fst (local_subscribe eid t p) = lq_next p"
  "local_subs (snd (local_subscribe eid t p)) x = (if x = eid then local_subs p eid @ [(lq_next p, t)] else local_subs p x)"
  "lq_store (snd (local_subscribe eid t p)) = lq_store p"
  using view_subscribe [of eid t p] subs_subscribe [of eid t "memory_view p" x]
  by (simp_all add: local_subscribe_def Let_def)

lemma local_unsubscribe_laws:
  "local_subs (local_unsubscribe eid q p) x =
     (if x = eid then filter (\<lambda>(q', t). q' \<noteq> q) (local_subs p eid) else local_subs p x)"
  "lq_store (local_unsubscribe eid q p) = lq_store p"
  using subs_unsubscribe [of eid q "memory_view p" x]
  by (simp_all flip: view_unsubscribe) (simp add: local_unsubscribe_def)

lemma local_close_laws:
  assumes "publisher_wf (memory_view p)"
  shows "local_subs (local_close eid p) x = (if x = eid then [] else local_subs p x)"
    "lq_store (local_close eid p) q = lq_store p q @ (if \<exists>t. (q, t) \<in> set (local_subs p eid) then [QEnd] else [])"
  using close_execution_frame(2,3) [OF assms] by (simp_all flip: view_close)

interpretation redis_publisher:
  publisher_protocol "\<lambda>e s. snd (redis_publish srv fr e s)" "\<lambda>e s. fst (redis_publish srv fr e s) = Inr ()"
    event_to_dict "\<lambda>eid t s. map_prod id (\<lambda>p. (p, snd s)) (local_subscribe eid t (fst s))"
    "\<lambda>eid q s. (local_unsubscribe eid q (fst s), snd s)" "\<lambda>eid s. (local_close eid (fst s), snd s)"
    "\<lambda>s. local_subs (fst s)" "\<lambda>s. lq_store (fst s)" "\<lambda>s. publisher_wf (memory_view (fst s))" for srv fr
proof unfold_locales
  fix s :: "RedisEventPublisher \<times> 'a" and e q
  assume wf: "publisher_wf (memory_view (fst s))"
  let ?s = "snd (redis_publish srv fr e s)"
  show "publisher_wf (memory_view (fst ?s))"
    using wf by (simp add: redis_publish_view publisher_wf_publish)
  show "local_subs (fst ?s) = local_subs (fst s)"
    unfolding view_simps(4) [symmetric] redis_publish_view by (simp add: publish_frame del: view_simps(4))
  show "lq_store (fst ?s) q = lq_store (fst s) q @
      (if fst (redis_publish srv fr e s) = Inr () \<and> (\<exists>t. (q, t) \<in> set (local_subs (fst s) (ev_execution_id e)) \<and> admits t e)
       then [QEvent (event_to_dict e)] else [])"
    unfolding view_simps(2) [symmetric] redis_publish_view using publish_queues [OF wf] by simp
qed (simp_all add: local_subscribe_laws local_unsubscribe_laws local_close_laws view_unsubscribe view_close view_sound)

interpretation stream_publisher:
  publisher_protocol "\<lambda>e s. snd (stream_publish srv fr now e s)" "\<lambda>e s. fst (stream_publish srv fr now e s) = Inr ()"
    "stream_data fr now" "\<lambda>eid t s. map_prod id (\<lambda>p. (p, snd s)) (stream_subscribe eid t (fst s))"
    "\<lambda>eid q s. (stream_unsubscribe eid q (fst s), snd s)" "\<lambda>eid s. (stream_close eid (fst s), snd s)"
    "\<lambda>s. local_subs (fst s)" "\<lambda>s. lq_store (fst s)" "\<lambda>s. publisher_wf (memory_view (fst s))" for srv fr now
proof unfold_locales
  fix s :: "RedisStreamPublisher \<times> 'a" and e q
  assume wf: "publisher_wf (memory_view (fst s))"
  let ?s = "snd (stream_publish srv fr now e s)"
  show "publisher_wf (memory_view (fst ?s))"
    by (rule stream_publish_cases [of srv fr now e s]) (use wf in \<open>simp_all add: deliver_frame\<close>)
  show "local_subs (fst ?s) = local_subs (fst s)"
    by (rule stream_publish_cases [of srv fr now e s]) (use subs_of_view in \<open>auto simp: deliver_frame\<close>)
  show "lq_store (fst ?s) q = lq_store (fst s) q @
      (if fst (stream_publish srv fr now e s) = Inr () \<and> (\<exists>t. (q, t) \<in> set (local_subs (fst s) (ev_execution_id e)) \<and> admits t e)
       then [QEvent (stream_data fr now e)] else [])"
  proof (rule stream_publish_cases [of srv fr now e s])
    fix p assume "memory_view p = memory_view (fst s)"
      "fst ?s = local_deliver (ev_execution_id e) (ev_tenant_id e) (stream_data fr now e) p"
      "fst (stream_publish srv fr now e s) = Inr ()"
    then show ?thesis using wf subs_of_view [of p "fst s"] by (simp add: deliver_store)
  next
    assume "memory_view (fst ?s) = memory_view (fst s)" "fst (stream_publish srv fr now e s) \<noteq> Inr ()"
    then show ?thesis using subs_of_view [of "fst ?s" "fst s"] by simp
  qed
qed (simp_all add: local_subscribe_laws local_unsubscribe_laws local_close_laws view_unsubscribe view_close view_sound
      stream_subscribe_def stream_unsubscribe_def stream_close_def)

section \<open>A server for the witnesses\<close>

text \<open>
  A small server: streams with numbered entries, and per group and stream the number of the last
  entry handed out. The flag tells whether values other than text and numbers are encoded; the
  documented client refuses them with \<^verbatim>\<open>DataError\<close>.
\<close>

record test_server =
  ts_channels :: "(string \<times> string) list"
  ts_streams :: "(string, (nat \<times> pyobj) list) dict"
  ts_groups :: "(string \<times> string, nat) dict"

definition empty_server :: test_server where
  "empty_server = \<lparr>ts_channels = [], ts_streams = [], ts_groups = []\<rparr>"

fun encodable :: "pyval \<Rightarrow> bool" where
  "encodable (PyInt _) = True"
| "encodable (PyFloat _) = True"
| "encodable (PyStr _) = True"
| "encodable _ = False"

definition entry_id :: "nat \<times> pyobj \<Rightarrow> string \<times> pyobj" where
  "entry_id e = (nat_str (fst e) @ ''-0'', snd e)"

definition test_redis :: "bool \<Rightarrow> test_server redis" where
  "test_redis lenient =
     \<lparr>from_url = (\<lambda>_. Inr ()),
      redis_publish_channel = (\<lambda>ch d r. (Inr (), r\<lparr>ts_channels := ts_channels r @ [(ch, d)]\<rparr>)),
      xadd = (\<lambda>s fs maxlen r.
        if lenient \<or> (\<forall>(k, v) \<in> set fs. encodable v)
        then (let es = dict_get_or (ts_streams r) s []; n = Suc (length es)
              in (Inr (nat_str n @ ''-0''), r\<lparr>ts_streams := dict_set s (es @ [(n, fs)]) (ts_streams r)\<rparr>))
        else (Inl (OtherRedisError (OtherError ''Invalid input type'')), r)),
      xgroup_create = (\<lambda>s g r.
        if dict_has (ts_groups r) (s, g) then (Inl (ResponseError ''BUSYGROUP Consumer Group name already exists''), r)
        else (Inr (), r\<lparr>ts_groups := dict_set (s, g) 0 (ts_groups r)\<rparr>)),
      xreadgroup = (\<lambda>g c ss cnt block r.
        if \<exists>s \<in> set ss. \<not> dict_has (ts_groups r) (s, g) then (Inl (ResponseError ''NOGROUP No such key or consumer group''), r)
        else (Inr (Some (map (\<lambda>s. Some (Some s, Some (map entry_id (take (nat cnt)
                (drop (dict_get_or (ts_groups r) (s, g) 0) (dict_get_or (ts_streams r) s [])))))) ss)), r)),
      xack = (\<lambda>s g i r. (Inr (), r)),
      xrange = (\<lambda>s start cnt r. (Inr (Some (map entry_id (take (nat cnt) (dict_get_or (ts_streams r) s [])))), r)),
      xtrim = (\<lambda>s maxlen r. (Inr (), r))\<rparr>"

definition sample_event :: "string \<Rightarrow> string \<Rightarrow> ExecutionEvent" where
  "sample_event eid tenant =
     \<lparr>ev_event_id = ''e'', ev_execution_id = eid, ev_tenant_id = tenant, ev_agent_id = Some ''a'',
      ev_event_type = EnumType STEP_COMPLETED, ev_payload = [(''state'', PyStr ''COMPLETED'')],
      ev_created_at = 0, ev_schema_version = ''1.0''\<rparr>"

text \<open>A stream publisher with one subscriber, of tenant t1 to execution x.\<close>

definition sample_stream :: RedisStreamPublisher where
  "sample_stream =
     \<lparr>lq_queues = [(''x'', [(0, ''t1'')])], lq_store = (\<lambda>_. []), lq_next = 1, rs_redis_url = ''redis://h'',
      rs_prefix = ''k'', rs_instance_id = ''i'', rs_connected = False, rs_stream_keys = []\<rparr>"

lemma sample_stream_sound: "publisher_wf (memory_view sample_stream)"
  by (simp add: publisher_wf_def sample_stream_def local_subs_def dict_get_or_def dict_get_def dict_wf_def)

section \<open>Properties\<close>

datatype publisher_op =
    SubscribeOp string string
  | UnsubscribeOp string nat
  | PublishOp ExecutionEvent
  | CloseOp string
  | CloseAllOp

primrec run_memory :: "publisher_op \<Rightarrow> InMemoryEventPublisher \<Rightarrow> InMemoryEventPublisher" where
  "run_memory (SubscribeOp eid t) p = snd (subscribe eid t p)"
| "run_memory (UnsubscribeOp eid q) p = unsubscribe eid q p"
| "run_memory (PublishOp e) p = publish e p"
| "run_memory (CloseOp eid) p = close_execution eid p"
| "run_memory CloseAllOp p = close_all p"

primrec run_redis :: "'r redis \<Rightarrow> (rat \<Rightarrow> string) \<Rightarrow> publisher_op \<Rightarrow> RedisEventPublisher \<times> 'r \<Rightarrow> RedisEventPublisher \<times> 'r" where
  "run_redis srv fr (SubscribeOp eid t) s = (snd (local_subscribe eid t (fst s)), snd s)"
| "run_redis srv fr (UnsubscribeOp eid q) s = (local_unsubscribe eid q (fst s), snd s)"
| "run_redis srv fr (PublishOp e) s = snd (redis_publish srv fr e s)"
| "run_redis srv fr (CloseOp eid) s = (local_close eid (fst s), snd s)"
| "run_redis srv fr CloseAllOp s = (local_close_all (fst s), snd s)"

text \<open>
  Property C40. The Redis publisher refines the in-memory one: over a server that takes connections and
  messages, any sequence of subscribing, unsubscribing, publishing and closing leaves the subscribers
  of the process with the same queues, holding the same items, as the in-memory publisher does.
\<close>

theorem redis_serves_like_memory:
  assumes "\<And>url. from_url srv url = Inr ()" "\<And>ch d r. fst (redis_publish_channel srv ch d r) = Inr ()"
  shows "memory_view (fst (fold (run_redis srv fr) ops s)) = fold run_memory ops (memory_view (fst s))"
proof (induction ops arbitrary: s)
  case (Cons op ops)
  have ok: "fst (redis_publish srv fr e s) = Inr ()" for e
    using assms(2) by (cases s)
      (auto simp: redis_publish_def redis_connect_def Let_def assms(1) split: prod.splits sum.splits, metis Inl_Inr_False fst_conv)
  have "memory_view (fst (run_redis srv fr op s)) = run_memory op (memory_view (fst s))"
    by (cases op)
      (simp_all add: local_subscribe_laws view_unsubscribe redis_publish_view ok view_close view_close_all)
  with Cons.IH show ?case by simp
qed simp

theorem redis_serves_like_memory_witness:
  "lq_store (fst (fold (run_redis (test_redis True) (\<lambda>_. []))
       [SubscribeOp ''x'' ''t1'', SubscribeOp ''x'' ''t2'', PublishOp (sample_event ''x'' ''t1''), CloseOp ''x'']
       (\<lparr>lq_queues = [], lq_store = (\<lambda>_. []), lq_next = 0, rp_redis_url = ''redis://h'', rp_channel_prefix = ''k'',
         rp_connected = False\<rparr>, empty_server))) 1 = [QEnd]"
  (is "lq_store (fst (fold _ ?ops (?p, _))) 1 = _")
proof -
  have "memory_view (fst (fold (run_redis (test_redis True) (\<lambda>_. [])) ?ops (?p, empty_server))) =
      fold run_memory ?ops (memory_view (fst (?p, empty_server)))"
    by (rule redis_serves_like_memory) (simp_all add: test_redis_def)
  moreover have "pb_queues (fold run_memory ?ops (memory_view ?p)) 1 = [QEnd]"
    by (simp add: sample_event_def memory_view_def subscribe_def publish_def close_execution_def subs_def
        dict_get_or_def dict_get_def dict_set_def put_nowait_def)
  ultimately show ?thesis by (metis fst_conv view_simps(2))
qed

text \<open>
  A stream subscriber of the process receives only what it should: publishing any events
  over any server adds to its queue a subsequence of the events, in their order and none twice, all of
  executions it subscribed to, and none of another tenant.
\<close>

lemma stream_subscribers_isolated:
  assumes "publisher_wf (memory_view p)"
  shows "\<exists>ds. lq_store (fst (fold (\<lambda>e s. snd (stream_publish srv fr now e s)) es (p, r))) q =
      lq_store p q @ map (\<lambda>e. QEvent (stream_data fr now e)) ds \<and> subseq ds es \<and>
    (\<forall>d \<in> set ds. \<exists>t. (q, t) \<in> set (local_subs p (ev_execution_id d)) \<and>
        (t = [] \<or> ev_tenant_id d = [] \<or> t = ev_tenant_id d))"
  using stream_publisher.published [of "(p, r)" srv fr now es q] assms by simp

lemma stream_subscribers_isolated_witness:
  "\<exists>ds. lq_store (fst (fold (\<lambda>e s. snd (stream_publish (test_redis True) (\<lambda>_. []) 0 e s))
        [sample_event ''x'' ''t2'', sample_event ''x'' ''t1''] (sample_stream, empty_server))) 0 =
      [] @ map (\<lambda>e. QEvent (stream_data (\<lambda>_. []) 0 e)) ds \<and>
    subseq ds [sample_event ''x'' ''t2'', sample_event ''x'' ''t1''] \<and>
    (\<forall>d \<in> set ds. \<exists>t. (0, t) \<in> set (local_subs sample_stream (ev_execution_id d)) \<and>
        (t = [] \<or> ev_tenant_id d = [] \<or> t = ev_tenant_id d))"
  using stream_subscribers_isolated [OF sample_stream_sound, of "test_redis True" "\<lambda>_. []" 0
      "[sample_event ''x'' ''t2'', sample_event ''x'' ''t1'']" "empty_server" 0]
  by (simp add: sample_stream_def)

text \<open>
  Closing an execution ends the stream of its subscribers for good: whatever is published
  for the execution afterwards, a subscriber's queue holds what it held, then the end marker, and
  nothing after it.
\<close>

lemma closed_stream_is_final:
  assumes "publisher_wf (memory_view p)" "(q, t) \<in> set (local_subs p eid)" "\<forall>e \<in> set es. ev_execution_id e = eid"
  shows "lq_store (fst (fold (\<lambda>e s. snd (stream_publish srv fr now e s)) es (stream_close eid p, r))) q =
      lq_store p q @ [QEnd] \<and>
    pb_queues (fold publish es (close_execution eid (memory_view p))) q = lq_store p q @ [QEnd]"
  using stream_publisher.closed_is_final [of "(p, r)" q t eid es srv fr now]
    memory_publisher.closed_is_final [of "memory_view p" q t eid es] assms by simp

lemma closed_stream_is_final_witness:
  "lq_store (fst (fold (\<lambda>e s. snd (stream_publish (test_redis True) (\<lambda>_. []) 0 e s)) [sample_event ''x'' ''t1'']
      (stream_close ''x'' sample_stream, empty_server))) 0 = [QEnd]"
  using closed_stream_is_final [OF sample_stream_sound, of 0 "''t1''" "''x''" "[sample_event ''x'' ''t1'']" "test_redis True"
      "\<lambda>_. []" 0 "empty_server"]
  by (simp add: sample_stream_def sample_event_def local_subs_def dict_get_or_def dict_get_def)

text \<open>
  With a client that refuses dictionaries as stream values, which the documented client
  does, publishing to a stream always fails: the event's payload is a dictionary, so the call raises, no
  subscriber receives the event, and the stream is not remembered for the consumer groups.
\<close>

lemma stream_publish_refused:
  assumes "\<forall>s fs n r k kvs. (k, PyDict kvs) \<in> set fs \<longrightarrow> (\<exists>e. fst (xadd srv s fs n r) = Inl e)"
  shows "\<exists>err. fst (stream_publish srv fr now e (p, r)) = Inl err \<and>
    local_subs (fst (snd (stream_publish srv fr now e (p, r)))) = local_subs p \<and>
    lq_store (fst (snd (stream_publish srv fr now e (p, r)))) = lq_store p \<and>
    rs_stream_keys (fst (snd (stream_publish srv fr now e (p, r)))) = rs_stream_keys p"
proof (cases "stream_connect srv p")
  case (Inr p1)
  then have p1: "local_subs p1 = local_subs p" "lq_store p1 = lq_store p" "rs_stream_keys p1 = rs_stream_keys p"
    by (auto simp: stream_connect_def split: if_splits sum.splits)
  have "(''payload'', PyDict (ev_payload e)) \<in> set (stream_data fr now e)"
    by (simp add: stream_data_def event_to_dict_def)
  then obtain err where "fst (xadd srv (stream_key p (ev_execution_id e)) (stream_data fr now e) 10000 r) = Inl err"
    using assms by blast
  with Inr p1 show ?thesis
    by (cases "xadd srv (stream_key p (ev_execution_id e)) (stream_data fr now e) 10000 r") (simp add: stream_publish_def Let_def)
qed (simp add: stream_publish_def Let_def)

lemma stream_publish_refused_witness:
  "\<exists>err. fst (stream_publish (test_redis False) (\<lambda>_. []) 0 (sample_event ''x'' ''t1'') (sample_stream, empty_server)) = Inl err"
proof -
  have "\<forall>s fs n r k kvs. (k, PyDict kvs) \<in> set fs \<longrightarrow> (\<exists>e. fst (xadd (test_redis False) s fs n r) = Inl e)"
    by (force simp: test_redis_def)
  from stream_publish_refused [OF this, of "\<lambda>_. []" 0 "sample_event ''x'' ''t1''" sample_stream empty_server]
  show ?thesis by blast
qed

text \<open>
  The factory never refuses validated settings for their backend: it builds the in-memory
  publisher for \<^verbatim>\<open>memory\<close>, and for the Redis backends fails exactly when the URL is missing or the
  client package is not installed; otherwise it builds the class the backend names.
\<close>

lemma publisher_for_validated_settings:
  assumes "RuntimeSettings_init given = Inr s"
  shows "create_event_publisher has_redis self_id s =
     (if event_backend s = ''memory'' then Inr (MemoryBackend InMemoryEventPublisher_init)
      else if redis_url s = [] then
        Inl (ValueError (''redis_url is required when event_backend is '' @
               sq (if event_backend s \<in> {''redis'', ''redis_pubsub''} then ''redis'' else ''redis_streams'')))
      else if event_backend s \<in> {''redis'', ''redis_pubsub''}
      then map_sum id PubSubBackend (RedisEventPublisher_init has_redis (redis_url s) (event_channel_prefix s))
      else map_sum id StreamsBackend (RedisStreamPublisher_init has_redis self_id (redis_url s) (event_channel_prefix s) []))"
proof -
  have "event_backend s \<in> set ALLOWED_BACKENDS" using settings_normal(1) [OF assms] by (simp add: settings_ok_def)
  moreover have "str_lower (event_backend s) = event_backend s" using allowed_fixed(1) [OF calculation] .
  ultimately show ?thesis by (auto simp: create_event_publisher_def Let_def ALLOWED_BACKENDS_def)
qed

lemma publisher_for_validated_settings_witness:
  "create_event_publisher True ''ff'' (default_settings\<lparr>event_backend := ''streams''\<rparr>) =
     Inl (ValueError (''redis_url is required when event_backend is '' @ sq ''redis_streams''))"
proof -
  have "RuntimeSettings_init (default_settings\<lparr>event_backend := ''Streams''\<rparr>) =
      Inr (default_settings\<lparr>event_backend := ''streams''\<rparr>)"
    by code_simp
  from publisher_for_validated_settings [OF this, of True "''ff''"] show ?thesis by (simp add: default_settings_def)
qed

text \<open>
  Reading for a group fails as a whole when one of the streams has no such group, and the failure is
  returned as an empty list: a stream created after \<^verbatim>\<open>ensure_consumer_group\<close> hides the pending messages
  of all the others.
\<close>

lemma failed_group_read_is_empty:
  assumes "stream_connect srv p = Inr p1"
    "fst (xreadgroup srv (group_name p1 t) (consumer_name p1)
       (if rs_stream_keys p1 \<noteq> [] then rs_stream_keys p1 else [rs_prefix p1 @ '':s:placeholder'']) cnt block r) =
     Inl (ResponseError msg)"
  shows "fst (read_messages srv t cnt block (p, r)) = Inr []"
  using assms by (auto simp: read_messages_def Let_def split: prod.splits)

definition two_streams :: RedisStreamPublisher where
  "two_streams = sample_stream\<lparr>rs_connected := True, rs_stream_keys := [''k:s:x'', ''k:s:y'']\<rparr>"

definition one_group :: test_server where
  "one_group = \<lparr>ts_channels = [], ts_streams = [(''k:s:x'', [(1, [(''tenant_id'', PyStr ''t2'')])]), (''k:s:y'', [])],
     ts_groups = [((''k:s:x'', ''k:g:t1''), 0)]\<rparr>"

lemma new_stream_hides_messages: "fst (read_messages (test_redis True) ''t1'' 10 5000 (two_streams, one_group)) = Inr []"
  by code_simp

text \<open>
  Neither the consumer groups nor a replay separate tenants: a stream belongs to an execution, every
  tenant's group reads all of it, and \<^verbatim>\<open>replay\<close> does not use its tenant.
\<close>

lemma group_reads_other_tenants:
  "fst (read_messages (test_redis True) ''t1'' 10 5000 (two_streams\<lparr>rs_stream_keys := [''k:s:x'']\<rparr>, one_group)) =
     Inr [\<lparr>sm_stream = ''k:s:x'', sm_id = ''1-0'', sm_data = [(''tenant_id'', PyStr ''t2'')]\<rparr>]"
  by code_simp

lemma replay_ignores_tenant: "replay srv eid t start cnt = replay srv eid t' start cnt"
  by (simp add: replay_def)

text \<open>Closing an execution drops its stream from the keys that are read, delivered or not.\<close>

lemma close_forgets_stream: "stream_key p eid \<notin> set (rs_stream_keys (stream_close eid p))"
proof -
  have put: "rs_stream_keys (local_put x q p') = rs_stream_keys p'" for x q and p' :: RedisStreamPublisher
    by (simp add: local_put_def)
  have "rs_stream_keys (fold (\<lambda>(q, _). local_put QEnd q) ss p') = rs_stream_keys p'"
    for ss :: "(nat \<times> string) list" and p' :: RedisStreamPublisher
    by (induction ss arbitrary: p') (auto simp: put)
  then show ?thesis by (simp add: stream_close_def local_close_def Let_def)
qed

end
