(* ===== verification/AI_Gateway.thy ===== *)
theory AI_Gateway
  imports Plugin Json
begin

text \<open>
  \<^verbatim>\<open>ai_gateway/adapters/\<close> and \<^verbatim>\<open>ai_gateway/registry/adapter_registry.py\<close>: the adapters for three model
  providers and the local one, the reading of their answers and of their event streams, and the
  adapter registry. The HTTP client is a parameter. The answers are untyped values, and the operations
  of Python on them raise as they do there. Random identifiers, and the value of \<^verbatim>\<open>datetime.now()\<close> in the
  form the adapter stores, are arguments.
\<close>

section \<open>Operations on untyped values\<close>

definition andthen :: "exn + 'a \<Rightarrow> ('a \<Rightarrow> exn + 'b) \<Rightarrow> exn + 'b" where
  "andthen x f = (case x of Inl e \<Rightarrow> Inl e | Inr v \<Rightarrow> f v)"

lemma andthen_simps [simp]: "andthen (Inl e) f = Inl e" "andthen (Inr v) f = f v"
  by (simp_all add: andthen_def)

primrec type_name :: "pyval \<Rightarrow> string" where
  "type_name PyNone = ''NoneType''"
| "type_name (PyBool _) = ''bool''"
| "type_name (PyInt _) = ''int''"
| "type_name (PyFloat _) = ''float''"
| "type_name (PyStr _) = ''str''"
| "type_name (PyList _) = ''list''"
| "type_name (PyDict _) = ''dict''"

text \<open>\<^verbatim>\<open>v.get(k, d)\<close>, with the default evaluated after the method was found.\<close>

definition attr_get :: "pyval \<Rightarrow> string \<Rightarrow> exn + pyval \<Rightarrow> exn + pyval" where
  "attr_get v k d =
     (case v of
        PyDict obj \<Rightarrow> andthen d (\<lambda>dv. Inr (dict_get_or obj k dv))
      | _ \<Rightarrow> Inl (OtherError (sq (type_name v) @ '' object has no attribute '' @ sq ''get'')))"

text \<open>\<^verbatim>\<open>v["k"]\<close>, \<^verbatim>\<open>v[0]\<close>, \<^verbatim>\<open>len(v)\<close>, and the values \<^verbatim>\<open>for x in v\<close> runs through.\<close>

definition item_str :: "pyval \<Rightarrow> string \<Rightarrow> exn + pyval" where
  "item_str v k =
     (case v of
        PyDict obj \<Rightarrow> (case dict_get obj k of None \<Rightarrow> Inl (KeyError k) | Some x \<Rightarrow> Inr x)
      | PyList _ \<Rightarrow> Inl (OtherError ''list indices must be integers or slices, not str'')
      | PyStr _ \<Rightarrow> Inl (OtherError (''string indices must be integers, not '' @ sq ''str''))
      | _ \<Rightarrow> Inl (OtherError (sq (type_name v) @ '' object is not subscriptable'')))"

definition item_0 :: "pyval \<Rightarrow> exn + pyval" where
  "item_0 v =
     (case v of
        PyList (x # _) \<Rightarrow> Inr x
      | PyList [] \<Rightarrow> Inl (OtherError ''list index out of range'')
      | PyStr (c # _) \<Rightarrow> Inr (PyStr [c])
      | PyStr [] \<Rightarrow> Inl (OtherError ''string index out of range'')
      | PyDict _ \<Rightarrow> Inl (OtherError ''0'')
      | _ \<Rightarrow> Inl (OtherError (sq (type_name v) @ '' object is not subscriptable'')))"

definition py_len :: "pyval \<Rightarrow> exn + pyval" where
  "py_len v =
     (case v of
        PyStr s \<Rightarrow> Inr (PyInt (int (length s)))
      | PyList xs \<Rightarrow> Inr (PyInt (int (length xs)))
      | PyDict kvs \<Rightarrow> Inr (PyInt (int (length kvs)))
      | _ \<Rightarrow> Inl (OtherError (''object of type '' @ sq (type_name v) @ '' has no len()'')))"

definition py_iter :: "pyval \<Rightarrow> exn + pyval list" where
  "py_iter v =
     (case v of
        PyList xs \<Rightarrow> Inr xs
      | PyStr s \<Rightarrow> Inr (map (\<lambda>c. PyStr [c]) s)
      | PyDict kvs \<Rightarrow> Inr (map (\<lambda>(k, _). PyStr k) kvs)
      | _ \<Rightarrow> Inl (OtherError (sq (type_name v) @ '' object is not iterable'')))"

fun map_each :: "('a \<Rightarrow> exn + 'b) \<Rightarrow> 'a list \<Rightarrow> exn + 'b list" where
  "map_each f [] = Inr []"
| "map_each f (x # xs) = andthen (f x) (\<lambda>y. andthen (map_each f xs) (\<lambda>ys. Inr (y # ys)))"

text \<open>\<^verbatim>\<open>"".join(xs)\<close>: the first element that is not a string is reported with its position.\<close>

fun str_concat :: "nat \<Rightarrow> pyval list \<Rightarrow> exn + string" where
  "str_concat i [] = Inr []"
| "str_concat i (x # xs) =
     (case x of
        PyStr s \<Rightarrow> andthen (str_concat (Suc i) xs) (\<lambda>t. Inr (s @ t))
      | _ \<Rightarrow> Inl (OtherError (''sequence item '' @ nat_str i @ '': expected str instance, '' @ type_name x @ '' found'')))"

section \<open>The HTTP client\<close>

record http_request =
  hr_method :: string
  hr_url :: string
  hr_params :: "(string, string) dict"
  hr_headers :: "(string, string) dict"
  hr_json :: pyval
  hr_timeout :: rat

record ('x, 'w) http =
  send :: "http_request \<Rightarrow> ('x, 'w) call"
  raise_for_status :: "'x \<Rightarrow> exn option"
  response_json :: "'x \<Rightarrow> exn + pyval"
  status_code :: "'x \<Rightarrow> int"
  aiter_lines :: "'x \<Rightarrow> string list \<times> exn option"

definition chat_messages :: "pyval \<Rightarrow> pyval" where
  "chat_messages prompt = PyList [PyDict [(''role'', PyStr ''user''), (''content'', prompt)]]"

definition openai_request :: "bool \<Rightarrow> pyval \<Rightarrow> string \<Rightarrow> string \<Rightarrow> string \<Rightarrow> http_request" where
  "openai_request streaming prompt model api_key base_url =
     \<lparr>hr_method = ''POST'', hr_url = base_url @ ''/chat/completions'', hr_params = [],
      hr_headers = [(''Authorization'', ''Bearer '' @ api_key), (''Content-Type'', ''application/json'')],
      hr_json = PyDict ([(''model'', PyStr model), (''messages'', chat_messages prompt)] @
                        (if streaming then [(''stream'', PyBool True)] else [])),
      hr_timeout = 60\<rparr>"

definition anthropic_request :: "bool \<Rightarrow> pyval \<Rightarrow> string \<Rightarrow> string \<Rightarrow> string \<Rightarrow> http_request" where
  "anthropic_request streaming prompt model api_key base_url =
     \<lparr>hr_method = ''POST'', hr_url = base_url @ ''/messages'', hr_params = [],
      hr_headers = [(''x-api-key'', api_key), (''anthropic-version'', ''2023-06-01''), (''Content-Type'', ''application/json'')],
      hr_json = PyDict ([(''model'', PyStr model), (''max_tokens'', PyInt 4096), (''messages'', chat_messages prompt)] @
                        (if streaming then [(''stream'', PyBool True)] else [])),
      hr_timeout = 60\<rparr>"

definition gemini_request :: "bool \<Rightarrow> pyval \<Rightarrow> string \<Rightarrow> string \<Rightarrow> string \<Rightarrow> http_request" where
  "gemini_request streaming prompt model api_key base_url =
     \<lparr>hr_method = ''POST'',
      hr_url = base_url @ ''/models/'' @ model @ (if streaming then '':streamGenerateContent'' else '':generateContent''),
      hr_params = [(''key'', api_key)] @ (if streaming then [(''alt'', ''sse'')] else []), hr_headers = [],
      hr_json = PyDict [(''contents'', PyList [PyDict [(''parts'', PyList [PyDict [(''text'', prompt)]])]])],
      hr_timeout = 60\<rparr>"

section \<open>Reading an answer\<close>

definition call_result :: "pyval \<Rightarrow> pyval \<Rightarrow> string \<Rightarrow> string \<Rightarrow> pyval \<Rightarrow> exn + pyobj" where
  "call_result prompt text in_key out_key usage =
     andthen (attr_get usage in_key (py_len prompt)) (\<lambda>input_units.
     andthen (attr_get usage out_key (py_len text)) (\<lambda>output_units.
       Inr [(''text'', text), (''input_units'', input_units), (''output_units'', output_units)]))"

definition openai_answer :: "pyval \<Rightarrow> pyval \<Rightarrow> exn + pyobj" where
  "openai_answer prompt data =
     andthen (andthen (item_str data ''choices'') item_0) (\<lambda>choice.
     andthen (andthen (item_str choice ''message'') (\<lambda>m. item_str m ''content'')) (\<lambda>text.
     andthen (attr_get data ''usage'' (Inr (PyDict []))) (\<lambda>usage.
       call_result prompt text ''prompt_tokens'' ''completion_tokens'' usage)))"

definition joined_texts :: "pyval \<Rightarrow> exn + pyval" where
  "joined_texts blocks =
     andthen (andthen (andthen (py_iter blocks) (map_each (\<lambda>b. attr_get b ''text'' (Inr (PyStr []))))) (str_concat 0))
       (\<lambda>s. Inr (PyStr s))"

definition anthropic_answer :: "pyval \<Rightarrow> pyval \<Rightarrow> exn + pyobj" where
  "anthropic_answer prompt data =
     andthen (andthen (attr_get data ''content'' (Inr (PyList []))) joined_texts) (\<lambda>text.
     andthen (attr_get data ''usage'' (Inr (PyDict []))) (\<lambda>usage.
       call_result prompt text ''input_tokens'' ''output_tokens'' usage))"

definition first_parts :: "pyval \<Rightarrow> exn + pyval" where
  "first_parts candidates =
     andthen (andthen (item_0 candidates) (\<lambda>c. attr_get c ''content'' (Inr (PyDict []))))
       (\<lambda>content. attr_get content ''parts'' (Inr (PyList [])))"

definition gemini_answer :: "pyval \<Rightarrow> pyval \<Rightarrow> exn + pyobj" where
  "gemini_answer prompt data =
     andthen (attr_get data ''candidates'' (Inr (PyList []))) (\<lambda>candidates.
     andthen (if truthy candidates then andthen (first_parts candidates) joined_texts else Inr (PyStr [])) (\<lambda>text.
     andthen (attr_get data ''usageMetadata'' (Inr (PyDict []))) (\<lambda>usage.
       call_result prompt text ''promptTokenCount'' ''candidatesTokenCount'' usage)))"

text \<open>One request and its answer; the three calls differ in the request and in the reading.\<close>

definition call_provider ::
  "(pyval \<Rightarrow> exn + pyobj) \<Rightarrow> http_request \<Rightarrow> ('x, 'w) http \<Rightarrow> (pyobj, 'w) call" where
  "call_provider answer request http w =
     (case send http request w of
        (Inl e, w') \<Rightarrow> (Inl e, w')
      | (Inr response, w') \<Rightarrow>
          (case raise_for_status http response of
             Some e \<Rightarrow> (Inl e, w')
           | None \<Rightarrow> (andthen (response_json http response) answer, w')))"

definition call_openai :: "('x, 'w) http \<Rightarrow> pyval \<Rightarrow> string \<Rightarrow> string \<Rightarrow> string \<Rightarrow> (pyobj, 'w) call" where
  "call_openai http prompt model api_key base_url =
     call_provider (openai_answer prompt) (openai_request False prompt model api_key base_url) http"

definition call_anthropic :: "('x, 'w) http \<Rightarrow> pyval \<Rightarrow> string \<Rightarrow> string \<Rightarrow> string \<Rightarrow> (pyobj, 'w) call" where
  "call_anthropic http prompt model api_key base_url =
     call_provider (anthropic_answer prompt) (anthropic_request False prompt model api_key base_url) http"

definition call_gemini :: "('x, 'w) http \<Rightarrow> pyval \<Rightarrow> string \<Rightarrow> string \<Rightarrow> string \<Rightarrow> (pyobj, 'w) call" where
  "call_gemini http prompt model api_key base_url =
     call_provider (gemini_answer prompt) (gemini_request False prompt model api_key base_url) http"

section \<open>Reading an event stream\<close>

record StreamChunk =
  sc_content :: pyval
  sc_finish_reason :: "string option"

definition text_chunk :: "pyval \<Rightarrow> StreamChunk" where
  "text_chunk content = \<lparr>sc_content = content, sc_finish_reason = None\<rparr>"

definition stop_chunk :: StreamChunk where
  "stop_chunk = \<lparr>sc_content = PyNone, sc_finish_reason = Some ''stop''\<rparr>"

text \<open>
  A generator, as the chunks it yields and the exception that ends it, if any. A line of the stream
  yields chunks and then lets the loop go on, returns from the generator, or raises.
\<close>

type_synonym chunks = "StreamChunk list \<times> exn option"

datatype line_end = Continue | Return | Raise exn

definition blank_or_comment :: "string \<Rightarrow> bool" where
  "blank_or_comment line \<longleftrightarrow> str_strip line = [] \<or> prefix '':'' line"

definition data_part :: "string \<Rightarrow> string" where
  "data_part line = (if prefix ''data: '' line then drop 6 line else line)"

definition yield_or_raise :: "exn + StreamChunk list \<Rightarrow> StreamChunk list \<times> line_end" where
  "yield_or_raise r = (case r of Inl e \<Rightarrow> ([], Raise e) | Inr cs \<Rightarrow> (cs, Continue))"

definition when_truthy :: "pyval \<Rightarrow> StreamChunk list" where
  "when_truthy v = (if truthy v then [text_chunk v] else [])"

definition openai_line :: "(string \<Rightarrow> rat) \<Rightarrow> string \<Rightarrow> StreamChunk list \<times> line_end" where
  "openai_line fl raw =
     (if blank_or_comment raw then ([], Continue)
      else let line = data_part raw in
        if str_strip line = ''[DONE]'' then ([stop_chunk], Return)
        else case json_loads fl line of
          None \<Rightarrow> ([], Continue)
        | Some chunk \<Rightarrow>
            yield_or_raise
              (andthen (andthen (attr_get chunk ''choices'' (Inr (PyList [PyDict []]))) item_0) (\<lambda>choice.
               andthen (attr_get choice ''delta'' (Inr (PyDict []))) (\<lambda>delta.
               andthen (attr_get delta ''content'' (Inr PyNone)) (\<lambda>content. Inr (when_truthy content))))))"

definition anthropic_line :: "(string \<Rightarrow> rat) \<Rightarrow> string \<Rightarrow> StreamChunk list \<times> line_end" where
  "anthropic_line fl raw =
     (if blank_or_comment raw then ([], Continue)
      else case json_loads fl (data_part raw) of
        None \<Rightarrow> ([], Continue)
      | Some chunk \<Rightarrow>
          (case attr_get chunk ''type'' (Inr PyNone) of
             Inl e \<Rightarrow> ([], Raise e)
           | Inr ty \<Rightarrow>
               if ty = PyStr ''content_block_delta'' then
                 yield_or_raise
                   (andthen (attr_get chunk ''delta'' (Inr (PyDict []))) (\<lambda>delta.
                    andthen (attr_get delta ''text'' (Inr (PyStr []))) (\<lambda>text. Inr (when_truthy text))))
               else if ty = PyStr ''message_stop'' then ([stop_chunk], Return)
               else ([], Continue)))"

fun yield_parts :: "pyval list \<Rightarrow> StreamChunk list \<times> line_end" where
  "yield_parts [] = ([], Continue)"
| "yield_parts (p # ps) =
     (case attr_get p ''text'' (Inr (PyStr [])) of
        Inl e \<Rightarrow> ([], Raise e)
      | Inr text \<Rightarrow> (case yield_parts ps of (cs, r) \<Rightarrow> (when_truthy text @ cs, r)))"

definition gemini_line :: "(string \<Rightarrow> rat) \<Rightarrow> string \<Rightarrow> StreamChunk list \<times> line_end" where
  "gemini_line fl raw =
     (if blank_or_comment raw then ([], Continue)
      else case json_loads fl (data_part raw) of
        None \<Rightarrow> ([], Continue)
      | Some chunk \<Rightarrow>
          (case attr_get chunk ''candidates'' (Inr (PyList [])) of
             Inl e \<Rightarrow> ([], Raise e)
           | Inr candidates \<Rightarrow>
               if \<not> truthy candidates then ([], Continue)
               else case andthen (first_parts candidates) py_iter of
                      Inl e \<Rightarrow> ([], Raise e)
                    | Inr parts \<Rightarrow> yield_parts parts))"

fun read_lines :: "(string \<Rightarrow> StreamChunk list \<times> line_end) \<Rightarrow> string list \<Rightarrow> exn option \<Rightarrow> chunks" where
  "read_lines step [] err = ([], err)"
| "read_lines step (l # ls) err =
     (case step l of
        (cs, Continue) \<Rightarrow> (case read_lines step ls err of (ds, e) \<Rightarrow> (cs @ ds, e))
      | (cs, Return) \<Rightarrow> (cs, None)
      | (cs, Raise e) \<Rightarrow> (cs, Some e))"

text \<open>One streamed request; the lines may break off with an exception of the client.\<close>

definition stream_provider ::
  "(string \<Rightarrow> StreamChunk list \<times> line_end) \<Rightarrow> http_request \<Rightarrow> ('x, 'w) http \<Rightarrow> 'w \<Rightarrow> chunks \<times> 'w" where
  "stream_provider step request http w =
     (case send http request w of
        (Inl e, w') \<Rightarrow> (([], Some e), w')
      | (Inr response, w') \<Rightarrow>
          (case raise_for_status http response of
             Some e \<Rightarrow> (([], Some e), w')
           | None \<Rightarrow> (case aiter_lines http response of (ls, err) \<Rightarrow> (read_lines step ls err, w'))))"

definition stream_openai ::
  "(string \<Rightarrow> rat) \<Rightarrow> ('x, 'w) http \<Rightarrow> pyval \<Rightarrow> string \<Rightarrow> string \<Rightarrow> string \<Rightarrow> 'w \<Rightarrow> chunks \<times> 'w" where
  "stream_openai fl http prompt model api_key base_url =
     stream_provider (openai_line fl) (openai_request True prompt model api_key base_url) http"

definition stream_anthropic ::
  "(string \<Rightarrow> rat) \<Rightarrow> ('x, 'w) http \<Rightarrow> pyval \<Rightarrow> string \<Rightarrow> string \<Rightarrow> string \<Rightarrow> 'w \<Rightarrow> chunks \<times> 'w" where
  "stream_anthropic fl http prompt model api_key base_url =
     stream_provider (anthropic_line fl) (anthropic_request True prompt model api_key base_url) http"

definition stream_gemini ::
  "(string \<Rightarrow> rat) \<Rightarrow> ('x, 'w) http \<Rightarrow> pyval \<Rightarrow> string \<Rightarrow> string \<Rightarrow> string \<Rightarrow> 'w \<Rightarrow> chunks \<times> 'w" where
  "stream_gemini fl http prompt model api_key base_url =
     stream_provider (gemini_line fl) (gemini_request True prompt model api_key base_url) http"

section \<open>The adapters\<close>

record model_adapter =
  ma_model_name :: string
  ma_api_key :: string
  ma_base_url :: string
  ma_metadata :: pyobj

definition rstrip_slash :: "string \<Rightarrow> string" where
  "rstrip_slash s = rev (dropWhile (\<lambda>c. c = CHR ''/'') (rev s))"

definition adapter_metadata :: "string \<Rightarrow> string \<Rightarrow> string list \<Rightarrow> string \<Rightarrow> pyobj" where
  "adapter_metadata adapter_id name capabilities provider =
     [(''adapter_id'', PyStr adapter_id), (''name'', PyStr name), (''version'', PyStr ''1.0''),
      (''capabilities'', PyList (map PyStr capabilities)), (''provider'', PyStr provider)]"

definition OPENAI_CAPABILITIES :: "string list" where
  "OPENAI_CAPABILITIES = [''model.text.generate'', ''model.code.generate'', ''model.embed.create'']"

definition ANTHROPIC_CAPABILITIES :: "string list" where
  "ANTHROPIC_CAPABILITIES = [''model.text.generate'', ''model.code.generate'', ''model.reasoning'']"

definition GEMINI_CAPABILITIES :: "string list" where
  "GEMINI_CAPABILITIES = [''model.text.generate'', ''model.code.generate'', ''model.vision'']"

definition LOCAL_CAPABILITIES :: "string list" where
  "LOCAL_CAPABILITIES = [''model.text.generate'', ''model.code.generate'']"

definition OpenAIAdapter_init :: "string \<Rightarrow> string \<Rightarrow> string \<Rightarrow> model_adapter" where
  "OpenAIAdapter_init model_name api_key base_url =
     \<lparr>ma_model_name = model_name, ma_api_key = api_key, ma_base_url = rstrip_slash base_url,
      ma_metadata = adapter_metadata ''openai'' ''OpenAI GPT'' OPENAI_CAPABILITIES ''openai''\<rparr>"

definition AnthropicAdapter_init :: "string \<Rightarrow> string \<Rightarrow> string \<Rightarrow> model_adapter" where
  "AnthropicAdapter_init model_name api_key base_url =
     \<lparr>ma_model_name = model_name, ma_api_key = api_key, ma_base_url = rstrip_slash base_url,
      ma_metadata = adapter_metadata ''anthropic'' ''Anthropic Claude'' ANTHROPIC_CAPABILITIES ''anthropic''\<rparr>"

text \<open>The names of a class that are properties without a setter: assigning to one raises.\<close>

definition GEMINI_PROPERTIES :: "string list" where
  "GEMINI_PROPERTIES = [''metadata'', ''_model_name'', ''_api_key'', ''_base_url'']"

definition set_attribute :: "string \<Rightarrow> string list \<Rightarrow> string \<Rightarrow> exn + unit" where
  "set_attribute cls properties name =
     (if name \<in> set properties
      then Inl (OtherError (''property '' @ sq name @ '' of '' @ sq cls @ '' object has no setter'')) else Inr ())"

definition GeminiAdapter_init :: "string \<Rightarrow> string \<Rightarrow> string \<Rightarrow> exn + model_adapter" where
  "GeminiAdapter_init model_name api_key base_url =
     andthen (map_each (set_attribute ''GeminiAdapter'' GEMINI_PROPERTIES)
                [''_model_name'', ''_api_key'', ''_base_url'', ''_metadata''])
       (\<lambda>_. Inr \<lparr>ma_model_name = model_name, ma_api_key = api_key, ma_base_url = rstrip_slash base_url,
                 ma_metadata = adapter_metadata ''gemini'' ''Google Gemini'' GEMINI_CAPABILITIES ''google'' @
                               [(''status'', PyStr ''active'')]\<rparr>)"

definition LocalModelAdapter_init :: "string \<Rightarrow> model_adapter" where
  "LocalModelAdapter_init model_name =
     \<lparr>ma_model_name = model_name, ma_api_key = [], ma_base_url = [],
      ma_metadata = adapter_metadata ''local'' ''Local LLM'' LOCAL_CAPABILITIES ''local''\<rparr>"

text \<open>\<^verbatim>\<open>request.get("payload", {}).get("prompt", "")\<close>, before any \<^verbatim>\<open>try\<close>.\<close>

definition request_prompt :: "pyobj \<Rightarrow> exn + pyval" where
  "request_prompt request =
     andthen (attr_get (PyDict request) ''payload'' (Inr (PyDict []))) (\<lambda>payload. attr_get payload ''prompt'' (Inr (PyStr [])))"

definition execution_answer ::
  "string \<Rightarrow> string \<Rightarrow> pyval \<Rightarrow> string \<Rightarrow> string \<Rightarrow> string \<Rightarrow> pyobj \<Rightarrow> pyobj" where
  "execution_answer adapter_id provider stamp model rid trace_id result =
     (let text = dict_get_or result ''text'' PyNone; input_units = dict_get_or result ''input_units'' PyNone;
          output_units = dict_get_or result ''output_units'' PyNone in
      [(''success'', PyBool True),
       (''result'', PyDict
         [(''text'', text), (''model'', PyStr model), (''provider'', PyStr provider), (''request_id'', PyStr rid),
          (''finish_reason'', PyStr ''stop''),
          (''execution'', PyDict [(''runtime'', PyStr adapter_id), (''device'', PyStr []), (''memory_mb'', PyInt 0)]),
          (''billing'', PyDict [(''input_units'', input_units), (''output_units'', output_units)]),
          (''trace'', PyDict [(''request_id'', PyStr trace_id)])]),
       (''usage'', PyDict
         [(''capability'', PyStr ''chat.generate''), (''adapter_id'', PyStr adapter_id), (''timestamp'', stamp),
          (''input_units'', input_units), (''output_units'', output_units), (''cost'', PyNone),
          (''provider_id'', PyStr provider)])])"

definition failure_answer :: "exn \<Rightarrow> pyobj" where
  "failure_answer e = [(''success'', PyBool False), (''error'', PyStr (exc_str e))]"

text \<open>The \<^verbatim>\<open>try\<close> of \<^verbatim>\<open>execute\<close>: the provider is called, and every exception becomes an answer.\<close>

definition execute_answer :: "(pyobj \<Rightarrow> pyobj) \<Rightarrow> (pyobj, 'w) call \<Rightarrow> (pyobj, 'w) call" where
  "execute_answer answer provider w =
     (case provider w of (Inl e, w') \<Rightarrow> (Inr (failure_answer e), w') | (Inr result, w') \<Rightarrow> (Inr (answer result), w'))"

text \<open>
  Looking a method up on the adapter. \<^verbatim>\<open>_call_openai\<close> and the other provider calls are functions of
  their modules, not attributes of the classes.
\<close>

definition ADAPTER_ATTRIBUTES :: "string list" where
  "ADAPTER_ATTRIBUTES = [''__init__'', ''metadata'', ''execute'', ''execute_stream'', ''health_check'', ''supports'',
     ''get_capabilities'', ''_model_name'', ''_api_key'', ''_base_url'', ''_metadata'']"

definition no_attribute :: "string \<Rightarrow> string \<Rightarrow> exn" where
  "no_attribute cls name = OtherError (sq cls @ '' object has no attribute '' @ sq name)"

definition method_call :: "string \<Rightarrow> string \<Rightarrow> ('a, 'w) call \<Rightarrow> ('a, 'w) call" where
  "method_call cls name body w = (if name \<in> set ADAPTER_ATTRIBUTES then body w else (Inl (no_attribute cls name), w))"

definition OpenAIAdapter_execute ::
  "model_adapter \<Rightarrow> ('x, 'w) http \<Rightarrow> pyval \<Rightarrow> string \<Rightarrow> string \<Rightarrow> pyobj \<Rightarrow> (pyobj, 'w) call" where
  "OpenAIAdapter_execute a http stamp rid trace_id request w =
     (case request_prompt request of
        Inl e \<Rightarrow> (Inl e, w)
      | Inr prompt \<Rightarrow>
          execute_answer (execution_answer ''openai'' ''openai'' stamp (ma_model_name a) rid trace_id)
            (method_call ''OpenAIAdapter'' ''_call_openai''
               (call_openai http prompt (ma_model_name a) (ma_api_key a) (ma_base_url a))) w)"

definition AnthropicAdapter_execute ::
  "model_adapter \<Rightarrow> ('x, 'w) http \<Rightarrow> pyval \<Rightarrow> string \<Rightarrow> string \<Rightarrow> pyobj \<Rightarrow> (pyobj, 'w) call" where
  "AnthropicAdapter_execute a http stamp rid trace_id request w =
     (case request_prompt request of
        Inl e \<Rightarrow> (Inl e, w)
      | Inr prompt \<Rightarrow>
          execute_answer (execution_answer ''anthropic'' ''anthropic'' stamp (ma_model_name a) rid trace_id)
            (method_call ''AnthropicAdapter'' ''_call_anthropic''
               (call_anthropic http prompt (ma_model_name a) (ma_api_key a) (ma_base_url a))) w)"

text \<open>Gemini's adapter calls the module's function; its model, key and address are the properties' constants.\<close>

definition GEMINI_MODEL :: string where "GEMINI_MODEL = ''gemini-2.0-flash''"
definition GEMINI_KEY :: string where "GEMINI_KEY = []"
definition GEMINI_URL :: string where "GEMINI_URL = ''https://generativelanguage.googleapis.com/v1beta''"

definition GeminiAdapter_execute ::
  "('x, 'w) http \<Rightarrow> pyval \<Rightarrow> string \<Rightarrow> string \<Rightarrow> pyobj \<Rightarrow> (pyobj, 'w) call" where
  "GeminiAdapter_execute http stamp rid trace_id request w =
     (case request_prompt request of
        Inl e \<Rightarrow> (Inl e, w)
      | Inr prompt \<Rightarrow>
          execute_answer (execution_answer ''gemini'' ''google'' stamp GEMINI_MODEL rid trace_id)
            (call_gemini http prompt GEMINI_MODEL GEMINI_KEY GEMINI_URL) w)"

text \<open>\<^verbatim>\<open>execute_stream\<close> looks its stream function up on the adapter when the first chunk is asked for.\<close>

definition adapter_stream ::
  "string \<Rightarrow> string \<Rightarrow> (pyval \<Rightarrow> 'w \<Rightarrow> chunks \<times> 'w) \<Rightarrow> pyobj \<Rightarrow> 'w \<Rightarrow> chunks \<times> 'w" where
  "adapter_stream cls name body request w =
     (case request_prompt request of
        Inl e \<Rightarrow> (([], Some e), w)
      | Inr prompt \<Rightarrow>
          if name \<in> set ADAPTER_ATTRIBUTES then body prompt w else (([], Some (no_attribute cls name)), w))"

definition OpenAIAdapter_execute_stream ::
  "(string \<Rightarrow> rat) \<Rightarrow> model_adapter \<Rightarrow> ('x, 'w) http \<Rightarrow> pyobj \<Rightarrow> 'w \<Rightarrow> chunks \<times> 'w" where
  "OpenAIAdapter_execute_stream fl a http =
     adapter_stream ''OpenAIAdapter'' ''_stream_openai''
       (\<lambda>prompt. stream_openai fl http prompt (ma_model_name a) (ma_api_key a) (ma_base_url a))"

definition AnthropicAdapter_execute_stream ::
  "(string \<Rightarrow> rat) \<Rightarrow> model_adapter \<Rightarrow> ('x, 'w) http \<Rightarrow> pyobj \<Rightarrow> 'w \<Rightarrow> chunks \<times> 'w" where
  "AnthropicAdapter_execute_stream fl a http =
     adapter_stream ''AnthropicAdapter'' ''_stream_anthropic''
       (\<lambda>prompt. stream_anthropic fl http prompt (ma_model_name a) (ma_api_key a) (ma_base_url a))"

definition GeminiAdapter_execute_stream ::
  "(string \<Rightarrow> rat) \<Rightarrow> ('x, 'w) http \<Rightarrow> pyobj \<Rightarrow> 'w \<Rightarrow> chunks \<times> 'w" where
  "GeminiAdapter_execute_stream fl http =
     adapter_stream ''GeminiAdapter'' ''_stream_gemini''
       (\<lambda>prompt. stream_gemini fl http prompt GEMINI_MODEL GEMINI_KEY GEMINI_URL)"

definition health_request :: "(string, string) dict \<Rightarrow> (string, string) dict \<Rightarrow> string \<Rightarrow> http_request" where
  "health_request params headers base_url =
     \<lparr>hr_method = ''GET'', hr_url = base_url @ ''/models'', hr_params = params, hr_headers = headers,
      hr_json = PyNone, hr_timeout = 10\<rparr>"

definition health_answer :: "string \<Rightarrow> string \<Rightarrow> http_request \<Rightarrow> ('x, 'w) http \<Rightarrow> 'w \<Rightarrow> pyobj \<times> 'w" where
  "health_answer provider model request http w =
     (case send http request w of
        (Inl e, w') \<Rightarrow>
          ([(''healthy'', PyBool False), (''provider'', PyStr provider), (''details'', PyDict [(''error'', PyStr (exc_str e))])], w')
      | (Inr response, w') \<Rightarrow>
          ([(''healthy'', PyBool (status_code http response = 200)), (''provider'', PyStr provider), (''model'', PyStr model),
            (''details'', PyDict [(''status_code'', PyInt (status_code http response))])], w'))"

definition OpenAIAdapter_health_check :: "model_adapter \<Rightarrow> ('x, 'w) http \<Rightarrow> 'w \<Rightarrow> pyobj \<times> 'w" where
  "OpenAIAdapter_health_check a =
     health_answer ''openai'' (ma_model_name a)
       (health_request [] [(''Authorization'', ''Bearer '' @ ma_api_key a)] (ma_base_url a))"

definition AnthropicAdapter_health_check :: "model_adapter \<Rightarrow> ('x, 'w) http \<Rightarrow> 'w \<Rightarrow> pyobj \<times> 'w" where
  "AnthropicAdapter_health_check a =
     health_answer ''anthropic'' (ma_model_name a) (health_request [] [(''x-api-key'', ma_api_key a)] (ma_base_url a))"

definition GeminiAdapter_health_check :: "('x, 'w) http \<Rightarrow> 'w \<Rightarrow> pyobj \<times> 'w" where
  "GeminiAdapter_health_check = health_answer ''google'' GEMINI_MODEL (health_request [(''key'', GEMINI_KEY)] [] GEMINI_URL)"

definition adapter_supports :: "model_adapter \<Rightarrow> string list \<Rightarrow> bool" where
  "adapter_supports a required_capabilities =
     (case dict_get_or (ma_metadata a) ''capabilities'' (PyList []) of
        PyList caps \<Rightarrow> \<forall>c \<in> set required_capabilities. PyStr c \<in> set caps
      | _ \<Rightarrow> False)"

section \<open>The local adapter\<close>

text \<open>\<^verbatim>\<open>f"Local response to: {prompt[:50]}..."\<close> with \<open>fr\<close> for the text of floats.\<close>

definition local_text :: "(rat \<Rightarrow> string) \<Rightarrow> pyval \<Rightarrow> exn + string" where
  "local_text fr prompt =
     map_sum id (\<lambda>p. ''Local response to: '' @ py_str fr p @ ''...'')
       (case prompt of
          PyStr s \<Rightarrow> Inr (PyStr (take 50 s))
        | PyList xs \<Rightarrow> Inr (PyList (take 50 xs))
        | PyDict _ \<Rightarrow> Inl (OtherError ''slice(None, 50, None)'')
        | _ \<Rightarrow> Inl (OtherError (sq (type_name prompt) @ '' object is not subscriptable'')))"

definition LocalModelAdapter_execute ::
  "(rat \<Rightarrow> string) \<Rightarrow> string \<Rightarrow> string \<Rightarrow> string \<Rightarrow> pyobj \<Rightarrow> exn + pyobj" where
  "LocalModelAdapter_execute fr stamp rid trace_id request =
     andthen (request_prompt request) (\<lambda>prompt.
     andthen (local_text fr prompt) (\<lambda>text.
     andthen (py_len prompt) (\<lambda>n.
       Inr [(''success'', PyBool True),
            (''result'', PyDict
              [(''text'', PyStr text), (''request_id'', PyStr rid), (''finish_reason'', PyStr ''stop''),
               (''execution'', PyDict [(''runtime'', PyStr ''local''), (''device'', PyStr ''cpu''), (''memory_mb'', PyInt 0)]),
               (''billing'', PyDict [(''input_units'', n), (''output_units'', PyInt 50)]),
               (''trace'', PyDict [(''request_id'', PyStr trace_id)])]),
            (''usage'', PyDict
              [(''capability'', PyStr ''chat.generate''), (''adapter_id'', PyStr ''local''), (''timestamp'', PyStr stamp),
               (''input_units'', n), (''output_units'', PyInt 50), (''cost'', PyNone), (''provider_id'', PyStr ''local'')])])))"

text \<open>\<^verbatim>\<open>text[i:i+10]\<close> for \<^verbatim>\<open>i\<close> from 0 in steps of 10.\<close>

function slices :: "nat \<Rightarrow> string \<Rightarrow> string list" where
  "slices n s = (if s = [] \<or> n = 0 then [] else take n s # slices n (drop n s))"
  by pat_completeness auto

termination
  by (relation "measure (\<lambda>(n, s). length s)") auto

declare slices.simps [simp del]

definition LocalModelAdapter_execute_stream :: "(rat \<Rightarrow> string) \<Rightarrow> pyobj \<Rightarrow> chunks" where
  "LocalModelAdapter_execute_stream fr request =
     (case andthen (request_prompt request) (local_text fr) of
        Inl e \<Rightarrow> ([], Some e)
      | Inr text \<Rightarrow> (map (\<lambda>s. text_chunk (PyStr s)) (slices 10 text) @ [stop_chunk], None))"

definition LocalModelAdapter_health_check :: "model_adapter \<Rightarrow> pyobj" where
  "LocalModelAdapter_health_check a =
     [(''healthy'', PyBool True), (''provider'', PyStr ''local''), (''model'', PyStr (ma_model_name a))]"

section \<open>The adapter registry\<close>

text \<open>
  Adapters are values of any kind; \<open>metadata\<close> is \<^verbatim>\<open>getattr(adapter, "metadata", {})\<close>. Keys are the
  identifiers found there, which must be hashable.
\<close>

record 'a InMemoryAdapterRegistry =
  ar_adapters :: "(pyval, 'a) dict"

definition adapter_key :: "('a \<Rightarrow> pyobj) \<Rightarrow> 'a \<Rightarrow> pyval" where
  "adapter_key metadata adapter = dict_get_or (metadata adapter) ''adapter_id'' (PyStr [])"

definition AdapterRegistry_register ::
  "('a \<Rightarrow> pyobj) \<Rightarrow> 'a \<Rightarrow> 'a InMemoryAdapterRegistry \<Rightarrow> exn + 'a InMemoryAdapterRegistry" where
  "AdapterRegistry_register metadata adapter r =
     (let adapter_id = adapter_key metadata adapter in
      if \<not> truthy adapter_id then Inl (ValueError ''Adapter must have metadata with adapter_id'')
      else case adapter_id of
          PyList _ \<Rightarrow> Inl (OtherError (''unhashable type: '' @ sq ''list''))
        | PyDict _ \<Rightarrow> Inl (OtherError (''unhashable type: '' @ sq ''dict''))
        | _ \<Rightarrow> Inr (r\<lparr>ar_adapters := dict_set adapter_id adapter (ar_adapters r)\<rparr>))"

definition AdapterRegistry_unregister :: "string \<Rightarrow> 'a InMemoryAdapterRegistry \<Rightarrow> 'a InMemoryAdapterRegistry" where
  "AdapterRegistry_unregister adapter_id r = r\<lparr>ar_adapters := dict_del (PyStr adapter_id) (ar_adapters r)\<rparr>"

definition AdapterRegistry_get :: "'a InMemoryAdapterRegistry \<Rightarrow> pyval \<Rightarrow> 'a option" where
  "AdapterRegistry_get r adapter_id = dict_get (ar_adapters r) adapter_id"

definition AdapterRegistry_list :: "'a InMemoryAdapterRegistry \<Rightarrow> 'a list" where
  "AdapterRegistry_list r = dict_values (ar_adapters r)"

section \<open>Lemmas\<close>

lemma strip_head: "\<not> is_space c \<Longrightarrow> \<exists>r. str_strip (c # cs) = c # r"
proof -
  assume c: "\<not> is_space c"
  then have "dropWhile is_space (rev cs @ [c]) = dropWhile is_space (rev cs) @ [c]"
    by (cases "\<forall>x \<in> set (rev cs). is_space x") (auto simp: dropWhile_append)
  with c show ?thesis by (simp add: str_strip_def)
qed

lemma json_loads_text:
  assumes "plain_val v"
  shows "json_loads fl (json_text fr v) = Some v"
proof -
  have "parse_val fl (Suc (length (json_text fr v))) (json_text fr v @ []) = Some (v, [])"
    by (rule reads_backD [OF plain_reads_back [OF assms]]) simp_all
  then show ?thesis using skip_ws_text [OF assms, of fr "[]"] by (simp add: json_loads_def)
qed

lemma data_line:
  "\<not> blank_or_comment (''data: '' @ x)" "data_part (''data: '' @ x) = x"
  using strip_head [of "CHR ''d''" "''ata: '' @ x"]
  by (auto simp: blank_or_comment_def data_part_def is_space_def)

lemma truthy_str [simp]: "truthy (PyStr s) \<longleftrightarrow> s \<noteq> []"
  by (simp add: truthy_def)

lemma truthy_Cons [simp]: "truthy (PyList (x # xs))"
  by (simp add: truthy_def)

text \<open>
  What a provider's stream carries: lines that transport a text, and lines that the reader must skip.
  A reader of a provider's lines, with the event that transports a text, keeps the following contract.
\<close>

datatype sse_line = TextLine string | SkippedLine string

locale sse_reader =
  fixes step :: "string \<Rightarrow> StreamChunk list \<times> line_end"
    and event :: "string \<Rightarrow> pyval"
  assumes step_event: "c \<noteq> [] \<Longrightarrow> step (''data: '' @ json_text fr (event c)) = ([text_chunk (PyStr c)], Continue)"
    and step_skipped: "blank_or_comment l \<Longrightarrow> step l = ([], Continue)"
begin

definition wire :: "(rat \<Rightarrow> string) \<Rightarrow> sse_line \<Rightarrow> string" where
  "wire fr l = (case l of TextLine c \<Rightarrow> ''data: '' @ json_text fr (event c) | SkippedLine s \<Rightarrow> s)"

definition transported :: "sse_line list \<Rightarrow> string list" where
  "transported ls = List.map_filter (\<lambda>l. case l of TextLine c \<Rightarrow> Some c | SkippedLine _ \<Rightarrow> None) ls"

lemma texts_come_through:
  assumes "\<forall>l \<in> set ls. case l of TextLine c \<Rightarrow> c \<noteq> [] | SkippedLine s \<Rightarrow> blank_or_comment s"
  shows "read_lines step (map (wire fr) ls @ rest) err =
    (map (\<lambda>c. text_chunk (PyStr c)) (transported ls) @ fst (read_lines step rest err), snd (read_lines step rest err))"
  using assms
proof (induction ls)
  case (Cons l ls)
  then show ?case
    by (cases l)
      (simp_all add: wire_def transported_def step_event [simplified] step_skipped List.map_filter_simps split: prod.splits)
qed (simp add: transported_def List.map_filter_simps)

end

definition openai_event :: "string \<Rightarrow> pyval" where
  "openai_event c = PyDict [(''choices'', PyList [PyDict [(''delta'', PyDict [(''content'', PyStr c)])]])]"

definition anthropic_event :: "string \<Rightarrow> pyval" where
  "anthropic_event c =
     PyDict [(''type'', PyStr ''content_block_delta''), (''delta'', PyDict [(''type'', PyStr ''text_delta''), (''text'', PyStr c)])]"

definition gemini_event :: "string \<Rightarrow> pyval" where
  "gemini_event c = PyDict [(''candidates'', PyList [PyDict [(''content'', PyDict [(''parts'', PyList [PyDict [(''text'', PyStr c)]])])]])]"

lemma event_values:
  "plain_val (openai_event c)" "plain_val (anthropic_event c)" "plain_val (gemini_event c)"
  by (simp_all add: openai_event_def anthropic_event_def gemini_event_def)

lemmas line_defs = openai_line_def anthropic_line_def gemini_line_def
lemmas value_defs = attr_get_def item_0_def item_str_def py_iter_def dict_get_or_def dict_get_def

lemma not_done: "str_strip (json_text fr (openai_event c)) \<noteq> ''[DONE]''"
proof -
  obtain x where x: "json_text fr (openai_event c) = CHR ''{'' # x"
    by (simp add: openai_event_def)
  have "\<not> is_space CHR ''{''" by (simp add: is_space_def)
  from strip_head [OF this, of x] x show ?thesis by auto
qed

interpretation openai_reader: sse_reader "openai_line fl" openai_event for fl
proof unfold_locales
  show "openai_line fl (''data: '' @ json_text fr (openai_event c)) = ([text_chunk (PyStr c)], Continue)" if "c \<noteq> []" for c fr
    unfolding openai_line_def Let_def if_not_P [OF data_line(1)] data_line(2) if_not_P [OF not_done] json_loads_text [OF event_values(1)]
    using that by (simp add: openai_event_def value_defs yield_or_raise_def when_truthy_def)
qed (simp add: line_defs)

interpretation anthropic_reader: sse_reader "anthropic_line fl" anthropic_event for fl
proof unfold_locales
  show "anthropic_line fl (''data: '' @ json_text fr (anthropic_event c)) = ([text_chunk (PyStr c)], Continue)" if "c \<noteq> []" for c fr
    unfolding anthropic_line_def if_not_P [OF data_line(1)] data_line(2) json_loads_text [OF event_values(2)]
    using that by (simp add: anthropic_event_def value_defs yield_or_raise_def when_truthy_def)
qed (simp add: line_defs)

interpretation gemini_reader: sse_reader "gemini_line fl" gemini_event for fl
proof unfold_locales
  show "gemini_line fl (''data: '' @ json_text fr (gemini_event c)) = ([text_chunk (PyStr c)], Continue)" if "c \<noteq> []" for c fr
    unfolding gemini_line_def if_not_P [OF data_line(1)] data_line(2) json_loads_text [OF event_values(3)]
    using that by (simp add: gemini_event_def value_defs first_parts_def when_truthy_def)
qed (simp add: line_defs)

lemma concat_slices: "concat (slices 10 s) = s"
  by (induction "10 :: nat" s rule: slices.induct) (subst slices.simps, simp)

lemma slices_short: "x \<in> set (slices 10 s) \<Longrightarrow> x \<noteq> [] \<and> length x \<le> 10"
proof (induction "10 :: nat" s rule: slices.induct)
  case (1 s)
  then show ?case using slices.simps [of 10 s] by (auto split: if_splits)
qed

interpretation adapters:
  keyed_registry "AdapterRegistry_register metadata" AdapterRegistry_get "adapter_key metadata"
    "\<lambda>r. dict_wf (ar_adapters r) \<and> (\<forall>k v. dict_get (ar_adapters r) k = Some v \<longrightarrow> adapter_key metadata v = k)" for metadata
proof unfold_locales
  fix v r r' k
  assume reg: "AdapterRegistry_register metadata v r = Inr r'"
  then have r': "r' = r\<lparr>ar_adapters := dict_set (adapter_key metadata v) v (ar_adapters r)\<rparr>"
    by (auto simp: AdapterRegistry_register_def Let_def split: pyval.splits if_splits)
  show "AdapterRegistry_get r' k = (if k = adapter_key metadata v then Some v else AdapterRegistry_get r k)"
    by (simp add: r' AdapterRegistry_get_def)
  show "dict_wf (ar_adapters r') \<and> (\<forall>k v. dict_get (ar_adapters r') k = Some v \<longrightarrow> adapter_key metadata v = k)"
    if "dict_wf (ar_adapters r) \<and> (\<forall>k v. dict_get (ar_adapters r) k = Some v \<longrightarrow> adapter_key metadata v = k)"
    using that by (auto simp: r')
qed (auto simp: AdapterRegistry_get_def)

lemma adapters_get_registered:
  "AdapterRegistry_register metadata a r = Inr r' \<Longrightarrow> AdapterRegistry_get r' (adapter_key metadata a) = Some a"
  by (rule adapters.registered_found)

lemma supports_own_capabilities:
  "adapter_supports (OpenAIAdapter_init m k u) req \<longleftrightarrow> set req \<subseteq> set OPENAI_CAPABILITIES"
  "adapter_supports (AnthropicAdapter_init m k u) req \<longleftrightarrow> set req \<subseteq> set ANTHROPIC_CAPABILITIES"
  "adapter_supports (LocalModelAdapter_init m) req \<longleftrightarrow> set req \<subseteq> set LOCAL_CAPABILITIES"
  by (auto simp: adapter_supports_def OpenAIAdapter_init_def AnthropicAdapter_init_def LocalModelAdapter_init_def
      adapter_metadata_def dict_get_or_def dict_get_def)

section \<open>Properties\<close>

text \<open>
  The readers of the providers' event streams are faithful: when the lines carry texts as
  the provider encodes them, mixed with blank lines and comments, the chunks yielded are exactly these
  texts in their order, followed by the end chunk where the provider sends its end marker; what
  follows the marker, even an exception of the connection, is not read.
\<close>

lemma provider_streams_read_back:
  assumes "\<forall>l \<in> set ls. case l of TextLine c \<Rightarrow> c \<noteq> [] | SkippedLine s \<Rightarrow> blank_or_comment s"
  shows "read_lines (openai_line fl) (map (openai_reader.wire fr) ls @ ''data: [DONE]'' # rest) err =
      (map (\<lambda>c. text_chunk (PyStr c)) (openai_reader.transported ls) @ [stop_chunk], None) \<and>
    read_lines (anthropic_line fl)
        (map (anthropic_reader.wire fr) ls @ (''data: '' @ json_text fr (PyDict [(''type'', PyStr ''message_stop'')])) # rest) err =
      (map (\<lambda>c. text_chunk (PyStr c)) (anthropic_reader.transported ls) @ [stop_chunk], None) \<and>
    read_lines (gemini_line fl) (map (gemini_reader.wire fr) ls) err =
      (map (\<lambda>c. text_chunk (PyStr c)) (gemini_reader.transported ls), err)"
proof (intro conjI)
  have "openai_line fl ''data: [DONE]'' = ([stop_chunk], Return)" by code_simp
  then show "read_lines (openai_line fl) (map (openai_reader.wire fr) ls @ ''data: [DONE]'' # rest) err =
      (map (\<lambda>c. text_chunk (PyStr c)) (openai_reader.transported ls) @ [stop_chunk], None)"
    unfolding openai_reader.texts_come_through [OF assms] by simp
  have plain: "plain_val (PyDict [(''type'', PyStr ''message_stop'')])" by simp
  have "anthropic_line fl (''data: '' @ json_text fr (PyDict [(''type'', PyStr ''message_stop'')])) = ([stop_chunk], Return)"
    unfolding anthropic_line_def if_not_P [OF data_line(1)] data_line(2) json_loads_text [OF plain]
    by (simp add: value_defs)
  then show "read_lines (anthropic_line fl)
        (map (anthropic_reader.wire fr) ls @ (''data: '' @ json_text fr (PyDict [(''type'', PyStr ''message_stop'')])) # rest) err =
      (map (\<lambda>c. text_chunk (PyStr c)) (anthropic_reader.transported ls) @ [stop_chunk], None)"
    unfolding anthropic_reader.texts_come_through [OF assms] by simp
  show "read_lines (gemini_line fl) (map (gemini_reader.wire fr) ls) err =
      (map (\<lambda>c. text_chunk (PyStr c)) (gemini_reader.transported ls), err)"
    using gemini_reader.texts_come_through [OF assms, of fl fr "[]" err] by simp
qed

lemma provider_streams_read_back_witness:
  "read_lines (openai_line (\<lambda>_. 0)) (map (openai_reader.wire (\<lambda>_. [])) [TextLine ''a'', SkippedLine '': ping'', TextLine ''b''] @
     ''data: [DONE]'' # [''x'']) None =
   (map (\<lambda>c. text_chunk (PyStr c)) (openai_reader.transported [TextLine ''a'', SkippedLine '': ping'', TextLine ''b'']) @ [stop_chunk], None)"
  by (rule provider_streams_read_back [THEN conjunct1]) (simp add: blank_or_comment_def)

text \<open>
  The OpenAI and the Anthropic adapter never reach their provider: for every request with a
  prompt, over every client, \<^verbatim>\<open>execute\<close> leaves the world as it is and answers with success False and the
  message that the adapter has no such method, and the stream of any of the three adapters raises
  before its first chunk.
\<close>

lemma adapters_never_call_out:
  assumes "request_prompt request = Inr prompt"
  shows "OpenAIAdapter_execute a http stamp rid tid request w =
      (Inr [(''success'', PyBool False), (''error'', PyStr (sq ''OpenAIAdapter'' @ '' object has no attribute '' @ sq ''_call_openai''))], w) \<and>
    AnthropicAdapter_execute a http stamp rid tid request w =
      (Inr [(''success'', PyBool False), (''error'', PyStr (sq ''AnthropicAdapter'' @ '' object has no attribute '' @ sq ''_call_anthropic''))], w) \<and>
    OpenAIAdapter_execute_stream fl a http request w = (([], Some (no_attribute ''OpenAIAdapter'' ''_stream_openai'')), w) \<and>
    AnthropicAdapter_execute_stream fl a http request w = (([], Some (no_attribute ''AnthropicAdapter'' ''_stream_anthropic'')), w) \<and>
    GeminiAdapter_execute_stream fl http request w = (([], Some (no_attribute ''GeminiAdapter'' ''_stream_gemini'')), w)"
  using assms
  by (simp add: OpenAIAdapter_execute_def AnthropicAdapter_execute_def OpenAIAdapter_execute_stream_def
      AnthropicAdapter_execute_stream_def GeminiAdapter_execute_stream_def adapter_stream_def execute_answer_def
      method_call_def ADAPTER_ATTRIBUTES_def failure_answer_def no_attribute_def)

lemma adapters_never_call_out_witness:
  "fst (OpenAIAdapter_execute (OpenAIAdapter_init ''gpt-4o'' ''k'' ''https://api'')
      \<lparr>send = (\<lambda>_ w. (Inr (), w)), raise_for_status = (\<lambda>_. None), response_json = (\<lambda>_. Inr PyNone),
       status_code = (\<lambda>_. 200), aiter_lines = (\<lambda>_. ([], None))\<rparr>
      PyNone ''r'' ''t'' [(''payload'', PyDict [(''prompt'', PyStr ''hello'')])] (0 :: nat)) =
   Inr [(''success'', PyBool False), (''error'', PyStr (sq ''OpenAIAdapter'' @ '' object has no attribute '' @ sq ''_call_openai''))]"
proof -
  have r: "request_prompt [(''payload'', PyDict [(''prompt'', PyStr ''hello'')])] = Inr (PyStr ''hello'')"
    by (simp add: request_prompt_def value_defs)
  show ?thesis by (subst adapters_never_call_out [OF r, THEN conjunct1]) (rule fst_conv)
qed

text \<open>Nor can a Gemini adapter be built: its constructor assigns to properties without a setter.\<close>

lemma gemini_cannot_be_built: "\<exists>e. GeminiAdapter_init model_name api_key base_url = Inl e"
  by (simp add: GeminiAdapter_init_def set_attribute_def GEMINI_PROPERTIES_def)

text \<open>Once the prompt is read, the Gemini call reports every failure as an answer and raises nothing.\<close>

lemma gemini_execute_answers:
  assumes "request_prompt request = Inr prompt"
  shows "\<exists>answer. fst (GeminiAdapter_execute http stamp rid tid request w) = Inr answer \<and>
    (dict_get answer ''success'' = Some (PyBool True) \<longleftrightarrow>
       (\<exists>result. fst (call_gemini http prompt GEMINI_MODEL GEMINI_KEY GEMINI_URL w) = Inr result))"
  using assms
  by (auto simp: GeminiAdapter_execute_def execute_answer_def failure_answer_def execution_answer_def Let_def dict_get_def
      split: prod.splits sum.splits)

text \<open>An OpenAI chunk with an empty list of choices, as the provider sends it for usage, breaks the stream.\<close>

lemma empty_choices_break_stream:
  "openai_line fl (''data: '' @ json_text fr (PyDict [(''choices'', PyList [])])) =
     ([], Raise (OtherError ''list index out of range''))"
proof -
  let ?v = "PyDict [(''choices'', PyList [])]"
  obtain x where x: "json_text fr ?v = CHR ''{'' # x" by simp
  have "\<not> is_space CHR ''{''" by (simp add: is_space_def)
  from strip_head [OF this, of x] have "str_strip (json_text fr ?v) \<noteq> ''[DONE]''" using x by auto
  moreover have "plain_val ?v" by simp
  ultimately show ?thesis
    unfolding openai_line_def Let_def if_not_P [OF data_line(1)] data_line(2)
    by (simp only: if_not_P json_loads_text option.case) (simp add: value_defs yield_or_raise_def)
qed

text \<open>
  The local adapter's stream carries its answer: the contents of the chunks, put together,
  are the text that \<^verbatim>\<open>execute\<close> returns for the request, no chunk is empty or longer than ten characters,
  and the last one ends the stream.
\<close>

lemma local_stream_reassembles:
  assumes "LocalModelAdapter_execute fr stamp rid tid request = Inr answer"
  shows "\<exists>text cs. LocalModelAdapter_execute_stream fr request = (map (\<lambda>c. text_chunk (PyStr c)) cs @ [stop_chunk], None) \<and>
     concat cs = text \<and> (\<forall>c \<in> set cs. c \<noteq> [] \<and> length c \<le> 10) \<and>
     (\<exists>result. dict_get answer ''result'' = Some (PyDict result) \<and> dict_get result ''text'' = Some (PyStr text))"
proof -
  obtain prompt body where t: "request_prompt request = Inr prompt" "local_text fr prompt = Inr body"
    "\<exists>result. dict_get answer ''result'' = Some (PyDict result) \<and> dict_get result ''text'' = Some (PyStr body)"
    using assms by (auto simp: LocalModelAdapter_execute_def andthen_def dict_get_def split: sum.splits)
  have "LocalModelAdapter_execute_stream fr request =
      (map (\<lambda>c. text_chunk (PyStr c)) (slices 10 body) @ [stop_chunk], None)"
    by (simp add: LocalModelAdapter_execute_stream_def t)
  then show ?thesis using concat_slices slices_short t(3) by blast
qed

lemma local_stream_reassembles_witness:
  "\<exists>text cs. LocalModelAdapter_execute_stream (\<lambda>_. []) [(''payload'', PyDict [(''prompt'', PyStr ''hi'')])] =
       (map (\<lambda>c. text_chunk (PyStr c)) cs @ [stop_chunk], None) \<and> concat cs = text"
proof -
  obtain answer where "LocalModelAdapter_execute (\<lambda>_. []) ''now'' ''r'' ''t'' [(''payload'', PyDict [(''prompt'', PyStr ''hi'')])] = Inr answer"
    by (simp add: LocalModelAdapter_execute_def request_prompt_def value_defs local_text_def py_len_def)
  from local_stream_reassembles [OF this] show ?thesis by blast
qed

end
