(* ===== verification/Mcp_Adapter.thy ===== *)
theory Mcp_Adapter
  imports AI_Gateway
begin

text \<open>
  \<^verbatim>\<open>agents/tools/mcp/mcp_adapter.py\<close> with the records it uses: the adapter that serves gateway requests
  from the tools of an MCP server. The client is a parameter, a record of the two calls the adapter
  makes; its results are untyped values.
\<close>

datatype AdapterStatus = UNKNOWN | ACTIVE | DEPRECATED | RETIRED | ERROR

primrec AdapterStatus_value :: "AdapterStatus \<Rightarrow> string" where
  "AdapterStatus_value UNKNOWN = ''unknown''"
| "AdapterStatus_value ACTIVE = ''active''"
| "AdapterStatus_value DEPRECATED = ''deprecated''"
| "AdapterStatus_value RETIRED = ''retired''"
| "AdapterStatus_value ERROR = ''error''"

record AdapterMetadata =
  am_adapter_id :: string
  am_name :: string
  am_version :: string
  am_capabilities :: "string list"
  am_provider :: string
  am_status :: AdapterStatus
  am_config_schema :: pyobj
  am_description :: string

record GatewayRequest =
  gr_capability :: string
  gr_payload :: pyobj
  gr_metadata :: pyobj
  gr_tenant_id :: string
  gr_trace_id :: string
  gr_request_id :: string

record 'w mcp_client =
  mcp_call_tool :: "string \<Rightarrow> pyobj \<Rightarrow> (pyval, 'w) call"
  mcp_server_info :: "(pyval, 'w) call"

definition MCPAdapter_metadata :: "AdapterMetadata \<Rightarrow> pyobj" where
  "MCPAdapter_metadata m =
     [(''adapter_id'', PyStr (am_adapter_id m)), (''name'', PyStr (am_name m)), (''version'', PyStr (am_version m)),
      (''capabilities'', PyList (map PyStr (am_capabilities m))), (''provider'', PyStr (am_provider m)),
      (''status'', PyStr (AdapterStatus_value (am_status m)))]"

definition MCPAdapter_execute ::
  "'w mcp_client \<Rightarrow> AdapterMetadata \<Rightarrow> pyval \<Rightarrow> GatewayRequest \<Rightarrow> (pyobj, 'w) call" where
  "MCPAdapter_execute client m stamp request w =
     (case mcp_call_tool client (gr_capability request) (gr_payload request) w of
        (Inl e, w') \<Rightarrow> (Inl e, w')
      | (Inr result, w') \<Rightarrow>
          (andthen (attr_get result ''input_units'' (Inr (PyInt 0))) (\<lambda>input_units.
           andthen (attr_get result ''output_units'' (Inr (PyInt 0))) (\<lambda>output_units.
           andthen (attr_get result ''cost'' (Inr PyNone)) (\<lambda>cost.
             Inr [(''success'', PyBool True), (''result'', result),
                  (''usage'', PyDict
                    [(''capability'', PyStr (gr_capability request)), (''adapter_id'', PyStr (am_adapter_id m)),
                     (''timestamp'', stamp), (''input_units'', input_units), (''output_units'', output_units),
                     (''cost'', cost), (''provider_id'', PyStr (am_provider m)),
                     (''tenant_id'', dict_get_or (gr_metadata request) ''tenant_id'' PyNone),
                     (''trace_id'', dict_get_or (gr_metadata request) ''trace_id'' PyNone),
                     (''request_id'', dict_get_or (gr_metadata request) ''request_id'' PyNone)])]))), w'))"

definition MCPAdapter_execute_stream :: "'w mcp_client \<Rightarrow> GatewayRequest \<Rightarrow> 'w \<Rightarrow> chunks \<times> 'w" where
  "MCPAdapter_execute_stream client request w =
     (let prompt = dict_get_or (gr_payload request) ''prompt'' (PyStr []) in
      case mcp_call_tool client (gr_capability request) (gr_payload request) w of
        (Inl e, w') \<Rightarrow> (([], Some e), w')
      | (Inr result, w') \<Rightarrow>
          (case attr_get result ''text'' (Inr prompt) of
             Inl e \<Rightarrow> (([], Some e), w')
           | Inr body \<Rightarrow> (([text_chunk body, stop_chunk], None), w')))"

definition MCPAdapter_health_check ::
  "(rat \<Rightarrow> string) \<Rightarrow> 'w mcp_client \<Rightarrow> AdapterMetadata \<Rightarrow> 'w \<Rightarrow> pyobj \<times> 'w" where
  "MCPAdapter_health_check fr client m w =
     (case mcp_server_info client w of
        (Inr info, w') \<Rightarrow>
          ([(''healthy'', PyBool True), (''provider'', PyStr (am_provider m)),
            (''details'', PyDict [(''server_info'', PyStr (py_str fr info))])], w')
      | (Inl e, w') \<Rightarrow>
          ([(''healthy'', PyBool False), (''provider'', PyStr (am_provider m)),
            (''details'', PyDict [(''error'', PyStr (exc_str e))])], w'))"

definition MCPAdapter_supports :: "AdapterMetadata \<Rightarrow> string list \<Rightarrow> bool" where
  "MCPAdapter_supports m required_capabilities \<longleftrightarrow> set required_capabilities \<subseteq> set (am_capabilities m)"

definition MCPAdapter_get_capabilities :: "AdapterMetadata \<Rightarrow> string list" where
  "MCPAdapter_get_capabilities m = am_capabilities m"

record MCPToolDefinition =
  mt_name :: string
  mt_description :: string
  mt_input_schema :: pyobj
  mt_output_schema :: pyobj
  mt_tags :: "string list"

definition MCPToolDefinition_init ::
  "string \<Rightarrow> string \<Rightarrow> pyobj option \<Rightarrow> pyobj option \<Rightarrow> string list \<Rightarrow> MCPToolDefinition" where
  "MCPToolDefinition_init name description input_schema output_schema tags =
     \<lparr>mt_name = name, mt_description = description,
      mt_input_schema = (case input_schema of None \<Rightarrow> [] | Some s \<Rightarrow> s),
      mt_output_schema = (case output_schema of None \<Rightarrow> [] | Some s \<Rightarrow> s), mt_tags = tags\<rparr>"

section \<open>Properties\<close>

text \<open>
  A gateway request is served by exactly one call of the tool named by its capability, with
  its payload as arguments: the adapter's answer carries the tool's result unchanged, an exception of
  the call is passed on unchanged, and a result that is not a dictionary raises after the call.
\<close>

lemma mcp_execute_is_one_call:
  assumes "mcp_call_tool client (gr_capability request) (gr_payload request) w = (outcome, w')"
  shows "snd (MCPAdapter_execute client m stamp request w) = w' \<and>
     (case outcome of
        Inl e \<Rightarrow> fst (MCPAdapter_execute client m stamp request w) = Inl e
      | Inr (PyDict obj) \<Rightarrow> (\<exists>answer. fst (MCPAdapter_execute client m stamp request w) = Inr answer \<and>
          dict_get answer ''success'' = Some (PyBool True) \<and> dict_get answer ''result'' = Some (PyDict obj))
      | Inr v \<Rightarrow> fst (MCPAdapter_execute client m stamp request w) =
          Inl (OtherError (sq (type_name v) @ '' object has no attribute '' @ sq ''get'')))"
  using assms
  by (auto simp: MCPAdapter_execute_def attr_get_def dict_get_def split: sum.splits pyval.splits)

lemma mcp_execute_is_one_call_witness:
  "snd (MCPAdapter_execute \<lparr>mcp_call_tool = (\<lambda>t a w. (Inr (PyDict []), t # w)), mcp_server_info = (\<lambda>w. (Inr PyNone, w))\<rparr>
     m PyNone \<lparr>gr_capability = ''search'', gr_payload = [], gr_metadata = [], gr_tenant_id = [], gr_trace_id = [],
       gr_request_id = []\<rparr> []) = [''search'']"
  by (rule mcp_execute_is_one_call [where outcome = "Inr (PyDict [])", THEN conjunct1]) simp

text \<open>
  The usage record takes the tenant from the request's metadata; the field \<^verbatim>\<open>tenant_id\<close> of the request
  itself is not read.
\<close>

lemma usage_ignores_request_tenant:
  assumes "fst (MCPAdapter_execute client m stamp request w) = Inr answer" "\<not> dict_has (gr_metadata request) ''tenant_id''"
  shows "\<exists>usage. dict_get answer ''usage'' = Some (PyDict usage) \<and> dict_get usage ''tenant_id'' = Some PyNone"
  using assms
  by (auto simp: MCPAdapter_execute_def andthen_def dict_get_def dict_get_or_def dict_has_def split: prod.splits sum.splits)

lemma mcp_supports_capabilities:
  "MCPAdapter_supports m req \<longleftrightarrow> (\<forall>c \<in> set req. c \<in> set (MCPAdapter_get_capabilities m))"
  by (auto simp: MCPAdapter_supports_def MCPAdapter_get_capabilities_def)

lemma mcp_registered:
  "am_adapter_id m \<noteq> [] \<Longrightarrow> \<exists>r'. AdapterRegistry_register MCPAdapter_metadata m r = Inr r' \<and>
     AdapterRegistry_get r' (PyStr (am_adapter_id m)) = Some m"
proof -
  have key: "adapter_key MCPAdapter_metadata m = PyStr (am_adapter_id m)"
    by (simp add: adapter_key_def MCPAdapter_metadata_def dict_get_or_def dict_get_def)
  assume "am_adapter_id m \<noteq> []"
  then obtain r' where "AdapterRegistry_register MCPAdapter_metadata m r = Inr r'"
    by (simp add: AdapterRegistry_register_def key Let_def)
  then show ?thesis using adapters_get_registered key by metis
qed

end
