(* ===== verification/Domain_Records.thy ===== *)
theory Domain_Records
  imports Tenant
begin

text \<open>
  The records of \<^verbatim>\<open>core/domain/\<close> with their checks: \<^verbatim>\<open>execution.py\<close>, \<^verbatim>\<open>adapter.py\<close>, \<^verbatim>\<open>approval.py\<close>,
  \<^verbatim>\<open>agent_manifest.py\<close> and \<^verbatim>\<open>exceptions.py\<close>. The duration of an execution goes through floating point;
  \<open>round_double\<close> rounds to the nearest double, ties to even, within the normal range.
\<close>

section \<open>Doubles\<close>

text \<open>The exponent of the leading bit of a positive integer, and of a positive number.\<close>

function int_log :: "int \<Rightarrow> int" where
  "int_log n = (if n \<le> 1 then 0 else int_log (n div 2) + 1)"
  by pat_completeness auto

termination
  by (relation "measure nat") auto

declare int_log.simps [simp del]

definition bit_exponent :: "rat \<Rightarrow> int" where
  "bit_exponent x =
     (let (a, b) = quotient_of x; d = int_log a - int_log b
      in if x < 2 powi d then d - 1 else d)"

definition round_double :: "rat \<Rightarrow> rat" where
  "round_double x =
     (if x = 0 then 0
      else let e = bit_exponent \<bar>x\<bar> - 52 in of_int (round_half_even (x / 2 powi e)) * 2 powi e)"

text \<open>\<^verbatim>\<open>int(x)\<close> of a float: towards zero.\<close>

definition trunc :: "rat \<Rightarrow> int" where
  "trunc x = (if 0 \<le> x then \<lfloor>x\<rfloor> else \<lceil>x\<rceil>)"

section \<open>Executions\<close>

datatype Execution_Status = PENDING | RUNNING | PAUSED | COMPLETED | FAILED

record BudgetConsumed =
  bc_tokens :: int
  bc_cost_usd :: rat
  bc_time_ms :: int

record ExecutionStep =
  es_step_number :: int
  es_node_name :: string
  es_runtime :: string
  es_input_state_hash :: "string option"
  es_output_state_hash :: "string option"
  es_started_at :: "time option"
  es_completed_at :: "time option"

record Execution =
  ex_execution_id :: string
  ex_tenant_id :: string
  ex_agent_instance_id :: string
  ex_agent_manifest_version :: string
  ex_status :: Execution_Status
  ex_goal :: string
  ex_steps :: "ExecutionStep list"
  ex_budget_consumed :: BudgetConsumed
  ex_started_at :: "time option"
  ex_completed_at :: "time option"

definition Execution_validate :: "Execution \<Rightarrow> string list" where
  "Execution_validate e =
     require (ex_execution_id e \<noteq> []) ''execution_id is required'' @
     require (ex_agent_instance_id e \<noteq> []) ''agent_instance_id is required'' @
     require (ex_goal e \<noteq> []) ''goal is required''"

definition Execution_is_valid :: "Execution \<Rightarrow> bool" where
  "Execution_is_valid e \<longleftrightarrow> length (Execution_validate e) = 0"

definition step_count :: "Execution \<Rightarrow> nat" where
  "step_count e = length (ex_steps e)"

definition Execution_total_tokens :: "Execution \<Rightarrow> int" where
  "Execution_total_tokens e = bc_tokens (ex_budget_consumed e)"

definition Execution_total_cost :: "Execution \<Rightarrow> rat" where
  "Execution_total_cost e = bc_cost_usd (ex_budget_consumed e)"

text \<open>
  Instants are exact to the microsecond; \<^verbatim>\<open>total_seconds()\<close> divides the microseconds by a million, and
  the product with 1000 is rounded again.
\<close>

definition microseconds :: "time \<Rightarrow> int" where
  "microseconds t = \<lfloor>t * 1000000\<rfloor>"

definition total_seconds :: "int \<Rightarrow> rat" where
  "total_seconds us = round_double (of_int us / 1000000)"

definition duration_ms :: "Execution \<Rightarrow> int" where
  "duration_ms e =
     (case (ex_started_at e, ex_completed_at e) of
        (Some s, Some c) \<Rightarrow> trunc (round_double (total_seconds (microseconds c - microseconds s) * 1000))
      | _ \<Rightarrow> 0)"

section \<open>Adapters\<close>

datatype AdapterType = FRAMEWORK | MODEL | TOOL | MCP | MEMORY | EXECUTOR

datatype TrustLevel = T0_UNKNOWN | T1_COMMUNITY | T2_TESTED | T3_ENTERPRISE | T4_CRITICAL

primrec TrustLevel_value :: "TrustLevel \<Rightarrow> string" where
  "TrustLevel_value T0_UNKNOWN = ''T0_UNKNOWN''"
| "TrustLevel_value T1_COMMUNITY = ''T1_COMMUNITY''"
| "TrustLevel_value T2_TESTED = ''T2_TESTED''"
| "TrustLevel_value T3_ENTERPRISE = ''T3_ENTERPRISE''"
| "TrustLevel_value T4_CRITICAL = ''T4_CRITICAL''"

record Adapter =
  ad_adapter_id :: string
  ad_name :: string
  ad_type :: AdapterType
  ad_provider :: string
  ad_version :: string
  ad_trust_level :: TrustLevel
  ad_capabilities :: "string list"
  ad_dependencies :: "string list"
  ad_status :: string
  ad_created_at :: "time option"

definition Adapter_validate :: "Adapter \<Rightarrow> string list" where
  "Adapter_validate a =
     require (ad_adapter_id a \<noteq> []) ''adapter_id is required'' @ require (ad_name a \<noteq> []) ''name is required''"

definition Adapter_is_valid :: "Adapter \<Rightarrow> bool" where
  "Adapter_is_valid a \<longleftrightarrow> length (Adapter_validate a) = 0"

text \<open>The levels are compared as the strings that are their values.\<close>

definition is_trusted :: "Adapter \<Rightarrow> bool" where
  "is_trusted a \<longleftrightarrow> TrustLevel_value T2_TESTED \<le> TrustLevel_value (ad_trust_level a)"

section \<open>Approvals\<close>

datatype ApprovalStatus = AWAITING | APPROVED | REJECTED | EXPIRED

primrec ApprovalStatus_value :: "ApprovalStatus \<Rightarrow> string" where
  "ApprovalStatus_value AWAITING = ''PENDING''"
| "ApprovalStatus_value APPROVED = ''APPROVED''"
| "ApprovalStatus_value REJECTED = ''REJECTED''"
| "ApprovalStatus_value EXPIRED = ''EXPIRED''"

datatype RiskLevel = LOW | MEDIUM | HIGH | CRITICAL

record ApprovalRequest =
  aq_approval_id :: string
  aq_execution_id :: string
  aq_agent_instance_id :: string
  aq_action :: string
  aq_risk_level :: RiskLevel
  aq_status :: ApprovalStatus
  aq_reason :: string
  aq_payload :: string
  aq_approved_by :: "string option"
  aq_rejection_reason :: "string option"
  aq_expires_at :: "time option"
  aq_created_at :: "time option"
  aq_decided_at :: "time option"

definition ApprovalRequest_validate :: "ApprovalRequest \<Rightarrow> string list" where
  "ApprovalRequest_validate a =
     require (aq_approval_id a \<noteq> []) ''approval_id is required'' @
     require (aq_execution_id a \<noteq> []) ''execution_id is required'' @
     require (aq_action a \<noteq> []) ''action is required''"

definition ApprovalRequest_is_valid :: "ApprovalRequest \<Rightarrow> bool" where
  "ApprovalRequest_is_valid a \<longleftrightarrow> length (ApprovalRequest_validate a) = 0"

definition is_decided :: "ApprovalRequest \<Rightarrow> bool" where
  "is_decided a \<longleftrightarrow> aq_status a \<in> {APPROVED, REJECTED}"

definition approval_is_expired :: "time \<Rightarrow> ApprovalRequest \<Rightarrow> bool" where
  "approval_is_expired now a =
     (case (aq_expires_at a, aq_created_at a) of (Some e, Some _) \<Rightarrow> e < now | _ \<Rightarrow> False)"

section \<open>Agent manifests\<close>

record AgentIdentity =
  ai_name :: string
  ai_role :: string
  ai_goal :: string

record RuntimeDefinition =
  rd_framework :: string
  rd_entrypoint :: string
  rd_runtime_contract_version :: string

record Agent_Capabilities =
  ac_allowed_tools :: "string list"
  ac_allowed_models :: "string list"

record Constraints =
  cn_max_budget_usd :: rat
  cn_max_loops :: int
  cn_max_tokens_per_run :: int
  cn_human_escalation_triggers :: "string list"

record AgentManifest =
  mf_agent_id :: string
  mf_version :: string
  mf_tenant_id :: string
  mf_identity :: AgentIdentity
  mf_runtime_definition :: RuntimeDefinition
  mf_capabilities :: Agent_Capabilities
  mf_constraints :: Constraints
  mf_policy_profile :: string
  mf_created_at :: "time option"
  mf_updated_at :: "time option"

definition AgentManifest_validate :: "AgentManifest \<Rightarrow> string list" where
  "AgentManifest_validate m =
     require (mf_agent_id m \<noteq> []) ''agent_id is required'' @
     require (mf_version m \<noteq> []) ''version is required'' @
     require (mf_tenant_id m \<noteq> []) ''tenant_id is required'' @
     require (ai_name (mf_identity m) \<noteq> []) ''identity.name is required'' @
     require (rd_framework (mf_runtime_definition m) \<noteq> []) ''runtime_definition.framework is required'' @
     require (0 \<le> cn_max_budget_usd (mf_constraints m)) ''max_budget_usd must be >= 0'' @
     require (1 \<le> cn_max_loops (mf_constraints m)) ''max_loops must be >= 1''"

definition AgentManifest_is_valid :: "AgentManifest \<Rightarrow> bool" where
  "AgentManifest_is_valid m \<longleftrightarrow> length (AgentManifest_validate m) = 0"

section \<open>Domain exceptions\<close>

text \<open>The classes with their attributes, and \<^verbatim>\<open>str(e)\<close>; the arrow of the last message is written \<^verbatim>\<open>->\<close>.\<close>

datatype domain_exn =
    ValidationError "string list"
  | PolicyViolationError string "string option"
  | Domain_BudgetExceededError string rat rat
  | ApprovalRequiredError string string string
  | AdapterNotFoundError string
  | StateConflictError string string

primrec domain_exn_str :: "(rat \<Rightarrow> string) \<Rightarrow> domain_exn \<Rightarrow> string" where
  "domain_exn_str fr (ValidationError errors) = str_join ''; '' errors"
| "domain_exn_str fr (PolicyViolationError reason _) = ''Policy violation: '' @ reason"
| "domain_exn_str fr (Domain_BudgetExceededError budget_type limit actual) =
     budget_type @ '' budget exceeded: '' @ fr actual @ '' > '' @ fr limit"
| "domain_exn_str fr (ApprovalRequiredError _ action risk_level) =
     ''Approval required for '' @ action @ '' (risk: '' @ risk_level @ '')''"
| "domain_exn_str fr (AdapterNotFoundError adapter_name) = ''Adapter not found: '' @ adapter_name"
| "domain_exn_str fr (StateConflictError current target) = ''Invalid state transition: '' @ current @ '' -> '' @ target"

section \<open>Rounding\<close>

lemma int_log_nonneg: "0 \<le> int_log n"
  by (induction n rule: int_log.induct) (subst int_log.simps, simp)

lemma int_log_bounds:
  assumes "1 \<le> n"
  shows "2 powi int_log n \<le> (of_int n :: rat)" "(of_int n :: rat) < 2 powi (int_log n + 1)"
proof -
  have "2 powi int_log n \<le> (of_int n :: rat) \<and> (of_int n :: rat) < 2 powi (int_log n + 1)"
    using assms
  proof (induction n rule: int_log.induct)
    case (1 n)
    show ?case
    proof (cases "n \<le> 1")
      case True
      then have "n = 1" using 1(2) by simp
      moreover have "int_log 1 = 0" by (simp add: int_log.simps)
      ultimately show ?thesis by simp
    next
      case False
      let ?k = "int_log (n div 2)"
      have IH: "2 powi ?k \<le> (of_int (n div 2) :: rat)" "(of_int (n div 2) :: rat) < 2 powi (?k + 1)"
        using 1(1) False by auto
      have pow: "(2 :: rat) powi (i + 1) = 2 * 2 powi i" for i by (simp add: power_int_add)
      have "2 powi (?k + 1) = (of_int (2 ^ nat (?k + 1)) :: rat)"
        using int_log_nonneg [of "n div 2"] by (simp add: power_int_def)
      then have "n div 2 < 2 ^ nat (?k + 1)" using IH(2) by (simp only: of_int_less_iff)
      then have "n < 2 * 2 ^ nat (?k + 1)" by simp
      then have "(of_int n :: rat) < of_int (2 * 2 ^ nat (?k + 1))" by (simp only: of_int_less_iff)
      then have hi: "(of_int n :: rat) < 2 powi (?k + 1 + 1)"
        using \<open>2 powi (?k + 1) = (of_int (2 ^ nat (?k + 1)) :: rat)\<close> pow [of "?k + 1"] by simp
      have "2 * of_int (n div 2) \<le> (of_int n :: rat)"
      proof -
        have "2 * (n div 2) \<le> n" by presburger
        then have "(of_int (2 * (n div 2)) :: rat) \<le> of_int n" by (simp only: of_int_le_iff)
        then show ?thesis by simp
      qed
      then have "2 powi (?k + 1) \<le> (of_int n :: rat)" using IH(1) pow [of ?k] by simp
      with hi False show ?thesis by (simp add: int_log.simps [of n])
    qed
  qed
  then show "2 powi int_log n \<le> (of_int n :: rat)" "(of_int n :: rat) < 2 powi (int_log n + 1)" by auto
qed

lemma bit_exponent_bounds:
  assumes "0 < x"
  shows "2 powi bit_exponent x \<le> x" "x < 2 powi (bit_exponent x + 1)"
proof -
  obtain a b where q: "quotient_of x = (a, b)" by force
  have b: "0 < b" using quotient_of_denom_pos [OF q] .
  have x: "x = of_int a / of_int b" using quotient_of_div [OF q] .
  have a: "0 < a" using assms b by (simp add: x zero_less_divide_iff)
  let ?A = "int_log a" and ?B = "int_log b"
  have split: "(2 :: rat) powi (i - j) = 2 powi i / 2 powi j" for i j by (simp add: power_int_diff)
  note log = int_log_bounds
  have "2 powi ?A / 2 powi (?B + 1) \<le> x"
    unfolding x using log(1) [of a] log(2) [of b] a b by (intro frac_le) auto
  then have lo: "2 powi (?A - ?B - 1) \<le> x"
    using split [of ?A "?B + 1"] by (simp add: algebra_simps)
  have "x < 2 powi (?A + 1) / 2 powi ?B"
    unfolding x using log(2) [of a] log(1) [of b] a b by (intro frac_less) auto
  then have hi: "x < 2 powi (?A - ?B + 1)"
    using split [of "?A + 1" ?B] by (simp add: algebra_simps)
  show "2 powi bit_exponent x \<le> x" "x < 2 powi (bit_exponent x + 1)"
    using lo hi by (auto simp: bit_exponent_def q Let_def algebra_simps)
qed

text \<open>Rounding a number moves it by at most half a unit in its last place, a relative error of \<^verbatim>\<open>2^-53\<close>.\<close>

lemma round_double_error:
  assumes "0 \<le> x"
  shows "\<bar>round_double x - x\<bar> \<le> x / 2 ^ 53"
proof (cases "x = 0")
  case False
  then have pos: "0 < x" using assms by simp
  define e where "e = bit_exponent x - 52"
  define u where "u = (2 :: rat) powi e"
  have u: "0 < u" by (simp add: u_def)
  have "\<bar>of_int (round_half_even (x / u)) - x / u\<bar> \<le> 1 / 2"
    using round_half_even_bounds [of "x / u"] by linarith
  then have "\<bar>of_int (round_half_even (x / u)) - x / u\<bar> * u \<le> 1 / 2 * u" using u by (intro mult_right_mono) simp_all
  moreover have "\<bar>of_int (round_half_even (x / u)) - x / u\<bar> * u = \<bar>of_int (round_half_even (x / u)) * u - x\<bar>"
  proof -
    have "\<bar>(of_int (round_half_even (x / u)) - x / u) * u\<bar> = \<bar>of_int (round_half_even (x / u)) * u - x\<bar>"
      using u by (simp add: left_diff_distrib)
    then show ?thesis using u by (simp add: abs_mult)
  qed
  moreover have "round_double x = of_int (round_half_even (x / u)) * u"
    using pos by (simp add: round_double_def Let_def e_def u_def)
  moreover have "u * 2 ^ 52 \<le> x"
  proof -
    have "u * 2 powi 52 = 2 powi bit_exponent x"
      unfolding u_def e_def by (subst power_int_add [symmetric]) simp_all
    then show ?thesis using bit_exponent_bounds(1) [OF pos] by simp
  qed
  ultimately show ?thesis by (simp add: field_simps)
qed (simp add: round_double_def)

lemma round_double_nonneg: "0 \<le> x \<Longrightarrow> 0 \<le> round_double x"
proof -
  assume "0 \<le> x"
  then have "\<bar>round_double x - x\<bar> \<le> x / 2 ^ 53" by (rule round_double_error)
  then have "x - x / 2 ^ 53 \<le> round_double x" by linarith
  with \<open>0 \<le> x\<close> show ?thesis by simp
qed

text \<open>Two roundings and the product in between: the milliseconds before they are truncated.\<close>

lemma milliseconds_error:
  assumes "0 \<le> us" "us \<le> 10 ^ 13"
  shows "\<bar>round_double (total_seconds us * 1000) - of_int us / 1000\<bar> \<le> 1 / 10000"
proof -
  let ?s = "of_int us / 1000000 :: rat" and ?t = "total_seconds us"
  have s: "0 \<le> ?s" "?s \<le> 10000000"
  proof -
    show "0 \<le> ?s" using assms(1) by simp
    have "(of_int us :: rat) \<le> 10 ^ 13" using assms(2) by (metis of_int_le_iff of_int_numeral of_int_power)
    then show "?s \<le> 10000000" by simp
  qed
  have one: "\<bar>?t - ?s\<bar> \<le> ?s / 2 ^ 53" unfolding total_seconds_def by (rule round_double_error [OF s(1)])
  have t: "0 \<le> ?t" unfolding total_seconds_def using s(1) by (rule round_double_nonneg)
  have two: "\<bar>round_double (?t * 1000) - ?t * 1000\<bar> \<le> ?t * 1000 / 2 ^ 53"
    by (rule round_double_error) (use t in simp)
  have "?s / 2 ^ 53 \<le> 1 / 100000000" using s by simp
  with one have "\<bar>?t - ?s\<bar> \<le> 1 / 100000000" by linarith
  then have "\<bar>?t * 1000 - of_int us / 1000\<bar> \<le> 1 / 100000" by linarith
  moreover have "?t * 1000 / 2 ^ 53 \<le> 1 / 100000"
  proof -
    have "?t \<le> 10000001" using \<open>\<bar>?t - ?s\<bar> \<le> 1 / 100000000\<close> s(2) by linarith
    then have "?t * 1000 \<le> 10000001000" by simp
    then have "?t * 1000 / 2 ^ 53 \<le> 10000001000 / 2 ^ 53" by (rule divide_right_mono) simp
    then show ?thesis by (rule order_trans) simp
  qed
  ultimately show ?thesis using two by linarith
qed

lemma truncated_milliseconds:
  assumes "0 \<le> us" "us \<le> 10 ^ 13"
  shows "trunc (round_double (total_seconds us * 1000)) \<in> {us div 1000 - 1, us div 1000}"
    and "us mod 1000 \<noteq> 0 \<Longrightarrow> trunc (round_double (total_seconds us * 1000)) = us div 1000"
proof -
  let ?v = "round_double (total_seconds us * 1000)"
  have "0 \<le> total_seconds us" unfolding total_seconds_def using assms(1) by (intro round_double_nonneg) simp
  then have v: "0 \<le> ?v" by (intro round_double_nonneg) simp
  have err: "\<bar>?v - of_int us / 1000\<bar> \<le> 1 / 10000" by (rule milliseconds_error [OF assms])
  define q r where "q = us div 1000" and "r = us mod 1000"
  have us: "us = 1000 * q + r" "0 \<le> r" "r \<le> 999" by (simp_all add: q_def r_def)
  have m: "(of_int us :: rat) / 1000 = of_int q + of_int r / 1000" by (simp add: us(1) add_divide_distrib)
  have r: "(0 :: rat) \<le> of_int r" "(of_int r :: rat) \<le> 999"
    using us(2,3) by simp_all
  have "?v < of_int q + 1" using err r(2) unfolding m by linarith
  moreover have "of_int q - 1 < ?v" using err r(1) unfolding m by linarith
  ultimately have "\<lfloor>?v\<rfloor> \<in> {q - 1, q}" by (auto simp: floor_eq_iff)
  then show "trunc ?v \<in> {us div 1000 - 1, us div 1000}" using v by (simp add: trunc_def q_def)
  show "trunc ?v = us div 1000" if "us mod 1000 \<noteq> 0"
  proof -
    have "1 \<le> r" using that us(2) by (simp add: r_def)
    then have "(1 :: rat) \<le> of_int r" by (metis of_int_1_le_iff)
    then have "of_int q \<le> ?v" using err unfolding m by linarith
    with \<open>?v < of_int q + 1\<close> have "\<lfloor>?v\<rfloor> = q" by (simp add: floor_eq_iff)
    then show ?thesis using v by (simp add: trunc_def q_def)
  qed
qed

section \<open>Properties\<close>

text \<open>
  The duration of an execution of up to 115 days is right to the millisecond below: it is
  the whole milliseconds between start and completion, or, only when the microseconds are a multiple
  of a thousand, possibly one less, because it is computed in floating point and then truncated.
\<close>

lemma duration_within_a_millisecond:
  assumes "ex_started_at e = Some s" "ex_completed_at e = Some c"
    and "0 \<le> microseconds c - microseconds s" "microseconds c - microseconds s \<le> 10 ^ 13"
  shows "(microseconds c - microseconds s) div 1000 - 1 \<le> duration_ms e \<and>
     duration_ms e \<le> (microseconds c - microseconds s) div 1000 \<and>
     ((microseconds c - microseconds s) mod 1000 \<noteq> 0 \<longrightarrow> duration_ms e = (microseconds c - microseconds s) div 1000)"
  using truncated_milliseconds [OF assms(3,4)] by (auto simp: duration_ms_def assms(1,2))

definition sample_execution :: "time \<Rightarrow> Execution" where
  "sample_execution c =
     \<lparr>ex_execution_id = ''e'', ex_tenant_id = ''t'', ex_agent_instance_id = ''a'', ex_agent_manifest_version = ''1'',
      ex_status = COMPLETED, ex_goal = ''g'', ex_steps = [],
      ex_budget_consumed = \<lparr>bc_tokens = 0, bc_cost_usd = 0, bc_time_ms = 0\<rparr>,
      ex_started_at = Some 0, ex_completed_at = Some c\<rparr>"

lemma duration_within_a_millisecond_witness:
  "duration_ms (sample_execution (1500001 / 1000000)) = 1500"
proof -
  have "microseconds 0 = 0" "microseconds (1500001 / 1000000) = 1500001" by (simp_all add: microseconds_def)
  then show ?thesis
    using duration_within_a_millisecond [of "sample_execution (1500001 / 1000000)" 0 "1500001 / 1000000"]
    by (simp add: sample_execution_def)
qed

text \<open>The millisecond is lost in practice: an execution of 1.001 seconds lasts 1000 milliseconds.\<close>

lemma duration_loses_a_millisecond: "duration_ms (sample_execution (1001 / 1000)) = 1000"
  by code_simp

text \<open>Comparing the levels as strings agrees with their rank: trusted means tested or better.\<close>

primrec trust_rank :: "TrustLevel \<Rightarrow> nat" where
  "trust_rank T0_UNKNOWN = 0"
| "trust_rank T1_COMMUNITY = 1"
| "trust_rank T2_TESTED = 2"
| "trust_rank T3_ENTERPRISE = 3"
| "trust_rank T4_CRITICAL = 4"

lemma trust_order: "TrustLevel_value a \<le> TrustLevel_value b \<longleftrightarrow> trust_rank a \<le> trust_rank b"
proof -
  let ?L = "[T0_UNKNOWN, T1_COMMUNITY, T2_TESTED, T3_ENTERPRISE, T4_CRITICAL]"
  have all: "\<forall>a \<in> set ?L. \<forall>b \<in> set ?L. (TrustLevel_value a \<le> TrustLevel_value b) = (trust_rank a \<le> trust_rank b)"
    by code_simp
  have "x \<in> set ?L" for x by (cases x) simp_all
  with all show ?thesis by blast
qed

lemma is_trusted_iff: "is_trusted a \<longleftrightarrow> 2 \<le> trust_rank (ad_trust_level a)"
  unfolding is_trusted_def trust_order by simp

text \<open>A request that has an expiry and no creation time never expires.\<close>

lemma never_expires_without_creation: "aq_created_at a = None \<Longrightarrow> \<not> approval_is_expired now a"
  by (simp add: approval_is_expired_def split: option.splits)

lemma AgentManifest_valid_iff: "AgentManifest_is_valid m \<longleftrightarrow>
    mf_agent_id m \<noteq> [] \<and> mf_version m \<noteq> [] \<and> mf_tenant_id m \<noteq> [] \<and> ai_name (mf_identity m) \<noteq> [] \<and>
    rd_framework (mf_runtime_definition m) \<noteq> [] \<and> 0 \<le> cn_max_budget_usd (mf_constraints m) \<and>
    1 \<le> cn_max_loops (mf_constraints m)"
  by (simp add: AgentManifest_is_valid_def AgentManifest_validate_def require_def)

end
