(* ===== verification/Interface_Checks.thy ===== *)
theory Interface_Checks
  imports Architecture Errors
begin

text \<open>
  The two checks of \<^verbatim>\<open>scripts/verify_architecture.py\<close> that look at classes: \<^verbatim>\<open>check_interface_compliance\<close>
  over the class definitions of the sources, and \<^verbatim>\<open>check_contract_consistency\<close> over imported classes,
  with the import system as a parameter. Sets whose text is printed are lists in their iteration order.
\<close>

section \<open>Class definitions\<close>

datatype base_expr = NameBase string | AttributeBase string | OtherBase

record function_def =
  fd_name :: string
  fd_async :: bool
  fd_decorators :: "string list"

text \<open>A class: its bases, the functions anywhere inside it, and the functions of its body.\<close>

record class_def =
  cd_name :: string
  cd_bases :: "base_expr list"
  cd_walk :: "function_def list"
  cd_body :: "function_def list"

record class_file =
  cf_parts :: "string list"
  cf_classes :: "class_def list option"

definition base_name :: "base_expr \<Rightarrow> string" where
  "base_name b = (case b of NameBase s \<Rightarrow> s | AttributeBase s \<Rightarrow> s | OtherBase \<Rightarrow> [])"

definition under :: "string list \<Rightarrow> class_file \<Rightarrow> bool" where
  "under dir f \<longleftrightarrow> prefix dir (cf_parts f)"

definition classes_under :: "string list \<Rightarrow> class_file list \<Rightarrow> class_def list" where
  "classes_under dir files =
     concat (map (\<lambda>f. case cf_classes f of None \<Rightarrow> [] | Some cs \<Rightarrow> cs) (filter (under dir) files))"

definition is_abc :: "class_def \<Rightarrow> bool" where
  "is_abc c \<longleftrightarrow> (\<exists>b \<in> set (cd_bases c). base_name b = ''ABC'' \<or> (\<exists>b' \<in> set (cd_bases c). b' = NameBase ''ABC''))"

text \<open>The last abstract class with the name, in the order the files and their nodes are visited.\<close>

definition find_abc :: "string \<Rightarrow> class_def list \<Rightarrow> class_def option" where
  "find_abc abc_name cs = find (\<lambda>c. is_abc c \<and> cd_name c = abc_name) (rev cs)"

text \<open>Only \<^verbatim>\<open>ast.FunctionDef\<close> nodes count as abstract methods; an \<^verbatim>\<open>async def\<close> is another kind of node.\<close>

definition abstract_methods :: "class_def \<Rightarrow> string list" where
  "abstract_methods c =
     remdups (map fd_name (filter (\<lambda>m. \<not> fd_async m \<and> ''abstractmethod'' \<in> set (fd_decorators m)) (cd_walk c)))"

definition impl_methods :: "class_def \<Rightarrow> string list" where
  "impl_methods c = map fd_name (cd_body c)"

definition implements :: "string \<Rightarrow> class_def \<Rightarrow> bool" where
  "implements abc_name c \<longleftrightarrow> (\<exists>b \<in> set (cd_bases c). base_name b = abc_name)"

definition set_repr :: "string list \<Rightarrow> string" where
  "set_repr xs = ''{'' @ str_join '', '' (map str_repr xs) @ ''}''"

definition missing_methods :: "class_def \<Rightarrow> class_def \<Rightarrow> string list" where
  "missing_methods abc impl = filter (\<lambda>m. m \<notin> set (impl_methods impl)) (abstract_methods abc)"

definition KNOWN_ABC_IMPLEMENTATIONS :: "(string \<times> string list \<times> string list option) list" where
  "KNOWN_ABC_IMPLEMENTATIONS =
     [(''TemplateRepository'', [''control_plane'', ''registry''], Some [''control_plane'', ''registry'']),
      (''InstanceRepository'', [''control_plane'', ''registry''], Some [''control_plane'', ''registry'']),
      (''PolicyEvaluator'', [''core'', ''policies''], Some [''control_plane'', ''policy'']),
      (''Orchestrator'', [''control_plane'', ''orchestrator''], None)]"

definition pair_violations ::
  "class_file list \<Rightarrow> (string list \<Rightarrow> bool) \<Rightarrow> string \<times> string list \<times> string list option \<Rightarrow> string list" where
  "pair_violations files dir_exists = (\<lambda>(abc_name, abc_dir, impl_dir).
     (if \<not> dir_exists abc_dir then []
      else case find_abc abc_name (classes_under abc_dir files) of
        None \<Rightarrow> []
      | Some abc \<Rightarrow>
          (case impl_dir of
             None \<Rightarrow> []
           | Some dir \<Rightarrow>
               if \<not> dir_exists dir
               then [''  '' @ abc_name @ '': no implementation directory '' @ str_join ''/'' dir]
               else let impls = filter (implements abc_name) (classes_under dir files) in
                 concat (map (\<lambda>c. if missing_methods abc c = [] then []
                           else [''  '' @ abc_name @ '' -> '' @ cd_name c @ '': missing '' @ set_repr (missing_methods abc c)]) impls) @
                 (if impls = [] then [''  '' @ abc_name @ '': no implementation found in '' @ str_join ''/'' dir] else []))))"

definition check_interface_compliance :: "class_file list \<Rightarrow> (string list \<Rightarrow> bool) \<Rightarrow> CheckResult" where
  "check_interface_compliance files dir_exists =
     check_result ''Interface Compliance'' (concat (map (pair_violations files dir_exists) KNOWN_ABC_IMPLEMENTATIONS))"

section \<open>Imported classes\<close>

text \<open>
  An imported class: the names in \<^verbatim>\<open>__abstractmethods__\<close>, and for an attribute the text of its
  signature, an error text where \<^verbatim>\<open>inspect.signature\<close> refuses it, or nothing.
\<close>

record py_class =
  pc_abstract :: "string list"
  pc_signature :: "string \<Rightarrow> (string + string) option"

definition KNOWN_CONTRACTS :: "(string \<times> string \<times> string \<times> string) list" where
  "KNOWN_CONTRACTS =
     [(''control_plane.registry.template_repository'', ''TemplateRepository'',
       ''control_plane.registry.memory_template_repository'', ''MemoryTemplateRepository''),
      (''control_plane.registry.instance_repository'', ''InstanceRepository'',
       ''control_plane.registry.memory_instance_repository'', ''MemoryInstanceRepository''),
      (''core.policies.evaluator'', ''PolicyEvaluator'', ''control_plane.policy.engine'', ''PolicyEngine'')]"

definition method_violations :: "string \<Rightarrow> string \<Rightarrow> py_class \<Rightarrow> py_class \<Rightarrow> string \<Rightarrow> string list" where
  "method_violations abc_cls impl_cls abc impl m =
     (case pc_signature abc m of
        None \<Rightarrow> [''  '' @ abc_cls @ ''.'' @ m @ '': ABC method not found'']
      | Some abc_sig \<Rightarrow>
          (case pc_signature impl m of
             None \<Rightarrow> [''  '' @ impl_cls @ ''.'' @ m @ '': implementation not found'']
           | Some impl_sig \<Rightarrow>
               (case (abc_sig, impl_sig) of
                  (Inl e, _) \<Rightarrow> [''  '' @ impl_cls @ ''.'' @ m @ '': signature inspection failed ('' @ e @ '')'']
                | (_, Inl e) \<Rightarrow> [''  '' @ impl_cls @ ''.'' @ m @ '': signature inspection failed ('' @ e @ '')'']
                | (Inr s, Inr s') \<Rightarrow>
                    if s \<noteq> s'
                    then [''  '' @ impl_cls @ ''.'' @ m @ '': signature mismatch'' @ [CHR 0x0A] @
                          ''    ABC:   '' @ s @ [CHR 0x0A] @ ''    Found: '' @ s']
                    else [])))"

text \<open>\<open>load m c\<close> imports module \<open>m\<close> and takes its attribute \<open>c\<close>, or gives the text of the error.\<close>

definition contract_violations ::
  "(string \<Rightarrow> string \<Rightarrow> string + py_class) \<Rightarrow> string \<times> string \<times> string \<times> string \<Rightarrow> string list" where
  "contract_violations load = (\<lambda>(abc_mod, abc_cls, impl_mod, impl_cls).
     (case load abc_mod abc_cls of
        Inl e \<Rightarrow> [''  '' @ abc_mod @ ''.'' @ abc_cls @ '': import failed ('' @ e @ '')'']
      | Inr abc \<Rightarrow>
          (case load impl_mod impl_cls of
             Inl e \<Rightarrow> [''  '' @ impl_mod @ ''.'' @ impl_cls @ '': import failed ('' @ e @ '')'']
           | Inr impl \<Rightarrow> concat (map (method_violations abc_cls impl_cls abc impl) (pc_abstract abc)))))"

definition check_contract_consistency :: "(string \<Rightarrow> string \<Rightarrow> string + py_class) \<Rightarrow> CheckResult" where
  "check_contract_consistency load =
     check_result ''Contract Consistency'' (concat (map (contract_violations load) KNOWN_CONTRACTS))"

section \<open>The whole run\<close>

definition verify ::
  "nat \<Rightarrow> (string \<Rightarrow> string \<Rightarrow> string + py_class) \<Rightarrow> (string list \<Rightarrow> bool) \<Rightarrow> class_file list \<Rightarrow> source_file list \<Rightarrow>
   (CheckResult list \<times> int) option" where
  "verify depth load dir_exists class_files files =
     run_verification depth (check_interface_compliance class_files dir_exists) (check_contract_consistency load) files"

definition print_report :: "CheckResult list \<Rightarrow> string list" where
  "print_report results =
     [''Architecture Verification Report'', ''================================'', []] @
     concat (map (\<lambda>(i, r). (''  ['' @ (if cr_passed r then ''PASS'' else ''FAIL'') @ ''] '' @ nat_str i @ ''. '' @ cr_name r) #
                            map (\<lambda>d. ''    '' @ d) (cr_details r))
              (List.enumerate 1 results)) @
     [[], ''Summary: '' @ nat_str (length (filter cr_passed results)) @ ''/'' @ nat_str (length results) @ '' passed'']"

section \<open>Properties\<close>

lemma check_result_passed [simp]: "cr_passed (check_result nm vs) \<longleftrightarrow> vs = []"
  by (simp add: check_result_def)

lemma pair_ok: "pair_violations files dir_exists (abc_name, abc_dir, Some dir) = [] \<longleftrightarrow>
    (dir_exists abc_dir \<longrightarrow> (case find_abc abc_name (classes_under abc_dir files) of
       None \<Rightarrow> True
     | Some abc \<Rightarrow> dir_exists dir \<and> (\<exists>c \<in> set (classes_under dir files). implements abc_name c) \<and>
         (\<forall>c \<in> set (classes_under dir files). implements abc_name c \<longrightarrow>
            set (abstract_methods abc) \<subseteq> set (impl_methods c))))"
  by (auto simp: pair_violations_def Let_def missing_methods_def filter_empty_conv concat_eq_Nil_conv split: option.splits)

lemma method_ok: "method_violations ac ic abc impl m = [] \<longleftrightarrow>
    (\<exists>s. pc_signature abc m = Some (Inr s) \<and> pc_signature impl m = Some (Inr s))"
proof (cases "pc_signature abc m")
  case (Some sa)
  then show ?thesis
    by (cases "pc_signature impl m"; cases sa) (auto simp: method_violations_def split: sum.splits)
qed (simp add: method_violations_def)

lemma contract_ok: "contract_violations load (am, ac, im, ic) = [] \<longleftrightarrow>
    (\<exists>abc impl. load am ac = Inr abc \<and> load im ic = Inr impl \<and>
       (\<forall>m \<in> set (pc_abstract abc). \<exists>s. pc_signature abc m = Some (Inr s) \<and> pc_signature impl m = Some (Inr s)))"
  by (auto simp: contract_violations_def method_ok split: sum.splits)

text \<open>
  The verification succeeds, exit code 0, exactly when each of its eight checks passes; and
  it then guarantees that the contracts hold: for every known pair of classes both can be imported and
  every abstract method has the same signature in the implementation.
\<close>

lemma verified_contracts_hold:
  assumes "verify depth load dir_exists class_files files = Some (results, exit_code)"
  shows "length results = 8 \<and> (exit_code = 0 \<longleftrightarrow> (\<forall>r \<in> set results. cr_passed r)) \<and>
     (exit_code = 0 \<longrightarrow> (\<forall>(am, ac, im, ic) \<in> set KNOWN_CONTRACTS. \<exists>abc impl. load am ac = Inr abc \<and> load im ic = Inr impl \<and>
       (\<forall>m \<in> set (pc_abstract abc). \<exists>s. pc_signature abc m = Some (Inr s) \<and> pc_signature impl m = Some (Inr s))))"
proof -
  obtain cycles where r: "results = [check_dependency_direction files, check_layer_isolation files, check_forbidden_imports files, cycles,
      check_interface_compliance class_files dir_exists, check_contract_consistency load, check_package_boundaries files, check_hygiene files]"
    "exit_code = (if 0 < length (filter (\<lambda>r. \<not> cr_passed r) results) then 1 else 0)"
    using assms by (auto simp: verify_def run_verification_def Let_def)
  have code: "exit_code = 0 \<longleftrightarrow> (\<forall>r \<in> set results. cr_passed r)"
    unfolding r(2) by (auto simp: filter_empty_conv)
  have "cr_passed (check_contract_consistency load) \<longleftrightarrow> (\<forall>p \<in> set KNOWN_CONTRACTS. contract_violations load p = [])"
    by (simp add: check_contract_consistency_def)
  moreover have "check_contract_consistency load \<in> set results" unfolding r(1) by simp
  ultimately have ok: "\<forall>p \<in> set KNOWN_CONTRACTS. contract_violations load p = []" if "exit_code = 0"
    using code that by blast
  have "\<forall>(am, ac, im, ic) \<in> set KNOWN_CONTRACTS. \<exists>abc impl. load am ac = Inr abc \<and> load im ic = Inr impl \<and>
       (\<forall>m \<in> set (pc_abstract abc). \<exists>s. pc_signature abc m = Some (Inr s) \<and> pc_signature impl m = Some (Inr s))"
    if "exit_code = 0"
  proof clarify
    fix am ac im ic
    assume "(am, ac, im, ic) \<in> set KNOWN_CONTRACTS"
    then have "contract_violations load (am, ac, im, ic) = []" using ok [OF that] by blast
    then show "\<exists>abc impl. load am ac = Inr abc \<and> load im ic = Inr impl \<and>
        (\<forall>m \<in> set (pc_abstract abc). \<exists>s. pc_signature abc m = Some (Inr s) \<and> pc_signature impl m = Some (Inr s))"
      unfolding contract_ok .
  qed
  moreover have "length results = 8" unfolding r(1) by simp
  ultimately show ?thesis using code by blast
qed

lemma verified_contracts_hold_witness:
  "\<exists>results. verify 1 (\<lambda>m c. Inr \<lparr>pc_abstract = [''get''], pc_signature = (\<lambda>_. Some (Inr ''(self)''))\<rparr>) (\<lambda>_. False) [] [] =
       Some (results, 0) \<and> length results = 8"
proof -
  let ?v = "verify 1 (\<lambda>m c. Inr \<lparr>pc_abstract = [''get''], pc_signature = (\<lambda>_. Some (Inr ''(self)''))\<rparr>) (\<lambda>_. False) [] []"
  have "map_option snd ?v = Some 0" by code_simp
  then obtain results where v: "?v = Some (results, 0)" by auto
  from verified_contracts_hold [OF v] show ?thesis using v by blast
qed

text \<open>
  The abstract methods of the repository's interfaces are coroutines; the compliance check does not
  count them, so an implementation that lacks one passes.
\<close>

definition async_interface :: class_def where
  "async_interface =
     \<lparr>cd_name = ''InstanceRepository'', cd_bases = [NameBase ''ABC''],
      cd_walk = [\<lparr>fd_name = ''get_instance'', fd_async = True, fd_decorators = [''abstractmethod'']\<rparr>], cd_body = []\<rparr>"

definition empty_implementation :: class_def where
  "empty_implementation =
     \<lparr>cd_name = ''MemoryInstanceRepository'', cd_bases = [NameBase ''InstanceRepository''], cd_walk = [], cd_body = []\<rparr>"

lemma async_methods_not_required:
  "cr_passed (check_interface_compliance
     [\<lparr>cf_parts = [''control_plane'', ''registry'', ''a.py''], cf_classes = Some [async_interface, empty_implementation]\<rparr>]
     (\<lambda>_. True))"
  by code_simp

end
