(* ===== verification/Coverage_Gate.thy ===== *)
theory Coverage_Gate
  imports Prelude
begin

text \<open>
  \<^verbatim>\<open>scripts/check_coverage.py\<close>: the gate on the coverage report. The report is the list of its package
  elements, a name and a line rate each where the attributes are present; the baseline file is a
  dictionary, empty where it is missing or unreadable. Rates are exact; printing is left out except
  for the packages named as failures.
\<close>

record package_element =
  pe_name :: "string option"
  pe_line_rate :: "rat option"

definition parse_packages :: "package_element list \<Rightarrow> (string, rat) dict" where
  "parse_packages elements =
     fold (\<lambda>pkg packages.
         dict_set (case pe_name pkg of None \<Rightarrow> [] | Some n \<Rightarrow> n) (case pe_line_rate pkg of None \<Rightarrow> 0 | Some r \<Rightarrow> r) packages)
       elements []"

definition runtime_packages :: "(string, rat) dict \<Rightarrow> (string, rat) dict" where
  "runtime_packages packages = filter (\<lambda>(k, v). str_in ''kitematic_runtime'' k) packages"

record gate_outcome =
  go_exit_code :: int
  go_failed :: "string list"
  go_saved_baseline :: "(string, rat) dict option"

definition overall_rate :: "(string, rat) dict \<Rightarrow> rat" where
  "overall_rate rp = (if rp \<noteq> [] then sum_list (dict_values rp) / of_nat (length rp) else 0)"

definition regressed :: "(string, rat) dict \<Rightarrow> string \<times> rat \<Rightarrow> bool" where
  "regressed baseline = (\<lambda>(pkg, rate).
     (case dict_get baseline pkg of None \<Rightarrow> False | Some prev \<Rightarrow> rate < prev - 5 / 1000))"

text \<open>The arguments: the report's elements, the threshold in per cent, and the stored baseline.\<close>

definition coverage_main :: "nat \<Rightarrow> package_element list \<Rightarrow> rat \<Rightarrow> (string, rat) dict \<Rightarrow> gate_outcome" where
  "coverage_main argc elements threshold baseline =
     (if argc < 3 then \<lparr>go_exit_code = 1, go_failed = [], go_saved_baseline = None\<rparr>
      else let rp = runtime_packages (parse_packages elements) in
        if overall_rate rp < threshold / 100 then \<lparr>go_exit_code = 1, go_failed = [], go_saved_baseline = None\<rparr>
        else if baseline = [] then \<lparr>go_exit_code = 0, go_failed = [], go_saved_baseline = Some rp\<rparr>
        else let failed = filter (regressed baseline) (sort_key fst rp) in
          \<lparr>go_exit_code = (if failed \<noteq> [] then 1 else 0), go_failed = map fst failed, go_saved_baseline = None\<rparr>)"

section \<open>Properties\<close>

text \<open>
  The gate lets a report pass exactly when the mean rate of the runtime's packages reaches the
  threshold and no package that the baseline names has lost more than half a per cent; packages that
  the baseline does not name, or that have disappeared from the report, are not looked at.
\<close>

lemma gate_passes_iff:
  fixes elements :: "package_element list"
  assumes "3 \<le> argc"
  defines "rp \<equiv> runtime_packages (parse_packages elements)"
  shows "go_exit_code (coverage_main argc elements threshold baseline) = 0 \<longleftrightarrow>
    threshold / 100 \<le> overall_rate rp \<and>
    (\<forall>pkg rate prev. (pkg, rate) \<in> set rp \<longrightarrow> dict_get baseline pkg = Some prev \<longrightarrow> prev - 5 / 1000 \<le> rate)"
proof -
  have "filter (regressed baseline) (sort_key fst rp) = [] \<longleftrightarrow>
      (\<forall>pkg rate prev. (pkg, rate) \<in> set rp \<longrightarrow> dict_get baseline pkg = Some prev \<longrightarrow> prev - 5 / 1000 \<le> rate)"
    by (fastforce simp: filter_empty_conv regressed_def split: option.splits)
  moreover have "baseline = [] \<Longrightarrow> filter (regressed baseline) (sort_key fst rp) = []"
    by (simp add: filter_empty_conv regressed_def split_beta)
  ultimately show ?thesis
    using assms(1) unfolding coverage_main_def rp_def [symmetric] by (auto simp: Let_def)
qed

text \<open>The baseline is written once, from the first report that passes the threshold, and never again.\<close>

lemma baseline_written_once: "baseline \<noteq> [] \<Longrightarrow> go_saved_baseline (coverage_main argc elements threshold baseline) = None"
  by (simp add: coverage_main_def Let_def)

text \<open>A report without a package whose name contains \<^verbatim>\<open>kitematic_runtime\<close> fails every positive threshold.\<close>

lemma other_packages_fail:
  assumes "\<forall>pkg \<in> set elements. \<not> str_in ''kitematic_runtime'' (case pe_name pkg of None \<Rightarrow> [] | Some n \<Rightarrow> n)" "0 < threshold"
  shows "go_exit_code (coverage_main argc elements threshold baseline) = 1"
proof -
  define name :: "package_element \<Rightarrow> string" where "name = (\<lambda>pkg. case pe_name pkg of None \<Rightarrow> [] | Some n \<Rightarrow> n)"
  have "\<forall>(k, v) \<in> set (fold (\<lambda>pkg packages. dict_set (name pkg) (r pkg) packages) es d). \<not> str_in ''kitematic_runtime'' k"
    if "\<forall>pkg \<in> set es. \<not> str_in ''kitematic_runtime'' (name pkg)" "\<forall>(k, v) \<in> set d. \<not> str_in ''kitematic_runtime'' k"
    for es d and r :: "package_element \<Rightarrow> rat"
    using that by (induction es arbitrary: d) (fastforce dest: dict_set_in)+
  from this [where es = elements and d = "[]" and r = "\<lambda>pkg. case pe_line_rate pkg of None \<Rightarrow> 0 | Some r \<Rightarrow> r"] have "runtime_packages (parse_packages elements) = []"
    using assms(1) by (fastforce simp: runtime_packages_def parse_packages_def name_def filter_empty_conv)
  then show ?thesis using assms(2) by (simp add: coverage_main_def overall_rate_def)
qed

end
