(* ===== verification/Log_Export.thy ===== *)
theory Log_Export
  imports Observability Json
begin

text \<open>
  What leaves the process: the lines that the formatter of \<^verbatim>\<open>kernel/observability/logging.py\<close> writes, the
  dictionaries of the trace (\<^verbatim>\<open>tracing.py\<close>), and the choice of the OpenTelemetry providers
  (\<^verbatim>\<open>opentelemetry.py\<close>), whose package is a parameter. Trace instants carry whole microseconds.
\<close>

section \<open>Log lines\<close>

primrec levelname :: "LogLevel \<Rightarrow> string" where
  "levelname LOG_INFO = ''INFO''"
| "levelname LOG_WARNING = ''WARNING''"
| "levelname LOG_ERROR = ''ERROR''"
| "levelname LOG_DEBUG = ''DEBUG''"

text \<open>The record's exception, as the name of its class and its text, is given where there is one.\<close>

definition log_entry :: "time \<Rightarrow> string \<Rightarrow> (string \<times> string) option \<Rightarrow> LogRecord \<Rightarrow> pyobj" where
  "log_entry now name exc_info record =
     (let entry = [(''timestamp'', PyStr (isoformat now)), (''level'', PyStr (levelname (lr_level record))),
                   (''logger'', PyStr name), (''message'', PyStr (lr_message record))];
          entry1 = dict_merge entry (lr_correlation record);
          entry2 = (case exc_info of
                      None \<Rightarrow> entry1
                    | Some (ty, msg) \<Rightarrow> dict_set ''exception'' (PyDict [(''type'', PyStr ty), (''message'', PyStr msg)]) entry1)
      in if lr_metrics record \<noteq> [] then dict_set ''metrics'' (PyDict (lr_metrics record)) entry2 else entry2)"

definition log_format ::
  "(rat \<Rightarrow> string) \<Rightarrow> time \<Rightarrow> string \<Rightarrow> (string \<times> string) option \<Rightarrow> LogRecord \<Rightarrow> string" where
  "log_format fr now name exc_info record = json_dumps fr (log_entry now name exc_info record)"

section \<open>Traces\<close>

primrec TracePhase_value :: "TracePhase \<Rightarrow> string" where
  "TracePhase_value INTENT_RECEIVED = ''intent.received''"
| "TracePhase_value POLICY_EVALUATION = ''policy.evaluation''"
| "TracePhase_value CAPABILITY_CHECK = ''capability.check''"
| "TracePhase_value INTENT_ROUTING = ''intent.routing''"
| "TracePhase_value TOOL_EXECUTION = ''tool.execution''"
| "TracePhase_value CHECKPOINT_SAVE = ''checkpoint.save''"
| "TracePhase_value EXECUTION_COMPLETED = ''execution.completed''"

definition TraceEntry_to_dict :: "TraceEntry \<Rightarrow> pyobj" where
  "TraceEntry_to_dict e =
     [(''phase'', PyStr (TracePhase_value (te_phase e))),
      (''start_time'', PyStr (isoformat (te_start_time e))), (''end_time'', PyStr (isoformat (te_end_time e))),
      (''duration_ms'', PyFloat (round2 (te_duration_ms e))), (''success'', PyBool (te_success e)),
      (''error'', py_opt_str (te_error e)), (''metadata'', PyDict (te_metadata e))]"

definition get_trace :: "ExecutionTracer \<Rightarrow> pyobj list" where
  "get_trace tr = map TraceEntry_to_dict (tr_entries tr)"

section \<open>OpenTelemetry providers\<close>

text \<open>
  The package: whether the SDK imports, its provider for a service name and an endpoint, and the
  providers of the API package, absent where importing it raises.
\<close>

record 'p otel =
  ot_has_otel :: bool
  ot_sdk_provider :: "string \<Rightarrow> string option \<Rightarrow> 'p"
  ot_trace_api :: "'p option"
  ot_metrics_api :: "'p option"
  ot_logs_api :: "'p option"
  ot_noop_meter :: 'p
  ot_noop_logger :: 'p

record 'p otel_providers =
  op_tracer :: "'p option"
  op_meter :: "'p option"
  op_logger :: "'p option"

definition env_set :: "(string \<Rightarrow> string option) \<Rightarrow> string \<Rightarrow> bool" where
  "env_set environ name \<longleftrightarrow> environ name \<notin> {None, Some []}"

definition is_enabled :: "'p otel \<Rightarrow> (string \<Rightarrow> string option) \<Rightarrow> bool" where
  "is_enabled ot environ \<longleftrightarrow>
     ot_has_otel ot \<and> (env_set environ ''OTEL_SERVICE_NAME'' \<or> env_set environ ''OTEL_EXPORTER_OTLP_ENDPOINT'')"

definition get_tracer_provider ::
  "'p otel \<Rightarrow> (string \<Rightarrow> string option) \<Rightarrow> 'p otel_providers \<Rightarrow> (exn + 'p) \<times> 'p otel_providers" where
  "get_tracer_provider ot environ st =
     (let st1 = (if op_tracer st = None \<and> is_enabled ot environ
                 then st\<lparr>op_tracer := Some (ot_sdk_provider ot
                        (case environ ''OTEL_SERVICE_NAME'' of None \<Rightarrow> ''kitematic'' | Some s \<Rightarrow> s)
                        (if env_set environ ''OTEL_EXPORTER_OTLP_ENDPOINT'' then environ ''OTEL_EXPORTER_OTLP_ENDPOINT'' else None))\<rparr>
                 else st)
      in case op_tracer st1 of
           Some p \<Rightarrow> (Inr p, st1)
         | None \<Rightarrow>
             (case ot_trace_api ot of
                None \<Rightarrow> (Inl (OtherError (''No module named '' @ sq ''opentelemetry'')), st1)
              | Some p \<Rightarrow> (Inr p, st1\<lparr>op_tracer := Some p\<rparr>)))"

definition get_meter_provider :: "'p otel \<Rightarrow> 'p otel_providers \<Rightarrow> 'p \<times> 'p otel_providers" where
  "get_meter_provider ot st =
     (case op_meter st of
        Some p \<Rightarrow> (p, st)
      | None \<Rightarrow> let p = (case ot_metrics_api ot of Some q \<Rightarrow> q | None \<Rightarrow> ot_noop_meter ot) in (p, st\<lparr>op_meter := Some p\<rparr>))"

definition get_logger_provider :: "'p otel \<Rightarrow> 'p otel_providers \<Rightarrow> 'p \<times> 'p otel_providers" where
  "get_logger_provider ot st =
     (case op_logger st of
        Some p \<Rightarrow> (p, st)
      | None \<Rightarrow> let p = (case ot_logs_api ot of Some q \<Rightarrow> q | None \<Rightarrow> ot_noop_logger ot) in (p, st\<lparr>op_logger := Some p\<rparr>))"

text \<open>\<^verbatim>\<open>shutdown()\<close> shuts the providers down that were handed out, and keeps them.\<close>

definition otel_shutdown :: "'p otel_providers \<Rightarrow> 'p list" where
  "otel_shutdown st = List.map_filter id [op_tracer st, op_meter st, op_logger st]"

section \<open>Metric instruments\<close>

text \<open>
  With a meter, the registry of \<^verbatim>\<open>metrics.py\<close> creates one instrument for each metric and keeps it. The meter's
  \<open>create\<close> is given the instrument's name and its description.
\<close>

record 'i otel_instruments =
  oi_counters :: "(string, 'i) dict"
  oi_histograms :: "(string, 'i) dict"

definition instrument_name :: "string \<Rightarrow> string" where
  "instrument_name metric = map (\<lambda>c. if c = CHR ''.'' then CHR ''_'' else c) metric"

definition otel_counter ::
  "(string \<Rightarrow> string \<Rightarrow> 'i) option \<Rightarrow> string \<Rightarrow> 'i otel_instruments \<Rightarrow> 'i option \<times> 'i otel_instruments" where
  "otel_counter otel_meter metric st =
     (case otel_meter of
        None \<Rightarrow> (None, st)
      | Some create \<Rightarrow>
          (case dict_get (oi_counters st) metric of
             Some i \<Rightarrow> (Some i, st)
           | None \<Rightarrow>
               let i = create (instrument_name metric) (''Counter for '' @ metric)
               in (Some i, st\<lparr>oi_counters := dict_set metric i (oi_counters st)\<rparr>)))"

definition otel_histogram ::
  "(string \<Rightarrow> string \<Rightarrow> 'i) option \<Rightarrow> string \<Rightarrow> 'i otel_instruments \<Rightarrow> 'i option \<times> 'i otel_instruments" where
  "otel_histogram otel_meter metric st =
     (case otel_meter of
        None \<Rightarrow> (None, st)
      | Some create \<Rightarrow>
          (case dict_get (oi_histograms st) metric of
             Some i \<Rightarrow> (Some i, st)
           | None \<Rightarrow>
               let i = create (instrument_name metric) (''Histogram for '' @ metric)
               in (Some i, st\<lparr>oi_histograms := dict_set metric i (oi_histograms st)\<rparr>)))"

section \<open>Lemmas\<close>

definition printable :: "string \<Rightarrow> bool" where
  "printable s \<longleftrightarrow> (\<forall>c \<in> set s. 32 \<le> (of_char c :: nat) \<and> (of_char c :: nat) \<le> 126)"

lemma printable_simps [simp]:
  "printable []" "printable (c # s) \<longleftrightarrow> (32 \<le> (of_char c :: nat) \<and> (of_char c :: nat) \<le> 126) \<and> printable s"
  "printable (s @ t) \<longleftrightarrow> printable s \<and> printable t" "printable (concat ss) \<longleftrightarrow> (\<forall>s \<in> set ss. printable s)"
  by (auto simp: printable_def)

lemma printable_join: "\<forall>s \<in> set ss. printable s \<Longrightarrow> printable sep \<Longrightarrow> printable (str_join sep ss)"
  by (induction sep ss rule: str_join.induct) auto

lemma printable_nat_str: "printable (nat_str n)"
  using nat_str_digits [of n] by (auto simp: printable_def is_digit_def)

lemma printable_hex: "d < 16 \<Longrightarrow> printable [hex_char d]"
  by (auto simp: hex_char_def of_char_of)

lemma printable_json_char: "printable (json_char c)"
proof -
  have "of_char c < (256 :: nat)" by (rule of_char_256)
  then have "of_char c div 16 < (16 :: nat)" by linarith
  then have "printable [hex_char (of_char c div 16)]" by (rule printable_hex)
  moreover have "printable [hex_char (of_char c mod 16)]" by (intro printable_hex) simp
  ultimately show ?thesis by (auto simp: json_char_def Let_def)
qed

lemma printable_json_str: "printable (json_str s)"
  by (simp add: json_str_def printable_json_char)

lemma printable_json_text: "(\<And>x. printable (fr x)) \<Longrightarrow> printable (json_text fr v)"
proof (induction v)
  case (PyInt i)
  then show ?case by (simp add: int_str_def printable_nat_str)
next
  case (PyList vs)
  then show ?case by (auto intro!: printable_join)
next
  case (PyDict kvs)
  then show ?case
    unfolding json_text_dict by (auto simp: member_text_def printable_json_str intro!: printable_join)
qed (simp_all add: printable_json_str)

lemma tracer_provider_cached:
  assumes "get_tracer_provider ot environ st = (Inr p, st1)"
  shows "get_tracer_provider ot environ' st1 = (Inr p, st1)"
  using assms by (auto simp: get_tracer_provider_def Let_def split: option.splits if_splits)

text \<open>An instrument is created once: asked for again, with any meter, the registry answers the same one.\<close>

lemma otel_counter_once:
  "otel_counter otel_meter metric st = (Some i, st1) \<Longrightarrow> otel_counter (Some create) metric st1 = (Some i, st1)"
  by (auto simp: otel_counter_def Let_def split: option.splits)

lemma otel_histogram_once:
  "otel_histogram otel_meter metric st = (Some i, st1) \<Longrightarrow> otel_histogram (Some create) metric st1 = (Some i, st1)"
  by (auto simp: otel_histogram_def Let_def split: option.splits)

text \<open>
  Without the package the tracer provider raises, although the module promises to do nothing when
  OpenTelemetry is not configured; the meter and the logger provider fall back to empty ones.
\<close>

lemma tracer_needs_package:
  assumes "ot_has_otel ot = False" "ot_trace_api ot = None" "op_tracer st = None"
  shows "\<exists>e. fst (get_tracer_provider ot environ st) = Inl e" "\<exists>p. fst (get_meter_provider ot st) = p"
  using assms by (auto simp: get_tracer_provider_def is_enabled_def Let_def)

text \<open>A provider that was shut down is handed out again.\<close>

lemma shut_down_provider_returned:
  "op_tracer st = Some p \<Longrightarrow> p \<in> set (otel_shutdown st) \<and> get_tracer_provider ot environ st = (Inr p, st)"
  by (auto simp: otel_shutdown_def get_tracer_provider_def Let_def List.map_filter_simps)

section \<open>Properties\<close>

text \<open>
  A log record is one line of printable ASCII, whatever its message, correlation and metrics
  contain, so no text logged can start a line of its own; and reading the line as JSON gives the record's
  entry back, with its keys sorted, when its values are free of floats and its dictionaries well formed.
\<close>

lemma log_line_is_one_record:
  assumes "\<And>x. printable (fr x)"
  shows "(\<forall>c \<in> set (log_format fr now name exc_info record). 32 \<le> (of_char c :: nat) \<and> (of_char c :: nat) \<le> 126) \<and>
     (plain_val (PyDict (log_entry now name exc_info record)) \<longrightarrow>
        json_loads fl (log_format fr now name exc_info record) = Some (sort_keys (PyDict (log_entry now name exc_info record))))"
proof -
  have "printable (log_format fr now name exc_info record)"
    unfolding log_format_def json_dumps_def by (rule printable_json_text [OF assms])
  then show ?thesis unfolding log_format_def by (simp add: printable_def json_loads_dumps del: plain_val.simps)
qed

lemma log_line_is_one_record_witness:
  "CHR 0x0A \<notin> set (log_format (\<lambda>_. ''0.0'') 0 ''kitematic.runtime'' None
     \<lparr>lr_level = LOG_INFO, lr_message = ''ok'' @ [CHR 0x0A] @ ''forged'', lr_correlation = [], lr_metrics = []\<rparr>)"
proof -
  have "\<forall>c \<in> set (log_format (\<lambda>_. ''0.0'') 0 ''kitematic.runtime'' None
     \<lparr>lr_level = LOG_INFO, lr_message = ''ok'' @ [CHR 0x0A] @ ''forged'', lr_correlation = [], lr_metrics = []\<rparr>).
       32 \<le> (of_char c :: nat) \<and> (of_char c :: nat) \<le> 126"
    by (rule log_line_is_one_record [THEN conjunct1]) simp
  then show ?thesis by fastforce
qed

end
