(* ===== verification/Marketplace_Files.thy ===== *)
theory Marketplace_Files
  imports Marketplace Plugin
begin

text \<open>
  The parts of the marketplace and of the plugin loader that meet files and dictionaries: loading an
  extension (\<^verbatim>\<open>loader/extension_loader.py\<close>, \<^verbatim>\<open>loader/manifest_loader.py\<close>), the dictionary forms of listings
  and audit entries, the rule list of the policy enforcer, and the search for the project root
  (\<^verbatim>\<open>agents/loader/discovery.py\<close>). The YAML reader and the texts of the operating system's errors are
  arguments.
\<close>

section \<open>Loading extensions\<close>

text \<open>Every exception of opening and parsing is caught; the result's middle part is any YAML value.\<close>

definition load_extension ::
  "(fs \<Rightarrow> path \<Rightarrow> string) \<Rightarrow> (string \<Rightarrow> load_error + pyval) \<Rightarrow> fs \<Rightarrow> path \<Rightarrow> bool \<times> pyval \<times> string list" where
  "load_extension os_error safe_load fs extension_path =
     (case read_file fs extension_path of
        None \<Rightarrow> (False, PyNone, [os_error fs extension_path])
      | Some txt \<Rightarrow>
          (case safe_load txt of
             Inl e \<Rightarrow> (False, PyNone, [load_error_str e])
           | Inr manifest \<Rightarrow> (True, manifest, [])))"

text \<open>
  The class \<^verbatim>\<open>ManifestLoader\<close> defines \<^verbatim>\<open>load_manifest\<close> twice, first over a path and then over a dictionary:
  the second definition is the one the class has.
\<close>

definition loader_load_manifest :: "pyval \<Rightarrow> bool \<times> pyval \<times> string list" where
  "loader_load_manifest manifest_data = (True, manifest_data, [])"

section \<open>Dictionary forms\<close>

text \<open>\<open>manifest_dict\<close> stands for the manifest object, which the listing hands on as it is.\<close>

definition ExtensionListing_to_dict :: "(ExtensionManifest \<Rightarrow> pyval) \<Rightarrow> string listing \<Rightarrow> pyobj" where
  "ExtensionListing_to_dict manifest_dict l =
     [(''listing_id'', PyStr (ls_listing_id l)), (''manifest'', manifest_dict (ls_manifest l)),
      (''status'', PyStr (ls_status l)), (''publisher_id'', PyStr (ls_publisher_id l)),
      (''created_at'', PyStr (ls_created_at l)), (''updated_at'', PyStr (ls_updated_at l))]"

datatype AuditAction =
    AA_CREATE | AA_UPDATE | AA_DELETE | AA_PUBLISH | AA_UNPUBLISH | AA_APPROVE | AA_REJECT | AA_DEPRECATE | AA_SUBMIT | AA_WITHDRAW

primrec AuditAction_value :: "AuditAction \<Rightarrow> string" where
  "AuditAction_value AA_CREATE = ''CREATE''"
| "AuditAction_value AA_UPDATE = ''UPDATE''"
| "AuditAction_value AA_DELETE = ''DELETE''"
| "AuditAction_value AA_PUBLISH = ''PUBLISH''"
| "AuditAction_value AA_UNPUBLISH = ''UNPUBLISH''"
| "AuditAction_value AA_APPROVE = ''APPROVE''"
| "AuditAction_value AA_REJECT = ''REJECT''"
| "AuditAction_value AA_DEPRECATE = ''DEPRECATE''"
| "AuditAction_value AA_SUBMIT = ''SUBMIT''"
| "AuditAction_value AA_WITHDRAW = ''WITHDRAW''"

record AuditEntry =
  ay_entry_id :: string
  ay_action :: AuditAction
  ay_actor_id :: string
  ay_resource_type :: string
  ay_resource_id :: string
  ay_old_state :: pyval
  ay_new_state :: pyval
  ay_reason :: string
  ay_timestamp :: string
  ay_metadata :: pyobj

definition AuditEntry_to_dict :: "AuditEntry \<Rightarrow> pyobj" where
  "AuditEntry_to_dict e =
     [(''entry_id'', PyStr (ay_entry_id e)), (''action'', PyStr (AuditAction_value (ay_action e))),
      (''actor_id'', PyStr (ay_actor_id e)), (''resource_type'', PyStr (ay_resource_type e)),
      (''resource_id'', PyStr (ay_resource_id e)), (''old_state'', ay_old_state e), (''new_state'', ay_new_state e),
      (''reason'', PyStr (ay_reason e)), (''timestamp'', PyStr (ay_timestamp e)), (''metadata'', PyDict (ay_metadata e))]"

section \<open>The enforcer's rules and the trust score\<close>

definition enforcer_add_rule :: "EnterpriseRule \<Rightarrow> EnterpriseRule list \<Rightarrow> EnterpriseRule list" where
  "enforcer_add_rule rule rules = rules @ [rule]"

definition enforcer_list_rules :: "EnterpriseRule list \<Rightarrow> EnterpriseRule list" where
  "enforcer_list_rules rules = rules"

definition get_trust_score :: "string \<Rightarrow> string \<Rightarrow> rat" where
  "get_trust_score entity_id entity_type = 5 / 10"

section \<open>The project root\<close>

text \<open>The working directory and its parents, nearest first.\<close>

definition path_and_parents :: "path \<Rightarrow> path list" where
  "path_and_parents cwd = map (\<lambda>n. take n cwd) (rev [0..<Suc (length cwd)])"

definition is_project_root :: "fs \<Rightarrow> path \<Rightarrow> bool" where
  "is_project_root fs p \<longleftrightarrow> is_dir fs (p @ [''core'']) \<and> is_dir fs (p @ [''kernel''])"

definition find_project_root :: "fs \<Rightarrow> path \<Rightarrow> path" where
  "find_project_root fs cwd = (case List.find (is_project_root fs) (path_and_parents cwd) of None \<Rightarrow> cwd | Some p \<Rightarrow> p)"

section \<open>Lemmas\<close>

lemma set_path_and_parents: "p \<in> set (path_and_parents cwd) \<longleftrightarrow> prefix p cwd"
proof
  assume "prefix p cwd"
  then have "p = take (length p) cwd" "length p \<in> {0..<Suc (length cwd)}" by (auto simp: prefix_def)
  then show "p \<in> set (path_and_parents cwd)"
    unfolding path_and_parents_def set_map set_rev set_upt by (rule image_eqI)
qed (auto simp: path_and_parents_def take_is_prefix)

lemma find_map_take:
  assumes "List.find P (map (\<lambda>n. take n xs) (rev [0..<k])) = Some p" "k \<le> Suc (length xs)"
  shows "P p \<and> prefix p xs \<and> (\<forall>q. P q \<and> prefix q xs \<and> length q < k \<longrightarrow> length q \<le> length p)"
  using assms
proof (induction k)
  case (Suc k)
  show ?case
  proof (cases "P (take k xs)")
    case True
    then show ?thesis using Suc.prems by (auto simp: take_is_prefix)
  next
    case False
    then have "P p \<and> prefix p xs \<and> (\<forall>q. P q \<and> prefix q xs \<and> length q < k \<longrightarrow> length q \<le> length p)"
      using Suc by simp
    moreover have "\<not> P q" if "prefix q xs" "length q = k" for q
      using False that by (auto simp: prefix_def)
    ultimately show ?thesis by (metis less_Suc_eq)
  qed
qed simp

text \<open>
  The project root is the nearest directory above the working directory, itself included, that has a
  \<^verbatim>\<open>core\<close> and a \<^verbatim>\<open>kernel\<close> directory; without one it is the working directory, whatever that contains.
\<close>

lemma project_root_nearest:
  "if \<exists>p. prefix p cwd \<and> is_project_root fs p
   then is_project_root fs (find_project_root fs cwd) \<and> prefix (find_project_root fs cwd) cwd \<and>
     (\<forall>q. prefix q cwd \<and> is_project_root fs q \<longrightarrow> prefix q (find_project_root fs cwd))
   else find_project_root fs cwd = cwd"
proof (cases "List.find (is_project_root fs) (path_and_parents cwd)")
  case None
  then have "\<not> is_project_root fs p" if "prefix p cwd" for p
    using that by (metis find_None_iff set_path_and_parents)
  then show ?thesis using None by (auto simp: find_project_root_def)
next
  case (Some p)
  from find_map_take [OF Some [unfolded path_and_parents_def] order_refl]
  have p: "is_project_root fs p" "prefix p cwd" "\<And>q. is_project_root fs q \<Longrightarrow> prefix q cwd \<Longrightarrow> length q \<le> length p"
    by (auto simp: less_Suc_eq_le dest: prefix_length_le)
  then have "prefix q p" if "prefix q cwd" "is_project_root fs q" for q
    using that by (meson prefix_length_prefix)
  then show ?thesis using p Some by (auto simp: find_project_root_def)
qed

text \<open>
  Loading an extension and validating what was loaded: success means that the file was read and parsed,
  and the validation then accepts a mapping exactly when all five fields are there.
\<close>

lemma loaded_extension_valid_iff:
  assumes "load_extension os_error safe_load fs p = (True, PyDict m, errors)"
  shows "errors = [] \<and> (\<exists>txt. read_file fs p = Some txt \<and> safe_load txt = Inr (PyDict m)) \<and>
    (ExtensionLoader_validate_extension m = (True, []) \<longleftrightarrow>
       dict_has m ''id'' \<and> dict_has m ''name'' \<and> dict_has m ''version'' \<and> dict_has m ''type'' \<and> dict_has m ''capabilities'')"
  using assms
  by (auto simp: load_extension_def ExtensionLoader_validate_extension_def loader_validate_def require_def Let_def
      split: option.splits sum.splits)

text \<open>A path given to the manifest loader comes back as the manifest, and no file is read.\<close>

lemma manifest_path_returned: "loader_load_manifest (PyStr manifest_path) = (True, PyStr manifest_path, [])"
  by (simp add: loader_load_manifest_def)

text \<open>No rule that is added to the enforcer ever refuses anything.\<close>

lemma enforcer_allows_all: "enforcer_validate_extension (enforcer_add_rule rule rules) listing = (True, [])"
proof -
  have "enforcer_evaluate rs ctx = (True, [])" for rs ctx
    by (induction rs) (simp_all add: enforcer_check_rule_def)
  then show ?thesis by (simp add: enforcer_validate_extension_def)
qed

end
