(* ===== verification/Interleaving.thy ===== *)
theory Interleaving
  imports Runtime_Lifecycle
begin

text \<open>
  Several executions of one runtime at a time. \<^verbatim>\<open>execute_intent\<close> is a coroutine: between two of its
  awaits it runs without interruption, at an await other executions and the runtime's other operations may
  run. An execution is a task that holds the local variables of \<^verbatim>\<open>execute_intent\<close> and
  \<^verbatim>\<open>_execute_quota_guarded\<close> and waits for one of the five collaborator calls; the runtime is shared. A call
  takes place at one instant, together with the code up to the next await; what else happens to the
  collaborators in the meantime is arbitrary.
\<close>

section \<open>Tasks\<close>

datatype resume_point = AtPolicy | AtCapability | AtRouting | AtGateway ExecutionPath | AtCheckpoint ToolResult

text \<open>The code from the call that is awaited to the next await.\<close>

primrec segment ::
  "'w abi \<Rightarrow> ExecEnv \<Rightarrow> Intent \<Rightarrow> TenantContext option \<Rightarrow> resume_point \<Rightarrow> ('w, resume_point) phase" where
  "segment abi env intent tenant_ctx AtPolicy = seq (policy_phase abi env intent) (\<lambda>_. go AtCapability)"
| "segment abi env intent tenant_ctx AtCapability = seq (capability_phase abi env intent) (\<lambda>_. go AtRouting)"
| "segment abi env intent tenant_ctx AtRouting = seq (routing_phase abi env intent) (\<lambda>path. go (AtGateway path))"
| "segment abi env intent tenant_ctx (AtGateway path) =
     seq (gateway_phase abi env intent path) (\<lambda>tool_result. go (AtCheckpoint tool_result))"
| "segment abi env intent tenant_ctx (AtCheckpoint tool_result) =
     seq (checkpoint_phase abi env intent tenant_ctx tool_result) (\<lambda>checkpoint_id.
     seq (completion_phase env tenant_ctx tool_result checkpoint_id) (\<lambda>_.
       raise (PyRuntimeError ''unreachable: the body returns a result'')))"

record task =
  tk_env :: ExecEnv
  tk_intent :: Intent
  tk_tenant_ctx :: "TenantContext option"
  tk_quota_acquired :: bool
  tk_tracer :: "ExecutionTracer option"
  tk_logger :: "RuntimeLogger option"
  tk_state :: ExecutionState
  tk_at :: resume_point

abbreviation task_id :: "task \<Rightarrow> string" where
  "task_id t \<equiv> xe_uuid (tk_env t)"

definition task_tenant :: "task \<Rightarrow> string" where
  "task_tenant t = (case tk_tenant_ctx t of None \<Rightarrow> [] | Some c \<Rightarrow> tc_tenant_id c)"

definition task_frame :: "task \<Rightarrow> 'w runtime \<Rightarrow> 'w frame" where
  "task_frame t rt = \<lparr>fr_rt = rt, fr_tracer = tk_tracer t, fr_logger = tk_logger t, fr_state = tk_state t\<rparr>"

text \<open>\<^verbatim>\<open>_release_quota\<close> is a closure: it releases the slot of the tenant at the start of the execution.\<close>

definition task_release :: "task \<Rightarrow> 'w runtime \<Rightarrow> 'w runtime" where
  "task_release t rt =
     (case rt_quota_manager rt of
        None \<Rightarrow> rt
      | Some q \<Rightarrow>
          if tk_quota_acquired t \<and> task_tenant t \<noteq> []
          then rt\<lparr>rt_quota_manager := Some (Quota_end_execution (task_tenant t) (task_id t) q)\<rparr>
          else rt)"

text \<open>The result of a part of an execution: finished, by an exception or with a result, or waiting.\<close>

type_synonym step_result = "(exn + ExecutionResult) + task"

definition begin_execution :: "ExecEnv \<Rightarrow> Intent \<Rightarrow> 'w runtime \<Rightarrow> step_result \<times> 'w runtime" where
  "begin_execution env intent rt =
     (case seq (isolation_gate env) (\<lambda>_. seq (quota_gate env) (\<lambda>quota_acquired.
             seq (shutdown_gate env quota_acquired) (\<lambda>_. go quota_acquired))) rt of
        (Raised e, rt1) \<Rightarrow> (Inl (Inl e), rt1)
      | (Returned r, rt1) \<Rightarrow> (Inl (Inr r), rt1)
      | (Continue quota_acquired, rt1) \<Rightarrow>
          (let tenant_ctx = rt_tenant_context rt1;
               (out, f) = start_guarded env (guarded_frame env intent tenant_ctx rt1);
               t = \<lparr>tk_env = env, tk_intent = intent, tk_tenant_ctx = tenant_ctx, tk_quota_acquired = quota_acquired,
                    tk_tracer = fr_tracer f, tk_logger = fr_logger f, tk_state = fr_state f, tk_at = AtPolicy\<rparr>
           in case out of
                Raised e \<Rightarrow> (Inl (Inl e), fr_rt f)
              | Returned r \<Rightarrow> (Inl (Inr r), task_release t (fr_rt f))
              | Continue _ \<Rightarrow> (Inr t, fr_rt f)))"

definition resume :: "'w abi \<Rightarrow> task \<Rightarrow> 'w runtime \<Rightarrow> step_result \<times> 'w runtime" where
  "resume abi t rt =
     (case segment abi (tk_env t) (tk_intent t) (tk_tenant_ctx t) (tk_at t) (task_frame t rt) of
        (Raised e, f) \<Rightarrow> (Inl (Inl e), fr_rt f)
      | (Returned r, f) \<Rightarrow> (Inl (Inr r), task_release t (fr_rt f))
      | (Continue pc, f) \<Rightarrow>
          (Inr (t\<lparr>tk_tracer := fr_tracer f, tk_logger := fr_logger f, tk_state := fr_state f, tk_at := pc\<rparr>), fr_rt f))"

text \<open>How many more calls an execution makes at most.\<close>

primrec calls_left :: "resume_point \<Rightarrow> nat" where
  "calls_left AtPolicy = 5"
| "calls_left AtCapability = 4"
| "calls_left AtRouting = 3"
| "calls_left (AtGateway path) = 2"
| "calls_left (AtCheckpoint tool_result) = 1"

section \<open>One call at a time\<close>

text \<open>The specification of a segment: the call that is awaited, and what its answer means.\<close>

primrec chain_call ::
  "'w abi \<Rightarrow> ExecEnv \<Rightarrow> Intent \<Rightarrow> TenantContext option \<Rightarrow> resume_point \<Rightarrow> 'w \<Rightarrow> (ExecutionResult + resume_point) \<times> 'w" where
  "chain_call abi env intent ctx AtPolicy w =
     (case evaluate_intent abi intent w of
        (Inl e, w') \<Rightarrow> (Inl (failure (xe_uuid env) (''Policy evaluation error: '' @ exc_str e) ES_HALTED), w')
      | (Inr (allowed, reason), w') \<Rightarrow>
          (if allowed then Inr AtCapability
           else Inl (failure (xe_uuid env) (or_str reason ''Policy rejected intent'') ES_FAILED), w'))"
| "chain_call abi env intent ctx AtCapability w =
     (case check_capability abi (in_action intent) (in_agent_id intent) w of
        (Inl e, w') \<Rightarrow> (Inl (failure (xe_uuid env) (''Capability check error: '' @ exc_str e) ES_FAILED), w')
      | (Inr (allowed, reason), w') \<Rightarrow>
          (if allowed then Inr AtRouting
           else Inl (failure (xe_uuid env)
                  (or_str reason (''Capability not allowed for action: '' @ in_action intent)) ES_FAILED), w'))"
| "chain_call abi env intent ctx AtRouting w =
     (case route_intent abi intent w of
        (Inl e, w') \<Rightarrow> (Inl (failure (xe_uuid env) (''Orchestration error: '' @ exc_str e) ES_HALTED), w')
      | (Inr path, w') \<Rightarrow> (Inr (AtGateway path), w'))"
| "chain_call abi env intent ctx (AtGateway path) w =
     (case access_tool abi path intent w of
        (Inl e, w') \<Rightarrow> (Inl (failure (xe_uuid env) (''Gateway access error: '' @ exc_str e) ES_FAILED), w')
      | (Inr tr, w') \<Rightarrow>
          (if tl_success tr then Inr (AtCheckpoint tr)
           else Inl (failure (xe_uuid env) (or_str (tl_error tr) ''Tool execution failed'') ES_FAILED), w'))"
| "chain_call abi env intent ctx (AtCheckpoint tr) w = (case chain_persist abi env intent ctx tr w of (res, w') \<Rightarrow> (Inl res, w'))"

text \<open>The rest of the chain is a call and the rest after it.\<close>

primrec chain_rest ::
  "'w abi \<Rightarrow> ExecEnv \<Rightarrow> Intent \<Rightarrow> TenantContext option \<Rightarrow> resume_point \<Rightarrow> 'w \<Rightarrow> ExecutionResult \<times> 'w" where
  "chain_rest abi env intent ctx AtPolicy = chain abi env intent ctx"
| "chain_rest abi env intent ctx AtCapability = chain_capability abi env intent ctx"
| "chain_rest abi env intent ctx AtRouting = chain_route abi env intent ctx"
| "chain_rest abi env intent ctx (AtGateway path) = chain_access abi env intent ctx path"
| "chain_rest abi env intent ctx (AtCheckpoint tr) = chain_persist abi env intent ctx tr"

lemma chain_rest_call:
  "chain_rest abi env intent ctx pc w =
     (case chain_call abi env intent ctx pc w of
        (Inl res, w') \<Rightarrow> (res, w') | (Inr pc', w') \<Rightarrow> chain_rest abi env intent ctx pc' w')"
  by (cases pc)
    (simp_all add: chain_def chain_capability_def chain_route_def chain_access_def split: prod.splits sum.splits)

lemma chain_call_advances: "chain_call abi env intent ctx pc w = (Inr pc', w') \<Longrightarrow> calls_left pc = Suc (calls_left pc')"
  by (cases pc) (auto split: prod.splits sum.splits if_splits)

primrec state_at :: "resume_point \<Rightarrow> ExecutionState" where
  "state_at AtPolicy = ES_VALIDATING"
| "state_at AtCapability = ES_AUTHORIZED"
| "state_at AtRouting = ES_EXECUTING"
| "state_at (AtGateway path) = ES_EXECUTING"
| "state_at (AtCheckpoint tr) = ES_CHECKPOINTING"

primrec phase_at :: "resume_point \<Rightarrow> TracePhase" where
  "phase_at AtPolicy = INTENT_RECEIVED"
| "phase_at AtCapability = CAPABILITY_CHECK"
| "phase_at AtRouting = INTENT_ROUTING"
| "phase_at (AtGateway path) = TOOL_EXECUTION"
| "phase_at (AtCheckpoint tr) = CHECKPOINT_SAVE"

text \<open>A segment does what the chain's call says, whatever the runtime around it is.\<close>

lemma halts_later_now: "halts_with m f rt n phs res \<Longrightarrow> \<exists>ps. halts_with (seq m k) f rt n ps res"
  by (blast intro: seq_halts)

lemma proceeds_to: "proceeds m f rt n st phs ph a \<Longrightarrow> proceeds (seq m (\<lambda>a. go (pc a))) f rt n st phs ph (pc a)"
  by (rule seq_proceeds2) (auto intro: proceeds_go)

lemma segment_refines:
  assumes "running_at f rt (n + 1) (state_at pc) phs (phase_at pc)"
    and "chain_call abi env intent ctx pc (rt_world rt) = (a, w)"
  shows "case a of
      Inr pc' \<Rightarrow> proceeds (segment abi env intent ctx pc) f (rt\<lparr>rt_world := w\<rparr>) (n + 1) (state_at pc')
                 (phs @ [phase_at pc]) (phase_at pc') pc'
    | Inl res \<Rightarrow> \<exists>ps. halts_with (segment abi env intent ctx pc) f (settled ctx (res, w) rt) n ps res"
proof (cases pc)
  case AtPolicy
  show ?thesis
  proof (cases "\<exists>reason. fst (evaluate_intent abi intent (rt_world rt)) = Inr (True, reason)")
    case True
    then obtain reason w' where c: "evaluate_intent abi intent (rt_world rt) = (Inr (True, reason), w')" by (metis prod.collapse)
    from proceeds_to [OF policy_phase_granted [OF assms(1) [unfolded AtPolicy state_at.simps phase_at.simps] c], where pc = "\<lambda>_. AtCapability"]
    show ?thesis using assms(2) c AtPolicy by auto
  next
    case False
    obtain r w' where c: "evaluate_intent abi intent (rt_world rt) = (r, w')" by fastforce
    have no: "\<nexists>reason. r = Inr (True, reason)" using False c by simp
    have "a = Inl (fst (chain abi env intent ctx (rt_world rt)))" "w = snd (chain abi env intent ctx (rt_world rt))"
      using assms(2) c no by (auto simp: AtPolicy chain_def split: sum.splits)
    then show ?thesis
      using policy_phase_refused [OF assms(1) [unfolded AtPolicy state_at.simps phase_at.simps] c no refl, of env ctx]
      by (auto simp: AtPolicy intro: halts_later_now)
  qed
next
  case AtCapability
  show ?thesis
  proof (cases "\<exists>reason. fst (check_capability abi (in_action intent) (in_agent_id intent) (rt_world rt)) = Inr (True, reason)")
    case True
    then obtain reason w' where c: "check_capability abi (in_action intent) (in_agent_id intent) (rt_world rt) = (Inr (True, reason), w')"
      by (metis prod.collapse)
    from proceeds_to [OF capability_phase_granted [OF assms(1) [unfolded AtCapability state_at.simps phase_at.simps] c], where pc = "\<lambda>_. AtRouting"]
    show ?thesis using assms(2) c AtCapability by auto
  next
    case False
    obtain r w' where c: "check_capability abi (in_action intent) (in_agent_id intent) (rt_world rt) = (r, w')" by fastforce
    have no: "\<nexists>reason. r = Inr (True, reason)" using False c by simp
    have "a = Inl (fst (chain_capability abi env intent ctx (rt_world rt)))" "w = snd (chain_capability abi env intent ctx (rt_world rt))"
      using assms(2) c no by (auto simp: AtCapability chain_capability_def split: sum.splits)
    then show ?thesis
      using capability_phase_refused [OF assms(1) [unfolded AtCapability state_at.simps phase_at.simps] c no refl, of env ctx]
      by (auto simp: AtCapability intro: halts_later_now)
  qed
next
  case AtRouting
  obtain r w' where c: "route_intent abi intent (rt_world rt) = (r, w')" by fastforce
  show ?thesis
  proof (cases r)
    case (Inr path)
    from proceeds_to [OF routing_phase_granted [OF assms(1) [unfolded AtRouting state_at.simps phase_at.simps] c [unfolded Inr]], where pc = AtGateway]
    show ?thesis using assms(2) c Inr AtRouting by auto
  next
    case (Inl e)
    have "a = Inl (fst (chain_route abi env intent ctx (rt_world rt)))" "w = snd (chain_route abi env intent ctx (rt_world rt))"
      using assms(2) c Inl by (auto simp: AtRouting chain_route_def)
    then show ?thesis
      using routing_phase_refused [OF assms(1) [unfolded AtRouting state_at.simps phase_at.simps] c [unfolded Inl] refl, of env ctx]
      by (auto simp: AtRouting intro: halts_later_now)
  qed
next
  case (AtGateway path)
  obtain r w' where c: "access_tool abi path intent (rt_world rt) = (r, w')" by fastforce
  show ?thesis
  proof (cases "\<exists>tr. r = Inr tr \<and> tl_success tr")
    case True
    then obtain tr where tr: "r = Inr tr" "tl_success tr" by blast
    from proceeds_to [OF gateway_phase_granted [OF assms(1) [unfolded AtGateway state_at.simps phase_at.simps] c [unfolded tr(1)] tr(2)], where pc = AtCheckpoint]
    show ?thesis using assms(2) c tr AtGateway by auto
  next
    case False
    have "a = Inl (fst (chain_access abi env intent ctx path (rt_world rt)))" "w = snd (chain_access abi env intent ctx path (rt_world rt))"
      using assms(2) c False by (auto simp: AtGateway chain_access_def split: sum.splits)
    then show ?thesis
      using gateway_phase_refused [OF assms(1) [unfolded AtGateway state_at.simps phase_at.simps] c False refl, of env ctx]
      by (auto simp: AtGateway intro: halts_later_now)
  qed
next
  case (AtCheckpoint tr)
  have seg: "segment abi env intent ctx pc =
      seq (persist_part abi env intent ctx tr) (\<lambda>_. raise (PyRuntimeError ''unreachable: the body returns a result''))"
    by (simp add: AtCheckpoint persist_part_def seq_assoc)
  have "a = Inl (fst (chain_persist abi env intent ctx tr (rt_world rt)))" "w = snd (chain_persist abi env intent ctx tr (rt_world rt))"
    using assms(2) by (auto simp: AtCheckpoint split: prod.splits)
  then show ?thesis
    using persist_part_ok [OF assms(1) [unfolded AtCheckpoint state_at.simps phase_at.simps] refl, of abi env intent ctx tr]
    unfolding seg by (auto simp: halts_within_def intro: halts_later_now)
qed

section \<open>Resuming a task\<close>

text \<open>A waiting task's local state fits the call it waits for.\<close>

definition task_ok :: "task \<Rightarrow> bool" where
  "task_ok t \<longleftrightarrow> tk_state t = state_at (tk_at t) \<and>
     (\<forall>tr. tk_tracer t = Some tr \<longrightarrow> tr_current_phase tr = Some (phase_at (tk_at t)) \<and>
        map te_success (tr_entries tr) = replicate (length (tr_entries tr)) True)"

definition same_task :: "task \<Rightarrow> task \<Rightarrow> bool" where
  "same_task t t' \<longleftrightarrow> tk_env t' = tk_env t \<and> tk_intent t' = tk_intent t \<and> tk_tenant_ctx t' = tk_tenant_ctx t \<and>
     tk_quota_acquired t' = tk_quota_acquired t"

lemma task_running:
  "task_ok t \<Longrightarrow> pending rt n \<Longrightarrow>
     running_at (task_frame t rt) rt n (state_at (tk_at t)) (trace_phases (task_frame t rt)) (phase_at (tk_at t))"
  by (auto simp: running_at_def task_ok_def task_frame_def trace_phases_def trace_flags_def)

lemma running_task_ok:
  assumes "running_at f rt n (state_at pc) phs (phase_at pc)"
  shows "task_ok (t\<lparr>tk_tracer := fr_tracer f, tk_logger := l, tk_state := fr_state f, tk_at := pc\<rparr>)"
proof -
  have "length phs = length (tr_entries tr)" if "fr_tracer f = Some tr" for tr
    using assms that by (auto simp: running_at_def trace_phases_def dest: arg_cong [where f = length])
  then show ?thesis using assms by (auto simp: running_at_def task_ok_def trace_flags_def)
qed

lemma core_task_release: "core (task_release t rt) = task_release t (core rt)"
  by (simp add: task_release_def core_def split: option.splits)

lemma core_task_release_cong: "core a = core b \<Longrightarrow> core (task_release t a) = core (task_release t b)"
  by (simp add: core_task_release)

lemma pending_task_release [simp]: "pending (task_release t rt) n \<longleftrightarrow> pending rt n"
  by (auto simp: task_release_def pending_def split: option.splits)

lemma resume_waits:
  assumes "task_ok t" "pending rt (n + 1)"
    and "chain_call abi (tk_env t) (tk_intent t) (tk_tenant_ctx t) (tk_at t) (rt_world rt) = (Inr pc, w)"
  shows "\<exists>t' rt'. resume abi t rt = (Inr t', rt') \<and> same_task t t' \<and> tk_at t' = pc \<and> task_ok t' \<and>
           core rt' = core (rt\<lparr>rt_world := w\<rparr>) \<and> pending rt' (n + 1)"
proof -
  from segment_refines [OF task_running [OF assms(1,2)] assms(3)] obtain f where
    "segment abi (tk_env t) (tk_intent t) (tk_tenant_ctx t) (tk_at t) (task_frame t rt) = (Continue pc, f)"
    and f: "running_at f (rt\<lparr>rt_world := w\<rparr>) (n + 1) (state_at pc) (trace_phases (task_frame t rt) @ [phase_at (tk_at t)]) (phase_at pc)"
    by (auto simp: proceeds_def)
  then show ?thesis
    using running_task_ok [OF f] f by (auto simp: resume_def same_task_def running_at_def)
qed

lemma resume_ends:
  assumes "task_ok t" "pending rt (n + 1)"
    and "chain_call abi (tk_env t) (tk_intent t) (tk_tenant_ctx t) (tk_at t) (rt_world rt) = (Inl res, w)"
  shows "\<exists>rt'. resume abi t rt = (Inl (Inr res), rt') \<and> pending rt' n \<and>
           core rt' = core (task_release t (settled (tk_tenant_ctx t) (res, w) rt))"
proof -
  from segment_refines [OF task_running [OF assms(1,2)] assms(3)] obtain f ps where
    "segment abi (tk_env t) (tk_intent t) (tk_tenant_ctx t) (tk_at t) (task_frame t rt) = (Returned res, f)"
    "ended_at f (settled (tk_tenant_ctx t) (res, w) rt) n ps (er_success res)"
    by (auto simp: halts_with_def)
  then show ?thesis by (auto simp: resume_def ended_at_def intro: core_task_release_cong)
qed

lemma begin_waits:
  assumes "begin_execution env intent rt = (Inr t, rt')" "pending rt n"
  shows "\<exists>q rt1. admit env rt = (Continue q, rt1) \<and> core rt' = core rt1 \<and> pending rt' (n + 1) \<and> task_ok t \<and>
    tk_env t = env \<and> tk_intent t = intent \<and> tk_tenant_ctx t = rt_tenant_context rt \<and> tk_quota_acquired t = q \<and> tk_at t = AtPolicy"
proof -
  obtain out rt1 where ad: "admit env rt = (out, rt1)" by fastforce
  then obtain q where q: "out = Continue q"
    using assms(1) by (cases out) (simp_all add: begin_execution_def admit_def [symmetric])
  have p: "pending rt1 n" "rt_tenant_context rt1 = rt_tenant_context rt"
    using admit_frame [OF ad] assms(2) by (simp_all add: same_setup_def)
  from start_guarded_ok [OF p(1), of env intent "rt_tenant_context rt1"] obtain f where
    f: "start_guarded env (guarded_frame env intent (rt_tenant_context rt1) rt1) = (Continue (), f)"
      "running_at f rt1 (n + 1) ES_VALIDATING [] INTENT_RECEIVED" by (auto simp: proceeds_def)
  then have "t = \<lparr>tk_env = env, tk_intent = intent, tk_tenant_ctx = rt_tenant_context rt1, tk_quota_acquired = q,
      tk_tracer = fr_tracer f, tk_logger = fr_logger f, tk_state = fr_state f, tk_at = AtPolicy\<rparr>" "rt' = fr_rt f"
    using assms(1) ad q by (simp_all add: begin_execution_def admit_def [symmetric] Let_def)
  then show ?thesis
    using ad q f(2) p(2) running_task_ok [where f = f and rt = rt1 and n = "n + 1" and pc = AtPolicy and phs = "[]" and t = t and l = "fr_logger f"] by (simp add: running_at_def)
qed

lemma begin_ends:
  assumes "begin_execution env intent rt = (Inl r, rt')"
  shows "(\<exists>e. admit env rt = (Raised e, rt') \<and> r = Inl e) \<or> (\<exists>res. admit env rt = (Returned res, rt') \<and> r = Inr res)"
proof -
  obtain out rt1 where ad: "admit env rt = (out, rt1)" by fastforce
  show ?thesis
  proof (cases out)
    case (Continue q)
    obtain n where "pending rt1 n" using pending_ex by blast
    from start_guarded_ok [OF this, of env intent "rt_tenant_context rt1"] show ?thesis
      using assms ad Continue by (auto simp: begin_execution_def admit_def [symmetric] Let_def proceeds_def)
  qed (use assms ad in \<open>auto simp: begin_execution_def admit_def [symmetric]\<close>)
qed

section \<open>An execution that runs alone\<close>

fun run_to_end :: "nat \<Rightarrow> 'w abi \<Rightarrow> task \<Rightarrow> 'w runtime \<Rightarrow> ((exn + ExecutionResult) \<times> 'w runtime) option" where
  "run_to_end 0 abi t rt = None"
| "run_to_end (Suc k) abi t rt =
     (case resume abi t rt of (Inl r, rt') \<Rightarrow> Some (r, rt') | (Inr t', rt') \<Rightarrow> run_to_end k abi t' rt')"

primrec rest_of :: "'w abi \<Rightarrow> ExecEnv \<Rightarrow> Intent \<Rightarrow> TenantContext option \<Rightarrow> resume_point \<Rightarrow> ('w, unit) phase" where
  "rest_of abi env intent ctx AtPolicy = seq (policy_phase abi env intent) (\<lambda>_. capability_part abi env intent ctx)"
| "rest_of abi env intent ctx AtCapability = capability_part abi env intent ctx"
| "rest_of abi env intent ctx AtRouting = route_part abi env intent ctx"
| "rest_of abi env intent ctx (AtGateway path) = access_part abi env intent ctx path"
| "rest_of abi env intent ctx (AtCheckpoint tr) = persist_part abi env intent ctx tr"

lemma completion_returns: "\<exists>r f'. completion_phase env ctx tr cid f = (Returned r, f')"
  by (simp add: completion_phase_def seq_def Let_def)

lemma persist_returns: "persist_part abi env intent ctx tr f \<noteq> (Continue u, f')"
proof -
  obtain out g where c: "checkpoint_phase abi env intent ctx tr f = (out, g)" by fastforce
  show ?thesis
  proof (cases out)
    case (Continue cid)
    obtain r h where "completion_phase env ctx tr cid g = (Returned r, h)" using completion_returns by blast
    then show ?thesis using c Continue by (simp add: persist_part_def)
  qed (use c in \<open>simp_all add: persist_part_def\<close>)
qed

lemma rest_segment: "rest_of abi env intent ctx pc f = seq (segment abi env intent ctx pc) (rest_of abi env intent ctx) f"
proof (cases pc)
  case (AtCheckpoint tr)
  have "segment abi env intent ctx pc =
      seq (persist_part abi env intent ctx tr) (\<lambda>_. raise (PyRuntimeError ''unreachable: the body returns a result''))"
    by (simp add: AtCheckpoint persist_part_def seq_assoc)
  then show ?thesis
    using persist_returns [of abi env intent ctx tr f]
    by (simp add: AtCheckpoint seq_def split: prod.splits outcome.splits)
qed (simp_all add: capability_part_def route_part_def access_part_def seq_assoc go_seq)

lemma segment_advances:
  "segment abi env intent ctx pc f = (Continue pc', f') \<Longrightarrow> calls_left pc = Suc (calls_left pc')"
proof (cases pc)
  case (AtCheckpoint tr)
  assume "segment abi env intent ctx pc f = (Continue pc', f')"
  then have "seq (persist_part abi env intent ctx tr) (\<lambda>_. raise (PyRuntimeError ''unreachable: the body returns a result'')) f =
      (Continue pc', f')"
    by (simp add: AtCheckpoint persist_part_def seq_assoc)
  then show ?thesis by (simp add: seq_def split: prod.splits outcome.splits)
qed (auto simp: seq_def split: prod.splits outcome.splits)

lemma task_release_update [simp]:
  "task_release (t\<lparr>tk_tracer := tr, tk_logger := l, tk_state := st, tk_at := pc\<rparr>) rt = task_release t rt"
  by (simp add: task_release_def task_tenant_def split: option.splits)

lemma run_to_end_rest:
  "run_to_end (calls_left (tk_at t)) abi t rt =
     (case rest_of abi (tk_env t) (tk_intent t) (tk_tenant_ctx t) (tk_at t) (task_frame t rt) of
        (Raised e, f) \<Rightarrow> Some (Inl e, fr_rt f)
      | (Returned r, f) \<Rightarrow> Some (Inr r, task_release t (fr_rt f))
      | (Continue u, f) \<Rightarrow> None)"
proof (induction "calls_left (tk_at t)" arbitrary: t rt)
  case 0
  then show ?case by (cases "tk_at t") auto
next
  case (Suc k)
  obtain out f where seg: "segment abi (tk_env t) (tk_intent t) (tk_tenant_ctx t) (tk_at t) (task_frame t rt) = (out, f)"
    by fastforce
  show ?case
  proof (cases out)
    case (Continue pc)
    let ?t = "t\<lparr>tk_tracer := fr_tracer f, tk_logger := fr_logger f, tk_state := fr_state f, tk_at := pc\<rparr>"
    have "k = calls_left (tk_at ?t)" using segment_advances [OF seg [unfolded Continue]] Suc.hyps(2) by simp
    moreover have "task_frame ?t (fr_rt f) = f" by (simp add: task_frame_def)
    ultimately show ?thesis
      using Suc.hyps(1) [of ?t "fr_rt f"] seg Continue
      by (simp add: Suc.hyps(2) [symmetric] resume_def rest_segment [of _ _ _ _ "tk_at t"] seq_def
          split: prod.splits outcome.splits)
  qed (use seg in \<open>simp_all add: Suc.hyps(2) [symmetric] resume_def rest_segment [of _ _ _ _ "tk_at t"] seq_def\<close>)
qed

text \<open>
  Property C5. Splitting \<^verbatim>\<open>execute_intent\<close> at its awaits loses nothing: an execution that is refused at the
  gates ends at once, and one that is admitted and resumed five times at most with nothing in between
  gives exactly the result and leaves exactly the runtime of \<^verbatim>\<open>execute_intent\<close>.
\<close>

theorem alone_is_execute_intent:
  "case begin_execution env intent rt of
     (Inl r, rt') \<Rightarrow> execute_intent abi env intent rt = (r, rt')
   | (Inr t, rt') \<Rightarrow> run_to_end 5 abi t rt' = Some (execute_intent abi env intent rt)"
proof (cases "begin_execution env intent rt")
  case (Pair a rt')
  show ?thesis
  proof (cases a)
    case (Inl r)
    then show ?thesis using begin_ends [OF Pair [unfolded Inl]] Pair by (auto simp: execute_intent_refused)
  next
    case (Inr t)
    obtain out rt1 where ad: "admit env rt = (out, rt1)" by fastforce
    then obtain q where q: "out = Continue q"
      using Pair Inr by (cases out) (simp_all add: begin_execution_def admit_def [symmetric])
    define ctx where "ctx = rt_tenant_context rt1"
    obtain f where f: "start_guarded env (guarded_frame env intent ctx rt1) = (Continue (), f)"
      using start_guarded_ok [of rt1 _ env intent ctx] pending_ex [of rt1] by (auto simp: proceeds_def)
    have t: "t = \<lparr>tk_env = env, tk_intent = intent, tk_tenant_ctx = ctx, tk_quota_acquired = q,
        tk_tracer = fr_tracer f, tk_logger = fr_logger f, tk_state = fr_state f, tk_at = AtPolicy\<rparr>" "rt' = fr_rt f"
      using Pair Inr ad q f by (simp_all add: begin_execution_def admit_def [symmetric] Let_def ctx_def)
    obtain res g where g: "execute_quota_guarded abi env intent ctx rt1 = (Returned res, g)"
        "core (fr_rt g) = core (settled ctx (chain abi env intent ctx (rt_world rt1)) rt1)"
      using guarded_refines by blast
    have rest: "rest_of abi env intent ctx AtPolicy f = (Returned res, g)" "task_frame t rt' = f"
      using g(1) f by (simp_all add: execute_quota_guarded_def guarded_body_parts t task_frame_def)
    have "quota_tenant (fr_rt g) = task_tenant t"
      using core_fields(5) [OF g(2)] by (simp add: quota_tenant_def task_tenant_def t ctx_def settled_def isolation_end_def split: option.splits)
    moreover have "task_id t = xe_uuid env" "tk_quota_acquired t = q" by (simp_all add: t)
    ultimately have "task_release t (fr_rt g) = release_quota env q (fr_rt g)"
      by (simp add: task_release_def release_quota_def split: option.splits)
    moreover have "execute_intent abi env intent rt = (Inr res, release_quota env q (fr_rt g))"
      using ad q g(1) by (simp add: execute_intent_admit seq_def run_guarded_def ctx_def)
    ultimately show ?thesis
      using run_to_end_rest [of t abi rt'] rest Pair Inr by (simp add: t(1))
  qed
qed

end
