(* ===== verification/Concurrent_Runtime.thy ===== *)
theory Concurrent_Runtime
  imports Interleaving "HOL-Library.Multiset"
begin

text \<open>
  A runtime with its executions in flight. A step of the process begins an execution, resumes one that
  waits, or is one of the runtime's other operations or any change of the collaborators' state. The
  invariants hold in every interleaving: the slots of the quota manager are exactly the executions in
  flight, both concurrency limits bound them, the metrics count them, and a draining runtime runs dry.
\<close>

section \<open>The process\<close>

record 'w process =
  pr_runtime :: "'w runtime"
  pr_tasks :: "task list"
  pr_cancelled :: "task list"
  pr_finished :: "(string \<times> (exn + ExecutionResult)) list"

definition process_init :: "'w runtime \<Rightarrow> 'w process" where
  "process_init rt = \<lparr>pr_runtime = rt, pr_tasks = [], pr_cancelled = [], pr_finished = []\<rparr>"

text \<open>
  An execution that was cancelled at an await is recorded: the exception is no \<^verbatim>\<open>Exception\<close>, so no clause of
  \<^verbatim>\<open>execute_intent\<close> handles it, and what the execution holds it keeps.
\<close>

definition holders :: "'w process \<Rightarrow> task list" where
  "holders p = pr_tasks p @ pr_cancelled p"

text \<open>Identifiers are random: a new one is none that was given to an execution in flight or cancelled.\<close>

definition fresh_id :: "ExecEnv \<Rightarrow> 'w process \<Rightarrow> bool" where
  "fresh_id env p \<longleftrightarrow> xe_uuid env \<notin> task_id ` set (holders p)"

inductive arrival :: "'w process \<Rightarrow> 'w process \<Rightarrow> bool" where
  admitted: "begin_execution env intent (pr_runtime p) = (Inr t, rt) \<Longrightarrow> fresh_id env p \<Longrightarrow>
     arrival p (p\<lparr>pr_runtime := rt, pr_tasks := pr_tasks p @ [t]\<rparr>)"
| refused: "begin_execution env intent (pr_runtime p) = (Inl r, rt) \<Longrightarrow> fresh_id env p \<Longrightarrow>
     arrival p (p\<lparr>pr_runtime := rt, pr_finished := pr_finished p @ [(xe_uuid env, r)]\<rparr>)"

inductive resumption :: "'w abi \<Rightarrow> 'w process \<Rightarrow> 'w process \<Rightarrow> bool" for abi where
  waits: "pr_tasks p = ts @ t # us \<Longrightarrow> resume abi t (pr_runtime p) = (Inr t', rt) \<Longrightarrow>
     resumption abi p (p\<lparr>pr_runtime := rt, pr_tasks := ts @ t' # us\<rparr>)"
| ends: "pr_tasks p = ts @ t # us \<Longrightarrow> resume abi t (pr_runtime p) = (Inl r, rt) \<Longrightarrow>
     resumption abi p (p\<lparr>pr_runtime := rt, pr_tasks := ts @ us, pr_finished := pr_finished p @ [(task_id t, r)]\<rparr>)"

inductive cancellation :: "'w process \<Rightarrow> 'w process \<Rightarrow> bool" where
  cancelled: "pr_tasks p = ts @ t # us \<Longrightarrow>
     cancellation p (p\<lparr>pr_runtime := (pr_runtime p)\<lparr>rt_world := w\<rparr>, pr_tasks := ts @ us, pr_cancelled := pr_cancelled p @ [t]\<rparr>)"

inductive outside_step :: "'w abi \<Rightarrow> 'w runtime \<Rightarrow> 'w runtime \<Rightarrow> bool" for abi where
  hosted: "outside_step abi rt (host_agent agent_id capabilities now rt)"
| context_set: "set_tenant_context c rt = Inr rt' \<Longrightarrow> outside_step abi rt rt'"
| drained: "outside_step abi rt (drain rt)"
| stopped: "outside_step abi rt (stop rt)"
| restored: "restore_from_checkpoint abi cid tenant agent rt = (r, rt') \<Longrightarrow> outside_step abi rt rt'"
| collaborators: "outside_step abi rt (rt\<lparr>rt_world := w\<rparr>)"

inductive process_step :: "'w abi \<Rightarrow> 'w process \<Rightarrow> 'w process \<Rightarrow> bool" for abi where
  arrives: "arrival p p' \<Longrightarrow> process_step abi p p'"
| resumes: "resumption abi p p' \<Longrightarrow> process_step abi p p'"
| cancels: "cancellation p p' \<Longrightarrow> process_step abi p p'"
| outside: "outside_step abi (pr_runtime p) rt \<Longrightarrow> process_step abi p (p\<lparr>pr_runtime := rt\<rparr>)"

inductive_cases process_stepE: "process_step abi p p'"
inductive_cases arrivalE: "arrival p p'"
inductive_cases resumptionE: "resumption abi p p'"

definition held_by :: "'w process \<Rightarrow> string \<Rightarrow> task list" where
  "held_by p tid = filter (\<lambda>t. task_tenant t = tid) (holders p)"

section \<open>What a step leaves alone\<close>

lemma outside_frame:
  "outside_step abi rt rt' \<Longrightarrow> rt_isolation rt' = rt_isolation rt \<and> rt_quota_manager rt' = rt_quota_manager rt \<and>
     (pending rt' n \<longleftrightarrow> pending rt n) \<and> rt_state rt \<le> rt_state rt'"
proof (induction rule: outside_step.induct)
  case (context_set c rt rt')
  then show ?case by (auto simp: pending_def set_tenant_context_def split: if_splits option.splits sum.splits)
next
  case (restored cid tenant agent rt r rt')
  then show ?case using restore_frame by (force simp: pending_def)
next
  case (drained rt)
  then show ?case
    by (auto simp: drain_def less_eq_RuntimeState_def pending_def runtime_log_def split: option.splits)
next
  case (stopped rt)
  then show ?case
    by (auto simp: stop_def less_eq_RuntimeState_def RuntimeState_rank_le pending_def runtime_log_def runtime_incr_def
        split: option.splits)
qed (simp_all add: host_agent_def pending_def)

definition tasks_ok :: "'w process \<Rightarrow> bool" where
  "tasks_ok p \<longleftrightarrow> (\<forall>t \<in> set (pr_tasks p). task_ok t) \<and> distinct (map task_id (holders p)) \<and>
     pending (pr_runtime p) (int (length (holders p)))"

text \<open>A cancellation moves an execution and leaves the runtime alone.\<close>

lemma cancellation_frame:
  assumes "cancellation p p'"
  shows "mset (holders p') = mset (holders p)" "set (pr_tasks p') \<subseteq> set (pr_tasks p)" "pr_finished p' = pr_finished p"
    "core (pr_runtime p') = core ((pr_runtime p)\<lparr>rt_world := rt_world (pr_runtime p')\<rparr>)" "pending (pr_runtime p') n \<longleftrightarrow> pending (pr_runtime p) n"
    "rt_state (pr_runtime p') = rt_state (pr_runtime p)" "rt_quota_manager (pr_runtime p') = rt_quota_manager (pr_runtime p)"
    "rt_isolation (pr_runtime p') = rt_isolation (pr_runtime p)"
  using assms by (cases rule: cancellation.cases, auto simp: holders_def pending_def)+

lemma cancellation_sets:
  assumes "cancellation p p'"
  shows "set (holders p') = set (holders p)" "length (holders p') = length (holders p)"
    "distinct (map task_id (holders p')) = distinct (map task_id (holders p))"
    "set (held_by p' tid) = set (held_by p tid)" "length (held_by p' tid) = length (held_by p tid)"
proof -
  note m = cancellation_frame(1) [OF assms]
  show "set (holders p') = set (holders p)" by (rule mset_eq_setD [OF m])
  show "length (holders p') = length (holders p)" by (rule mset_eq_length [OF m])
  show "distinct (map task_id (holders p')) = distinct (map task_id (holders p))"
    using m by (intro mset_eq_imp_distinct_iff) simp
  have f: "mset (held_by p' tid) = mset (held_by p tid)" by (simp add: held_by_def m)
  show "set (held_by p' tid) = set (held_by p tid)" by (rule mset_eq_setD [OF f])
  show "length (held_by p' tid) = length (held_by p tid)" by (rule mset_eq_length [OF f])
qed

text \<open>What a resumption does to the shared runtime.\<close>

lemma resumption_cases:
  assumes "resumption abi p p'" "tasks_ok p"
  obtains (waiting) ts t us t' w pc where "pr_tasks p = ts @ t # us" "pr_tasks p' = ts @ t' # us" "same_task t t'" "task_ok t'"
      "chain_call abi (tk_env t) (tk_intent t) (tk_tenant_ctx t) (tk_at t) (rt_world (pr_runtime p)) = (Inr pc, w)"
      "tk_at t' = pc" "core (pr_runtime p') = core ((pr_runtime p)\<lparr>rt_world := w\<rparr>)" "pr_finished p' = pr_finished p"
      "pending (pr_runtime p') (int (length (holders p')))" "pr_cancelled p' = pr_cancelled p"
    | (ending) ts t us res w where "pr_tasks p = ts @ t # us" "pr_tasks p' = ts @ us"
      "chain_call abi (tk_env t) (tk_intent t) (tk_tenant_ctx t) (tk_at t) (rt_world (pr_runtime p)) = (Inl res, w)"
      "core (pr_runtime p') = core (task_release t (settled (tk_tenant_ctx t) (res, w) (pr_runtime p)))"
      "pr_finished p' = pr_finished p @ [(task_id t, Inr res)]"
      "pending (pr_runtime p') (int (length (holders p')))" "pr_cancelled p' = pr_cancelled p"
proof -
  obtain ts t us where split: "pr_tasks p = ts @ t # us"
      "(\<exists>t' rt. resume abi t (pr_runtime p) = (Inr t', rt) \<and> p' = p\<lparr>pr_runtime := rt, pr_tasks := ts @ t' # us\<rparr>) \<or>
       (\<exists>r rt. resume abi t (pr_runtime p) = (Inl r, rt) \<and>
          p' = p\<lparr>pr_runtime := rt, pr_tasks := ts @ us, pr_finished := pr_finished p @ [(task_id t, r)]\<rparr>)"
    using assms(1) by (cases rule: resumption.cases) auto
  obtain a w where call:
      "chain_call abi (tk_env t) (tk_intent t) (tk_tenant_ctx t) (tk_at t) (rt_world (pr_runtime p)) = (a, w)" by fastforce
  have ok: "task_ok t" "pending (pr_runtime p) (int (length (ts @ us @ pr_cancelled p)) + 1)"
    using assms(2) split(1) by (auto simp: tasks_ok_def holders_def add.commute)
  show thesis
  proof (cases a)
    case (Inr pc)
    from resume_waits [OF ok call [unfolded Inr]] obtain t' rt' where r: "resume abi t (pr_runtime p) = (Inr t', rt')" "same_task t t'"
        "tk_at t' = pc" "task_ok t'" "core rt' = core ((pr_runtime p)\<lparr>rt_world := w\<rparr>)" "pending rt' (int (length (ts @ us @ pr_cancelled p)) + 1)"
      by blast
    then show thesis using split call Inr by (intro waiting [of ts t us t' pc w]) (auto simp: holders_def add.commute)
  next
    case (Inl res)
    from resume_ends [OF ok call [unfolded Inl]] obtain rt' where r: "resume abi t (pr_runtime p) = (Inl (Inr res), rt')"
        "pending rt' (int (length (ts @ us @ pr_cancelled p)))" "core rt' = core (task_release t (settled (tk_tenant_ctx t) (res, w) (pr_runtime p)))"
      by blast
    then show thesis using split call Inl by (intro ending [of ts t us res w]) (auto simp: holders_def)
  qed
qed

lemma tasks_ok_init: "pending rt 0 \<Longrightarrow> tasks_ok (process_init rt)"
  by (simp add: tasks_ok_def holders_def process_init_def)

lemma tasks_ok_step: "process_step abi p p' \<Longrightarrow> tasks_ok p \<Longrightarrow> tasks_ok p'"
proof (induction rule: process_step.induct)
  case (arrives p p')
  then show ?case
  proof (induction rule: arrival.induct)
    case (admitted env intent p t rt)
    from begin_waits [OF admitted(1), of "int (length (holders p))"] admitted(2,3) show ?case
      by (auto simp: tasks_ok_def fresh_id_def holders_def add.commute)
  next
    case (refused env intent p r rt)
    then have "pending rt (int (length (holders p)))"
      using begin_ends [OF refused(1)] admit_frame by (fastforce simp: tasks_ok_def)
    then show ?case using refused(3) by (simp add: tasks_ok_def holders_def)
  qed
next
  case (resumes p p')
  from resumes(1,2) show ?case
  proof (cases rule: resumption_cases)
    case (waiting ts t us t' w pc)
    then show ?thesis using resumes(2) by (simp add: tasks_ok_def holders_def same_task_def ball_Un)
  next
    case (ending ts t us res w)
    then show ?thesis using resumes(2) by (simp add: tasks_ok_def holders_def ball_Un)
  qed
next
  case (cancels p p')
  then show ?case
    using cancellation_frame(2,5) [OF cancels(1)] cancellation_sets(2,3) [OF cancels(1)] by (auto simp: tasks_ok_def)
next
  case (outside p rt)
  then show ?case using outside_frame [OF outside(1)] by (simp add: tasks_ok_def holders_def)
qed

lemma tasks_ok_steps: "(process_step abi)\<^sup>*\<^sup>* p p' \<Longrightarrow> tasks_ok p \<Longrightarrow> tasks_ok p'"
  by (induction rule: rtranclp_induct) (auto dest: tasks_ok_step)

section \<open>Quota slots\<close>

text \<open>
  With a quota manager, the slots it holds are those of the tenants' executions in flight or cancelled, and no
  tenant holds more than its limit.
\<close>

definition quota_ok :: "'w process \<Rightarrow> bool" where
  "quota_ok p \<longleftrightarrow>
     (case rt_quota_manager (pr_runtime p) of
        None \<Rightarrow> True
      | Some q \<Rightarrow>
          (\<forall>t \<in> set (holders p). tk_quota_acquired t \<longleftrightarrow> task_tenant t \<noteq> []) \<and>
          (\<forall>tid. tid \<noteq> [] \<longrightarrow> running q tid = task_id ` set (held_by p tid)) \<and> running q [] = {} \<and>
          (\<forall>tid. int (card (running q tid)) \<le> max 0 (qc_max_concurrent (get_config q tid))))"

definition quota_view :: "'w runtime \<Rightarrow> ((string \<Rightarrow> string set) \<times> (string \<Rightarrow> TenantQuotaConfig)) option" where
  "quota_view rt = map_option (\<lambda>q. (running q, get_config q)) (rt_quota_manager rt)"

lemma quota_ok_view:
  "quota_ok p \<longleftrightarrow>
     (case quota_view (pr_runtime p) of
        None \<Rightarrow> True
      | Some (run, config) \<Rightarrow>
          (\<forall>t \<in> set (holders p). tk_quota_acquired t \<longleftrightarrow> task_tenant t \<noteq> []) \<and>
          (\<forall>tid. tid \<noteq> [] \<longrightarrow> run tid = task_id ` set (held_by p tid)) \<and> run [] = {} \<and>
          (\<forall>tid. int (card (run tid)) \<le> max 0 (qc_max_concurrent (config tid))))"
  by (simp add: quota_ok_def quota_view_def split: option.splits)

lemma quota_view_core: "core a = core b \<Longrightarrow> quota_view a = quota_view b"
  using core_fields(4) [of a b] by (simp add: quota_view_def)

lemma rate_config [simp]:
  "get_config (snd (check_and_consume_rate a b c q)) = get_config q" "get_config (snd (retry_after a b c q)) = get_config q"
  by (simp_all add: get_config_def check_and_consume_rate_def retry_after_def split_beta Let_def fun_eq_iff)

lemma rate_running [simp]:
  "running (snd (check_and_consume_rate a b c q)) = running q" "running (snd (retry_after a b c q)) = running q"
  by (rule ext, simp)+

lemma quota_view_gate:
  assumes "quota_gate env rt = (out, rt')"
  shows "case quota_view rt of
      None \<Rightarrow> quota_view rt' = None \<and> out = Continue False
    | Some (run, config) \<Rightarrow>
        (if out = Continue True
         then quota_tenant rt \<noteq> [] \<and> int (card (run (quota_tenant rt))) < qc_max_concurrent (config (quota_tenant rt)) \<and>
           quota_view rt' = Some (run(quota_tenant rt := insert (xe_uuid env) (run (quota_tenant rt))), config)
         else quota_view rt' = quota_view rt \<and> (out = Continue False \<longrightarrow> quota_tenant rt = []))"
proof (cases "rt_quota_manager rt")
  case (Some q)
  have r: "check_and_consume_rate a b c q = (ok, q1) \<Longrightarrow> running q1 = running q \<and> get_config q1 = get_config q"
    "retry_after a b c q1 = (s, q2) \<Longrightarrow> running q2 = running q1 \<and> get_config q2 = get_config q1" for a b c ok q1 s q2
    by (metis rate_running rate_config snd_conv)+
  show ?thesis
    using assms Some
    by (auto simp: quota_gate_def quota_view_def Let_def check_concurrent_iff fun_eq_iff dest!: r
        split: prod.splits sum.splits if_splits)
qed (use assms in \<open>simp add: quota_gate_def quota_view_def Let_def\<close>)

lemma quota_view_release:
  "quota_view (task_release t rt) =
     (if tk_quota_acquired t \<and> task_tenant t \<noteq> []
      then map_option (\<lambda>(run, config). (run(task_tenant t := run (task_tenant t) - {task_id t}), config)) (quota_view rt)
      else quota_view rt)"
  by (auto simp: quota_view_def task_release_def fun_eq_iff split: option.splits)

lemma quota_view_frames [simp]:
  "quota_view (rt\<lparr>rt_world := w\<rparr>) = quota_view rt" "quota_view (settled ctx rw rt) = quota_view rt"
  "quota_view (runtime_incr k rt) = quota_view rt" "quota_view (runtime_log lv msg ex rt) = quota_view rt"
  by (auto simp: quota_view_def settled_def isolation_end_def split: option.splits)

lemma quota_view_release_quota:
  "quota_view (release_quota env acq rt) =
     (if acq \<and> quota_tenant rt \<noteq> []
      then map_option (\<lambda>(run, config). (run(quota_tenant rt := run (quota_tenant rt) - {xe_uuid env}), config)) (quota_view rt)
      else quota_view rt)"
  by (auto simp: quota_view_def release_quota_def fun_eq_iff split: option.splits)

lemma quota_view_isolation_gate: "isolation_gate env rt = (out, rt') \<Longrightarrow> quota_view rt' = quota_view rt"
  by (drule isolation_gate_frame(3)) (simp add: quota_view_def)

text \<open>Beginning an execution takes a slot when it is admitted, and none when it is refused.\<close>

lemma quota_view_admit:
  assumes "admit env rt = (out, rt')" "\<forall>run config tid. quota_view rt = Some (run, config) \<longrightarrow> xe_uuid env \<notin> run tid"
  shows "case quota_view rt of
      None \<Rightarrow> quota_view rt' = None
    | Some (run, config) \<Rightarrow>
        (case out of
           Continue acq \<Rightarrow>
             (acq \<longleftrightarrow> quota_tenant rt \<noteq> []) \<and>
             (if acq then int (card (run (quota_tenant rt))) < qc_max_concurrent (config (quota_tenant rt)) \<and>
                quota_view rt' = Some (run(quota_tenant rt := insert (xe_uuid env) (run (quota_tenant rt))), config)
              else quota_view rt' = quota_view rt)
         | _ \<Rightarrow> quota_view rt' = quota_view rt)"
  using assms(1)
proof (cases rule: admit_cases)
  case (isolation out')
  then show ?thesis using quota_view_isolation_gate [OF isolation(1)] by (auto split: option.splits outcome.splits)
next
  case (quota rt1 out')
  have "quota_tenant rt1 = quota_tenant rt" by (rule quota_tenant_setup [OF isolation_gate_frame(1) [OF quota(1)]])
  then show ?thesis
    using quota_view_isolation_gate [OF quota(1)] quota_view_gate [OF quota(2)] quota(3,4)
    by (auto split: option.splits outcome.splits if_splits)
next
  case (closed rt1 rt2 q msg r)
  have t: "quota_tenant rt1 = quota_tenant rt" "quota_tenant rt2 = quota_tenant rt"
    using quota_tenant_setup [OF isolation_gate_frame(1) [OF closed(1)]]
      quota_tenant_setup [OF quota_gate_frame(1) [OF closed(2)]] by simp_all
  have "run(x := insert e (run x), x := insert e (run x) - {e}) = run" if "e \<notin> run x" for run :: "string \<Rightarrow> string set" and x e
    using that by auto
  then show ?thesis
    using quota_view_isolation_gate [OF closed(1)] quota_view_gate [OF closed(2)] closed(4,6) t assms(2)
    by (cases q) (auto simp: quota_view_release_quota split: option.splits)
next
  case (admitted rt1 q)
  have "quota_tenant rt1 = quota_tenant rt" by (rule quota_tenant_setup [OF isolation_gate_frame(1) [OF admitted(1)]])
  then show ?thesis
    using quota_view_isolation_gate [OF admitted(1)] quota_view_gate [OF admitted(2)] admitted(4)
    by (cases q) (auto split: option.splits)
qed

lemma task_tenant_same: "same_task t t' \<Longrightarrow> task_tenant t' = task_tenant t"
  by (simp add: same_task_def task_tenant_def)

lemma arrival_cases:
  assumes "arrival p p'"
  obtains (entered) env t q rt where "admit env (pr_runtime p) = (Continue q, rt)" "core (pr_runtime p') = core rt"
      "pr_tasks p' = pr_tasks p @ [t]" "task_id t = xe_uuid env" "tk_tenant_ctx t = rt_tenant_context (pr_runtime p)"
      "tk_quota_acquired t = q" "tk_at t = AtPolicy" "fresh_id env p" "pr_finished p' = pr_finished p" "pr_cancelled p' = pr_cancelled p"
    | (turned_away) env out where "admit env (pr_runtime p) = (out, pr_runtime p')" "\<forall>q. out \<noteq> Continue q"
      "pr_tasks p' = pr_tasks p" "fresh_id env p" "\<forall>eid r. (eid, Inr r) \<in> set (pr_finished p') \<longrightarrow> er_success r \<longrightarrow> (eid, Inr r) \<in> set (pr_finished p)"
      "pr_cancelled p' = pr_cancelled p"
  using assms
proof (cases rule: arrival.cases)
  case (admitted env intent t rt)
  obtain n where "pending (pr_runtime p) n" using pending_ex by blast
  from begin_waits [OF admitted(2) this] obtain q rt1 where "admit env (pr_runtime p) = (Continue q, rt1)" "core rt = core rt1"
      "tk_env t = env" "tk_tenant_ctx t = rt_tenant_context (pr_runtime p)" "tk_quota_acquired t = q" "tk_at t = AtPolicy"
    by blast
  then show thesis using admitted by (intro entered [of env q rt1 t]) simp_all
next
  case (refused env intent r rt)
  then show thesis
    using begin_ends [OF refused(2)] admit_returned by (elim disjE exE conjE; intro turned_away) auto
qed

lemma arrival_tenant: "tk_tenant_ctx t = rt_tenant_context rt \<Longrightarrow> task_tenant t = quota_tenant rt"
  by (simp add: task_tenant_def quota_tenant_def)

lemma fresh_not_running:
  assumes "quota_ok p" "fresh_id env p"
  shows "\<forall>run config tid. quota_view (pr_runtime p) = Some (run, config) \<longrightarrow> xe_uuid env \<notin> run tid"
proof (intro allI impI)
  fix run config tid
  assume "quota_view (pr_runtime p) = Some (run, config)"
  then have "run tid \<subseteq> task_id ` set (holders p)"
    using assms(1) by (cases "tid = []") (auto simp: quota_ok_view held_by_def holders_def)
  then show "xe_uuid env \<notin> run tid" using assms(2) by (auto simp: fresh_id_def)
qed

lemma quota_ok_arrival:
  assumes "arrival p p'" "quota_ok p"
  shows "quota_ok p'"
proof -
  from assms(1) show ?thesis
  proof (cases rule: arrival_cases)
    case (turned_away env out)
    then show ?thesis
      using quota_view_admit [OF turned_away(1) fresh_not_running [OF assms(2) turned_away(4)]] assms(2)
      by (cases out) (auto simp: quota_ok_view held_by_def holders_def split: option.splits)
  next
    case (entered env t q rt)
    note v = quota_view_admit [OF entered(1) fresh_not_running [OF assms(2) entered(8)]] quota_view_core [OF entered(2)]
    show ?thesis
    proof (cases "quota_view (pr_runtime p)")
      case None
      then show ?thesis using v by (simp add: quota_ok_view)
    next
      case (Some rc)
      obtain run config where rc: "quota_view (pr_runtime p) = Some (run, config)" using Some by (cases rc) auto
      have tenant: "task_tenant t = quota_tenant (pr_runtime p)" by (rule arrival_tenant [OF entered(5)])
      have old: "\<forall>t \<in> set (holders p). tk_quota_acquired t \<longleftrightarrow> task_tenant t \<noteq> []"
          "\<And>tid. tid \<noteq> [] \<Longrightarrow> run tid = task_id ` set (held_by p tid)" "run [] = {}"
          "\<And>tid. int (card (run tid)) \<le> max 0 (qc_max_concurrent (config tid))"
        using assms(2) rc by (simp_all add: quota_ok_view)
      show ?thesis
      proof (cases "quota_tenant (pr_runtime p) = []")
        case True
        then have "quota_view (pr_runtime p') = Some (run, config)" "\<not> tk_quota_acquired t" using v rc entered(6) by simp_all
        then show ?thesis using old True tenant by (simp add: quota_ok_view held_by_def holders_def entered(3,10))
      next
        case False
        let ?tn = "quota_tenant (pr_runtime p)"
        have new: "quota_view (pr_runtime p') = Some (run(?tn := insert (xe_uuid env) (run ?tn)), config)" "tk_quota_acquired t"
            "int (card (run ?tn)) < qc_max_concurrent (config ?tn)"
          using v rc entered(6) False by simp_all
        have "finite (run ?tn)" using old(2) [OF False] by simp
        then have "int (card (insert (xe_uuid env) (run ?tn))) \<le> max 0 (qc_max_concurrent (config ?tn))"
          using new(3) by (simp add: card_insert_if)
        then show ?thesis using old False tenant new(1,2) by (simp add: quota_ok_view held_by_def holders_def entered(3,4,10))
      qed
    qed
  qed
qed

lemma quota_ok_resumption:
  assumes "resumption abi p p'" "tasks_ok p" "quota_ok p"
  shows "quota_ok p'"
  using assms(1,2)
proof (cases rule: resumption_cases)
  case (waiting ts t us t' w pc)
  have "quota_view (pr_runtime p') = quota_view (pr_runtime p)" using quota_view_core [OF waiting(7)] by simp
  moreover have "task_id ` set (held_by p' tid) = task_id ` set (held_by p tid)" for tid
    using waiting(3) task_tenant_same [OF waiting(3)] by (auto simp: held_by_def holders_def waiting(1,2,10) same_task_def)
  moreover have "(\<forall>t \<in> set (holders p'). tk_quota_acquired t \<longleftrightarrow> task_tenant t \<noteq> []) \<longleftrightarrow>
      (\<forall>t \<in> set (holders p). tk_quota_acquired t \<longleftrightarrow> task_tenant t \<noteq> [])"
    using waiting(3) task_tenant_same [OF waiting(3)] by (simp add: holders_def waiting(1,2,10) same_task_def)
  ultimately show ?thesis using assms(3) by (simp only: quota_ok_view)
next
  case (ending ts t us res w)
  show ?thesis
  proof (cases "quota_view (pr_runtime p)")
    case None
    then show ?thesis using quota_view_core [OF ending(4)] by (simp add: quota_ok_view quota_view_release)
  next
    case (Some rc)
    obtain run config where rc: "quota_view (pr_runtime p) = Some (run, config)" using Some by (cases rc) auto
    have old: "\<forall>t \<in> set (holders p). tk_quota_acquired t \<longleftrightarrow> task_tenant t \<noteq> []"
        "\<And>tid. tid \<noteq> [] \<Longrightarrow> run tid = task_id ` set (held_by p tid)" "run [] = {}"
        "\<And>tid. int (card (run tid)) \<le> max 0 (qc_max_concurrent (config tid))"
      using assms(3) rc by (simp_all add: quota_ok_view)
    have acq: "tk_quota_acquired t \<longleftrightarrow> task_tenant t \<noteq> []" using old(1) ending(1) by (simp add: holders_def)
    have others: "\<forall>x \<in> set ts \<union> set us \<union> set (pr_cancelled p). task_id x \<noteq> task_id t"
    proof -
      have "task_id t \<notin> task_id ` (set ts \<union> set us \<union> set (pr_cancelled p))"
        using assms(2) by (auto simp: tasks_ok_def holders_def ending(1))
      then show ?thesis by (metis image_eqI)
    qed
    have view: "quota_view (pr_runtime p') =
        (if task_tenant t \<noteq> [] then Some (run(task_tenant t := run (task_tenant t) - {task_id t}), config) else Some (run, config))"
      using quota_view_core [OF ending(4)] rc acq by (simp add: quota_view_release)
    have ids: "task_id ` set (held_by p' tid) =
        (if tid = task_tenant t then run tid - {task_id t} else run tid)" if "tid \<noteq> []" for tid
      using others old(2) [OF that, unfolded held_by_def holders_def ending(1)] by (auto simp: held_by_def holders_def ending(2,7))
    have "card (run x - {e}) \<le> card (run x)" for x e
      by (cases "finite (run x)") (simp_all add: card_mono)
    then have "int (card (run x - {e})) \<le> max 0 (qc_max_concurrent (config x))" for x e
      using old(4) [of x] by (meson of_nat_mono order_trans)
    moreover have "\<forall>t \<in> set (holders p'). tk_quota_acquired t \<longleftrightarrow> task_tenant t \<noteq> []"
      using old(1) by (simp add: holders_def ending(1,2,7) ball_Un)
    ultimately show ?thesis using old(3,4) ids by (auto simp: quota_ok_view view)
  qed
qed

lemma quota_ok_step:
  assumes "process_step abi p p'" "tasks_ok p" "quota_ok p"
  shows "quota_ok p'"
  using assms
proof (induction rule: process_step.induct)
  case (cancels p p')
  then show ?case
    using cancellation_frame(7,8) [OF cancels(1)] cancellation_sets [OF cancels(1)] by (simp add: quota_ok_def split: option.splits)
next
  case (outside p rt)
  then show ?case using outside_frame [OF outside(1)] by (simp add: quota_ok_def held_by_def holders_def split: option.splits)
qed (blast intro: quota_ok_arrival quota_ok_resumption)+

section \<open>Isolation slots\<close>

text \<open>
  The boundary counts at least the executions in flight or cancelled (failed ones keep their slot, too), and never more than
  the tenant's limit.
\<close>

definition slots_ok :: "'w process \<Rightarrow> bool" where
  "slots_ok p \<longleftrightarrow> (\<forall>b. rt_isolation (pr_runtime p) = Some b \<longrightarrow>
     (\<forall>t \<in> set (holders p). tk_tenant_ctx t \<noteq> None) \<and>
     (\<forall>tid. int (length (held_by p tid)) \<le> active_count b tid \<and>
        (\<forall>tn. dict_get (ib_tenants b) tid = Some tn \<longrightarrow>
           active_count b tid \<le> max 0 (rl_max_concurrent_executions (tm_resource_limits tn)))))"

lemma admit_isolation:
  assumes "admit env rt = (out, rt')" "rt_isolation rt = Some b"
  shows "rt_isolation rt' = Some b \<and> (\<forall>q. out \<noteq> Continue q) \<or>
    (\<exists>c. rt_tenant_context rt = Some c \<and> check_resource_limits b (tc_tenant_id c) = Inr () \<and>
       rt_isolation rt' = Some (Isolation_start_execution (tc_tenant_id c) b))"
proof (cases "rt_tenant_context rt")
  case None
  then show ?thesis using assms by (auto simp: admit_def isolation_gate_def)
next
  case (Some c)
  show ?thesis
  proof (cases "check_resource_limits b (tc_tenant_id c)")
    case (Inl e)
    then show ?thesis using assms Some by (auto simp: admit_def isolation_gate_def)
  next
    case (Inr u)
    then show ?thesis using active_admit [OF assms Some] Some by simp
  qed
qed

lemma isolation_None_admit: "admit env rt = (out, rt') \<Longrightarrow> rt_isolation rt = None \<Longrightarrow> rt_isolation rt' = None"
  using admit_frame by (fastforce simp: same_setup_def)

lemma slots_ok_arrival:
  assumes "arrival p p'" "slots_ok p"
  shows "slots_ok p'"
proof (cases "rt_isolation (pr_runtime p)")
  case None
  from assms(1) have "rt_isolation (pr_runtime p') = None"
  proof (cases rule: arrival_cases)
    case (entered env t q rt)
    then show ?thesis using isolation_None_admit [OF entered(1) None] core_fields(1) [OF entered(2)] by simp
  next
    case (turned_away env out)
    then show ?thesis using isolation_None_admit [OF turned_away(1) None] by simp
  qed
  then show ?thesis by (simp add: slots_ok_def)
next
  case (Some b)
  have old: "\<forall>t \<in> set (holders p). tk_tenant_ctx t \<noteq> None" "\<And>tid. int (length (held_by p tid)) \<le> active_count b tid"
      "\<And>tid tn. dict_get (ib_tenants b) tid = Some tn \<Longrightarrow> active_count b tid \<le> max 0 (rl_max_concurrent_executions (tm_resource_limits tn))"
    using assms(2) Some by (auto simp: slots_ok_def)
  have started: "active_count (Isolation_start_execution x b) tid \<le> max 0 (rl_max_concurrent_executions (tm_resource_limits tn))"
    if "check_resource_limits b x = Inr ()" "dict_get (ib_tenants b) tid = Some tn" for x tid tn
    using that old(3) [OF that(2)] by (auto simp: check_resource_limits_ok active_count_start)
  from assms(1) show ?thesis
  proof (cases rule: arrival_cases)
    case (entered env t q rt)
    from admit_isolation [OF entered(1) Some] core_fields(1) [OF entered(2)] obtain c where
      c: "rt_tenant_context (pr_runtime p) = Some c" "check_resource_limits b (tc_tenant_id c) = Inr ()"
        "rt_isolation (pr_runtime p') = Some (Isolation_start_execution (tc_tenant_id c) b)" by auto
    have "task_tenant t = tc_tenant_id c" "tk_tenant_ctx t \<noteq> None" using c(1) entered(5) by (simp_all add: task_tenant_def)
    then show ?thesis
      using old(1,2) started [OF c(2)] c(3) by (simp add: slots_ok_def held_by_def holders_def entered(3,10) active_count_start)
  next
    case (turned_away env out)
    from admit_isolation [OF turned_away(1) Some] show ?thesis
    proof (elim disjE exE conjE)
      fix c
      assume c: "check_resource_limits b (tc_tenant_id c) = Inr ()"
        "rt_isolation (pr_runtime p') = Some (Isolation_start_execution (tc_tenant_id c) b)"
      then show ?thesis
        using old(1,2) started [OF c(1)] by (simp add: slots_ok_def held_by_def holders_def turned_away(3,6) active_count_start add_increasing2)
    qed (use old in \<open>simp add: slots_ok_def held_by_def holders_def turned_away(3,6)\<close>)
  qed
qed

lemma release_isolation [simp]: "rt_isolation (task_release t rt) = rt_isolation rt"
  by (simp add: task_release_def split: option.splits)

lemma slots_ok_resumption:
  assumes "resumption abi p p'" "tasks_ok p" "slots_ok p"
  shows "slots_ok p'"
  using assms(1,2)
proof (cases rule: resumption_cases)
  case (waiting ts t us t' w pc)
  have "rt_isolation (pr_runtime p') = rt_isolation (pr_runtime p)" using core_fields(1) [OF waiting(7)] by simp
  moreover have "length (held_by p' tid) = length (held_by p tid)" for tid
    using task_tenant_same [OF waiting(3)] by (simp add: held_by_def holders_def waiting(1,2,10))
  moreover have "(\<forall>t \<in> set (holders p'). tk_tenant_ctx t \<noteq> None) \<longleftrightarrow> (\<forall>t \<in> set (holders p). tk_tenant_ctx t \<noteq> None)"
    using waiting(3) by (simp add: holders_def waiting(1,2,10) same_task_def)
  ultimately show ?thesis using assms(3) by (simp only: slots_ok_def)
next
  case (ending ts t us res w)
  have iso: "rt_isolation (pr_runtime p') =
      (if er_success res then rt_isolation (isolation_end (tk_tenant_ctx t) (pr_runtime p)) else rt_isolation (pr_runtime p))"
    using core_fields(1) [OF ending(4)] by (simp add: settled_def isolation_end_def split: option.splits)
  have len: "length (held_by p tid) = length (held_by p' tid) + (if task_tenant t = tid then 1 else 0)" for tid
    by (simp add: held_by_def holders_def ending(1,2,7))
  show ?thesis
  proof (cases "rt_isolation (pr_runtime p)")
    case None
    then show ?thesis using iso by (auto simp: slots_ok_def isolation_end_def split: if_splits)
  next
    case (Some b)
    have old: "\<forall>t \<in> set (holders p). tk_tenant_ctx t \<noteq> None" "\<And>tid. int (length (held_by p tid)) \<le> active_count b tid"
        "\<And>tid tn. dict_get (ib_tenants b) tid = Some tn \<Longrightarrow> active_count b tid \<le> max 0 (rl_max_concurrent_executions (tm_resource_limits tn))"
      using assms(3) Some by (auto simp: slots_ok_def)
    obtain c where c: "tk_tenant_ctx t = Some c" using old(1) ending(1) by (auto simp: holders_def)
    have tid: "task_tenant t = tc_tenant_id c" using c by (simp add: task_tenant_def)
    define b' where "b' = (if er_success res then Isolation_end_execution (tc_tenant_id c) b else b)"
    have b': "rt_isolation (pr_runtime p') = Some b'" "ib_tenants b' = ib_tenants b"
      using iso Some c by (simp_all add: b'_def isolation_end_def)
    have count: "active_count b' x = (if er_success res \<and> x = task_tenant t then max 0 (active_count b x - 1) else active_count b x)" for x
      by (simp add: b'_def active_count_end tid)
    have "int (length (held_by p' x)) \<le> active_count b' x" for x
      using old(2) [of x] len [of x] by (auto simp: count)
    moreover have "active_count b' x \<le> max 0 (rl_max_concurrent_executions (tm_resource_limits tn))"
      if "dict_get (ib_tenants b) x = Some tn" for x tn
      using old(3) [OF that] by (auto simp: count)
    moreover have "\<forall>t \<in> set (holders p'). tk_tenant_ctx t \<noteq> None"
      using old(1) by (simp add: holders_def ending(1,2,7) ball_Un)
    ultimately show ?thesis using b' by (simp add: slots_ok_def)
  qed
qed

lemma slots_ok_step:
  assumes "process_step abi p p'" "tasks_ok p" "slots_ok p"
  shows "slots_ok p'"
  using assms
proof (induction rule: process_step.induct)
  case (cancels p p')
  then show ?case
    using cancellation_frame(7,8) [OF cancels(1)] cancellation_sets [OF cancels(1)] by (simp add: slots_ok_def)
next
  case (outside p rt)
  then show ?case using outside_frame [OF outside(1)] by (simp add: slots_ok_def held_by_def holders_def)
qed (blast intro: slots_ok_arrival slots_ok_resumption)+

text \<open>A runtime nothing has been executed on.\<close>

definition idle :: "'w runtime \<Rightarrow> bool" where
  "idle rt \<longleftrightarrow> (\<forall>q. rt_quota_manager rt = Some q \<longrightarrow> qm_concurrent q = []) \<and>
     (\<forall>b. rt_isolation rt = Some b \<longrightarrow> ib_execution_counts b = []) \<and>
     (\<forall>m. rt_metrics rt = Some m \<longrightarrow> mr_counters m = [])"

lemma idle_pending: "idle rt \<Longrightarrow> pending rt 0"
  by (simp add: idle_def pending_def get_counter_def dict_get_or_def)

lemma process_invariants:
  assumes "(process_step abi)\<^sup>*\<^sup>* (process_init rt) p" "idle rt"
  shows "tasks_ok p \<and> quota_ok p \<and> slots_ok p"
  using assms(1)
proof (induction rule: rtranclp_induct)
  case base
  have "quota_ok (process_init rt)" "slots_ok (process_init rt)"
    using assms(2)
    by (auto simp: idle_def quota_ok_def slots_ok_def process_init_def held_by_def holders_def running_def active_count_def dict_get_or_def
        dict_get_def split: option.splits)
  then show ?case using tasks_ok_init [OF idle_pending [OF assms(2)]] by simp
next
  case (step p p')
  then show ?case by (blast intro: tasks_ok_step quota_ok_step slots_ok_step)
qed

lemma held_by_card: "tasks_ok p \<Longrightarrow> card (task_id ` set (held_by p tid)) = length (held_by p tid)"
proof -
  assume "tasks_ok p"
  then have "distinct (map task_id (held_by p tid))"
    unfolding held_by_def by (intro distinct_map_filter) (simp add: tasks_ok_def)
  then show ?thesis by (metis distinct_card length_map set_map)
qed

section \<open>What is cancelled stays\<close>

lemma cancelled_stay_step: "process_step abi p p' \<Longrightarrow> \<exists>ts. pr_cancelled p' = pr_cancelled p @ ts"
proof (induction rule: process_step.induct)
  case (arrives p p')
  then show ?case by (cases rule: arrival.cases) simp_all
next
  case (resumes p p')
  then show ?case by (cases rule: resumption.cases) simp_all
next
  case (cancels p p')
  then show ?case by (cases rule: cancellation.cases) simp
qed simp

lemma cancelled_stay: "(process_step abi)\<^sup>*\<^sup>* p p' \<Longrightarrow> \<exists>ts. pr_cancelled p' = pr_cancelled p @ ts"
proof (induction rule: rtranclp_induct)
  case (step p' p'')
  then show ?case using cancelled_stay_step [OF step(2)] by auto
qed simp

lemma arrival_refused:
  assumes "arrival p p'" "pr_tasks p' = pr_tasks p"
  shows "\<exists>eid r. pr_finished p' = pr_finished p @ [(eid, r)] \<and> (\<forall>res. r = Inr res \<longrightarrow> \<not> er_success res)"
  using assms(1)
proof (cases rule: arrival.cases)
  case (refused env intent r rt)
  then show ?thesis using begin_ends [OF refused(2)] by (auto dest: admit_returned)
qed (use assms(2) in simp)

section \<open>Draining\<close>

text \<open>The calls that the executions in flight may still make.\<close>

definition work :: "'w process \<Rightarrow> nat" where
  "work p = (\<Sum>t\<leftarrow>pr_tasks p. calls_left (tk_at t))"

lemma work_none: "work p = 0 \<longleftrightarrow> pr_tasks p = []"
proof -
  have "calls_left pc \<noteq> 0" for pc by (cases pc) simp_all
  then show ?thesis by (cases "pr_tasks p") (simp_all add: work_def)
qed

lemma resumption_work: "resumption abi p p' \<Longrightarrow> tasks_ok p \<Longrightarrow> work p' < work p"
proof (cases rule: resumption_cases, assumption, assumption)
  fix ts t us res w
  assume "pr_tasks p = ts @ t # us" "pr_tasks p' = ts @ us"
  then show "work p' < work p" by (cases "tk_at t") (simp_all add: work_def)
qed (auto simp: work_def dest: chain_call_advances)

lemma cancellation_work: "cancellation p p' \<Longrightarrow> work p' < work p"
proof (induction rule: cancellation.induct)
  case (cancelled p ts t us w)
  then show ?case by (cases "tk_at t") (simp_all add: work_def)
qed

lemma closed_arrival:
  assumes "arrival p p'" "rt_state (pr_runtime p) \<noteq> RS_RUNNING"
  shows "pr_tasks p' = pr_tasks p \<and> rt_state (pr_runtime p') = rt_state (pr_runtime p)"
  using assms(1)
proof (cases rule: arrival_cases)
  case (entered env t q rt)
  then show ?thesis using closed_not_admitted [OF assms(2) entered(1)] by simp
next
  case (turned_away env out)
  then show ?thesis using admit_frame [OF turned_away(1)] by (simp add: same_setup_def)
qed

lemma resumption_state: "resumption abi p p' \<Longrightarrow> tasks_ok p \<Longrightarrow> rt_state (pr_runtime p') = rt_state (pr_runtime p)"
proof (cases rule: resumption_cases, assumption, assumption)
  fix ts t us res w
  assume "core (pr_runtime p') = core (task_release t (settled (tk_tenant_ctx t) (res, w) (pr_runtime p)))"
  from core_fields(3) [OF this] show "rt_state (pr_runtime p') = rt_state (pr_runtime p)"
    by (simp add: task_release_def settled_def isolation_end_def split: option.splits)
qed (auto dest: core_fields(3))

lemma drained_step:
  assumes "process_step abi p p'" "tasks_ok p" "rt_state (pr_runtime p) \<noteq> RS_RUNNING"
  shows "tasks_ok p' \<and> rt_state (pr_runtime p') \<noteq> RS_RUNNING \<and> work p' \<le> work p"
  using assms
proof (cases rule: process_step.cases)
  case arrives
  then show ?thesis using closed_arrival [OF _ assms(3)] tasks_ok_step [OF assms(1,2)] assms(3) by (simp add: work_def)
next
  case resumes
  then show ?thesis
    using resumption_work [OF _ assms(2)] resumption_state [OF _ assms(2)] tasks_ok_step [OF assms(1,2)] assms(3) by force
next
  case cancels
  then show ?thesis
    using cancellation_work [OF cancels] cancellation_frame(6) [OF cancels] tasks_ok_step [OF assms(1,2)] assms(3) by simp
next
  case (outside rt)
  then have "rt_state (pr_runtime p) \<le> rt_state rt" using outside_frame by blast
  then have "rt_state rt \<noteq> RS_RUNNING" using assms(3) by (cases "rt_state (pr_runtime p)") (auto simp: less_eq_RuntimeState_def)
  then show ?thesis using outside tasks_ok_step [OF assms(1,2)] by (simp add: work_def)
qed

lemma task_can_go_on:
  assumes "pr_tasks p \<noteq> []"
  shows "\<exists>p'. resumption abi p p'"
proof -
  obtain t us where tasks: "pr_tasks p = [] @ t # us" using assms by (cases "pr_tasks p") auto
  obtain a rt where "resume abi t (pr_runtime p) = (a, rt)" by fastforce
  then show ?thesis using tasks by (cases a) (blast intro: resumption.intros)+
qed

end
