(* ===== verification/Concurrent_Properties.thy ===== *)
theory Concurrent_Properties
  imports Concurrent_Runtime
begin

text \<open>
  What interleaved executions guarantee: runs of a process and the instants a successful execution has behind it,
  the steps as functions for concrete runs, and the properties.
\<close>

section \<open>Evidence\<close>

text \<open>
  A run is the list of the process's states so far. What a task has behind it when it waits for a call: the
  instants at which the earlier calls granted the intent.
\<close>

inductive process_run :: "'w abi \<Rightarrow> 'w process \<Rightarrow> 'w process list \<Rightarrow> bool" for abi p where
  start: "process_run abi p [p]"
| step: "process_run abi p ps \<Longrightarrow> process_step abi (last ps) q \<Longrightarrow> process_run abi p (ps @ [q])"

lemma process_run_steps: "process_run abi p ps \<Longrightarrow> (process_step abi)\<^sup>*\<^sup>* p (last ps)"
  by (induction rule: process_run.induct) auto

definition worlds :: "'w process list \<Rightarrow> 'w list" where
  "worlds ps = map (\<lambda>p. rt_world (pr_runtime p)) ps"

primrec granted :: "'w abi \<Rightarrow> Intent \<Rightarrow> resume_point \<Rightarrow> 'w list \<Rightarrow> bool" where
  "granted abi intent AtPolicy vs \<longleftrightarrow> vs = []"
| "granted abi intent AtCapability vs \<longleftrightarrow>
     (\<exists>w1 reason. vs = [w1] \<and> fst (evaluate_intent abi intent w1) = Inr (True, reason))"
| "granted abi intent AtRouting vs \<longleftrightarrow>
     (\<exists>w1 w2 reason1 reason2. vs = [w1, w2] \<and> fst (evaluate_intent abi intent w1) = Inr (True, reason1) \<and>
        fst (check_capability abi (in_action intent) (in_agent_id intent) w2) = Inr (True, reason2))"
| "granted abi intent (AtGateway path) vs \<longleftrightarrow>
     (\<exists>w1 w2 w3 reason1 reason2. vs = [w1, w2, w3] \<and> fst (evaluate_intent abi intent w1) = Inr (True, reason1) \<and>
        fst (check_capability abi (in_action intent) (in_agent_id intent) w2) = Inr (True, reason2) \<and>
        fst (route_intent abi intent w3) = Inr path)"
| "granted abi intent (AtCheckpoint tr) vs \<longleftrightarrow>
     (\<exists>w1 w2 w3 w4 reason1 reason2 path. vs = [w1, w2, w3, w4] \<and> fst (evaluate_intent abi intent w1) = Inr (True, reason1) \<and>
        fst (check_capability abi (in_action intent) (in_agent_id intent) w2) = Inr (True, reason2) \<and>
        fst (route_intent abi intent w3) = Inr path \<and> fst (access_tool abi path intent w4) = Inr tr \<and> tl_success tr)"

lemma policy_call_goes:
  assumes "chain_call abi env intent ctx AtPolicy w = (Inr pc, w')"
  shows "pc = AtCapability \<and> (\<exists>reason. fst (evaluate_intent abi intent w) = Inr (True, reason))"
  using assms by (auto split: prod.splits sum.splits if_splits)

lemma capability_call_goes:
  assumes "chain_call abi env intent ctx AtCapability w = (Inr pc, w')"
  shows "pc = AtRouting \<and> (\<exists>reason. fst (check_capability abi (in_action intent) (in_agent_id intent) w) = Inr (True, reason))"
  using assms by (auto split: prod.splits sum.splits if_splits)

lemma routing_call_goes:
  assumes "chain_call abi env intent ctx AtRouting w = (Inr pc, w')"
  shows "\<exists>path. pc = AtGateway path \<and> fst (route_intent abi intent w) = Inr path"
  using assms by (auto split: prod.splits sum.splits)

lemma gateway_call_goes:
  assumes "chain_call abi env intent ctx (AtGateway path) w = (Inr pc, w')"
  shows "\<exists>tr. pc = AtCheckpoint tr \<and> fst (access_tool abi path intent w) = Inr tr \<and> tl_success tr"
  using assms by (auto split: prod.splits sum.splits if_splits)

lemma granted_next:
  assumes "granted abi intent pc vs" "chain_call abi env intent ctx pc w = (Inr pc', w')"
  shows "granted abi intent pc' (vs @ [w])"
proof (cases pc)
  case AtPolicy
  then show ?thesis using assms(1) policy_call_goes [OF assms(2) [unfolded AtPolicy]] by auto
next
  case AtCapability
  then show ?thesis using assms(1) capability_call_goes [OF assms(2) [unfolded AtCapability]] by auto
next
  case AtRouting
  then show ?thesis using assms(1) routing_call_goes [OF assms(2) [unfolded AtRouting]] by auto
next
  case (AtGateway path)
  then show ?thesis using assms(1) gateway_call_goes [OF assms(2) [unfolded AtGateway]] by auto
next
  case (AtCheckpoint tr)
  then show ?thesis using assms(2) by (simp split: prod.splits)
qed

text \<open>A successful execution: the five instants and the one that the save leads to, in their order, and the result.\<close>

definition governed :: "'w abi \<Rightarrow> 'w process list \<Rightarrow> string \<Rightarrow> ExecutionResult \<Rightarrow> bool" where
  "governed abi ps eid res \<longleftrightarrow>
     (\<exists>p t tr cid vs w w'. p \<in> set ps \<and> t \<in> set (pr_tasks p) \<and> task_id t = eid \<and>
        granted abi (tk_intent t) (AtCheckpoint tr) vs \<and> subseq (vs @ [w, w']) (worlds ps) \<and>
        persist_save abi eid (checkpoint_state (tk_env t) (tk_intent t) (tk_tenant_ctx t) tr) w = (Inr cid, w') \<and>
        er_execution_id res = eid \<and> er_checkpoint_id res = Some cid \<and> er_data res = tl_data tr)"

lemma subseq_extend:
  assumes "subseq vs (butlast ws)" "ws \<noteq> []"
  shows "subseq (vs @ [last ws]) ws"
proof -
  have "subseq (vs @ [last ws]) (butlast ws @ [last ws])"
    using assms(1) by (rule list_emb_append_mono) simp
  then show ?thesis using assms(2) by simp
qed

lemma subseq_longer: "subseq vs ws \<Longrightarrow> subseq vs (ws @ us)"
  using list_emb_append_mono [of "(=)" vs ws "[]" us] by simp

lemma governed_mono: "governed abi ps eid res \<Longrightarrow> governed abi (ps @ qs) eid res"
  unfolding governed_def worlds_def map_append set_append by (blast intro: subseq_longer)

lemma ending_governed:
  assumes "chain_call abi (tk_env t) (tk_intent t) (tk_tenant_ctx t) (tk_at t) w = (Inl res, w')" "er_success res"
    and "granted abi (tk_intent t) (tk_at t) vs" "subseq (vs @ [w, w']) (worlds ps)" "p \<in> set ps" "t \<in> set (pr_tasks p)"
  shows "governed abi ps (task_id t) res"
proof (cases "tk_at t")
  case (AtCheckpoint tr)
  have "chain_persist abi (tk_env t) (tk_intent t) (tk_tenant_ctx t) tr w = (res, w')"
    using assms(1) by (simp add: AtCheckpoint split: prod.splits)
  then obtain cid where
      "persist_save abi (task_id t) (checkpoint_state (tk_env t) (tk_intent t) (tk_tenant_ctx t) tr) w = (Inr cid, w')"
      "er_execution_id res = task_id t" "er_checkpoint_id res = Some cid" "er_data res = tl_data tr"
    using assms(2) by (auto simp: chain_persist_def split: prod.splits sum.splits)
  then show ?thesis using assms(3-6) unfolding AtCheckpoint governed_def by blast
qed (use assms(1,2) in \<open>auto split: prod.splits sum.splits if_splits\<close>)

definition run_ok :: "'w abi \<Rightarrow> 'w process list \<Rightarrow> bool" where
  "run_ok abi ps \<longleftrightarrow> ps \<noteq> [] \<and> tasks_ok (last ps) \<and>
     (\<forall>t \<in> set (pr_tasks (last ps)). \<exists>vs. granted abi (tk_intent t) (tk_at t) vs \<and> subseq vs (butlast (worlds ps))) \<and>
     (\<forall>eid res. (eid, Inr res) \<in> set (pr_finished (last ps)) \<longrightarrow> er_success res \<longrightarrow> governed abi ps eid res)"

lemma run_ok_step:
  assumes "run_ok abi ps" "process_step abi (last ps) q"
  shows "run_ok abi (ps @ [q])"
proof -
  define p where "p = last ps"
  have old: "ps \<noteq> []" "tasks_ok p"
      "\<And>t. t \<in> set (pr_tasks p) \<Longrightarrow> \<exists>vs. granted abi (tk_intent t) (tk_at t) vs \<and> subseq vs (butlast (worlds ps))"
      "\<And>eid res. (eid, Inr res) \<in> set (pr_finished p) \<Longrightarrow> er_success res \<Longrightarrow> governed abi ps eid res"
    using assms(1) by (auto simp: run_ok_def p_def)
  have now: "worlds ps \<noteq> []" "last (worlds ps) = rt_world (pr_runtime p)" "butlast (worlds (ps @ [q])) = worlds ps"
    using old(1) by (simp_all add: worlds_def p_def last_map)
  have kept: "\<exists>vs. granted abi (tk_intent t) (tk_at t) vs \<and> subseq vs (worlds ps)" if t: "t \<in> set (pr_tasks p)" for t
  proof -
    obtain vs where "granted abi (tk_intent t) (tk_at t) vs" "subseq vs (butlast (worlds ps))" using old(3) [OF t] by blast
    then show ?thesis using subseq_longer [of vs "butlast (worlds ps)" "[last (worlds ps)]"] now(1) by auto
  qed
  have longer: "governed abi (ps @ [q]) eid res" if "governed abi ps eid res" for eid res
    using that by (rule governed_mono)
  have call: "subseq (vs @ [rt_world (pr_runtime p)]) (worlds ps)" if "subseq vs (butlast (worlds ps))" for vs
    using subseq_extend [OF that now(1)] by (simp add: now(2))
  have ok: "tasks_ok q" using tasks_ok_step assms(2) old(2) p_def by blast
  have "(\<forall>t \<in> set (pr_tasks q). \<exists>vs. granted abi (tk_intent t) (tk_at t) vs \<and> subseq vs (worlds ps)) \<and>
      (\<forall>eid res. (eid, Inr res) \<in> set (pr_finished q) \<longrightarrow> er_success res \<longrightarrow> governed abi (ps @ [q]) eid res)"
    using assms(2) unfolding p_def [symmetric]
  proof (cases rule: process_step.cases)
    case arrives
    then show ?thesis
    proof (cases rule: arrival_cases)
      case (entered env t acq rt)
      then show ?thesis using kept old(4) longer by auto
    next
      case (turned_away env out)
      have "governed abi (ps @ [q]) eid res" if "(eid, Inr res) \<in> set (pr_finished q)" "er_success res" for eid res
        using that turned_away(5) old(4) longer by blast
      then show ?thesis using kept turned_away(3) by simp
    qed
  next
    case resumes
    then show ?thesis using old(2)
    proof (cases rule: resumption_cases)
      case (waiting ts t us t' w pc)
      obtain vs where vs: "granted abi (tk_intent t) (tk_at t) vs" "subseq vs (butlast (worlds ps))"
        using old(3) [of t] waiting(1) by auto
      have "granted abi (tk_intent t') (tk_at t') (vs @ [rt_world (pr_runtime p)])"
        using granted_next [OF vs(1) waiting(5)] waiting(3,6) by (simp add: same_task_def)
      then have "\<exists>vs. granted abi (tk_intent t') (tk_at t') vs \<and> subseq vs (worlds ps)" using call [OF vs(2)] by blast
      then show ?thesis using kept old(4) longer waiting(1,2,8) by auto
    next
      case (ending ts t us res w)
      obtain vs where vs: "granted abi (tk_intent t) (tk_at t) vs" "subseq vs (butlast (worlds ps))"
        using old(3) [of t] ending(1) by auto
      have "rt_world (pr_runtime q) = w"
        using core_fields(2) [OF ending(4)] by (simp add: settled_world_snd task_release_def split: option.splits)
      then have "subseq (vs @ [rt_world (pr_runtime p), w]) (worlds (ps @ [q]))"
        using list_emb_append_mono [OF call [OF vs(2)], of "[w]" "[w]"] by (simp add: worlds_def)
      moreover have "p \<in> set (ps @ [q])" "t \<in> set (pr_tasks p)" using old(1) ending(1) by (simp_all add: p_def)
      ultimately have "er_success res \<Longrightarrow> governed abi (ps @ [q]) (task_id t) res"
        using ending_governed [OF ending(3) _ vs(1)] by blast
      then show ?thesis using kept old(4) longer ending(1,2,5) by auto
    qed
  next
    case cancels
    then show ?thesis using kept old(4) longer cancellation_frame(2,3) [OF cancels] by auto
  next
    case (outside rt)
    then show ?thesis using kept old(4) longer by auto
  qed
  then show ?thesis using ok by (simp add: run_ok_def now(3))
qed

lemma run_ok_run: "process_run abi p ps \<Longrightarrow> run_ok abi [p] \<Longrightarrow> run_ok abi ps"
  by (induction rule: process_run.induct) (auto intro: run_ok_step)

lemma run_ok_start: "pending rt 0 \<Longrightarrow> run_ok abi [process_init rt]"
  by (simp add: run_ok_def tasks_ok_init) (simp add: process_init_def)

text \<open>What a success has behind it.\<close>

lemma success_evidence:
  assumes "process_run abi (process_init rt) ps" "idle rt" "(eid, Inr res) \<in> set (pr_finished (last ps))" "er_success res"
  shows "\<exists>p t path tr cid w1 w2 w3 w4 w5 w6 reason1 reason2.
    p \<in> set ps \<and> t \<in> set (pr_tasks p) \<and> task_id t = eid \<and> subseq [w1, w2, w3, w4, w5, w6] (worlds ps) \<and>
    fst (evaluate_intent abi (tk_intent t) w1) = Inr (True, reason1) \<and>
    fst (check_capability abi (in_action (tk_intent t)) (in_agent_id (tk_intent t)) w2) = Inr (True, reason2) \<and>
    fst (route_intent abi (tk_intent t) w3) = Inr path \<and>
    fst (access_tool abi path (tk_intent t) w4) = Inr tr \<and> tl_success tr \<and>
    persist_save abi eid (checkpoint_state (tk_env t) (tk_intent t) (tk_tenant_ctx t) tr) w5 = (Inr cid, w6) \<and>
    er_execution_id res = eid \<and> er_checkpoint_id res = Some cid \<and> er_data res = tl_data tr"
proof -
  have "governed abi ps eid res"
    using run_ok_run [OF assms(1) run_ok_start [OF idle_pending [OF assms(2)]]] assms(3,4) by (auto simp: run_ok_def)
  then obtain p t tr cid vs w w' where g: "p \<in> set ps" "t \<in> set (pr_tasks p)" "task_id t = eid"
      "subseq (vs @ [w, w']) (worlds ps)"
      "persist_save abi eid (checkpoint_state (tk_env t) (tk_intent t) (tk_tenant_ctx t) tr) w = (Inr cid, w')"
      "er_execution_id res = eid" "er_checkpoint_id res = Some cid" "er_data res = tl_data tr"
    and vs: "granted abi (tk_intent t) (AtCheckpoint tr) vs"
    unfolding governed_def by blast
  from vs obtain w1 w2 w3 w4 reason1 reason2 path where v: "vs = [w1, w2, w3, w4]"
      "fst (evaluate_intent abi (tk_intent t) w1) = Inr (True, reason1)"
      "fst (check_capability abi (in_action (tk_intent t)) (in_agent_id (tk_intent t)) w2) = Inr (True, reason2)"
      "fst (route_intent abi (tk_intent t) w3) = Inr path"
      "fst (access_tool abi path (tk_intent t) w4) = Inr tr" "tl_success tr"
    unfolding granted.simps by blast
  have "subseq [w1, w2, w3, w4, w, w'] (worlds ps)" using g(4) by (simp add: v(1))
  then show ?thesis using g(1-3,5-8) v(2-6) by blast
qed

section \<open>Schedulers\<close>

text \<open>The steps as functions, for concrete runs.\<close>

definition arrive :: "ExecEnv \<Rightarrow> Intent \<Rightarrow> 'w process \<Rightarrow> 'w process" where
  "arrive env intent p =
     (case begin_execution env intent (pr_runtime p) of
        (Inr t, rt) \<Rightarrow> p\<lparr>pr_runtime := rt, pr_tasks := pr_tasks p @ [t]\<rparr>
      | (Inl r, rt) \<Rightarrow> p\<lparr>pr_runtime := rt, pr_finished := pr_finished p @ [(xe_uuid env, r)]\<rparr>)"

definition advance :: "'w abi \<Rightarrow> nat \<Rightarrow> 'w process \<Rightarrow> 'w process" where
  "advance abi n p =
     (case drop n (pr_tasks p) of
        [] \<Rightarrow> p
      | t # us \<Rightarrow>
          (case resume abi t (pr_runtime p) of
             (Inr t', rt) \<Rightarrow> p\<lparr>pr_runtime := rt, pr_tasks := take n (pr_tasks p) @ t' # us\<rparr>
           | (Inl r, rt) \<Rightarrow>
               p\<lparr>pr_runtime := rt, pr_tasks := take n (pr_tasks p) @ us, pr_finished := pr_finished p @ [(task_id t, r)]\<rparr>))"

lemma arrive_arrival: "fresh_id env p \<Longrightarrow> arrival p (arrive env intent p)"
  unfolding arrive_def by (auto split: prod.splits sum.splits intro: arrival.intros)

lemma arrive_step: "fresh_id env p \<Longrightarrow> process_step abi p (arrive env intent p)"
  by (rule process_step.arrives) (rule arrive_arrival)

lemma advance_resumes: "n < length (pr_tasks p) \<Longrightarrow> resumption abi p (advance abi n p)"
proof -
  assume "n < length (pr_tasks p)"
  then obtain t us where d: "drop n (pr_tasks p) = t # us" by (metis drop_eq_Nil leD list.exhaust)
  then have tasks: "pr_tasks p = take n (pr_tasks p) @ t # us" by (metis append_take_drop_id)
  obtain a rt where r: "resume abi t (pr_runtime p) = (a, rt)" by fastforce
  show ?thesis
  proof (cases a)
    case (Inl x)
    then show ?thesis using resumption.ends [OF tasks r [unfolded Inl]] d r by (simp add: advance_def)
  next
    case (Inr t')
    then show ?thesis using resumption.waits [OF tasks r [unfolded Inr]] d r by (simp add: advance_def)
  qed
qed

lemma advance_step: "process_step abi p (advance abi n p)"
proof (cases "n < length (pr_tasks p)")
  case False
  then have "advance abi n p = p\<lparr>pr_runtime := (pr_runtime p)\<lparr>rt_world := rt_world (pr_runtime p)\<rparr>\<rparr>"
    by (simp add: advance_def)
  then show ?thesis by (metis outside_step.collaborators process_step.outside)
qed (blast intro: process_step.resumes advance_resumes)

text \<open>Two executions of one tenant in flight.\<close>

definition first_begun :: "string list runtime \<Rightarrow> string list process" where
  "first_begun rt = arrive sample_env (sample_intent ''read'') (process_init rt)"

definition two_begun :: "string list runtime \<Rightarrow> string list process" where
  "two_begun rt = arrive (sample_env\<lparr>xe_uuid := ''e2''\<rparr>) (sample_intent ''write'') (first_begun rt)"

lemma two_begun_run:
  assumes "map task_id (holders (first_begun rt)) = [''e1'']"
  shows "process_run abi (process_init rt) [process_init rt, first_begun rt, two_begun rt]"
proof -
  have ids: "task_id ` set (holders (first_begun rt)) = {''e1''}"
    using arg_cong [OF assms, where f = set] by simp
  have "fresh_id sample_env (process_init rt)" "fresh_id (sample_env\<lparr>xe_uuid := ''e2''\<rparr>) (first_begun rt)"
    using ids by (simp_all add: fresh_id_def holders_def process_init_def)
  then have a: "process_step abi (process_init rt) (first_begun rt)" "process_step abi (first_begun rt) (two_begun rt)"
    by (simp_all add: first_begun_def [of rt] two_begun_def arrive_step)
  have "process_run abi (process_init rt) ([process_init rt] @ [first_begun rt])"
    using a(1) by (intro process_run.intros) simp
  from process_run.step [OF this, of "two_begun rt"] a(2) show ?thesis by simp
qed

lemma two_begun_steps:
  assumes "map task_id (holders (first_begun rt)) = [''e1'']"
  shows "(process_step abi)\<^sup>*\<^sup>* (process_init rt) (two_begun rt)"
  using process_run_steps [OF two_begun_run [OF assms]] by simp

definition play :: "'w abi \<Rightarrow> nat list \<Rightarrow> 'w process list \<Rightarrow> 'w process list" where
  "play abi ns ps = foldl (\<lambda>ps n. ps @ [advance abi n (last ps)]) ps ns"

lemma play_last: "ps \<noteq> [] \<Longrightarrow> last (play abi ns ps) = foldl (\<lambda>p n. advance abi n p) (last ps) ns"
  unfolding play_def by (induction ns arbitrary: ps) simp_all

lemma play_run: "process_run abi p ps \<Longrightarrow> process_run abi p (play abi ns ps)"
  unfolding play_def by (induction ns arbitrary: ps) (auto intro: process_run.step advance_step)

section \<open>Properties\<close>

text \<open>
  Property C15. Both concurrency limits hold in every interleaving. In every process reached from an idle runtime
  the slots a quota manager holds for a tenant are exactly those of the tenant's executions in flight or cancelled, and they are at most
  its configured limit; with an isolation boundary the executions in flight or cancelled of a registered tenant are
  at most its resource limit.
\<close>

theorem concurrency_limits:
  assumes "(process_step abi)\<^sup>*\<^sup>* (process_init rt) p" "idle rt"
  shows "(\<forall>q tid. rt_quota_manager (pr_runtime p) = Some q \<and> tid \<noteq> [] \<longrightarrow>
            running q tid = task_id ` set (held_by p tid) \<and>
            int (length (held_by p tid)) \<le> max 0 (qc_max_concurrent (get_config q tid))) \<and>
         (\<forall>b tid tn. rt_isolation (pr_runtime p) = Some b \<and> dict_get (ib_tenants b) tid = Some tn \<longrightarrow>
            int (length (held_by p tid)) \<le> max 0 (rl_max_concurrent_executions (tm_resource_limits tn)))"
proof -
  have ok: "tasks_ok p" "quota_ok p" "slots_ok p" using process_invariants [OF assms] by simp_all
  note len = held_by_card [OF ok(1)]
  show ?thesis
  proof (intro conjI allI impI; elim conjE)
    fix q and tid :: string
    assume q: "rt_quota_manager (pr_runtime p) = Some q" "tid \<noteq> []"
    show run: "running q tid = task_id ` set (held_by p tid)" using ok(2) q by (simp add: quota_ok_def)
    have "\<forall>tid. int (card (running q tid)) \<le> max 0 (qc_max_concurrent (get_config q tid))"
      using ok(2) q(1) by (simp add: quota_ok_def)
    from spec [OF this, of tid] show "int (length (held_by p tid)) \<le> max 0 (qc_max_concurrent (get_config q tid))" by (simp only: run len)
  next
    fix b and tid :: string and tn
    assume "rt_isolation (pr_runtime p) = Some b" "dict_get (ib_tenants b) tid = Some tn"
    then show "int (length (held_by p tid)) \<le> max 0 (rl_max_concurrent_executions (tm_resource_limits tn))"
      using ok(3) unfolding slots_ok_def by (blast intro: order_trans)
  qed
qed

theorem concurrency_limits_witness:
  "\<exists>q b tn. let p = two_begun sample_runtime in
     rt_quota_manager (pr_runtime p) = Some q \<and> rt_isolation (pr_runtime p) = Some b \<and> dict_get (ib_tenants b) ''t1'' = Some tn \<and>
     length (held_by p ''t1'') = 2 \<and> running q ''t1'' = task_id ` set (held_by p ''t1'') \<and>
     2 \<le> max 0 (qc_max_concurrent (get_config q ''t1'')) \<and> 2 \<le> max 0 (rl_max_concurrent_executions (tm_resource_limits tn))"
proof -
  let ?p = "two_begun sample_runtime"
  have "length (held_by ?p ''t1'') = 2 \<and>
      (case rt_isolation (pr_runtime ?p) of None \<Rightarrow> False | Some b \<Rightarrow> dict_get (ib_tenants b) ''t1'' \<noteq> None) \<and>
      rt_quota_manager (pr_runtime ?p) \<noteq> None" by code_simp
  then obtain q b tn where c: "length (held_by ?p ''t1'') = 2" "rt_quota_manager (pr_runtime ?p) = Some q"
      "rt_isolation (pr_runtime ?p) = Some b" "dict_get (ib_tenants b) ''t1'' = Some tn"
    by (auto split: option.splits)
  have "(process_step sample_abi)\<^sup>*\<^sup>* (process_init sample_runtime) ?p" by (rule two_begun_steps) code_simp
  moreover have "idle sample_runtime" by (simp add: idle_def sample_defs)
  ultimately have "running q ''t1'' = task_id ` set (held_by ?p ''t1'') \<and>
      int (length (held_by ?p ''t1'')) \<le> max 0 (qc_max_concurrent (get_config q ''t1'')) \<and>
      int (length (held_by ?p ''t1'')) \<le> max 0 (rl_max_concurrent_executions (tm_resource_limits tn))"
    using concurrency_limits [of sample_abi sample_runtime ?p] c(2-4) by blast
  then show ?thesis using c by (simp add: Let_def)
qed

text \<open>
  Property C17. The quota slot of a cancelled execution is never returned: when as many of a tenant's executions have
  been cancelled as its limit allows, then in every later state, whatever happened in between, no execution of
  the tenant begins; each arrival ends at once, and not with success.
\<close>

theorem cancelled_executions_lock_out:
  assumes "(process_step abi)\<^sup>*\<^sup>* (process_init rt) p" "idle rt" "(process_step abi)\<^sup>*\<^sup>* p p'"
    and "rt_quota_manager (pr_runtime p') = Some q" "rt_tenant_context (pr_runtime p') = Some c" "tc_tenant_id c \<noteq> []"
    and "qc_max_concurrent (get_config q (tc_tenant_id c)) \<le>
         int (length (filter (\<lambda>t. task_tenant t = tc_tenant_id c) (pr_cancelled p)))"
    and "arrival p' p''"
  shows "pr_tasks p'' = pr_tasks p' \<and>
    (\<exists>eid r. pr_finished p'' = pr_finished p' @ [(eid, r)] \<and> (\<forall>res. r = Inr res \<longrightarrow> \<not> er_success res))"
proof -
  let ?tid = "tc_tenant_id c"
  have ok: "tasks_ok p' \<and> quota_ok p' \<and> slots_ok p'"
    using process_invariants [OF rtranclp_trans [OF assms(1,3)] assms(2)] .
  obtain ts where "pr_cancelled p' = pr_cancelled p @ ts" using cancelled_stay [OF assms(3)] by blast
  then have "qc_max_concurrent (get_config q ?tid) \<le> int (length (held_by p' ?tid))"
    using assms(7) by (simp add: held_by_def holders_def)
  moreover have "running q ?tid = task_id ` set (held_by p' ?tid)" using ok assms(4,6) by (simp add: quota_ok_def)
  ultimately have full: "qc_max_concurrent (get_config q ?tid) \<le> int (card (running q ?tid))"
    using held_by_card [of p' ?tid] ok by (simp only:)
  from assms(8) have same: "pr_tasks p'' = pr_tasks p'"
  proof (cases rule: arrival_cases)
    case (entered env t acq rt1)
    have "quota_view (pr_runtime p') = Some (running q, get_config q)" by (simp add: quota_view_def assms(4))
    then show ?thesis
      using quota_view_admit [OF entered(1) fresh_not_running [OF _ entered(8)]] ok full assms(5,6)
      by (auto simp: quota_tenant_def)
  qed
  then show ?thesis using arrival_refused [OF assms(8)] by simp
qed

definition locked_runtime :: "string list runtime" where
  "locked_runtime = (runtime_init [] None None (Some MetricsRegistry_init) True
     (Some (configure ''t1'' (default_TenantQuotaConfig\<lparr>qc_max_concurrent := 1\<rparr>) (QuotaManager_init None))))
       \<lparr>rt_tenant_context := Some sample_context\<rparr>"

definition first_cancelled :: "string list process" where
  "first_cancelled = (let p = first_begun locked_runtime in
     p\<lparr>pr_tasks := [], pr_cancelled := pr_tasks p\<rparr>)"

theorem cancelled_executions_lock_out_witness:
  "let p = arrive (sample_env\<lparr>xe_uuid := ''e2''\<rparr>) (sample_intent ''write'') first_cancelled
   in pr_tasks p = [] \<and> (\<exists>eid r. pr_finished p = [(eid, r)] \<and> (\<forall>res. r = Inr res \<longrightarrow> \<not> er_success res))"
proof -
  let ?p = "first_begun locked_runtime"
  let ?p' = "arrive (sample_env\<lparr>xe_uuid := ''e2''\<rparr>) (sample_intent ''write'') first_cancelled"
  have one: "map task_id (pr_tasks ?p) = [''e1''] \<and> pr_cancelled ?p = [] \<and> pr_finished ?p = [] \<and>
      map task_tenant (pr_tasks ?p) = [''t1'']" by code_simp
  then obtain t where t: "pr_tasks ?p = [] @ t # []" "task_tenant t = ''t1''" by auto
  have idle: "idle locked_runtime"
    by (simp add: idle_def locked_runtime_def sample_defs configure_def)
  have "process_step sample_abi (process_init locked_runtime) ?p"
    unfolding first_begun_def by (rule arrive_step) (simp add: fresh_id_def holders_def process_init_def)
  moreover have "first_cancelled = ?p\<lparr>pr_runtime := (pr_runtime ?p)\<lparr>rt_world := rt_world (pr_runtime ?p)\<rparr>,
      pr_tasks := [] @ [], pr_cancelled := pr_cancelled ?p @ [t]\<rparr>"
    using t one by (simp add: first_cancelled_def)
  then have "process_step sample_abi ?p first_cancelled"
    using cancellation.cancelled [OF t(1), of "rt_world (pr_runtime ?p)"] by (simp add: process_step.cancels)
  ultimately have reach: "(process_step sample_abi)\<^sup>*\<^sup>* (process_init locked_runtime) first_cancelled" by simp
  have "case rt_quota_manager (pr_runtime first_cancelled) of None \<Rightarrow> False
      | Some q \<Rightarrow> qc_max_concurrent (get_config q ''t1'') = 1" by code_simp
  then obtain q where q: "rt_quota_manager (pr_runtime first_cancelled) = Some q" "qc_max_concurrent (get_config q ''t1'') = 1"
    by (auto split: option.splits)
  have "map_option tc_tenant_id (rt_tenant_context (pr_runtime first_cancelled)) = Some ''t1''" by code_simp
  then obtain c where c: "rt_tenant_context (pr_runtime first_cancelled) = Some c" "tc_tenant_id c = ''t1''" by auto
  have "fresh_id (sample_env\<lparr>xe_uuid := ''e2''\<rparr>) first_cancelled"
    using one by (auto simp: fresh_id_def holders_def first_cancelled_def)
  then have "arrival first_cancelled ?p'" by (rule arrive_arrival)
  from cancelled_executions_lock_out [OF reach idle rtranclp.rtrancl_refl q(1) c(1) _ _ this]
  show ?thesis using q c t one by (simp add: Let_def first_cancelled_def)
qed

text \<open>
  Property C18. The metrics count the executions in flight: in every interleaving on a new runtime with a
  registry, the executions counted are the completed ones, the failed ones and those in flight or cancelled.
\<close>

theorem inflight_metrics_balance:
  assumes "(process_step abi)\<^sup>*\<^sup>*
      (process_init (runtime_init w isolation logger (Some MetricsRegistry_init) tracer quota)) p"
    and "rt_metrics (pr_runtime p) = Some m"
  shows "get_counter m ''runtime.executions.total'' =
         get_counter m ''runtime.executions.completed'' + get_counter m ''runtime.executions.failed'' +
         int (length (holders p))"
proof -
  have "pending (runtime_init w isolation logger (Some MetricsRegistry_init) tracer quota) 0"
    by (simp add: pending_def runtime_init_def MetricsRegistry_init_def get_counter_def dict_get_or_def)
  from tasks_ok_steps [OF assms(1) tasks_ok_init [OF this]] assms(2) show ?thesis by (simp add: tasks_ok_def pending_def)
qed

theorem inflight_metrics_balance_witness:
  "\<exists>m. let p = two_begun (runtime_init [] None None (Some MetricsRegistry_init) True None) in
     length (holders p) = 2 \<and> rt_metrics (pr_runtime p) = Some m \<and>
     get_counter m ''runtime.executions.total'' =
     get_counter m ''runtime.executions.completed'' + get_counter m ''runtime.executions.failed'' + 2"
proof -
  let ?rt = "runtime_init [] None None (Some MetricsRegistry_init) True None :: string list runtime"
  have two: "length (holders (two_begun ?rt)) = 2" "rt_metrics (pr_runtime (two_begun ?rt)) \<noteq> None" by code_simp+
  then obtain m where m: "rt_metrics (pr_runtime (two_begun ?rt)) = Some m" by blast
  have "(process_step sample_abi)\<^sup>*\<^sup>* (process_init ?rt) (two_begun ?rt)" by (rule two_begun_steps) code_simp
  from inflight_metrics_balance [OF this m] m two(1) show ?thesis by (auto simp: Let_def)
qed

text \<open>
  Property C16. A runtime that no longer runs new executions runs dry, whatever else happens: from any process reached
  from an idle runtime that is draining or stopped, on every infinite sequence of steps in which some
  execution is resumed or cancelled as long as there is one, from some step on no execution is in flight.
\<close>

theorem drain_completes:
  assumes "(process_step abi)\<^sup>*\<^sup>* (process_init rt) (f 0)" "idle rt" "rt_state (pr_runtime (f 0)) \<noteq> RS_RUNNING"
    and steps: "\<forall>i. process_step abi (f i) (f (Suc i))"
    and fair: "\<forall>i. pr_tasks (f i) \<noteq> [] \<longrightarrow> (\<exists>j\<ge>i. resumption abi (f j) (f (Suc j)) \<or> cancellation (f j) (f (Suc j)))"
  shows "\<exists>k. \<forall>j\<ge>k. pr_tasks (f j) = []"
proof -
  have ok: "tasks_ok (f 0)" using tasks_ok_steps [OF assms(1) tasks_ok_init [OF idle_pending [OF assms(2)]]] .
  have inv: "tasks_ok (f i) \<and> rt_state (pr_runtime (f i)) \<noteq> RS_RUNNING" for i
    by (induction i) (use ok assms(3) steps drained_step in blast)+
  have le: "work (f (Suc i)) \<le> work (f i)" for i using drained_step steps inv by blast
  have mono: "work (f j) \<le> work (f i)" if "i \<le> j" for i j using that le by (rule lift_Suc_antimono_le [rotated])
  have stays: "pr_tasks (f j) = []" if "work (f i) = 0" "i \<le> j" for i j
  proof -
    have "work (f j) = 0" using mono [OF that(2)] that(1) by simp
    then show ?thesis by (simp add: work_none)
  qed
  have "\<exists>k. \<forall>j\<ge>k. pr_tasks (f j) = []" if "work (f i) \<le> n" for n i
    using that
  proof (induction n arbitrary: i)
    case 0
    then have "work (f i) = 0" by simp
    then show ?case using stays by blast
  next
    case (Suc n)
    show ?case
    proof (cases "pr_tasks (f i) = []")
      case True
      then have "work (f i) = 0" by (simp add: work_none)
      then show ?thesis using stays by blast
    next
      case False
      then obtain j where j: "i \<le> j" "resumption abi (f j) (f (Suc j)) \<or> cancellation (f j) (f (Suc j))"
        using fair by blast
      then have "work (f (Suc j)) < work (f j)" using resumption_work cancellation_work inv by blast
      then have "work (f (Suc j)) \<le> n" using mono [OF j(1)] Suc.prems by linarith
      then show ?thesis by (rule Suc.IH)
    qed
  qed
  then show ?thesis by blast
qed

theorem drain_completes_witness:
  "let p = (two_begun sample_runtime)\<lparr>pr_runtime := drain (pr_runtime (two_begun sample_runtime))\<rparr>;
       f = (\<lambda>i. (advance sample_abi 0 ^^ i) p)
   in length (pr_tasks (f 0)) = 2 \<and> (\<exists>k. \<forall>j\<ge>k. pr_tasks (f j) = [])"
proof -
  define p where "p = (two_begun sample_runtime)\<lparr>pr_runtime := drain (pr_runtime (two_begun sample_runtime))\<rparr>"
  define f where "f = (\<lambda>i. (advance sample_abi 0 ^^ i) p)"
  have "length (pr_tasks p) = 2 \<and> rt_state (pr_runtime p) = RS_DRAINING" unfolding p_def by code_simp
  then have start: "length (pr_tasks (f 0)) = 2" "rt_state (pr_runtime (f 0)) \<noteq> RS_RUNNING" by (simp_all add: f_def)
  have two: "(process_step sample_abi)\<^sup>*\<^sup>* (process_init sample_runtime) (two_begun sample_runtime)"
    by (rule two_begun_steps) code_simp
  have "process_step sample_abi (two_begun sample_runtime) p"
    unfolding p_def by (intro process_step.outside outside_step.drained)
  with two have reach: "(process_step sample_abi)\<^sup>*\<^sup>* (process_init sample_runtime) (f 0)" by (simp add: f_def)
  have steps: "\<forall>i. process_step sample_abi (f i) (f (Suc i))" by (simp add: f_def advance_step)
  have "resumption sample_abi (f i) (f (Suc i))" if "pr_tasks (f i) \<noteq> []" for i
    using advance_resumes [of 0 "f i" sample_abi] that by (simp add: f_def)
  then have fair: "\<forall>i. pr_tasks (f i) \<noteq> [] \<longrightarrow>
      (\<exists>j\<ge>i. resumption sample_abi (f j) (f (Suc j)) \<or> cancellation (f j) (f (Suc j)))" by blast
  have "idle sample_runtime" by (simp add: idle_def sample_defs)
  from drain_completes [OF reach this start(2) steps fair] start(1) show ?thesis by (simp add: Let_def f_def p_def)
qed

text \<open>
  Property C3. No interleaving lets an ungoverned execution succeed. Along any run of a process, a successful
  result among the finished executions is that of an execution that was in flight in the run, and five instants of the run
  stand behind it, in this order: the policy allowed its intent, the capability check allowed its action, the
  router gave the path on which the gateway then executed the tool with success, and the checkpoint the
  result names was stored with that tool's result and the tenant of the execution's start.
\<close>

theorem interleaved_success_governed:
  assumes "process_run abi (process_init rt) ps" "idle rt" "(eid, Inr res) \<in> set (pr_finished (last ps))" "er_success res"
  shows "\<exists>p t path tr cid w1 w2 w3 w4 w5 reason1 reason2.
    p \<in> set ps \<and> t \<in> set (pr_tasks p) \<and> task_id t = eid \<and> subseq [w1, w2, w3, w4, w5] (worlds ps) \<and>
    fst (evaluate_intent abi (tk_intent t) w1) = Inr (True, reason1) \<and>
    fst (check_capability abi (in_action (tk_intent t)) (in_agent_id (tk_intent t)) w2) = Inr (True, reason2) \<and>
    fst (route_intent abi (tk_intent t) w3) = Inr path \<and>
    fst (access_tool abi path (tk_intent t) w4) = Inr tr \<and> tl_success tr \<and>
    fst (persist_save abi eid (checkpoint_state (tk_env t) (tk_intent t) (tk_tenant_ctx t) tr) w5) = Inr cid \<and>
    er_execution_id res = eid \<and> er_checkpoint_id res = Some cid \<and> er_data res = tl_data tr"
proof -
  from success_evidence [OF assms] obtain p t path tr cid w1 w2 w3 w4 w5 w6 reason1 reason2 where
    e: "p \<in> set ps" "t \<in> set (pr_tasks p)" "task_id t = eid" "subseq [w1, w2, w3, w4, w5, w6] (worlds ps)"
      "fst (evaluate_intent abi (tk_intent t) w1) = Inr (True, reason1)"
      "fst (check_capability abi (in_action (tk_intent t)) (in_agent_id (tk_intent t)) w2) = Inr (True, reason2)"
      "fst (route_intent abi (tk_intent t) w3) = Inr path" "fst (access_tool abi path (tk_intent t) w4) = Inr tr" "tl_success tr"
      "persist_save abi eid (checkpoint_state (tk_env t) (tk_intent t) (tk_tenant_ctx t) tr) w5 = (Inr cid, w6)"
      "er_execution_id res = eid" "er_checkpoint_id res = Some cid" "er_data res = tl_data tr"
    by blast
  have "subseq [w1, w2, w3, w4, w5] [w1, w2, w3, w4, w5, w6]" by simp
  then have "subseq [w1, w2, w3, w4, w5] (worlds ps)" using e(4) by (rule subseq_order.order_trans)
  moreover have "fst (persist_save abi eid (checkpoint_state (tk_env t) (tk_intent t) (tk_tenant_ctx t) tr) w5) = Inr cid"
    using e(10) by simp
  ultimately show ?thesis using e(1-3,5-9,11-13) by blast
qed

theorem interleaved_success_governed_witness:
  "\<exists>ps. process_run sample_abi (process_init sample_runtime) ps \<and>
     (\<exists>eid res t w1 w2 w3 w4 w5 reason1. (eid, Inr res) \<in> set (pr_finished (last ps)) \<and> er_success res \<and>
        task_id t = eid \<and> subseq [w1, w2, w3, w4, w5] (worlds ps) \<and>
        fst (evaluate_intent sample_abi (tk_intent t) w1) = Inr (True, reason1))"
proof -
  define ps where "ps = play sample_abi [0, 1, 0, 1, 1, 1, 1]
      [process_init sample_runtime, first_begun sample_runtime, two_begun sample_runtime]"
  have run: "process_run sample_abi (process_init sample_runtime) ps"
    unfolding ps_def by (intro play_run two_begun_run) code_simp
  have "case pr_finished (foldl (\<lambda>p n. advance sample_abi n p) (two_begun sample_runtime) [0, 1, 0, 1, 1, 1, 1]) of
      (eid, Inr res) # _ \<Rightarrow> er_success res | _ \<Rightarrow> False" by code_simp
  moreover have "last ps = foldl (\<lambda>p n. advance sample_abi n p) (two_begun sample_runtime) [0, 1, 0, 1, 1, 1, 1]"
    unfolding ps_def by (subst play_last) simp_all
  ultimately have "case pr_finished (last ps) of (eid, Inr res) # _ \<Rightarrow> er_success res | _ \<Rightarrow> False" by simp
  then obtain eid res out where "pr_finished (last ps) = (eid, Inr res) # out" "er_success res"
    by (auto split: list.splits sum.splits) (metis obj_sumE)
  then have res: "(eid, Inr res) \<in> set (pr_finished (last ps))" "er_success res" by simp_all
  have "idle sample_runtime" by (simp add: idle_def sample_defs)
  from interleaved_success_governed [OF run this res] obtain t w1 w2 w3 w4 w5 reason1 where
      "task_id t = eid" "subseq [w1, w2, w3, w4, w5] (worlds ps)"
      "fst (evaluate_intent sample_abi (tk_intent t) w1) = Inr (True, reason1)"
    by (elim exE conjE)
  then show ?thesis using run res by blast
qed

end
