(* ===== verification/Concurrent_Stack.thy ===== *)
theory Concurrent_Stack
  imports Stack Concurrent_Properties
begin

text \<open>
  Interleaved executions over the repository's own collaborators. The clock readings and identifiers that the
  collaborators take are part of the state outside the runtime: they change between calls like everything
  else there, so that every call has its own.
\<close>

section \<open>The collaborators with their readings\<close>

definition live :: "(StackEnv \<Rightarrow> ('a, 'm stack) call) \<Rightarrow> ('a, 'm stack \<times> StackEnv) call" where
  "live f = (\<lambda>(w, se). let (r, w') = f se w in (r, (w', se)))"

definition live_abi :: "StackLib \<Rightarrow> ('m stack \<times> StackEnv) abi" where
  "live_abi lib =
     \<lparr>evaluate_intent = (\<lambda>intent. live (\<lambda>se. evaluate_intent (stack_abi lib se) intent)),
      check_capability = (\<lambda>action agent_id. live (\<lambda>se. check_capability (stack_abi lib se) action agent_id)),
      route_intent = (\<lambda>intent. live (\<lambda>se. route_intent (stack_abi lib se) intent)),
      access_tool = (\<lambda>path intent. live (\<lambda>se. access_tool (stack_abi lib se) path intent)),
      persist_save = (\<lambda>execution_id state. live (\<lambda>se. persist_save (stack_abi lib se) execution_id state)),
      persist_restore = (\<lambda>cid. live (\<lambda>se. persist_restore (stack_abi lib se) cid))\<rparr>"

lemma live_simps [simp]:
  "evaluate_intent (live_abi lib) intent = live (\<lambda>se. evaluate_intent (stack_abi lib se) intent)"
  "check_capability (live_abi lib) action agent = live (\<lambda>se. check_capability (stack_abi lib se) action agent)"
  "route_intent (live_abi lib) intent = live (\<lambda>se. route_intent (stack_abi lib se) intent)"
  "access_tool (live_abi lib) path intent = live (\<lambda>se. access_tool (stack_abi lib se) path intent)"
  "persist_save (live_abi lib) eid state = live (\<lambda>se. persist_save (stack_abi lib se) eid state)"
  by (simp_all add: live_abi_def)

lemma live_fst [simp]: "fst (live f ws) = fst (f (snd ws) (fst ws))"
  by (simp add: live_def split_beta Let_def)

lemma live_snd [simp]: "fst (snd (live f ws)) = snd (f (snd ws) (fst ws))" "snd (snd (live f ws)) = snd ws"
  by (simp_all add: live_def split_beta Let_def)

section \<open>What each call means\<close>

lemma evaluate_allows:
  assumes "policy_cache_coherent (sk_engine w)" "pipe_free (in_agent_id intent)" "pipe_free (in_action intent)"
    and "fst (evaluate_intent (stack_abi lib se) intent w) = Inr (True, reason)"
  shows "rules_allow (sk_engine w) intent"
  using adapter_grants [OF assms(1-3)] assms(4)
  by (auto simp: stack_abi_def on_engine_def rules_allow_def split_beta Let_def) (metis fst_conv)

lemma check_allows:
  assumes "policy_cache_coherent (sk_engine w)" "pipe_free (in_agent_id intent)" "pipe_free (in_action intent)"
    and "fst (check_capability (stack_abi lib se) (in_action intent) (in_agent_id intent) w) = Inr (True, reason)"
  shows "rules_allow (sk_engine w) intent"
  using adapter_grants [OF assms(1-3)] assms(4)
  by (auto simp: stack_abi_def on_engine_def rules_allow_def split_beta Let_def) (metis fst_conv)

lemma access_registered:
  assumes "fst (access_tool (stack_abi lib se) path intent w) = Inr tr"
  shows "ToolRegistry_get (gw_registry (sk_gateway w)) (xp_tool path) \<noteq> None"
  using stack_access(2) [of lib se path intent w tr "snd (access_tool (stack_abi lib se) path intent w)"] assms
  by (metis prod.collapse)

lemma save_restores:
  assumes "persist_save (stack_abi lib se) eid (checkpoint_state env intent ctx tr) w = (Inr cid, w')"
    and "adapter_wf (sk_checkpoints w)" "\<And>s. length (sl_sha256 lib s) = 64" "eid \<noteq> []" "plain_val (PyDict (tl_data tr))"
  shows "\<exists>kvs. adapter_restore (sl_float_read lib) (sl_decode_msg lib) cid
       (sk_checkpoints w') = Inr (PyDict kvs) \<and>
     (\<forall>k. dict_get kvs k = map_option sort_keys (dict_get (checkpoint_state env intent ctx tr) k))"
proof -
  have "plain_val (PyDict (checkpoint_state env intent ctx tr))" by (rule plain_checkpoint_state) (rule assms(5))
  from adapter_save_restores [where ?sha256.0 = "sl_sha256 lib" and fr = "sl_float_repr lib" and hex = "se_uuid_hex se"
      and now = "se_t_save se" and fl = "sl_float_read lib" and decode_msg = "sl_decode_msg lib", OF assms(4,3,2) this]
    stack_save(1) [OF assms(1)]
  show ?thesis by auto
qed

section \<open>What each call keeps\<close>

definition stack_ok :: "'m stack \<Rightarrow> bool" where
  "stack_ok w \<longleftrightarrow> policy_cache_coherent (sk_engine w) \<and> adapter_wf (sk_checkpoints w)"

definition unused_id :: "'m stack \<times> StackEnv \<Rightarrow> bool" where
  "unused_id = (\<lambda>(w, se). repo_get (ca_repo (sk_checkpoints w)) (''cp-'' @ take 12 (se_uuid_hex se)) = None)"

lemma engine_call_keeps:
  assumes "stack_ok w"
  shows "stack_ok (snd (evaluate_intent (stack_abi lib se) intent w))"
    "sk_checkpoints (snd (evaluate_intent (stack_abi lib se) intent w)) = sk_checkpoints w"
    "stack_ok (snd (check_capability (stack_abi lib se) action agent w))"
    "sk_checkpoints (snd (check_capability (stack_abi lib se) action agent w)) = sk_checkpoints w"
  using assms coherent_evaluate [OF _ surjective_pairing]
  by (auto simp: stack_ok_def stack_abi_def on_engine_def adapter_evaluate_intent_def adapter_check_capability_def split_beta Let_def)

lemma other_calls_keep:
  assumes "stack_ok w"
  shows "snd (route_intent (stack_abi lib se) intent w) = w"
    "stack_ok (snd (access_tool (stack_abi lib se) path intent w))"
    "sk_checkpoints (snd (access_tool (stack_abi lib se) path intent w)) = sk_checkpoints w"
    "unused_id (w, se) \<Longrightarrow> stack_ok (snd (persist_save (stack_abi lib se) eid state w))"
  using assms
  by (auto simp: stack_ok_def stack_abi_def unused_id_def split_beta Let_def intro: adapter_wf_save [OF _ surjective_pairing])

lemma chain_call_world:
  "snd (chain_call abi env intent ctx AtPolicy w) = snd (evaluate_intent abi intent w)"
  "snd (chain_call abi env intent ctx AtCapability w) = snd (check_capability abi (in_action intent) (in_agent_id intent) w)"
  "snd (chain_call abi env intent ctx AtRouting w) = snd (route_intent abi intent w)"
  "snd (chain_call abi env intent ctx (AtGateway path) w) = snd (access_tool abi path intent w)"
  "snd (chain_call abi env intent ctx (AtCheckpoint tr) w) =
     snd (persist_save abi (xe_uuid env) (checkpoint_state env intent ctx tr) w)"
  by (simp_all add: chain_persist_def split: prod.splits sum.splits)

text \<open>A call keeps the cache coherent and the checkpoints well formed when the identifier it may use is unused.\<close>

lemma live_call_keeps:
  assumes "stack_ok (fst ws)" "unused_id ws" "chain_call (live_abi lib) env intent ctx pc ws = (a, ws')"
  shows "stack_ok (fst ws')" "(\<forall>tr. pc \<noteq> AtCheckpoint tr) \<Longrightarrow> unused_id ws'"
proof -
  note keeps = engine_call_keeps [OF assms(1)] other_calls_keep [OF assms(1)]
  have ws': "ws' = snd (chain_call (live_abi lib) env intent ctx pc ws)" by (simp add: assms(3))
  show "stack_ok (fst ws')" unfolding ws' by (cases pc) (simp_all add: chain_call_world keeps assms(1,2) del: chain_call.simps)
  show "unused_id ws'" if "\<forall>tr. pc \<noteq> AtCheckpoint tr"
    using that assms(2) unfolding ws' unused_id_def
    by (cases pc) (simp_all add: chain_call_world keeps split_beta del: chain_call.simps)
qed

section \<open>One execution on a concrete stack\<close>

definition lone :: "Intent \<Rightarrow> ('m stack \<times> StackEnv) process \<Rightarrow> bool" where
  "lone intent p \<longleftrightarrow> tasks_ok p \<and> length (pr_tasks p) \<le> 1 \<and> (\<forall>t \<in> set (pr_tasks p). tk_intent t = intent) \<and>
     stack_ok (fst (rt_world (pr_runtime p))) \<and> (pr_tasks p \<noteq> [] \<longrightarrow> unused_id (rt_world (pr_runtime p)))"

lemma lone_advance:
  assumes "lone intent p"
  shows "lone intent (advance (live_abi lib) n p)"
proof (cases "n < length (pr_tasks p)")
  case False
  then show ?thesis using assms by (simp add: advance_def)
next
  case True
  let ?p = "advance (live_abi lib) n p"
  have ok: "tasks_ok p" "stack_ok (fst (rt_world (pr_runtime p)))" "unused_id (rt_world (pr_runtime p))"
    using assms True by (auto simp: lone_def)
  have ok': "tasks_ok ?p" by (rule tasks_ok_step [OF advance_step ok(1)])
  from advance_resumes [OF True, of "live_abi lib"] ok(1) show ?thesis
  proof (cases rule: resumption_cases)
    case (waiting ts t us t' w pc)
    have "\<forall>tr. tk_at t \<noteq> AtCheckpoint tr" using waiting(5) by (auto split: prod.splits)
    moreover have "rt_world (pr_runtime ?p) = w" using core_fields(2) [OF waiting(7)] by simp
    ultimately show ?thesis
      using live_call_keeps [OF ok(2,3) waiting(5)] assms ok' waiting(1-3) by (auto simp: lone_def same_task_def)
  next
    case (ending ts t us res w)
    have "rt_world (pr_runtime ?p) = w"
      using core_fields(2) [OF ending(4)] by (simp add: settled_world_snd task_release_def split: option.splits)
    then show ?thesis
      using live_call_keeps(1) [OF ok(2,3) ending(3)] assms ok' ending(1,2) by (auto simp: lone_def)
  qed
qed

lemma lone_play: "ps \<noteq> [] \<Longrightarrow> \<forall>p \<in> set ps. lone intent p \<Longrightarrow> \<forall>p \<in> set (play (live_abi lib) ns ps). lone intent p"
proof (induction ns arbitrary: ps)
  case (Cons n ns)
  let ?ps = "ps @ [advance (live_abi lib) n (last ps)]"
  have "lone intent (advance (live_abi lib) n (last ps))" using Cons.prems by (intro lone_advance) simp
  with Cons.prems(2) have all: "\<forall>p \<in> set ?ps. lone intent p" by auto
  have "play (live_abi lib) (n # ns) ps = play (live_abi lib) ns ?ps" by (simp only: play_def foldl.simps)
  moreover have "\<forall>p \<in> set (play (live_abi lib) ns ?ps). lone intent p" by (rule Cons.IH [OF _ all]) blast
  ultimately show ?case by (simp only: simp_thms)
qed (simp add: play_def)

definition live_runtime :: "(unit stack \<times> StackEnv) runtime" where
  "live_runtime = runtime_init (sample_stack (PolicyEngine_init None), sample_stack_env) None None None False None"

definition live_begun :: "(unit stack \<times> StackEnv) process" where
  "live_begun = arrive sample_env drop_intent (process_init live_runtime)"

lemma arrive_world: "rt_world (pr_runtime (arrive env intent p)) = rt_world (pr_runtime p)"
proof -
  obtain r rt where b: "begin_execution env intent (pr_runtime p) = (r, rt)" by fastforce
  obtain n where n: "pending (pr_runtime p) n" using pending_ex by blast
  have "rt_world rt = rt_world (pr_runtime p)"
  proof (cases r)
    case (Inl x)
    then show ?thesis using begin_ends [OF b [unfolded Inl]] admit_frame by blast
  next
    case (Inr t)
    obtain q rt1 where q: "admit env (pr_runtime p) = (Continue q, rt1)" "core rt = core rt1"
      using begin_waits [OF b [unfolded Inr] n] by blast
    show ?thesis using admit_frame [OF q(1)] core_fields(2) [OF q(2)] by simp
  qed
  then show ?thesis by (simp add: arrive_def b split: sum.splits)
qed

lemma live_run:
  defines "ps \<equiv> play (live_abi sample_lib) (replicate 5 0) [process_init live_runtime, live_begun]"
  shows "process_run (live_abi sample_lib) (process_init live_runtime) ps" "\<forall>p \<in> set ps. lone drop_intent p"
proof -
  have begun: "process_step (live_abi sample_lib) (process_init live_runtime) live_begun"
    unfolding live_begun_def by (rule arrive_step) (simp add: fresh_id_def holders_def process_init_def)
  have "process_run (live_abi sample_lib) (process_init live_runtime) ([process_init live_runtime] @ [live_begun])"
    using begun by (intro process_run.intros) simp
  then show "process_run (live_abi sample_lib) (process_init live_runtime) ps" unfolding ps_def by (intro play_run) simp
  have idle: "idle live_runtime" by (simp add: idle_def live_runtime_def runtime_init_def)
  have world: "stack_ok (fst (sample_stack (PolicyEngine_init None), sample_stack_env))"
      "unused_id (sample_stack (PolicyEngine_init None), sample_stack_env)"
    using adapter_wf_init
    by (auto simp: stack_ok_def unused_id_def sample_stack_def coherent_init)
      (simp add: CheckpointPersistenceAdapter_init_def InMemoryCheckpointRepository_init_def repo_get_def)
  have start: "lone drop_intent (process_init live_runtime)"
    using tasks_ok_init [OF idle_pending [OF idle]] world
    by (simp add: lone_def) (simp add: process_init_def live_runtime_def runtime_init_def)
  have "tasks_ok live_begun" using tasks_ok_step [OF begun] start by (simp add: lone_def)
  moreover have "rt_world (pr_runtime live_begun) = rt_world live_runtime" 
    using arrive_world [where p = "process_init live_runtime"] by (simp add: live_begun_def process_init_def)
  moreover have "map tk_intent (pr_tasks live_begun) = [drop_intent]" by code_simp
  moreover from this have "length (pr_tasks live_begun) = 1" "\<forall>t \<in> set (pr_tasks live_begun). tk_intent t = drop_intent"
    by (auto dest: arg_cong [where f = length] arg_cong [where f = set])
  ultimately have "lone drop_intent live_begun" using world by (simp add: lone_def live_runtime_def runtime_init_def)
  then show "\<forall>p \<in> set ps. lone drop_intent p" unfolding ps_def using start by (intro lone_play) simp_all
qed

section \<open>Properties\<close>

text \<open>
  Property C7. What an interleaved success of the assembled system means. At two instants of the run the rules allowed
  the execution's intent (no rule matched its action, or the first matching one of least priority number said ALLOW);
  at a later one the tool that gave the result's data was registered; at a later one still the execution's own state
  was saved, and in the state of the run that the save leads to the checkpoint named in the result is restored to
  the intent's action and agent, the tool's data (with nested keys sorted) and the tenant of the execution's start.
  It is assumed that every state of the run has a coherent policy cache and a well-formed checkpoint store, that the
  names of agents and actions are without the cache's separator \<^verbatim>\<open>|\<close>, that the execution has an identifier, that
  digests have 64 characters and that the tool's data hold no floats.
\<close>

theorem interleaved_stack_success:
  assumes "process_run (live_abi lib) (process_init rt) ps" "idle rt" "(eid, Inr res) \<in> set (pr_finished (last ps))" "er_success res"
    and "\<forall>ws \<in> set (worlds ps). stack_ok (fst ws)"
    and "\<forall>p \<in> set ps. \<forall>t \<in> set (pr_tasks p). pipe_free (in_agent_id (tk_intent t)) \<and> pipe_free (in_action (tk_intent t))"
    and "\<And>s. length (sl_sha256 lib s) = 64" "eid \<noteq> []" "plain_val (PyDict (er_data res))"
  shows "\<exists>p t path tr cid kvs w1 w2 w4 w5 w6. p \<in> set ps \<and> t \<in> set (pr_tasks p) \<and> task_id t = eid \<and>
    subseq [w1, w2, w4, w5, w6] (worlds ps) \<and>
    rules_allow (sk_engine (fst w1)) (tk_intent t) \<and> rules_allow (sk_engine (fst w2)) (tk_intent t) \<and>
    ToolRegistry_get (gw_registry (sk_gateway (fst w4))) (xp_tool path) \<noteq> None \<and>
    fst (access_tool (live_abi lib) path (tk_intent t) w4) = Inr tr \<and> er_data res = tl_data tr \<and>
    er_checkpoint_id res = Some cid \<and>
    persist_save (live_abi lib) eid (checkpoint_state (tk_env t) (tk_intent t) (tk_tenant_ctx t) tr) w5 = (Inr cid, w6) \<and>
    adapter_restore (sl_float_read lib) (sl_decode_msg lib) cid (sk_checkpoints (fst w6)) = Inr (PyDict kvs) \<and>
    dict_get kvs ''intent_action'' = Some (PyStr (in_action (tk_intent t))) \<and>
    dict_get kvs ''intent_agent'' = Some (PyStr (in_agent_id (tk_intent t))) \<and>
    dict_get kvs ''tool_result'' = Some (sort_keys (PyDict (er_data res))) \<and>
    dict_get kvs ''tenant_id'' = map_option (\<lambda>c. PyStr (tc_tenant_id c)) (tk_tenant_ctx t)"
proof -
  obtain p t path tr cid w1 w2 w3 w4 w5 w6 reason1 reason2 where e: "p \<in> set ps" "t \<in> set (pr_tasks p)" "task_id t = eid"
      "subseq [w1, w2, w3, w4, w5, w6] (worlds ps)" "fst (evaluate_intent (live_abi lib) (tk_intent t) w1) = Inr (True, reason1)"
      "fst (check_capability (live_abi lib) (in_action (tk_intent t)) (in_agent_id (tk_intent t)) w2) = Inr (True, reason2)"
      "fst (access_tool (live_abi lib) path (tk_intent t) w4) = Inr tr"
      "persist_save (live_abi lib) eid (checkpoint_state (tk_env t) (tk_intent t) (tk_tenant_ctx t) tr) w5 = (Inr cid, w6)"
      "er_checkpoint_id res = Some cid" "er_data res = tl_data tr"
    using success_evidence [OF assms(1-4)] by blast
  let ?state = "checkpoint_state (tk_env t) (tk_intent t) (tk_tenant_ctx t) tr"
  have "subseq [w1, w2, w4, w5, w6] [w1, w2, w3, w4, w5, w6]" by simp
  then have sub: "subseq [w1, w2, w4, w5, w6] (worlds ps)" using e(4) by (rule subseq_order.order_trans)
  then have "set [w1, w2, w4, w5, w6] \<subseteq> set (worlds ps)" by (metis set_nths_subset subseq_conv_nths)
  then have ok: "stack_ok (fst w1)" "stack_ok (fst w2)" "stack_ok (fst w5)" using assms(5) by simp_all
  have free: "pipe_free (in_agent_id (tk_intent t))" "pipe_free (in_action (tk_intent t))" using assms(6) e(1,2) by simp_all
  have allow: "rules_allow (sk_engine (fst w1)) (tk_intent t)" "rules_allow (sk_engine (fst w2)) (tk_intent t)"
    using evaluate_allows [OF _ free] check_allows [OF _ free] ok(1,2) e(5,6) by (auto simp: stack_ok_def)
  have tool: "ToolRegistry_get (gw_registry (sk_gateway (fst w4))) (xp_tool path) \<noteq> None"
    using access_registered e(7) by simp
  have "persist_save (stack_abi lib (snd w5)) eid ?state (fst w5) = (Inr cid, fst w6)"
    using e(8) by (auto simp: live_def split_beta Let_def prod_eq_iff)
  moreover have "plain_val (PyDict (tl_data tr))" "adapter_wf (sk_checkpoints (fst w5))"
    using assms(9) e(10) ok(3) by (simp_all add: stack_ok_def)
  ultimately obtain kvs where kvs:
      "adapter_restore (sl_float_read lib) (sl_decode_msg lib) cid (sk_checkpoints (fst w6)) = Inr (PyDict kvs)"
      "\<forall>k. dict_get kvs k = map_option sort_keys (dict_get ?state k)"
    using save_restores [OF _ _ assms(7,8)] by blast
  have "dict_get ?state ''tenant_id'' = map_option (\<lambda>c. PyStr (tc_tenant_id c)) (tk_tenant_ctx t)"
    by (simp add: checkpoint_state_def dict_get_def split: option.splits)
  then have fields: "dict_get kvs ''intent_action'' = Some (PyStr (in_action (tk_intent t)))"
      "dict_get kvs ''intent_agent'' = Some (PyStr (in_agent_id (tk_intent t)))"
      "dict_get kvs ''tool_result'' = Some (sort_keys (PyDict (er_data res)))"
      "dict_get kvs ''tenant_id'' = map_option (\<lambda>c. PyStr (tc_tenant_id c)) (tk_tenant_ctx t)"
    by (simp_all add: kvs(2) checkpoint_state_get e(10) option.map_comp comp_def)
  have "p \<in> set ps \<and> t \<in> set (pr_tasks p) \<and> task_id t = eid" using e(1-3) by simp
  with e(7-10) sub allow tool kvs(1) fields show ?thesis by blast
qed

theorem interleaved_stack_success_witness:
  "\<exists>ps eid res cid kvs ws. process_run (live_abi sample_lib) (process_init live_runtime) ps \<and>
     (eid, Inr res) \<in> set (pr_finished (last ps)) \<and> er_checkpoint_id res = Some cid \<and> ws \<in> set (worlds ps) \<and>
     adapter_restore (sl_float_read sample_lib) (sl_decode_msg sample_lib) cid (sk_checkpoints (fst ws)) = Inr (PyDict kvs) \<and>
     dict_get kvs ''intent_action'' = Some (PyStr ''db.drop'')"
proof -
  define ps where "ps = play (live_abi sample_lib) (replicate 5 0) [process_init live_runtime, live_begun]"
  note run = live_run [folded ps_def]
  have "case pr_finished (foldl (\<lambda>p n. advance (live_abi sample_lib) n p) live_begun (replicate 5 0)) of
      (eid, Inr res) # _ \<Rightarrow> eid \<noteq> [] \<and> er_success res \<and> plain_val (PyDict (er_data res)) | _ \<Rightarrow> False" by code_simp
  moreover have "last ps = foldl (\<lambda>p n. advance (live_abi sample_lib) n p) live_begun (replicate 5 0)"
    unfolding ps_def by (subst play_last) simp_all
  ultimately have "case pr_finished (last ps) of
      (eid, Inr res) # _ \<Rightarrow> eid \<noteq> [] \<and> er_success res \<and> plain_val (PyDict (er_data res)) | _ \<Rightarrow> False" by simp
  then obtain eid res out where "pr_finished (last ps) = (eid, Inr res) # out" "eid \<noteq> []" "er_success res" "plain_val (PyDict (er_data res))"
    by (auto split: list.splits sum.splits) (metis obj_sumE)
  then have res: "(eid, Inr res) \<in> set (pr_finished (last ps))" "er_success res" "eid \<noteq> []" "plain_val (PyDict (er_data res))"
    by simp_all
  have idle: "idle live_runtime" by (simp add: idle_def live_runtime_def runtime_init_def)
  have ok: "\<forall>ws \<in> set (worlds ps). stack_ok (fst ws)" using run(2) by (auto simp: worlds_def lone_def)
  have free: "\<forall>p \<in> set ps. \<forall>t \<in> set (pr_tasks p). pipe_free (in_agent_id (tk_intent t)) \<and> pipe_free (in_action (tk_intent t))"
    using run(2) drop_pipe_free by (auto simp: lone_def)
  have sha: "\<And>s. length (sl_sha256 sample_lib s) = 64" by (simp add: sample_lib_def)
  from interleaved_stack_success [OF run(1) idle res(1,2) ok free sha res(3,4)] obtain p t path tr cid kvs w1 w2 w4 w5 w6 where
      e: "p \<in> set ps" "t \<in> set (pr_tasks p)" "subseq [w1, w2, w4, w5, w6] (worlds ps)" "er_checkpoint_id res = Some cid"
      "adapter_restore (sl_float_read sample_lib) (sl_decode_msg sample_lib) cid (sk_checkpoints (fst w6)) = Inr (PyDict kvs)"
      "dict_get kvs ''intent_action'' = Some (PyStr (in_action (tk_intent t)))"
    by (elim exE conjE) (rule that, assumption+)
  have "set [w1, w2, w4, w5, w6] \<subseteq> set (worlds ps)" using e(3) by (metis set_nths_subset subseq_conv_nths)
  then have w6: "w6 \<in> set (worlds ps)" by simp
  have "tk_intent t = drop_intent" using e(1,2) run(2) by (auto simp: lone_def)
  then have "dict_get kvs ''intent_action'' = Some (PyStr ''db.drop'')" using e(6) by (simp add: drop_intent_def)
  then show ?thesis using run(1) res(1) e(4,5) w6 by blast
qed

end
