(* ===== verification/Tenancy.thy ===== *)
theory Tenancy
  imports Loop_Correctness Api_Properties
begin

text \<open>
  For whom an intent runs. The kernel takes the tenant of an execution from the runtime's context, a single
  mutable field that every loop controller over the runtime sets and no request of the REST interface sets. What
  the kernel does depends on that field through the tenant's identifier alone.
\<close>

section \<open>What the kernel reads of the tenant context\<close>

definition with_context :: "TenantContext \<Rightarrow> 'w runtime \<Rightarrow> 'w runtime" where
  "with_context c rt = rt\<lparr>rt_tenant_context := Some c\<rparr>"

lemma with_context_fields [simp]:
  "rt_tenant_context (with_context c rt) = Some c" "rt_isolation (with_context c rt) = rt_isolation rt"
  "rt_quota_manager (with_context c rt) = rt_quota_manager rt" "rt_world (with_context c rt) = rt_world rt"
  "rt_state (with_context c rt) = rt_state rt" "core (with_context c rt) = with_context c (core rt)"
  by (simp_all add: with_context_def core_def)

lemma context_phases:
  "runtime_incr k (with_context c rt) = with_context c (runtime_incr k rt)"
  "runtime_log lv msg ex (with_context c rt) = with_context c (runtime_log lv msg ex rt)"
  by (simp_all add: with_context_def runtime_incr_def runtime_log_def split: option.splits)

lemma context_gates:
  assumes "rt_tenant_context rt = Some c" "tc_tenant_id c' = tc_tenant_id c"
  shows "isolation_gate env (with_context c' rt) = map_prod id (with_context c') (isolation_gate env rt)"
    and "quota_gate env (with_context c' rt) = map_prod id (with_context c') (quota_gate env rt)"
    and "release_quota env q (with_context c' rt) = with_context c' (release_quota env q rt)"
    and "shutdown_gate env q (with_context c' rt) = map_prod id (with_context c') (shutdown_gate env q rt)"
proof -
  show "isolation_gate env (with_context c' rt) = map_prod id (with_context c') (isolation_gate env rt)"
    using assms by (simp add: isolation_gate_def split: option.splits sum.splits) (simp add: with_context_def)
  have t: "quota_tenant (with_context c' rt) = quota_tenant rt" using assms by (simp add: quota_tenant_def)
  show "quota_gate env (with_context c' rt) = map_prod id (with_context c') (quota_gate env rt)"
    by (simp add: quota_gate_def t Let_def context_phases split: option.splits prod.splits sum.splits)
      (simp add: with_context_def runtime_incr_def split: option.splits)
  show r: "release_quota env q (with_context c' rt) = with_context c' (release_quota env q rt)"
    by (simp add: release_quota_def t split: option.splits) (simp add: with_context_def)
  show "shutdown_gate env q (with_context c' rt) = map_prod id (with_context c') (shutdown_gate env q rt)"
    by (simp add: shutdown_gate_def r context_phases split: RuntimeState.splits)
qed

lemma context_admit:
  assumes "rt_tenant_context rt = Some c" "tc_tenant_id c' = tc_tenant_id c"
  shows "admit env (with_context c' rt) = map_prod id (with_context c') (admit env rt)"
proof -
  obtain o1 rt1 where g1: "isolation_gate env rt = (o1, rt1)" by fastforce
  obtain o2 rt2 where g2: "quota_gate env rt1 = (o2, rt2)" by fastforce
  have ctx: "rt_tenant_context rt1 = Some c" "rt_tenant_context rt2 = Some c"
    using isolation_gate_frame(1) [OF g1] quota_gate_frame(1) [OF g2] assms(1) by (simp_all add: same_setup_def)
  show ?thesis
    using g1 g2 context_gates(1) [OF assms, of env] context_gates(2) [OF ctx(1) assms(2), of env]
      context_gates(4) [OF ctx(2) assms(2), of env]
    by (simp add: admit_def seq_def go_def split: outcome.splits prod.splits)
qed

lemma context_chain:
  assumes "tc_tenant_id c' = tc_tenant_id c"
  shows "chain abi env intent (Some c') = chain abi env intent (Some c)"
proof -
  have "checkpoint_state env intent (Some c') tr = checkpoint_state env intent (Some c) tr" for tr
    using assms by (simp add: checkpoint_state_def)
  then have "chain_persist abi env intent (Some c') tr = chain_persist abi env intent (Some c) tr" for tr
    by (simp add: chain_persist_def fun_eq_iff)
  then show ?thesis
    by (simp add: chain_def chain_capability_def chain_route_def chain_access_def fun_eq_iff split: prod.splits sum.splits)
qed

text \<open>
  Property C22. What an execution does depends on the tenant context through the tenant's identifier alone: with any
  other agent, capability set or limits in the context the result, the collaborators, the slots and the
  quotas are the same. The capabilities a context allows restrict nothing.
\<close>

theorem context_matters_by_tenant_only:
  assumes "rt_tenant_context rt = Some c" "tc_tenant_id c' = tc_tenant_id c"
    and "execute_intent abi env intent rt = (r, rt1)"
    and "execute_intent abi env intent (rt\<lparr>rt_tenant_context := Some c'\<rparr>) = (r', rt1')"
  shows "r' = r \<and> rt_world rt1' = rt_world rt1 \<and> rt_isolation rt1' = rt_isolation rt1 \<and>
         rt_quota_manager rt1' = rt_quota_manager rt1"
proof -
  note ad = context_admit [OF assms(1,2), of env]
  note ex' = assms(4) [folded with_context_def]
  from assms(3) show ?thesis
  proof (cases rule: execute_intent_cases)
    case (raised e)
    from ex' show ?thesis by (cases rule: execute_intent_cases) (use ad raised in auto)
  next
    case (refused res)
    from ex' show ?thesis by (cases rule: execute_intent_cases) (use ad refused in auto)
  next
    case (admitted q rt2 rw)
    note a = admitted
    from ex' show ?thesis
    proof (cases rule: execute_intent_cases)
      case (admitted q' rt2' rw')
      have eq: "q' = q" "rt2' = with_context c' rt2" using ad a(1) admitted(1) by auto
      have rw: "rw' = rw" using a(2) admitted(2) assms(1) context_chain [OF assms(2), of abi env intent] by simp
      have ctx: "rt_tenant_context rt2 = Some c"
        using admit_frame [OF a(1)] assms(1) by (simp add: same_setup_def)
      have "settled (Some c') rw (with_context c' rt2) = with_context c' (settled (Some c) rw rt2)"
        using assms(2) by (simp add: settled_def isolation_end_def with_context_def split: option.splits)
      moreover have "rt_tenant_context (settled (Some c) rw rt2) = Some c"
        using ctx by (simp add: settled_def isolation_end_def split: option.splits)
      note context_gates(3) [OF this assms(2), of env q]
      ultimately have "core rt1' = with_context c' (core (release_quota env q (settled (Some c) rw rt2)))"
        using admitted(4) eq rw by simp
      then have "core rt1' = with_context c' (core rt1)" using a(4) assms(1) by simp
      then have "core rt1' = core (with_context c' rt1)" by simp
      from core_fields [OF this] show ?thesis using a(3) admitted(3) rw by simp
    qed (use ad a in auto)
  qed
qed

theorem context_matters_by_tenant_only_witness:
  "let c' = sample_context\<lparr>tc_agent_id := ''other'', tc_allowed_capabilities := {''nothing''}\<rparr>;
       rt = sample_runtime\<lparr>rt_tenant_context := Some c'\<rparr>
   in \<not> has_capability c' ''read'' \<and>
     (\<exists>res rt'. execute_intent sample_abi sample_env (sample_intent ''read'') rt = (Inr res, rt') \<and> er_success res)"
proof -
  let ?c' = "sample_context\<lparr>tc_agent_id := ''other'', tc_allowed_capabilities := {''nothing''}\<rparr>"
  obtain res rt1 where ex: "execute_intent sample_abi sample_env (sample_intent ''read'') sample_runtime = (Inr res, rt1)" "er_success res"
    using sample_succeeds by blast
  obtain r' rt1' where ex': "execute_intent sample_abi sample_env (sample_intent ''read'')
      (sample_runtime\<lparr>rt_tenant_context := Some ?c'\<rparr>) = (r', rt1')" by fastforce
  have "rt_tenant_context sample_runtime = Some sample_context" by (simp add: sample_runtime_def)
  from context_matters_by_tenant_only [OF this _ ex(1) ex'] have "r' = Inr res" by simp
  then show ?thesis using ex' ex(2) by (simp add: Let_def has_capability_def)
qed

section \<open>Requests of the REST interface\<close>

definition request_intent :: "ApiEnv \<Rightarrow> IntentRequest \<Rightarrow> Intent" where
  "request_intent env req =
     \<lparr>in_agent_id = iq_agent_id req, in_action = iq_action req, in_parameters = iq_parameters req, in_timestamp = ae_intent_now env\<rparr>"

text \<open>
  Property C20. The tenant of a request never reaches the kernel: whoever submits an intent with a valid key, and whatever tenant and
  agent the query parameters name, the reply is the same and so is the runtime afterwards. The kernel gets the intent
  of the body, with the body's agent, and the runtime as it is: a success is saved under the tenant of the
  runtime's own context.
\<close>

theorem api_tenant_never_reaches_kernel:
  assumes "authenticate sha256 key1 (app_auth_provider app) = Some auth1" "authenticate sha256 key2 (app_auth_provider app) = Some auth2"
    and "submit_intent sha256 abi env key1 x_tenant1 x_agent1 req app = (r1, app1)"
    and "submit_intent sha256 abi env key2 x_tenant2 x_agent2 req app = (r2, app2)"
  shows "r1 = r2 \<and> app_runtime app1 = app_runtime app2 \<and>
    app_runtime app1 = snd (execute_intent abi (ae_exec env) (request_intent env req) (app_runtime app)) \<and>
    (\<forall>st s. r1 = Reply st s \<longrightarrow> rs_success s \<longrightarrow>
       (\<exists>tr w cid. rs_checkpoint_id s = Some cid \<and>
          persist_save abi (xe_uuid (ae_exec env))
            (checkpoint_state (ae_exec env) (request_intent env req) (rt_tenant_context (app_runtime app)) tr) w =
          (Inr cid, rt_world (app_runtime app1))))"
proof -
  let ?run = "execute_intent abi (ae_exec env) (request_intent env req) (app_runtime app)"
  have same: "r1 = r2 \<and> app_runtime app1 = app_runtime app2 \<and> app_runtime app1 = snd ?run"
    using assms
    by (auto simp: submit_intent_def with_auth_def get_auth_context_def request_intent_def Let_def split: prod.splits sum.splits)
  have "\<exists>result. fst ?run = Inr result \<and> er_success result \<and> er_checkpoint_id result = rs_checkpoint_id s"
    if "r1 = Reply st s" "rs_success s" for st s
    using assms(1,3) that
    by (auto simp: submit_intent_def with_auth_def get_auth_context_def request_intent_def general_exception_handler_def Let_def
        split: prod.splits sum.splits)
  note success = this
  have "\<exists>tr w cid. rs_checkpoint_id s = Some cid \<and>
      persist_save abi (xe_uuid (ae_exec env))
        (checkpoint_state (ae_exec env) (request_intent env req) (rt_tenant_context (app_runtime app)) tr) w =
      (Inr cid, rt_world (app_runtime app1))" if r: "r1 = Reply st s" "rs_success s" for st s
  proof -
    obtain result where res: "fst ?run = Inr result" "er_success result" "er_checkpoint_id result = rs_checkpoint_id s"
      using success [OF r] by blast
    have "?run = (Inr result, app_runtime app1)" using res(1) same by (metis prod.collapse)
    from success_calls [OF this res(2)] obtain tr w cid where
        "persist_save abi (xe_uuid (ae_exec env))
           (checkpoint_state (ae_exec env) (request_intent env req) (rt_tenant_context (app_runtime app)) tr) w =
         (Inr cid, rt_world (app_runtime app1))" "er_checkpoint_id result = Some cid"
      by (elim exE conjE) simp
    then show ?thesis using res(3) by auto
  qed
  with same show ?thesis by blast
qed

theorem api_tenant_never_reaches_kernel_witness:
  "fst (submit_intent rev sample_abi sample_api_env ''key-a'' [] [] sample_request sample_app) =
     fst (submit_intent rev sample_abi sample_api_env ''key-b'' ''B'' ''b'' sample_request sample_app) \<and>
   app_runtime (snd (submit_intent rev sample_abi sample_api_env ''key-a'' [] [] sample_request sample_app)) =
     app_runtime (snd (submit_intent rev sample_abi sample_api_env ''key-b'' ''B'' ''b'' sample_request sample_app))"
  using api_tenant_never_reaches_kernel [OF sample_keys(1,2) surjective_pairing surjective_pairing, where abi = sample_abi and
      env = sample_api_env and req = sample_request and ?x_tenant1.0 = "[]" and ?x_agent1.0 = "[]" and ?x_tenant2.0 = "''B''" and
      ?x_agent2.0 = "''b''"] by blast

section \<open>Several loop controllers over one runtime\<close>

text \<open>Each controller keeps its own budget, history and log; the runtime it refers to is shared.\<close>

record 'w site =
  si_runtime :: "'w runtime"
  si_loops :: "'w loop list"

definition attached :: "nat \<Rightarrow> 'w site \<Rightarrow> 'w loop" where
  "attached i s = (si_loops s ! i)\<lparr>lc_runtime := si_runtime s\<rparr>"

definition detached :: "nat \<Rightarrow> 'w loop \<Rightarrow> 'w site \<Rightarrow> 'w site" where
  "detached i lc s = s\<lparr>si_runtime := lc_runtime lc, si_loops := (si_loops s)[i := lc]\<rparr>"

datatype site_op =
    OpenLoop ExecutionBudget "TenantContext option" "RuntimeLogger option" "MetricsRegistry option"
  | SetContext nat TenantContext
  | RunIntent nat LoopEnv Intent "string option"
  | ShutDown nat rat

definition site_apply :: "'w abi \<Rightarrow> site_op \<Rightarrow> 'w site \<Rightarrow> 'w site" where
  "site_apply abi op s =
     (case op of
        OpenLoop budget ctx logger metrics \<Rightarrow>
          (case LoopController_init (si_runtime s) budget ctx logger metrics of
             Inl e \<Rightarrow> s
           | Inr lc \<Rightarrow> s\<lparr>si_runtime := lc_runtime lc, si_loops := si_loops s @ [lc]\<rparr>)
      | SetContext i c \<Rightarrow>
          (if i < length (si_loops s)
           then (case LoopController_set_tenant_context c (attached i s) of Inl e \<Rightarrow> s | Inr lc \<Rightarrow> detached i lc s)
           else s)
      | RunIntent i env intent eid \<Rightarrow>
          (if i < length (si_loops s) then detached i (snd (run_intent abi env intent eid (attached i s))) s else s)
      | ShutDown i timeout \<Rightarrow>
          (if i < length (si_loops s) then detached i (shutdown timeout (attached i s)) s else s))"

definition site_run :: "'w abi \<Rightarrow> site_op list \<Rightarrow> 'w site \<Rightarrow> 'w site" where
  "site_run abi ops s = fold (site_apply abi) ops s"

text \<open>The context that an operation asks for.\<close>

fun requested :: "site_op \<Rightarrow> TenantContext option" where
  "requested (OpenLoop budget ctx logger metrics) = ctx"
| "requested (SetContext i c) = Some c"
| "requested op = None"

lemma execute_context: "execute_intent abi env intent rt = (r, rt') \<Longrightarrow> rt_tenant_context rt' = rt_tenant_context rt"
proof (cases rule: execute_intent_cases, assumption)
  fix q rt1 rw
  assume a: "admit env rt = (Continue q, rt1)" "core rt' = core (release_quota env q (settled (rt_tenant_context rt) rw rt1))"
  show "rt_tenant_context rt' = rt_tenant_context rt"
    using core_fields(5) [OF a(2)] admit_frame [OF a(1)]
    by (simp add: same_setup_def release_quota_def settled_def isolation_end_def split: option.splits if_splits)
qed (auto dest!: admit_frame simp: same_setup_def)

lemma run_intent_context: "rt_tenant_context (lc_runtime (snd (run_intent abi env intent eid lc))) = rt_tenant_context (lc_runtime lc)"
proof -
  obtain res el lc' where r: "run_intent abi env intent eid lc = ((res, el), lc')" by (metis surj_pair)
  then have "rt_tenant_context (lc_runtime lc') = rt_tenant_context (lc_runtime lc)"
    by (cases rule: run_intent_cases) (auto dest: execute_context)
  then show ?thesis by (simp add: r)
qed

lemma requested_context:
  assumes "requested op = Some c" "set_tenant_context c (si_runtime s) = Inr rt" "\<And>i. op = SetContext i c \<Longrightarrow> i < length (si_loops s)"
  shows "rt_tenant_context (si_runtime (site_apply abi op s)) = Some c"
proof -
  have "rt_tenant_context rt = Some c"
    using assms(2) by (auto simp: set_tenant_context_def split: if_splits option.splits sum.splits)
  then show ?thesis
    using assms by (cases op)
      (auto simp: site_apply_def LoopController_init_def LoopController_set_tenant_context_def detached_def attached_def)
qed

text \<open>The context that an operation brings in: asked for, and not refused.\<close>

definition accepted :: "site_op \<Rightarrow> 'w site \<Rightarrow> TenantContext option" where
  "accepted op s =
     (case requested op of
        None \<Rightarrow> None
      | Some c \<Rightarrow>
          if (case op of SetContext i c \<Rightarrow> i < length (si_loops s) | _ \<Rightarrow> True) \<and> \<not> isl (set_tenant_context c (si_runtime s))
          then Some c else None)"

primrec last_accepted :: "'w abi \<Rightarrow> site_op list \<Rightarrow> 'w site \<Rightarrow> TenantContext option" where
  "last_accepted abi [] s = None"
| "last_accepted abi (op # ops) s =
     (case last_accepted abi ops (site_apply abi op s) of None \<Rightarrow> accepted op s | Some c \<Rightarrow> Some c)"

lemma accepted_context: "accepted op s = Some c \<Longrightarrow> rt_tenant_context (si_runtime (site_apply abi op s)) = Some c"
proof -
  assume a: "accepted op s = Some c"
  then have "requested op = Some c" by (auto simp: accepted_def split: option.splits if_splits)
  moreover obtain rt where "set_tenant_context c (si_runtime s) = Inr rt"
    using a by (cases "set_tenant_context c (si_runtime s)") (auto simp: accepted_def split: option.splits if_splits)
  moreover have "i < length (si_loops s)" if "op = SetContext i c" for i
    using a that by (auto simp: accepted_def split: if_splits)
  ultimately show ?thesis by (rule requested_context)
qed

lemma refused_context:
  "accepted op s = None \<Longrightarrow> rt_tenant_context (si_runtime (site_apply abi op s)) = rt_tenant_context (si_runtime s)"
  by (cases op)
    (auto simp: accepted_def site_apply_def LoopController_init_def LoopController_set_tenant_context_def detached_def attached_def
      run_intent_context shutdown_def split: option.splits sum.splits if_splits)

lemma last_accepted_context:
  "last_accepted abi ops s = None \<Longrightarrow> rt_tenant_context (si_runtime (site_run abi ops s)) = rt_tenant_context (si_runtime s)"
  "last_accepted abi ops s = Some c \<Longrightarrow> rt_tenant_context (si_runtime (site_run abi ops s)) = Some c"
  by (induction ops arbitrary: s)
    (auto simp: site_run_def accepted_context refused_context split: option.splits)

lemma checkpoint_tenant:
  "dict_get (checkpoint_state env intent (Some c) tr) ''tenant_id'' = Some (PyStr (tc_tenant_id c))"
  by (simp add: checkpoint_state_def dict_get_def)

text \<open>
  Property C21. A loop controller does not keep its tenant: after any operations of the controllers over a runtime, a
  successful run of any of them is for the tenant of the context that was accepted last, by whichever controller, and
  contexts refused in between or since change nothing. Its checkpoint carries that tenant's identifier.
\<close>

theorem loops_share_last_context:
  assumes "last_accepted abi ops s = Some c"
    and "run_intent abi env intent eid (attached k (site_run abi ops s)) = ((res, el), lc)" "lp_success res"
  shows "\<exists>result tr w cid. lp_history res = [result] \<and> er_checkpoint_id result = Some cid \<and>
    persist_save abi (xe_uuid (le_exec env)) (checkpoint_state (le_exec env) intent (Some c) tr) w =
      (Inr cid, rt_world (lc_runtime lc)) \<and>
    dict_get (checkpoint_state (le_exec env) intent (Some c) tr) ''tenant_id'' = Some (PyStr (tc_tenant_id c))"
proof -
  have ctx: "rt_tenant_context (lc_runtime (attached k (site_run abi ops s))) = Some c"
    using last_accepted_context(2) [OF assms(1)] by (simp add: attached_def)
  from assms(2) show ?thesis
  proof (cases rule: run_intent_cases)
    case (ran result rt')
    then have "er_success result" using assms(3) by simp
    from success_calls [OF ran(2) this] ctx obtain tr w cid where
      c: "persist_save abi (xe_uuid (le_exec env)) (checkpoint_state (le_exec env) intent (Some c) tr) w = (Inr cid, rt_world rt')"
        "er_checkpoint_id result = Some cid" by auto
    then show ?thesis using ran(6,12) by (auto simp: checkpoint_tenant)
  qed (use assms(3) in auto)
qed

definition other_context :: TenantContext where
  "other_context = sample_context\<lparr>tc_tenant_id := ''t2'', tc_agent_id := ''a2''\<rparr>"

definition nobody :: TenantContext where
  "nobody = sample_context\<lparr>tc_tenant_id := []\<rparr>"

definition empty_site :: "string list site" where
  "empty_site = \<lparr>si_runtime = runtime_init [] None None (Some MetricsRegistry_init) True None, si_loops = []\<rparr>"

abbreviation open_for :: "TenantContext \<Rightarrow> site_op" where
  "open_for c \<equiv> OpenLoop sample_budget (Some c) None None"

theorem loops_share_last_context_witness:
  "let s = site_run sample_abi [open_for sample_context, open_for other_context, open_for nobody] empty_site;
       res = fst (fst (run_intent sample_abi (sample_loop_env 1) (sample_intent ''read'') None (attached 0 s)))
   in lp_success res \<and> (\<exists>result tr w w' cid. lp_history res = [result] \<and> er_checkpoint_id result = Some cid \<and>
        persist_save sample_abi ''e1'' (checkpoint_state sample_env (sample_intent ''read'') (Some other_context) tr) w = (Inr cid, w') \<and>
        dict_get (checkpoint_state sample_env (sample_intent ''read'') (Some other_context) tr) ''tenant_id'' = Some (PyStr ''t2''))"
proof -
  let ?ops = "[open_for sample_context, open_for other_context, open_for nobody]"
  let ?s = "site_run sample_abi ?ops empty_site"
  obtain res el lc where run: "run_intent sample_abi (sample_loop_env 1) (sample_intent ''read'') None (attached 0 ?s) = ((res, el), lc)"
    by (metis surj_pair)
  define lc0 where "lc0 = attached 0 ?s"
  have lc0: "lc_state lc0 = RS_RUNNING" "lc_budget lc0 = sample_budget" "rt_isolation (lc_runtime lc0) = None"
      "rt_quota_manager (lc_runtime lc0) = None" "rt_state (lc_runtime lc0) = RS_RUNNING" "rt_world (lc_runtime lc0) = []"
    by (simp_all add: lc0_def attached_def site_run_def site_apply_def LoopController_init_def LoopController_set_tenant_context_def
        set_tenant_context_def TenantContext_is_valid_iff other_context_def nobody_def empty_site_def sample_defs)
  then have ad: "admit sample_env (lc_runtime lc0) = (Continue False, lc_runtime lc0)"
    by (simp add: admit_def seq_def go_def isolation_gate_def quota_gate_def shutdown_gate_def Let_def)
  obtain result w where ch: "chain sample_abi sample_env (sample_intent ''read'') (rt_tenant_context (lc_runtime lc0)) (rt_world (lc_runtime lc0)) = (result, w)"
    by fastforce
  then have "er_success result" by (auto simp: chain_defs sample_abi_def sample_intent_def)
  moreover obtain rt1 where "execute_intent sample_abi sample_env (sample_intent ''read'') (lc_runtime lc0) = (Inr result, rt1)"
    using execute_by_chain [OF ad ch] by blast
  ultimately have "lp_success (fst (fst (run_intent sample_abi (sample_loop_env 1) (sample_intent ''read'') None lc0)))"
    by (intro run_intent_succeeds [where result = result and rt = rt1, OF lc0(1) _ _ refl])
      (simp_all add: lc0(2) sample_loop_env_def sample_budget_def default_ExecutionBudget_def budget_start_def is_exhausted_def is_timeout_def is_steps_exhausted_def is_tokens_exhausted_def)
  then have ok: "lp_success res" unfolding lc0_def run by simp
  have acc: "last_accepted sample_abi ?ops empty_site = Some other_context"
    by (simp add: accepted_def site_apply_def LoopController_init_def LoopController_set_tenant_context_def set_tenant_context_def
        TenantContext_is_valid_iff other_context_def nobody_def empty_site_def sample_defs)
  have env: "le_exec (sample_loop_env 1) = sample_env" "tc_tenant_id other_context = ''t2''" "xe_uuid sample_env = ''e1''"
    by (simp_all add: sample_loop_env_def other_context_def sample_env_def)
  have "\<exists>result tr w cid. lp_history res = [result] \<and> er_checkpoint_id result = Some cid \<and>
      persist_save sample_abi ''e1'' (checkpoint_state sample_env (sample_intent ''read'') (Some other_context) tr) w =
        (Inr cid, rt_world (lc_runtime lc)) \<and>
      dict_get (checkpoint_state sample_env (sample_intent ''read'') (Some other_context) tr) ''tenant_id'' = Some (PyStr ''t2'')"
    using loops_share_last_context [OF acc run ok] unfolding env by simp
  then show ?thesis using ok run by (simp add: Let_def) blast
qed

end
