(* ===== verification/Contracts.thy ===== *)
theory Contracts
  imports Marketplace_Files
begin

text \<open>
  The data contracts that no operation of the repository builds or reads yet: messages and requests of models,
  agent states, health and usage records, and the enumerations and limits of the marketplace. Records carry
  the fields in the source's order; a constructor takes the fields without a default and gives the others theirs.
\<close>

section \<open>Models and agents\<close>

datatype Role = System_Role | User_Role | Assistant_Role | Tool_Role

primrec Role_value :: "Role \<Rightarrow> string" where
  "Role_value System_Role = ''system''"
| "Role_value User_Role = ''user''"
| "Role_value Assistant_Role = ''assistant''"
| "Role_value Tool_Role = ''tool''"

record Message =
  ms_role :: Role
  ms_content :: string
  ms_tool_calls :: "pyobj list"
  ms_tool_call_id :: "string option"

definition new_Message :: "Role \<Rightarrow> string \<Rightarrow> Message" where
  "new_Message role content = \<lparr>ms_role = role, ms_content = content, ms_tool_calls = [], ms_tool_call_id = None\<rparr>"

record ModelRequest =
  mq_model :: string
  mq_messages :: "Message list"
  mq_temperature :: rat
  mq_max_tokens :: int
  mq_tools :: "pyobj list"
  mq_stream :: bool

definition new_ModelRequest :: "string \<Rightarrow> Message list \<Rightarrow> ModelRequest" where
  "new_ModelRequest model messages =
     \<lparr>mq_model = model, mq_messages = messages, mq_temperature = 7 / 10, mq_max_tokens = 4096, mq_tools = [], mq_stream = False\<rparr>"

record ModelResponse =
  mp_content :: string
  mp_model :: string
  mp_usage :: "(string, int) dict option"

record ModelChunk =
  mk_content :: string
  mk_done :: bool

record ModelHealth =
  mh_healthy :: bool
  mh_model :: string
  mh_latency_ms :: rat
  mh_error :: "string option"

record AgentState =
  as_execution_id :: string
  as_agent_id :: string
  as_current_node :: string
  as_step_number :: int
  as_data :: pyobj
  as_tool_results :: "pyobj list"
  as_memory_refs :: "string list"

definition new_AgentState :: "string \<Rightarrow> string \<Rightarrow> AgentState" where
  "new_AgentState execution_id agent_id =
     \<lparr>as_execution_id = execution_id, as_agent_id = agent_id, as_current_node = [], as_step_number = 0, as_data = [],
      as_tool_results = [], as_memory_refs = []\<rparr>"

record AdapterHealth =
  ah_healthy :: bool
  ah_provider :: string
  ah_model :: string
  ah_details :: pyobj

record MCPServerMetadata =
  mx_server_id :: string
  mx_name :: string
  mx_version :: string
  mx_transport :: string
  mx_capabilities :: pyobj

definition new_MCPServerMetadata :: "string \<Rightarrow> string \<Rightarrow> MCPServerMetadata" where
  "new_MCPServerMetadata server_id name =
     \<lparr>mx_server_id = server_id, mx_name = name, mx_version = ''1.0'', mx_transport = ''stdio'', mx_capabilities = []\<rparr>"

record PolicyConfig =
  pg_cache_ttl_seconds :: int
  pg_cache_max_entries :: int
  pg_feature_flags :: "string set"

definition default_PolicyConfig :: PolicyConfig where
  "default_PolicyConfig =
     \<lparr>pg_cache_ttl_seconds = 300, pg_cache_max_entries = 10000,
      pg_feature_flags = {''policy.cache'', ''policy.capability_validation'', ''observability.audit''}\<rparr>"

section \<open>Costs and usage\<close>

text \<open>An omitted dictionary is the default None, which \<^verbatim>\<open>__post_init__\<close> replaces by an empty one.\<close>

record Cost =
  co_amount :: rat
  co_currency :: string
  co_details :: "pyobj option"

definition Cost_post_init :: "Cost \<Rightarrow> Cost" where
  "Cost_post_init c = (if co_details c = None then c\<lparr>co_details := Some []\<rparr> else c)"

definition default_Cost :: Cost where
  "default_Cost = Cost_post_init \<lparr>co_amount = 0, co_currency = ''USD'', co_details = None\<rparr>"

record GatewayUsage =
  gu_capability :: string
  gu_adapter_id :: string
  gu_timestamp :: string
  gu_input_units :: int
  gu_output_units :: int
  gu_cost :: "rat option"
  gu_provider_id :: string
  gu_tenant_id :: string
  gu_trace_id :: string
  gu_request_id :: string
  gu_metadata :: "pyobj option"

definition UsageRecord_post_init :: "GatewayUsage \<Rightarrow> GatewayUsage" where
  "UsageRecord_post_init u = (if gu_metadata u = None then u\<lparr>gu_metadata := Some []\<rparr> else u)"

definition new_UsageRecord :: "string \<Rightarrow> string \<Rightarrow> string \<Rightarrow> pyobj option \<Rightarrow> GatewayUsage" where
  "new_UsageRecord capability adapter_id timestamp metadata =
     UsageRecord_post_init
       \<lparr>gu_capability = capability, gu_adapter_id = adapter_id, gu_timestamp = timestamp, gu_input_units = 0, gu_output_units = 0,
        gu_cost = None, gu_provider_id = [], gu_tenant_id = [], gu_trace_id = [], gu_request_id = [], gu_metadata = metadata\<rparr>"

text \<open>The module of the responses has a second \<^verbatim>\<open>UsageRecord\<close>, whose default is the empty dictionary itself.\<close>

definition response_UsageRecord :: "string \<Rightarrow> string \<Rightarrow> string \<Rightarrow> GatewayUsage" where
  "response_UsageRecord capability adapter_id timestamp =
     \<lparr>gu_capability = capability, gu_adapter_id = adapter_id, gu_timestamp = timestamp, gu_input_units = 0, gu_output_units = 0,
      gu_cost = None, gu_provider_id = [], gu_tenant_id = [], gu_trace_id = [], gu_request_id = [], gu_metadata = Some []\<rparr>"

record GatewayResponse =
  gp_success :: bool
  gp_result :: "pyobj option"
  gp_error :: "string option"
  gp_usage :: "GatewayUsage option"
  gp_trace :: pyobj
  gp_timestamp :: string

definition new_GatewayResponse :: "bool \<Rightarrow> string \<Rightarrow> GatewayResponse" where
  "new_GatewayResponse success now =
     \<lparr>gp_success = success, gp_result = None, gp_error = None, gp_usage = None, gp_trace = [], gp_timestamp = now\<rparr>"

section \<open>The marketplace\<close>

datatype DomainAuditAction =
  DA_SUBMITTED | DA_APPROVED | DA_REJECTED | DA_CHANGES_REQUESTED | DA_PUBLISHED | DA_DEPRECATED | DA_REMOVED
| DA_VERSION_ADDED | DA_VERSION_REMOVED | DA_STATUS_CHANGED | DA_METADATA_UPDATED

primrec DomainAuditAction_value :: "DomainAuditAction \<Rightarrow> string" where
  "DomainAuditAction_value DA_SUBMITTED = ''SUBMITTED''"
| "DomainAuditAction_value DA_APPROVED = ''APPROVED''"
| "DomainAuditAction_value DA_REJECTED = ''REJECTED''"
| "DomainAuditAction_value DA_CHANGES_REQUESTED = ''CHANGES_REQUESTED''"
| "DomainAuditAction_value DA_PUBLISHED = ''PUBLISHED''"
| "DomainAuditAction_value DA_DEPRECATED = ''DEPRECATED''"
| "DomainAuditAction_value DA_REMOVED = ''REMOVED''"
| "DomainAuditAction_value DA_VERSION_ADDED = ''VERSION_ADDED''"
| "DomainAuditAction_value DA_VERSION_REMOVED = ''VERSION_REMOVED''"
| "DomainAuditAction_value DA_STATUS_CHANGED = ''STATUS_CHANGED''"
| "DomainAuditAction_value DA_METADATA_UPDATED = ''METADATA_UPDATED''"

record DomainAuditEntry =
  da_entry_id :: string
  da_listing_id :: string
  da_action :: DomainAuditAction
  da_actor_id :: string
  da_actor_role :: string
  da_timestamp :: string
  da_changes :: "pyobj option"
  da_metadata :: "pyobj option"

datatype ReviewStatus = RV_PENDING | RV_IN_PROGRESS | RV_APPROVED | RV_REJECTED | RV_CHANGES_REQUESTED

primrec ReviewStatus_value :: "ReviewStatus \<Rightarrow> string" where
  "ReviewStatus_value RV_PENDING = ''PENDING''"
| "ReviewStatus_value RV_IN_PROGRESS = ''IN_PROGRESS''"
| "ReviewStatus_value RV_APPROVED = ''APPROVED''"
| "ReviewStatus_value RV_REJECTED = ''REJECTED''"
| "ReviewStatus_value RV_CHANGES_REQUESTED = ''CHANGES_REQUESTED''"

datatype ReviewDecision = RD_APPROVE | RD_REJECT | RD_REQUEST_CHANGES

primrec ReviewDecision_value :: "ReviewDecision \<Rightarrow> string" where
  "ReviewDecision_value RD_APPROVE = ''APPROVE''"
| "ReviewDecision_value RD_REJECT = ''REJECT''"
| "ReviewDecision_value RD_REQUEST_CHANGES = ''REQUEST_CHANGES''"

record DomainMarketplaceInvariants =
  dv_max_capabilities_per_extension :: int
  dv_max_capability_id_length :: int
  dv_required_manifest_fields :: "string list"
  dv_allowed_extension_types :: "string list"
  dv_max_artifact_size :: int
  dv_allowed_licenses :: "string list"
  dv_min_runtime_version :: string

definition DOMAIN_MARKETPLACE_INVARIANTS :: DomainMarketplaceInvariants where
  "DOMAIN_MARKETPLACE_INVARIANTS =
     \<lparr>dv_max_capabilities_per_extension = 50, dv_max_capability_id_length = 64,
      dv_required_manifest_fields = [''extension_id'', ''name'', ''version'', ''extension_type'', ''publisher_id''],
      dv_allowed_extension_types = [''agent'', ''tool'', ''model'', ''mcp''],
      dv_max_artifact_size = 100 * 1024 * 1024,
      dv_allowed_licenses = [''MIT'', ''Apache-2.0'', ''BSD-3-Clause'', ''GPL-3.0'', ''LGPL-3.0'', ''MPL-2.0''],
      dv_min_runtime_version = ''1.0''\<rparr>"

record TrustScore =
  ts_score :: rat
  ts_tier :: string
  ts_factors :: pyobj
  ts_calculated_at :: string

definition trust_weights :: "(string, rat) dict" where
  "trust_weights =
     [(''publisher_verification'', 3 / 10), (''extension_age'', 2 / 10), (''download_count'', 2 / 10),
      (''review_score'', 15 / 100), (''security_scan'', 15 / 100)]"

section \<open>Lemmas\<close>

lemma post_init_idempotent [simp]:
  "Cost_post_init (Cost_post_init c) = Cost_post_init c"
  "UsageRecord_post_init (UsageRecord_post_init u) = UsageRecord_post_init u"
  by (simp_all add: Cost_post_init_def UsageRecord_post_init_def)

text \<open>The two usage records agree on what is not given, and neither ever holds None for its metadata.\<close>

lemma usage_records_agree: "new_UsageRecord c a t None = response_UsageRecord c a t"
  by (simp add: new_UsageRecord_def UsageRecord_post_init_def response_UsageRecord_def)

lemma usage_metadata_present: "gu_metadata (new_UsageRecord c a t m) \<noteq> None"
  by (cases m) (simp_all add: new_UsageRecord_def UsageRecord_post_init_def)

lemma enum_values_distinct:
  "inj Role_value" "inj DomainAuditAction_value" "inj ReviewStatus_value" "inj ReviewDecision_value"
proof -
  show "inj Role_value" by (rule injI) (case_tac x; case_tac y; simp)
  show "inj DomainAuditAction_value" by (rule injI) (case_tac x; case_tac y; simp)
  show "inj ReviewStatus_value" by (rule injI) (case_tac x; case_tac y; simp)
  show "inj ReviewDecision_value" by (rule injI) (case_tac x; case_tac y; simp)
qed

text \<open>The two vocabularies of audit actions have no word in common.\<close>

lemma audit_vocabularies_disjoint: "DomainAuditAction_value a \<noteq> AuditAction_value b"
  by (cases a; cases b) simp_all

text \<open>A new review's status is a word of the enumeration, and no decision's word is one of its statuses.\<close>

lemma decision_is_no_status: "ReviewDecision_value d \<noteq> ReviewStatus_value s"
  by (cases d; cases s) simp_all

text \<open>The weights add up to one; the score of a publisher uses the first alone.\<close>

lemma trust_weights_sum: "sum_list (map snd trust_weights) = 1"
  by (simp add: trust_weights_def)

lemma score_publisher_weight:
  "score_publisher p = (if pu_status p = VERIFIED then the (dict_get trust_weights ''publisher_verification'') else 0)"
  by (simp add: score_publisher_def trust_weights_def dict_get_def)

text \<open>The limits that the manifest's validation applies are those of the domain's record.\<close>

lemma capability_limits_agree: "MAX_CAPABILITIES_PER_EXTENSION = nat (dv_max_capabilities_per_extension DOMAIN_MARKETPLACE_INVARIANTS)"
  by (simp add: MAX_CAPABILITIES_PER_EXTENSION_def DOMAIN_MARKETPLACE_INVARIANTS_def)

end
