(* ===== verification/Spec2Isabelle.thy ===== *)
theory Spec2Isabelle
  imports
    Runtime_Lifecycle Policy_Correctness Loop_Correctness Kernel_Properties Capability
    Stack Step_Runtime Memory_Store Agent_Registry Api_Properties Marketplace
    File_Checkpoint Plugin Architecture Capability_Catalog Redis_Events
    Mcp_Adapter Domain_Records Interface_Checks Coverage_Gate Log_Export Marketplace_Files
    Concurrent_Stack Tenancy Contracts
begin

text \<open>
  Verification of the Kitematic runtime, a runtime that executes the intents of AI agents under
  policy. This file holds the guide to the development; the theorems stand in the theories it imports.

  The program. An agent submits an intent, an action with parameters, to the kernel
  (\<^verbatim>\<open>kernel/runtime.py\<close>). The kernel passes it through the gates for shutdown, isolation and quotas and
  then through five phases, each one a call of a collaborator: policy evaluation, capability check,
  routing, tool access, checkpoint. The collaborators live in the control plane
  (\<^verbatim>\<open>control_plane/\<close>), the storage layer (\<^verbatim>\<open>infrastructure/\<close>) and the gateway (\<^verbatim>\<open>kernel/gateway.py\<close>); around
  the kernel stand a loop that runs several intents under a budget, a step executor with its planner
  and lifecycle manager, a REST interface, registries for agents, tools, plugins and extensions, and
  the script that checks the layering of the repository.

  Theories and sources.

  \<^item> Prelude, Errors: Python's dictionaries (association lists in insertion order), text, numbers and
    values of type \<^verbatim>\<open>Any\<close>; the exceptions and their messages.
  \<^item> Kernel_State, Tenant, Isolation, Observability, Budget, Quotas, Events, Tool_Registry: the kernel's
    parts of the same names under \<^verbatim>\<open>kernel/\<close> and \<^verbatim>\<open>api/rest/quotas.py\<close>, one record and one group of
    operations each, with the invariant every operation keeps.
  \<^item> Abi, Runtime: \<^verbatim>\<open>kernel/runtime.py\<close>. The four protocols the kernel calls are a record of operations
    over the collaborators' state \<open>'w\<close>; \<open>execute_intent\<close> is composed of the gates and phases in
    program order, with early returns and exceptions as outcomes.
  \<^item> Runtime_Correctness, Runtime_Properties, Runtime_Lifecycle: the abstract chain evaluate, check,
    route, access, persist, the refinement of the kernel to it and what follows: governance, slots,
    quotas, shutdown, metrics, traces, restore.
  \<^item> Interleaving, Concurrent_Runtime, Concurrent_Properties, Concurrent_Stack: executions of one runtime that run at the same
    time. \<open>execute_intent\<close> is split at its awaits into tasks that begin and are resumed or cancelled; a process is a
    runtime with its tasks, and a step begins, resumes or cancels one, is another operation of the runtime or changes
    the collaborators. A task run alone is \<open>execute_intent\<close>; in every interleaving both concurrency limits, the
    metrics and the governance of successful results hold, a draining runtime runs dry, and what a
    cancelled execution holds is lost. Concurrent_Stack runs the tasks over the repository's own collaborators.
  \<^item> Tenancy: for whom an intent runs. The kernel reads the tenant's identifier in the runtime's context and nothing
    else of it, requests of the REST interface do not set it, and loop controllers over one runtime share it.
  \<^item> Gateway, Capability, Policy, Policy_Correctness, Checkpoint, Orchestrator: the collaborators; Stack
    wires them into the kernel as the repository does and turns the kernel's theorems into
    statements about rules, audit entries and checkpoints.
  \<^item> Loop, Loop_Correctness: \<^verbatim>\<open>kernel/lifecycle.py\<close>. Step_Runtime: \<^verbatim>\<open>kernel/execution/\<close>, the step contracts and
    the adapter that plans and executes a step.
  \<^item> Json, Datetime, Files, File_Checkpoint: an executable reader and writer of JSON, ISO time stamps, a
    file system with crash states, and the checkpoint repository on files.
  \<^item> Api_Auth, Api, Api_Properties: \<^verbatim>\<open>api/\<close>, endpoints as functions of the application's state.
  \<^item> Agent_Registry, Memory_Store, Marketplace, Marketplace_Files, Plugin: registries of agents and
    templates (with shared dictionaries in a heap), agent memory, extensions and their governance and
    loading, plugins and the search for the project root.
  \<^item> Redis_Events: \<^verbatim>\<open>kernel/events/\<close> over Redis, the publisher on channels, the publisher on streams with
    consumer groups and replay, and the choice of the backend.
  \<^item> AI_Gateway, Mcp_Adapter: \<^verbatim>\<open>ai_gateway/\<close> and \<^verbatim>\<open>agents/tools/mcp/\<close>, the adapters of three model providers with
    their event streams, the local adapter, the adapter registry, and the adapter of MCP tools.
  \<^item> Capability_Catalog, Settings, Domain_Records: \<^verbatim>\<open>core/policies/capability_catalog.py\<close>, \<^verbatim>\<open>config/\<close> and the
    records of \<^verbatim>\<open>core/domain/\<close> with their checks, one of which rounds in double precision.
  \<^item> Contracts: the records and enumerations that nothing builds yet (\<^verbatim>\<open>core/contracts/\<close>, \<^verbatim>\<open>ai_gateway/domain/\<close>, the
    marketplace's domain), with their defaults.
  \<^item> Log_Export: the lines of the log, the dictionaries of traces and the OpenTelemetry providers of
    \<^verbatim>\<open>kernel/observability/\<close>.
  \<^item> Architecture, Interface_Checks, Coverage_Gate: \<^verbatim>\<open>scripts/verify_architecture.py\<close> with its depth-first
    search and its checks of classes, and \<^verbatim>\<open>scripts/check_coverage.py\<close>.
  \<^item> Kernel_Properties: properties of the kernel's smaller parts.

  What the lemmas show. Every component has lemmas for each operation and branch, an invariant with
  its preservation, and where a contract is shared a locale with interpretations on the model:
  \<open>finite_map\<close> and \<open>keyed_registry\<close> in Prelude, \<open>checkpoint_repository\<close> and \<open>checkpoint_store\<close> (both
  repositories), \<open>governed_collaborators\<close> (the assembled stack), \<open>id_repository\<close> (agents and templates),
  \<open>publisher_protocol\<close> (the three event publishers), \<open>sse_reader\<close> (the three event-stream readers).
  The named collections \<open>op_simps\<close> and \<open>wf_intros\<close> carry the routine steps. Theorems are the properties,
  numbered in the order of importance; a theorem with hypotheses is followed by a witness.

  Conventions. Time is a rational number of seconds and clock readings, identifiers (uuid) and random
  text are arguments, so that one execution is a function of what it reads. Awaits are modelled in
  program order, as if nothing ran in between, except in Interleaving and the theories over it, where other executions and
  operations run at every await of an execution; a call itself and the code up to the next await are one step, and
  the limits of the boundary and of the quota manager are set before executions begin, and its \<^verbatim>\<open>cleanup\<close>, which
  only tests call, is no step. A collaborator raises an \<^verbatim>\<open>Exception\<close>: other exceptions pass the kernel's handlers and
  are modelled only as the cancellation of a task (Concurrent_Runtime). A character is a byte; text outside Latin-1
  does not occur, and dashes and arrows in messages are written in ASCII. Floats are exact rationals, except in
  Domain_Records, where a difference of instants is rounded as the interpreter does; their decimal text
  is an argument. The order in which Python
  iterates a set is an argument. Deep copies are values; dictionaries that the code shares are cells
  of a heap (Agent_Registry).

  Parameters, with what is assumed of them where it is needed: sha256 (a hex digest of 64 characters, and
  injectivity where keys are compared), \<^verbatim>\<open>fnmatch\<close>, the order of versions (\<^verbatim>\<open>packaging\<close>), MCP clients, the
  HTTP client of the provider adapters, the Redis client, the OpenTelemetry package, the YAML reader, the
  collaborators of the kernel (arbitrary in the kernel's theorems).

  Bounds and fuel. Reading JSON takes one unit of fuel per character, and the text's length plus one is
  always enough (Json). The depth-first search is given the interpreter's recursion depth, and the number
  of modules is enough (Architecture). All other recursion is structural or has a measure.

  Not modelled: abstract classes and protocols without behaviour (the interfaces of the orchestrator, the
  lifecycle manager, the repositories, the gateways and the model providers); exception classes and constants
  that no operation uses; the listing transitions of the marketplace, whose module raises on import; web framework wiring, request validation and serialisation; spans and exported records
  of OpenTelemetry; the coercion of environment variables into settings; printing; symbolic links,
  permissions and name limits of the file system.
\<close>

end
